(* ===== verification/Prelude.thy ===== *)
theory Prelude
  imports Complex_Main "HOL-Library.AList"
begin

text \<open>
  Shared ground of the development: the collections that component proofs draw on, the
  type synonyms of the model (identifiers, instants of time, decimals), the result type of
  a Python call that may raise, and the generic facts on lists and association lists.

  Conventions of the whole development:
  \<^item> A Python \<^verbatim>\<open>Decimal\<close> or \<^verbatim>\<open>float\<close> is the rational number it denotes; the rounding of each
    arithmetic operation is written out (theory \<open>Decimals\<close>).
  \<^item> A \<^verbatim>\<open>uuid\<close> primary key is a natural number drawn from a counter of the database, a
    \<^verbatim>\<open>datetime\<close> is the number of microseconds since the epoch, and an Odoo identifier is an
    integer.
  \<^item> A raised exception is \<open>Inl\<close> of the error, a returned value is \<open>Inr\<close> of the value.
  \<^item> A Python \<^verbatim>\<open>dict\<close> whose order matters is an association list that is updated with
    \<open>AList.update\<close>, which keeps the position of a key that is present and appends a new key,
    exactly as a Python dict does.
\<close>

named_theorems dec_nonneg \<open>non-negativity of the decimal operations\<close>
named_theorems dec_mono \<open>monotonicity of the decimal operations\<close>
named_theorems cents_intros \<open>closure of two-place decimals\<close>
named_theorems frames \<open>fields and tables an operation leaves alone\<close>

type_synonym uuid = nat
type_synonym instant = int
type_synonym odoo_id = int
type_synonym dec = rat

section \<open>Truthiness and optional values\<close>

text \<open>Python's \<^verbatim>\<open>x or default\<close> on an optional number: both \<open>None\<close> and zero are falsy.\<close>

definition num_or :: "'a::zero option \<Rightarrow> 'a \<Rightarrow> 'a" where
  "num_or x d = (case x of None \<Rightarrow> d | Some v \<Rightarrow> if v = 0 then d else v)"

text \<open>Python's \<^verbatim>\<open>s or default\<close> on an optional string: the empty string is falsy.\<close>

definition str_or :: "string option \<Rightarrow> string \<Rightarrow> string" where
  "str_or x d = (case x of None \<Rightarrow> d | Some v \<Rightarrow> if v = [] then d else v)"

lemma num_or_simps [simp]:
  "num_or None d = d" "num_or (Some 0) d = d" "v \<noteq> 0 \<Longrightarrow> num_or (Some v) d = v"
  by (simp_all add: num_or_def)

section \<open>First match, first maximum, first minimum\<close>

text \<open>
  \<^verbatim>\<open>query.filter(p).first()\<close> and \<^verbatim>\<open>next(...)\<close> are \<open>find\<close>; \<^verbatim>\<open>max(xs, key=f)\<close> returns the first
  element with the greatest key.
\<close>

fun first_max :: "('a \<Rightarrow> 'k::linorder) \<Rightarrow> 'a \<Rightarrow> 'a list \<Rightarrow> 'a" where
  "first_max f best [] = best"
| "first_max f best (x # xs) = first_max f (if f best < f x then x else best) xs"

fun first_min :: "('a \<Rightarrow> 'k::linorder) \<Rightarrow> 'a \<Rightarrow> 'a list \<Rightarrow> 'a" where
  "first_min f best [] = best"
| "first_min f best (x # xs) = first_min f (if f x < f best then x else best) xs"

lemma first_max_in: "first_max f b xs \<in> insert b (set xs)"
proof (induction xs arbitrary: b)
  case (Cons x xs)
  show ?case using Cons.IH[of "if f b < f x then x else b"] by (auto split: if_splits)
qed simp

lemma first_max_ge: "x \<in> insert b (set xs) \<Longrightarrow> f x \<le> f (first_max f b xs)"
proof (induction xs arbitrary: b x)
  case (Cons y ys)
  have best: "f (if f b < f y then y else b) \<le> f (first_max f b (y # ys))"
    using Cons.IH[of "if f b < f y then y else b" "if f b < f y then y else b"] by simp
  show ?case
  proof (cases "x \<in> set ys")
    case True then show ?thesis using Cons.IH[of x] by simp
  next
    case False
    with Cons.prems have "x = b \<or> x = y" by auto
    then have "f x \<le> f (if f b < f y then y else b)" by auto
    with best show ?thesis by order
  qed
qed simp

lemma first_min_in: "first_min f b xs \<in> insert b (set xs)"
proof (induction xs arbitrary: b)
  case (Cons x xs)
  show ?case using Cons.IH[of "if f x < f b then x else b"] by (auto split: if_splits)
qed simp

lemma first_min_le: "x \<in> insert b (set xs) \<Longrightarrow> f (first_min f b xs) \<le> f x"
proof (induction xs arbitrary: b x)
  case (Cons y ys)
  have best: "f (first_min f b (y # ys)) \<le> f (if f y < f b then y else b)"
    using Cons.IH[of "if f y < f b then y else b" "if f y < f b then y else b"] by simp
  show ?case
  proof (cases "x \<in> set ys")
    case True then show ?thesis using Cons.IH[of x] by simp
  next
    case False
    with Cons.prems have "x = b \<or> x = y" by auto
    then have "f (if f y < f b then y else b) \<le> f x" by auto
    with best show ?thesis by order
  qed
qed simp

section \<open>Dictionaries\<close>

text \<open>The dict comprehension \<^verbatim>\<open>{key(x): x for x in xs}\<close>: a later element replaces an earlier one.\<close>

definition dict_of :: "('a \<Rightarrow> 'k) \<Rightarrow> 'a list \<Rightarrow> ('k \<times> 'a) list" where
  "dict_of key xs = foldl (\<lambda>d x. AList.update (key x) x d) [] xs"

lemma find_append_case:
  "find P (xs @ ys) = (case find P xs of None \<Rightarrow> find P ys | Some x \<Rightarrow> Some x)"
  by (induction xs) auto

lemma map_of_dict_foldl:
  "map_of (foldl (\<lambda>d x. AList.update (key x) x d) d0 xs) k =
     (case find (\<lambda>x. key x = k) (rev xs) of None \<Rightarrow> map_of d0 k | Some x \<Rightarrow> Some x)"
proof (induction xs arbitrary: d0)
  case (Cons x xs)
  show ?case
    by (cases "find (\<lambda>x. key x = k) (rev xs)") (auto simp: Cons.IH update_conv find_append_case)
qed simp

lemma map_of_dict_of: "map_of (dict_of key xs) k = find (\<lambda>x. key x = k) (rev xs)"
  by (simp add: dict_of_def map_of_dict_foldl split: option.splits)

lemma distinct_dict_of: "distinct (map fst (dict_of key xs))"
proof -
  have "distinct (map fst d) \<Longrightarrow> distinct (map fst (foldl (\<lambda>d x. AList.update (key x) x d) d xs))" for d
    by (induction xs arbitrary: d) (simp_all add: distinct_update)
  then show ?thesis by (simp add: dict_of_def)
qed

lemma in_set_update: "x \<in> set (AList.update k v d) \<Longrightarrow> x = (k, v) \<or> x \<in> set d"
  by (induction d) (auto split: if_splits)

lemma in_set_map_entry:
  "(k', v') \<in> set (AList.map_entry k f d) \<Longrightarrow> (k', v') \<in> set d \<or> k' = k \<and> (\<exists>v. (k, v) \<in> set d \<and> v' = f v)"
  by (induction d) (auto split: if_splits)

lemma keys_map_entry [simp]: "map fst (AList.map_entry k f d) = map fst d"
  by (induction d) auto

lemma map_of_map_entry_case:
  "map_of (AList.map_entry k f d) k' = (if k' = k then map_option f (map_of d k) else map_of d k')"
  by (induction d) auto

text \<open>A list held under a key of a dictionary; an absent key holds the empty list.\<close>

definition dict_list :: "'k \<Rightarrow> ('k \<times> 'a list) list \<Rightarrow> 'a list" where
  "dict_list k d = (case map_of d k of None \<Rightarrow> [] | Some xs \<Rightarrow> xs)"

lemma in_dict_list: "x \<in> set (dict_list k d) \<Longrightarrow> \<exists>xs. (k, xs) \<in> set d \<and> x \<in> set xs"
  by (cases "map_of d k") (auto simp: dict_list_def dest: map_of_SomeD)

section \<open>Numbers as text\<close>

text \<open>\<^verbatim>\<open>str(n)\<close> of a non-negative integer, and the reading of it.\<close>

definition digit_char :: "int \<Rightarrow> char" where
  "digit_char d = char_of (48 + nat d)"

function int_digits :: "int \<Rightarrow> string" where
  "int_digits n = (if n < 10 then [digit_char n] else int_digits (n div 10) @ [digit_char (n mod 10)])"
  by pat_completeness auto
termination by (relation "measure nat") auto

declare int_digits.simps [simp del]

definition digit_value :: "char \<Rightarrow> int" where
  "digit_value c = int (of_char c) - 48"

definition read_digits :: "string \<Rightarrow> int" where
  "read_digits s = foldl (\<lambda>n c. 10 * n + digit_value c) 0 s"

lemma digit_value_digit: "0 \<le> d \<Longrightarrow> d < 10 \<Longrightarrow> digit_value (digit_char d) = d"
  by (simp add: digit_value_def digit_char_def)

lemma read_int_digits: "0 \<le> n \<Longrightarrow> read_digits (int_digits n) = n"
proof (induction n rule: int_digits.induct)
  case (1 n)
  show ?case
  proof (cases "n < 10")
    case True
    then show ?thesis using "1.prems"
      by (simp add: int_digits.simps[of n] read_digits_def digit_value_digit)
  next
    case False
    then have "read_digits (int_digits (n div 10)) = n div 10" using 1 by simp
    then show ?thesis using False
      by (simp add: int_digits.simps[of n] read_digits_def digit_value_digit)
  qed
qed

lemma int_digits_inj: "0 \<le> m \<Longrightarrow> 0 \<le> n \<Longrightarrow> int_digits m = int_digits n \<longleftrightarrow> m = n"
  by (metis read_int_digits)

end
