(* ===== verification/Decimals.thy ===== *)
theory Decimals
  imports Prelude
begin

text \<open>
  The two number types of the program. A Python \<^verbatim>\<open>Decimal\<close> computes every operation to the 28
  significant digits of the default context, ties to even; a \<^verbatim>\<open>float\<close> computes to 53 significant
  bits. Both are rounding to significant digits in a base, here \<open>round_sig\<close>, so the model is the
  exact rational result of the operation, rounded: \<open>ctx28\<close> and \<open>fl64\<close>. \<open>quantize\<close> is
  \<^verbatim>\<open>Decimal.quantize\<close> with \<^verbatim>\<open>ROUND_HALF_UP\<close>, \<open>pyround\<close> the built-in \<^verbatim>\<open>round\<close> (ties to even),
  \<open>float_repr\<close> the decimal that \<^verbatim>\<open>str\<close> prints for a float (the shortest one that reads back).
  Not modelled: the exponent limits of the two types (overflow, subnormal numbers, and
  \<^verbatim>\<open>InvalidOperation\<close> for a quantized coefficient of more than 28 digits), which need amounts
  beyond 10 to the 25; the database columns hold at most 14 digits.

  The lemmas show what the component proofs need of rounding: it is monotone, it keeps sign and
  every representable number, and sums of two-place decimals are exact below a bound.
\<close>

section \<open>Digits and exponents\<close>

function ilog :: "int \<Rightarrow> int \<Rightarrow> int" where
  "ilog b n = (if b < 2 \<or> n < b then 0 else 1 + ilog b (n div b))"
  by pat_completeness auto
termination
proof (relation "measure (\<lambda>(b, n). nat n)")
  fix b n :: int
  assume "\<not> (b < 2 \<or> n < b)"
  then have "n div b < n" by (intro int_div_less_self) auto
  with \<open>\<not> (b < 2 \<or> n < b)\<close> show "((b, n div b), b, n) \<in> measure (\<lambda>(b, n). nat n)" by auto
qed auto

declare ilog.simps [simp del]

lemma ilog_nonneg: "0 \<le> ilog b n"
  by (induction b n rule: ilog.induct) (subst ilog.simps, simp)

lemma ilog_bounds:
  "2 \<le> b \<Longrightarrow> 1 \<le> n \<Longrightarrow> b ^ nat (ilog b n) \<le> n \<and> n < b ^ Suc (nat (ilog b n))"
proof (induction b n rule: ilog.induct)
  case (1 b n)
  show ?case
  proof (cases "n < b")
    case True
    with "1.prems" show ?thesis by (simp add: ilog.simps[of b n])
  next
    case False
    define m where "m = n div b"
    have b: "2 \<le> b" by (rule "1.prems")
    have m1: "1 \<le> m" using False b by (simp add: m_def pos_imp_zdiv_pos_iff int_one_le_iff_zero_less)
    have IH: "b ^ nat (ilog b m) \<le> m" "m < b ^ Suc (nat (ilog b m))"
      using "1.IH"[folded m_def] False b m1 by auto
    have eq: "nat (ilog b n) = Suc (nat (ilog b m))"
      using False b ilog_nonneg[of b m] by (subst ilog.simps) (simp add: m_def nat_add_distrib)
    note dm = mult_div_mod_eq[of b n] pos_mod_sign[of b n] pos_mod_bound[of b n]
    have "b * m \<le> n" using dm b unfolding m_def by linarith
    moreover have "n < b * (m + 1)" using dm b unfolding m_def distrib_left by linarith
    moreover have "b * b ^ nat (ilog b m) \<le> b * m" using IH(1) b by simp
    moreover have "b * (m + 1) \<le> b * b ^ Suc (nat (ilog b m))" using IH(2) b by simp
    ultimately show ?thesis unfolding eq by simp
  qed
qed

text \<open>The adjusted exponent: the place of the most significant digit.\<close>

definition adj_exp :: "int \<Rightarrow> rat \<Rightarrow> int" where
  "adj_exp b x = (if 1 \<le> \<bar>x\<bar> then ilog b \<lfloor>\<bar>x\<bar>\<rfloor>
                  else - (ilog b (\<lceil>1 / \<bar>x\<bar>\<rceil> - 1) + 1))"

lemma pow_nat_powi: "0 \<le> k \<Longrightarrow> (of_int (b ^ nat k) :: rat) = of_int b powi k"
  by (simp add: power_int_nonneg_exp)

lemma adj_exp_ge1:
  assumes b: "2 \<le> b" and x: "1 \<le> (x::rat)"
  shows "of_int b powi ilog b \<lfloor>x\<rfloor> \<le> x \<and> x < of_int b powi (ilog b \<lfloor>x\<rfloor> + 1)"
proof -
  define k where "k = ilog b \<lfloor>x\<rfloor>"
  have k: "0 \<le> k" by (simp add: k_def ilog_nonneg)
  have bnd: "b ^ nat k \<le> \<lfloor>x\<rfloor>" "\<lfloor>x\<rfloor> < b ^ Suc (nat k)"
    using ilog_bounds[OF b, of "\<lfloor>x\<rfloor>"] x by (simp_all add: k_def)
  have "of_int b powi k = (of_int (b ^ nat k) :: rat)" using pow_nat_powi[OF k, of b] by simp
  also have "\<dots> \<le> of_int \<lfloor>x\<rfloor>" using bnd(1) by (simp only: of_int_le_iff)
  also have "\<dots> \<le> x" by simp
  finally have lo: "of_int b powi k \<le> x" .
  have "\<lfloor>x\<rfloor> + 1 \<le> b ^ Suc (nat k)" using bnd(2) by simp
  then have "of_int (\<lfloor>x\<rfloor> + 1) \<le> (of_int (b ^ Suc (nat k)) :: rat)" by (simp only: of_int_le_iff)
  moreover have "x < of_int (\<lfloor>x\<rfloor> + 1)" by linarith
  moreover have "(of_int (b ^ Suc (nat k)) :: rat) = of_int b powi (k + 1)"
    using k by (simp add: power_int_nonneg_exp nat_add_distrib)
  ultimately show ?thesis using lo by (simp add: k_def)
qed

lemma adj_exp_lt1:
  assumes b: "2 \<le> b" and x: "0 < (x::rat)" "x < 1"
  shows "of_int b powi (- (ilog b (\<lceil>1 / x\<rceil> - 1) + 1)) \<le> x \<and>
         x < of_int b powi (- (ilog b (\<lceil>1 / x\<rceil> - 1)))"
proof -
  define n where "n = \<lceil>1 / x\<rceil> - 1"
  define k where "k = ilog b n"
  have "1 < 1 / x" using x by simp
  then have n1: "1 \<le> n" by (simp add: n_def less_ceiling_iff)
  have k: "0 \<le> k" by (simp add: k_def ilog_nonneg)
  have bnd: "b ^ nat k \<le> n" "n < b ^ Suc (nat k)"
    using ilog_bounds[OF b n1] by (simp_all add: k_def)
  have "1 / x \<le> of_int (n + 1)" by (simp add: n_def)
  also have "\<dots> \<le> (of_int (b ^ Suc (nat k)) :: rat)" using bnd(2) by (simp only: of_int_le_iff)
  also have "\<dots> = of_int b powi (k + 1)" using k by (simp add: power_int_nonneg_exp nat_add_distrib)
  finally have hi: "1 / x \<le> of_int b powi (k + 1)" .
  have "of_int b powi k = (of_int (b ^ nat k) :: rat)" using pow_nat_powi[OF k, of b] by simp
  also have "\<dots> \<le> of_int n" using bnd(1) by (simp only: of_int_le_iff)
  also have "\<dots> < 1 / x" unfolding n_def by linarith
  finally have lo: "of_int b powi k < 1 / x" .
  have pos: "0 < (of_int b :: rat) powi j" for j using b by (simp add: zero_less_power_int)
  show ?thesis
    using hi lo x pos[of k] pos[of "k + 1"]
    by (simp add: power_int_minus n_def[symmetric] k_def[symmetric] field_simps power_int_minus[of _ "k+1"] del: minus_add_distrib)
qed


lemma adj_exp_bounds:
  assumes b: "2 \<le> b" and x: "x \<noteq> 0"
  shows "of_int b powi adj_exp b x \<le> \<bar>x\<bar>" "\<bar>x\<bar> < of_int b powi (adj_exp b x + 1)"
  using adj_exp_ge1[OF b, of "\<bar>x\<bar>"] adj_exp_lt1[OF b, of "\<bar>x\<bar>"] x
  by (auto simp: adj_exp_def)

lemma powi_pos [simp]: "2 \<le> b \<Longrightarrow> 0 < (of_int b :: rat) powi k"
  by (simp add: zero_less_power_int)

lemma powi_less_iff: "2 \<le> b \<Longrightarrow> (of_int b :: rat) powi i < of_int b powi j \<longleftrightarrow> i < j"
  by (metis power_int_strict_increasing power_int_increasing not_less of_int_1_less_iff
      one_less_numeral_iff order_less_le_trans semiring_norm(76) less_imp_le)

lemma powi_le_iff: "2 \<le> b \<Longrightarrow> (of_int b :: rat) powi i \<le> of_int b powi j \<longleftrightarrow> i \<le> j"
  by (meson powi_less_iff not_less)

section \<open>Rounding to an integer\<close>

definition round_half_even :: "rat \<Rightarrow> int" where
  "round_half_even y = (let f = \<lfloor>y\<rfloor>; d = y - of_int f in
     if d < 1/2 then f else if 1/2 < d then f + 1 else if even f then f else f + 1)"

definition round_half_up :: "rat \<Rightarrow> int" where
  "round_half_up y = (if 0 \<le> y then \<lfloor>y + 1/2\<rfloor> else - \<lfloor>1/2 - y\<rfloor>)"

lemma round_half_even_bounds:
  "y - 1/2 \<le> of_int (round_half_even y)" "of_int (round_half_even y) \<le> y + 1/2"
  unfolding round_half_even_def Let_def by (auto; linarith)+

lemma round_half_even_of_int [simp]: "round_half_even (of_int i) = i"
  by (simp add: round_half_even_def)

lemma round_half_even_mono: "x \<le> y \<Longrightarrow> round_half_even x \<le> round_half_even y"
proof -
  assume xy: "x \<le> y"
  consider "\<lfloor>x\<rfloor> = \<lfloor>y\<rfloor>" | "\<lfloor>x\<rfloor> < \<lfloor>y\<rfloor>" using floor_mono[OF xy] by linarith
  then show ?thesis
  proof cases
    case 1 with xy show ?thesis unfolding round_half_even_def Let_def by auto
  next
    case 2 then show ?thesis unfolding round_half_even_def Let_def by auto
  qed
qed

lemma round_half_even_neg: "round_half_even (- y) = - round_half_even y"
proof (cases "y = of_int \<lfloor>y\<rfloor>")
  case True
  then show ?thesis using round_half_even_of_int[of "\<lfloor>y\<rfloor>"] round_half_even_of_int[of "- \<lfloor>y\<rfloor>"]
    by (metis of_int_minus)
next
  case False
  then have "\<lfloor>- y\<rfloor> = - \<lfloor>y\<rfloor> - 1" by linarith
  then show ?thesis unfolding round_half_even_def Let_def by auto
qed

lemma round_half_up_of_int [simp]: "round_half_up (of_int i) = i"
  by (auto simp: round_half_up_def) linarith+

lemma round_half_up_mono: "x \<le> y \<Longrightarrow> round_half_up x \<le> round_half_up y"
  unfolding round_half_up_def by auto linarith+

lemma round_half_up_bounds:
  "y - 1/2 \<le> of_int (round_half_up y)" "of_int (round_half_up y) \<le> y + 1/2"
  unfolding round_half_up_def by auto linarith+

section \<open>Rounding to significant digits\<close>

definition unit_at :: "int \<Rightarrow> int \<Rightarrow> rat \<Rightarrow> rat" where
  "unit_at b p x = of_int b powi (adj_exp b x - p + 1)"

definition round_sig :: "int \<Rightarrow> int \<Rightarrow> rat \<Rightarrow> rat" where
  "round_sig b p x = (if x = 0 then 0
     else of_int (round_half_even (x / unit_at b p x)) * unit_at b p x)"

lemma round_sig_0 [simp]: "round_sig b p 0 = 0"
  by (simp add: round_sig_def)

lemma round_sig_nz: "x \<noteq> 0 \<Longrightarrow>
    round_sig b p x = of_int (round_half_even (x / unit_at b p x)) * unit_at b p x"
  by (simp add: round_sig_def)

lemma unit_at_pos: "2 \<le> b \<Longrightarrow> 0 < unit_at b p x"
  by (simp add: unit_at_def)

lemma adj_exp_minus [simp]: "adj_exp b (- x) = adj_exp b x"
  by (simp add: adj_exp_def)

lemma round_sig_minus: "round_sig b p (- x) = - round_sig b p x"
  by (simp add: round_sig_def unit_at_def round_half_even_neg)

text \<open>The scaled value \<open>x / unit\<close> has exactly \<open>p\<close> digits before the point.\<close>

lemma scaled_bounds:
  assumes b: "2 \<le> b" and x: "0 < x"
  shows "of_int b powi (p - 1) \<le> x / unit_at b p x" "x / unit_at b p x < of_int b powi p"
proof -
  let ?e = "adj_exp b x"
  have *: "of_int b powi ?e \<le> x" "x < of_int b powi (?e + 1)"
    using adj_exp_bounds[OF b, of x] x by simp_all
  have nz: "(of_int b :: rat) \<noteq> 0" using b by simp
  have m1: "of_int b powi (p - 1) * unit_at b p x = of_int b powi ?e"
    unfolding unit_at_def using nz by (subst power_int_add[symmetric]) auto
  have m2: "of_int b powi p * unit_at b p x = of_int b powi (?e + 1)"
    unfolding unit_at_def using nz by (subst power_int_add[symmetric]) (auto simp: add.commute)
  show "of_int b powi (p - 1) \<le> x / unit_at b p x" "x / unit_at b p x < of_int b powi p"
    using * m1 m2 unit_at_pos[OF b, of p x] by (simp_all add: pos_le_divide_eq pos_divide_less_eq)
qed

lemma rounded_bounds:
  assumes b: "2 \<le> b" and p: "1 \<le> p" and x: "0 < x"
  shows "of_int b powi (adj_exp b x) \<le> round_sig b p x"
    "round_sig b p x \<le> of_int b powi (adj_exp b x + 1)"
proof -
  let ?u = "unit_at b p x" and ?e = "adj_exp b x"
  have nz: "(of_int b :: rat) \<noteq> 0" using b by simp
  have lo: "of_int (b ^ nat (p - 1)) \<le> x / ?u" and hi: "x / ?u \<le> of_int (b ^ nat p)"
    using scaled_bounds[OF b x, of p] p by (simp_all add: pow_nat_powi power_int_nonneg_exp)
  have m: "b ^ nat (p - 1) \<le> round_half_even (x / ?u)" "round_half_even (x / ?u) \<le> b ^ nat p"
    using round_half_even_mono[OF lo] round_half_even_mono[OF hi] by (simp_all only: round_half_even_of_int)
  have r: "round_sig b p x = of_int (round_half_even (x / ?u)) * ?u"
    using x by (simp add: round_sig_def)
  have "of_int b powi ?e = of_int b powi (p - 1) * ?u"
    unfolding unit_at_def using nz by (subst power_int_add[symmetric]) auto
  also have "\<dots> = of_int (b ^ nat (p - 1)) * ?u" using p by (simp add: power_int_nonneg_exp)
  also have "\<dots> \<le> round_sig b p x"
    unfolding r using m(1) unit_at_pos[OF b, of p x] by (intro mult_right_mono) (simp_all only: of_int_le_iff less_imp_le)
  finally show "of_int b powi ?e \<le> round_sig b p x" .
  have "round_sig b p x \<le> of_int (b ^ nat p) * ?u"
    unfolding r using m(2) unit_at_pos[OF b, of p x] by (intro mult_right_mono) (simp_all only: of_int_le_iff less_imp_le)
  also have "\<dots> = of_int b powi p * ?u" using p by (simp add: power_int_nonneg_exp)
  also have "\<dots> = of_int b powi (?e + 1)"
    unfolding unit_at_def using nz by (subst power_int_add[symmetric]) (auto simp: add.commute)
  finally show "round_sig b p x \<le> of_int b powi (?e + 1)" .
qed

lemma adj_exp_mono:
  assumes b: "2 \<le> b" and "0 < x" "x \<le> y"
  shows "adj_exp b x \<le> adj_exp b y"
proof -
  have "of_int b powi adj_exp b x \<le> \<bar>x\<bar>" "\<bar>y\<bar> < of_int b powi (adj_exp b y + 1)"
    using adj_exp_bounds(1)[OF b, of x] adj_exp_bounds(2)[OF b, of y] assms by auto
  then have "(of_int b :: rat) powi adj_exp b x < of_int b powi (adj_exp b y + 1)" using assms by linarith
  then show ?thesis using powi_less_iff[OF b] by simp
qed

lemma round_sig_mono_pos:
  assumes b: "2 \<le> b" and p: "1 \<le> p" and x: "0 < x" and xy: "x \<le> y"
  shows "round_sig b p x \<le> round_sig b p y"
proof (cases "adj_exp b x = adj_exp b y")
  case True
  then have u: "unit_at b p x = unit_at b p y" by (simp add: unit_at_def)
  have "x / unit_at b p y \<le> y / unit_at b p y"
    using xy unit_at_pos[OF b, of p y] by (simp add: divide_right_mono)
  then show ?thesis using x xy u unit_at_pos[OF b, of p y]
    by (auto simp: round_sig_def intro!: mult_right_mono round_half_even_mono)
next
  case False
  with adj_exp_mono[OF b x xy] have "adj_exp b x + 1 \<le> adj_exp b y" by simp
  then have "(of_int b :: rat) powi (adj_exp b x + 1) \<le> of_int b powi adj_exp b y"
    using powi_le_iff[OF b] by simp
  moreover have "round_sig b p x \<le> of_int b powi (adj_exp b x + 1)" by (rule rounded_bounds[OF b p x])
  moreover have "of_int b powi adj_exp b y \<le> round_sig b p y" using rounded_bounds[OF b p, of y] x xy by simp
  ultimately show ?thesis by linarith
qed

lemma round_sig_pos: "2 \<le> b \<Longrightarrow> 1 \<le> p \<Longrightarrow> 0 < x \<Longrightarrow> 0 < round_sig b p x"
  using rounded_bounds(1)[of b p x] powi_pos[of b "adj_exp b x"] by linarith

lemma round_sig_mono:
  assumes b: "2 \<le> b" and p: "1 \<le> p" and xy: "x \<le> y"
  shows "round_sig b p x \<le> round_sig b p y"
proof (cases "0 < x")
  case True then show ?thesis using round_sig_mono_pos[OF b p] xy by blast
next
  case x: False
  have neg: "z \<le> 0 \<Longrightarrow> round_sig b p z \<le> 0" for z
    using round_sig_pos[OF b p, of "- z"] round_sig_minus[of b p z] by (cases "z = 0") auto
  have pos: "0 \<le> z \<Longrightarrow> 0 \<le> round_sig b p z" for z
    using round_sig_pos[OF b p, of z] by (cases "z = 0") auto
  show ?thesis
  proof (cases "y < 0")
    case True
    then have "round_sig b p (- y) \<le> round_sig b p (- x)"
      using round_sig_mono_pos[OF b p, of "- y" "- x"] xy by simp
    then show ?thesis by (simp add: round_sig_minus)
  next
    case False then show ?thesis using neg[of x] pos[of y] x by linarith
  qed
qed

text \<open>A number with at most \<open>p\<close> digits is not changed.\<close>

lemma round_sig_exact_pos:
  assumes b: "2 \<le> b" and m: "0 < m" "m < b ^ nat p" and p: "1 \<le> p"
  shows "round_sig b p (of_int m * of_int b powi k) = of_int m * of_int b powi k"
proof -
  let ?x = "of_int m * of_int b powi k :: rat"
  have nz: "(of_int b :: rat) \<noteq> 0" using b by simp
  have x: "0 < ?x" using m b by simp
  have "of_int b powi adj_exp b ?x \<le> \<bar>?x\<bar>" using adj_exp_bounds(1)[OF b less_imp_neq[OF x, symmetric]] .
  also have "\<dots> = ?x" using x by (rule abs_of_pos)
  also have "?x < of_int (b ^ nat p) * of_int b powi k"
    using m(2) b by (intro mult_strict_right_mono) (simp_all only: of_int_less_iff powi_pos)
  also have "\<dots> = of_int b powi (p + k)" using nz p by (simp add: power_int_add power_int_nonneg_exp)
  finally have "adj_exp b ?x < p + k" using powi_less_iff[OF b] by simp
  then have j: "0 \<le> k - (adj_exp b ?x - p + 1)" by simp
  have "?x / unit_at b p ?x = of_int m * of_int b powi (k - (adj_exp b ?x - p + 1))"
    unfolding unit_at_def using nz by (subst power_int_diff) auto
  also have "\<dots> = of_int (m * b ^ nat (k - (adj_exp b ?x - p + 1)))"
    using j by (simp add: power_int_nonneg_exp)
  finally have i: "?x / unit_at b p ?x = of_int (m * b ^ nat (k - (adj_exp b ?x - p + 1)))" .
  have "round_sig b p ?x = of_int (round_half_even (?x / unit_at b p ?x)) * unit_at b p ?x"
    by (rule round_sig_nz[OF less_imp_neq[OF x, symmetric]])
  also have "\<dots> = ?x / unit_at b p ?x * unit_at b p ?x" by (simp only: i round_half_even_of_int)
  also have "\<dots> = ?x" using unit_at_pos[OF b, of p ?x] by simp
  finally show ?thesis .
qed

lemma round_sig_exact:
  assumes b: "2 \<le> b" and m: "\<bar>m\<bar> < b ^ nat p" and p: "1 \<le> p"
  shows "round_sig b p (of_int m * of_int b powi k) = of_int m * of_int b powi k"
proof -
  consider "m = 0" | "0 < m" | "0 < - m" by linarith
  then show ?thesis
  proof cases
    case 2 then show ?thesis using round_sig_exact_pos[OF b _ _ p] m by simp
  next
    case 3
    then have "round_sig b p (of_int (- m) * of_int b powi k) = of_int (- m) * of_int b powi k"
      using round_sig_exact_pos[OF b, of "- m"] m p by simp
    then show ?thesis using round_sig_minus[of b p "of_int m * of_int b powi k"] by simp
  qed simp
qed

text \<open>Rounding twice is rounding once: a result is representable.\<close>

lemma round_sig_idem_pos:
  assumes b: "2 \<le> b" and p: "1 \<le> p" and x: "0 < x"
  shows "round_sig b p (round_sig b p x) = round_sig b p x"
proof -
  let ?u = "unit_at b p x" and ?k = "adj_exp b x - p + 1"
  define m where "m = round_half_even (x / ?u)"
  have r: "round_sig b p x = of_int m * of_int b powi ?k" using x by (simp add: round_sig_def m_def unit_at_def)
  have "m \<le> b ^ nat p"
  proof -
    have "x / ?u \<le> of_int (b ^ nat p)"
      using scaled_bounds(2)[OF b x, of p] p by (simp add: power_int_nonneg_exp)
    from round_half_even_mono[OF this] show ?thesis by (simp only: m_def round_half_even_of_int)
  qed
  moreover have "0 < m" using round_sig_pos[OF b p x] powi_pos[OF b, of ?k] unfolding r
    by (simp only: zero_less_mult_iff of_int_0_less_iff) linarith
  ultimately consider "\<bar>m\<bar> < b ^ nat p" | "m = b ^ nat p" by linarith
  then show ?thesis
  proof cases
    case 1 then show ?thesis unfolding r by (rule round_sig_exact[OF b _ p])
  next
    case 2
    then have "round_sig b p x = of_int 1 * of_int b powi (p + ?k)"
    proof -
      have "(of_int b :: rat) powi (p + ?k) = of_int b powi p * of_int b powi ?k"
        using b by (intro power_int_add) simp
      then show ?thesis unfolding r 2 using p by (simp only: power_int_nonneg_exp) simp
    qed
    moreover have "\<bar>1\<bar> < b ^ nat p" using b p by (simp add: one_less_power)
    ultimately show ?thesis using round_sig_exact[OF b _ p, of 1] by metis
  qed
qed

lemma round_sig_idem:
  assumes b: "2 \<le> b" and p: "1 \<le> p"
  shows "round_sig b p (round_sig b p x) = round_sig b p x"
proof -
  consider "x = 0" | "0 < x" | "0 < - x" by linarith
  then show ?thesis
    using round_sig_idem_pos[OF b p, of x] round_sig_idem_pos[OF b p, of "- x"]
    by cases (auto simp: round_sig_minus)
qed

section \<open>Decimal arithmetic\<close>

text \<open>The operators of \<^verbatim>\<open>decimal.Decimal\<close> in the default context.\<close>

definition ctx28 :: "dec \<Rightarrow> dec" where
  "ctx28 x = round_sig 10 28 x"

definition dadd :: "dec \<Rightarrow> dec \<Rightarrow> dec" where "dadd x y = ctx28 (x + y)"
definition dsub :: "dec \<Rightarrow> dec \<Rightarrow> dec" where "dsub x y = ctx28 (x - y)"
definition dmul :: "dec \<Rightarrow> dec \<Rightarrow> dec" where "dmul x y = ctx28 (x * y)"
definition ddiv :: "dec \<Rightarrow> dec \<Rightarrow> dec" where "ddiv x y = ctx28 (x / y)"

text \<open>\<^verbatim>\<open>sum(xs, Decimal("0.00"))\<close>: additions from the left.\<close>

definition dsum :: "dec list \<Rightarrow> dec" where
  "dsum xs = foldl dadd 0 xs"

text \<open>
  \<^verbatim>\<open>quantize_dec(val, places)\<close> of \<^verbatim>\<open>app/services/deal_context_builder.py\<close> on a decimal: the
  nearest multiple of ten to the minus \<open>places\<close>, ties away from zero.
\<close>

definition quantize :: "dec \<Rightarrow> nat \<Rightarrow> dec" where
  "quantize d places = of_int (round_half_up (d * 10 ^ places)) / 10 ^ places"

text \<open>The built-in \<^verbatim>\<open>round(d, places)\<close>: ties to even.\<close>

definition pyround :: "rat \<Rightarrow> nat \<Rightarrow> rat" where
  "pyround d places = of_int (round_half_even (d * 10 ^ places)) / 10 ^ places"

text \<open>\<^verbatim>\<open>int(x)\<close>: truncation towards zero.\<close>

definition pyint :: "rat \<Rightarrow> int" where
  "pyint x = (if 0 \<le> x then \<lfloor>x\<rfloor> else \<lceil>x\<rceil>)"

section \<open>Binary floating point\<close>

definition fl64 :: "rat \<Rightarrow> rat" where
  "fl64 x = round_sig 2 53 x"

definition fadd :: "rat \<Rightarrow> rat \<Rightarrow> rat" where "fadd x y = fl64 (x + y)"
definition fsub :: "rat \<Rightarrow> rat \<Rightarrow> rat" where "fsub x y = fl64 (x - y)"
definition fmul :: "rat \<Rightarrow> rat \<Rightarrow> rat" where "fmul x y = fl64 (x * y)"
definition fdiv :: "rat \<Rightarrow> rat \<Rightarrow> rat" where "fdiv x y = fl64 (x / y)"

text \<open>The built-in \<^verbatim>\<open>round(x, places)\<close> on a float: the float nearest to the rounded exact value.\<close>

definition fround :: "rat \<Rightarrow> nat \<Rightarrow> rat" where
  "fround x places = fl64 (pyround x places)"

text \<open>
  \<^verbatim>\<open>Decimal(str(f))\<close>: the nearest decimal of the fewest digits that reads back as \<open>f\<close>; seventeen
  digits always do.
\<close>

definition float_repr :: "rat \<Rightarrow> dec" where
  "float_repr f =
     (case find (\<lambda>n. fl64 (round_sig 10 n f) = f) [1, 2, 3, 4, 5, 6, 7, 8, 9, 10, 11, 12, 13, 14, 15, 16]
      of Some n \<Rightarrow> round_sig 10 n f | None \<Rightarrow> round_sig 10 17 f)"

section \<open>Monotonicity and sign\<close>

lemma ctx28_mono [dec_mono]: "x \<le> y \<Longrightarrow> ctx28 x \<le> ctx28 y"
  by (simp add: ctx28_def round_sig_mono)

lemma ctx28_0 [simp]: "ctx28 0 = 0"
  by (simp add: ctx28_def)

lemma ctx28_idem [simp]: "ctx28 (ctx28 x) = ctx28 x"
  by (simp add: ctx28_def round_sig_idem)

lemma ctx28_exact:
  assumes "\<bar>m\<bar> < 10 ^ 28"
  shows "ctx28 (of_int m * 10 powi k) = of_int m * 10 powi k"
  unfolding ctx28_def using round_sig_exact[of 10 m 28 k] assms by simp

lemma ctx28_of_int: "\<bar>m\<bar> < 10 ^ 28 \<Longrightarrow> ctx28 (of_int m) = of_int m"
  using ctx28_exact[of m 0] by simp

lemma ctx28_1 [simp]: "ctx28 1 = 1"
  using ctx28_of_int[of 1] by simp

lemma ctx28_numeral: "(numeral n :: int) < 10 ^ 28 \<Longrightarrow> ctx28 (numeral n) = numeral n"
  using ctx28_of_int[of "numeral n"] by simp

lemma ctx28_nonneg [dec_nonneg]: "0 \<le> x \<Longrightarrow> 0 \<le> ctx28 x"
  using ctx28_mono[of 0 x] by simp

lemma ctx28_pos: "0 < x \<Longrightarrow> 0 < ctx28 x"
  by (simp add: ctx28_def round_sig_pos)

lemma ctx28_minus: "ctx28 (- x) = - ctx28 x"
  by (simp add: ctx28_def round_sig_minus)

lemma dadd_nonneg [dec_nonneg]: "0 \<le> x \<Longrightarrow> 0 \<le> y \<Longrightarrow> 0 \<le> dadd x y"
  by (simp add: dadd_def ctx28_nonneg)

lemma dmul_nonneg [dec_nonneg]: "0 \<le> x \<Longrightarrow> 0 \<le> y \<Longrightarrow> 0 \<le> dmul x y"
  by (simp add: dmul_def ctx28_nonneg)

lemma ddiv_nonneg [dec_nonneg]: "0 \<le> x \<Longrightarrow> 0 \<le> y \<Longrightarrow> 0 \<le> ddiv x y"
  by (simp add: ddiv_def ctx28_nonneg)

lemma dsub_nonneg [dec_nonneg]: "y \<le> x \<Longrightarrow> 0 \<le> dsub x y"
  by (simp add: dsub_def ctx28_nonneg)

lemma dadd_mono [dec_mono]: "x \<le> x' \<Longrightarrow> y \<le> y' \<Longrightarrow> dadd x y \<le> dadd x' y'"
  by (simp add: dadd_def ctx28_mono)

lemma dmul_mono [dec_mono]: "0 \<le> y \<Longrightarrow> 0 \<le> x \<Longrightarrow> x \<le> x' \<Longrightarrow> y \<le> y' \<Longrightarrow> dmul x y \<le> dmul x' y'"
  by (simp add: dmul_def ctx28_mono mult_mono')

lemma ddiv_mono [dec_mono]: "0 < y \<Longrightarrow> x \<le> x' \<Longrightarrow> ddiv x y \<le> ddiv x' y"
  by (simp add: ddiv_def ctx28_mono divide_right_mono)

lemma dsub_mono: "x \<le> x' \<Longrightarrow> y' \<le> y \<Longrightarrow> dsub x y \<le> dsub x' y'"
  by (simp add: dsub_def ctx28_mono)

lemma dsub_self [simp]: "dsub x x = 0"
  by (simp add: dsub_def)

lemma dsum_Nil [simp]: "dsum [] = 0"
  by (simp add: dsum_def)

lemma dsum_snoc: "dsum (xs @ [x]) = dadd (dsum xs) x"
  by (simp add: dsum_def)

lemma dsum_nonneg [dec_nonneg]: "(\<And>x. x \<in> set xs \<Longrightarrow> 0 \<le> x) \<Longrightarrow> 0 \<le> dsum xs"
  by (induction xs rule: rev_induct) (auto simp: dsum_snoc intro: dadd_nonneg)

text \<open>A sum of non-negative representable decimals is at least each of them.\<close>

lemma dsum_ge_member:
  assumes "\<And>x. x \<in> set xs \<Longrightarrow> 0 \<le> x \<and> ctx28 x = x" and "y \<in> set xs"
  shows "y \<le> dsum xs"
  using assms
proof (induction xs rule: rev_induct)
  case (snoc x xs)
  have x: "0 \<le> x" "ctx28 x = x" and s: "0 \<le> dsum xs" using snoc.prems(1) by (auto intro: dsum_nonneg)
  show ?case
  proof (cases "y = x")
    case True
    have "ctx28 x \<le> dadd (dsum xs) x" unfolding dadd_def using s by (intro ctx28_mono) simp
    with True x show ?thesis by (simp add: dsum_snoc)
  next
    case False
    with snoc have "y \<le> dsum xs" and "ctx28 y = y" by auto
    then have "ctx28 y \<le> dadd (dsum xs) x" unfolding dadd_def using x by (intro ctx28_mono) simp
    with \<open>ctx28 y = y\<close> show ?thesis by (simp add: dsum_snoc)
  qed
qed simp

lemma quantize_mono [dec_mono]: "x \<le> y \<Longrightarrow> quantize x n \<le> quantize y n"
  by (simp add: quantize_def divide_right_mono round_half_up_mono)

lemma quantize_0 [simp]: "quantize 0 n = 0"
  using round_half_up_of_int[of 0] by (simp add: quantize_def)

lemma quantize_nonneg [dec_nonneg]: "0 \<le> x \<Longrightarrow> 0 \<le> quantize x n"
  using quantize_mono[of 0 x n] by simp

lemma quantize_of_int_div [simp]: "quantize (of_int k / 10 ^ n) n = of_int k / 10 ^ n"
  by (simp add: quantize_def)

lemma quantize_bounds:
  "x - 1 / (2 * 10 ^ n) \<le> quantize x n" "quantize x n \<le> x + 1 / (2 * 10 ^ n)"
  using divide_right_mono[OF round_half_up_bounds(1)[of "x * 10 ^ n"], of "10 ^ n"]
    divide_right_mono[OF round_half_up_bounds(2)[of "x * 10 ^ n"], of "10 ^ n"]
  by (simp_all add: quantize_def diff_divide_distrib add_divide_distrib)

lemma pyround_mono [dec_mono]: "x \<le> y \<Longrightarrow> pyround x n \<le> pyround y n"
  by (simp add: pyround_def divide_right_mono round_half_even_mono)

lemma pyround_of_int_div [simp]: "pyround (of_int k / 10 ^ n) n = of_int k / 10 ^ n"
  by (simp add: pyround_def)

lemma fl64_mono [dec_mono]: "x \<le> y \<Longrightarrow> fl64 x \<le> fl64 y"
  by (simp add: fl64_def round_sig_mono)

lemma fl64_0 [simp]: "fl64 0 = 0"
  by (simp add: fl64_def)

lemma fl64_nonneg [dec_nonneg]: "0 \<le> x \<Longrightarrow> 0 \<le> fl64 x"
  using fl64_mono[of 0 x] by simp

lemma fl64_pos_iff: "0 < fl64 x \<longleftrightarrow> 0 < x"
  using fl64_mono[of x 0] round_sig_pos[of 2 53 x] by (auto simp: fl64_def not_less[symmetric])

lemma pyround_0 [simp]: "pyround 0 n = 0"
  using pyround_of_int_div[of 0 n] by simp

lemma fround_nonneg [dec_nonneg]: "0 \<le> x \<Longrightarrow> 0 \<le> fround x n"
  using pyround_mono[of 0 x n] by (simp add: fround_def fl64_nonneg)

section \<open>Two-place decimals\<close>

definition cents :: "dec \<Rightarrow> bool" where
  "cents x \<longleftrightarrow> x * 100 = of_int \<lfloor>x * 100\<rfloor>"

lemma centsI: "x = of_int k / 100 \<Longrightarrow> cents x"
  by (simp add: cents_def)

lemma centsE: "cents x \<Longrightarrow> (\<And>k. x = of_int k / 100 \<Longrightarrow> P) \<Longrightarrow> P"
  unfolding cents_def by (metis nonzero_mult_div_cancel_right zero_neq_numeral)

lemma cents_quantize [cents_intros]: "cents (quantize x 2)"
  by (rule centsI[of _ "round_half_up (x * 100)"]) (simp add: quantize_def)

lemma cents_0 [cents_intros]: "cents 0" by (simp add: cents_def)
lemma cents_1 [cents_intros]: "cents 1" by (simp add: cents_def)
lemma cents_numeral [cents_intros]: "cents (numeral n)"
  by (rule centsI[of _ "numeral n * 100"]) simp

lemma cents_add [cents_intros]: "cents x \<Longrightarrow> cents y \<Longrightarrow> cents (x + y)"
  by (elim centsE, rule_tac k = "k + ka" in centsI) (simp add: add_divide_distrib)

lemma cents_diff [cents_intros]: "cents x \<Longrightarrow> cents y \<Longrightarrow> cents (x - y)"
  by (elim centsE, rule_tac k = "k - ka" in centsI) (simp add: diff_divide_distrib)

lemma cents_min [cents_intros]: "cents x \<Longrightarrow> cents y \<Longrightarrow> cents (min x y)"
  by (simp add: min_def)

lemma cents_max [cents_intros]: "cents x \<Longrightarrow> cents y \<Longrightarrow> cents (max x y)"
  by (simp add: max_def)

lemma cents_sum_list [cents_intros]: "(\<And>x. x \<in> set xs \<Longrightarrow> cents x) \<Longrightarrow> cents (sum_list xs)"
  by (induction xs) (auto intro: cents_intros)

lemma quantize_cents [simp]: "cents x \<Longrightarrow> quantize x 2 = x"
  by (elim centsE) (simp add: quantize_def)

lemma ctx28_cents:
  assumes "cents x" and "\<bar>x\<bar> < 10 ^ 26"
  shows "ctx28 x = x"
proof -
  from assms(1) obtain k where k: "x = of_int k / 100" by (rule centsE)
  have "of_int \<bar>k\<bar> = \<bar>x\<bar> * 100" by (simp add: k)
  also have "\<dots> < 10 ^ 26 * 100" using assms(2) by (intro mult_strict_right_mono) simp_all
  also have "\<dots> = of_int (10 ^ 28)" by simp
  finally have "\<bar>k\<bar> < 10 ^ 28" by (simp only: of_int_less_iff)
  moreover have "x = of_int k * 10 powi (- 2)" by (simp add: k power_int_minus)
  ultimately show ?thesis using ctx28_exact[of k "- 2"] by (simp only:)
qed

lemma dsum_cents:
  assumes "\<And>x. x \<in> set xs \<Longrightarrow> cents x" and "sum_list (map abs xs) < 10 ^ 26"
  shows "dsum xs = sum_list xs"
  using assms
proof (induction xs rule: rev_induct)
  case (snoc x xs)
  have "\<bar>sum_list xs\<bar> \<le> sum_list (map abs xs)" by (rule sum_list_abs)
  then have "\<bar>sum_list xs + x\<bar> < 10 ^ 26" using snoc.prems(2) by simp
  moreover have "cents (sum_list xs + x)" using snoc.prems(1) by (auto intro: cents_intros)
  ultimately have "ctx28 (sum_list xs + x) = sum_list xs + x" by (rule ctx28_cents[rotated])
  with snoc show ?case by (simp add: dsum_snoc dadd_def)
qed simp

section \<open>Evaluation\<close>

text \<open>
  Numbers that both formats hold exactly; these let the simplifier compute with concrete amounts.
\<close>

lemma scaled_floor_exact:
  fixes x :: rat
  assumes "x * of_int c = of_int \<lfloor>x * of_int c\<rfloor>" and "0 < c" and "\<bar>x\<bar> * of_int c < of_int n"
  obtains m where "x = of_int m / of_int c" and "\<bar>m\<bar> < n"
proof
  show "x = of_int \<lfloor>x * of_int c\<rfloor> / of_int c" using assms(1,2) by (simp add: field_simps)
  have "of_int \<bar>\<lfloor>x * of_int c\<rfloor>\<bar> = \<bar>x * of_int c\<bar>" using assms(1) by simp
  also have "\<dots> = \<bar>x\<bar> * of_int c" using assms(2) by (simp add: abs_mult)
  finally have "of_int \<bar>\<lfloor>x * of_int c\<rfloor>\<bar> < (of_int n :: rat)" using assms(3) by (simp only:)
  then show "\<bar>\<lfloor>x * of_int c\<rfloor>\<bar> < n" by (simp only: of_int_less_iff)
qed

lemma ctx28_eval:
  assumes "x * 10 ^ 10 = of_int \<lfloor>x * 10 ^ 10\<rfloor>" and "\<bar>x\<bar> < 10 ^ 18"
  shows "ctx28 x = x"
proof -
  have "\<bar>x\<bar> * 10 ^ 10 < 10 ^ 18 * 10 ^ 10" using assms(2) by (rule mult_strict_right_mono) simp
  then obtain m where m: "x = of_int m / 10 ^ 10" "\<bar>m\<bar> < 10 ^ 28"
    using scaled_floor_exact[of x "10 ^ 10" "10 ^ 28"] assms(1) by auto
  have "x = of_int m * 10 powi (- 10)" by (simp add: m(1) power_int_minus field_simps)
  with ctx28_exact[OF m(2), of "- 10"] show ?thesis by (simp only:)
qed

lemma fl64_eval:
  assumes "x * 2 ^ 10 = of_int \<lfloor>x * 2 ^ 10\<rfloor>" and "\<bar>x\<bar> < 2 ^ 43"
  shows "fl64 x = x"
proof -
  have "\<bar>x\<bar> * 2 ^ 10 < 2 ^ 43 * 2 ^ 10" using assms(2) by (rule mult_strict_right_mono) simp
  then obtain m where m: "x = of_int m / 2 ^ 10" "\<bar>m\<bar> < 2 ^ 53"
    using scaled_floor_exact[of x "2 ^ 10" "2 ^ 53"] assms(1) by auto
  have x: "x = of_int m * of_int 2 powi (- 10)" by (simp add: m(1) power_int_minus field_simps)
  have "\<bar>m\<bar> < 2 ^ nat 53" using m(2) by simp
  from round_sig_exact[OF _ this, of "- 10"] x show ?thesis by (simp only: fl64_def)
qed

text \<open>A float that is one digit and some zeros prints as itself.\<close>

lemma float_repr_digit:
  assumes "\<bar>m\<bar> < 10" and "k \<le> 9"
  shows "float_repr (of_int m * 10 ^ k) = of_int m * 10 ^ k"
proof -
  let ?f = "of_int m * 10 ^ k :: rat"
  have r: "round_sig 10 1 ?f = ?f" using round_sig_exact[of 10 m 1 "int k"] assms(1) by simp
  have "(10 :: rat) ^ k \<le> 10 ^ 9" using assms(2) by (intro power_increasing) simp_all
  then have "\<bar>of_int m\<bar> * (10 :: rat) ^ k \<le> 9 * 10 ^ 9"
    using assms(1) by (intro mult_mono) (simp_all flip: of_int_abs)
  then have "\<bar>?f\<bar> < 2 ^ 43" by (simp add: abs_mult)
  moreover have "?f * 2 ^ 10 = of_int \<lfloor>?f * 2 ^ 10\<rfloor>"
    using floor_of_int[of "m * 10 ^ k * 2 ^ 10", where ?'a = rat] by simp
  ultimately have "fl64 ?f = ?f" by (rule fl64_eval[rotated])
  with r show ?thesis by (simp add: float_repr_def)
qed

lemma floor_fractions:
  "\<lfloor>numeral a / numeral b :: rat\<rfloor> = numeral a div numeral b"
  "\<lfloor>1 / numeral b :: rat\<rfloor> = 1 div numeral b"
  "\<lfloor>- (numeral a / numeral b) :: rat\<rfloor> = (- numeral a) div numeral b"
  "\<lfloor>- (1 / numeral b) :: rat\<rfloor> = (- 1) div numeral b"
  using floor_divide_of_int_eq[of "numeral a" "numeral b", where ?'a = rat]
    floor_divide_of_int_eq[of 1 "numeral b", where ?'a = rat]
    floor_divide_of_int_eq[of "- numeral a" "numeral b", where ?'a = rat]
    floor_divide_of_int_eq[of "- 1" "numeral b", where ?'a = rat]
  by simp_all

lemmas decimal_eval = floor_fractions dadd_def dsub_def dmul_def ddiv_def fadd_def fsub_def fmul_def fdiv_def
  ctx28_eval fl64_eval quantize_def round_half_up_def

end
