(* ===== verification/Fulfillment_Planner.thy ===== *)
theory Fulfillment_Planner
  imports Decimals "HOL-Library.Product_Lexorder" "HOL-Library.Multiset" "HOL-Library.Sublist"
begin

text \<open>
  The multi-warehouse planner, \<^verbatim>\<open>calculate_fulfillment_plan\<close> of \<^verbatim>\<open>app/guardian/fulfillment.py\<close>: choose
  the warehouses (one that covers everything, else the smallest covering subset of at most six, else
  greedily by coverage), then hand out the stock line by line and put the shortfall on backorder.
  The nested dictionary of remaining stock is a function of warehouse and product, which the code
  only reads where it has a key; the set of warehouses used is kept in order of first use.

  The lemmas show that no strategy leaves stock behind: what stays on backorder is exactly what all
  active warehouses together cannot supply, and no warehouse is asked for more than it has.
\<close>

section \<open>Data\<close>

record stockable_line =
  sl_line_id :: odoo_id
  sl_product_id :: odoo_id
  sl_requested_qty :: int

record warehouse_info =
  wi_warehouse_id :: odoo_id
  wi_name :: string
  wi_shipping_cost_weight :: dec
  wi_priority :: int
  wi_active :: bool

record plan_allocation =
  pa_line_id :: odoo_id
  pa_product_id :: odoo_id
  pa_warehouse_id :: "odoo_id option"
  pa_requested_qty :: int
  pa_allocated_qty :: int
  pa_backorder_qty :: int
  pa_shipping_cost :: dec

datatype plan_strategy = NO_STOCKABLE_ITEMS | NO_ACTIVE_WAREHOUSES | FULL_COVERAGE | EXHAUSTIVE | GREEDY

record algorithm_notes =
  an_considered_warehouse_ids :: "odoo_id list"
  an_chosen_warehouse_ids :: "odoo_id list"
  an_used_warehouse_ids :: "odoo_id list"
  an_estimated_shipping_cost :: rat
  an_shortfall_backorders_count :: int

record fulfillment_calculation_result =
  fcr_strategy :: plan_strategy
  fcr_estimated_shipments :: int
  fcr_estimated_shipping_cost :: dec
  fcr_allocations :: "plan_allocation list"
  fcr_backorders :: "plan_allocation list"
  fcr_algorithm_notes :: "algorithm_notes option"

type_synonym stock = "odoo_id \<Rightarrow> odoo_id \<Rightarrow> int"

section \<open>Demand and stock\<close>

definition demand_of :: "(odoo_id \<times> int) list \<Rightarrow> odoo_id \<Rightarrow> int" where
  "demand_of d pid = (case map_of d pid of None \<Rightarrow> 0 | Some q \<Rightarrow> q)"

definition total_demand :: "stockable_line list \<Rightarrow> (odoo_id \<times> int) list" where
  "total_demand ls = foldl (\<lambda>d l.
     AList.update (sl_product_id l) (demand_of d (sl_product_id l) + sl_requested_qty l) d) [] ls"

definition get_avail :: "(odoo_id \<times> (odoo_id \<times> int) list) list \<Rightarrow> stock" where
  "get_avail availability wid pid =
     max 0 (case map_of availability pid of None \<Rightarrow> 0
            | Some m \<Rightarrow> (case map_of m wid of None \<Rightarrow> 0 | Some q \<Rightarrow> q))"

definition warehouse_key :: "warehouse_info \<Rightarrow> dec \<times> int \<times> int" where
  "warehouse_key w = (wi_shipping_cost_weight w, wi_priority w, wi_warehouse_id w)"

definition joint_stock :: "stock \<Rightarrow> warehouse_info list \<Rightarrow> odoo_id \<Rightarrow> int" where
  "joint_stock av ws pid = sum_list (map (\<lambda>w. av (wi_warehouse_id w) pid) ws)"

text \<open>\<^verbatim>\<open>all(sum(get_avail(w, pid) for w in s) >= dem for pid, dem in total_demand.items())\<close>.\<close>

definition can_cover :: "stock \<Rightarrow> (odoo_id \<times> int) list \<Rightarrow> warehouse_info list \<Rightarrow> bool" where
  "can_cover av demand ws = list_all (\<lambda>(pid, dem). dem \<le> joint_stock av ws pid) demand"

section \<open>Choosing the warehouses\<close>

text \<open>\<^verbatim>\<open>itertools.combinations(xs, k)\<close>, in its order.\<close>

fun combinations :: "nat \<Rightarrow> 'a list \<Rightarrow> 'a list list" where
  "combinations 0 xs = [[]]"
| "combinations (Suc k) [] = []"
| "combinations (Suc k) (x # xs) = map ((#) x) (combinations k xs) @ combinations (Suc k) xs"

definition subset_key :: "warehouse_info list \<Rightarrow> dec \<times> int" where
  "subset_key s = (dsum (map wi_shipping_cost_weight s), sum_list (map wi_priority s))"

definition covering_subset :: "stock \<Rightarrow> (odoo_id \<times> int) list \<Rightarrow> warehouse_info list \<Rightarrow> nat \<Rightarrow>
    warehouse_info list option" where
  "covering_subset av demand ws k = find (can_cover av demand) (sort_key subset_key (combinations k ws))"

fun search_sizes :: "stock \<Rightarrow> (odoo_id \<times> int) list \<Rightarrow> warehouse_info list \<Rightarrow> nat list \<Rightarrow>
    warehouse_info list option" where
  "search_sizes av demand ws [] = None"
| "search_sizes av demand ws (k # ks) = (case covering_subset av demand ws k of
     Some s \<Rightarrow> Some s | None \<Rightarrow> search_sizes av demand ws ks)"

definition exhaustive_choice :: "stock \<Rightarrow> (odoo_id \<times> int) list \<Rightarrow> warehouse_info list \<Rightarrow> warehouse_info list" where
  "exhaustive_choice av demand ws = (case search_sizes av demand ws [2..<length ws + 1] of
     Some s \<Rightarrow> s
   | None \<Rightarrow>
       let relevant = filter (\<lambda>w. list_ex (\<lambda>(pid, _). 0 < av (wi_warehouse_id w) pid) demand) ws in
       if relevant \<noteq> [] then relevant else ws)"

definition coverage_gain :: "stock \<Rightarrow> (odoo_id \<times> int) list \<Rightarrow> warehouse_info \<Rightarrow> int" where
  "coverage_gain av remaining w =
     sum_list (map (\<lambda>(pid, rem). min (av (wi_warehouse_id w) pid) rem) remaining)"

definition greedy_key :: "stock \<Rightarrow> (odoo_id \<times> int) list \<Rightarrow> warehouse_info \<Rightarrow> int \<times> rat \<times> int" where
  "greedy_key av remaining w =
     (coverage_gain av remaining w, - fl64 (wi_shipping_cost_weight w), - wi_priority w)"

definition reduce_demand :: "stock \<Rightarrow> warehouse_info \<Rightarrow> (odoo_id \<times> int) list \<Rightarrow> (odoo_id \<times> int) list" where
  "reduce_demand av w remaining =
     map (\<lambda>(pid, rem). (pid, rem - min (av (wi_warehouse_id w) pid) rem)) remaining"

definition best_of :: "stock \<Rightarrow> (odoo_id \<times> int) list \<Rightarrow> warehouse_info list \<Rightarrow> warehouse_info" where
  "best_of av remaining pool = first_max (greedy_key av remaining) (hd pool) (tl pool)"

lemma best_of_in: "pool \<noteq> [] \<Longrightarrow> best_of av remaining pool \<in> set pool"
  using first_max_in[of "greedy_key av remaining" "hd pool" "tl pool"]
  by (cases pool) (auto simp: best_of_def)

text \<open>The while loop; every turn removes a warehouse from the pool.\<close>

function greedy_loop :: "stock \<Rightarrow> (odoo_id \<times> int) list \<Rightarrow> warehouse_info list \<Rightarrow> warehouse_info list \<Rightarrow>
    warehouse_info list" where
  "greedy_loop av remaining pool selected =
     (if list_ex (\<lambda>(_, rem). 0 < rem) remaining \<and> pool \<noteq> [] then
        let best_w = best_of av remaining pool in
        if coverage_gain av remaining best_w = 0 then selected
        else greedy_loop av (reduce_demand av best_w remaining) (remove1 best_w pool) (selected @ [best_w])
      else selected)"
  by pat_completeness auto
termination
  by (relation "measure (\<lambda>(_, _, pool, _). length pool)") (auto simp: length_remove1 best_of_in)

declare greedy_loop.simps [simp del]

definition greedy_choice :: "stock \<Rightarrow> (odoo_id \<times> int) list \<Rightarrow> warehouse_info list \<Rightarrow> warehouse_info list" where
  "greedy_choice av demand ws =
     (let selected = greedy_loop av demand ws [] in if selected \<noteq> [] then selected else ws)"

definition full_coverage :: "stock \<Rightarrow> (odoo_id \<times> int) list \<Rightarrow> warehouse_info list \<Rightarrow> warehouse_info list" where
  "full_coverage av demand ws = filter (\<lambda>w. can_cover av demand [w]) ws"

definition choose_warehouses :: "stock \<Rightarrow> (odoo_id \<times> int) list \<Rightarrow> warehouse_info list \<Rightarrow>
    plan_strategy option \<Rightarrow> plan_strategy \<times> warehouse_info list" where
  "choose_warehouses av demand ws force_strategy =
     (let candidates = (if force_strategy \<noteq> Some GREEDY \<and> force_strategy \<noteq> Some EXHAUSTIVE
            then full_coverage av demand ws else []) in
      case candidates of
        w # rest \<Rightarrow> (FULL_COVERAGE, [first_min warehouse_key w rest])
      | [] \<Rightarrow>
          if length ws \<le> 6 \<and> force_strategy \<noteq> Some GREEDY
          then (EXHAUSTIVE, exhaustive_choice av demand ws)
          else (GREEDY, greedy_choice av demand ws))"

section \<open>Handing out the stock\<close>

definition allocation :: "stockable_line \<Rightarrow> warehouse_info \<Rightarrow> int \<Rightarrow> plan_allocation" where
  "allocation l w q = \<lparr>pa_line_id = sl_line_id l, pa_product_id = sl_product_id l,
     pa_warehouse_id = Some (wi_warehouse_id w), pa_requested_qty = q, pa_allocated_qty = q,
     pa_backorder_qty = 0, pa_shipping_cost = wi_shipping_cost_weight w\<rparr>"

definition backorder :: "stockable_line \<Rightarrow> int \<Rightarrow> plan_allocation" where
  "backorder l q = \<lparr>pa_line_id = sl_line_id l, pa_product_id = sl_product_id l,
     pa_warehouse_id = None, pa_requested_qty = q, pa_allocated_qty = 0, pa_backorder_qty = q,
     pa_shipping_cost = 0\<rparr>"

definition take_stock :: "odoo_id \<Rightarrow> odoo_id \<Rightarrow> int \<Rightarrow> stock \<Rightarrow> stock" where
  "take_stock wid pid q st = st(wid := (st wid)(pid := st wid pid - q))"

text \<open>The inner loop over the warehouses: the allocations, what is still needed, the stock left.\<close>

fun allocate_line :: "stockable_line \<Rightarrow> warehouse_info list \<Rightarrow> int \<Rightarrow> stock \<Rightarrow>
    plan_allocation list \<times> int \<times> stock" where
  "allocate_line l [] needed st = ([], needed, st)"
| "allocate_line l (w # ws) needed st =
     (let avail_here = st (wi_warehouse_id w) (sl_product_id l) in
      if 0 < avail_here \<and> 0 < needed then
        let q = min needed avail_here;
            st' = take_stock (wi_warehouse_id w) (sl_product_id l) q st in
        if needed - q = 0 then ([allocation l w q], 0, st')
        else let (as, n, st'') = allocate_line l ws (needed - q) st' in (allocation l w q # as, n, st'')
      else if needed = 0 then ([], needed, st)
      else allocate_line l ws needed st)"

fun allocate_lines :: "warehouse_info list \<Rightarrow> stockable_line list \<Rightarrow> stock \<Rightarrow>
    plan_allocation list \<times> plan_allocation list \<times> stock" where
  "allocate_lines ws [] st = ([], [], st)"
| "allocate_lines ws (l # ls) st =
     (let (as, needed, st') = allocate_line l ws (sl_requested_qty l) st;
          (as', bs, st'') = allocate_lines ws ls st' in
      (as @ as', (if 0 < needed then [backorder l needed] else []) @ bs, st''))"

definition used_warehouses :: "plan_allocation list \<Rightarrow> odoo_id list" where
  "used_warehouses as = foldl (\<lambda>used a. case pa_warehouse_id a of None \<Rightarrow> used
     | Some wid \<Rightarrow> if wid \<in> set used then used else used @ [wid]) [] as"

definition shipping_cost :: "warehouse_info list \<Rightarrow> odoo_id list \<Rightarrow> dec" where
  "shipping_cost chosen used = dsum (map (\<lambda>wid. case map_of (dict_of wi_warehouse_id chosen) wid of
     None \<Rightarrow> 0 | Some w \<Rightarrow> wi_shipping_cost_weight w) used)"

definition positive_lines :: "stockable_line list \<Rightarrow> stockable_line list" where
  "positive_lines lines = filter (\<lambda>l. 0 < sl_requested_qty l) lines"

definition active_warehouses :: "warehouse_info list \<Rightarrow> warehouse_info list" where
  "active_warehouses warehouses = filter wi_active warehouses"

definition calculate_fulfillment_plan ::
    "stockable_line list \<Rightarrow> warehouse_info list \<Rightarrow> (odoo_id \<times> (odoo_id \<times> int) list) list \<Rightarrow>
      plan_strategy option \<Rightarrow> fulfillment_calculation_result" where
  "calculate_fulfillment_plan lines warehouses availability force_strategy =
     (let valid_lines = positive_lines lines; active = active_warehouses warehouses in
      if valid_lines = [] then
        \<lparr>fcr_strategy = NO_STOCKABLE_ITEMS, fcr_estimated_shipments = 0,
         fcr_estimated_shipping_cost = 0, fcr_allocations = [], fcr_backorders = [],
         fcr_algorithm_notes = None\<rparr>
      else if active = [] then
        \<lparr>fcr_strategy = NO_ACTIVE_WAREHOUSES, fcr_estimated_shipments = 0,
         fcr_estimated_shipping_cost = 0, fcr_allocations = [],
         fcr_backorders = map (\<lambda>l. backorder l (sl_requested_qty l)) valid_lines,
         fcr_algorithm_notes = None\<rparr>
      else
        let demand = total_demand valid_lines;
            av = get_avail availability;
            sorted_warehouses = sort_key warehouse_key active;
            (strategy, chosen0) = choose_warehouses av demand sorted_warehouses force_strategy;
            chosen = sort_key warehouse_key chosen0;
            (allocations, backorders, _) = allocate_lines chosen valid_lines av;
            used = used_warehouses allocations;
            cost = shipping_cost chosen used in
        \<lparr>fcr_strategy = strategy, fcr_estimated_shipments = int (length used),
         fcr_estimated_shipping_cost = cost, fcr_allocations = allocations,
         fcr_backorders = backorders,
         fcr_algorithm_notes = Some
           \<lparr>an_considered_warehouse_ids = map wi_warehouse_id sorted_warehouses,
            an_chosen_warehouse_ids = map wi_warehouse_id chosen, an_used_warehouse_ids = used,
            an_estimated_shipping_cost = fl64 cost,
            an_shortfall_backorders_count = int (length backorders)\<rparr>\<rparr>)"

section \<open>Demand\<close>

definition line_demand :: "stockable_line list \<Rightarrow> odoo_id \<Rightarrow> int" where
  "line_demand ls pid = sum_list (map sl_requested_qty (filter (\<lambda>l. sl_product_id l = pid) ls))"

lemma demand_of_foldl:
  "demand_of (foldl (\<lambda>d l. AList.update (sl_product_id l)
      (demand_of d (sl_product_id l) + sl_requested_qty l) d) d0 ls) pid =
   demand_of d0 pid + line_demand ls pid"
  by (induction ls arbitrary: d0) (auto simp: demand_of_def line_demand_def update_conv)

lemma demand_of_total [simp]: "demand_of (total_demand ls) pid = line_demand ls pid"
  by (simp add: total_demand_def demand_of_foldl) (simp add: demand_of_def)

lemma distinct_foldl_update:
  "distinct (map fst d0) \<Longrightarrow> distinct (map fst (foldl (\<lambda>d l. AList.update (k l) (v d l) d) d0 ls))"
  by (induction ls arbitrary: d0) (simp_all add: distinct_update)

lemma distinct_total_demand: "distinct (map fst (total_demand ls))"
  unfolding total_demand_def by (rule distinct_foldl_update) simp

lemma get_avail_nonneg [simp]: "0 \<le> get_avail availability w p"
  by (simp add: get_avail_def)

definition stock_nonneg :: "stock \<Rightarrow> bool" where
  "stock_nonneg st \<longleftrightarrow> (\<forall>w p. 0 \<le> st w p)"

lemma joint_stock_simps [simp]:
  "joint_stock av [] p = 0" "joint_stock av (w # ws) p = av (wi_warehouse_id w) p + joint_stock av ws p"
  "joint_stock av (xs @ ys) p = joint_stock av xs p + joint_stock av ys p"
  by (simp_all add: joint_stock_def)

lemma joint_stock_nonneg: "stock_nonneg av \<Longrightarrow> 0 \<le> joint_stock av ws p"
  by (induction ws) (auto simp: stock_nonneg_def)

lemma joint_stock_mset: "mset xs = mset ys \<Longrightarrow> joint_stock av xs p = joint_stock av ys p"
proof -
  have "joint_stock av zs p = (\<Sum>w\<in>#mset zs. av (wi_warehouse_id w) p)" for zs
    by (simp add: joint_stock_def flip: mset_map sum_mset_sum_list)
  then show "mset xs = mset ys \<Longrightarrow> ?thesis" by simp
qed

lemma joint_stock_filter_zero:
  "(\<And>w. w \<in> set ws \<Longrightarrow> \<not> P w \<Longrightarrow> av (wi_warehouse_id w) p = 0) \<Longrightarrow>
     joint_stock av (filter P ws) p = joint_stock av ws p"
  by (induction ws) auto

lemma joint_stock_remove1:
  "w \<in> set ws \<Longrightarrow> joint_stock av ws p = av (wi_warehouse_id w) p + joint_stock av (remove1 w ws) p"
  by (induction ws) auto

lemma can_cover_iff:
  assumes "distinct (map fst demand)" and "stock_nonneg av"
  shows "can_cover av demand ws \<longleftrightarrow> (\<forall>p. demand_of demand p \<le> joint_stock av ws p)"
  using assms(1) joint_stock_nonneg[OF assms(2)]
  by (force simp: can_cover_def list_all_iff demand_of_def split: option.splits dest: map_of_SomeD)

section \<open>One line\<close>

definition allocated_from :: "plan_allocation list \<Rightarrow> odoo_id \<Rightarrow> odoo_id \<Rightarrow> int" where
  "allocated_from as wid pid = sum_list (map pa_allocated_qty
     (filter (\<lambda>a. pa_warehouse_id a = Some wid \<and> pa_product_id a = pid) as))"

definition total_allocated :: "plan_allocation list \<Rightarrow> int" where
  "total_allocated as = sum_list (map pa_allocated_qty as)"

lemma allocated_from_simps [simp]:
  "allocated_from [] w p = 0"
  "allocated_from (a # as) w p =
     (if pa_warehouse_id a = Some w \<and> pa_product_id a = p then pa_allocated_qty a else 0) + allocated_from as w p"
  "allocated_from (xs @ ys) w p = allocated_from xs w p + allocated_from ys w p"
  by (simp_all add: allocated_from_def)

text \<open>What one line takes: all it needs or all there is, each unit from a warehouse that had it.\<close>

definition line_outcome :: "stockable_line \<Rightarrow> warehouse_info list \<Rightarrow> int \<Rightarrow> stock \<Rightarrow>
    plan_allocation list \<Rightarrow> int \<Rightarrow> stock \<Rightarrow> bool" where
  "line_outcome l ws needed st as n st' \<longleftrightarrow>
     n = max 0 (needed - joint_stock st ws (sl_product_id l)) \<and> total_allocated as + n = needed \<and>
     (\<forall>w p. st' w p = st w p - allocated_from as w p) \<and> stock_nonneg st' \<and>
     (\<forall>a\<in>set as. pa_line_id a = sl_line_id l \<and> pa_product_id a = sl_product_id l \<and>
        0 < pa_allocated_qty a \<and> pa_backorder_qty a = 0 \<and>
        (\<exists>w\<in>set ws. pa_warehouse_id a = Some (wi_warehouse_id w)))"

lemma take_stock_apply:
  "take_stock wid p q st w' p' = st w' p' - (if wid = w' \<and> p = p' then q else 0)"
  by (simp add: take_stock_def)

lemma joint_stock_take:
  "wid \<notin> wi_warehouse_id ` set ws \<Longrightarrow> joint_stock (take_stock wid p q st) ws p' = joint_stock st ws p'"
  by (induction ws) (auto simp: take_stock_apply)

lemma stock_nonneg_take: "stock_nonneg st \<Longrightarrow> q \<le> st wid p \<Longrightarrow> stock_nonneg (take_stock wid p q st)"
  by (auto simp: stock_nonneg_def take_stock_apply)

lemma line_outcome_skip:
  "line_outcome l ws needed st as n st' \<Longrightarrow> st (wi_warehouse_id w) (sl_product_id l) = 0 \<Longrightarrow>
     line_outcome l (w # ws) needed st as n st'"
  by (auto simp: line_outcome_def)

lemma line_outcome_take:
  assumes "line_outcome l ws (needed - q) (take_stock (wi_warehouse_id w) (sl_product_id l) q st) as n st'"
    and "st (wi_warehouse_id w) (sl_product_id l) = q" and "0 < q" and "q < needed"
    and "wi_warehouse_id w \<notin> wi_warehouse_id ` set ws"
  shows "line_outcome l (w # ws) needed st (allocation l w q # as) n st'"
  using assms
  by (auto simp: line_outcome_def joint_stock_take allocation_def total_allocated_def take_stock_apply)

lemma allocate_line_spec:
  "allocate_line l ws needed st = (as, n, st') \<Longrightarrow> 0 \<le> needed \<Longrightarrow> stock_nonneg st \<Longrightarrow>
     distinct (map wi_warehouse_id ws) \<Longrightarrow> line_outcome l ws needed st as n st'"
proof (induction l ws needed st arbitrary: as n st' rule: allocate_line.induct)
  case (1 l needed st)
  then show ?case by (simp add: line_outcome_def total_allocated_def)
next
  case (2 l w ws needed st)
  let ?av = "st (wi_warehouse_id w) (sl_product_id l)"
  have av: "0 \<le> ?av" using "2.prems"(3) by (simp add: stock_nonneg_def)
  have rest: "0 \<le> joint_stock st ws (sl_product_id l)" by (rule joint_stock_nonneg[OF "2.prems"(3)])
  consider (all) "0 < ?av" "0 < needed" "needed \<le> ?av" | (some) "0 < ?av" "?av < needed"
    | (done_) "needed = 0" | (none) "?av = 0" "needed \<noteq> 0"
    using av "2.prems"(2) by linarith
  then show ?case
  proof cases
    case all
    then have r: "as = [allocation l w needed]" "n = 0"
        "st' = take_stock (wi_warehouse_id w) (sl_product_id l) needed st"
      using "2.prems"(1) by (auto simp: Let_def min_def)
    have "stock_nonneg st'" using stock_nonneg_take[OF "2.prems"(3) all(3)] r(3) by simp
    moreover have "\<forall>w' p'. st' w' p' = st w' p' - allocated_from as w' p'"
      by (simp add: r take_stock_apply allocation_def)
    moreover have "n = max 0 (needed - joint_stock st (w # ws) (sl_product_id l))"
      using all rest by (simp add: r)
    ultimately show ?thesis unfolding line_outcome_def using all
      by (intro conjI; (assumption | simp add: r total_allocated_def allocation_def))
  next
    case some
    let ?st = "take_stock (wi_warehouse_id w) (sl_product_id l) ?av st"
    obtain as1 where as1: "allocate_line l ws (needed - ?av) ?st = (as1, n, st')"
        "as = allocation l w ?av # as1"
      using "2.prems"(1) some by (auto simp: Let_def min_def split: prod.splits if_splits)
    have "line_outcome l ws (needed - ?av) ?st as1 n st'"
      using "2.IH"(1)[of ?av ?av ?st as1 n st'] some "2.prems" as1(1)
      by (simp add: min_def stock_nonneg_take)
    from line_outcome_take[OF this] some "2.prems"(4) as1(2) show ?thesis by simp
  next
    case done_
    then show ?thesis using "2.prems" av rest by (auto simp: line_outcome_def total_allocated_def)
  next
    case none
    then have "allocate_line l ws needed st = (as, n, st')" using "2.prems"(1) by simp
    then have "line_outcome l ws needed st as n st'"
      using "2.IH"(2)[OF refl] none "2.prems" by simp
    then show ?thesis using none(1) by (rule line_outcome_skip)
  qed
qed

section \<open>All lines\<close>

lemma joint_stock_diff: "joint_stock (\<lambda>w p. a w p - b w p) ws p = joint_stock a ws p - joint_stock b ws p"
  by (induction ws) auto

lemma joint_allocated_other:
  "\<forall>a\<in>set as. pa_product_id a \<noteq> p \<Longrightarrow> allocated_from as w p = 0"
  by (induction as) auto

lemma joint_indicator:
  "distinct (map wi_warehouse_id ws) \<Longrightarrow> w0 \<in> set ws \<Longrightarrow>
     joint_stock (\<lambda>w p'. if w = wi_warehouse_id w0 then q else 0) ws p = q"
proof (induction ws)
  case (Cons w ws)
  have "joint_stock (\<lambda>w p'. if w = x then q else 0) ws p = 0" if "x \<notin> wi_warehouse_id ` set ws" for x
    using that by (induction ws) auto
  with Cons show ?case by (cases "w0 = w") (force simp: image_iff)+
qed simp

lemma joint_allocated:
  assumes "distinct (map wi_warehouse_id ws)"
  shows "\<forall>a\<in>set as. pa_product_id a = p \<and> (\<exists>w\<in>set ws. pa_warehouse_id a = Some (wi_warehouse_id w)) \<Longrightarrow>
    joint_stock (allocated_from as) ws p = total_allocated as"
proof (induction as)
  case Nil then show ?case by (induction ws) (auto simp: total_allocated_def)
next
  case (Cons a as)
  then obtain w0 where w0: "w0 \<in> set ws" "pa_warehouse_id a = Some (wi_warehouse_id w0)" "pa_product_id a = p"
    by auto
  have split: "joint_stock (allocated_from (a # as)) ws p =
      joint_stock (\<lambda>w p'. if w = wi_warehouse_id w0 then pa_allocated_qty a else 0) ws p +
      joint_stock (allocated_from as) ws p"
    using w0(2,3) by (induction ws) auto
  have "joint_stock (allocated_from as) ws p = total_allocated as" using Cons by simp
  then show ?case unfolding split joint_indicator[OF assms w0(1)] by (simp add: total_allocated_def)
qed

definition backordered :: "plan_allocation list \<Rightarrow> odoo_id \<Rightarrow> int" where
  "backordered bs pid = sum_list (map pa_backorder_qty (filter (\<lambda>b. pa_product_id b = pid) bs))"

definition line_total :: "plan_allocation list \<Rightarrow> plan_allocation list \<Rightarrow> odoo_id \<Rightarrow> int" where
  "line_total as bs i = sum_list (map pa_allocated_qty (filter (\<lambda>a. pa_line_id a = i) as)) +
                        sum_list (map pa_backorder_qty (filter (\<lambda>b. pa_line_id b = i) bs))"

definition plan_ok :: "warehouse_info list \<Rightarrow> stockable_line list \<Rightarrow> stock \<Rightarrow>
    plan_allocation list \<Rightarrow> plan_allocation list \<Rightarrow> stock \<Rightarrow> bool" where
  "plan_ok ws ls st as bs st' \<longleftrightarrow>
     (\<forall>p. backordered bs p = max 0 (line_demand ls p - joint_stock st ws p)) \<and>
     (\<forall>w p. st' w p = st w p - allocated_from as w p) \<and> stock_nonneg st' \<and>
     (\<forall>a\<in>set as. (\<exists>l\<in>set ls. pa_line_id a = sl_line_id l \<and> pa_product_id a = sl_product_id l) \<and>
        0 < pa_allocated_qty a \<and> pa_backorder_qty a = 0 \<and>
        (\<exists>w\<in>set ws. pa_warehouse_id a = Some (wi_warehouse_id w))) \<and>
     (\<forall>b\<in>set bs. (\<exists>l\<in>set ls. pa_line_id b = sl_line_id l \<and> pa_product_id b = sl_product_id l) \<and>
        pa_warehouse_id b = None \<and> pa_allocated_qty b = 0 \<and> 0 < pa_backorder_qty b) \<and>
     (distinct (map sl_line_id ls) \<longrightarrow> (\<forall>l\<in>set ls. line_total as bs (sl_line_id l) = sl_requested_qty l))"

lemma plan_ok_lines:
  "plan_ok ws ls st as bs st' \<Longrightarrow> a \<in> set as \<union> set bs \<Longrightarrow> pa_line_id a \<in> sl_line_id ` set ls"
  unfolding plan_ok_def by blast

lemma line_demand_nonneg: "\<forall>l\<in>set ls. 0 \<le> sl_requested_qty l \<Longrightarrow> 0 \<le> line_demand ls p"
  by (auto simp: line_demand_def intro!: sum_list_nonneg)

lemma line_demand_Cons [simp]:
  "line_demand (l # ls) p = (if sl_product_id l = p then sl_requested_qty l else 0) + line_demand ls p"
  by (simp add: line_demand_def)

lemma filter_line_total:
  "\<forall>a\<in>set as. pa_line_id a = i \<Longrightarrow> filter (\<lambda>a. pa_line_id a = j) as = (if i = j then as else [])"
  by (induction as) auto

lemma joint_after_line:
  assumes o: "line_outcome l ws needed st as n st1" and d: "distinct (map wi_warehouse_id ws)"
  shows "joint_stock st1 ws p = joint_stock st ws p -
           (if sl_product_id l = p then total_allocated as else 0)"
proof -
  have st1: "st1 = (\<lambda>w p. st w p - allocated_from as w p)" using o by (auto simp: line_outcome_def)
  have "joint_stock (allocated_from as) ws p = (if sl_product_id l = p then total_allocated as else 0)"
  proof (cases "sl_product_id l = p")
    case True
    with o show ?thesis by (auto simp: line_outcome_def intro!: joint_allocated[OF d])
  next
    case False
    with o have "allocated_from as w p = 0" for w
      by (intro joint_allocated_other) (auto simp: line_outcome_def)
    then have "joint_stock (allocated_from as) ws p = 0" by (induction ws) auto
    with False show ?thesis by simp
  qed
  then show ?thesis unfolding st1 joint_stock_diff by simp
qed

lemma allocate_lines_spec:
  assumes d: "distinct (map wi_warehouse_id ws)"
  shows "allocate_lines ws ls st = (as, bs, st') \<Longrightarrow> \<forall>l\<in>set ls. 0 < sl_requested_qty l \<Longrightarrow>
    stock_nonneg st \<Longrightarrow> plan_ok ws ls st as bs st'"
proof (induction ls arbitrary: st as bs st')
  case Nil
  then show ?case
    using joint_stock_nonneg[OF Nil.prems(3)]
    by (auto simp: plan_ok_def backordered_def line_demand_def max_def intro!: antisym)
next
  case (Cons l ls)
  obtain as1 n st1 as2 bs2 where
      1: "allocate_line l ws (sl_requested_qty l) st = (as1, n, st1)" and
      2: "allocate_lines ws ls st1 = (as2, bs2, st')" and
      r: "as = as1 @ as2" "bs = (if 0 < n then [backorder l n] else []) @ bs2"
    using Cons.prems(1) by (auto simp: Let_def split: prod.splits)
  have o: "line_outcome l ws (sl_requested_qty l) st as1 n st1"
    using allocate_line_spec[OF 1] Cons.prems d by auto
  have IH: "plan_ok ws ls st1 as2 bs2 st'"
    using Cons.IH[OF 2] Cons.prems o by (auto simp: line_outcome_def)
  have n: "0 \<le> n" "total_allocated as1 + n = sl_requested_qty l"
      "n = max 0 (sl_requested_qty l - joint_stock st ws (sl_product_id l))"
    using o by (auto simp: line_outcome_def)
  have D: "0 \<le> line_demand ls p" for p using Cons.prems by (intro line_demand_nonneg) auto
  have "backordered bs p = max 0 (line_demand (l # ls) p - joint_stock st ws p)" for p
  proof -
    have "backordered bs p = (if sl_product_id l = p then n else 0) + backordered bs2 p"
      using n(1) by (auto simp: r(2) backordered_def backorder_def)
    also have "backordered bs2 p = max 0 (line_demand ls p - joint_stock st1 ws p)"
      using IH by (simp add: plan_ok_def)
    finally show ?thesis
      unfolding joint_after_line[OF o d] using n D[of p] joint_stock_nonneg[OF Cons.prems(3), of ws p]
      by auto
  qed
  moreover have "st' w p = st w p - allocated_from as w p" for w p
    using o IH by (simp add: line_outcome_def plan_ok_def r(1))
  moreover have "line_total as bs (sl_line_id k) = sl_requested_qty k"
    if dl: "distinct (map sl_line_id (l # ls))" and k: "k \<in> set (l # ls)" for k
  proof -
    have f1: "filter (\<lambda>a. pa_line_id a = j) as1 = (if sl_line_id l = j then as1 else [])" for j
      using o by (intro filter_line_total) (auto simp: line_outcome_def)
    have f2: "line_total as bs j = (if sl_line_id l = j then total_allocated as1 + n else 0) +
        line_total as2 bs2 j" for j
      using n(1) by (auto simp: line_total_def r f1 total_allocated_def backorder_def)
    have z: "line_total as2 bs2 (sl_line_id l) = 0"
    proof -
      have "pa_line_id a \<noteq> sl_line_id l" if "a \<in> set as2 \<union> set bs2" for a
        using plan_ok_lines[OF IH that] dl by auto
      then have "filter (\<lambda>a. pa_line_id a = sl_line_id l) as2 = []"
          "filter (\<lambda>b. pa_line_id b = sl_line_id l) bs2 = []"
        by (simp_all add: filter_empty_conv)
      then show ?thesis by (simp add: line_total_def)
    qed
    have "line_total as2 bs2 (sl_line_id k) = sl_requested_qty k" if "k \<in> set ls"
      using that IH dl by (simp add: plan_ok_def)
    with k dl z n(2) show ?thesis unfolding f2 by (auto simp: image_iff)
  qed
  moreover have "stock_nonneg st'" using IH by (simp add: plan_ok_def)
  moreover have "\<forall>a\<in>set as. (\<exists>l\<in>set (l # ls). pa_line_id a = sl_line_id l \<and> pa_product_id a = sl_product_id l) \<and>
        0 < pa_allocated_qty a \<and> pa_backorder_qty a = 0 \<and>
        (\<exists>w\<in>set ws. pa_warehouse_id a = Some (wi_warehouse_id w))"
    using o IH unfolding r line_outcome_def plan_ok_def by auto
  moreover have "\<forall>b\<in>set bs.
        (\<exists>k\<in>set (l # ls). pa_line_id b = sl_line_id k \<and> pa_product_id b = sl_product_id k) \<and>
        pa_warehouse_id b = None \<and> pa_allocated_qty b = 0 \<and> 0 < pa_backorder_qty b"
    using IH unfolding r plan_ok_def by (auto simp: backorder_def)
  ultimately show ?case unfolding plan_ok_def by blast
qed

section \<open>No strategy leaves stock behind\<close>

definition choice_ok :: "stock \<Rightarrow> (odoo_id \<Rightarrow> int) \<Rightarrow> warehouse_info list \<Rightarrow> warehouse_info list \<Rightarrow> bool" where
  "choice_ok av D ws chosen \<longleftrightarrow> mset chosen \<subseteq># mset ws \<and>
     (\<forall>p. min (D p) (joint_stock av chosen p) = min (D p) (joint_stock av ws p))"

lemma joint_stock_sub:
  assumes "stock_nonneg av" and "mset s \<subseteq># mset ws"
  shows "joint_stock av s p \<le> joint_stock av ws p"
proof -
  obtain ys where "mset ws - mset s = mset ys" using ex_mset by metis
  then have "mset ws = mset (s @ ys)" using assms(2) by (metis mset_append subset_mset.add_diff_inverse)
  then have "joint_stock av ws p = joint_stock av (s @ ys) p" by (rule joint_stock_mset)
  then show ?thesis using joint_stock_nonneg[OF assms(1), of ys p] by simp
qed

lemma choice_ok_self: "choice_ok av D ws ws"
  by (simp add: choice_ok_def)

lemma choice_ok_covers:
  assumes "stock_nonneg av" and "distinct (map fst demand)" and "mset s \<subseteq># mset ws" and "can_cover av demand s"
  shows "choice_ok av (demand_of demand) ws s"
proof -
  have "demand_of demand p \<le> joint_stock av s p" for p
    using assms(4) can_cover_iff[OF assms(2,1)] by blast
  then show ?thesis using joint_stock_sub[OF assms(1,3)] assms(3)
    by (auto simp: choice_ok_def min_def intro: order_trans)
qed

lemma combinations_sub: "s \<in> set (combinations k xs) \<Longrightarrow> mset s \<subseteq># mset xs \<and> length s = k"
proof (induction k xs arbitrary: s rule: combinations.induct)
  case (3 k x xs)
  then consider s' where "s = x # s'" "s' \<in> set (combinations k xs)" | "s \<in> set (combinations (Suc k) xs)"
    by auto
  then show ?case
  proof cases
    case 1 with "3.IH"(1)[of s'] show ?thesis by simp
  next
    case 2
    with "3.IH"(2) have "mset s \<subseteq># mset xs" "length s = Suc k" by auto
    moreover have "mset xs \<subseteq># mset (x # xs)" by simp
    ultimately show ?thesis using subset_mset.order_trans by blast
  qed
qed simp_all

lemma find_SomeD: "find P xs = Some x \<Longrightarrow> x \<in> set xs \<and> P x"
  by (auto simp: find_Some_iff)

lemma covering_subset_Some:
  "covering_subset av demand ws k = Some s \<Longrightarrow>
     mset s \<subseteq># mset ws \<and> length s = k \<and> can_cover av demand s"
  using combinations_sub[of s k ws]
    find_SomeD[of "can_cover av demand" "sort_key subset_key (combinations k ws)" s]
  by (simp add: covering_subset_def)

lemma search_sizes_Some:
  "search_sizes av demand ws ks = Some s \<Longrightarrow>
     mset s \<subseteq># mset ws \<and> can_cover av demand s \<and> length s \<in> set ks"
  by (induction ks) (auto dest: covering_subset_Some split: option.splits)

lemma exhaustive_choice_ok:
  assumes "stock_nonneg av" and "distinct (map fst demand)"
  shows "choice_ok av (demand_of demand) ws (exhaustive_choice av demand ws)"
proof (cases "search_sizes av demand ws [2..<length ws + 1]")
  case (Some s)
  with search_sizes_Some[OF Some] choice_ok_covers[OF assms] show ?thesis
    by (simp add: exhaustive_choice_def)
next
  case None
  let ?P = "\<lambda>w. list_ex (\<lambda>(pid, _). 0 < av (wi_warehouse_id w) pid) demand"
  have "min (demand_of demand p) (joint_stock av (filter ?P ws) p) = min (demand_of demand p) (joint_stock av ws p)" for p
  proof (cases "p \<in> fst ` set demand")
    case True
    have "joint_stock av (filter ?P ws) p = joint_stock av ws p"
    proof (rule joint_stock_filter_zero)
      fix w assume "\<not> ?P w"
      with True have "av (wi_warehouse_id w) p \<le> 0" by (fastforce simp: list_ex_iff)
      moreover have "0 \<le> av (wi_warehouse_id w) p" using assms(1) by (simp add: stock_nonneg_def)
      ultimately show "av (wi_warehouse_id w) p = 0" by simp
    qed
    then show ?thesis by simp
  next
    case False
    then have "demand_of demand p = 0" by (simp add: demand_of_def map_of_eq_None_iff[symmetric])
    then show ?thesis using joint_stock_nonneg[OF assms(1)] by (simp add: min_def)
  qed
  with None show ?thesis
    by (auto simp: exhaustive_choice_def choice_ok_def Let_def multiset_filter_subset)
qed

lemma map_of_reduce:
  "map_of (map (\<lambda>(pid, r). (pid, f pid r)) d) p = map_option (f p) (map_of d p)"
  by (induction d) auto

lemma coverage_gain_zero:
  assumes "stock_nonneg av" and "\<forall>e\<in>set remaining. 0 \<le> snd e" and "coverage_gain av remaining w \<le> 0"
    and "(p, r) \<in> set remaining" and "0 < r"
  shows "av (wi_warehouse_id w) p = 0"
proof -
  let ?xs = "map (\<lambda>(pid, r). min (av (wi_warehouse_id w) pid) r) remaining"
  have nn: "\<And>x. x \<in> set ?xs \<Longrightarrow> 0 \<le> x" using assms(1,2) by (auto simp: stock_nonneg_def)
  have "0 \<le> sum_list ?xs" by (rule sum_list_nonneg) (rule nn)
  then have "sum_list ?xs = 0" using assms(3) by (simp add: coverage_gain_def)
  then have "\<forall>x\<in>set ?xs. x = 0" using sum_list_nonneg_eq_0_iff[OF nn] by blast
  then have "min (av (wi_warehouse_id w) p) r = 0" using assms(4) by force
  with assms(5) show ?thesis by (auto simp: min_def split: if_splits)
qed

lemma best_of_gain:
  assumes "w \<in> set pool"
  shows "coverage_gain av remaining w \<le> coverage_gain av remaining (best_of av remaining pool)"
proof -
  have "greedy_key av remaining w \<le> greedy_key av remaining (best_of av remaining pool)"
    unfolding best_of_def using assms by (intro first_max_ge) (cases pool, auto)
  then show ?thesis by (auto simp: greedy_key_def less_eq_prod_def)
qed

definition greedy_ok :: "stock \<Rightarrow> (odoo_id \<Rightarrow> int) \<Rightarrow> (odoo_id \<times> int) list \<Rightarrow> warehouse_info list \<Rightarrow> bool" where
  "greedy_ok av D remaining selected \<longleftrightarrow> distinct (map fst remaining) \<and>
     (\<forall>p. demand_of remaining p = max 0 (D p - joint_stock av selected p))"

lemma greedy_ok_nonneg: "greedy_ok av D remaining selected \<Longrightarrow> e \<in> set remaining \<Longrightarrow> 0 \<le> snd e"
  by (cases e) (auto simp: greedy_ok_def demand_of_def dest!: spec[of _ "fst e"])

lemma shrink_demand: "0 \<le> a \<Longrightarrow> max 0 x - min a (max 0 x) = max 0 (x - a :: int)"
  by (auto simp: max_def min_def)

lemma greedy_ok_step:
  assumes "stock_nonneg av" and "greedy_ok av D remaining selected"
  shows "greedy_ok av D (reduce_demand av w remaining) (selected @ [w])"
proof -
  have "map fst (reduce_demand av w remaining) = map fst remaining"
    by (simp add: reduce_demand_def comp_def case_prod_unfold)
  moreover have "demand_of (reduce_demand av w remaining) p =
      demand_of remaining p - min (av (wi_warehouse_id w) p) (demand_of remaining p)" for p
    using assms(1)
    by (auto simp: demand_of_def reduce_demand_def map_of_reduce stock_nonneg_def min_def
        intro!: antisym split: option.split)
  moreover have "0 \<le> av (wi_warehouse_id w) p" for p using assms(1) by (simp add: stock_nonneg_def)
  ultimately show ?thesis using assms(2)
    by (simp add: greedy_ok_def shrink_demand diff_diff_eq)
qed

lemma greedy_stop:
  assumes "stock_nonneg av" and "greedy_ok av D remaining selected" and "mset (selected @ pool) = mset ws"
    and dry: "\<And>p r. (p, r) \<in> set remaining \<Longrightarrow> 0 < r \<Longrightarrow> joint_stock av pool p = 0"
  shows "choice_ok av D ws selected"
proof -
  have T: "joint_stock av ws p = joint_stock av selected p + joint_stock av pool p" for p
    using joint_stock_mset[OF assms(3), of av p] by simp
  have "min (D p) (joint_stock av selected p) = min (D p) (joint_stock av ws p)" for p
  proof (cases "D p \<le> joint_stock av selected p")
    case True
    then show ?thesis using T[of p] joint_stock_nonneg[OF assms(1), of pool p] by simp
  next
    case False
    then have "0 < demand_of remaining p" using assms(2) by (simp add: greedy_ok_def)
    then obtain r where "map_of remaining p = Some r" "0 < r"
      by (auto simp: demand_of_def split: option.splits)
    then have "joint_stock av pool p = 0" by (intro dry) (auto dest: map_of_SomeD)
    then show ?thesis using T[of p] by simp
  qed
  moreover have "mset selected \<subseteq># mset ws" unfolding assms(3)[symmetric] by simp
  ultimately show ?thesis by (simp add: choice_ok_def)
qed

lemma greedy_loop_ok:
  "stock_nonneg av \<Longrightarrow> greedy_ok av D remaining selected \<Longrightarrow> mset (selected @ pool) = mset ws \<Longrightarrow>
     choice_ok av D ws (greedy_loop av remaining pool selected)"
proof (induction av remaining pool selected rule: greedy_loop.induct)
  case (1 av remaining pool selected)
  let ?b = "best_of av remaining pool"
  note unfold = greedy_loop.simps[of av remaining pool selected]
  consider (go) "list_ex (\<lambda>(_, r). 0 < r) remaining" "pool \<noteq> []" "coverage_gain av remaining ?b \<noteq> 0"
    | (dry) "coverage_gain av remaining ?b = 0" "pool \<noteq> []"
    | (done_) "\<not> (list_ex (\<lambda>(_, r). 0 < r) remaining \<and> pool \<noteq> [])"
    by blast
  then show ?case
  proof cases
    case go
    then have eq: "greedy_loop av remaining pool selected =
        greedy_loop av (reduce_demand av ?b remaining) (remove1 ?b pool) (selected @ [?b])"
      by (simp add: unfold Let_def)
    have "mset ((selected @ [?b]) @ remove1 ?b pool) = mset ws"
      using "1.prems"(3) best_of_in[OF go(2), of av remaining] by simp
    with greedy_ok_step[OF "1.prems"(1,2), of ?b] show ?thesis
      unfolding eq using go "1.prems"(1) by (intro "1.IH") auto
  next
    case dry
    then have eq: "greedy_loop av remaining pool selected = selected" by (simp add: unfold)
    show ?thesis unfolding eq
    proof (rule greedy_stop[OF "1.prems"])
      fix p r assume pr: "(p, r) \<in> set remaining" "0 < r"
      have "av (wi_warehouse_id w) p = 0" if "w \<in> set pool" for w
        using coverage_gain_zero[OF "1.prems"(1) _ _ pr] greedy_ok_nonneg[OF "1.prems"(2)]
          best_of_gain[OF that, of av remaining] dry(1) by auto
      then show "joint_stock av pool p = 0" by (induction pool) auto
    qed
  next
    case done_
    then have eq: "greedy_loop av remaining pool selected = selected" by (subst unfold) (rule if_not_P)
    show ?thesis unfolding eq
      by (rule greedy_stop[OF "1.prems"]) (use done_ in \<open>auto simp: list_ex_iff\<close>)
  qed
qed

lemma greedy_choice_ok:
  assumes "stock_nonneg av" and "distinct (map fst demand)" and "\<forall>p. 0 \<le> demand_of demand p"
  shows "choice_ok av (demand_of demand) ws (greedy_choice av demand ws)"
proof -
  have "greedy_ok av (demand_of demand) demand []" using assms(2,3) by (simp add: greedy_ok_def)
  from greedy_loop_ok[OF assms(1) this, of ws ws] choice_ok_self[of av "demand_of demand" ws]
  show ?thesis by (simp add: greedy_choice_def Let_def)
qed

lemma choose_warehouses_ok:
  assumes "stock_nonneg av" and "distinct (map fst demand)" and "\<forall>p. 0 \<le> demand_of demand p"
  shows "choice_ok av (demand_of demand) ws (snd (choose_warehouses av demand ws force))"
proof (cases "if force \<noteq> Some GREEDY \<and> force \<noteq> Some EXHAUSTIVE then full_coverage av demand ws else []")
  case Nil
  with greedy_choice_ok[OF assms] exhaustive_choice_ok[OF assms(1,2)] show ?thesis
    by (simp add: choose_warehouses_def)
next
  case (Cons w rest)
  let ?m = "first_min warehouse_key w rest"
  have "?m \<in> set (full_coverage av demand ws)"
    using Cons first_min_in[of warehouse_key w rest] by (auto split: if_splits)
  then have "?m \<in> set ws" "can_cover av demand [?m]" by (auto simp: full_coverage_def)
  with choice_ok_covers[OF assms(1,2), of "[?m]" ws] Cons show ?thesis
    by (simp add: choose_warehouses_def)
qed

section \<open>The plan\<close>

lemma mset_sub_distinct:
  assumes "mset xs \<subseteq># mset ys" and "distinct (map f ys)"
  shows "distinct (map f xs)"
proof -
  have "mset (map f xs) \<subseteq># mset (map f ys)" using assms(1) by (simp add: image_mset_subseteq_mono)
  then obtain zs where "mset (map f ys) = mset (map f xs @ zs)"
    by (metis ex_mset mset_append subset_mset.add_diff_inverse)
  then have "distinct (map f xs @ zs)" using assms(2) mset_eq_imp_distinct_iff by blast
  then show ?thesis by simp
qed

lemma calculate_plan_cases:
  assumes "distinct (map wi_warehouse_id (active_warehouses whs))"
  obtains (empty) "positive_lines ls = []"
      "fcr_backorders (calculate_fulfillment_plan ls whs av force) = []"
      "fcr_allocations (calculate_fulfillment_plan ls whs av force) = []"
  | (idle) "active_warehouses whs = []"
      "fcr_backorders (calculate_fulfillment_plan ls whs av force) =
         map (\<lambda>l. backorder l (sl_requested_qty l)) (positive_lines ls)"
      "fcr_allocations (calculate_fulfillment_plan ls whs av force) = []"
  | (plan) chosen st' where
      "choice_ok (get_avail av) (line_demand (positive_lines ls)) (active_warehouses whs) chosen"
      "plan_ok chosen (positive_lines ls) (get_avail av)
         (fcr_allocations (calculate_fulfillment_plan ls whs av force))
         (fcr_backorders (calculate_fulfillment_plan ls whs av force)) st'"
proof (cases "positive_lines ls = [] \<or> active_warehouses whs = []")
  case True
  then show ?thesis using empty idle by (auto simp: calculate_fulfillment_plan_def Let_def)
next
  case False
  let ?v = "positive_lines ls" and ?ws = "sort_key warehouse_key (active_warehouses whs)"
  obtain strat ch0 where ch0: "choose_warehouses (get_avail av) (total_demand ?v) ?ws force = (strat, ch0)"
    by force
  define chosen where "chosen = sort_key warehouse_key ch0"
  obtain as bs st' where pl: "allocate_lines chosen ?v (get_avail av) = (as, bs, st')"
    by (cases "allocate_lines chosen ?v (get_avail av)") auto
  have nn: "stock_nonneg (get_avail av)" by (simp add: stock_nonneg_def)
  have pos: "\<forall>l\<in>set ?v. 0 < sl_requested_qty l" by (simp add: positive_lines_def)
  have D: "demand_of (total_demand ?v) = line_demand ?v" by (rule ext) simp
  have "choice_ok (get_avail av) (line_demand ?v) ?ws ch0"
    using choose_warehouses_ok[OF nn distinct_total_demand, of ?v ?ws force] pos
    by (simp add: D ch0 line_demand_nonneg less_imp_le)
  then have c: "choice_ok (get_avail av) (line_demand ?v) (active_warehouses whs) chosen"
    using joint_stock_mset[of chosen ch0] joint_stock_mset[of ?ws "active_warehouses whs"]
    by (simp add: choice_ok_def chosen_def)
  then have "distinct (map wi_warehouse_id chosen)"
    using mset_sub_distinct assms by (auto simp: choice_ok_def)
  from allocate_lines_spec[OF this pl pos nn] plan[OF c] False ch0 pl show ?thesis
    by (simp add: calculate_fulfillment_plan_def Let_def chosen_def[symmetric])
qed

lemma backordered_all:
  "backordered (map (\<lambda>l. backorder l (sl_requested_qty l)) ls) p = line_demand ls p"
  by (induction ls) (auto simp: backordered_def backorder_def line_demand_def)

text \<open>
  The planner leaves no stock behind: whatever strategy it takes or is told to take, the quantity
  of a product on backorder is exactly the demand that all active warehouses together cannot supply,
  so nothing is on backorder if they hold enough.
\<close>

theorem plan_backorders_exact:
  assumes "distinct (map wi_warehouse_id (active_warehouses whs))"
  shows "backordered (fcr_backorders (calculate_fulfillment_plan ls whs av force)) p =
           max 0 (line_demand (positive_lines ls) p - joint_stock (get_avail av) (active_warehouses whs) p)"
proof -
  have D: "0 \<le> line_demand (positive_lines ls) p"
    by (intro line_demand_nonneg) (auto simp: positive_lines_def)
  have J: "0 \<le> joint_stock (get_avail av) (active_warehouses whs) p"
    by (rule joint_stock_nonneg) (simp add: stock_nonneg_def)
  from assms show ?thesis
  proof (cases rule: calculate_plan_cases[of whs ls av force])
    case empty then show ?thesis using J by (simp add: backordered_def line_demand_def)
  next
    case idle then show ?thesis using D by (simp add: backordered_all)
  next
    case (plan chosen st')
    then have "min (line_demand (positive_lines ls) p) (joint_stock (get_avail av) chosen p) =
        min (line_demand (positive_lines ls) p) (joint_stock (get_avail av) (active_warehouses whs) p)"
      by (simp add: choice_ok_def)
    then show ?thesis using plan(2) by (auto simp: plan_ok_def min_def max_def split: if_splits)
  qed
qed

lemma plan_quantities:
  assumes "distinct (map wi_warehouse_id (active_warehouses whs))"
    and "distinct (map sl_line_id (positive_lines ls))"
  shows "(\<forall>l\<in>set (positive_lines ls).
            line_total (fcr_allocations (calculate_fulfillment_plan ls whs av force))
              (fcr_backorders (calculate_fulfillment_plan ls whs av force)) (sl_line_id l) = sl_requested_qty l) \<and>
         (\<forall>a\<in>set (fcr_allocations (calculate_fulfillment_plan ls whs av force)). 0 < pa_allocated_qty a \<and>
            (\<exists>w\<in>set (active_warehouses whs). pa_warehouse_id a = Some (wi_warehouse_id w))) \<and>
         (\<forall>w p. allocated_from (fcr_allocations (calculate_fulfillment_plan ls whs av force)) w p \<le> get_avail av w p)"
  using assms(1)
proof (cases rule: calculate_plan_cases[of whs ls av force])
  case empty then show ?thesis by simp
next
  case idle
  have "line_total [] (map (\<lambda>l. backorder l (sl_requested_qty l)) xs) (sl_line_id l) = sl_requested_qty l"
    if "distinct (map sl_line_id xs)" "l \<in> set xs" for l xs
  proof -
    have "filter (\<lambda>b. pa_line_id b = sl_line_id l) (map (\<lambda>l. backorder l (sl_requested_qty l)) xs) =
        [backorder l (sl_requested_qty l)]"
      using that by (induction xs) (auto simp: backorder_def filter_empty_conv image_iff)
    then show ?thesis by (simp add: line_total_def) (simp add: backorder_def)
  qed
  with idle assms(2) show ?thesis by simp
next
  case (plan chosen st')
  have sub: "set chosen \<subseteq> set (active_warehouses whs)"
    using plan(1) set_mset_mono by (fastforce simp: choice_ok_def)
  have "allocated_from (fcr_allocations (calculate_fulfillment_plan ls whs av force)) w p \<le> get_avail av w p" for w p
  proof -
    have "0 \<le> st' w p" "st' w p = get_avail av w p -
        allocated_from (fcr_allocations (calculate_fulfillment_plan ls whs av force)) w p"
      using plan(2) unfolding plan_ok_def stock_nonneg_def by blast+
    then show ?thesis by linarith
  qed
  then show ?thesis using plan(2) assms(2) sub unfolding plan_ok_def by blast
qed

text \<open>
  C27: The plan conserves quantities and respects stock: for every line of positive quantity, what is
  allocated and what is on backorder add up to the quantity requested; every allocation is positive
  and comes from an active warehouse; and no warehouse gives more of a product than it has.
\<close>

theorem plan_conserves_quantities:
  assumes "distinct (map wi_warehouse_id (active_warehouses whs))"
    and "distinct (map sl_line_id (positive_lines ls))"
  shows "(\<forall>l\<in>set (positive_lines ls).
            line_total (fcr_allocations (calculate_fulfillment_plan ls whs av force))
              (fcr_backorders (calculate_fulfillment_plan ls whs av force)) (sl_line_id l) = sl_requested_qty l) \<and>
         (\<forall>a\<in>set (fcr_allocations (calculate_fulfillment_plan ls whs av force)). 0 < pa_allocated_qty a \<and>
            (\<exists>w\<in>set (active_warehouses whs). pa_warehouse_id a = Some (wi_warehouse_id w))) \<and>
         (\<forall>w p. allocated_from (fcr_allocations (calculate_fulfillment_plan ls whs av force)) w p \<le> get_avail av w p)"
  by (rule plan_quantities[OF assms])

definition depot :: "odoo_id \<Rightarrow> dec \<Rightarrow> warehouse_info" where
  "depot i c = \<lparr>wi_warehouse_id = i, wi_name = ''W'', wi_shipping_cost_weight = c, wi_priority = 1,
     wi_active = True\<rparr>"

definition order_row :: "odoo_id \<Rightarrow> odoo_id \<Rightarrow> int \<Rightarrow> stockable_line" where
  "order_row i p q = \<lparr>sl_line_id = i, sl_product_id = p, sl_requested_qty = q\<rparr>"

theorem plan_backorders_exact_witness:
  "backordered (fcr_backorders (calculate_fulfillment_plan [order_row 1 101 20] [depot 1 1, depot 2 2]
     [(101, [(1, 8), (2, 5)])] None)) 101 = 7"
  using plan_backorders_exact[of "[depot 1 1, depot 2 2]" "[order_row 1 101 20]" "[(101, [(1, 8), (2, 5)])]" None 101]
  by (simp add: depot_def order_row_def active_warehouses_def positive_lines_def get_avail_def line_demand_def)

theorem plan_conserves_quantities_witness:
  "line_total (fcr_allocations (calculate_fulfillment_plan [order_row 1 101 9] [depot 1 1, depot 2 2]
       [(101, [(1, 8), (2, 5)])] (Some GREEDY)))
     (fcr_backorders (calculate_fulfillment_plan [order_row 1 101 9] [depot 1 1, depot 2 2]
       [(101, [(1, 8), (2, 5)])] (Some GREEDY))) 1 = 9"
  using plan_conserves_quantities[of "[depot 1 1, depot 2 2]" "[order_row 1 101 9]" "[(101, [(1, 8), (2, 5)])]" "Some GREEDY"]
  by (simp add: depot_def order_row_def active_warehouses_def positive_lines_def)

section \<open>Fewest shipments\<close>

lemma combinations_complete: "subseq s xs \<Longrightarrow> s \<in> set (combinations (length s) xs)"
proof (induction s xs rule: list_emb.induct)
  case (list_emb_Cons s xs y)
  then show ?case by (cases s) auto
qed auto

lemma can_cover_mset: "mset xs = mset ys \<Longrightarrow> can_cover av d xs = can_cover av d ys"
  unfolding can_cover_def using joint_stock_mset[of xs ys] by simp

lemma covering_subset_exists:
  assumes "subseq s ws" and "can_cover av demand s"
  shows "covering_subset av demand ws (length s) \<noteq> None"
  using combinations_complete[OF assms(1)] assms(2) by (auto simp: covering_subset_def find_None_iff)

lemma search_sizes_first:
  "sorted ks \<Longrightarrow> k \<in> set ks \<Longrightarrow> covering_subset av demand ws k \<noteq> None \<Longrightarrow>
     \<exists>s. search_sizes av demand ws ks = Some s \<and> length s \<le> k"
proof (induction ks)
  case (Cons j ks)
  show ?case
  proof (cases "covering_subset av demand ws j")
    case None with Cons show ?thesis by auto
  next
    case (Some s)
    with covering_subset_Some[OF Some] Cons.prems(1,2) show ?thesis by auto
  qed
qed simp

lemma exhaustive_choice_minimal:
  assumes "subseq s ws" and "can_cover av demand s" and "2 \<le> length s"
  shows "length (exhaustive_choice av demand ws) \<le> length s"
proof -
  have "length s \<in> set [2..<length ws + 1]" using assms(3) list_emb_length[OF assms(1)] by auto
  then obtain s' where "search_sizes av demand ws [2..<length ws + 1] = Some s'" "length s' \<le> length s"
    using search_sizes_first[OF sorted_upt _ covering_subset_exists[OF assms(1,2)]] by blast
  then show ?thesis unfolding exhaustive_choice_def by simp
qed

lemma choose_warehouses_minimal:
  assumes "subseq s ws" and "can_cover av demand s" and "s \<noteq> []" and "length ws \<le> 6"
  shows "length (snd (choose_warehouses av demand ws None)) \<le> length s"
proof (cases "full_coverage av demand ws")
  case Nil
  have "length s \<noteq> 1"
  proof
    assume "length s = 1"
    then obtain w where "s = [w]" by (auto simp: length_Suc_conv)
    with assms(1,2) Nil show False
      by (auto simp: full_coverage_def filter_empty_conv subseq_singleton_left)
  qed
  then have "2 \<le> length s" using assms(3) by (cases s) (auto simp: Suc_le_eq)
  from exhaustive_choice_minimal[OF assms(1,2) this] Nil assms(4) show ?thesis
    by (simp add: choose_warehouses_def)
next
  case (Cons w rest)
  then show ?thesis using assms(3) by (cases s) (simp_all add: choose_warehouses_def)
qed

lemma used_warehouses_acc:
  fixes add :: "odoo_id list \<Rightarrow> plan_allocation \<Rightarrow> odoo_id list"
  assumes "add = (\<lambda>used a. case pa_warehouse_id a of None \<Rightarrow> used
     | Some wid \<Rightarrow> if wid \<in> set used then used else used @ [wid])"
  shows "distinct used \<Longrightarrow> distinct (foldl add used as) \<and>
    set (foldl add used as) = set used \<union> {w. \<exists>a\<in>set as. pa_warehouse_id a = Some w}"
proof (induction as arbitrary: used)
  case (Cons a as)
  have "distinct (add used a)" "set (add used a) = set used \<union> {w. pa_warehouse_id a = Some w}"
    using Cons.prems by (auto simp: assms split: option.split)
  with Cons.IH[of "add used a"] show ?case by auto
qed simp

lemma used_warehouses_ok:
  "distinct (used_warehouses as)" "set (used_warehouses as) = {w. \<exists>a\<in>set as. pa_warehouse_id a = Some w}"
  using used_warehouses_acc[OF refl, of "[]" as] by (simp_all add: used_warehouses_def)

lemma used_warehouses_length:
  assumes "\<forall>a\<in>set as. \<exists>w\<in>set ws. pa_warehouse_id a = Some (wi_warehouse_id w)"
  shows "length (used_warehouses as) \<le> length ws"
proof -
  have "set (used_warehouses as) \<subseteq> set (map wi_warehouse_id ws)"
    using assms by (force simp: used_warehouses_ok(2))
  then have "card (set (used_warehouses as)) \<le> card (set (map wi_warehouse_id ws))"
    by (intro card_mono) auto
  then show ?thesis
    using card_length[of "map wi_warehouse_id ws"] distinct_card[OF used_warehouses_ok(1)[of as]] by simp
qed

text \<open>
  C28: With at most six active warehouses and no strategy forced, no selection of active warehouses
  that could serve the whole order is smaller than the plan: the planned number of shipments is at
  most the size of any such selection.
\<close>

theorem plan_fewest_shipments:
  assumes "distinct (map wi_warehouse_id (active_warehouses whs))"
    and "length (active_warehouses whs) \<le> 6"
    and "can_cover (get_avail av) (total_demand (positive_lines ls)) (filter P (active_warehouses whs))"
  shows "fcr_estimated_shipments (calculate_fulfillment_plan ls whs av None) \<le>
           int (length (filter P (active_warehouses whs)))"
proof (cases "positive_lines ls = [] \<or> active_warehouses whs = []")
  case True
  then show ?thesis by (auto simp: calculate_fulfillment_plan_def Let_def)
next
  case False
  let ?v = "positive_lines ls" and ?ws = "sort_key warehouse_key (active_warehouses whs)"
  let ?d = "total_demand ?v" and ?av = "get_avail av"
  let ?s = "filter P ?ws"
  have nn: "stock_nonneg ?av" by (simp add: stock_nonneg_def)
  have pos: "\<forall>l\<in>set ?v. 0 < sl_requested_qty l" by (simp add: positive_lines_def)
  have ms: "mset ?s = mset (filter P (active_warehouses whs))" by simp
  have cov: "can_cover ?av ?d ?s" using can_cover_mset[OF ms] assms(3) by blast
  have "?s \<noteq> []"
  proof
    assume "?s = []"
    then have "can_cover ?av ?d []" using cov by (simp only:)
    then have le: "line_demand ?v p \<le> 0" for p
      using can_cover_iff[OF distinct_total_demand nn, of ?v "[]"] by simp
    obtain l ls' where v: "?v = l # ls'" using False by (cases ?v) auto
    have "0 \<le> line_demand ls' (sl_product_id l)"
      using pos by (intro line_demand_nonneg) (auto simp: v)
    then show False using le[of "sl_product_id l"] pos by (auto simp: v)
  qed
  moreover have "length ?ws \<le> 6" using assms(2) by simp
  moreover obtain strat ch0 where ch0: "choose_warehouses ?av ?d ?ws None = (strat, ch0)"
    by force
  ultimately have len: "length ch0 \<le> length ?s"
    using choose_warehouses_minimal[OF subseq_filter_left cov] by simp
  define chosen where "chosen = sort_key warehouse_key ch0"
  obtain as bs st' where pl: "allocate_lines chosen ?v ?av = (as, bs, st')"
    by (cases "allocate_lines chosen ?v ?av") auto
  have "demand_of ?d = line_demand ?v" by (rule ext) simp
  then have "choice_ok ?av (line_demand ?v) ?ws ch0"
    using choose_warehouses_ok[OF nn distinct_total_demand, of ?v ?ws None] pos
    by (simp add: ch0 line_demand_nonneg less_imp_le)
  then have "distinct (map wi_warehouse_id chosen)"
    using mset_sub_distinct[of chosen "active_warehouses whs"] assms(1) by (simp add: choice_ok_def chosen_def)
  from allocate_lines_spec[OF this pl pos nn]
  have "length (used_warehouses as) \<le> length chosen"
    by (intro used_warehouses_length) (auto simp: plan_ok_def)
  moreover have "fcr_estimated_shipments (calculate_fulfillment_plan ls whs av None) =
      int (length (used_warehouses as))"
    using False ch0 pl by (simp add: calculate_fulfillment_plan_def Let_def chosen_def[symmetric])
  moreover have "length chosen = length ch0" by (simp add: chosen_def)
  moreover have "length ?s = length (filter P (active_warehouses whs))" using ms by (metis size_mset)
  ultimately show ?thesis using len by linarith
qed

theorem plan_fewest_shipments_witness:
  "fcr_estimated_shipments (calculate_fulfillment_plan [order_row 1 101 9] [depot 1 1, depot 2 2, depot 3 3]
     [(101, [(1, 8), (2, 5), (3, 5)])] None) \<le> 2"
  using plan_fewest_shipments[of "[depot 1 1, depot 2 2, depot 3 3]" "[(101, [(1, 8), (2, 5), (3, 5)])]"
      "[order_row 1 101 9]" "\<lambda>w. wi_warehouse_id w < 3"]
  by (simp add: depot_def order_row_def active_warehouses_def positive_lines_def can_cover_def
      total_demand_def demand_of_def get_avail_def)

end
