(* ===== verification/Enums.thy ===== *)
theory Enums
  imports Prelude
begin

text \<open>
  The enumerations of \<^verbatim>\<open>app/models/enums.py\<close>. Every class derives from \<^verbatim>\<open>str\<close> and stores the
  string equal to the member's name, so a member and its database column correspond one to
  one; the columns of the model hold the member. Members are written with the class in front
  (\<open>ApprovalState.APPROVED\<close>), as in the source. \<^verbatim>\<open>AuditEventType.QUOTATION_SENT\<close> repeats the value
  of \<^verbatim>\<open>ORDER_SENT\<close>, which makes it an alias of that member.
  The approval levels carry the order of \<^verbatim>\<open>LEVEL_PRIORITY\<close> (\<^verbatim>\<open>app/guardian/material_change.py\<close>),
  the severities the order of the risk bands.
\<close>

datatype Role
  = ADMIN | SALES_MANAGER | SALES_REP | FINANCE | CUSTOMER

datatype DealStatus
  = DRAFT | SENT | UNDER_NEGOTIATION | CONFIRMED | IN_FULFILLMENT | FULFILLED | INVOICED | PAID
    | CANCELLED | EXPIRED

datatype ApprovalState
  = NOT_EVALUATED | EVALUATED_NO_APPROVAL | PENDING_MANAGER | PENDING_FINANCE | APPROVED
    | REJECTED | RETURNED | INVALIDATED

datatype ApprovalLevel
  = NONE | MANAGER | MANAGER_AND_FINANCE

datatype ApprovalRequestStatus
  = PENDING | APPROVED | REJECTED | RETURNED | INVALIDATED | EXPIRED

datatype ApprovalActionType
  = APPROVE | REJECT | RETURN | ESCALATE | INVALIDATE

datatype RiskSeverity
  = LOW | MEDIUM | HIGH

datatype RiskFactorType
  = DISCOUNT_EXCESS | MARGIN_EXPOSURE | INVENTORY_RISK | APPROVAL_DELAY | NEGOTIATION_PRESSURE

datatype HealthStatus
  = HEALTHY | WATCH | AT_RISK

datatype TriggerType
  = DEAL_CREATED | DISCOUNT_CHANGED | LINE_ADDED | LINE_REMOVED | QUANTITY_CHANGED
    | CUSTOMER_NEGOTIATED | NEGOTIATION_ACCEPTED | APPROVAL_COMPLETED | STOCK_CHANGED
    | ORDER_STALLED | MANUAL | SYNC

datatype MaterialChangeKind
  = DISCOUNT | QUANTITY | LINE_ADDED | LINE_REMOVED | CUSTOMER_COUNTER | PAYMENT_TERMS
    | SUBSCRIPTION_TERMS | FULFILLMENT_RISK

datatype NegotiationRequestType
  = COMMENT | QTY_CHANGE | REMOVE_LINE | ADD_LINE | COUNTER_DISCOUNT

datatype NegotiationRequestStatus
  = OPEN | ACCEPTED | REJECTED | COUNTERED | WITHDRAWN

datatype FulfillmentPlanStatus
  = PROPOSED | ACCEPTED | OVERRIDDEN | APPLIED | SUPERSEDED | CANCELLED

datatype RecommendationType
  = CROSS_SELL | UPSELL

datatype RecommendationStatus
  = ACTIVE | ADDED | DISMISSED | EXPIRED

datatype AlertType
  = STALLED_DEAL | DISCOUNT_ANOMALY | DELIVERY_SLIPPAGE | APPROVAL_DELAY

datatype AlertStatus
  = OPEN | ACKNOWLEDGED | RESOLVED

datatype NextBestActionType
  = FINANCE_APPROVAL_REQUIRED | MANAGER_APPROVAL_REQUIRED | REDUCE_DISCOUNT | RESTORE_MARGIN
    | REAPPROVAL_REQUIRED | RESPOND_TO_CUSTOMER | ACCEPT_FULFILLMENT_PLAN
    | CONSOLIDATE_BACKORDER | ADD_RECOMMENDATION | SEND_TO_CUSTOMER | FOLLOW_UP_CUSTOMER
    | CONFIRM_ORDER | AWAITING_APPROVER | NONE

datatype AuditEventType
  = DEAL_CREATED | DEAL_SYNCED | DISCOUNT_CHANGED | LINE_CHANGED | RISK_RECALCULATED
    | APPROVAL_CREATED | APPROVAL_APPROVED | APPROVAL_REJECTED | APPROVAL_RETURNED
    | APPROVAL_ESCALATED | APPROVAL_INVALIDATED | NEGOTIATION_RECEIVED | NEGOTIATION_RESPONDED
    | NEGOTIATION_WITHDRAWN | CUSTOMER_CONFIRMED | FULFILLMENT_PLANNED | FULFILLMENT_ACCEPTED
    | FULFILLMENT_OVERRIDDEN | FULFILLMENT_APPLIED | FULFILLMENT_REPLANNED
    | RECOMMENDATION_ADDED | RECOMMENDATION_DISMISSED | ORDER_SENT | ORDER_CONFIRMED
    | INVOICE_CREATED | PAYMENT_RECEIVED | HEALTH_RECALCULATED | ALERT_RAISED | ALERT_RESOLVED
    | NUDGE_SENT | ESCALATION_SENT | LOGIN | MAGIC_LINK_ISSUED | MAGIC_LINK_USED

abbreviation AuditEventType_QUOTATION_SENT :: AuditEventType where
  "AuditEventType_QUOTATION_SENT \<equiv> AuditEventType.ORDER_SENT"

section \<open>Ordered enumerations\<close>

fun LEVEL_PRIORITY :: "ApprovalLevel \<Rightarrow> nat" where
  "LEVEL_PRIORITY ApprovalLevel.NONE = 0"
| "LEVEL_PRIORITY ApprovalLevel.MANAGER = 1"
| "LEVEL_PRIORITY ApprovalLevel.MANAGER_AND_FINANCE = 2"

lemma LEVEL_PRIORITY_inj: "LEVEL_PRIORITY a = LEVEL_PRIORITY b \<longleftrightarrow> a = b"
  by (cases a; cases b) simp_all

instantiation ApprovalLevel :: linorder
begin

definition less_eq_ApprovalLevel :: "ApprovalLevel \<Rightarrow> ApprovalLevel \<Rightarrow> bool" where
  "less_eq_ApprovalLevel a b = (LEVEL_PRIORITY a \<le> LEVEL_PRIORITY b)"

definition less_ApprovalLevel :: "ApprovalLevel \<Rightarrow> ApprovalLevel \<Rightarrow> bool" where
  "less_ApprovalLevel a b = (LEVEL_PRIORITY a < LEVEL_PRIORITY b)"

instance
  by standard (auto simp: less_eq_ApprovalLevel_def less_ApprovalLevel_def LEVEL_PRIORITY_inj)

end

fun severity_rank :: "RiskSeverity \<Rightarrow> nat" where
  "severity_rank RiskSeverity.LOW = 0"
| "severity_rank RiskSeverity.MEDIUM = 1"
| "severity_rank RiskSeverity.HIGH = 2"

lemma severity_rank_inj: "severity_rank a = severity_rank b \<longleftrightarrow> a = b"
  by (cases a; cases b) simp_all

instantiation RiskSeverity :: linorder
begin

definition less_eq_RiskSeverity :: "RiskSeverity \<Rightarrow> RiskSeverity \<Rightarrow> bool" where
  "less_eq_RiskSeverity a b = (severity_rank a \<le> severity_rank b)"

definition less_RiskSeverity :: "RiskSeverity \<Rightarrow> RiskSeverity \<Rightarrow> bool" where
  "less_RiskSeverity a b = (severity_rank a < severity_rank b)"

instance
  by standard (auto simp: less_eq_RiskSeverity_def less_RiskSeverity_def severity_rank_inj)

end

fun health_rank :: "HealthStatus \<Rightarrow> nat" where
  "health_rank HealthStatus.HEALTHY = 0"
| "health_rank HealthStatus.WATCH = 1"
| "health_rank HealthStatus.AT_RISK = 2"

lemma health_rank_inj: "health_rank a = health_rank b \<longleftrightarrow> a = b"
  by (cases a; cases b) simp_all

instantiation HealthStatus :: linorder
begin

definition less_eq_HealthStatus :: "HealthStatus \<Rightarrow> HealthStatus \<Rightarrow> bool" where
  "less_eq_HealthStatus a b = (health_rank a \<le> health_rank b)"

definition less_HealthStatus :: "HealthStatus \<Rightarrow> HealthStatus \<Rightarrow> bool" where
  "less_HealthStatus a b = (health_rank a < health_rank b)"

instance
  by standard (auto simp: less_eq_HealthStatus_def less_HealthStatus_def health_rank_inj)

end

end
