(* ===== verification/Errors.thy ===== *)
theory Errors
  imports Prelude
begin

text \<open>
  The exceptions of \<^verbatim>\<open>app/core/errors.py\<close> and the Python built-ins the services raise (and SQLAlchemy's
  \<^verbatim>\<open>IntegrityError\<close>, for a broken constraint), as values
  of one datatype, with what the HTTP layer makes of them. A constructor carries the data its
  message prints (the entity and its identifier, the business rule's code, the two versions of
  a conflict); the English message text is not modelled.
\<close>

datatype exc =
    NotFoundError
  | EntityNotFoundError string int
  | ConflictError string
  | VersionConflictError int int
  | BusinessRuleError string
  | ValidationError
  | UnauthorizedError
  | ForbiddenError
  | ValueError
  | KeyError
  | AssertionError
  | AttributeError
  | TypeError
  | IntegrityError
  | OdooCapabilityMissing string

text \<open>\<^verbatim>\<open>isinstance(e, DealFlowException)\<close> separates the application's errors from the rest.\<close>

fun is_dealflow_exception :: "exc \<Rightarrow> bool" where
  "is_dealflow_exception ValueError = False"
| "is_dealflow_exception KeyError = False"
| "is_dealflow_exception AssertionError = False"
| "is_dealflow_exception AttributeError = False"
| "is_dealflow_exception TypeError = False"
| "is_dealflow_exception IntegrityError = False"
| "is_dealflow_exception (OdooCapabilityMissing _) = False"
| "is_dealflow_exception _ = True"

fun is_not_found_error :: "exc \<Rightarrow> bool" where
  "is_not_found_error NotFoundError = True"
| "is_not_found_error (EntityNotFoundError _ _) = True"
| "is_not_found_error _ = False"

fun exc_code :: "exc \<Rightarrow> string" where
  "exc_code NotFoundError = ''NOT_FOUND''"
| "exc_code (EntityNotFoundError _ _) = ''ENTITY_NOT_FOUND''"
| "exc_code (ConflictError c) = c"
| "exc_code (VersionConflictError _ _) = ''STALE_VERSION''"
| "exc_code (BusinessRuleError c) = c"
| "exc_code ValidationError = ''VALIDATION_ERROR''"
| "exc_code UnauthorizedError = ''UNAUTHENTICATED''"
| "exc_code ForbiddenError = ''FORBIDDEN''"
| "exc_code ValueError = ''INTERNAL_SERVER_ERROR''"
| "exc_code KeyError = ''INTERNAL_SERVER_ERROR''"
| "exc_code AssertionError = ''INTERNAL_SERVER_ERROR''"
| "exc_code AttributeError = ''INTERNAL_SERVER_ERROR''"
| "exc_code TypeError = ''INTERNAL_SERVER_ERROR''"
| "exc_code IntegrityError = ''INTERNAL_SERVER_ERROR''"
| "exc_code (OdooCapabilityMissing _) = ''INTERNAL_SERVER_ERROR''"

fun exc_status :: "exc \<Rightarrow> int" where
  "exc_status NotFoundError = 404"
| "exc_status (EntityNotFoundError _ _) = 404"
| "exc_status (ConflictError _) = 409"
| "exc_status (VersionConflictError _ _) = 409"
| "exc_status (BusinessRuleError _) = 422"
| "exc_status ValidationError = 422"
| "exc_status UnauthorizedError = 401"
| "exc_status ForbiddenError = 403"
| "exc_status ValueError = 500"
| "exc_status KeyError = 500"
| "exc_status AssertionError = 500"
| "exc_status AttributeError = 500"
| "exc_status TypeError = 500"
| "exc_status IntegrityError = 500"
| "exc_status (OdooCapabilityMissing _) = 500"

record json_error =
  je_status :: int
  je_code :: string

text \<open>
  \<^verbatim>\<open>dealflow_exception_handler\<close> answers with the exception's own status and code,
  \<^verbatim>\<open>generic_exception_handler\<close> with 500.
\<close>

definition dealflow_exception_handler :: "exc \<Rightarrow> json_error" where
  "dealflow_exception_handler e = \<lparr>je_status = exc_status e, je_code = exc_code e\<rparr>"

definition generic_exception_handler :: "exc \<Rightarrow> json_error" where
  "generic_exception_handler e = \<lparr>je_status = 500, je_code = ''INTERNAL_SERVER_ERROR''\<rparr>"

definition handle_exception :: "exc \<Rightarrow> json_error" where
  "handle_exception e =
     (if is_dealflow_exception e then dealflow_exception_handler e else generic_exception_handler e)"

text \<open>\<^verbatim>\<open>http_exception_handler\<close>: the code it derives from a Starlette status.\<close>

definition http_exception_code :: "int \<Rightarrow> string" where
  "http_exception_code st =
     (if st = 401 then ''UNAUTHENTICATED''
      else if st = 403 then ''FORBIDDEN''
      else if st = 404 then ''NOT_FOUND''
      else if st = 409 then ''CONFLICT''
      else if st = 422 then ''UNPROCESSABLE_ENTITY''
      else ''HTTP_ERROR'')"

section \<open>Raising calls\<close>

text \<open>Sequencing of calls that may raise: the first exception is the result.\<close>

fun bind_exc :: "exc + 'a \<Rightarrow> ('a \<Rightarrow> exc + 'b) \<Rightarrow> exc + 'b" where
  "bind_exc (Inl e) f = Inl e"
| "bind_exc (Inr x) f = f x"

definition raise_unless :: "bool \<Rightarrow> exc \<Rightarrow> exc + unit" where
  "raise_unless b e = (if b then Inr () else Inl e)"

definition option_or_raise :: "'a option \<Rightarrow> exc \<Rightarrow> exc + 'a" where
  "option_or_raise x e = (case x of None \<Rightarrow> Inl e | Some v \<Rightarrow> Inr v)"

lemma bind_exc_Inr_iff: "bind_exc m f = Inr y \<longleftrightarrow> (\<exists>x. m = Inr x \<and> f x = Inr y)"
  by (cases m) auto

lemma bind_exc_Inl_iff: "bind_exc m f = Inl e \<longleftrightarrow> m = Inl e \<or> (\<exists>x. m = Inr x \<and> f x = Inl e)"
  by (cases m) auto

lemma raise_unless_simps [simp]:
  "raise_unless b e = Inr u \<longleftrightarrow> b" "raise_unless b e = Inl e' \<longleftrightarrow> \<not> b \<and> e' = e"
  "raise_unless True e = Inr ()" "raise_unless False e = Inl e"
  by (auto simp: raise_unless_def)

lemma option_or_raise_simps [simp]:
  "option_or_raise x e = Inr v \<longleftrightarrow> x = Some v" "option_or_raise x e = Inl e' \<longleftrightarrow> x = None \<and> e' = e"
  "option_or_raise (Some v) e = Inr v" "option_or_raise None e = Inl e"
  by (auto simp: option_or_raise_def split: option.splits)

text \<open>\<^verbatim>\<open>for x in xs: ...\<close> with a body that may raise, folding an accumulator.\<close>

fun fold_exc :: "('a \<Rightarrow> 's \<Rightarrow> exc + 's) \<Rightarrow> 'a list \<Rightarrow> 's \<Rightarrow> exc + 's" where
  "fold_exc f [] s = Inr s"
| "fold_exc f (x # xs) s = bind_exc (f x s) (fold_exc f xs)"

lemma fold_exc_invariant:
  assumes "\<And>x s s'. x \<in> set xs \<Longrightarrow> P s \<Longrightarrow> f x s = Inr s' \<Longrightarrow> P s'"
    and "P s" and "fold_exc f xs s = Inr s'"
  shows "P s'"
  using assms
proof (induction xs arbitrary: s)
  case (Cons x xs)
  then show ?case by (auto simp: bind_exc_Inr_iff)
qed simp

text \<open>
  The same loop over a call that changes a state: the state reached when an exception leaves the
  loop is kept.
\<close>

fun for_each :: "('a \<Rightarrow> 'g \<Rightarrow> (exc + 'b) \<times> 'g) \<Rightarrow> 'a list \<Rightarrow> 'g \<Rightarrow> (exc + unit) \<times> 'g" where
  "for_each f [] g = (Inr (), g)"
| "for_each f (x # xs) g =
     (case f x g of (Inl e, g') \<Rightarrow> (Inl e, g') | (Inr _, g') \<Rightarrow> for_each f xs g')"

lemma for_each_invariant:
  assumes "\<And>x g. x \<in> set xs \<Longrightarrow> P g \<Longrightarrow> P (snd (f x g))" and "P g"
  shows "P (snd (for_each f xs g))"
  using assms
proof (induction xs arbitrary: g)
  case (Cons x xs)
  then have "P (snd (f x g))" by simp
  with Cons show ?case by (cases "f x g"; cases "fst (f x g)") auto
qed simp

end
