(* ===== verification/Entities.thy ===== *)
theory Entities
  imports Enums Errors Decimals
begin

text \<open>
  The persistent state: one record per SQLAlchemy model of \<^verbatim>\<open>app/models\<close> (the columns under their
  names, with a prefix per table), and the database as one list of rows per table, in insertion
  order. A primary key is drawn from \<open>db_next_id\<close>, which stands for \<^verbatim>\<open>uuid.uuid4\<close>: a fresh value on
  every insertion. Free text that only people read (titles, bodies, audit reasons) and the
  \<^verbatim>\<open>updated_at\<close> column are not modelled.

  The second half gives the queries of the services (\<^verbatim>\<open>filter(...).first()\<close> by key, in-place update
  of the row an ORM object stands for) and the contract of a table as the locale \<open>row_store\<close>.
\<close>

section \<open>Rows\<close>

record deal =
  d_id :: uuid
  d_reference :: string
  d_odoo_sale_order_id :: odoo_id
  d_odoo_order_name :: string
  d_odoo_partner_id :: odoo_id
  d_partner_name_cache :: "string option"
  d_tier_code :: "string option"
  d_owner_odoo_user_id :: odoo_id
  d_sales_team_odoo_id :: "odoo_id option"
  d_odoo_company_id :: odoo_id
  d_currency_code :: string
  d_status :: DealStatus
  d_approval_state :: ApprovalState
  d_health_status :: HealthStatus
  d_current_risk_score :: "dec option"
  d_current_severity :: "RiskSeverity option"
  d_current_assessment_id :: "uuid option"
  d_approved_assessment_id :: "uuid option"
  d_required_level :: ApprovalLevel
  d_order_discount_pct :: dec
  d_amount_total_cache :: dec
  d_amount_untaxed_cache :: dec
  d_margin_pct_cache :: dec
  d_one_time_total_cache :: dec
  d_recurring_first_cycle_total_cache :: dec
  d_customer_confirmed_pending :: bool
  d_sent_at :: "instant option"
  d_confirmed_at :: "instant option"
  d_promised_delivery_date :: "instant option"
  d_last_activity_at :: instant
  d_last_synced_at :: instant
  d_version :: int
  d_created_at :: instant

record approval_request =
  ar_id :: uuid
  ar_deal_id :: uuid
  ar_risk_assessment_id :: uuid
  ar_required_level :: string
  ar_sequence :: int
  ar_status :: ApprovalRequestStatus
  ar_requested_at :: instant
  ar_completed_at :: "instant option"
  ar_expires_at :: "instant option"
  ar_decided_by_odoo_user_id :: "odoo_id option"
  ar_decision_reason :: "string option"

record approval_action =
  aa_id :: uuid
  aa_approval_request_id :: uuid
  aa_actor_odoo_user_id :: odoo_id
  aa_actor_role :: Role
  aa_action :: ApprovalActionType
  aa_reason :: "string option"
  aa_created_at :: instant

record dealflow_user =
  u_odoo_user_id :: odoo_id
  u_login :: string
  u_name :: string
  u_role :: Role
  u_sales_team_odoo_id :: "odoo_id option"
  u_is_portal :: bool
  u_partner_id :: "odoo_id option"
  u_is_active :: bool
  u_last_login_at :: "instant option"

record magic_link_token =
  ml_odoo_partner_id :: odoo_id
  ml_token_hash :: string
  ml_expires_at :: instant
  ml_used_at :: "instant option"
  ml_deal_id :: "uuid option"
  ml_created_ip :: "string option"

record customer_tier =
  ct_code :: string
  ct_name :: string
  ct_rank :: int
  ct_default_max_discount_pct :: dec
  ct_is_active :: bool

record customer_tier_assignment =
  cta_odoo_partner_id :: odoo_id
  cta_tier_code :: string

record discount_policy =
  dp_id :: uuid
  dp_odoo_company_id :: odoo_id
  dp_name :: string
  dp_customer_tier_code :: "string option"
  dp_odoo_product_category_id :: "odoo_id option"
  dp_max_discount_pct :: dec
  dp_minimum_margin_pct :: "dec option"
  dp_manager_threshold :: "dec option"
  dp_finance_threshold :: "dec option"
  dp_single_line_finance_pts :: "dec option"
  dp_priority :: int
  dp_active :: bool

record audit_event =
  ae_deal_id :: "uuid option"
  ae_event_type :: AuditEventType
  ae_actor_type :: string
  ae_actor_id :: "odoo_id option"
  ae_actor_role :: "Role option"
  ae_entity_type :: string
  ae_entity_id :: "int option"
  ae_is_activity :: bool
  ae_created_at :: instant

record notification =
  n_id :: uuid
  n_recipient_odoo_user_id :: odoo_id
  n_type :: string
  n_entity_type :: string
  n_entity_id :: int
  n_is_read :: bool
  n_dedupe_key :: "(string \<times> uuid) option"
  n_created_at :: instant

record number_sequence =
  ns_key :: string
  ns_next_value :: int

text \<open>
  A risk factor's \<^verbatim>\<open>source_reference\<close>, \<^verbatim>\<open>reason\<close> and \<^verbatim>\<open>detail\<close> hold formatted text; the model keeps
  which text it is and the values it prints. Entries the source converts with \<^verbatim>\<open>float\<close> are floats.
\<close>

datatype risk_source = LineSource odoo_id | MarginSource | InventorySource | NegotiationSource

datatype risk_reason =
    DiscountReason string dec dec dec
  | MarginReason dec dec dec
  | ShortageReason string dec int
  | SplitReason string
  | CoveredReason
  | NegotiationReason

datatype risk_detail =
    LineDetail odoo_id odoo_id rat rat rat
  | MarginDetail rat rat rat
  | InventoryDetail "string list"
  | EmptyDetail

record line_snapshot_item =
  ls_line_id :: odoo_id
  ls_product_id :: odoo_id
  ls_product_name :: string
  ls_qty :: rat
  ls_price_unit :: rat
  ls_discount_pct :: rat
  ls_subtotal :: rat
  ls_cost :: rat
  ls_margin_pct :: rat

record policy_summary =
  ps_policy_id :: "uuid option"
  ps_policy_name :: string
  ps_max_discount_pct :: rat

record assessment_totals =
  at_amount_untaxed :: rat
  at_amount_total :: rat
  at_total_cost :: rat
  at_total_margin_pct :: rat
  at_blended_discount_pct :: rat

text \<open>What asked for an evaluation: a member of the enumeration or a text outside of it.\<close>

type_synonym trigger = "TriggerType + string"

record risk_assessment =
  ra_id :: uuid
  ra_deal_id :: uuid
  ra_risk_score :: dec
  ra_severity :: RiskSeverity
  ra_required_level :: ApprovalLevel
  ra_decision :: string
  ra_trigger_type :: trigger
  ra_policy_version :: string
  ra_resolved_policy :: "(odoo_id \<times> policy_summary) list"
  ra_line_snapshot :: "line_snapshot_item list"
  ra_totals :: assessment_totals
  ra_calculated_at :: instant

record risk_factor =
  rf_risk_assessment_id :: uuid
  rf_factor_type :: RiskFactorType
  rf_source_reference :: risk_source
  rf_raw_value :: dec
  rf_weight :: dec
  rf_contribution :: dec
  rf_reason :: risk_reason
  rf_detail :: risk_detail

record fulfillment_plan_line =
  fpl_fulfillment_plan_id :: uuid
  fpl_odoo_sale_order_line_id :: odoo_id
  fpl_odoo_product_id :: odoo_id
  fpl_odoo_warehouse_id :: "odoo_id option"
  fpl_requested_qty :: int
  fpl_allocated_qty :: int
  fpl_backorder_qty :: int
  fpl_shipping_cost :: dec

record fulfillment_plan =
  fp_id :: uuid
  fp_deal_id :: uuid
  fp_odoo_sale_order_id :: odoo_id
  fp_status :: FulfillmentPlanStatus
  fp_estimated_shipments :: int
  fp_estimated_shipping_cost :: dec
  fp_strategy :: string
  fp_generated_at :: instant
  fp_accepted_by_odoo_user_id :: "odoo_id option"
  fp_accepted_at :: "instant option"
  fp_applied_at :: "instant option"
  fp_odoo_picking_ids :: "odoo_id list option"

record warehouse_profile =
  wp_id :: uuid
  wp_odoo_warehouse_id :: odoo_id
  wp_shipping_cost_weight :: dec
  wp_priority :: int
  wp_lead_time_days :: int
  wp_active :: bool

record negotiation_request =
  nr_id :: uuid
  nr_deal_id :: uuid
  nr_odoo_sale_order_id :: odoo_id
  nr_customer_partner_id :: odoo_id
  nr_requested_by_odoo_user_id :: odoo_id
  nr_type :: string
  nr_status :: NegotiationRequestStatus
  nr_message :: "string option"
  nr_based_on_assessment_id :: "uuid option"
  nr_created_at :: instant
  nr_processed_at :: "instant option"
  nr_processed_by_odoo_user_id :: "odoo_id option"
  nr_response_message :: "string option"
  nr_counter_value :: "dec option"
  nr_applied_assessment_id :: "uuid option"

text \<open>
  A negotiation change stores the requested value as text (\<^verbatim>\<open>str(x)\<close>) and the field's name; the
  model keeps the value the text prints.
\<close>

datatype requested_value = DecimalValue dec | ProductValue odoo_id | TrueValue

record negotiation_change =
  nc_negotiation_request_id :: uuid
  nc_odoo_sale_order_line_id :: "odoo_id option"
  nc_field_name :: string
  nc_requested_value :: "requested_value option"

record portal_comment =
  pc_id :: uuid
  pc_deal_id :: uuid
  pc_odoo_sale_order_line_id :: "odoo_id option"
  pc_author_odoo_user_id :: odoo_id
  pc_author_role :: Role
  pc_body :: string
  pc_is_internal :: bool
  pc_created_at :: instant

record recommendation_rule =
  rr_id :: uuid
  rr_odoo_company_id :: odoo_id
  rr_trigger_product_id :: odoo_id
  rr_suggested_product_id :: odoo_id
  rr_co_purchase_count :: int
  rr_manual_boost :: dec
  rr_is_promoted_override :: "bool option"
  rr_source :: string
  rr_active :: bool

record recommendation =
  rec_id :: uuid
  rec_deal_id :: uuid
  rec_risk_assessment_id :: uuid
  rec_odoo_product_id :: odoo_id
  rec_product_name_cache :: string
  rec_recommendation_type :: RecommendationType
  rec_score :: dec
  rec_co_purchase_score :: dec
  rec_promotion_score :: dec
  rec_margin_score :: dec
  rec_relevance_score :: dec
  rec_margin_delta_amount :: dec
  rec_margin_delta_pct :: dec
  rec_unit_price_cache :: dec
  rec_source :: string
  rec_status :: RecommendationStatus
  rec_created_at :: instant
  rec_added_at :: "instant option"
  rec_dismissed_at :: "instant option"

record deal_alert =
  al_id :: uuid
  al_deal_id :: uuid
  al_type :: AlertType
  al_severity :: RiskSeverity
  al_status :: AlertStatus
  al_raised_at :: instant
  al_acknowledged_by :: "odoo_id option"
  al_acknowledged_at :: "instant option"
  al_resolved_at :: "instant option"
  al_last_action :: "string option"
  al_last_action_at :: "instant option"
  al_last_action_by :: "odoo_id option"

record deal_health_snapshot =
  hs_deal_id :: uuid
  hs_health_status :: HealthStatus
  hs_overall_score :: dec
  hs_stalled_score :: dec
  hs_approval_delay_score :: dec
  hs_discount_anomaly_score :: dec
  hs_delivery_risk_score :: dec
  hs_negotiation_score :: dec
  hs_calculated_at :: instant

record rep_discount_stats =
  rds_odoo_user_id :: odoo_id
  rds_sample_size :: int
  rds_avg_weighted_discount_pct :: dec
  rds_stddev :: dec
  rds_baseline_source :: string
  rds_computed_at :: instant

section \<open>The database\<close>

record processed_event =
  pe_event_id :: string
  pe_source :: string
  pe_event_type :: string
  pe_deal_id :: "uuid option"
  pe_received_at :: instant
  pe_processed_at :: instant
  pe_result :: string

record database =
  db_deals :: "deal list"
  db_requests :: "approval_request list"
  db_actions :: "approval_action list"
  db_users :: "dealflow_user list"
  db_tiers :: "customer_tier list"
  db_tier_assignments :: "customer_tier_assignment list"
  db_policies :: "discount_policy list"
  db_assessments :: "risk_assessment list"
  db_factors :: "risk_factor list"
  db_plans :: "fulfillment_plan list"
  db_plan_lines :: "fulfillment_plan_line list"
  db_profiles :: "warehouse_profile list"
  db_negotiations :: "negotiation_request list"
  db_changes :: "negotiation_change list"
  db_comments :: "portal_comment list"
  db_rules :: "recommendation_rule list"
  db_recommendations :: "recommendation list"
  db_alerts :: "deal_alert list"
  db_snapshots :: "deal_health_snapshot list"
  db_rep_stats :: "rep_discount_stats list"
  db_audit :: "audit_event list"
  db_notifications :: "notification list"
  db_sequences :: "number_sequence list"
  db_magic_links :: "magic_link_token list"
  db_processed_events :: "processed_event list"
  db_next_id :: uuid

definition empty_database :: database where
  "empty_database = \<lparr>db_deals = [], db_requests = [], db_actions = [], db_users = [], db_tiers = [],
     db_tier_assignments = [], db_policies = [], db_assessments = [], db_factors = [], db_plans = [],
     db_plan_lines = [], db_profiles = [], db_negotiations = [], db_changes = [], db_comments = [],
     db_rules = [], db_recommendations = [], db_alerts = [], db_snapshots = [], db_rep_stats = [],
     db_audit = [], db_notifications = [], db_sequences = [], db_magic_links = [],
     db_processed_events = [], db_next_id = 1\<rparr>"

section \<open>Tables\<close>

text \<open>
  \<open>find_row key k rows\<close> is \<^verbatim>\<open>query(T).filter(T.key == k).first()\<close>; \<open>update_row key k f rows\<close> is the
  effect of assigning attributes of the ORM object with that key.
\<close>

definition find_row :: "('r \<Rightarrow> 'k) \<Rightarrow> 'k \<Rightarrow> 'r list \<Rightarrow> 'r option" where
  "find_row key k rows = find (\<lambda>r. key r = k) rows"

definition update_row :: "('r \<Rightarrow> 'k) \<Rightarrow> 'k \<Rightarrow> ('r \<Rightarrow> 'r) \<Rightarrow> 'r list \<Rightarrow> 'r list" where
  "update_row key k f rows = map (\<lambda>r. if key r = k then f r else r) rows"

lemma find_row_Some: "find_row key k rows = Some r \<Longrightarrow> key r = k \<and> r \<in> set rows"
  by (auto simp: find_row_def find_Some_iff)

lemma find_row_None: "find_row key k rows = None \<longleftrightarrow> k \<notin> key ` set rows"
  by (auto simp: find_row_def find_None_iff)

lemma find_row_append: "find_row key k (xs @ ys) =
    (case find_row key k xs of None \<Rightarrow> find_row key k ys | Some r \<Rightarrow> Some r)"
  unfolding find_row_def by (rule find_append_case)

lemma update_row_Nil [simp]: "update_row key k f [] = []"
  by (simp add: update_row_def)

lemma update_row_Cons [simp]:
  "update_row key k f (r # rs) = (if key r = k then f r else r) # update_row key k f rs"
  by (simp add: update_row_def)

lemma set_update_row:
  "set (update_row key k f rows) = (\<lambda>r. if key r = k then f r else r) ` set rows"
  by (simp add: update_row_def)

lemma length_update_row [simp]: "length (update_row key k f rows) = length rows"
  by (simp add: update_row_def)

lemma map_key_update_row:
  "(\<And>r. key (f r) = key r) \<Longrightarrow> map key (update_row key k f rows) = map key rows"
  by (simp add: update_row_def)

lemma find_row_update_same:
  "(\<And>r. key (f r) = key r) \<Longrightarrow>
     find_row key k (update_row key k f rows) = map_option f (find_row key k rows)"
  by (induction rows) (auto simp: find_row_def update_row_def)

lemma find_row_update_other:
  "k \<noteq> k' \<Longrightarrow> (\<And>r. key (f r) = key r) \<Longrightarrow>
     find_row key k' (update_row key k f rows) = find_row key k' rows"
  by (induction rows) (auto simp: find_row_def update_row_def)

text \<open>The contract of a keyed table, and what every client of one may use.\<close>

locale row_store =
  fixes lookup :: "'k \<Rightarrow> 's \<Rightarrow> 'r option"
    and modify :: "'k \<Rightarrow> ('r \<Rightarrow> 'r) \<Rightarrow> 's \<Rightarrow> 's"
    and key :: "'r \<Rightarrow> 'k"
  assumes lookup_key: "lookup k s = Some r \<Longrightarrow> key r = k"
    and lookup_modify_same: "(\<And>r. key (f r) = key r) \<Longrightarrow>
      lookup k (modify k f s) = map_option f (lookup k s)"
    and lookup_modify_other: "k \<noteq> k' \<Longrightarrow> (\<And>r. key (f r) = key r) \<Longrightarrow>
      lookup k' (modify k f s) = lookup k' s"
begin

lemma lookup_modify:
  "(\<And>r. key (f r) = key r) \<Longrightarrow>
     lookup k' (modify k f s) = (if k' = k then map_option f (lookup k s) else lookup k' s)"
  by (simp add: lookup_modify_same lookup_modify_other)

lemma lookup_modify_field:
  "(\<And>r. key (f r) = key r) \<Longrightarrow> (\<And>r. g (f r) = g r) \<Longrightarrow>
     map_option g (lookup k' (modify k f s)) = map_option g (lookup k' s)"
  by (cases "k' = k"; cases "lookup k s")
     (auto simp: lookup_modify_same lookup_modify_other option.map_comp comp_def)

lemma lookup_modify_twice:
  "(\<And>r. key (f r) = key r) \<Longrightarrow> (\<And>r. key (g r) = key r) \<Longrightarrow>
     lookup k (modify k g (modify k f s)) = map_option (g \<circ> f) (lookup k s)"
  by (cases "lookup k s") (auto simp: lookup_modify_same)

end

definition find_deal :: "uuid \<Rightarrow> database \<Rightarrow> deal option" where
  "find_deal i db = find_row d_id i (db_deals db)"

definition update_deal :: "uuid \<Rightarrow> (deal \<Rightarrow> deal) \<Rightarrow> database \<Rightarrow> database" where
  "update_deal i f db = db\<lparr>db_deals := update_row d_id i f (db_deals db)\<rparr>"

definition find_request :: "uuid \<Rightarrow> database \<Rightarrow> approval_request option" where
  "find_request i db = find_row ar_id i (db_requests db)"

definition update_request :: "uuid \<Rightarrow> (approval_request \<Rightarrow> approval_request) \<Rightarrow> database \<Rightarrow> database" where
  "update_request i f db = db\<lparr>db_requests := update_row ar_id i f (db_requests db)\<rparr>"

definition find_plan :: "uuid \<Rightarrow> database \<Rightarrow> fulfillment_plan option" where
  "find_plan i db = find_row fp_id i (db_plans db)"

definition update_plan :: "uuid \<Rightarrow> (fulfillment_plan \<Rightarrow> fulfillment_plan) \<Rightarrow> database \<Rightarrow> database" where
  "update_plan i f db = db\<lparr>db_plans := update_row fp_id i f (db_plans db)\<rparr>"

definition find_negotiation :: "uuid \<Rightarrow> database \<Rightarrow> negotiation_request option" where
  "find_negotiation i db = find_row nr_id i (db_negotiations db)"

definition update_negotiation ::
    "uuid \<Rightarrow> (negotiation_request \<Rightarrow> negotiation_request) \<Rightarrow> database \<Rightarrow> database" where
  "update_negotiation i f db = db\<lparr>db_negotiations := update_row nr_id i f (db_negotiations db)\<rparr>"

definition find_alert :: "uuid \<Rightarrow> database \<Rightarrow> deal_alert option" where
  "find_alert i db = find_row al_id i (db_alerts db)"

definition update_alert :: "uuid \<Rightarrow> (deal_alert \<Rightarrow> deal_alert) \<Rightarrow> database \<Rightarrow> database" where
  "update_alert i f db = db\<lparr>db_alerts := update_row al_id i f (db_alerts db)\<rparr>"

definition find_assessment :: "uuid \<Rightarrow> database \<Rightarrow> risk_assessment option" where
  "find_assessment i db = find_row ra_id i (db_assessments db)"

interpretation deals: row_store find_deal update_deal d_id
  by unfold_locales
     (auto simp: find_deal_def update_deal_def find_row_update_same find_row_update_other
       dest: find_row_Some)

interpretation requests: row_store find_request update_request ar_id
  by unfold_locales
     (auto simp: find_request_def update_request_def find_row_update_same find_row_update_other
       dest: find_row_Some)

interpretation plans: row_store find_plan update_plan fp_id
  by unfold_locales
     (auto simp: find_plan_def update_plan_def find_row_update_same find_row_update_other
       dest: find_row_Some)

interpretation negotiations: row_store find_negotiation update_negotiation nr_id
  by unfold_locales
     (auto simp: find_negotiation_def update_negotiation_def find_row_update_same
       find_row_update_other dest: find_row_Some)

interpretation alerts: row_store find_alert update_alert al_id
  by unfold_locales
     (auto simp: find_alert_def update_alert_def find_row_update_same find_row_update_other
       dest: find_row_Some)

text \<open>An update of one table leaves the lookups of the others alone.\<close>

lemma update_frames [simp]:
  "db_deals (update_request i f db) = db_deals db"
  "db_requests (update_deal j g db) = db_requests db"
  "db_next_id (update_request i f db) = db_next_id db"
  "db_next_id (update_deal j g db) = db_next_id db"
  "db_assessments (update_request i f db) = db_assessments db"
  "db_assessments (update_deal j g db) = db_assessments db"
  "db_audit (update_request i f db) = db_audit db"
  "db_audit (update_deal j g db) = db_audit db"
  "db_notifications (update_request i f db) = db_notifications db"
  "db_notifications (update_deal j g db) = db_notifications db"
  "db_actions (update_request i f db) = db_actions db"
  "db_actions (update_deal j g db) = db_actions db"
  by (simp_all add: update_request_def update_deal_def)

lemma find_deal_frame: "db_deals db' = db_deals db \<Longrightarrow> find_deal i db' = find_deal i db"
  by (simp add: find_deal_def)

lemma find_request_frame: "db_requests db' = db_requests db \<Longrightarrow> find_request i db' = find_request i db"
  by (simp add: find_request_def)

end
