(* ===== verification/Gateway.thy ===== *)
theory Gateway
  imports Entities
begin

text \<open>
  The interface to Odoo, \<^verbatim>\<open>app/odoo/interface.py\<close>: the raw records that cross it and the class
  \<^verbatim>\<open>OdooGateway\<close>, a record of one function per abstract method. The type parameter is the state
  behind the gateway. A read is a function of that state, a write returns the result, or the
  exception it raised, with the new state: what a write did before it raised stays done. Dates
  are the instants their text denotes, \<open>None\<close> for a missing or unreadable one; the \<^verbatim>\<open>Any\<close>-typed
  dictionaries are records of the keys the code reads, a missing key being \<open>None\<close>.

  The locale \<open>odoo_gateway\<close> states what the services rely on; \<open>Fake_Gateway\<close> proves it of the
  in-memory gateway of \<^verbatim>\<open>app/odoo/fake.py\<close>.
\<close>

section \<open>Raw records\<close>

record odoo_identity =
  oi_uid :: odoo_id
  oi_name :: string
  oi_login :: string
  oi_email :: "string option"
  oi_groups :: "string list"
  oi_is_share :: bool
  oi_partner_id :: "odoo_id option"
  oi_company_id :: odoo_id

record raw_order_line =
  rol_id :: odoo_id
  rol_product_id :: odoo_id
  rol_product_name :: string
  rol_category_id :: odoo_id
  rol_category_path :: "odoo_id list"
  rol_product_type :: string
  rol_qty :: rat
  rol_price_unit :: rat
  rol_discount_pct :: rat
  rol_unit_cost :: rat
  rol_tax_rate_pct :: rat
  rol_is_recurring :: bool
  rol_plan_name :: "string option"

text \<open>
  The overlay \<^verbatim>\<open>dealflow_approval_state\<close> holds the initial text \<^verbatim>\<open>"draft"\<close> or the value of an
  \<^verbatim>\<open>ApprovalState\<close>.
\<close>

datatype governance_tag = DraftTag | StateTag ApprovalState

datatype odoo_state = OdooDraft | OdooSent | OdooSale | OdooCancel

record raw_order_header =
  roh_id :: odoo_id
  roh_name :: string
  roh_partner_id :: odoo_id
  roh_partner_name :: string
  roh_state :: odoo_state
  roh_currency :: string
  roh_user_id :: odoo_id
  roh_team_id :: "odoo_id option"
  roh_company_id :: odoo_id
  roh_validity_date :: "instant option"
  roh_commitment_date :: "instant option"
  roh_write_date :: "instant option"
  roh_amount_untaxed :: rat
  roh_amount_tax :: rat
  roh_amount_total :: rat
  roh_dealflow_deal_id :: "string option"
  roh_dealflow_approval_state :: "governance_tag option"
  roh_dealflow_risk_score :: "rat option"
  roh_dealflow_locked :: "bool option"

record raw_order =
  ro_header :: raw_order_header
  ro_lines :: "raw_order_line list"

record raw_partner =
  rp_id :: odoo_id
  rp_name :: string
  rp_tier_code :: "string option"
  rp_payment_term_days :: int
  rp_email :: "string option"
  rp_portal_user_ids :: "odoo_id list"

record plan_info =
  pi_plan_id :: odoo_id
  pi_name :: string
  pi_cadence :: string

record raw_product =
  rpr_id :: odoo_id
  rpr_name :: string
  rpr_category_id :: odoo_id
  rpr_category_path :: "odoo_id list"
  rpr_type :: string
  rpr_standard_price :: rat
  rpr_list_price :: rat
  rpr_tags :: "string list"
  rpr_is_recurring :: bool
  rpr_plan_info :: "plan_info option"

record raw_warehouse =
  rw_id :: odoo_id
  rw_name :: string
  rw_code :: string

record picking_line =
  pkl_product_id :: odoo_id
  pkl_qty :: int

record raw_picking =
  rpk_id :: odoo_id
  rpk_warehouse_id :: odoo_id
  rpk_state :: string
  rpk_scheduled_date :: "instant option"
  rpk_date_done :: "instant option"
  rpk_lines :: "picking_line list"

record raw_invoice =
  ri_id :: odoo_id
  ri_number :: string
  ri_type :: string
  ri_state :: string
  ri_amount_total :: rat
  ri_amount_residual :: rat
  ri_amount_paid :: rat
  ri_payment_state :: "string option"

record raw_payment =
  rpay_id :: odoo_id
  rpay_invoice_id :: odoo_id
  rpay_amount :: rat
  rpay_payment_date :: instant

text \<open>\<^verbatim>\<open>register_payment\<close> returns the payment's record, or a plain acknowledgement.\<close>

datatype payment_result = PaymentRecord raw_payment | PaymentAck odoo_id rat

record raw_subscription =
  rsub_id :: odoo_id
  rsub_code :: string
  rsub_state :: string
  rsub_recurring_total :: rat

record schedule_row =
  sr_period :: int
  sr_date :: string
  sr_amount :: rat
  sr_status :: string

record raw_billing_summary =
  rbs_one_time_lines :: "odoo_id list"
  rbs_recurring_lines :: "odoo_id list"
  rbs_invoices :: "raw_invoice list"
  rbs_payments :: "raw_payment list"
  rbs_subscriptions :: "raw_subscription list"
  rbs_schedule :: "schedule_row list"

definition empty_billing_summary :: raw_billing_summary where
  "empty_billing_summary = \<lparr>rbs_one_time_lines = [], rbs_recurring_lines = [], rbs_invoices = [],
     rbs_payments = [], rbs_subscriptions = [], rbs_schedule = []\<rparr>"

section \<open>Arguments of the mutating calls\<close>

record line_change =
  lc_line_id :: "odoo_id option"
  lc_id :: "odoo_id option"
  lc_discount :: "rat option"
  lc_discount_pct :: "rat option"
  lc_qty :: "rat option"
  lc_product_uom_qty :: "rat option"

record order_line_spec =
  ols_product_id :: odoo_id
  ols_qty :: "rat option"
  ols_discount_pct :: "rat option"

record raw_allocation =
  ra_warehouse_id :: "odoo_id option"
  ra_product_id :: odoo_id
  ra_qty :: int

record mined_order =
  mo_id :: odoo_id
  mo_product_ids :: "odoo_id list"

section \<open>The gateway\<close>

type_synonym 'a result = "exc + 'a"
type_synonym ('g, 'a) effect = "'g \<Rightarrow> (exc + 'a) \<times> 'g"

record 'g gateway =
  gw_authenticate :: "string \<Rightarrow> string \<Rightarrow> 'g \<Rightarrow> odoo_identity result"
  gw_get_sale_order :: "odoo_id \<Rightarrow> 'g \<Rightarrow> raw_order result"
  gw_list_sale_orders :: "odoo_id list option \<Rightarrow> odoo_id option \<Rightarrow> odoo_state option \<Rightarrow> 'g \<Rightarrow>
    raw_order_header list result"
  gw_create_order :: "odoo_id \<Rightarrow> odoo_id \<Rightarrow> odoo_id option \<Rightarrow> string \<Rightarrow> order_line_spec list option \<Rightarrow>
    ('g, raw_order) effect"
  gw_get_partner :: "odoo_id \<Rightarrow> 'g \<Rightarrow> raw_partner result"
  gw_get_customer_by_email :: "string \<Rightarrow> 'g \<Rightarrow> raw_partner option result"
  gw_get_products :: "odoo_id list \<Rightarrow> 'g \<Rightarrow> (odoo_id \<times> raw_product) list result"
  gw_get_price :: "odoo_id \<Rightarrow> odoo_id \<Rightarrow> rat \<Rightarrow> 'g \<Rightarrow> dec result"
  gw_get_warehouses :: "'g \<Rightarrow> raw_warehouse list result"
  gw_get_availability :: "odoo_id list \<Rightarrow> odoo_id list option \<Rightarrow> 'g \<Rightarrow>
    (odoo_id \<times> (odoo_id \<times> int) list) list result"
  gw_get_pickings :: "odoo_id \<Rightarrow> 'g \<Rightarrow> raw_picking list result"
  gw_get_billing_summary :: "odoo_id \<Rightarrow> 'g \<Rightarrow> raw_billing_summary result"
  gw_apply_line_changes :: "odoo_id \<Rightarrow> line_change list \<Rightarrow> ('g, bool) effect"
  gw_add_line :: "odoo_id \<Rightarrow> odoo_id \<Rightarrow> rat \<Rightarrow> rat \<Rightarrow> ('g, odoo_id) effect"
  gw_set_governance :: "odoo_id \<Rightarrow> ApprovalState \<Rightarrow> rat \<Rightarrow> bool \<Rightarrow> ('g, bool) effect"
  gw_confirm :: "odoo_id \<Rightarrow> ('g, bool) effect"
  gw_cancel :: "odoo_id \<Rightarrow> ('g, bool) effect"
  gw_apply_fulfillment_plan :: "odoo_id \<Rightarrow> raw_allocation list \<Rightarrow> ('g, odoo_id list) effect"
  gw_register_payment :: "odoo_id \<Rightarrow> rat \<Rightarrow> odoo_id option \<Rightarrow> ('g, payment_result) effect"
  gw_get_users :: "'g \<Rightarrow> odoo_identity list result"
  gw_get_confirmed_orders_for_mining :: "'g \<Rightarrow> mined_order list result"

text \<open>The base class's own \<^verbatim>\<open>get_customer_by_email\<close>, for a gateway that does not override it.\<close>

definition default_get_customer_by_email :: "string \<Rightarrow> 'g \<Rightarrow> raw_partner option result" where
  "default_get_customer_by_email email g = Inr None"

definition locked_in :: "'g gateway \<Rightarrow> odoo_id \<Rightarrow> 'g \<Rightarrow> bool" where
  "locked_in gw i g = (case gw_get_sale_order gw i g of
     Inl _ \<Rightarrow> False | Inr ro \<Rightarrow> roh_dealflow_locked (ro_header ro) = Some True)"

section \<open>The contract\<close>

text \<open>
  What the services rely on: an order is returned under the identifier asked for, the governance
  overlay is what was last written, a locked order is not confirmed, a confirmation that returns
  leaves a confirmed order and does not touch the lock, and the other orders are left alone.
\<close>

locale odoo_gateway =
  fixes gw :: "'g gateway" and valid :: "'g \<Rightarrow> bool"
  assumes order_id: "valid g \<Longrightarrow> gw_get_sale_order gw i g = Inr ro \<Longrightarrow> roh_id (ro_header ro) = i"
    and governance_valid: "valid g \<Longrightarrow> valid (snd (gw_set_governance gw i st sc lk g))"
    and governance_order: "valid g \<Longrightarrow> gw_set_governance gw i st sc lk g = (Inr b, g') \<Longrightarrow>
      gw_get_sale_order gw i g' = Inr ro \<Longrightarrow>
      roh_dealflow_locked (ro_header ro) = Some lk \<and>
      roh_dealflow_approval_state (ro_header ro) = Some (StateTag st)"
    and governance_reads: "valid g \<Longrightarrow> gw_set_governance gw i st sc lk g = (Inr b, g') \<Longrightarrow>
      isl (gw_get_sale_order gw i g') = isl (gw_get_sale_order gw i g)"
    and governance_other: "valid g \<Longrightarrow> i \<noteq> j \<Longrightarrow>
      gw_get_sale_order gw j (snd (gw_set_governance gw i st sc lk g)) = gw_get_sale_order gw j g"
    and confirm_valid: "valid g \<Longrightarrow> valid (snd (gw_confirm gw i g))"
    and confirm_locked: "valid g \<Longrightarrow> locked_in gw i g \<Longrightarrow> \<exists>e. gw_confirm gw i g = (Inl e, g)"
    and confirm_order: "valid g \<Longrightarrow> gw_confirm gw i g = (Inr b, g') \<Longrightarrow>
      gw_get_sale_order gw i g' = Inr ro \<Longrightarrow> roh_state (ro_header ro) = OdooSale"
    and confirm_other: "valid g \<Longrightarrow> i \<noteq> j \<Longrightarrow>
      gw_get_sale_order gw j (snd (gw_confirm gw i g)) = gw_get_sale_order gw j g"
begin

lemma governance_locks:
  assumes "valid g" and "gw_set_governance gw i st sc True g = (Inr b, g')"
    and "\<not> isl (gw_get_sale_order gw i g)"
  shows "locked_in gw i g'"
  using governance_order[OF assms(1,2)] governance_reads[OF assms(1,2)] assms(3)
  by (cases "gw_get_sale_order gw i g'") (auto simp: locked_in_def)

text \<open>A successful lock stops every later confirmation of that order, and only of that order.\<close>

lemma lock_stops_confirm:
  assumes "valid g" and "gw_set_governance gw i st sc True g = (Inr b, g')"
    and "\<not> isl (gw_get_sale_order gw i g)"
  shows "\<exists>e. gw_confirm gw i g' = (Inl e, g')"
proof -
  have "valid g'" using governance_valid[OF assms(1), of i st sc True] assms(2) by simp
  then show ?thesis using confirm_locked governance_locks[OF assms] by blast
qed

lemma lock_other:
  assumes "valid g" and "i \<noteq> j"
  shows "locked_in gw j (snd (gw_set_governance gw i st sc lk g)) = locked_in gw j g"
  by (simp add: locked_in_def governance_other[OF assms])

lemma unlock_governance:
  assumes "valid g" and "gw_set_governance gw i st sc False g = (Inr b, g')"
  shows "\<not> locked_in gw i g'"
  using governance_order[OF assms]
  by (cases "gw_get_sale_order gw i g'") (auto simp: locked_in_def)

end

end
