(* ===== verification/Deal_Context.thy ===== *)
theory Deal_Context
  imports Gateway
begin

text \<open>
  The deal context of \<^verbatim>\<open>app/services/deal_context_builder.py\<close>: an order read from Odoo, with every
  float turned into a two-place decimal, the amounts, costs and margins of its lines and their
  totals, the customer's tier and the stock situation. It is the input of the risk engine, of the
  material-change test and of the sync of a deal.

  The lemmas: a built line's amounts are two-place decimals with margin, subtotal and cost tied
  together, and the totals of the order split into one-time and recurring parts without a
  rounding gap.
\<close>

record deal_line_context =
  dl_line_id :: odoo_id
  dl_product_id :: odoo_id
  dl_product_name :: string
  dl_category_id :: odoo_id
  dl_category_path :: "odoo_id list"
  dl_product_type :: string
  dl_qty :: dec
  dl_price_unit :: dec
  dl_list_price :: dec
  dl_discount_pct :: dec
  dl_unit_cost :: dec
  dl_subtotal :: dec
  dl_cost_subtotal :: dec
  dl_margin_amount :: dec
  dl_margin_pct :: dec
  dl_is_recurring :: bool
  dl_tax_rate_pct :: dec
  dl_available_qty :: int
  dl_inventory_shortage :: bool

record deal_context =
  dc_deal_id :: "uuid option"
  dc_odoo_sale_order_id :: odoo_id
  dc_odoo_order_name :: string
  dc_partner_id :: odoo_id
  dc_partner_name :: string
  dc_tier_code :: string
  dc_tier_default_ceiling :: dec
  dc_currency_code :: string
  dc_company_id :: odoo_id
  dc_user_id :: odoo_id
  dc_team_id :: "odoo_id option"
  dc_state :: odoo_state
  dc_order_discount_pct :: dec
  dc_amount_untaxed :: dec
  dc_amount_total :: dec
  dc_one_time_total :: dec
  dc_recurring_first_cycle_total :: dec
  dc_total_cost :: dec
  dc_total_margin_amount :: dec
  dc_total_margin_pct :: dec
  dc_blended_discount_pct :: dec
  dc_lines :: "deal_line_context list"
  dc_historical_rep_avg_discount :: "dec option"
  dc_historical_rep_stddev :: "dec option"
  dc_order_date :: instant
  dc_delivery_date :: "instant option"
  dc_line_count :: int

text \<open>\<^verbatim>\<open>quantize_dec(x, 2)\<close> of a float, through its shortest decimal text.\<close>

definition quantize_float :: "rat \<Rightarrow> nat \<Rightarrow> dec" where
  "quantize_float f places = quantize (float_repr f) places"

text \<open>\<^verbatim>\<open>str(t).upper() in ("PRODUCT", "CONSU", "STOCKABLE")\<close>, on ASCII text.\<close>

definition char_upper :: "char \<Rightarrow> char" where
  "char_upper c = (let n = of_char c :: nat in if 97 \<le> n \<and> n \<le> 122 then char_of (n - 32) else c)"

definition is_stockable :: "string \<Rightarrow> bool" where
  "is_stockable t = (map char_upper t \<in> {''PRODUCT'', ''CONSU'', ''STOCKABLE''})"

definition line_list_amount :: "dec \<Rightarrow> dec \<Rightarrow> dec" where
  "line_list_amount qty price_unit = dmul qty price_unit"

definition line_subtotal :: "dec \<Rightarrow> dec \<Rightarrow> dec \<Rightarrow> dec" where
  "line_subtotal qty price_unit disc_pct =
     quantize (dmul (dmul qty price_unit) (dsub 1 (ddiv disc_pct 100))) 2"

text \<open>The percentage a margin is of a positive base, zero otherwise.\<close>

definition margin_pct_of :: "dec \<Rightarrow> dec \<Rightarrow> dec" where
  "margin_pct_of margin base = (if 0 < base then quantize (dmul (ddiv margin base) 100) 2 else 0)"

text \<open>The loop body of \<^verbatim>\<open>build_deal_context\<close> on one order line and its product's stock per warehouse.\<close>

definition build_line :: "raw_order_line \<Rightarrow> (odoo_id \<times> int) list \<Rightarrow> deal_line_context" where
  "build_line l prod_stock =
     (let qty = quantize_float (rol_qty l) 2;
          price_unit = quantize_float (rol_price_unit l) 2;
          disc_pct = quantize_float (rol_discount_pct l) 2;
          unit_cost = quantize_float (rol_unit_cost l) 2;
          subtotal = line_subtotal qty price_unit disc_pct;
          line_cost = quantize (dmul qty unit_cost) 2;
          margin_amt = quantize (dsub subtotal line_cost) 2;
          wh1_available = (case map_of prod_stock 1 of None \<Rightarrow> 0 | Some q \<Rightarrow> q) in
      \<lparr>dl_line_id = rol_id l, dl_product_id = rol_product_id l,
       dl_product_name = rol_product_name l, dl_category_id = rol_category_id l,
       dl_category_path = rol_category_path l, dl_product_type = rol_product_type l,
       dl_qty = qty, dl_price_unit = price_unit, dl_list_price = price_unit,
       dl_discount_pct = disc_pct, dl_unit_cost = unit_cost, dl_subtotal = subtotal,
       dl_cost_subtotal = line_cost, dl_margin_amount = margin_amt,
       dl_margin_pct = margin_pct_of margin_amt subtotal,
       dl_is_recurring = rol_is_recurring l, dl_tax_rate_pct = quantize_float (rol_tax_rate_pct l) 2,
       dl_available_qty = sum_list (map snd prod_stock),
       dl_inventory_shortage =
         (is_stockable (rol_product_type l) \<and> wh1_available < pyint qty)\<rparr>)"

definition line_tax :: "deal_line_context \<Rightarrow> dec" where
  "line_tax l = quantize (dmul (dl_subtotal l) (ddiv (dl_tax_rate_pct l) 100)) 2"

definition blended_discount :: "dec \<Rightarrow> dec \<Rightarrow> dec" where
  "blended_discount total_list_revenue total_untaxed =
     (if 0 < total_list_revenue
      then quantize (dmul (ddiv (dsub total_list_revenue total_untaxed) total_list_revenue) 100) 2
      else 0)"

text \<open>
  The customer's tier code and its discount ceiling: the assignment of the partner, \<^verbatim>\<open>STANDARD\<close>
  without one, and five percent for a code without a tier record.
\<close>

definition resolve_tier :: "database \<Rightarrow> odoo_id \<Rightarrow> string \<times> dec" where
  "resolve_tier db partner_id =
     (let tier_code = (case find_row cta_odoo_partner_id partner_id (db_tier_assignments db) of
            None \<Rightarrow> ''STANDARD'' | Some a \<Rightarrow> cta_tier_code a) in
      (tier_code, case find_row ct_code tier_code (db_tiers db) of
         None \<Rightarrow> 5 | Some t \<Rightarrow> ct_default_max_discount_pct t))"

text \<open>The stock of the order's products; an order without lines and a failing call give no stock.\<close>

definition read_availability ::
    "'g gateway \<Rightarrow> 'g \<Rightarrow> odoo_id list \<Rightarrow> (odoo_id \<times> (odoo_id \<times> int) list) list" where
  "read_availability gw g pids =
     (if pids = [] then []
      else case gw_get_availability gw pids None g of Inl _ \<Rightarrow> [] | Inr m \<Rightarrow> m)"

definition build_lines ::
    "raw_order_line list \<Rightarrow> (odoo_id \<times> (odoo_id \<times> int) list) list \<Rightarrow> deal_line_context list" where
  "build_lines ls availability_map = map (\<lambda>l. build_line l
     (case map_of availability_map (rol_product_id l) of None \<Rightarrow> [] | Some m \<Rightarrow> m)) ls"

text \<open>Every failure to read the order is answered as \<^verbatim>\<open>NotFoundError\<close>.\<close>

definition build_deal_context ::
    "database \<Rightarrow> 'g gateway \<Rightarrow> 'g \<Rightarrow> instant \<Rightarrow> odoo_id \<Rightarrow> uuid option \<Rightarrow> exc + deal_context" where
  "build_deal_context db gw g now order_id deal_id =
     (case gw_get_sale_order gw order_id g of
        Inl _ \<Rightarrow> Inl NotFoundError
      | Inr raw_order \<Rightarrow>
          let header = ro_header raw_order;
              (tier_code, tier_ceiling) = resolve_tier db (roh_partner_id header);
              lines = build_lines (ro_lines raw_order)
                        (read_availability gw g (map rol_product_id (ro_lines raw_order)));
              total_list_revenue = dsum (map (\<lambda>l. dmul (dl_qty l) (dl_price_unit l)) lines);
              total_untaxed = dsum (map dl_subtotal lines);
              total_tax = dsum (map line_tax lines);
              total_cost = dsum (map dl_cost_subtotal lines);
              total_margin_amt = quantize (dsub total_untaxed total_cost) 2;
              rep_stats = find_row rds_odoo_user_id (roh_user_id header) (db_rep_stats db) in
          Inr \<lparr>dc_deal_id = deal_id, dc_odoo_sale_order_id = roh_id header,
               dc_odoo_order_name = roh_name header, dc_partner_id = roh_partner_id header,
               dc_partner_name = roh_partner_name header, dc_tier_code = tier_code,
               dc_tier_default_ceiling = tier_ceiling,
               dc_currency_code = (if roh_currency header = [] then ''INR'' else roh_currency header),
               dc_company_id = (if roh_company_id header = 0 then 1 else roh_company_id header),
               dc_user_id = roh_user_id header, dc_team_id = roh_team_id header,
               dc_state = roh_state header, dc_order_discount_pct = 0,
               dc_amount_untaxed = total_untaxed,
               dc_amount_total = quantize (dadd total_untaxed total_tax) 2,
               dc_one_time_total = dsum (map dl_subtotal (filter (\<lambda>l. \<not> dl_is_recurring l) lines)),
               dc_recurring_first_cycle_total = dsum (map dl_subtotal (filter dl_is_recurring lines)),
               dc_total_cost = total_cost, dc_total_margin_amount = total_margin_amt,
               dc_total_margin_pct = margin_pct_of total_margin_amt total_untaxed,
               dc_blended_discount_pct = blended_discount total_list_revenue total_untaxed,
               dc_lines = lines,
               dc_historical_rep_avg_discount = map_option rds_avg_weighted_discount_pct rep_stats,
               dc_historical_rep_stddev = map_option rds_stddev rep_stats,
               dc_order_date = now, dc_delivery_date = roh_commitment_date header,
               dc_line_count = int (length lines)\<rparr>)"

section \<open>A line\<close>

lemma cents_line_subtotal [cents_intros]: "cents (line_subtotal q p d)"
  by (simp add: line_subtotal_def cents_quantize)

lemma discount_factor_bounds:
  assumes "0 \<le> d" and "d \<le> 100"
  shows "0 \<le> dsub 1 (ddiv d 100)" and "dsub 1 (ddiv d 100) \<le> 1"
proof -
  have "ddiv d 100 \<le> ddiv 100 100" by (rule ddiv_mono) (use assms in auto)
  then have "ddiv d 100 \<le> 1" by (simp add: ddiv_def)
  then show "0 \<le> dsub 1 (ddiv d 100)" by (rule dsub_nonneg)
  have "0 \<le> ddiv d 100" using assms by (simp add: ddiv_nonneg)
  then have "ctx28 (1 - ddiv d 100) \<le> ctx28 1" by (intro ctx28_mono) simp
  then show "dsub 1 (ddiv d 100) \<le> 1" by (simp add: dsub_def)
qed

text \<open>
  A discount between zero and a hundred percent leaves a subtotal between zero and the list amount.
\<close>

lemma line_subtotal_bounds:
  assumes "0 \<le> qty" and "0 \<le> price" and "0 \<le> d" and "d \<le> 100"
  shows "0 \<le> line_subtotal qty price d" and "line_subtotal qty price d \<le> quantize (dmul qty price) 2"
proof -
  note f = discount_factor_bounds[OF assms(3,4)]
  have p: "0 \<le> dmul qty price" using assms by (simp add: dmul_nonneg)
  then show "0 \<le> line_subtotal qty price d"
    unfolding line_subtotal_def using f assms by (intro quantize_nonneg dmul_nonneg)
  have "dmul qty price * dsub 1 (ddiv d 100) \<le> dmul qty price * 1"
    using p f by (intro mult_left_mono) auto
  then have "dmul (dmul qty price) (dsub 1 (ddiv d 100)) \<le> ctx28 (dmul qty price)"
    unfolding dmul_def[of "dmul qty price"] by (intro ctx28_mono) simp
  then have "dmul (dmul qty price) (dsub 1 (ddiv d 100)) \<le> dmul qty price" by (simp add: dmul_def)
  then show "line_subtotal qty price d \<le> quantize (dmul qty price) 2"
    unfolding line_subtotal_def by (rule quantize_mono)
qed

lemma build_line_cents:
  "cents (dl_subtotal (build_line l s))" "cents (dl_cost_subtotal (build_line l s))"
  "cents (dl_margin_amount (build_line l s))" "cents (dl_qty (build_line l s))"
  "cents (dl_price_unit (build_line l s))" "cents (dl_discount_pct (build_line l s))"
  by (simp_all add: build_line_def Let_def quantize_float_def cents_quantize cents_line_subtotal)

lemma build_lines_cents: "l \<in> set (build_lines ls m) \<Longrightarrow> cents (dl_subtotal l) \<and> cents (dl_cost_subtotal l)"
  by (auto simp: build_lines_def build_line_cents)

section \<open>The order\<close>

lemma sum_list_partition:
  "sum_list (map f (filter P xs)) + sum_list (map f (filter (\<lambda>x. \<not> P x) xs)) = sum_list (map (f :: _ \<Rightarrow> rat) xs)"
  by (induction xs) auto

lemma sum_list_filter_le:
  "(\<And>x. 0 \<le> f x) \<Longrightarrow> sum_list (map f (filter P xs)) \<le> sum_list (map (f :: _ \<Rightarrow> rat) xs)"
  by (induction xs) (auto intro: add_mono order_trans[rotated])

lemma dsum_subtotals:
  assumes "\<And>x. x \<in> set xs \<Longrightarrow> cents (f x)" and "sum_list (map (\<lambda>x. \<bar>f x\<bar>) xs) < 10 ^ 26"
  shows "dsum (map f (filter P xs)) = sum_list (map f (filter P xs))"
proof (rule dsum_cents)
  show "cents y" if "y \<in> set (map f (filter P xs))" for y using that assms(1) by auto
  have "sum_list (map (\<lambda>x. \<bar>f x\<bar>) (filter P xs)) \<le> sum_list (map (\<lambda>x. \<bar>f x\<bar>) xs)"
    by (rule sum_list_filter_le) simp
  with assms(2) show "sum_list (map abs (map f (filter P xs))) < 10 ^ 26" by (simp add: comp_def)
qed

lemma build_deal_context_lines:
  "build_deal_context db gw g now i did = Inr ctx \<Longrightarrow>
     (\<exists>ro. gw_get_sale_order gw i g = Inr ro \<and>
        dc_lines ctx = build_lines (ro_lines ro) (read_availability gw g (map rol_product_id (ro_lines ro)))) \<and>
     dc_amount_untaxed ctx = dsum (map dl_subtotal (dc_lines ctx)) \<and>
     dc_total_cost ctx = dsum (map dl_cost_subtotal (dc_lines ctx)) \<and>
     dc_one_time_total ctx = dsum (map dl_subtotal (filter (\<lambda>l. \<not> dl_is_recurring l) (dc_lines ctx))) \<and>
     dc_recurring_first_cycle_total ctx = dsum (map dl_subtotal (filter dl_is_recurring (dc_lines ctx))) \<and>
     dc_total_margin_amount ctx = quantize (dsub (dc_amount_untaxed ctx) (dc_total_cost ctx)) 2 \<and>
     dc_line_count ctx = int (length (dc_lines ctx))"
  by (auto simp: build_deal_context_def Let_def split: sum.splits prod.splits)

text \<open>
  The context of an order splits its untaxed amount into the one-time and the recurring part
  without losing a cent: the two totals add up exactly, as does the margin, which is the untaxed
  amount less the cost. The amounts of the lines may be anything below 10 to the 26 together.
\<close>

theorem deal_context_totals:
  assumes "build_deal_context db gw g now i did = Inr ctx"
    and "sum_list (map (\<lambda>l. \<bar>dl_subtotal l\<bar> + \<bar>dl_cost_subtotal l\<bar>) (dc_lines ctx)) < 10 ^ 26"
  shows "dc_one_time_total ctx + dc_recurring_first_cycle_total ctx = dc_amount_untaxed ctx \<and>
         dc_amount_untaxed ctx = sum_list (map dl_subtotal (dc_lines ctx)) \<and>
         dc_total_margin_amount ctx = dc_amount_untaxed ctx - dc_total_cost ctx"
proof -
  let ?ls = "dc_lines ctx"
  note sh = build_deal_context_lines[OF assms(1)]
  have c: "cents (dl_subtotal l) \<and> cents (dl_cost_subtotal l)" if "l \<in> set ?ls" for l
    using sh that build_lines_cents by fastforce
  have split: "sum_list (map (\<lambda>l. \<bar>dl_subtotal l\<bar> + \<bar>dl_cost_subtotal l\<bar>) ?ls) =
      sum_list (map (\<lambda>l. \<bar>dl_subtotal l\<bar>) ?ls) + sum_list (map (\<lambda>l. \<bar>dl_cost_subtotal l\<bar>) ?ls)"
    by (rule sum_list_addf)
  have nn: "0 \<le> sum_list (map (\<lambda>l. \<bar>dl_subtotal l\<bar>) ?ls)" "0 \<le> sum_list (map (\<lambda>l. \<bar>dl_cost_subtotal l\<bar>) ?ls)"
    by (auto intro!: sum_list_nonneg)
  have bs: "sum_list (map (\<lambda>l. \<bar>dl_subtotal l\<bar>) ?ls) < 10 ^ 26"
    and bc: "sum_list (map (\<lambda>l. \<bar>dl_cost_subtotal l\<bar>) ?ls) < 10 ^ 26"
    using assms(2) split nn by linarith+
  have sub: "dsum (map dl_subtotal (filter P ?ls)) = sum_list (map dl_subtotal (filter P ?ls))" for P
    using dsum_subtotals[OF _ bs] c by blast
  have untaxed: "dc_amount_untaxed ctx = sum_list (map dl_subtotal ?ls)"
    using sub[of "\<lambda>_. True"] sh by simp
  have cost: "dc_total_cost ctx = sum_list (map dl_cost_subtotal ?ls)"
    using dsum_subtotals[OF _ bc, of "\<lambda>_. True"] c sh by simp
  have "cents (sum_list (map dl_subtotal ?ls) - sum_list (map dl_cost_subtotal ?ls))"
    using c by (auto intro!: cents_diff cents_sum_list)
  moreover have "\<bar>sum_list (map dl_subtotal ?ls) - sum_list (map dl_cost_subtotal ?ls)\<bar> < 10 ^ 26"
    using sum_list_abs[of "map dl_subtotal ?ls"] sum_list_abs[of "map dl_cost_subtotal ?ls"] assms(2) split
    by (simp add: comp_def)
  ultimately have "quantize (dsub (dc_amount_untaxed ctx) (dc_total_cost ctx)) 2 =
      dc_amount_untaxed ctx - dc_total_cost ctx"
    by (simp add: dsub_def untaxed cost ctx28_cents)
  then show ?thesis using sub sum_list_partition[of dl_subtotal dl_is_recurring ?ls] sh untaxed
    by (simp add: add.commute)
qed

end
