(* ===== verification/Fake_Gateway.thy ===== *)
theory Fake_Gateway
  imports Gateway
begin

text \<open>
  The in-memory gateway \<^verbatim>\<open>FakeOdooGateway\<close> of \<^verbatim>\<open>app/odoo/fake.py\<close>, on which the program runs offline
  and its tests run: its dictionaries, its fixtures (\<open>reset\<close>) and every method, with the
  floating-point arithmetic of order totals. The wall clock it reads is the field \<open>fk_clock\<close>. Not
  modelled: its attribute \<^verbatim>\<open>outbox\<close>, which nothing reads.

  \<open>fake_ok\<close> is the invariant of its state, kept by every method from \<open>reset\<close> on, and
  \<open>fake_gateway\<close> fulfils the contract \<open>odoo_gateway\<close> under it.
\<close>

section \<open>State and fixtures\<close>

record fake_user =
  fu_uid :: odoo_id
  fu_name :: string
  fu_login :: string
  fu_password :: string
  fu_email :: "string option"
  fu_groups :: "string list"
  fu_is_share :: bool
  fu_partner_id :: "odoo_id option"
  fu_company_id :: odoo_id
  fu_team_id :: "odoo_id option"

record fake_line =
  fl_id :: odoo_id
  fl_product_id :: odoo_id
  fl_qty :: rat
  fl_price_unit :: rat
  fl_discount_pct :: rat
  fl_tax_rate_pct :: rat

record fake_order =
  fo_id :: odoo_id
  fo_name :: string
  fo_partner_id :: odoo_id
  fo_partner_name :: string
  fo_state :: odoo_state
  fo_currency :: string
  fo_user_id :: odoo_id
  fo_team_id :: "odoo_id option"
  fo_company_id :: odoo_id
  fo_validity_date :: "instant option"
  fo_commitment_date :: "instant option"
  fo_write_date :: "instant option"
  fo_dealflow_deal_id :: "string option"
  fo_dealflow_approval_state :: "governance_tag option"
  fo_dealflow_risk_score :: "rat option"
  fo_dealflow_locked :: "bool option"
  fo_lines :: "fake_line list"

record fake_state =
  fk_users :: "(string \<times> fake_user) list"
  fk_partners :: "(odoo_id \<times> raw_partner) list"
  fk_products :: "(odoo_id \<times> raw_product) list"
  fk_warehouses :: "(odoo_id \<times> raw_warehouse) list"
  fk_stock :: "(odoo_id \<times> (odoo_id \<times> int) list) list"
  fk_orders :: "(odoo_id \<times> fake_order) list"
  fk_order_seq :: odoo_id
  fk_line_seq :: odoo_id
  fk_picking_seq :: odoo_id
  fk_pickings :: "(odoo_id \<times> raw_picking list) list"
  fk_invoices :: "(odoo_id \<times> raw_invoice list) list"
  fk_payments :: "(odoo_id \<times> raw_payment list) list"
  fk_subscriptions :: "(odoo_id \<times> raw_subscription list) list"
  fk_clock :: instant

definition reset_users :: "(string \<times> fake_user) list" where
  "reset_users =
     [(''admin'', \<lparr>fu_uid = 1, fu_name = ''System Admin'', fu_login = ''admin'',
        fu_password = ''admin'', fu_email = Some ''admin@dealflow.test'',
        fu_groups = [''base.group_system'', ''dealflow_odoo.group_dealflow_admin''],
        fu_is_share = False, fu_partner_id = None, fu_company_id = 1,
        fu_team_id = None\<rparr>),
      (''admin@dealflow.test'', \<lparr>fu_uid = 1, fu_name = ''System Admin'', fu_login = ''admin@dealflow.test'',
        fu_password = ''Password123!'', fu_email = Some ''admin@dealflow.test'',
        fu_groups = [''base.group_system'', ''dealflow_odoo.group_dealflow_admin''],
        fu_is_share = False, fu_partner_id = None, fu_company_id = 1,
        fu_team_id = None\<rparr>),
      (''manager1@dealflow.test'', \<lparr>fu_uid = 2, fu_name = ''Sales Manager North'', fu_login = ''manager1@dealflow.test'',
        fu_password = ''Password123!'', fu_email = Some ''manager1@dealflow.test'',
        fu_groups = [''sales_team.group_sale_manager'', ''dealflow_odoo.group_dealflow_sales_manager''],
        fu_is_share = False, fu_partner_id = None, fu_company_id = 1,
        fu_team_id = Some 1\<rparr>),
      (''manager2@dealflow.test'', \<lparr>fu_uid = 3, fu_name = ''Sales Manager South'', fu_login = ''manager2@dealflow.test'',
        fu_password = ''Password123!'', fu_email = Some ''manager2@dealflow.test'',
        fu_groups = [''sales_team.group_sale_manager'', ''dealflow_odoo.group_dealflow_sales_manager''],
        fu_is_share = False, fu_partner_id = None, fu_company_id = 1,
        fu_team_id = Some 2\<rparr>),
      (''rep1@dealflow.test'', \<lparr>fu_uid = 4, fu_name = ''Sales Rep One'', fu_login = ''rep1@dealflow.test'',
        fu_password = ''Password123!'', fu_email = Some ''rep1@dealflow.test'',
        fu_groups = [''sales_team.group_sale_salesman'', ''dealflow_odoo.group_dealflow_sales_rep''],
        fu_is_share = False, fu_partner_id = None, fu_company_id = 1,
        fu_team_id = Some 1\<rparr>),
      (''rep2@dealflow.test'', \<lparr>fu_uid = 5, fu_name = ''Sales Rep Two'', fu_login = ''rep2@dealflow.test'',
        fu_password = ''Password123!'', fu_email = Some ''rep2@dealflow.test'',
        fu_groups = [''sales_team.group_sale_salesman'', ''dealflow_odoo.group_dealflow_sales_rep''],
        fu_is_share = False, fu_partner_id = None, fu_company_id = 1,
        fu_team_id = Some 2\<rparr>),
      (''finance@dealflow.test'', \<lparr>fu_uid = 6, fu_name = ''Finance Officer'', fu_login = ''finance@dealflow.test'',
        fu_password = ''Password123!'', fu_email = Some ''finance@dealflow.test'',
        fu_groups = [''account.group_account_manager'', ''dealflow_odoo.group_dealflow_finance''],
        fu_is_share = False, fu_partner_id = None, fu_company_id = 1,
        fu_team_id = None\<rparr>),
      (''buyer@acme.test'', \<lparr>fu_uid = 10, fu_name = ''Acme Buyer'', fu_login = ''buyer@acme.test'',
        fu_password = ''Password123!'', fu_email = Some ''buyer@acme.test'',
        fu_groups = [''base.group_portal'', ''dealflow_odoo.group_dealflow_portal''],
        fu_is_share = True, fu_partner_id = Some 1, fu_company_id = 1,
        fu_team_id = None\<rparr>),
      (''buyer@beta.test'', \<lparr>fu_uid = 11, fu_name = ''Beta Buyer'', fu_login = ''buyer@beta.test'',
        fu_password = ''Password123!'', fu_email = Some ''buyer@beta.test'',
        fu_groups = [''base.group_portal'', ''dealflow_odoo.group_dealflow_portal''],
        fu_is_share = True, fu_partner_id = Some 2, fu_company_id = 1,
        fu_team_id = None\<rparr>),
      (''buyer@gamma.test'', \<lparr>fu_uid = 12, fu_name = ''Gamma Buyer'', fu_login = ''buyer@gamma.test'',
        fu_password = ''Password123!'', fu_email = Some ''buyer@gamma.test'',
        fu_groups = [''base.group_portal'', ''dealflow_odoo.group_dealflow_portal''],
        fu_is_share = True, fu_partner_id = Some 3, fu_company_id = 1,
        fu_team_id = None\<rparr>)]"

definition reset_partners :: "(odoo_id \<times> raw_partner) list" where
  "reset_partners =
     [(1, \<lparr>rp_id = 1, rp_name = ''Acme Corp'', rp_tier_code = Some ''GOLD'',
        rp_payment_term_days = 30, rp_email = Some ''buyer@acme.test'', rp_portal_user_ids = [10]\<rparr>),
      (2, \<lparr>rp_id = 2, rp_name = ''Beta Industries'', rp_tier_code = Some ''SILVER'',
        rp_payment_term_days = 30, rp_email = Some ''buyer@beta.test'', rp_portal_user_ids = [11]\<rparr>),
      (3, \<lparr>rp_id = 3, rp_name = ''Gamma LLC'', rp_tier_code = Some ''BRONZE'',
        rp_payment_term_days = 30, rp_email = Some ''buyer@gamma.test'', rp_portal_user_ids = [12]\<rparr>)]"

definition reset_products :: "(odoo_id \<times> raw_product) list" where
  "reset_products =
     [(101, \<lparr>rpr_id = 101, rpr_name = ''Laptop Pro 14'' @ [CHR 0x22], rpr_category_id = 1, rpr_category_path = [1],
        rpr_type = ''STOCKABLE'', rpr_standard_price = 35000, rpr_list_price = 50000,
        rpr_tags = [], rpr_is_recurring = False,
        rpr_plan_info = None\<rparr>),
      (102, \<lparr>rpr_id = 102, rpr_name = ''Laptop Pro 16'' @ [CHR 0x22], rpr_category_id = 1, rpr_category_path = [1],
        rpr_type = ''STOCKABLE'', rpr_standard_price = 42000, rpr_list_price = 60000,
        rpr_tags = [], rpr_is_recurring = False,
        rpr_plan_info = None\<rparr>),
      (103, \<lparr>rpr_id = 103, rpr_name = ''Monitor 27'' @ [CHR 0x22], rpr_category_id = 1, rpr_category_path = [1],
        rpr_type = ''STOCKABLE'', rpr_standard_price = 10000, rpr_list_price = 15000,
        rpr_tags = [], rpr_is_recurring = False,
        rpr_plan_info = None\<rparr>),
      (104, \<lparr>rpr_id = 104, rpr_name = ''Docking Station'', rpr_category_id = 4, rpr_category_path = [4],
        rpr_type = ''STOCKABLE'', rpr_standard_price = 3000, rpr_list_price = 6000,
        rpr_tags = [''DealFlow Promo''], rpr_is_recurring = False,
        rpr_plan_info = None\<rparr>),
      (105, \<lparr>rpr_id = 105, rpr_name = ''Laptop Bag'', rpr_category_id = 4, rpr_category_path = [4],
        rpr_type = ''STOCKABLE'', rpr_standard_price = 750, rpr_list_price = 2000,
        rpr_tags = [''DealFlow Promo''], rpr_is_recurring = False,
        rpr_plan_info = None\<rparr>),
      (106, \<lparr>rpr_id = 106, rpr_name = ''Wireless Mouse'', rpr_category_id = 4, rpr_category_path = [4],
        rpr_type = ''STOCKABLE'', rpr_standard_price = 400, rpr_list_price = 1200,
        rpr_tags = [], rpr_is_recurring = False,
        rpr_plan_info = None\<rparr>),
      (107, \<lparr>rpr_id = 107, rpr_name = ''Setup Service'', rpr_category_id = 2, rpr_category_path = [2],
        rpr_type = ''SERVICE'', rpr_standard_price = 80000, rpr_list_price = 100000,
        rpr_tags = [], rpr_is_recurring = False,
        rpr_plan_info = None\<rparr>),
      (108, \<lparr>rpr_id = 108, rpr_name = ''Training Day'', rpr_category_id = 2, rpr_category_path = [2],
        rpr_type = ''SERVICE'', rpr_standard_price = 25000, rpr_list_price = 40000,
        rpr_tags = [], rpr_is_recurring = False,
        rpr_plan_info = None\<rparr>),
      (109, \<lparr>rpr_id = 109, rpr_name = ''Premium Support'', rpr_category_id = 3, rpr_category_path = [3],
        rpr_type = ''SUBSCRIPTION'', rpr_standard_price = 6000, rpr_list_price = 20000,
        rpr_tags = [], rpr_is_recurring = True,
        rpr_plan_info = Some \<lparr>pi_plan_id = 1, pi_name = ''Monthly'', pi_cadence = ''MONTHLY''\<rparr>\<rparr>),
      (110, \<lparr>rpr_id = 110, rpr_name = ''Cloud Backup'', rpr_category_id = 3, rpr_category_path = [3],
        rpr_type = ''SUBSCRIPTION'', rpr_standard_price = 1000, rpr_list_price = 5000,
        rpr_tags = [], rpr_is_recurring = True,
        rpr_plan_info = Some \<lparr>pi_plan_id = 1, pi_name = ''Monthly'', pi_cadence = ''MONTHLY''\<rparr>\<rparr>)]"

definition reset_warehouses :: "(odoo_id \<times> raw_warehouse) list" where
  "reset_warehouses =
     [(1, \<lparr>rw_id = 1, rw_name = ''Main Warehouse'', rw_code = ''MAIN''\<rparr>),
      (2, \<lparr>rw_id = 2, rw_name = ''East Depot'', rw_code = ''EAST''\<rparr>),
      (3, \<lparr>rw_id = 3, rw_name = ''West Hub'', rw_code = ''WEST''\<rparr>)]"

definition reset_stock :: "(odoo_id \<times> (odoo_id \<times> int) list) list" where
  "reset_stock =
     [(101, [(1, 8), (2, 5), (3, 0)]),
      (102, [(1, 3), (2, 2), (3, 0)]),
      (103, [(1, 20), (2, 0), (3, 0)]),
      (104, [(1, 0), (2, 30), (3, 0)]),
      (105, [(1, 50), (2, 0), (3, 0)]),
      (106, [(1, 2), (2, 2), (3, 10)])]"

definition fake_reset :: "instant \<Rightarrow> fake_state" where
  "fake_reset now = \<lparr>fk_users = reset_users, fk_partners = reset_partners,
     fk_products = reset_products, fk_warehouses = reset_warehouses, fk_stock = reset_stock,
     fk_orders = [], fk_order_seq = 100, fk_line_seq = 1000, fk_picking_seq = 500,
     fk_pickings = [], fk_invoices = [], fk_payments = [], fk_subscriptions = [], fk_clock = now\<rparr>"

section \<open>Reads\<close>

definition fake_identity :: "fake_user \<Rightarrow> odoo_identity" where
  "fake_identity u = \<lparr>oi_uid = fu_uid u, oi_name = fu_name u, oi_login = fu_login u,
     oi_email = fu_email u, oi_groups = fu_groups u, oi_is_share = fu_is_share u,
     oi_partner_id = fu_partner_id u, oi_company_id = fu_company_id u\<rparr>"

definition fake_authenticate :: "string \<Rightarrow> string \<Rightarrow> fake_state \<Rightarrow> odoo_identity result" where
  "fake_authenticate login password g = (case map_of (fk_users g) login of
     None \<Rightarrow> Inl ValueError
   | Some u \<Rightarrow> if fu_password u \<noteq> password then Inl ValueError else Inr (fake_identity u))"

definition fake_get_partner :: "odoo_id \<Rightarrow> fake_state \<Rightarrow> raw_partner result" where
  "fake_get_partner i g = option_or_raise (map_of (fk_partners g) i) ValueError"

definition fake_get_customer_by_email :: "string \<Rightarrow> fake_state \<Rightarrow> raw_partner option result" where
  "fake_get_customer_by_email email g =
     (case find (\<lambda>p. rp_email p = Some email) (map snd (fk_partners g)) of
        Some p \<Rightarrow> map_sum id Some (fake_get_partner (rp_id p) g)
      | None \<Rightarrow> (case find (\<lambda>u. fu_email u = Some email \<and> num_or (fu_partner_id u) 0 \<noteq> 0)
                       (map snd (fk_users g)) of
          Some u \<Rightarrow> map_sum id Some (fake_get_partner (num_or (fu_partner_id u) 0) g)
        | None \<Rightarrow> Inr None))"

text \<open>A line's net amount, \<^verbatim>\<open>(price_unit * qty) * (1.0 - discount_pct / 100.0)\<close>.\<close>

definition fake_line_net :: "fake_line \<Rightarrow> rat" where
  "fake_line_net l =
     fmul (fmul (fl_price_unit l) (fl_qty l)) (fsub 1 (fdiv (fl_discount_pct l) 100))"

definition fake_raw_line :: "fake_line \<Rightarrow> raw_product \<Rightarrow> raw_order_line" where
  "fake_raw_line l p = \<lparr>rol_id = fl_id l, rol_product_id = fl_product_id l,
     rol_product_name = rpr_name p, rol_category_id = rpr_category_id p,
     rol_category_path = rpr_category_path p, rol_product_type = rpr_type p, rol_qty = fl_qty l,
     rol_price_unit = fl_price_unit l, rol_discount_pct = fl_discount_pct l,
     rol_unit_cost = rpr_standard_price p, rol_tax_rate_pct = fl_tax_rate_pct l,
     rol_is_recurring = rpr_is_recurring p, rol_plan_name = map_option pi_name (rpr_plan_info p)\<rparr>"

text \<open>One turn of the loop over the lines: the untaxed and tax totals and the lines so far.\<close>

definition fake_order_step ::
    "fake_state \<Rightarrow> fake_line \<Rightarrow> rat \<times> rat \<times> raw_order_line list \<Rightarrow>
      exc + (rat \<times> rat \<times> raw_order_line list)" where
  "fake_order_step g l acc = (case acc of (untaxed, tax_total, ls) \<Rightarrow>
     bind_exc (option_or_raise (map_of (fk_products g) (fl_product_id l)) KeyError) (\<lambda>p.
       let net = fake_line_net l; tax = fmul net (fdiv (fl_tax_rate_pct l) 100) in
       Inr (fadd untaxed net, fadd tax_total tax, ls @ [fake_raw_line l p])))"

definition fake_header :: "fake_order \<Rightarrow> rat \<Rightarrow> rat \<Rightarrow> raw_order_header" where
  "fake_header od untaxed tax_total = \<lparr>roh_id = fo_id od, roh_name = fo_name od,
     roh_partner_id = fo_partner_id od, roh_partner_name = fo_partner_name od,
     roh_state = fo_state od, roh_currency = fo_currency od, roh_user_id = fo_user_id od,
     roh_team_id = fo_team_id od, roh_company_id = fo_company_id od,
     roh_validity_date = fo_validity_date od, roh_commitment_date = fo_commitment_date od,
     roh_write_date = fo_write_date od, roh_amount_untaxed = fround untaxed 2,
     roh_amount_tax = fround tax_total 2, roh_amount_total = fround (fadd untaxed tax_total) 2,
     roh_dealflow_deal_id = fo_dealflow_deal_id od,
     roh_dealflow_approval_state = fo_dealflow_approval_state od,
     roh_dealflow_risk_score = fo_dealflow_risk_score od,
     roh_dealflow_locked = fo_dealflow_locked od\<rparr>"

definition fake_get_sale_order :: "odoo_id \<Rightarrow> fake_state \<Rightarrow> raw_order result" where
  "fake_get_sale_order i g = (case map_of (fk_orders g) i of
     None \<Rightarrow> Inl ValueError
   | Some od \<Rightarrow> bind_exc (fold_exc (fake_order_step g) (fo_lines od) (0, 0, [])) (\<lambda>(u, t, ls).
       Inr \<lparr>ro_header = fake_header od u t, ro_lines = ls\<rparr>))"

text \<open>\<^verbatim>\<open>list_sale_orders\<close>: an absent, empty or zero filter does not filter.\<close>

definition fake_list_sale_orders ::
    "odoo_id list option \<Rightarrow> odoo_id option \<Rightarrow> odoo_state option \<Rightarrow> fake_state \<Rightarrow>
      raw_order_header list result" where
  "fake_list_sale_orders ids partner_id state g =
     fold_exc (\<lambda>oid headers. bind_exc (fake_get_sale_order oid g) (\<lambda>ro.
       let h = ro_header ro in
       if (case ids of None \<Rightarrow> False | Some xs \<Rightarrow> xs \<noteq> [] \<and> roh_id h \<notin> set xs) then Inr headers
       else if num_or partner_id 0 \<noteq> 0 \<and> roh_partner_id h \<noteq> num_or partner_id 0 then Inr headers
       else if (case state of None \<Rightarrow> False | Some st \<Rightarrow> roh_state h \<noteq> st) then Inr headers
       else Inr (headers @ [h])))
     (map fst (fk_orders g)) []"

definition fake_get_products :: "odoo_id list \<Rightarrow> fake_state \<Rightarrow> (odoo_id \<times> raw_product) list result" where
  "fake_get_products pids g = Inr (foldl (\<lambda>res pid. case map_of (fk_products g) pid of
       None \<Rightarrow> res | Some p \<Rightarrow> AList.update pid p res) [] pids)"

definition fake_get_price :: "odoo_id \<Rightarrow> odoo_id \<Rightarrow> rat \<Rightarrow> fake_state \<Rightarrow> dec result" where
  "fake_get_price partner_id product_id qty g = (case map_of (fk_products g) product_id of
     None \<Rightarrow> Inl ValueError | Some p \<Rightarrow> Inr (float_repr (rpr_list_price p)))"

definition fake_get_warehouses :: "fake_state \<Rightarrow> raw_warehouse list result" where
  "fake_get_warehouses g = Inr (map snd (fk_warehouses g))"

definition fake_get_availability ::
    "odoo_id list \<Rightarrow> odoo_id list option \<Rightarrow> fake_state \<Rightarrow> (odoo_id \<times> (odoo_id \<times> int) list) list result" where
  "fake_get_availability pids wids g =
     (let wh = (case wids of None \<Rightarrow> [1, 2, 3] | Some ws \<Rightarrow> if ws = [] then [1, 2, 3] else ws) in
      Inr (foldl (\<lambda>res pid.
        let w_map = (case map_of (fk_stock g) pid of None \<Rightarrow> [] | Some m \<Rightarrow> m) in
        AList.update pid
          (foldl (\<lambda>r wid. AList.update wid (case map_of w_map wid of None \<Rightarrow> 0 | Some q \<Rightarrow> q) r) [] wh)
          res) [] pids))"

definition fake_get_pickings :: "odoo_id \<Rightarrow> fake_state \<Rightarrow> raw_picking list result" where
  "fake_get_pickings i g = Inr (dict_list i (fk_pickings g))"

definition fake_schedule :: "schedule_row list" where
  "fake_schedule =
     [\<lparr>sr_period = 1, sr_date = ''2026-10-01'', sr_amount = 20000, sr_status = ''SCHEDULED''\<rparr>,
      \<lparr>sr_period = 2, sr_date = ''2026-11-01'', sr_amount = 20000, sr_status = ''SCHEDULED''\<rparr>]"

definition fake_get_billing_summary :: "odoo_id \<Rightarrow> fake_state \<Rightarrow> raw_billing_summary result" where
  "fake_get_billing_summary i g = (case map_of (fk_orders g) i of
     None \<Rightarrow> Inr empty_billing_summary
   | Some od \<Rightarrow> bind_exc
       (fold_exc (\<lambda>l (one_time, recurring).
          bind_exc (option_or_raise (map_of (fk_products g) (fl_product_id l)) KeyError) (\<lambda>p.
            Inr (if rpr_is_recurring p then (one_time, recurring @ [fl_id l])
                 else (one_time @ [fl_id l], recurring))))
        (fo_lines od) ([], []))
       (\<lambda>(one_time, recurring).
          let subs = dict_list i (fk_subscriptions g) in
          Inr \<lparr>rbs_one_time_lines = one_time, rbs_recurring_lines = recurring,
            rbs_invoices = dict_list i (fk_invoices g), rbs_payments = dict_list i (fk_payments g),
            rbs_subscriptions = subs, rbs_schedule = (if subs \<noteq> [] then fake_schedule else [])\<rparr>))"

definition fake_get_users :: "fake_state \<Rightarrow> odoo_identity list result" where
  "fake_get_users g = Inr [fake_identity u. u \<leftarrow> map snd (fk_users g), \<not> fu_is_share u]"

definition fake_get_confirmed_orders_for_mining :: "fake_state \<Rightarrow> mined_order list result" where
  "fake_get_confirmed_orders_for_mining g = Inr
     [\<lparr>mo_id = 1, mo_product_ids = [101, 104]\<rparr>, \<lparr>mo_id = 2, mo_product_ids = [101, 105]\<rparr>,
      \<lparr>mo_id = 3, mo_product_ids = [101, 109]\<rparr>, \<lparr>mo_id = 4, mo_product_ids = [103, 104]\<rparr>,
      \<lparr>mo_id = 5, mo_product_ids = [101, 106]\<rparr>, \<lparr>mo_id = 6, mo_product_ids = [107, 108]\<rparr>]"

section \<open>Writes\<close>

text \<open>Assigning keys of an order's dictionary.\<close>

definition set_order :: "odoo_id \<Rightarrow> (fake_order \<Rightarrow> fake_order) \<Rightarrow> fake_state \<Rightarrow> fake_state" where
  "set_order i f g = g\<lparr>fk_orders := AList.map_entry i f (fk_orders g)\<rparr>"

definition touch :: "odoo_id \<Rightarrow> fake_state \<Rightarrow> fake_state" where
  "touch i g = set_order i (\<lambda>od. od\<lparr>fo_write_date := Some (fk_clock g)\<rparr>) g"

definition apply_line_change :: "line_change \<Rightarrow> fake_line \<Rightarrow> fake_line" where
  "apply_line_change c l =
     (let lid = (case lc_line_id c of None \<Rightarrow> lc_id c | Some i \<Rightarrow> if i = 0 then lc_id c else Some i) in
      if Some (fl_id l) \<noteq> lid then l else
      let l1 = (case lc_discount c of None \<Rightarrow> l | Some d \<Rightarrow> l\<lparr>fl_discount_pct := fl64 d\<rparr>);
          l2 = (case lc_discount_pct c of None \<Rightarrow> l1 | Some d \<Rightarrow> l1\<lparr>fl_discount_pct := fl64 d\<rparr>);
          l3 = (case lc_qty c of None \<Rightarrow> l2 | Some q \<Rightarrow> l2\<lparr>fl_qty := fl64 q\<rparr>) in
      (case lc_product_uom_qty c of None \<Rightarrow> l3 | Some q \<Rightarrow> l3\<lparr>fl_qty := fl64 q\<rparr>))"

definition fake_apply_line_changes :: "odoo_id \<Rightarrow> line_change list \<Rightarrow> (fake_state, bool) effect" where
  "fake_apply_line_changes i cs g = (case map_of (fk_orders g) i of
     None \<Rightarrow> (Inl ValueError, g)
   | Some _ \<Rightarrow> (Inr True, touch i (set_order i (\<lambda>od. od\<lparr>fo_lines :=
       foldl (\<lambda>ls c. map (apply_line_change c) ls) (fo_lines od) cs\<rparr>) g)))"

definition fake_add_line :: "odoo_id \<Rightarrow> odoo_id \<Rightarrow> rat \<Rightarrow> rat \<Rightarrow> (fake_state, odoo_id) effect" where
  "fake_add_line i pid qty discount g = (case map_of (fk_orders g) i of
     None \<Rightarrow> (Inl ValueError, g)
   | Some _ \<Rightarrow>
       let g1 = g\<lparr>fk_line_seq := fk_line_seq g + 1\<rparr>; line_id = fk_line_seq g1 in
       (case map_of (fk_products g1) pid of
          None \<Rightarrow> (Inl KeyError, g1)
        | Some p \<Rightarrow>
            let l = \<lparr>fl_id = line_id, fl_product_id = pid, fl_qty = qty,
                     fl_price_unit = rpr_list_price p, fl_discount_pct = discount,
                     fl_tax_rate_pct = (if rpr_type p = ''SERVICE'' then 18 else 0)\<rparr> in
            (Inr line_id, touch i (set_order i (\<lambda>od. od\<lparr>fo_lines := fo_lines od @ [l]\<rparr>) g1))))"

text \<open>\<^verbatim>\<open>f"SO{order_id:05d}"\<close>.\<close>

definition zero_pad :: "nat \<Rightarrow> string \<Rightarrow> string" where
  "zero_pad w s = replicate (w - length s) (CHR ''0'') @ s"

definition order_name :: "odoo_id \<Rightarrow> string" where
  "order_name i = ''SO'' @ zero_pad 5 (int_digits i)"

definition new_order ::
    "odoo_id \<Rightarrow> raw_partner \<Rightarrow> odoo_id \<Rightarrow> odoo_id \<Rightarrow> odoo_id option \<Rightarrow> string \<Rightarrow> instant \<Rightarrow> fake_order" where
  "new_order oid partner pid uid tid currency now = \<lparr>fo_id = oid, fo_name = order_name oid,
     fo_partner_id = pid, fo_partner_name = rp_name partner, fo_state = OdooDraft,
     fo_currency = currency, fo_user_id = uid, fo_team_id = tid, fo_company_id = 1,
     fo_validity_date = None, fo_commitment_date = None, fo_write_date = Some now,
     fo_dealflow_deal_id = None, fo_dealflow_approval_state = Some DraftTag,
     fo_dealflow_risk_score = Some 0, fo_dealflow_locked = Some False, fo_lines = []\<rparr>"

definition add_line_spec :: "odoo_id \<Rightarrow> order_line_spec \<Rightarrow> (fake_state, odoo_id) effect" where
  "add_line_spec oid l = fake_add_line oid (ols_product_id l)
     (fl64 (case ols_qty l of None \<Rightarrow> 1 | Some q \<Rightarrow> q))
     (fl64 (case ols_discount_pct l of None \<Rightarrow> 0 | Some d \<Rightarrow> d))"

definition fake_create_order ::
    "odoo_id \<Rightarrow> odoo_id \<Rightarrow> odoo_id option \<Rightarrow> string \<Rightarrow> order_line_spec list option \<Rightarrow>
      (fake_state, raw_order) effect" where
  "fake_create_order pid uid tid currency lines g =
     (let oid = fk_order_seq g + 1; g1 = g\<lparr>fk_order_seq := oid\<rparr> in
      case map_of (fk_partners g1) pid of
        None \<Rightarrow> (Inl KeyError, g1)
      | Some partner \<Rightarrow>
          let g2 = g1\<lparr>fk_orders := AList.update oid
                (new_order oid partner pid uid tid currency (fk_clock g)) (fk_orders g1)\<rparr> in
          (case for_each (add_line_spec oid) (case lines of None \<Rightarrow> [] | Some ls \<Rightarrow> ls) g2 of
             (Inl e, g3) \<Rightarrow> (Inl e, g3)
           | (Inr _, g3) \<Rightarrow> (fake_get_sale_order oid g3, g3)))"

definition fake_set_governance :: "odoo_id \<Rightarrow> ApprovalState \<Rightarrow> rat \<Rightarrow> bool \<Rightarrow> (fake_state, bool) effect" where
  "fake_set_governance i st score lk g = (case map_of (fk_orders g) i of
     None \<Rightarrow> (Inl ValueError, g)
   | Some _ \<Rightarrow> (Inr True, touch i (set_order i (\<lambda>od. od\<lparr>
       fo_dealflow_approval_state := Some (StateTag st), fo_dealflow_risk_score := Some score,
       fo_dealflow_locked := Some lk\<rparr>) g)))"

text \<open>
  The totals of \<^verbatim>\<open>confirm\<close>: whether the order has recurring and one-time lines, and their sums.
\<close>

definition confirm_step ::
    "fake_state \<Rightarrow> fake_line \<Rightarrow> bool \<times> bool \<times> rat \<times> rat \<Rightarrow> exc + (bool \<times> bool \<times> rat \<times> rat)" where
  "confirm_step g l acc = (case acc of (has_recurring, has_onetime, total_recurring, total_onetime) \<Rightarrow>
     bind_exc (option_or_raise (map_of (fk_products g) (fl_product_id l)) KeyError) (\<lambda>p.
       let net = fake_line_net l in
       Inr (if rpr_is_recurring p then (True, has_onetime, fadd total_recurring net, total_onetime)
            else (has_recurring, True, total_recurring, fadd total_onetime net))))"

definition fresh_invoice :: "odoo_id \<Rightarrow> rat \<Rightarrow> raw_invoice" where
  "fresh_invoice i amount = \<lparr>ri_id = i * 10 + 1, ri_number = ''INV/'' @ int_digits i @ ''/001'',
     ri_type = ''out_invoice'', ri_state = ''posted'', ri_amount_total = fround amount 2,
     ri_amount_residual = fround amount 2, ri_amount_paid = 0, ri_payment_state = None\<rparr>"

definition fresh_subscription :: "odoo_id \<Rightarrow> rat \<Rightarrow> raw_subscription" where
  "fresh_subscription i amount = \<lparr>rsub_id = i * 10 + 2,
     rsub_code = ''SUB/'' @ int_digits i @ ''/001'', rsub_state = ''in_progress'',
     rsub_recurring_total = fround amount 2\<rparr>"

text \<open>
  The order is marked confirmed before the invoice and the subscription are made, so a missing
  product leaves it confirmed without them.
\<close>

definition fake_confirm :: "odoo_id \<Rightarrow> (fake_state, bool) effect" where
  "fake_confirm i g = (case map_of (fk_orders g) i of
     None \<Rightarrow> (Inl ValueError, g)
   | Some od \<Rightarrow>
       if fo_dealflow_locked od = Some True then (Inl ValueError, g)
       else
         let g1 = touch i (set_order i (\<lambda>od. od\<lparr>fo_state := OdooSale\<rparr>) g) in
         (case fold_exc (confirm_step g1) (fo_lines od) (False, False, 0, 0) of
            Inl e \<Rightarrow> (Inl e, g1)
          | Inr (has_recurring, has_onetime, total_recurring, total_onetime) \<Rightarrow>
              let g2 = (if has_onetime
                then g1\<lparr>fk_invoices := AList.update i [fresh_invoice i total_onetime] (fk_invoices g1)\<rparr>
                else g1);
                  g3 = (if has_recurring
                then g2\<lparr>fk_subscriptions :=
                  AList.update i [fresh_subscription i total_recurring] (fk_subscriptions g2)\<rparr>
                else g2) in
              (Inr True, g3)))"

definition fake_cancel :: "odoo_id \<Rightarrow> (fake_state, bool) effect" where
  "fake_cancel i g = (case map_of (fk_orders g) i of
     None \<Rightarrow> (Inl ValueError, g)
   | Some _ \<Rightarrow> (Inr True, touch i (set_order i (\<lambda>od. od\<lparr>fo_state := OdooCancel\<rparr>) g)))"

text \<open>
  \<^verbatim>\<open>apply_fulfillment_plan\<close>: the allocations grouped by warehouse (one without a warehouse is
  dropped), then one picking per group, the stock reduced line by line and never below zero.
\<close>

definition group_allocations :: "raw_allocation list \<Rightarrow> (odoo_id \<times> raw_allocation list) list" where
  "group_allocations as = foldl (\<lambda>by_wh a. let wid = num_or (ra_warehouse_id a) 0 in
     if wid = 0 then by_wh else AList.update wid (dict_list wid by_wh @ [a]) by_wh) [] as"

definition deduct_stock :: "odoo_id \<Rightarrow> raw_allocation \<Rightarrow> (odoo_id \<times> (odoo_id \<times> int) list) list \<Rightarrow>
    (odoo_id \<times> (odoo_id \<times> int) list) list" where
  "deduct_stock wid a stock =
     AList.map_entry (ra_product_id a) (AList.map_entry wid (\<lambda>q. max 0 (q - ra_qty a))) stock"

definition pick_group ::
    "odoo_id \<Rightarrow> odoo_id \<times> raw_allocation list \<Rightarrow> odoo_id list \<times> fake_state \<Rightarrow> odoo_id list \<times> fake_state" where
  "pick_group oid grp acc = (case grp of (wid, as) \<Rightarrow> case acc of (created, g) \<Rightarrow>
     let pid = fk_picking_seq g + 1;
         picking = \<lparr>rpk_id = pid, rpk_warehouse_id = wid, rpk_state = ''assigned'',
                    rpk_scheduled_date = Some (fk_clock g), rpk_date_done = None,
                    rpk_lines = map (\<lambda>a. \<lparr>pkl_product_id = ra_product_id a, pkl_qty = ra_qty a\<rparr>) as\<rparr> in
     (created @ [pid],
      g\<lparr>fk_picking_seq := pid, fk_stock := fold (deduct_stock wid) as (fk_stock g),
        fk_pickings := AList.update oid (dict_list oid (fk_pickings g) @ [picking]) (fk_pickings g)\<rparr>))"

definition fake_apply_fulfillment_plan ::
    "odoo_id \<Rightarrow> raw_allocation list \<Rightarrow> (fake_state, odoo_id list) effect" where
  "fake_apply_fulfillment_plan i as g = (case map_of (fk_orders g) i of
     None \<Rightarrow> (Inl ValueError, g)
   | Some _ \<Rightarrow>
       let (created, g') = fold (pick_group i) (group_allocations as) ([], g) in (Inr created, g'))"

text \<open>
  \<^verbatim>\<open>register_payment\<close> pays the first invoice with that identifier, in the order of the
  dictionary; an unknown invoice is acknowledged and changes nothing.
\<close>

definition pay_invoice :: "rat \<Rightarrow> raw_invoice \<Rightarrow> raw_invoice" where
  "pay_invoice amount bill =
     (let paid = fadd (ri_amount_paid bill) amount;
          residual = max 0 (fsub (ri_amount_total bill) paid) in
      bill\<lparr>ri_amount_residual := fround residual 2, ri_amount_paid := fround paid 2,
          ri_payment_state := Some (if residual = 0 then ''paid'' else ''partial'')\<rparr>)"

fun pay_in :: "odoo_id \<Rightarrow> rat \<Rightarrow> raw_invoice list \<Rightarrow> raw_invoice list option" where
  "pay_in i amount [] = None"
| "pay_in i amount (bill # bills) =
     (if ri_id bill = i then Some (pay_invoice amount bill # bills)
      else map_option ((#) bill) (pay_in i amount bills))"

fun pay_orders :: "odoo_id \<Rightarrow> rat \<Rightarrow> (odoo_id \<times> raw_invoice list) list \<Rightarrow>
    (odoo_id \<times> (odoo_id \<times> raw_invoice list) list) option" where
  "pay_orders i amount [] = None"
| "pay_orders i amount ((oid, invs) # rest) = (case pay_in i amount invs of
     Some invs' \<Rightarrow> Some (oid, (oid, invs') # rest)
   | None \<Rightarrow> map_option (\<lambda>(paid_oid, rest'). (paid_oid, (oid, invs) # rest')) (pay_orders i amount rest))"

definition fake_register_payment ::
    "odoo_id \<Rightarrow> rat \<Rightarrow> odoo_id option \<Rightarrow> (fake_state, payment_result) effect" where
  "fake_register_payment i amount journal_id g = (case pay_orders i amount (fk_invoices g) of
     None \<Rightarrow> (Inr (PaymentAck i amount), g)
   | Some (oid, invs) \<Rightarrow>
       let pay = \<lparr>rpay_id = i * 100 + 1, rpay_invoice_id = i, rpay_amount = amount,
                  rpay_payment_date = fk_clock g\<rparr> in
       (Inr (PaymentRecord pay), g\<lparr>fk_invoices := invs, fk_payments :=
          AList.update oid (dict_list oid (fk_payments g) @ [pay]) (fk_payments g)\<rparr>))"

definition fake_gateway :: "fake_state gateway" where
  "fake_gateway = \<lparr>gw_authenticate = fake_authenticate, gw_get_sale_order = fake_get_sale_order,
     gw_list_sale_orders = fake_list_sale_orders, gw_create_order = fake_create_order,
     gw_get_partner = fake_get_partner, gw_get_customer_by_email = fake_get_customer_by_email,
     gw_get_products = fake_get_products, gw_get_price = fake_get_price,
     gw_get_warehouses = fake_get_warehouses, gw_get_availability = fake_get_availability,
     gw_get_pickings = fake_get_pickings, gw_get_billing_summary = fake_get_billing_summary,
     gw_apply_line_changes = fake_apply_line_changes, gw_add_line = fake_add_line,
     gw_set_governance = fake_set_governance, gw_confirm = fake_confirm, gw_cancel = fake_cancel,
     gw_apply_fulfillment_plan = fake_apply_fulfillment_plan,
     gw_register_payment = fake_register_payment, gw_get_users = fake_get_users,
     gw_get_confirmed_orders_for_mining = fake_get_confirmed_orders_for_mining\<rparr>"

section \<open>The invariant\<close>

text \<open>
  Orders are filed under their own identifier, identifiers never exceed the counter they were drawn
  from, the lines of an order are distinct and of known products, and stock is never negative.
\<close>

definition fake_order_ok :: "fake_state \<Rightarrow> odoo_id \<Rightarrow> fake_order \<Rightarrow> bool" where
  "fake_order_ok g k od \<longleftrightarrow> fo_id od = k \<and> k \<le> fk_order_seq g \<and> distinct (map fl_id (fo_lines od)) \<and>
     (\<forall>l\<in>set (fo_lines od). fl_id l \<le> fk_line_seq g \<and> map_of (fk_products g) (fl_product_id l) \<noteq> None)"

definition stock_ok :: "(odoo_id \<times> (odoo_id \<times> int) list) list \<Rightarrow> bool" where
  "stock_ok stock \<longleftrightarrow> (\<forall>m\<in>set stock. \<forall>e\<in>set (snd m). 0 \<le> snd e)"

definition fake_ok :: "fake_state \<Rightarrow> bool" where
  "fake_ok g \<longleftrightarrow> distinct (map fst (fk_orders g)) \<and>
     (\<forall>e\<in>set (fk_orders g). fake_order_ok g (fst e) (snd e)) \<and> stock_ok (fk_stock g)"

lemma fake_okD: "fake_ok g \<Longrightarrow> map_of (fk_orders g) i = Some od \<Longrightarrow> fake_order_ok g i od"
  by (auto simp: fake_ok_def dest: map_of_SomeD)

lemma fake_ok_reset: "fake_ok (fake_reset now)"
  by (simp add: fake_ok_def fake_reset_def stock_ok_def reset_stock_def)

lemma map_of_set_order:
  "map_of (fk_orders (set_order i f g)) j =
     (if j = i then map_option f (map_of (fk_orders g) i) else map_of (fk_orders g) j)"
  by (simp add: set_order_def map_of_map_entry_case)

lemma set_order_frame [simp]:
  "fk_products (set_order i f g) = fk_products g" "fk_stock (set_order i f g) = fk_stock g"
  "fk_order_seq (set_order i f g) = fk_order_seq g" "fk_line_seq (set_order i f g) = fk_line_seq g"
  "fk_clock (set_order i f g) = fk_clock g" "fk_partners (set_order i f g) = fk_partners g"
  "fk_invoices (set_order i f g) = fk_invoices g" "fk_pickings (set_order i f g) = fk_pickings g"
  by (simp_all add: set_order_def)

lemma fake_ok_set_order:
  assumes "fake_ok g"
    and "\<And>od. fake_order_ok g i od \<Longrightarrow> (i, od) \<in> set (fk_orders g) \<Longrightarrow> fake_order_ok g i (f od)"
  shows "fake_ok (set_order i f g)"
proof -
  have ok: "fake_order_ok (set_order i f g) = fake_order_ok g"
    by (intro ext) (simp add: fake_order_ok_def)
  show ?thesis unfolding fake_ok_def ok
    using assms by (force simp: set_order_def fake_ok_def dest!: in_set_map_entry)
qed

lemma fake_ok_touch [simp]: "fake_ok g \<Longrightarrow> fake_ok (touch i g)"
  unfolding touch_def by (rule fake_ok_set_order) (auto simp: fake_order_ok_def)

lemma map_of_touch:
  "map_of (fk_orders (touch i g)) j = (if j = i
     then map_option (\<lambda>od. od\<lparr>fo_write_date := Some (fk_clock g)\<rparr>) (map_of (fk_orders g) i)
     else map_of (fk_orders g) j)"
  by (simp add: touch_def map_of_set_order)

lemma touch_frame [simp]:
  "fk_products (touch i g) = fk_products g" "fk_stock (touch i g) = fk_stock g"
  "fk_order_seq (touch i g) = fk_order_seq g" "fk_line_seq (touch i g) = fk_line_seq g"
  "fk_partners (touch i g) = fk_partners g" "fk_invoices (touch i g) = fk_invoices g"
  by (simp_all add: touch_def)

lemma apply_line_change_frame [simp]:
  "fl_id (apply_line_change c l) = fl_id l"
  "fl_product_id (apply_line_change c l) = fl_product_id l"
  by (simp_all add: apply_line_change_def Let_def split: option.splits)

lemma fold_line_changes_ids:
  "map fl_id (foldl (\<lambda>ls c. map (apply_line_change c) ls) ls cs) = map fl_id ls \<and>
   map fl_product_id (foldl (\<lambda>ls c. map (apply_line_change c) ls) ls cs) = map fl_product_id ls"
  by (induction cs arbitrary: ls) (simp_all add: comp_def)

lemma order_ok_lines:
  "fake_order_ok g k od \<longleftrightarrow> fo_id od = k \<and> k \<le> fk_order_seq g \<and> distinct (map fl_id (fo_lines od)) \<and>
     (\<forall>i\<in>set (map fl_id (fo_lines od)). i \<le> fk_line_seq g) \<and>
     (\<forall>p\<in>set (map fl_product_id (fo_lines od)). map_of (fk_products g) p \<noteq> None)"
  by (auto simp: fake_order_ok_def)

lemma fake_ok_apply_line_changes: "fake_ok g \<Longrightarrow> fake_ok (snd (fake_apply_line_changes i cs g))"
  unfolding fake_apply_line_changes_def
  by (auto split: option.splits intro!: fake_ok_touch fake_ok_set_order
      simp: order_ok_lines fold_line_changes_ids simp del: set_map)

lemma fake_ok_line_seq: "fake_ok g \<Longrightarrow> fake_ok (g\<lparr>fk_line_seq := fk_line_seq g + 1\<rparr>)"
  by (force simp: fake_ok_def fake_order_ok_def)

lemma fake_ok_add_line:
  assumes "fake_ok g" shows "fake_ok (snd (fake_add_line i pid qty discount g))"
proof (cases "map_of (fk_orders g) i = None \<or> map_of (fk_products g) pid = None")
  case True
  with fake_ok_line_seq[OF assms] assms show ?thesis
    by (auto simp: fake_add_line_def Let_def split: option.splits)
next
  case False
  then obtain od p where od: "map_of (fk_orders g) i = Some od" and p: "map_of (fk_products g) pid = Some p"
    by auto
  let ?g = "g\<lparr>fk_line_seq := fk_line_seq g + 1\<rparr>"
  define l where "l = \<lparr>fl_id = fk_line_seq g + 1, fl_product_id = pid, fl_qty = qty,
    fl_price_unit = rpr_list_price p, fl_discount_pct = discount,
    fl_tax_rate_pct = (if rpr_type p = ''SERVICE'' then 18 else 0)\<rparr>"
  have res: "snd (fake_add_line i pid qty discount g) =
      touch i (set_order i (\<lambda>od. od\<lparr>fo_lines := fo_lines od @ [l]\<rparr>) ?g)"
    using od p by (simp add: fake_add_line_def Let_def l_def)
  have "fake_order_ok ?g i (od'\<lparr>fo_lines := fo_lines od' @ [l]\<rparr>)"
    if "(i, od') \<in> set (fk_orders ?g)" for od'
  proof -
    have "fake_order_ok g i od'" using that assms by (auto simp: fake_ok_def)
    then show ?thesis using p by (auto simp: fake_order_ok_def l_def)
  qed
  then show ?thesis unfolding res by (intro fake_ok_touch fake_ok_set_order fake_ok_line_seq assms) blast
qed

lemma fake_ok_new_order:
  assumes "fake_ok g" and "fo_id od = fk_order_seq g + 1" and "fo_lines od = []"
  shows "fake_ok (g\<lparr>fk_order_seq := fk_order_seq g + 1,
                    fk_orders := AList.update (fk_order_seq g + 1) od (fk_orders g)\<rparr>)"
proof -
  let ?g = "g\<lparr>fk_order_seq := fk_order_seq g + 1,
                    fk_orders := AList.update (fk_order_seq g + 1) od (fk_orders g)\<rparr>"
  have "fake_order_ok g k od' \<Longrightarrow> fake_order_ok ?g k od'" for k od'
    by (simp add: fake_order_ok_def)
  moreover have "fake_order_ok ?g (fk_order_seq g + 1) od" using assms by (simp add: fake_order_ok_def)
  ultimately show ?thesis
    using assms(1) by (auto simp: fake_ok_def distinct_update dest!: in_set_update)
qed

lemma fake_ok_order_seq: "fake_ok g \<Longrightarrow> fake_ok (g\<lparr>fk_order_seq := fk_order_seq g + 1\<rparr>)"
proof -
  have "fake_order_ok g k od \<Longrightarrow> fake_order_ok (g\<lparr>fk_order_seq := fk_order_seq g + 1\<rparr>) k od" for k od
    by (simp add: fake_order_ok_def)
  then show "fake_ok g \<Longrightarrow> ?thesis" by (auto simp: fake_ok_def)
qed

lemma fake_ok_add_line_specs: "fake_ok g \<Longrightarrow> fake_ok (snd (for_each (add_line_spec i) ls g))"
  by (rule for_each_invariant[where P = fake_ok]) (simp_all add: add_line_spec_def fake_ok_add_line)

lemma fake_ok_create_order:
  assumes "fake_ok g" shows "fake_ok (snd (fake_create_order pid uid tid currency lines g))"
proof (cases "map_of (fk_partners g) pid")
  case None
  then show ?thesis using fake_ok_order_seq[OF assms] by (simp add: fake_create_order_def Let_def)
next
  case (Some partner)
  let ?g2 = "g\<lparr>fk_order_seq := fk_order_seq g + 1, fk_orders := AList.update (fk_order_seq g + 1)
      (new_order (fk_order_seq g + 1) partner pid uid tid currency (fk_clock g)) (fk_orders g)\<rparr>"
  have "snd (fake_create_order pid uid tid currency lines g) =
      snd (for_each (add_line_spec (fk_order_seq g + 1)) (case lines of None \<Rightarrow> [] | Some ls \<Rightarrow> ls) ?g2)"
    using Some by (simp add: fake_create_order_def Let_def split: prod.split sum.split)
  moreover have "fake_ok ?g2" using assms by (rule fake_ok_new_order) (simp_all add: new_order_def)
  ultimately show ?thesis by (simp add: fake_ok_add_line_specs)
qed

lemma fake_ok_set_governance: "fake_ok g \<Longrightarrow> fake_ok (snd (fake_set_governance i st sc lk g))"
  unfolding fake_set_governance_def
  by (auto split: option.splits intro!: fake_ok_touch fake_ok_set_order simp: fake_order_ok_def)

lemma fake_ok_cancel: "fake_ok g \<Longrightarrow> fake_ok (snd (fake_cancel i g))"
  unfolding fake_cancel_def
  by (auto split: option.splits intro!: fake_ok_touch fake_ok_set_order simp: fake_order_ok_def)

lemma fake_ok_more [simp]:
  "fake_ok (g\<lparr>fk_invoices := a\<rparr>) = fake_ok g" "fake_ok (g\<lparr>fk_subscriptions := b\<rparr>) = fake_ok g"
  "fake_ok (g\<lparr>fk_payments := c\<rparr>) = fake_ok g" "fake_ok (g\<lparr>fk_clock := t\<rparr>) = fake_ok g"
  by (simp_all add: fake_ok_def fake_order_ok_def)

lemma fake_ok_confirm: "fake_ok g \<Longrightarrow> fake_ok (snd (fake_confirm i g))"
proof -
  assume "fake_ok g"
  then have "fake_ok (touch i (set_order i (\<lambda>od. od\<lparr>fo_state := OdooSale\<rparr>) g))"
    by (intro fake_ok_touch fake_ok_set_order) (auto simp: fake_order_ok_def)
  with \<open>fake_ok g\<close> show ?thesis
    by (auto simp: fake_confirm_def Let_def split: option.splits sum.splits)
qed

lemma stock_ok_deduct: "stock_ok s \<Longrightarrow> stock_ok (deduct_stock wid a s)"
  unfolding stock_ok_def deduct_stock_def by (force dest!: in_set_map_entry)

lemma stock_ok_fold_deduct: "stock_ok s \<Longrightarrow> stock_ok (fold (deduct_stock wid) as s)"
  by (induction as arbitrary: s) (simp_all add: stock_ok_deduct)

lemma fake_ok_stock:
  "fake_ok g \<Longrightarrow> stock_ok s \<Longrightarrow> fake_ok (g\<lparr>fk_picking_seq := a, fk_stock := s, fk_pickings := b\<rparr>)"
proof -
  have "fake_order_ok (g\<lparr>fk_picking_seq := a, fk_stock := s, fk_pickings := b\<rparr>) = fake_order_ok g"
    by (intro ext) (simp add: fake_order_ok_def)
  then show "fake_ok g \<Longrightarrow> stock_ok s \<Longrightarrow> ?thesis" by (simp add: fake_ok_def)
qed

lemma fake_ok_stockD: "fake_ok g \<Longrightarrow> stock_ok (fk_stock g)"
  by (simp add: fake_ok_def)

lemma fake_ok_pick_groups:
  "fake_ok (snd acc) \<Longrightarrow> fake_ok (snd (fold (pick_group i) grps acc))"
proof (induction grps arbitrary: acc)
  case (Cons grp grps)
  have "fake_ok (snd (pick_group i grp acc))"
    using Cons.prems by (cases acc; cases grp)
      (simp add: pick_group_def Let_def fake_ok_stock fake_ok_stockD stock_ok_fold_deduct)
  then show ?case using Cons.IH by simp
qed simp

lemma fake_ok_apply_fulfillment_plan:
  "fake_ok g \<Longrightarrow> fake_ok (snd (fake_apply_fulfillment_plan i as g))"
  using fake_ok_pick_groups[of "([], g)" i "group_allocations as"]
  by (auto simp: fake_apply_fulfillment_plan_def split: option.splits prod.splits)

lemma fake_ok_register_payment: "fake_ok g \<Longrightarrow> fake_ok (snd (fake_register_payment i amount j g))"
  by (auto simp: fake_register_payment_def Let_def fake_ok_def fake_order_ok_def split: option.splits)

section \<open>The contract\<close>

lemma order_step_frame:
  "fk_products g' = fk_products g \<Longrightarrow> fake_order_step g' = fake_order_step g"
  by (intro ext) (simp add: fake_order_step_def)

lemma fake_get_sale_order_cong:
  "fk_products g' = fk_products g \<Longrightarrow> map_of (fk_orders g') i = map_of (fk_orders g) i \<Longrightarrow>
     fake_get_sale_order i g' = fake_get_sale_order i g"
  using order_step_frame[of g' g] by (simp add: fake_get_sale_order_def split: option.split)

lemma fake_get_sale_order_Inr:
  "fake_get_sale_order i g = Inr ro \<Longrightarrow>
     \<exists>od u t. map_of (fk_orders g) i = Some od \<and> ro_header ro = fake_header od u t"
  by (auto simp: fake_get_sale_order_def bind_exc_Inr_iff split: option.splits prod.splits)
     (rule exI, rule exI, rule refl)

lemma fold_order_step_ok:
  "\<forall>l\<in>set ls. map_of (fk_products g) (fl_product_id l) \<noteq> None \<Longrightarrow>
     \<exists>r. fold_exc (fake_order_step g) ls acc = Inr r"
proof (induction ls arbitrary: acc)
  case (Cons l ls)
  obtain p where "map_of (fk_products g) (fl_product_id l) = Some p" using Cons.prems by auto
  then have "\<exists>acc'. fake_order_step g l acc = Inr acc'"
    by (cases acc) (simp add: fake_order_step_def Let_def)
  with Cons show ?case by (auto simp del: split_paired_Ex)
qed (simp del: split_paired_Ex)

lemma fake_get_sale_order_total:
  assumes "fake_ok g" and "map_of (fk_orders g) i \<noteq> None"
  shows "\<exists>ro. fake_get_sale_order i g = Inr ro"
proof -
  obtain od where od: "map_of (fk_orders g) i = Some od" using assms(2) by auto
  then have "\<forall>l\<in>set (fo_lines od). map_of (fk_products g) (fl_product_id l) \<noteq> None"
    using fake_okD[OF assms(1)] by (auto simp: fake_order_ok_def)
  from fold_order_step_ok[OF this, of "(0, 0, [])"] od show ?thesis
    by (auto simp: fake_get_sale_order_def split: prod.splits)
qed

lemma fake_isl_get_sale_order:
  "fake_ok g \<Longrightarrow> isl (fake_get_sale_order i g) \<longleftrightarrow> map_of (fk_orders g) i = None"
  using fake_get_sale_order_total[of g i] by (fastforce simp: fake_get_sale_order_def)

lemma fake_confirm_frame:
  "fk_products (snd (fake_confirm i g)) = fk_products g"
  "fk_orders (snd (fake_confirm i g)) = (if snd (fake_confirm i g) = g then fk_orders g
     else fk_orders (touch i (set_order i (\<lambda>od. od\<lparr>fo_state := OdooSale\<rparr>) g)))"
  by (simp_all add: fake_confirm_def Let_def split: option.split sum.split)

lemma fake_confirm_other:
  "i \<noteq> j \<Longrightarrow> map_of (fk_orders (snd (fake_confirm i g))) j = map_of (fk_orders g) j"
  by (simp add: fake_confirm_frame map_of_touch map_of_set_order)

lemma fake_confirm_state:
  assumes "fake_confirm i g = (Inr b, g')"
  shows "\<exists>od. map_of (fk_orders g') i = Some od \<and> fo_state od = OdooSale"
proof -
  obtain od where od: "map_of (fk_orders g) i = Some od" and "fo_dealflow_locked od \<noteq> Some True"
    using assms by (auto simp: fake_confirm_def split: option.splits if_splits)
  then have "fk_orders g' = fk_orders (touch i (set_order i (\<lambda>od. od\<lparr>fo_state := OdooSale\<rparr>) g))"
    using assms by (auto simp: fake_confirm_def Let_def split: sum.splits)
  then show ?thesis using od by (simp add: map_of_touch map_of_set_order)
qed

interpretation fake: odoo_gateway fake_gateway fake_ok
proof (unfold_locales, goal_cases)
  case (1 g i ro)
  then show ?case
    by (auto simp: fake_gateway_def fake_header_def fake_order_ok_def
        dest!: fake_get_sale_order_Inr dest: fake_okD)
next
  case (2 g i st sc lk) then show ?case by (simp add: fake_gateway_def fake_ok_set_governance)
next
  case (3 g i st sc lk b g' ro)
  then show ?case
    by (auto simp: fake_gateway_def fake_set_governance_def map_of_touch map_of_set_order
        fake_header_def dest!: fake_get_sale_order_Inr split: option.splits)
next
  case (4 g i st sc lk b g')
  then have "fake_ok g'" using fake_ok_set_governance[of g i st sc lk] by (simp add: fake_gateway_def)
  with 4 show ?case
    by (auto simp: fake_gateway_def fake_isl_get_sale_order fake_set_governance_def map_of_touch
        map_of_set_order split: option.splits)
next
  case (5 g i j st sc lk)
  then show ?case
    by (auto simp: fake_gateway_def fake_set_governance_def map_of_touch map_of_set_order
        intro!: fake_get_sale_order_cong split: option.splits)
next
  case (6 g i) then show ?case by (simp add: fake_gateway_def fake_ok_confirm)
next
  case (7 g i)
  then show ?case
    by (auto simp: locked_in_def fake_gateway_def fake_header_def fake_confirm_def
        dest!: fake_get_sale_order_Inr split: sum.splits)
next
  case (8 g i b g' ro)
  then have "fake_confirm i g = (Inr b, g')" "fake_get_sale_order i g' = Inr ro"
    by (simp_all add: fake_gateway_def)
  from fake_confirm_state[OF this(1)] fake_get_sale_order_Inr[OF this(2)]
  show ?case by (auto simp: fake_header_def)
next
  case (9 g i j)
  then show ?case
    by (auto simp: fake_gateway_def fake_confirm_frame(1) fake_confirm_other
        intro!: fake_get_sale_order_cong)
qed

section \<open>Runs of the gateway\<close>

text \<open>Every call a client can make, and the passing of time.\<close>

inductive fake_step :: "fake_state \<Rightarrow> fake_state \<Rightarrow> bool" where
  tick: "fk_clock g \<le> t \<Longrightarrow> fake_step g (g\<lparr>fk_clock := t\<rparr>)"
| create: "fake_step g (snd (fake_create_order pid uid tid currency ls g))"
| change: "fake_step g (snd (fake_apply_line_changes i cs g))"
| add: "fake_step g (snd (fake_add_line i pid qty discount g))"
| govern: "fake_step g (snd (fake_set_governance i st score lk g))"
| confirm: "fake_step g (snd (fake_confirm i g))"
| cancel: "fake_step g (snd (fake_cancel i g))"
| ship: "fake_step g (snd (fake_apply_fulfillment_plan i as g))"
| pay: "fake_step g (snd (fake_register_payment n amount j g))"

inductive fake_reachable :: "fake_state \<Rightarrow> bool" where
  start: "fake_reachable (fake_reset now)"
| step: "fake_reachable g \<Longrightarrow> fake_step g g' \<Longrightarrow> fake_reachable g'"

lemma fake_step_ok: "fake_step g g' \<Longrightarrow> fake_ok g \<Longrightarrow> fake_ok g'"
  by (induction rule: fake_step.induct)
     (simp_all add: fake_ok_create_order fake_ok_apply_line_changes fake_ok_add_line
       fake_ok_set_governance fake_ok_confirm fake_ok_cancel fake_ok_apply_fulfillment_plan
       fake_ok_register_payment)

lemma fake_reachable_fake_ok: "fake_reachable g \<Longrightarrow> fake_ok g"
  by (induction rule: fake_reachable.induct) (auto intro: fake_ok_reset fake_step_ok)

text \<open>The lines that are read, whatever the totals come to.\<close>

definition fake_raw_lines :: "fake_state \<Rightarrow> fake_order \<Rightarrow> raw_order_line list" where
  "fake_raw_lines g od =
     map (\<lambda>l. fake_raw_line l (the (map_of (fk_products g) (fl_product_id l)))) (fo_lines od)"

lemma fake_order_step_Inr:
  "fake_order_step g l (u, t, acc) = Inr r \<Longrightarrow>
     \<exists>p u' t'. map_of (fk_products g) (fl_product_id l) = Some p \<and> r = (u', t', acc @ [fake_raw_line l p])"
  by (auto simp: fake_order_step_def bind_exc_Inr_iff Let_def)

lemma fold_order_step_lines:
  "fold_exc (fake_order_step g) ls (u, t, acc) = Inr (u', t', acc') \<Longrightarrow>
     acc' = acc @ map (\<lambda>l. fake_raw_line l (the (map_of (fk_products g) (fl_product_id l)))) ls"
proof (induction ls arbitrary: u t acc)
  case (Cons l ls)
  then show ?case by (auto simp: bind_exc_Inr_iff dest!: fake_order_step_Inr Cons.IH)
qed simp

lemma fake_get_sale_order_lines:
  "fake_get_sale_order i g = Inr ro \<Longrightarrow> map_of (fk_orders g) i = Some od \<Longrightarrow>
     ro_lines ro = fake_raw_lines g od \<and> (\<exists>u t. ro_header ro = fake_header od u t)"
  by (auto simp: fake_get_sale_order_def bind_exc_Inr_iff fake_raw_lines_def
      dest!: fold_order_step_lines) (rule exI, rule exI, rule refl)

lemma fake_get_sale_order_ids:
  "fake_get_sale_order i g = Inr ro \<Longrightarrow> map_of (fk_orders g) i = Some od \<Longrightarrow>
     map rol_id (ro_lines ro) = map fl_id (fo_lines od)"
  using fake_get_sale_order_lines[of i g ro od]
  by (simp add: fake_raw_lines_def fake_raw_line_def comp_def)

text \<open>
  In every state the in-memory Odoo can reach from its fixtures, by any sequence of its mutating
  calls (also of calls that raise half-way), each stored order can be read back without an error,
  under its own identifier and with exactly its lines, and no stock level is negative.
\<close>

theorem fake_orders_readable:
  assumes "fake_reachable g" and "map_of (fk_orders g) i = Some od"
  shows "(\<exists>ro. fake_get_sale_order i g = Inr ro \<and> roh_id (ro_header ro) = i \<and>
            map rol_id (ro_lines ro) = map fl_id (fo_lines od)) \<and>
         (\<forall>(p, m)\<in>set (fk_stock g). \<forall>(w, q)\<in>set m. 0 \<le> q)"
proof -
  have ok: "fake_ok g" by (rule fake_reachable_fake_ok[OF assms(1)])
  obtain ro where ro: "fake_get_sale_order i g = Inr ro"
    using fake_get_sale_order_total[OF ok] assms(2) by auto
  moreover have "roh_id (ro_header ro) = i"
    using fake.order_id[OF ok, of i ro] ro by (simp add: fake_gateway_def)
  ultimately show ?thesis
    using fake_get_sale_order_ids[OF ro assms(2)] fake_ok_stockD[OF ok]
    by (force simp: stock_ok_def)
qed

text \<open>The state after the first order of the seed script: two laptops for Acme at five percent off.\<close>

definition demo_order :: "order_line_spec list" where
  "demo_order = [\<lparr>ols_product_id = 101, ols_qty = Some 2, ols_discount_pct = Some 5\<rparr>]"

definition demo_state :: fake_state where
  "demo_state = snd (fake_create_order 1 4 (Some 1) ''INR'' (Some demo_order) (fake_reset 0))"

lemma demo_state_reachable: "fake_reachable demo_state"
  unfolding demo_state_def by (rule fake_reachable.step[OF fake_reachable.start fake_step.create])

lemma demo_state_order: "map_of (fk_orders demo_state) 101 \<noteq> None"
  by (simp add: demo_state_def demo_order_def fake_create_order_def Let_def fake_reset_def
      reset_partners_def reset_products_def add_line_spec_def fake_add_line_def map_of_touch
      map_of_set_order)

theorem fake_orders_readable_witness:
  "\<exists>ro. fake_get_sale_order 101 demo_state = Inr ro"
  using demo_state_order fake_orders_readable[OF demo_state_reachable, of 101] by auto

text \<open>
  Once DealFlow has locked an order in Odoo, Odoo refuses to confirm it, whatever order it is and
  in whatever reachable state, and the refused call changes nothing.
\<close>

theorem fake_locked_not_confirmed:
  assumes "fake_reachable g" and "fake_set_governance i st score True g = (Inr b, g')"
  shows "\<exists>e. fake_confirm i g' = (Inl e, g')"
proof -
  have ok: "fake_ok g" by (rule fake_reachable_fake_ok[OF assms(1)])
  have "map_of (fk_orders g) i \<noteq> None"
    using assms(2) by (auto simp: fake_set_governance_def split: option.splits)
  then show ?thesis
    using fake.lock_stops_confirm[OF ok, of i st score b g'] assms(2) fake_isl_get_sale_order[OF ok]
    by (simp add: fake_gateway_def)
qed

theorem fake_locked_not_confirmed_witness:
  "\<exists>e. fake_confirm 101 (snd (fake_set_governance 101 ApprovalState.PENDING_MANAGER 35 True demo_state)) =
     (Inl e, snd (fake_set_governance 101 ApprovalState.PENDING_MANAGER 35 True demo_state))"
  by (rule fake_locked_not_confirmed[OF demo_state_reachable, where b = True])
     (use demo_state_order in \<open>auto simp: fake_set_governance_def\<close>)

text \<open>
  A payment moves at most the open amount: after it, the invoice's residual is never negative,
  and the invoice counts as paid exactly when the payments reach its total (float sums).
\<close>

theorem pay_invoice_residual:
  "0 \<le> ri_amount_residual (pay_invoice amount bill) \<and>
   (ri_payment_state (pay_invoice amount bill) = Some ''paid'' \<longleftrightarrow>
      ri_amount_total bill \<le> fadd (ri_amount_paid bill) amount)"
  using fl64_pos_iff[of "ri_amount_total bill - fadd (ri_amount_paid bill) amount"]
  by (auto simp: pay_invoice_def Let_def fsub_def fround_nonneg max_def not_less)

end
