(* ===== verification/Fixture.thy ===== *)
theory Fixture
  imports Deal_Context Fake_Gateway
begin

text \<open>
  A small order in the in-memory Odoo, with one stocked and one recurring line, and the deal context
  built from it: the input on which the witnesses of later theories run.
\<close>

definition small_line :: "odoo_id \<Rightarrow> odoo_id \<Rightarrow> rat \<Rightarrow> rat \<Rightarrow> rat \<Rightarrow> fake_line" where
  "small_line i p q price d = \<lparr>fl_id = i, fl_product_id = p, fl_qty = q, fl_price_unit = price,
     fl_discount_pct = d, fl_tax_rate_pct = 0\<rparr>"

definition small_product :: "odoo_id \<Rightarrow> rat \<Rightarrow> bool \<Rightarrow> raw_product" where
  "small_product i cost rec = \<lparr>rpr_id = i, rpr_name = ''P'', rpr_category_id = 1,
     rpr_category_path = [1], rpr_type = (if rec then ''SUBSCRIPTION'' else ''STOCKABLE''),
     rpr_standard_price = cost, rpr_list_price = 50000, rpr_tags = [], rpr_is_recurring = rec,
     rpr_plan_info = None\<rparr>"

definition small_order :: "rat \<Rightarrow> fake_order" where
  "small_order disc = \<lparr>fo_id = 1, fo_name = ''S1'', fo_partner_id = 1, fo_partner_name = ''Acme'',
     fo_state = OdooDraft, fo_currency = ''INR'', fo_user_id = 4, fo_team_id = Some 1,
     fo_company_id = 1, fo_validity_date = None, fo_commitment_date = None, fo_write_date = None,
     fo_dealflow_deal_id = None, fo_dealflow_approval_state = Some DraftTag,
     fo_dealflow_risk_score = Some 0, fo_dealflow_locked = Some False,
     fo_lines = [small_line 11 101 2 50000 disc, small_line 12 109 1 20000 0]\<rparr>"

definition small_state :: "rat \<Rightarrow> fake_state" where
  "small_state disc = \<lparr>fk_users = [], fk_partners = [], fk_products =
       [(101, small_product 101 30000 False), (109, small_product 109 6000 True)],
     fk_warehouses = [], fk_stock = [(101, [(1, 8), (2, 5)])], fk_orders = [(1, small_order disc)],
     fk_order_seq = 100, fk_line_seq = 1000, fk_picking_seq = 500, fk_pickings = [],
     fk_invoices = [], fk_payments = [], fk_subscriptions = [], fk_clock = 0\<rparr>"

definition small_line_context ::
    "odoo_id \<Rightarrow> odoo_id \<Rightarrow> bool \<Rightarrow> dec \<Rightarrow> dec \<Rightarrow> dec \<Rightarrow> dec \<Rightarrow> dec \<Rightarrow> dec \<Rightarrow> dec \<Rightarrow> dec \<Rightarrow> int \<Rightarrow> deal_line_context" where
  "small_line_context i p rec q price d cost sub csub marg mpct avail =
     \<lparr>dl_line_id = i, dl_product_id = p, dl_product_name = ''P'', dl_category_id = 1,
      dl_category_path = [1], dl_product_type = (if rec then ''SUBSCRIPTION'' else ''STOCKABLE''),
      dl_qty = q, dl_price_unit = price, dl_list_price = price, dl_discount_pct = d,
      dl_unit_cost = cost, dl_subtotal = sub, dl_cost_subtotal = csub, dl_margin_amount = marg,
      dl_margin_pct = mpct, dl_is_recurring = rec, dl_tax_rate_pct = 0, dl_available_qty = avail,
      dl_inventory_shortage = False\<rparr>"

lemma float_reprs [simp]:
  "float_repr 0 = 0" "float_repr 1 = 1" "float_repr 2 = 2" "float_repr 20 = 20"
  "float_repr 50000 = 50000" "float_repr 20000 = 20000"
  "float_repr 30000 = 30000" "float_repr 6000 = 6000"
  using float_repr_digit[of 0 0] float_repr_digit[of 1 0] float_repr_digit[of 2 0]
    float_repr_digit[of 2 1] float_repr_digit[of 5 4] float_repr_digit[of 2 4]
    float_repr_digit[of 3 4] float_repr_digit[of 6 3]
  by simp_all

lemma small_stockable [simp]: "is_stockable ''STOCKABLE''" "\<not> is_stockable ''SUBSCRIPTION''"
  by code_simp+

lemma small_amounts [simp]:
  "quantize_float 0 2 = 0" "quantize_float 1 2 = 1" "quantize_float 2 2 = 2"
  "quantize_float 20 2 = 20" "quantize_float 50000 2 = 50000" "quantize_float 20000 2 = 20000"
  "quantize_float 30000 2 = 30000" "quantize_float 6000 2 = 6000"
  by (simp_all add: quantize_float_def cents_intros)

lemma small_subtotals [simp]:
  "line_subtotal 2 50000 20 = 80000" "line_subtotal 1 20000 0 = 20000"
  "margin_pct_of 20000 80000 = 25" "margin_pct_of 14000 20000 = 70"
  by (simp_all add: line_subtotal_def margin_pct_of_def decimal_eval)

lemma small_lines:
  "build_line (fake_raw_line (small_line 11 101 2 50000 20) (small_product 101 30000 False)) [(1, 8), (2, 5), (3, 0)] =
     small_line_context 11 101 False 2 50000 20 30000 80000 60000 20000 25 13"
  "build_line (fake_raw_line (small_line 12 109 1 20000 0) (small_product 109 6000 True)) [(1, 0), (2, 0), (3, 0)] =
     small_line_context 12 109 True 1 20000 0 6000 20000 6000 14000 70 0"
  by (simp_all add: build_line_def Let_def small_line_def small_product_def fake_raw_line_def
      small_line_context_def pyint_def dmul_def dsub_def ctx28_numeral cents_intros)

definition small_context :: "uuid option \<Rightarrow> deal_context" where
  "small_context did = \<lparr>dc_deal_id = did, dc_odoo_sale_order_id = 1, dc_odoo_order_name = ''S1'',
     dc_partner_id = 1, dc_partner_name = ''Acme'', dc_tier_code = ''STANDARD'',
     dc_tier_default_ceiling = 5, dc_currency_code = ''INR'', dc_company_id = 1, dc_user_id = 4,
     dc_team_id = Some 1, dc_state = OdooDraft, dc_order_discount_pct = 0,
     dc_amount_untaxed = 100000, dc_amount_total = 100000, dc_one_time_total = 80000,
     dc_recurring_first_cycle_total = 20000, dc_total_cost = 66000, dc_total_margin_amount = 34000,
     dc_total_margin_pct = 34, dc_blended_discount_pct = 1667 / 100,
     dc_lines = [small_line_context 11 101 False 2 50000 20 30000 80000 60000 20000 25 13,
                 small_line_context 12 109 True 1 20000 0 6000 20000 6000 14000 70 0],
     dc_historical_rep_avg_discount = None, dc_historical_rep_stddev = None, dc_order_date = 0,
     dc_delivery_date = None, dc_line_count = 2\<rparr>"

lemma small_read:
  "\<exists>ro u t. fake_get_sale_order 1 (small_state 20) = Inr ro \<and>
     ro_header ro = fake_header (small_order 20) u t \<and>
     ro_lines ro = [fake_raw_line (small_line 11 101 2 50000 20) (small_product 101 30000 False),
                    fake_raw_line (small_line 12 109 1 20000 0) (small_product 109 6000 True)]"
proof -
  have ok: "fake_ok (small_state 20)"
    by (simp add: fake_ok_def fake_order_ok_def small_state_def small_order_def small_line_def
        stock_ok_def)
  have od: "map_of (fk_orders (small_state 20)) 1 = Some (small_order 20)"
    by (simp add: small_state_def)
  then obtain ro where ro: "fake_get_sale_order 1 (small_state 20) = Inr ro"
    using fake_get_sale_order_total[OF ok, of 1] by auto
  then show ?thesis using fake_get_sale_order_lines[OF ro od]
    by (auto simp: fake_raw_lines_def small_state_def small_order_def small_line_def)
qed

lemma small_availability:
  "read_availability fake_gateway (small_state 20) [101, 109] =
     [(101, [(1, 8), (2, 5), (3, 0)]), (109, [(1, 0), (2, 0), (3, 0)])]"
  by (simp add: read_availability_def fake_gateway_def fake_get_availability_def small_state_def)

lemma small_ids [simp]:
  "rol_product_id (fake_raw_line l p) = fl_product_id l" "fl_product_id (small_line i q a b c) = q"
  by (simp_all add: fake_raw_line_def small_line_def)

lemma small_blended: "blended_discount 120000 100000 = 1667 / 100"
  by code_simp

lemma build_small:
  "build_deal_context empty_database fake_gateway (small_state 20) 0 1 did = Inr (small_context did)"
proof -
  obtain ro u t where ro: "fake_get_sale_order 1 (small_state 20) = Inr ro"
      "ro_header ro = fake_header (small_order 20) u t"
      "ro_lines ro = [fake_raw_line (small_line 11 101 2 50000 20) (small_product 101 30000 False),
                      fake_raw_line (small_line 12 109 1 20000 0) (small_product 109 6000 True)]"
    using small_read by blast
  have "build_lines (ro_lines ro) (read_availability fake_gateway (small_state 20)
          (map rol_product_id (ro_lines ro))) = dc_lines (small_context did)"
    by (simp add: ro(3) build_lines_def small_lines small_context_def small_availability)
  moreover have "gw_get_sale_order fake_gateway 1 (small_state 20) = Inr ro"
    by (simp add: fake_gateway_def ro(1))
  ultimately show ?thesis
    by (simp add: build_deal_context_def Let_def resolve_tier_def empty_database_def find_row_def
        ro(2) fake_header_def small_order_def small_context_def small_line_context_def line_tax_def
        margin_pct_of_def dsum_def decimal_eval small_blended)
qed

text \<open>The two lines' amounts are far below the bound of \<open>deal_context_totals\<close>.\<close>

theorem deal_context_totals_witness:
  "dc_one_time_total (small_context None) + dc_recurring_first_cycle_total (small_context None) =
     dc_amount_untaxed (small_context None)"
proof -
  have "sum_list (map (\<lambda>l. \<bar>dl_subtotal l\<bar> + \<bar>dl_cost_subtotal l\<bar>) (dc_lines (small_context None))) < 10 ^ 26"
    by (simp add: small_context_def small_line_context_def)
  from deal_context_totals[OF build_small this] show ?thesis by blast
qed

definition small_assessment :: "uuid \<Rightarrow> uuid \<Rightarrow> dec \<Rightarrow> ApprovalLevel \<Rightarrow> risk_assessment" where
  "small_assessment i did score level = \<lparr>ra_id = i, ra_deal_id = did, ra_risk_score = score,
     ra_severity = RiskSeverity.MEDIUM, ra_required_level = level, ra_decision = ''X'',
     ra_trigger_type = Inl TriggerType.MANUAL, ra_policy_version = ''v1'', ra_resolved_policy = [],
     ra_line_snapshot = [], ra_totals = \<lparr>at_amount_untaxed = 0, at_amount_total = 0, at_total_cost = 0,
       at_total_margin_pct = 0, at_blended_discount_pct = 0\<rparr>, ra_calculated_at = 0\<rparr>"

end
