(* ===== verification/Journal.thy ===== *)
theory Journal
  imports Gateway
begin

text \<open>
  What every service leans on: the request's session and clock (\<^verbatim>\<open>app/core/deps.py\<close>), the audit
  journal (\<^verbatim>\<open>audit_service.py\<close>), the notifications (\<^verbatim>\<open>notification_service.py\<close>) and the reference
  numbers (\<^verbatim>\<open>number_sequence_service.py\<close>).

  A service runs in a \<open>world\<close>: the database as the session sees it, the database as last
  committed, the state behind the Odoo gateway, and the clock, read once per request. A flushed
  and an unflushed change look alike in the model; the two places where the program can tell them
  apart are written out where they occur. An exception that leaves a request rolls the session back
  to the last commit; what Odoo has done by then stays done.

  The lemmas: an exception leaves the database as last committed, the journal only grows and
  touches nothing but the activity of the deal it is about, a deduplicated notification is stored
  once, and the references handed out are all different.
\<close>

section \<open>Sessions\<close>

record 'g world =
  w_db :: database
  w_saved :: database
  w_odoo :: 'g
  w_now :: instant

definition commit :: "'g world \<Rightarrow> 'g world" where
  "commit w = w\<lparr>w_saved := w_db w\<rparr>"

definition rollback :: "'g world \<Rightarrow> 'g world" where
  "rollback w = w\<lparr>w_db := w_saved w\<rparr>"

definition get_db :: "('g world, 'a) effect \<Rightarrow> ('g world, 'a) effect" where
  "get_db request w =
     (case request w of (Inr r, w') \<Rightarrow> (Inr r, commit w') | (Inl e, w') \<Rightarrow> (Inl e, rollback w'))"

lemma commit_simps [simp]:
  "w_db (commit w) = w_db w" "w_saved (commit w) = w_db w"
  "w_odoo (commit w) = w_odoo w" "w_now (commit w) = w_now w"
  by (simp_all add: commit_def)

lemma rollback_simps [simp]:
  "w_db (rollback w) = w_saved w" "w_saved (rollback w) = w_saved w"
  "w_odoo (rollback w) = w_odoo w" "w_now (rollback w) = w_now w"
  by (simp_all add: rollback_def)

lemma get_db_Inl: "request w = (Inl e, w') \<Longrightarrow> get_db request w = (Inl e, rollback w')"
  by (simp add: get_db_def)

lemma get_db_Inr: "request w = (Inr r, w') \<Longrightarrow> get_db request w = (Inr r, commit w')"
  by (simp add: get_db_def)

lemma get_db_settled: "w_saved (snd (get_db request w)) = w_db (snd (get_db request w))"
  by (auto simp: get_db_def split: prod.splits sum.splits)

text \<open>A step on the session's database.\<close>

definition on_db :: "(database \<Rightarrow> database) \<Rightarrow> 'g world \<Rightarrow> 'g world" where
  "on_db f w = w\<lparr>w_db := f (w_db w)\<rparr>"

lemma on_db_simps [simp]:
  "w_db (on_db f w) = f (w_db w)" "w_saved (on_db f w) = w_saved w"
  "w_odoo (on_db f w) = w_odoo w" "w_now (on_db f w) = w_now w"
  by (simp_all add: on_db_def)

text \<open>
  A call that swallows what the gateway raises: \<^verbatim>\<open>try: gateway.f(...) except Exception: pass\<close>. The
  second component is the state the call left, the first whether it returned.
\<close>

definition attempt :: "('g \<Rightarrow> (exc + 'a) \<times> 'g) \<Rightarrow> 'g world \<Rightarrow> bool \<times> 'g world" where
  "attempt f w = (case f (w_odoo w) of (r, g) \<Rightarrow> (\<not> isl r, w\<lparr>w_odoo := g\<rparr>))"

lemma attempt_simps [simp]:
  "w_db (snd (attempt f w)) = w_db w" "w_saved (snd (attempt f w)) = w_saved w"
  "w_now (snd (attempt f w)) = w_now w" "w_odoo (snd (attempt f w)) = snd (f (w_odoo w))"
  "fst (attempt f w) = (\<not> isl (fst (f (w_odoo w))))"
  by (simp_all add: attempt_def split_beta)

section \<open>The audit journal\<close>

definition touch_deal :: "instant \<Rightarrow> uuid \<Rightarrow> database \<Rightarrow> database" where
  "touch_deal now i db = update_deal i (\<lambda>d. d\<lparr>d_last_activity_at := now\<rparr>) db"

definition record_audit_event ::
    "AuditEventType \<Rightarrow> string \<Rightarrow> int option \<Rightarrow> uuid option \<Rightarrow> string \<Rightarrow> odoo_id option \<Rightarrow> Role option \<Rightarrow>
     instant \<Rightarrow> database \<Rightarrow> database" where
  "record_audit_event ty entity_type entity_id deal_id actor_type actor_id actor_role now db =
     (let event = \<lparr>ae_deal_id = deal_id, ae_event_type = ty, ae_actor_type = actor_type,
            ae_actor_id = actor_id, ae_actor_role = actor_role, ae_entity_type = entity_type,
            ae_entity_id = entity_id, ae_is_activity = True, ae_created_at = now\<rparr>;
          db1 = db\<lparr>db_audit := db_audit db @ [event]\<rparr> in
      case deal_id of None \<Rightarrow> db1 | Some i \<Rightarrow> touch_deal now i db1)"

definition get_deal_timeline :: "uuid \<Rightarrow> bool \<Rightarrow> database \<Rightarrow> audit_event list" where
  "get_deal_timeline i is_activity_only db =
     sort_key ae_created_at
       (filter (\<lambda>e. ae_deal_id e = Some i \<and> (is_activity_only \<longrightarrow> ae_is_activity e)) (db_audit db))"

section \<open>Notifications\<close>

definition create_notification ::
    "odoo_id \<Rightarrow> string \<Rightarrow> string \<Rightarrow> int \<Rightarrow> (string \<times> uuid) option \<Rightarrow> instant \<Rightarrow> database \<Rightarrow>
     notification \<times> database" where
  "create_notification recipient ty entity_type entity_id dedupe_key now db =
     (let existing = (case dedupe_key of None \<Rightarrow> None
                      | Some k \<Rightarrow> find_row n_dedupe_key (Some k) (db_notifications db)) in
      case existing of Some n \<Rightarrow> (n, db)
      | None \<Rightarrow>
          let n = \<lparr>n_id = db_next_id db, n_recipient_odoo_user_id = recipient, n_type = ty,
                n_entity_type = entity_type, n_entity_id = entity_id, n_is_read = False,
                n_dedupe_key = dedupe_key, n_created_at = now\<rparr> in
          (n, db\<lparr>db_notifications := db_notifications db @ [n], db_next_id := db_next_id db + 1\<rparr>))"

text \<open>The services call it for its effect alone.\<close>

definition notify ::
    "odoo_id \<Rightarrow> string \<Rightarrow> uuid \<Rightarrow> (string \<times> uuid) option \<Rightarrow> instant \<Rightarrow> database \<Rightarrow> database" where
  "notify recipient ty deal_id dedupe_key now db =
     snd (create_notification recipient ty ''deal'' (int deal_id) dedupe_key now db)"

definition newest_first :: "('r \<Rightarrow> instant) \<Rightarrow> 'r list \<Rightarrow> 'r list" where
  "newest_first stamp rows = sort_key (\<lambda>r. - stamp r) rows"

definition get_user_notifications :: "odoo_id \<Rightarrow> bool \<Rightarrow> nat \<Rightarrow> database \<Rightarrow> notification list" where
  "get_user_notifications recipient unread_only limit db =
     take limit (newest_first n_created_at
       (filter (\<lambda>n. n_recipient_odoo_user_id n = recipient \<and> (unread_only \<longrightarrow> \<not> n_is_read n))
         (db_notifications db)))"

definition mark_as_read :: "uuid \<Rightarrow> odoo_id \<Rightarrow> 'g world \<Rightarrow> bool \<times> 'g world" where
  "mark_as_read i recipient w =
     (case find (\<lambda>n. n_id n = i \<and> n_recipient_odoo_user_id n = recipient) (db_notifications (w_db w)) of
        None \<Rightarrow> (False, w)
      | Some n \<Rightarrow> (True, commit (w\<lparr>w_db := (w_db w)\<lparr>db_notifications :=
          update_row n_id i (\<lambda>n. n\<lparr>n_is_read := True\<rparr>) (db_notifications (w_db w))\<rparr>\<rparr>)))"

definition mark_all_as_read :: "odoo_id \<Rightarrow> 'g world \<Rightarrow> nat \<times> 'g world" where
  "mark_all_as_read recipient w =
     (let unread = (\<lambda>n. n_recipient_odoo_user_id n = recipient \<and> \<not> n_is_read n) in
      (length (filter unread (db_notifications (w_db w))),
       commit (w\<lparr>w_db := (w_db w)\<lparr>db_notifications :=
         map (\<lambda>n. if unread n then n\<lparr>n_is_read := True\<rparr> else n) (db_notifications (w_db w))\<rparr>\<rparr>)))"

section \<open>Reference numbers\<close>

text \<open>
  The row lock of \<^verbatim>\<open>with_for_update\<close> orders concurrent callers; one request at a time runs here. The
  first call for a key inserts its row, which starts at 1001.
\<close>

definition ensure_sequence :: "string \<Rightarrow> database \<Rightarrow> database" where
  "ensure_sequence key db =
     (case find_row ns_key key (db_sequences db) of Some s \<Rightarrow> db
      | None \<Rightarrow> db\<lparr>db_sequences := db_sequences db @ [\<lparr>ns_key = key, ns_next_value = 1001\<rparr>]\<rparr>)"

definition next_value :: "string \<Rightarrow> database \<Rightarrow> int" where
  "next_value key db =
     (case find_row ns_key key (db_sequences db) of None \<Rightarrow> 1001 | Some s \<Rightarrow> ns_next_value s)"

definition reference_text :: "string \<Rightarrow> int \<Rightarrow> string" where
  "reference_text prefix n = prefix @ ''-'' @ int_digits n"

definition get_next_sequence :: "string \<Rightarrow> string \<Rightarrow> database \<Rightarrow> string \<times> database" where
  "get_next_sequence key prefix db =
     (let db1 = ensure_sequence key db; current_val = next_value key db1 in
      (reference_text prefix current_val,
       db1\<lparr>db_sequences :=
         update_row ns_key key (\<lambda>s. s\<lparr>ns_next_value := current_val + 1\<rparr>) (db_sequences db1)\<rparr>))"

section \<open>Frames\<close>

lemma touch_deal_frame [simp]:
  "db_requests (touch_deal now i db) = db_requests db"
  "db_actions (touch_deal now i db) = db_actions db"
  "db_users (touch_deal now i db) = db_users db"
  "db_tiers (touch_deal now i db) = db_tiers db"
  "db_tier_assignments (touch_deal now i db) = db_tier_assignments db"
  "db_policies (touch_deal now i db) = db_policies db"
  "db_assessments (touch_deal now i db) = db_assessments db"
  "db_factors (touch_deal now i db) = db_factors db"
  "db_plans (touch_deal now i db) = db_plans db"
  "db_plan_lines (touch_deal now i db) = db_plan_lines db"
  "db_profiles (touch_deal now i db) = db_profiles db"
  "db_negotiations (touch_deal now i db) = db_negotiations db"
  "db_changes (touch_deal now i db) = db_changes db"
  "db_comments (touch_deal now i db) = db_comments db"
  "db_rules (touch_deal now i db) = db_rules db"
  "db_recommendations (touch_deal now i db) = db_recommendations db"
  "db_alerts (touch_deal now i db) = db_alerts db"
  "db_snapshots (touch_deal now i db) = db_snapshots db"
  "db_rep_stats (touch_deal now i db) = db_rep_stats db"
  "db_audit (touch_deal now i db) = db_audit db"
  "db_notifications (touch_deal now i db) = db_notifications db"
  "db_sequences (touch_deal now i db) = db_sequences db"
  "db_next_id (touch_deal now i db) = db_next_id db"
  by (simp_all add: touch_deal_def update_deal_def)

lemma record_audit_event_frame [simp]:
  "db_requests (record_audit_event t et ei di ty ai ar now db) = db_requests db"
  "db_actions (record_audit_event t et ei di ty ai ar now db) = db_actions db"
  "db_users (record_audit_event t et ei di ty ai ar now db) = db_users db"
  "db_tiers (record_audit_event t et ei di ty ai ar now db) = db_tiers db"
  "db_tier_assignments (record_audit_event t et ei di ty ai ar now db) = db_tier_assignments db"
  "db_policies (record_audit_event t et ei di ty ai ar now db) = db_policies db"
  "db_assessments (record_audit_event t et ei di ty ai ar now db) = db_assessments db"
  "db_factors (record_audit_event t et ei di ty ai ar now db) = db_factors db"
  "db_plans (record_audit_event t et ei di ty ai ar now db) = db_plans db"
  "db_plan_lines (record_audit_event t et ei di ty ai ar now db) = db_plan_lines db"
  "db_profiles (record_audit_event t et ei di ty ai ar now db) = db_profiles db"
  "db_negotiations (record_audit_event t et ei di ty ai ar now db) = db_negotiations db"
  "db_changes (record_audit_event t et ei di ty ai ar now db) = db_changes db"
  "db_comments (record_audit_event t et ei di ty ai ar now db) = db_comments db"
  "db_rules (record_audit_event t et ei di ty ai ar now db) = db_rules db"
  "db_recommendations (record_audit_event t et ei di ty ai ar now db) = db_recommendations db"
  "db_alerts (record_audit_event t et ei di ty ai ar now db) = db_alerts db"
  "db_snapshots (record_audit_event t et ei di ty ai ar now db) = db_snapshots db"
  "db_rep_stats (record_audit_event t et ei di ty ai ar now db) = db_rep_stats db"
  "db_notifications (record_audit_event t et ei di ty ai ar now db) = db_notifications db"
  "db_sequences (record_audit_event t et ei di ty ai ar now db) = db_sequences db"
  "db_next_id (record_audit_event t et ei di ty ai ar now db) = db_next_id db"
  by (simp_all add: record_audit_event_def Let_def split: option.splits)

lemma notify_frame [simp]:
  "db_deals (notify r t i k now db) = db_deals db"
  "db_requests (notify r t i k now db) = db_requests db"
  "db_actions (notify r t i k now db) = db_actions db"
  "db_users (notify r t i k now db) = db_users db"
  "db_tiers (notify r t i k now db) = db_tiers db"
  "db_tier_assignments (notify r t i k now db) = db_tier_assignments db"
  "db_policies (notify r t i k now db) = db_policies db"
  "db_assessments (notify r t i k now db) = db_assessments db"
  "db_factors (notify r t i k now db) = db_factors db"
  "db_plans (notify r t i k now db) = db_plans db"
  "db_plan_lines (notify r t i k now db) = db_plan_lines db"
  "db_profiles (notify r t i k now db) = db_profiles db"
  "db_negotiations (notify r t i k now db) = db_negotiations db"
  "db_changes (notify r t i k now db) = db_changes db"
  "db_comments (notify r t i k now db) = db_comments db"
  "db_rules (notify r t i k now db) = db_rules db"
  "db_recommendations (notify r t i k now db) = db_recommendations db"
  "db_alerts (notify r t i k now db) = db_alerts db"
  "db_snapshots (notify r t i k now db) = db_snapshots db"
  "db_rep_stats (notify r t i k now db) = db_rep_stats db"
  "db_audit (notify r t i k now db) = db_audit db"
  "db_sequences (notify r t i k now db) = db_sequences db"
  by (simp_all add: notify_def create_notification_def Let_def split: option.splits)

lemma notify_next_id: "db_next_id db \<le> db_next_id (notify r t i k now db)"
  by (simp add: notify_def create_notification_def Let_def split: option.splits)

lemma find_deal_simps [simp]:
  "find_deal i (notify r t j k now db) = find_deal i db"
  "find_request i (notify r t j k now db) = find_request i db"
  "find_request i (touch_deal now j db) = find_request i db"
  "find_request i (record_audit_event t' et ei di ty ai ar now db) = find_request i db"
  by (simp_all add: find_deal_def find_request_def)

lemma find_deal_touch:
  "find_deal i (touch_deal now j db) =
     (if i = j then map_option (\<lambda>d. d\<lparr>d_last_activity_at := now\<rparr>) (find_deal i db) else find_deal i db)"
  by (simp add: touch_deal_def deals.lookup_modify)

lemma db_deals_audit: "db_deals (record_audit_event t et ei di ty ai ar now db) =
    (case di of None \<Rightarrow> db_deals db
     | Some i \<Rightarrow> update_row d_id i (\<lambda>d. d\<lparr>d_last_activity_at := now\<rparr>) (db_deals db))"
  by (simp add: record_audit_event_def touch_deal_def update_deal_def Let_def split: option.splits)

lemma find_deal_audit: "find_deal i (record_audit_event t et ei di ty ai ar now db) =
    (if di = Some i then map_option (\<lambda>d. d\<lparr>d_last_activity_at := now\<rparr>) (find_deal i db)
     else find_deal i db)"
proof (cases di)
  case (Some j)
  have "find_deal i (db\<lparr>db_audit := x\<rparr>) = find_deal i db" for x by (simp add: find_deal_def)
  with Some show ?thesis by (simp add: record_audit_event_def Let_def find_deal_touch)
qed (simp add: find_deal_def db_deals_audit)

lemma audit_audit: "\<exists>e. db_audit (record_audit_event t et ei di ty ai ar now db) = db_audit db @ [e] \<and>
    ae_event_type e = t \<and> ae_deal_id e = di \<and> ae_actor_id e = ai \<and> ae_entity_id e = ei \<and>
    ae_created_at e = now"
  by (simp add: record_audit_event_def Let_def split: option.splits)

text \<open>The journal grows at its end; nothing is rewritten.\<close>

lemma audit_prefix: "\<exists>es. db_audit (record_audit_event t et ei di ty ai ar now db) = db_audit db @ es"
  using audit_audit by blast

section \<open>References\<close>

lemma find_row_single [simp]: "find_row key k [r] = (if key r = k then Some r else None)"
  by (simp add: find_row_def)

lemma ensure_sequence_value: "next_value key (ensure_sequence key db) = next_value key db"
  by (auto simp: next_value_def ensure_sequence_def find_row_append split: option.splits)

lemma get_next_sequence_frame [simp]:
  "db_deals (snd (get_next_sequence key prefix db)) = db_deals db"
  "db_next_id (snd (get_next_sequence key prefix db)) = db_next_id db"
  by (simp_all add: get_next_sequence_def ensure_sequence_def Let_def split: option.splits)

lemma fst_get_next_sequence:
  "fst (get_next_sequence key prefix db) = reference_text prefix (next_value key db)"
  by (simp add: get_next_sequence_def Let_def ensure_sequence_value)

lemma next_value_get_next:
  "next_value key (snd (get_next_sequence key prefix db)) = next_value key db + 1"
proof -
  define db1 where "db1 = ensure_sequence key db"
  obtain s where s: "find_row ns_key key (db_sequences db1) = Some s"
    by (cases "find_row ns_key key (db_sequences db)")
       (auto simp: db1_def ensure_sequence_def find_row_append)
  have v: "next_value key db1 = next_value key db" by (simp add: db1_def ensure_sequence_value)
  show ?thesis
    by (simp add: get_next_sequence_def Let_def db1_def[symmetric] v)
       (simp add: next_value_def find_row_update_same s)
qed

lemma next_value_other:
  assumes "key \<noteq> key'"
  shows "next_value key' (snd (get_next_sequence key prefix db)) = next_value key' db"
proof -
  define db1 where "db1 = ensure_sequence key db"
  have "find_row ns_key key' (db_sequences db1) = find_row ns_key key' (db_sequences db)"
    using assms by (auto simp: db1_def ensure_sequence_def find_row_append split: option.splits)
  then show ?thesis using assms
    by (simp add: get_next_sequence_def Let_def db1_def[symmetric] next_value_def find_row_update_other)
qed

lemma reference_text_inj:
  "0 \<le> m \<Longrightarrow> 0 \<le> n \<Longrightarrow> reference_text p m = reference_text p n \<longleftrightarrow> m = n"
  by (simp add: reference_text_def int_digits_inj)

section \<open>Deduplication\<close>

definition dedupe_ok :: "database \<Rightarrow> bool" where
  "dedupe_ok db = distinct (filter (\<lambda>k. k \<noteq> None) (map n_dedupe_key (db_notifications db)))"

lemma dedupe_ok_notify: "dedupe_ok db \<Longrightarrow> dedupe_ok (notify r t i k now db)"
  by (cases k)
     (auto simp: dedupe_ok_def notify_def create_notification_def Let_def find_row_None split: option.splits)

text \<open>A notification with a key is stored at most once, however often it is created.\<close>

lemma notify_twice:
  assumes "k \<noteq> None"
  shows "notify r' t' i' k now' (notify r t i k now db) = notify r t i k now db"
proof (cases "find_row n_dedupe_key k (db_notifications db)")
  case None
  with assms show ?thesis
    by (auto simp: notify_def create_notification_def Let_def find_row_append)
next
  case (Some n)
  with assms show ?thesis by (auto simp: notify_def create_notification_def)
qed

end
