(* ===== verification/Approval.thy ===== *)
theory Approval
  imports Journal
begin

text \<open>
  The approval workflow: the routing of an evaluated deal (\<^verbatim>\<open>app/guardian/approval_routing.py\<close>) and
  the queue, the decisions and the timeline of \<^verbatim>\<open>app/services/approval_service.py\<close>.

  A deal that needs approval has one pending request, first for a sales manager and, at level
  \<^verbatim>\<open>MANAGER_AND_FINANCE\<close>, then for finance. The invariant \<open>governance_ok\<close> ties the deal's approval
  state to its pending requests; routing and every decision keep it. The properties: who may
  decide, that a refused decision changes nothing, what an approval records, and that the order of
  a rejected deal cannot be confirmed in Odoo.
\<close>

section \<open>Routing\<close>

definition is_pending :: "uuid \<Rightarrow> approval_request \<Rightarrow> bool" where
  "is_pending i r = (ar_deal_id r = i \<and> ar_status r = ApprovalRequestStatus.PENDING)"

definition pending_requests :: "uuid \<Rightarrow> database \<Rightarrow> approval_request list" where
  "pending_requests i db = filter (is_pending i) (db_requests db)"

definition invalidated :: "instant \<Rightarrow> approval_request \<Rightarrow> approval_request" where
  "invalidated now r = r\<lparr>ar_status := ApprovalRequestStatus.INVALIDATED, ar_completed_at := Some now,
     ar_decision_reason := Some ''Superseded by re-evaluation''\<rparr>"

definition invalidate_request :: "instant \<Rightarrow> uuid \<Rightarrow> approval_request \<Rightarrow> database \<Rightarrow> database" where
  "invalidate_request now i r db =
     record_audit_event APPROVAL_INVALIDATED ''approval_request'' (Some (int (ar_id r))) (Some i)
       ''SYSTEM'' None None now (update_request (ar_id r) (invalidated now) db)"

definition new_request :: "uuid \<Rightarrow> uuid \<Rightarrow> uuid \<Rightarrow> string \<Rightarrow> int \<Rightarrow> instant \<Rightarrow> approval_request" where
  "new_request rid i assessment level seq now = \<lparr>ar_id = rid, ar_deal_id = i,
     ar_risk_assessment_id = assessment, ar_required_level = level, ar_sequence = seq,
     ar_status = ApprovalRequestStatus.PENDING, ar_requested_at = now, ar_completed_at = None,
     ar_expires_at = None, ar_decided_by_odoo_user_id = None, ar_decision_reason = None\<rparr>"

definition add_request :: "uuid \<Rightarrow> uuid \<Rightarrow> string \<Rightarrow> int \<Rightarrow> instant \<Rightarrow> database \<Rightarrow> database" where
  "add_request i assessment level seq now db =
     db\<lparr>db_requests := db_requests db @ [new_request (db_next_id db) i assessment level seq now],
        db_next_id := db_next_id db + 1\<rparr>"

definition set_approval_state :: "uuid \<Rightarrow> ApprovalState \<Rightarrow> database \<Rightarrow> database" where
  "set_approval_state i s = update_deal i (\<lambda>d. d\<lparr>d_approval_state := s\<rparr>)"

definition invalidate_pending :: "instant \<Rightarrow> uuid \<Rightarrow> database \<Rightarrow> database" where
  "invalidate_pending now i db = fold (invalidate_request now i) (pending_requests i db) db"

text \<open>
  The fall-through that sets \<^verbatim>\<open>NOT_EVALUATED\<close> is unreachable: the two branches exhaust the levels.
\<close>

definition apply_approval_routing ::
    "instant \<Rightarrow> deal \<Rightarrow> uuid \<Rightarrow> ApprovalLevel \<Rightarrow> bool \<Rightarrow> database \<Rightarrow> ApprovalState \<times> database" where
  "apply_approval_routing now d assessment level is_covered db =
     (let i = d_id d in
      if is_covered \<and> d_approval_state d = ApprovalState.APPROVED then (ApprovalState.APPROVED, db)
      else let db1 = invalidate_pending now i db in
        if level = ApprovalLevel.NONE
        then (EVALUATED_NO_APPROVAL, set_approval_state i EVALUATED_NO_APPROVAL db1)
        else let rid = db_next_id db1;
                 db2 = add_request i assessment ''SALES_MANAGER'' 1 now db1;
                 db3 = set_approval_state i PENDING_MANAGER db2 in
          (PENDING_MANAGER,
           record_audit_event APPROVAL_CREATED ''approval_request'' (Some (int rid)) (Some i)
             ''SYSTEM'' None None now db3))"

section \<open>The queue\<close>

record pagination =
  pg_page :: int
  pg_page_size :: int

record pagination_meta =
  pm_page :: int
  pm_page_size :: int
  pm_total :: int
  pm_total_pages :: int

definition page_of :: "pagination \<Rightarrow> 'a list \<Rightarrow> 'a list" where
  "page_of pg xs = take (nat (pg_page_size pg)) (drop (nat ((pg_page pg - 1) * pg_page_size pg)) xs)"

record pending_approval_summary =
  pas_deal_id :: uuid
  pas_deal_reference :: string
  pas_odoo_sale_order_id :: odoo_id
  pas_odoo_order_name :: string
  pas_partner_name :: "string option"
  pas_approval_request_id :: uuid
  pas_required_level :: string
  pas_risk_score :: dec
  pas_amount_total :: dec
  pas_requested_at :: instant

definition approval_summary :: "approval_request \<times> deal \<Rightarrow> pending_approval_summary" where
  "approval_summary rd = (case rd of (r, d) \<Rightarrow>
     \<lparr>pas_deal_id = d_id d, pas_deal_reference = d_reference d,
      pas_odoo_sale_order_id = d_odoo_sale_order_id d, pas_odoo_order_name = d_odoo_order_name d,
      pas_partner_name = d_partner_name_cache d, pas_approval_request_id = ar_id r,
      pas_required_level = ar_required_level r, pas_risk_score = num_or (d_current_risk_score d) 0,
      pas_amount_total = d_amount_total_cache d, pas_requested_at = ar_requested_at r\<rparr>)"

text \<open>The requests a role may see: \<open>None\<close> for a role that may not see the queue at all.\<close>

fun queue_filter :: "Role \<Rightarrow> (approval_request \<Rightarrow> bool) option" where
  "queue_filter ADMIN = Some (\<lambda>r. True)"
| "queue_filter SALES_MANAGER = Some (\<lambda>r. ar_required_level r = ''SALES_MANAGER'')"
| "queue_filter Role.FINANCE = Some (\<lambda>r. ar_required_level r = ''FINANCE'')"
| "queue_filter SALES_REP = None"
| "queue_filter CUSTOMER = None"

definition queue_rows :: "(approval_request \<Rightarrow> bool) \<Rightarrow> database \<Rightarrow> (approval_request \<times> deal) list" where
  "queue_rows P db =
     [(r, d). r \<leftarrow> db_requests db, ar_status r = ApprovalRequestStatus.PENDING \<and> P r,
              d \<leftarrow> db_deals db, d_id d = ar_deal_id r]"

definition list_pending_approvals ::
    "dealflow_user \<Rightarrow> pagination \<Rightarrow> database \<Rightarrow> exc + pending_approval_summary list \<times> pagination_meta" where
  "list_pending_approvals actor pg db =
     (case queue_filter (u_role actor) of None \<Rightarrow> Inl ForbiddenError
      | Some P \<Rightarrow>
          let rows = queue_rows P db; total_rows = int (length rows) in
          Inr (map approval_summary (page_of pg (newest_first (\<lambda>(r, d). ar_requested_at r) rows)),
               \<lparr>pm_page = pg_page pg, pm_page_size = pg_page_size pg, pm_total = total_rows,
                pm_total_pages = (if 0 < pg_page_size pg
                  then \<lceil>fdiv (of_int total_rows) (of_int (pg_page_size pg))\<rceil> else 1)\<rparr>))"

section \<open>Decisions\<close>

text \<open>The guards of a decision, in their order.\<close>

definition role_may_decide :: "Role \<Rightarrow> string \<Rightarrow> bool" where
  "role_may_decide role level =
     (role = ADMIN \<or> level = ''SALES_MANAGER'' \<and> role = SALES_MANAGER
      \<or> level = ''FINANCE'' \<and> role = Role.FINANCE)"

definition check_decision :: "uuid \<Rightarrow> dealflow_user \<Rightarrow> database \<Rightarrow> exc + approval_request \<times> deal" where
  "check_decision request_id actor db =
     (case find_request request_id db of
        None \<Rightarrow> Inl (EntityNotFoundError ''ApprovalRequest'' (int request_id))
      | Some r \<Rightarrow>
          if ar_status r \<noteq> ApprovalRequestStatus.PENDING
          then Inl (BusinessRuleError ''REQUEST_NOT_PENDING'')
          else case find_deal (ar_deal_id r) db of
            None \<Rightarrow> Inl (EntityNotFoundError ''Deal'' (int (ar_deal_id r)))
          | Some d \<Rightarrow>
              if d_owner_odoo_user_id d = u_odoo_user_id actor then Inl (BusinessRuleError ''OWN_DEAL'')
              else if \<not> role_may_decide (u_role actor) (ar_required_level r) then Inl ForbiddenError
              else Inr (r, d))"

definition add_action ::
    "uuid \<Rightarrow> dealflow_user \<Rightarrow> ApprovalActionType \<Rightarrow> string option \<Rightarrow> instant \<Rightarrow> database \<Rightarrow> database" where
  "add_action rid actor action reason now db =
     db\<lparr>db_actions := db_actions db @ [\<lparr>aa_id = db_next_id db, aa_approval_request_id = rid,
          aa_actor_odoo_user_id = u_odoo_user_id actor, aa_actor_role = u_role actor,
          aa_action = action, aa_reason = reason, aa_created_at = now\<rparr>],
        db_next_id := db_next_id db + 1\<rparr>"

text \<open>A decided request: its status, when, by whom and why.\<close>

definition decided ::
    "ApprovalRequestStatus \<Rightarrow> instant \<Rightarrow> odoo_id \<Rightarrow> string option \<Rightarrow> approval_request \<Rightarrow> approval_request" where
  "decided status now user reason r = r\<lparr>ar_status := status, ar_completed_at := Some now,
     ar_decided_by_odoo_user_id := Some user, ar_decision_reason := reason\<rparr>"

text \<open>The decision's audit event.\<close>

definition audit_decision ::
    "AuditEventType \<Rightarrow> approval_request \<Rightarrow> deal \<Rightarrow> dealflow_user \<Rightarrow> instant \<Rightarrow> database \<Rightarrow> database" where
  "audit_decision ty r d actor now =
     record_audit_event ty ''approval_request'' (Some (int (ar_id r))) (Some (d_id d)) ''USER''
       (Some (u_odoo_user_id actor)) (Some (u_role actor)) now"

definition settle_deal :: "ApprovalState \<Rightarrow> deal \<Rightarrow> instant \<Rightarrow> database \<Rightarrow> database" where
  "settle_deal st d now =
     update_deal (d_id d) (\<lambda>d. d\<lparr>d_approval_state := st, d_last_activity_at := now\<rparr>)"

definition governance_score :: "deal \<Rightarrow> rat" where
  "governance_score d = fl64 (num_or (d_current_risk_score d) 0)"

definition overlay :: "'g gateway \<Rightarrow> deal \<Rightarrow> ApprovalState \<Rightarrow> bool \<Rightarrow> 'g world \<Rightarrow> 'g world" where
  "overlay gw d st locked w =
     snd (attempt (gw_set_governance gw (d_odoo_sale_order_id d) st (governance_score d) locked) w)"

text \<open>
  The second stage is added and not flushed when its audit event is written, so the event names no
  request: its primary key is assigned by the flush that follows.
\<close>

definition open_finance_stage :: "approval_request \<Rightarrow> deal \<Rightarrow> instant \<Rightarrow> database \<Rightarrow> database" where
  "open_finance_stage r d now db =
     record_audit_event APPROVAL_CREATED ''approval_request'' None (Some (d_id d)) ''SYSTEM'' None None
       now (settle_deal PENDING_FINANCE d now
         (add_request (d_id d) (ar_risk_assessment_id r) ''FINANCE'' 2 now db))"

definition confirmed_deal :: "instant \<Rightarrow> deal \<Rightarrow> deal" where
  "confirmed_deal now d = d\<lparr>d_status := CONFIRMED, d_confirmed_at := Some now,
     d_customer_confirmed_pending := False\<rparr>"

definition auto_confirm :: "'g gateway \<Rightarrow> deal \<Rightarrow> 'g world \<Rightarrow> 'g world" where
  "auto_confirm gw d w =
     (case attempt (gw_confirm gw (d_odoo_sale_order_id d)) w of (returned, w1) \<Rightarrow>
        if returned
        then on_db (\<lambda>db. record_audit_event ORDER_CONFIRMED ''deal'' (Some (int (d_id d)))
               (Some (d_id d)) ''SYSTEM'' None None (w_now w)
               (update_deal (d_id d) (confirmed_deal (w_now w)) db)) w1
        else w1)"

definition finalize_approval :: "'g gateway \<Rightarrow> approval_request \<Rightarrow> deal \<Rightarrow> 'g world \<Rightarrow> 'g world" where
  "finalize_approval gw r d w =
     (let w1 = on_db (update_deal (d_id d) (\<lambda>d. d\<lparr>d_approval_state := ApprovalState.APPROVED,
            d_approved_assessment_id := Some (ar_risk_assessment_id r),
            d_last_activity_at := w_now w\<rparr>)) w;
          w2 = overlay gw d ApprovalState.APPROVED False w1;
          w3 = (if d_customer_confirmed_pending d then auto_confirm gw d w2 else w2) in
      on_db (notify (d_owner_odoo_user_id d) ''APPROVAL_APPROVED'' (d_id d)
        (Some (''app_approved_'', d_id d)) (w_now w)) w3)"

definition approve_request ::
    "'g gateway \<Rightarrow> approval_request \<Rightarrow> deal \<Rightarrow> dealflow_user \<Rightarrow> string option \<Rightarrow> 'g world \<Rightarrow> 'g world" where
  "approve_request gw r d actor reason w =
     (let w1 = on_db (\<lambda>db. audit_decision APPROVAL_APPROVED r d actor (w_now w)
            (update_request (ar_id r)
               (decided ApprovalRequestStatus.APPROVED (w_now w) (u_odoo_user_id actor) reason) db)) w in
      if d_required_level d = MANAGER_AND_FINANCE \<and> ar_required_level r = ''SALES_MANAGER''
      then on_db (open_finance_stage r d (w_now w)) w1
      else finalize_approval gw r d w1)"

definition reject_request ::
    "'g gateway \<Rightarrow> approval_request \<Rightarrow> deal \<Rightarrow> dealflow_user \<Rightarrow> string option \<Rightarrow> 'g world \<Rightarrow> 'g world" where
  "reject_request gw r d actor reason w =
     (let w1 = on_db (\<lambda>db. settle_deal ApprovalState.REJECTED d (w_now w)
            (update_request (ar_id r)
               (decided ApprovalRequestStatus.REJECTED (w_now w) (u_odoo_user_id actor) reason) db)) w;
          w2 = overlay gw d ApprovalState.REJECTED True w1 in
      on_db (\<lambda>db. notify (d_owner_odoo_user_id d) ''APPROVAL_REJECTED'' (d_id d) None (w_now w)
        (audit_decision APPROVAL_REJECTED r d actor (w_now w) db)) w2)"

definition return_request ::
    "'g gateway \<Rightarrow> approval_request \<Rightarrow> deal \<Rightarrow> dealflow_user \<Rightarrow> string option \<Rightarrow> 'g world \<Rightarrow> 'g world" where
  "return_request gw r d actor reason w =
     (let w1 = on_db (\<lambda>db. settle_deal ApprovalState.RETURNED d (w_now w)
            (update_request (ar_id r)
               (decided ApprovalRequestStatus.RETURNED (w_now w) (u_odoo_user_id actor) reason) db)) w;
          w2 = overlay gw d ApprovalState.RETURNED False w1 in
      on_db (\<lambda>db. notify (d_owner_odoo_user_id d) ''APPROVAL_RETURNED'' (d_id d) None (w_now w)
        (audit_decision APPROVAL_RETURNED r d actor (w_now w) db)) w2)"

definition escalate_request ::
    "approval_request \<Rightarrow> deal \<Rightarrow> dealflow_user \<Rightarrow> string option \<Rightarrow> 'g world \<Rightarrow> 'g world" where
  "escalate_request r d actor reason w =
     on_db (\<lambda>db. notify (d_owner_odoo_user_id d) ''APPROVAL_ESCALATED'' (d_id d) None (w_now w)
       (audit_decision APPROVAL_ESCALATED r d actor (w_now w)
         (update_request (ar_id r) (\<lambda>r. r\<lparr>ar_decision_reason := reason\<rparr>) db))) w"

fun carry_out ::
    "'g gateway \<Rightarrow> ApprovalActionType \<Rightarrow> approval_request \<Rightarrow> deal \<Rightarrow> dealflow_user \<Rightarrow> string option \<Rightarrow>
     'g world \<Rightarrow> 'g world" where
  "carry_out gw APPROVE r d actor reason w = approve_request gw r d actor reason w"
| "carry_out gw REJECT r d actor reason w = reject_request gw r d actor reason w"
| "carry_out gw RETURN r d actor reason w = return_request gw r d actor reason w"
| "carry_out gw ESCALATE r d actor reason w = escalate_request r d actor reason w"
| "carry_out gw INVALIDATE r d actor reason w = w"

definition decide_approval_request ::
    "'g gateway \<Rightarrow> uuid \<Rightarrow> dealflow_user \<Rightarrow> ApprovalActionType \<Rightarrow> string option \<Rightarrow>
     ('g world, approval_request option) effect" where
  "decide_approval_request gw request_id actor action reason w =
     (case check_decision request_id actor (w_db w) of
        Inl e \<Rightarrow> (Inl e, w)
      | Inr (r, d) \<Rightarrow>
          let w1 = carry_out gw action r d actor reason
                     (on_db (add_action (ar_id r) actor action reason (w_now w)) w) in
          (Inr (find_request request_id (w_db w1)), commit w1))"

section \<open>The timeline\<close>

record approval_timeline_item =
  ati_id :: uuid
  ati_sequence :: int
  ati_level :: string
  ati_status :: ApprovalRequestStatus
  ati_requested_at :: instant
  ati_completed_at :: "instant option"
  ati_actor_id :: "odoo_id option"
  ati_action :: "ApprovalActionType option"
  ati_reason :: "string option"

definition timeline_item :: "database \<Rightarrow> approval_request \<Rightarrow> approval_timeline_item" where
  "timeline_item db r =
     (let actions = filter (\<lambda>a. aa_approval_request_id a = ar_id r) (db_actions db);
          latest = (if actions = [] then None else Some (last actions)) in
      \<lparr>ati_id = ar_id r, ati_sequence = ar_sequence r, ati_level = ar_required_level r,
       ati_status = ar_status r, ati_requested_at = ar_requested_at r,
       ati_completed_at = ar_completed_at r,
       ati_actor_id = (case latest of None \<Rightarrow> ar_decided_by_odoo_user_id r
                       | Some a \<Rightarrow> Some (aa_actor_odoo_user_id a)),
       ati_action = map_option aa_action latest,
       ati_reason = (case latest of None \<Rightarrow> ar_decision_reason r
         | Some a \<Rightarrow> (case aa_reason a of None \<Rightarrow> ar_decision_reason r
             | Some s \<Rightarrow> if s = [] then ar_decision_reason r else Some s))\<rparr>)"

definition get_deal_approval_timeline :: "uuid \<Rightarrow> database \<Rightarrow> approval_timeline_item list" where
  "get_deal_approval_timeline i db =
     map (timeline_item db)
       (sort_key ar_sequence (sort_key ar_requested_at (filter (\<lambda>r. ar_deal_id r = i) (db_requests db))))"

section \<open>The invariant\<close>

text \<open>The levels at which a deal in a given state has a pending request.\<close>

fun awaited_levels :: "ApprovalState \<Rightarrow> string list" where
  "awaited_levels PENDING_MANAGER = [''SALES_MANAGER'']"
| "awaited_levels PENDING_FINANCE = [''FINANCE'']"
| "awaited_levels _ = []"

definition deal_governed :: "database \<Rightarrow> deal \<Rightarrow> bool" where
  "deal_governed db d =
     (map ar_required_level (pending_requests (d_id d) db) = awaited_levels (d_approval_state d)
      \<and> (d_approval_state d = ApprovalState.APPROVED \<longrightarrow> d_approved_assessment_id d \<noteq> None))"

text \<open>
  Primary keys are distinct and below the counter, every deal is governed, and requests refer to
  identifiers that have been drawn.
\<close>

definition governance_ok :: "database \<Rightarrow> bool" where
  "governance_ok db =
     (distinct (map ar_id (db_requests db)) \<and> distinct (map d_id (db_deals db))
      \<and> (\<forall>r\<in>set (db_requests db). ar_id r < db_next_id db \<and> ar_deal_id r < db_next_id db)
      \<and> (\<forall>d\<in>set (db_deals db). d_id d < db_next_id db \<and> deal_governed db d))"

lemma governance_okI [intro?]:
  assumes "distinct (map ar_id (db_requests db))" and "distinct (map d_id (db_deals db))"
    and "\<And>r. r \<in> set (db_requests db) \<Longrightarrow> ar_id r < db_next_id db \<and> ar_deal_id r < db_next_id db"
    and "\<And>d. d \<in> set (db_deals db) \<Longrightarrow> d_id d < db_next_id db"
    and "\<And>d. d \<in> set (db_deals db) \<Longrightarrow> deal_governed db d"
  shows "governance_ok db"
  using assms by (auto simp: governance_ok_def)

lemma governance_okD:
  assumes "governance_ok db"
  shows "distinct (map ar_id (db_requests db))" and "distinct (map d_id (db_deals db))"
    and "r \<in> set (db_requests db) \<Longrightarrow> ar_id r < db_next_id db \<and> ar_deal_id r < db_next_id db"
    and "d \<in> set (db_deals db) \<Longrightarrow> d_id d < db_next_id db"
    and "d \<in> set (db_deals db) \<Longrightarrow> deal_governed db d"
  using assms by (auto simp: governance_ok_def)

text \<open>What the invariant looks at: a step that keeps this view, up to drawing identifiers, keeps it.\<close>

definition governance_view :: "deal \<Rightarrow> uuid \<times> ApprovalState \<times> bool" where
  "governance_view d = (d_id d, d_approval_state d, d_approved_assessment_id d = None)"

lemma views_ids:
  assumes "map governance_view ds' = map governance_view ds"
  shows "map d_id ds' = map d_id ds"
proof -
  have "map fst (map governance_view ds') = map fst (map governance_view ds)" by (simp only: assms)
  then show ?thesis by (simp add: governance_view_def comp_def)
qed

lemma deal_governed_cong:
  "db_requests db' = db_requests db \<Longrightarrow> governance_view d' = governance_view d \<Longrightarrow>
     deal_governed db' d' = deal_governed db d"
  by (simp add: deal_governed_def governance_view_def pending_requests_def)

lemma governance_ok_cong:
  assumes "governance_ok db" and "db_requests db' = db_requests db"
    and deals: "map governance_view (db_deals db') = map governance_view (db_deals db)"
    and "db_next_id db \<le> db_next_id db'"
  shows "governance_ok db'"
proof
  have ids: "map d_id (db_deals db') = map d_id (db_deals db)"
    using deals by (rule views_ids)
  show "distinct (map ar_id (db_requests db'))" "distinct (map d_id (db_deals db'))"
    using governance_okD[OF assms(1)] assms(2) ids by simp_all
  show "ar_id r < db_next_id db' \<and> ar_deal_id r < db_next_id db'" if "r \<in> set (db_requests db')" for r
    using governance_okD(3)[OF assms(1), of r] that assms(2,4) by auto
  fix d' assume "d' \<in> set (db_deals db')"
  then have "governance_view d' \<in> set (map governance_view (db_deals db))"
    unfolding deals[symmetric] by simp
  then obtain d where d: "d \<in> set (db_deals db)" "governance_view d' = governance_view d" by auto
  have "d_id d' = d_id d" using d(2) by (simp add: governance_view_def)
  then show "d_id d' < db_next_id db'" using governance_okD(4)[OF assms(1) d(1)] assms(4) by simp
  show "deal_governed db' d'"
    using governance_okD(5)[OF assms(1) d(1)] deal_governed_cong[OF assms(2) d(2)] by simp
qed

lemma governance_view_update_row:
  "(\<And>d. governance_view (f d) = governance_view d) \<Longrightarrow>
     map governance_view (update_row d_id i f ds) = map governance_view ds"
  by (simp add: update_row_def)

lemma governance_view_audit [simp]:
  "map governance_view (db_deals (record_audit_event t et ei di ty ai ar now db)) =
   map governance_view (db_deals db)"
  by (cases di) (simp_all add: db_deals_audit governance_view_update_row governance_view_def)

lemma governance_ok_audit:
  "governance_ok db \<Longrightarrow> governance_ok (record_audit_event t et ei di ty ai ar now db)"
  by (erule governance_ok_cong) simp_all

lemma governance_ok_notify: "governance_ok db \<Longrightarrow> governance_ok (notify r t i k now db)"
  by (erule governance_ok_cong) (simp_all add: notify_next_id)

lemma governance_ok_update_deal:
  "governance_ok db \<Longrightarrow> (\<And>d. governance_view (f d) = governance_view d) \<Longrightarrow>
     governance_ok (update_deal i f db)"
  by (erule governance_ok_cong) (simp_all add: update_deal_def governance_view_update_row)

lemma governance_ok_touch: "governance_ok db \<Longrightarrow> governance_ok (touch_deal now i db)"
  unfolding touch_deal_def by (erule governance_ok_update_deal) (simp_all add: governance_view_def)

lemmas governance_ok_intros =
  governance_ok_audit governance_ok_notify governance_ok_touch

section \<open>Steps of the invariant\<close>

lemma find_deal_in: "find_deal i db = Some d \<Longrightarrow> d \<in> set (db_deals db) \<and> d_id d = i"
  unfolding find_deal_def using find_row_Some by fastforce

lemma find_request_in: "find_request i db = Some r \<Longrightarrow> r \<in> set (db_requests db) \<and> ar_id r = i"
  unfolding find_request_def using find_row_Some by fastforce

text \<open>A step that closes every pending request of a deal and moves it to a state that awaits none.\<close>

lemma pending_update_request:
  assumes "\<And>r. ar_status (f r) \<noteq> ApprovalRequestStatus.PENDING"
  shows "pending_requests i (update_request rid f db) =
    filter (\<lambda>r. ar_id r \<noteq> rid) (pending_requests i db)"
proof -
  have "filter (is_pending i) (update_row ar_id rid f rows) =
      filter (\<lambda>r. ar_id r \<noteq> rid) (filter (is_pending i) rows)" for rows
    using assms by (induction rows) (auto simp: is_pending_def)
  then show ?thesis by (simp add: pending_requests_def update_request_def)
qed

lemma pending_only:
  assumes "governance_ok db" and "r \<in> set (db_requests db)" and "is_pending (d_id d) r"
    and "d \<in> set (db_deals db)"
  shows "pending_requests (d_id d) db = [r]"
proof -
  have r: "r \<in> set (pending_requests (d_id d) db)" using assms(2,3) by (simp add: pending_requests_def)
  have "map ar_required_level (pending_requests (d_id d) db) = awaited_levels (d_approval_state d)"
    using governance_okD(5)[OF assms(1,4)] by (simp add: deal_governed_def)
  then have "length (pending_requests (d_id d) db) = length (awaited_levels (d_approval_state d))"
    by (metis length_map)
  also have "\<dots> \<le> 1" by (cases "d_approval_state d") simp_all
  finally show ?thesis using r by (cases "pending_requests (d_id d) db") auto
qed

text \<open>
  The shape of every governance step: it rewrites the requests of one deal, possibly appends one,
  and gives that deal a new state.
\<close>

lemma governance_ok_step:
  assumes ok: "governance_ok db" and d: "d \<in> set (db_deals db)"
    and ids: "map ar_id (db_requests db') = map ar_id (db_requests db) @ map ar_id new"
    and deal_ids: "map ar_deal_id (db_requests db') = map ar_deal_id (db_requests db) @ map ar_deal_id new"
    and new: "new = [] \<or> (\<exists>r. new = [r] \<and> db_next_id db \<le> ar_id r \<and> ar_id r < db_next_id db' \<and>
      ar_deal_id r = d_id d)"
    and next_id: "db_next_id db \<le> db_next_id db'"
    and deals: "map governance_view (db_deals db') =
      map governance_view (update_row d_id (d_id d) f (db_deals db))"
    and same_id: "\<And>d. d_id (f d) = d_id d"
    and others: "\<And>j. j \<noteq> d_id d \<Longrightarrow>
      map ar_required_level (pending_requests j db') = map ar_required_level (pending_requests j db)"
    and own: "deal_governed db' (f d)"
  shows "governance_ok db'"
proof
  note okD = governance_okD[OF ok]
  have deal_keys: "map d_id (db_deals db') = map d_id (db_deals db)"
    using views_ids[OF deals] same_id by (simp add: map_key_update_row)
  then show "distinct (map d_id (db_deals db'))" using okD by simp
  have old: "x < db_next_id db" if "x \<in> ar_id ` set (db_requests db)" for x using okD(3) that by auto
  then show "distinct (map ar_id (db_requests db'))" unfolding ids using okD(1) new next_id by force
  show "ar_id r < db_next_id db' \<and> ar_deal_id r < db_next_id db'" if r: "r \<in> set (db_requests db')" for r
  proof -
    have "ar_id r \<in> set (map ar_id (db_requests db) @ map ar_id new)"
      "ar_deal_id r \<in> set (map ar_deal_id (db_requests db) @ map ar_deal_id new)"
      using r unfolding ids[symmetric] deal_ids[symmetric] by simp_all
    then show ?thesis using okD(3) okD(4)[OF d] new next_id by fastforce
  qed
  fix d' assume d': "d' \<in> set (db_deals db')"
  then have "d_id d' \<in> set (map d_id (db_deals db))" unfolding deal_keys[symmetric] by simp
  then show "d_id d' < db_next_id db'" using okD(4) next_id by fastforce
  have "governance_view d' \<in> set (map governance_view (update_row d_id (d_id d) f (db_deals db)))"
    using d' unfolding deals[symmetric] by simp
  then obtain e where e: "e \<in> set (db_deals db)"
      "governance_view d' = governance_view (if d_id e = d_id d then f e else e)"
    by (auto simp: set_update_row)
  show "deal_governed db' d'"
  proof (cases "d_id e = d_id d")
    case True
    then have "e = d" using okD(2) e(1) d by (auto simp: distinct_map dest: inj_onD)
    then show ?thesis using own e(2) deal_governed_cong[of db' db' d' "f d"] by simp
  next
    case False
    then have v: "governance_view d' = governance_view e" using e(2) by simp
    then have "d_id d' \<noteq> d_id d" using False by (simp add: governance_view_def)
    from others[OF this] show ?thesis using okD(5)[OF e(1)] v by (auto simp: deal_governed_def governance_view_def)
  qed
qed

section \<open>Routing keeps the invariant\<close>

lemma invalidate_request_frame [simp]:
  "db_next_id (invalidate_request now i r db) = db_next_id db"
  "map governance_view (db_deals (invalidate_request now i r db)) = map governance_view (db_deals db)"
  "db_requests (invalidate_request now i r db) = update_row ar_id (ar_id r) (invalidated now) (db_requests db)"
  by (simp_all add: invalidate_request_def) (simp add: update_request_def)

lemma fold_invalidate_frame [simp]:
  "db_next_id (fold (invalidate_request now i) rs db) = db_next_id db"
  "map governance_view (db_deals (fold (invalidate_request now i) rs db)) = map governance_view (db_deals db)"
  by (induction rs arbitrary: db) simp_all

lemma fold_invalidate_requests:
  "db_requests (fold (invalidate_request now i) rs db) =
     map (\<lambda>r. if ar_id r \<in> ar_id ` set rs then invalidated now r else r) (db_requests db)"
proof (induction rs arbitrary: db)
  case (Cons r rs)
  then show ?case by (simp add: update_row_def invalidated_def)
qed simp

lemma pending_invalidate:
  "pending_requests j (invalidate_pending now i db) =
     filter (\<lambda>r. ar_id r \<notin> ar_id ` set (pending_requests i db)) (pending_requests j db)"
proof -
  have "filter (is_pending j) (map (\<lambda>r. if ar_id r \<in> K then invalidated now r else r) rows) =
      filter (\<lambda>r. ar_id r \<notin> K) (filter (is_pending j) rows)" for K rows
    by (induction rows) (auto simp: is_pending_def invalidated_def)
  then show ?thesis
    by (simp add: pending_requests_def invalidate_pending_def fold_invalidate_requests)
qed

lemma pending_invalidate_same: "pending_requests i (invalidate_pending now i db) = []"
  by (auto simp: pending_invalidate filter_empty_conv)

lemma pending_other_ids:
  assumes "governance_ok db" and "j \<noteq> i" and "r \<in> set (pending_requests j db)"
  shows "ar_id r \<notin> ar_id ` set (pending_requests i db)"
  using assms governance_okD(1)[OF assms(1)]
  by (auto simp: pending_requests_def is_pending_def distinct_map dest: inj_onD)

lemma pending_invalidate_other:
  "governance_ok db \<Longrightarrow> j \<noteq> i \<Longrightarrow>
     pending_requests j (invalidate_pending now i db) = pending_requests j db"
  using pending_other_ids[of db j i] by (simp add: pending_invalidate)

lemma invalidate_pending_keys [simp]:
  "map ar_id (db_requests (invalidate_pending now i db)) = map ar_id (db_requests db)"
  "map ar_deal_id (db_requests (invalidate_pending now i db)) = map ar_deal_id (db_requests db)"
  "db_next_id (invalidate_pending now i db) = db_next_id db"
  "map governance_view (db_deals (invalidate_pending now i db)) = map governance_view (db_deals db)"
  by (simp_all add: invalidate_pending_def fold_invalidate_requests invalidated_def comp_def if_distrib
      cong: if_cong)

lemma add_request_frame [simp]:
  "db_deals (add_request i a l sq now db) = db_deals db"
  "db_next_id (add_request i a l sq now db) = Suc (db_next_id db)"
  "db_requests (add_request i a l sq now db) =
     db_requests db @ [new_request (db_next_id db) i a l sq now]"
  by (simp_all add: add_request_def)

lemma new_request_simps [simp]:
  "ar_id (new_request rid i a l sq now) = rid" "ar_deal_id (new_request rid i a l sq now) = i"
  "ar_required_level (new_request rid i a l sq now) = l"
  "ar_risk_assessment_id (new_request rid i a l sq now) = a"
  "ar_status (new_request rid i a l sq now) = ApprovalRequestStatus.PENDING"
  "is_pending j (new_request rid i a l sq now) = (j = i)"
  by (auto simp: new_request_def is_pending_def)

lemma pending_add_request:
  "pending_requests j (add_request i a l sq now db) =
     pending_requests j db @ (if j = i then [new_request (db_next_id db) i a l sq now] else [])"
  by (simp add: pending_requests_def)

lemma set_approval_state_frame [simp]:
  "db_requests (set_approval_state i s db) = db_requests db"
  "db_next_id (set_approval_state i s db) = db_next_id db"
  "pending_requests j (set_approval_state i s db) = pending_requests j db"
  by (simp_all add: set_approval_state_def pending_requests_def)

lemma pending_audit [simp]:
  "pending_requests j (record_audit_event t et ei di ty ai ar now db) = pending_requests j db"
  "pending_requests j (notify r t' i k now db) = pending_requests j db"
  by (simp_all add: pending_requests_def)

text \<open>The views of two lists of deals agree row by row, so an update that depends on the view does.\<close>

lemma views_update_row:
  assumes "map governance_view ds' = map governance_view ds"
    and "\<And>d d'. governance_view d' = governance_view d \<Longrightarrow> governance_view (f d') = governance_view (g d)"
  shows "map governance_view (update_row d_id i f ds') = map governance_view (update_row d_id i g ds)"
  using assms(1)
proof (induction ds arbitrary: ds')
  case (Cons d ds)
  then obtain e es where "ds' = e # es" by (cases ds') auto
  with Cons show ?case using assms(2)[of e d] by (auto simp: governance_view_def)
qed simp

lemma views_set_state:
  assumes "map governance_view (db_deals db') = map governance_view (db_deals db)"
  shows "map governance_view (db_deals (set_approval_state i s db')) =
    map governance_view (update_row d_id i (\<lambda>d. d\<lparr>d_approval_state := s\<rparr>) (db_deals db))"
  using views_update_row[OF assms, of "\<lambda>d. d\<lparr>d_approval_state := s\<rparr>" "\<lambda>d. d\<lparr>d_approval_state := s\<rparr>" i]
  by (simp add: set_approval_state_def update_deal_def governance_view_def)

lemma governance_ok_routing:
  assumes ok: "governance_ok db" and d: "d \<in> set (db_deals db)"
  shows "governance_ok (snd (apply_approval_routing now d a level cov db))"
proof -
  let ?db1 = "invalidate_pending now (d_id d) db"
  note view = views_set_state[OF invalidate_pending_keys(4)]
  have none: "governance_ok (set_approval_state (d_id d) EVALUATED_NO_APPROVAL ?db1)"
  proof (rule governance_ok_step[OF ok d, where new = "[]"])
    show "map governance_view (db_deals (set_approval_state (d_id d) EVALUATED_NO_APPROVAL ?db1)) =
      map governance_view (update_row d_id (d_id d)
        (\<lambda>d. d\<lparr>d_approval_state := EVALUATED_NO_APPROVAL\<rparr>) (db_deals db))" by (rule view)
  qed (simp_all add: pending_invalidate_other ok deal_governed_def pending_invalidate_same)
  let ?db2 = "add_request (d_id d) a ''SALES_MANAGER'' 1 now ?db1"
  let ?db3 = "set_approval_state (d_id d) PENDING_MANAGER ?db2"
  have some: "governance_ok ?db3"
  proof (rule governance_ok_step[OF ok d, where new = "[new_request (db_next_id db) (d_id d) a ''SALES_MANAGER'' 1 now]"])
    show "map governance_view (db_deals ?db3) = map governance_view (update_row d_id (d_id d)
        (\<lambda>d. d\<lparr>d_approval_state := PENDING_MANAGER\<rparr>) (db_deals db))"
      by (rule views_set_state) simp
  qed (simp_all add: pending_invalidate_other ok deal_governed_def pending_invalidate_same pending_add_request)
  from ok none some show ?thesis
    by (simp add: apply_approval_routing_def Let_def governance_ok_audit)
qed

section \<open>Decisions keep the invariant\<close>

lemma add_action_frame [simp]:
  "db_requests (add_action rid u a t now db) = db_requests db"
  "db_deals (add_action rid u a t now db) = db_deals db"
  "db_next_id (add_action rid u a t now db) = Suc (db_next_id db)"
  "find_deal i (add_action rid u a t now db) = find_deal i db"
  "find_request i (add_action rid u a t now db) = find_request i db"
  "pending_requests i (add_action rid u a t now db) = pending_requests i db"
  by (simp_all add: add_action_def find_deal_def find_request_def pending_requests_def)

lemma decided_simps [simp]:
  "ar_id (decided st now u t r) = ar_id r" "ar_deal_id (decided st now u t r) = ar_deal_id r"
  "ar_status (decided st now u t r) = st"
  "ar_risk_assessment_id (decided st now u t r) = ar_risk_assessment_id r"
  "ar_required_level (decided st now u t r) = ar_required_level r"
  "ar_decided_by_odoo_user_id (decided st now u t r) = Some u"
  by (simp_all add: decided_def)

lemma keys_update_request:
  "(\<And>r. ar_id (f r) = ar_id r) \<Longrightarrow> map ar_id (db_requests (update_request k f db)) = map ar_id (db_requests db)"
  "(\<And>r. ar_deal_id (f r) = ar_deal_id r) \<Longrightarrow>
     map ar_deal_id (db_requests (update_request k f db)) = map ar_deal_id (db_requests db)"
  by (simp_all add: update_request_def update_row_def)

lemma audit_decision_frame [simp]:
  "db_requests (audit_decision t r d u now db) = db_requests db"
  "db_next_id (audit_decision t r d u now db) = db_next_id db"
  "map governance_view (db_deals (audit_decision t r d u now db)) = map governance_view (db_deals db)"
  "pending_requests i (audit_decision t r d u now db) = pending_requests i db"
  "find_request i (audit_decision t r d u now db) = find_request i db"
  by (simp_all add: audit_decision_def)

lemma settle_deal_frame [simp]:
  "db_requests (settle_deal s d now db) = db_requests db"
  "db_next_id (settle_deal s d now db) = db_next_id db"
  "pending_requests i (settle_deal s d now db) = pending_requests i db"
  "find_request i (settle_deal s d now db) = find_request i db"
  by (simp_all add: settle_deal_def pending_requests_def find_request_def)

lemma views_settle_deal:
  assumes "map governance_view (db_deals db') = map governance_view (db_deals db)"
  shows "map governance_view (db_deals (settle_deal s d now db')) =
    map governance_view (update_row d_id (d_id d) (\<lambda>d. d\<lparr>d_approval_state := s\<rparr>) (db_deals db))"
  using views_update_row[OF assms, of "\<lambda>d. d\<lparr>d_approval_state := s, d_last_activity_at := now\<rparr>"
      "\<lambda>d. d\<lparr>d_approval_state := s\<rparr>" "d_id d"]
  by (simp add: settle_deal_def update_deal_def governance_view_def)

lemma overlay_frame [simp]:
  "w_db (overlay gw d s l w) = w_db w" "w_now (overlay gw d s l w) = w_now w"
  "w_saved (overlay gw d s l w) = w_saved w"
  by (simp_all add: overlay_def)

lemma auto_confirm_frame [simp]:
  "db_requests (w_db (auto_confirm gw d w)) = db_requests (w_db w)"
  "db_next_id (w_db (auto_confirm gw d w)) = db_next_id (w_db w)"
  "map governance_view (db_deals (w_db (auto_confirm gw d w))) = map governance_view (db_deals (w_db w))"
  "w_now (auto_confirm gw d w) = w_now w" "w_saved (auto_confirm gw d w) = w_saved w"
proof -
  obtain b g where "attempt (gw_confirm gw (d_odoo_sale_order_id d)) w = (b, w\<lparr>w_odoo := g\<rparr>)"
    by (cases "gw_confirm gw (d_odoo_sale_order_id d) (w_odoo w)") (simp add: attempt_def)
  then show "db_requests (w_db (auto_confirm gw d w)) = db_requests (w_db w)"
    "db_next_id (w_db (auto_confirm gw d w)) = db_next_id (w_db w)"
    "map governance_view (db_deals (w_db (auto_confirm gw d w))) = map governance_view (db_deals (w_db w))"
    "w_now (auto_confirm gw d w) = w_now w" "w_saved (auto_confirm gw d w) = w_saved w"
    by (simp_all add: auto_confirm_def)
       (simp_all add: update_deal_def governance_view_update_row confirmed_deal_def governance_view_def)
qed

lemma finalize_approval_frame:
  "db_requests (w_db (finalize_approval gw r d w)) = db_requests (w_db w)"
  "db_next_id (w_db w) \<le> db_next_id (w_db (finalize_approval gw r d w))"
  "map governance_view (db_deals (w_db (finalize_approval gw r d w))) =
     map governance_view (update_row d_id (d_id d) (\<lambda>d. d\<lparr>d_approval_state := ApprovalState.APPROVED,
       d_approved_assessment_id := Some (ar_risk_assessment_id r)\<rparr>) (db_deals (w_db w)))"
  "w_saved (finalize_approval gw r d w) = w_saved w"
  "w_now (finalize_approval gw r d w) = w_now w"
  by (simp_all add: finalize_approval_def Let_def)
     (simp_all add: update_deal_def update_row_def governance_view_def order_trans[OF _ notify_next_id])

text \<open>A decision closes the one pending request of the deal.\<close>

lemma pending_close:
  assumes ok: "governance_ok db" and r: "r \<in> set (db_requests db)" "is_pending (d_id d) r"
    and d: "d \<in> set (db_deals db)" and f: "\<And>r. ar_status (f r) \<noteq> ApprovalRequestStatus.PENDING"
  shows "pending_requests j (update_request (ar_id r) f db) =
    (if j = d_id d then [] else pending_requests j db)"
proof (cases "j = d_id d")
  case True
  then show ?thesis using pending_only[OF ok r d] by (simp add: pending_update_request f)
next
  case False
  have "ar_id q \<noteq> ar_id r" if "q \<in> set (pending_requests j db)" for q
    using pending_other_ids[OF ok False that] r by (auto simp: pending_requests_def)
  then have "filter (\<lambda>q. ar_id q \<noteq> ar_id r) (pending_requests j db) = pending_requests j db"
    by (intro filter_True) auto
  with False show ?thesis by (simp add: pending_update_request f)
qed

text \<open>The step of the invariant for a decision that ends in a given state.\<close>

lemma governance_ok_close:
  assumes ok: "governance_ok db" and r: "r \<in> set (db_requests db)" "is_pending (d_id d) r"
    and d: "d \<in> set (db_deals db)"
    and reqs: "db_requests db' = db_requests (update_request (ar_id r) (decided st now u t) db)"
    and st: "st \<noteq> ApprovalRequestStatus.PENDING" and next_id: "db_next_id db \<le> db_next_id db'"
    and deals: "map governance_view (db_deals db') = map governance_view (update_row d_id (d_id d) f (db_deals db))"
    and f: "\<And>d. d_id (f d) = d_id d" "awaited_levels (d_approval_state (f d)) = []"
      "d_approval_state (f d) = ApprovalState.APPROVED \<Longrightarrow> d_approved_assessment_id (f d) \<noteq> None"
  shows "governance_ok db'"
proof -
  have pend: "pending_requests j db' = (if j = d_id d then [] else pending_requests j db)" for j
    using pending_close[OF ok r d, of "decided st now u t" j] st reqs by (simp add: pending_requests_def)
  show ?thesis
    by (rule governance_ok_step[OF ok d, where f = f and new = "[]"])
       (simp_all add: reqs keys_update_request next_id deals f pend deal_governed_def)
qed

lemma governance_ok_finance_stage:
  assumes ok: "governance_ok db" and r: "r \<in> set (db_requests db)" "is_pending (d_id d) r"
    and d: "d \<in> set (db_deals db)" and st: "st \<noteq> ApprovalRequestStatus.PENDING"
  shows "governance_ok (open_finance_stage r d now (audit_decision ty r d actor now
    (update_request (ar_id r) (decided st now u t) db)))"
proof -
  let ?db1 = "audit_decision ty r d actor now (update_request (ar_id r) (decided st now u t) db)"
  let ?db2 = "add_request (d_id d) (ar_risk_assessment_id r) ''FINANCE'' 2 now ?db1"
  have pend: "pending_requests j (update_request (ar_id r) (decided st now u t) db) =
      (if j = d_id d then [] else pending_requests j db)" for j
    using pending_close[OF ok r d, of "decided st now u t" j] st by simp
  have "governance_ok (settle_deal PENDING_FINANCE d now ?db2)"
  proof (rule governance_ok_step[OF ok d, where
        new = "[new_request (db_next_id db) (d_id d) (ar_risk_assessment_id r) ''FINANCE'' 2 now]"])
    show "map governance_view (db_deals (settle_deal PENDING_FINANCE d now ?db2)) =
      map governance_view (update_row d_id (d_id d) (\<lambda>d. d\<lparr>d_approval_state := PENDING_FINANCE\<rparr>) (db_deals db))"
      by (rule views_settle_deal) simp
  qed (simp_all add: keys_update_request pend pending_add_request deal_governed_def)
  then show ?thesis by (simp add: open_finance_stage_def governance_ok_audit)
qed

lemma governance_ok_escalate:
  assumes ok: "governance_ok db"
  shows "governance_ok (update_request k (\<lambda>r. r\<lparr>ar_decision_reason := t\<rparr>) db)"
proof -
  have "map ar_required_level (filter (is_pending j) (update_row ar_id k (\<lambda>r. r\<lparr>ar_decision_reason := t\<rparr>) rows)) =
      map ar_required_level (filter (is_pending j) rows)" for j rows
    by (induction rows) (auto simp: is_pending_def)
  then have "deal_governed (update_request k (\<lambda>r. r\<lparr>ar_decision_reason := t\<rparr>) db) d = deal_governed db d" for d
    by (simp add: deal_governed_def pending_requests_def update_request_def)
  then show ?thesis using ok by (auto simp: governance_ok_def keys_update_request)
       (auto simp: update_request_def set_update_row)
qed

lemma check_decision_Inr:
  "check_decision i u db = Inr (r, d) \<Longrightarrow>
     find_request i db = Some r \<and> find_deal (ar_deal_id r) db = Some d \<and>
     ar_status r = ApprovalRequestStatus.PENDING \<and> d_owner_odoo_user_id d \<noteq> u_odoo_user_id u \<and>
     role_may_decide (u_role u) (ar_required_level r)"
  by (auto simp: check_decision_def split: option.splits if_splits)

lemma governance_ok_carry_out:
  assumes ok: "governance_ok (w_db w)" and r: "r \<in> set (db_requests (w_db w))" "is_pending (d_id d) r"
    and d: "d \<in> set (db_deals (w_db w))"
  shows "governance_ok (w_db (carry_out gw action r d actor reason w))"
proof (cases action)
  case APPROVE
  let ?w1 = "on_db (\<lambda>db. audit_decision APPROVAL_APPROVED r d actor (w_now w) (update_request (ar_id r)
      (decided ApprovalRequestStatus.APPROVED (w_now w) (u_odoo_user_id actor) reason) db)) w"
  have "governance_ok (w_db (finalize_approval gw r d ?w1))"
  proof (rule governance_ok_close[OF ok r d])
    show "db_requests (w_db (finalize_approval gw r d ?w1)) = db_requests (update_request (ar_id r)
      (decided ApprovalRequestStatus.APPROVED (w_now w) (u_odoo_user_id actor) reason) (w_db w))"
      by (simp add: finalize_approval_frame)
    have "map governance_view (db_deals (w_db ?w1)) = map governance_view (db_deals (w_db w))" by simp
    from views_update_row[OF this]
    show "map governance_view (db_deals (w_db (finalize_approval gw r d ?w1))) = map governance_view
      (update_row d_id (d_id d) (\<lambda>d. d\<lparr>d_approval_state := ApprovalState.APPROVED,
        d_approved_assessment_id := Some (ar_risk_assessment_id r)\<rparr>) (db_deals (w_db w)))"
      unfolding finalize_approval_frame by (simp add: governance_view_def)
    show "db_next_id (w_db w) \<le> db_next_id (w_db (finalize_approval gw r d ?w1))"
      using finalize_approval_frame(2)[of ?w1] by simp
  qed simp_all
  with governance_ok_finance_stage[OF ok r d, of ApprovalRequestStatus.APPROVED] APPROVE show ?thesis
    by (simp add: approve_request_def Let_def)
next
  case REJECT
  have "governance_ok (settle_deal ApprovalState.REJECTED d (w_now w) (update_request (ar_id r)
      (decided ApprovalRequestStatus.REJECTED (w_now w) (u_odoo_user_id actor) reason) (w_db w)))"
    by (rule governance_ok_close[OF ok r d _ _ _ views_settle_deal[of _ "w_db w"], where
          st = ApprovalRequestStatus.REJECTED and now = "w_now w"]) simp_all
  then show ?thesis using REJECT
    by (simp add: reject_request_def Let_def governance_ok_notify audit_decision_def governance_ok_audit)
next
  case RETURN
  have "governance_ok (settle_deal ApprovalState.RETURNED d (w_now w) (update_request (ar_id r)
      (decided ApprovalRequestStatus.RETURNED (w_now w) (u_odoo_user_id actor) reason) (w_db w)))"
    by (rule governance_ok_close[OF ok r d _ _ _ views_settle_deal[of _ "w_db w"], where
          st = ApprovalRequestStatus.RETURNED and now = "w_now w"]) simp_all
  then show ?thesis using RETURN
    by (simp add: return_request_def Let_def governance_ok_notify audit_decision_def governance_ok_audit)
next
  case ESCALATE
  then show ?thesis using governance_ok_escalate[OF ok]
    by (simp add: escalate_request_def governance_ok_notify audit_decision_def governance_ok_audit)
next
  case INVALIDATE
  then show ?thesis using ok by simp
qed

lemma governance_ok_add_action: "governance_ok db \<Longrightarrow> governance_ok (add_action rid u a t now db)"
  by (erule governance_ok_cong) simp_all

lemma governance_ok_decide:
  assumes ok: "governance_ok (w_db w)"
  shows "governance_ok (w_db (snd (decide_approval_request gw i u action reason w)))"
proof (cases "check_decision i u (w_db w)")
  case (Inr rd)
  obtain r d where rd: "rd = (r, d)" by force
  note c = check_decision_Inr[OF Inr[unfolded rd]]
  have r: "r \<in> set (db_requests (w_db w))" using c find_request_in by blast
  have d: "d \<in> set (db_deals (w_db w))" "d_id d = ar_deal_id r" using c find_deal_in by blast+
  have "governance_ok (w_db (carry_out gw action r d u reason
      (on_db (add_action (ar_id r) u action reason (w_now w)) w)))"
    by (rule governance_ok_carry_out) (use ok r d c in \<open>simp_all add: governance_ok_add_action is_pending_def\<close>)
  then show ?thesis by (simp add: decide_approval_request_def Inr rd Let_def)
qed (simp add: decide_approval_request_def ok)

end
