(* ===== verification/World_Fixture.thy ===== *)
theory World_Fixture
  imports Fixture Approval
begin

text \<open>
  A small world around the order of \<open>Fixture\<close>: its deal, a pending approval request and the people
  who act on it. The witnesses of the services' properties run on it.
\<close>

definition small_deal :: "ApprovalState \<Rightarrow> ApprovalLevel \<Rightarrow> deal" where
  "small_deal st level = \<lparr>d_id = 6, d_reference = ''D-1001'', d_odoo_sale_order_id = 1,
     d_odoo_order_name = ''S1'', d_odoo_partner_id = 1, d_partner_name_cache = Some ''Acme'',
     d_tier_code = Some ''STANDARD'', d_owner_odoo_user_id = 4, d_sales_team_odoo_id = Some 1,
     d_odoo_company_id = 1, d_currency_code = ''INR'', d_status = SENT, d_approval_state = st,
     d_health_status = HEALTHY, d_current_risk_score = None, d_current_severity = None,
     d_current_assessment_id = Some 2, d_approved_assessment_id = None, d_required_level = level,
     d_order_discount_pct = 0, d_amount_total_cache = 100000, d_amount_untaxed_cache = 100000,
     d_margin_pct_cache = 34, d_one_time_total_cache = 80000,
     d_recurring_first_cycle_total_cache = 20000, d_customer_confirmed_pending = False,
     d_sent_at = None, d_confirmed_at = None, d_promised_delivery_date = None,
     d_last_activity_at = 0, d_last_synced_at = 0, d_version = 1, d_created_at = 0\<rparr>"

definition small_user :: "odoo_id \<Rightarrow> Role \<Rightarrow> dealflow_user" where
  "small_user i role = \<lparr>u_odoo_user_id = i, u_login = ''u'', u_name = ''U'', u_role = role,
     u_sales_team_odoo_id = Some 1, u_is_portal = False, u_partner_id = None, u_is_active = True,
     u_last_login_at = None\<rparr>"

definition small_db :: "deal list \<Rightarrow> approval_request list \<Rightarrow> database" where
  "small_db ds rs = empty_database\<lparr>db_deals := ds, db_requests := rs, db_next_id := 10\<rparr>"

definition small_world :: "database \<Rightarrow> fake_state world" where
  "small_world db = \<lparr>w_db = db, w_saved = db, w_odoo = small_state 20, w_now = 5\<rparr>"

text \<open>A deal that awaits its sales manager, at the level that also needs finance.\<close>

definition awaiting_db :: database where
  "awaiting_db = small_db [small_deal PENDING_MANAGER MANAGER_AND_FINANCE]
     [new_request 3 6 2 ''SALES_MANAGER'' 1 0]"

lemma small_world_simps [simp]:
  "w_db (small_world db) = db" "w_saved (small_world db) = db"
  "w_odoo (small_world db) = small_state 20" "w_now (small_world db) = 5"
  by (simp_all add: small_world_def)

lemma small_deal_simps [simp]:
  "d_id (small_deal st l) = 6" "d_approval_state (small_deal st l) = st"
  "d_required_level (small_deal st l) = l" "d_owner_odoo_user_id (small_deal st l) = 4"
  "d_odoo_sale_order_id (small_deal st l) = 1" "d_status (small_deal st l) = SENT"
  "d_customer_confirmed_pending (small_deal st l) = False"
  "d_current_risk_score (small_deal st l) = None" "d_odoo_partner_id (small_deal st l) = 1"
  "d_approved_assessment_id (small_deal st l) = None"
  by (simp_all add: small_deal_def)

lemma small_user_simps [simp]:
  "u_odoo_user_id (small_user i role) = i" "u_role (small_user i role) = role"
  by (simp_all add: small_user_def)

lemma small_db_simps [simp]:
  "db_deals (small_db ds rs) = ds" "db_requests (small_db ds rs) = rs" "db_next_id (small_db ds rs) = 10"
  by (simp_all add: small_db_def)

lemma small_state_ok: "fake_ok (small_state 20)"
  by (simp add: fake_ok_def fake_order_ok_def small_state_def small_order_def small_line_def stock_ok_def)

lemma small_order_readable: "\<not> isl (gw_get_sale_order fake_gateway 1 (small_state 20))"
  using small_read by (auto simp: fake_gateway_def)

lemma awaiting_lookup [simp]:
  "find_request 3 awaiting_db = Some (new_request 3 6 2 ''SALES_MANAGER'' 1 0)"
  "find_deal 6 awaiting_db = Some (small_deal PENDING_MANAGER MANAGER_AND_FINANCE)"
  by (simp_all add: awaiting_db_def find_request_def find_deal_def)

lemma awaiting_ok: "governance_ok awaiting_db"
  by (simp add: governance_ok_def awaiting_db_def deal_governed_def pending_requests_def)

lemma awaiting_check:
  "check_decision 3 (small_user 7 SALES_MANAGER) awaiting_db =
     Inr (new_request 3 6 2 ''SALES_MANAGER'' 1 0, small_deal PENDING_MANAGER MANAGER_AND_FINANCE)"
  by (simp add: check_decision_def role_may_decide_def)

end
