(* ===== verification/Decisions.thy ===== *)
theory Decisions
  imports World_Fixture
begin

text \<open>
  What the approval workflow guarantees (definitions and invariant in \<open>Approval\<close>): who may decide a
  request, what a decision leaves behind in the database and in Odoo, and how routing replaces the
  open requests of a deal.
\<close>

section \<open>Authorisation\<close>

lemma carry_out_actions [simp]:
  "db_actions (w_db (carry_out gw action r d u reason w)) = db_actions (w_db w)"
  "w_now (carry_out gw action r d u reason w) = w_now w"
proof -
  have c: "db_actions (w_db (auto_confirm gw d w)) = db_actions (w_db w)" for w
    by (auto simp: auto_confirm_def attempt_def split: prod.splits)
  show "db_actions (w_db (carry_out gw action r d u reason w)) = db_actions (w_db w)"
    by (cases action)
       (simp_all add: approve_request_def reject_request_def return_request_def escalate_request_def
         finalize_approval_def open_finance_stage_def settle_deal_def audit_decision_def add_request_def Let_def c)
  show "w_now (carry_out gw action r d u reason w) = w_now w"
    by (cases action)
       (simp_all add: approve_request_def reject_request_def return_request_def escalate_request_def
         finalize_approval_frame Let_def)
qed

lemma check_decision_iff:
  "(\<exists>rd. check_decision i u db = Inr rd) \<longleftrightarrow>
     (\<exists>r d. find_request i db = Some r \<and> find_deal (ar_deal_id r) db = Some d \<and>
        ar_status r = ApprovalRequestStatus.PENDING \<and> d_owner_odoo_user_id d \<noteq> u_odoo_user_id u \<and>
        role_may_decide (u_role u) (ar_required_level r))"
  by (auto simp: check_decision_def split: option.splits)

text \<open>
  C10: Separation of duties. A decision is accepted exactly when the request is still pending and the
  actor is not the owner of the deal and is an administrator, a sales manager (first stage) or
  finance (second stage). A refused decision changes neither the database nor Odoo; an accepted one
  is recorded under the actor's name and committed.
\<close>

theorem decision_authorised:
  assumes "decide_approval_request gw i u action reason w = (res, w')"
  shows "(\<not> isl res \<longleftrightarrow>
      (\<exists>r d. find_request i (w_db w) = Some r \<and> find_deal (ar_deal_id r) (w_db w) = Some d \<and>
        ar_status r = ApprovalRequestStatus.PENDING \<and> d_owner_odoo_user_id d \<noteq> u_odoo_user_id u \<and>
        (u_role u = ADMIN \<or> ar_required_level r = ''SALES_MANAGER'' \<and> u_role u = SALES_MANAGER \<or>
         ar_required_level r = ''FINANCE'' \<and> u_role u = Role.FINANCE))) \<and>
    (if isl res then w' = w
     else w_saved w' = w_db w' \<and>
       (\<exists>a. db_actions (w_db w') = db_actions (w_db w) @ [a] \<and> aa_approval_request_id a = i \<and>
         aa_actor_odoo_user_id a = u_odoo_user_id u \<and> aa_action a = action))"
proof (cases "check_decision i u (w_db w)")
  case (Inl e)
  with assms check_decision_iff[of i u "w_db w"] show ?thesis
    by (auto simp: decide_approval_request_def role_may_decide_def)
next
  case (Inr rd)
  obtain r d where rd: "rd = (r, d)" by force
  have r: "ar_id r = i" using check_decision_Inr[OF Inr[unfolded rd]] find_request_in by blast
  have "\<exists>rd. check_decision i u (w_db w) = Inr rd" using Inr by blast
  with assms r show ?thesis
    unfolding check_decision_iff
    by (auto simp: decide_approval_request_def Inr rd Let_def role_may_decide_def add_action_def)
qed

theorem decision_authorised_witness:
  "\<not> isl (fst (decide_approval_request fake_gateway 3 (small_user 7 SALES_MANAGER) REJECT None
     (small_world awaiting_db))) \<and>
   snd (decide_approval_request fake_gateway 3 (small_user 4 SALES_MANAGER) APPROVE None
     (small_world awaiting_db)) = small_world awaiting_db"
proof -
  note auth = decision_authorised[OF prod.collapse[symmetric], of fake_gateway 3 _ _ None "small_world awaiting_db"]
  have "\<not> isl (fst (decide_approval_request fake_gateway 3 (small_user 7 SALES_MANAGER) REJECT None
      (small_world awaiting_db)))"
    using auth[of "small_user 7 SALES_MANAGER" REJECT] by simp
  moreover have "snd (decide_approval_request fake_gateway 3 (small_user 4 SALES_MANAGER) APPROVE None
      (small_world awaiting_db)) = small_world awaiting_db"
    using auth[of "small_user 4 SALES_MANAGER" APPROVE] by simp
  ultimately show ?thesis by blast
qed

section \<open>Outcomes\<close>

lemma decide_Inr:
  assumes "decide_approval_request gw i u action reason w = (Inr x, w')"
  shows "\<exists>r d. find_request i (w_db w) = Some r \<and> find_deal (ar_deal_id r) (w_db w) = Some d \<and>
    is_pending (d_id d) r \<and> ar_id r = i \<and> d \<in> set (db_deals (w_db w)) \<and> r \<in> set (db_requests (w_db w)) \<and>
    w' = commit (carry_out gw action r d u reason (on_db (add_action i u action reason (w_now w)) w))"
proof -
  obtain r d where c: "check_decision i u (w_db w) = Inr (r, d)"
    using assms by (auto simp: decide_approval_request_def split: sum.splits)
  note f = check_decision_Inr[OF c]
  have "ar_id r = i" using f find_request_in by blast
  moreover have "d \<in> set (db_deals (w_db w)) \<and> d_id d = ar_deal_id r" using f find_deal_in by blast
  moreover have "r \<in> set (db_requests (w_db w))" using f find_request_in by blast
  ultimately show ?thesis using assms f
    by (auto simp: decide_approval_request_def c Let_def is_pending_def)
qed

lemma pending_own:
  assumes "governance_ok db" and "find_deal i db = Some d"
  shows "map ar_required_level (pending_requests i db) = awaited_levels (d_approval_state d)"
    and "d_approval_state d = ApprovalState.APPROVED \<longrightarrow> d_approved_assessment_id d \<noteq> None"
  using governance_okD(5)[OF assms(1)] find_deal_in[OF assms(2)] by (auto simp: deal_governed_def)

lemma find_deal_update_request [simp]: "find_deal i (update_request k f db) = find_deal i db"
  by (simp add: find_deal_def)

lemma find_deal_add_request [simp]: "find_deal i (add_request j a l sq now db) = find_deal i db"
  by (simp add: find_deal_def)

lemma find_deal_audit_decision [simp]:
  "find_deal i (audit_decision t r d u now db) =
     (if i = d_id d then map_option (\<lambda>d. d\<lparr>d_last_activity_at := now\<rparr>) (find_deal i db) else find_deal i db)"
  by (auto simp: audit_decision_def find_deal_audit)

lemma find_deal_settle:
  "find_deal i (settle_deal st d now db) =
     (if i = d_id d then map_option (\<lambda>d. d\<lparr>d_approval_state := st, d_last_activity_at := now\<rparr>) (find_deal i db)
      else find_deal i db)"
  by (auto simp: settle_deal_def deals.lookup_modify)

lemma find_deal_auto_confirm:
  "find_deal i (w_db (auto_confirm gw d w)) =
     (if i = d_id d \<and> \<not> isl (fst (gw_confirm gw (d_odoo_sale_order_id d) (w_odoo w)))
      then map_option (\<lambda>e. (confirmed_deal (w_now w) e)\<lparr>d_last_activity_at := w_now w\<rparr>) (find_deal i (w_db w))
      else find_deal i (w_db w))"
  by (cases "gw_confirm gw (d_odoo_sale_order_id d) (w_odoo w)")
     (auto simp: auto_confirm_def attempt_def find_deal_audit deals.lookup_modify confirmed_deal_def
        option.map_comp comp_def)

text \<open>
  C24: What an approval does. The first of two stages hands the deal to finance with one pending
  finance request and leaves Odoo alone. The last stage marks the deal approved on exactly the
  assessment the request was made for, leaves no request pending, and a deal the customer has
  already accepted becomes confirmed exactly when Odoo confirms its order.
\<close>

theorem approval_outcome:
  assumes ok: "governance_ok (w_db w)"
    and dec: "decide_approval_request gw i u APPROVE reason w = (Inr x, w')"
    and r: "find_request i (w_db w) = Some r" and d: "find_deal (ar_deal_id r) (w_db w) = Some d"
  shows "\<exists>e. find_deal (d_id d) (w_db w') = Some e \<and>
    (if d_required_level d = MANAGER_AND_FINANCE \<and> ar_required_level r = ''SALES_MANAGER''
     then d_approval_state e = PENDING_FINANCE \<and> w_odoo w' = w_odoo w \<and> d_status e = d_status d \<and>
       map ar_required_level (pending_requests (d_id d) (w_db w')) = [''FINANCE'']
     else d_approval_state e = ApprovalState.APPROVED \<and>
       d_approved_assessment_id e = Some (ar_risk_assessment_id r) \<and>
       pending_requests (d_id d) (w_db w') = [] \<and>
       d_status e = (if d_customer_confirmed_pending d \<and>
           \<not> isl (fst (gw_confirm gw (d_odoo_sale_order_id d)
             (snd (gw_set_governance gw (d_odoo_sale_order_id d) ApprovalState.APPROVED
               (governance_score d) False (w_odoo w)))))
         then CONFIRMED else d_status d))"
proof -
  let ?w1 = "on_db (add_action i u APPROVE reason (w_now w)) w"
  have w': "w' = commit (approve_request gw r d u reason ?w1)" and rid: "ar_id r = i"
    and did: "d_id d = ar_deal_id r"
    using decide_Inr[OF dec] r d by (auto simp: is_pending_def)
  have ok': "governance_ok (w_db w')" using governance_ok_decide[OF ok, of gw i u APPROVE reason] dec by simp
  have fd: "find_deal (ar_deal_id r) (w_db ?w1) = Some d" using d by simp
  have "\<exists>e. find_deal (d_id d) (w_db w') = Some e \<and>
    (if d_required_level d = MANAGER_AND_FINANCE \<and> ar_required_level r = ''SALES_MANAGER''
     then d_approval_state e = PENDING_FINANCE \<and> w_odoo w' = w_odoo w \<and> d_status e = d_status d
     else d_approval_state e = ApprovalState.APPROVED \<and>
       d_approved_assessment_id e = Some (ar_risk_assessment_id r) \<and>
       d_status e = (if d_customer_confirmed_pending d \<and>
           \<not> isl (fst (gw_confirm gw (d_odoo_sale_order_id d)
             (snd (gw_set_governance gw (d_odoo_sale_order_id d) ApprovalState.APPROVED
               (governance_score d) False (w_odoo w)))))
         then CONFIRMED else d_status d))"
    using d by (simp add: w' did approve_request_def Let_def open_finance_stage_def find_deal_audit
        find_deal_settle finalize_approval_def find_deal_auto_confirm deals.lookup_modify
        overlay_def confirmed_deal_def)
  then show ?thesis using pending_own[OF ok'] by (fastforce split: if_splits)
qed

theorem approval_outcome_witness:
  "\<exists>w' e. find_deal 6 (w_db w') = Some e \<and> d_approval_state e = PENDING_FINANCE \<and>
     w' = snd (decide_approval_request fake_gateway 3 (small_user 7 SALES_MANAGER) APPROVE None
            (small_world awaiting_db))"
proof -
  obtain x w' where w': "decide_approval_request fake_gateway 3 (small_user 7 SALES_MANAGER) APPROVE None
      (small_world awaiting_db) = (Inr x, w')"
    by (simp add: decide_approval_request_def awaiting_check Let_def)
  from approval_outcome[OF _ w', of "new_request 3 6 2 ''SALES_MANAGER'' 1 0"
      "small_deal PENDING_MANAGER MANAGER_AND_FINANCE"] awaiting_ok w'
  show ?thesis by auto
qed

section \<open>Odoo after a rejection\<close>

context odoo_gateway
begin

lemma reject_locks:
  assumes "valid (w_odoo w)" and "decide_approval_request gw i u REJECT reason w = (Inr x, w')"
    and "find_request i (w_db w) = Some r" and "find_deal (ar_deal_id r) (w_db w) = Some d"
    and "\<not> isl (gw_get_sale_order gw (d_odoo_sale_order_id d) (w_odoo w))"
    and "\<not> isl (fst (gw_set_governance gw (d_odoo_sale_order_id d) ApprovalState.REJECTED
      (governance_score d) True (w_odoo w)))"
  shows "\<exists>e. gw_confirm gw (d_odoo_sale_order_id d) (w_odoo w') = (Inl e, w_odoo w')"
proof -
  have "w_odoo w' = snd (gw_set_governance gw (d_odoo_sale_order_id d) ApprovalState.REJECTED
      (governance_score d) True (w_odoo w))"
    using decide_Inr[OF assms(2)] assms(3,4) by (auto simp: reject_request_def Let_def overlay_def)
  moreover obtain b g' where "gw_set_governance gw (d_odoo_sale_order_id d) ApprovalState.REJECTED
      (governance_score d) True (w_odoo w) = (Inr b, g')"
    using assms(6) by (cases "gw_set_governance gw (d_odoo_sale_order_id d) ApprovalState.REJECTED
      (governance_score d) True (w_odoo w)"; cases "fst (gw_set_governance gw (d_odoo_sale_order_id d)
      ApprovalState.REJECTED (governance_score d) True (w_odoo w))") auto
  ultimately show ?thesis using lock_stops_confirm[OF assms(1) _ assms(5)] by simp
qed

end

text \<open>
  C25: Once a deal has been rejected, Odoo refuses to confirm its order, from any valid state of the
  in-memory Odoo that holds the order.
\<close>

theorem rejected_order_not_confirmed:
  assumes "fake_ok (w_odoo w)"
    and "decide_approval_request fake_gateway i u REJECT reason w = (Inr x, w')"
    and "find_request i (w_db w) = Some r" and "find_deal (ar_deal_id r) (w_db w) = Some d"
    and "map_of (fk_orders (w_odoo w)) (d_odoo_sale_order_id d) = Some od"
  shows "\<exists>e. gw_confirm fake_gateway (d_odoo_sale_order_id d) (w_odoo w') = (Inl e, w_odoo w')"
  by (rule fake.reject_locks[OF assms(1-4)])
     (use assms(5) fake_isl_get_sale_order[OF assms(1)] in
       \<open>simp_all add: fake_gateway_def fake_set_governance_def\<close>)

theorem rejected_order_not_confirmed_witness:
  "\<exists>e w'. gw_confirm fake_gateway 1 (w_odoo w') = (Inl e, w_odoo w') \<and>
     w' = snd (decide_approval_request fake_gateway 3 (small_user 7 SALES_MANAGER) REJECT None
            (small_world awaiting_db))"
proof -
  obtain x w' where w': "decide_approval_request fake_gateway 3 (small_user 7 SALES_MANAGER) REJECT None
      (small_world awaiting_db) = (Inr x, w')"
    by (simp add: decide_approval_request_def awaiting_check Let_def)
  have "map_of (fk_orders (small_state 20)) 1 = Some (small_order 20)" by (simp add: small_state_def)
  with rejected_order_not_confirmed[OF _ w', of "new_request 3 6 2 ''SALES_MANAGER'' 1 0"
      "small_deal PENDING_MANAGER MANAGER_AND_FINANCE"] w' small_state_ok
  show ?thesis by auto
qed

section \<open>Routing\<close>

lemma routing_result:
  assumes ok: "governance_ok db" and d: "find_deal i db = Some d"
    and uncovered: "\<not> (cov \<and> d_approval_state d = ApprovalState.APPROVED)"
  shows "(let (st, db') = apply_approval_routing now d a level cov db in
      st = (if level = ApprovalLevel.NONE then EVALUATED_NO_APPROVAL else PENDING_MANAGER) \<and>
      map_option d_approval_state (find_deal i db') = Some st \<and>
      pending_requests i db' = (if level = ApprovalLevel.NONE then []
        else [new_request (db_next_id db) i a ''SALES_MANAGER'' 1 now]) \<and>
      (\<forall>j. j \<noteq> i \<longrightarrow> pending_requests j db' = pending_requests j db))"
proof -
  have i: "d_id d = i" using find_deal_in[OF d] by simp
  have "i \<in> set (map d_id (db_deals (invalidate_pending now i db)))"
  proof -
    have "map d_id (db_deals (invalidate_pending now i db)) = map d_id (db_deals db)"
      by (rule views_ids) simp
    then show ?thesis using find_deal_in[OF d] by (metis image_eqI list.set_map)
  qed
  then have "find_deal i (invalidate_pending now i db) \<noteq> None"
    by (auto simp: find_deal_def find_row_None)
  then obtain e where "find_deal i (invalidate_pending now i db) = Some e" by blast
  then show ?thesis using uncovered pending_invalidate_other[OF ok, of _ i now]
    by (auto simp: apply_approval_routing_def Let_def i pending_invalidate_same pending_add_request
        find_deal_audit set_approval_state_def deals.lookup_modify)
       (simp_all add: pending_requests_def update_deal_def pending_invalidate_same[unfolded pending_requests_def])
qed

text \<open>
  Routing replaces what was open. Unless the deal's approval still covers it, every request of
  the deal that was pending is invalidated, at most one fresh request is opened (for a sales manager,
  on the new assessment, when the level asks for approval), the state says which, and the pending
  requests of all other deals stay as they are.
\<close>

theorem routing_outcome:
  assumes ok: "governance_ok db" and d: "find_deal i db = Some d"
    and uncovered: "\<not> (cov \<and> d_approval_state d = ApprovalState.APPROVED)"
  shows "(let (st, db') = apply_approval_routing now d a level cov db in
      st = (if level = ApprovalLevel.NONE then EVALUATED_NO_APPROVAL else PENDING_MANAGER) \<and>
      map_option d_approval_state (find_deal i db') = Some st \<and>
      pending_requests i db' = (if level = ApprovalLevel.NONE then []
        else [new_request (db_next_id db) i a ''SALES_MANAGER'' 1 now]) \<and>
      (\<forall>j. j \<noteq> i \<longrightarrow> pending_requests j db' = pending_requests j db))"
  by (rule routing_result[OF assms])

theorem routing_outcome_witness:
  "map ar_required_level (pending_requests 6 (snd (apply_approval_routing 5
     (small_deal PENDING_MANAGER MANAGER_AND_FINANCE) 9 MANAGER False awaiting_db))) = [''SALES_MANAGER'']"
  using routing_outcome[OF awaiting_ok awaiting_lookup(2), of False 5 9 MANAGER] by (simp add: Let_def split_beta)

end
