(* ===== verification/Deal_Service.thy ===== *)
theory Deal_Service
  imports Decisions
begin

text \<open>
  The deals themselves, \<^verbatim>\<open>app/services/deal_service.py\<close> and \<^verbatim>\<open>app/core/pagination.py\<close>: a deal is created
  or refreshed from its Odoo order, patched, looked up, and listed by filters. (The detail view,
  which also computes the health of a deal, is in \<open>Evaluator\<close>.)

  The lemmas: two deals never share a reference or an order, a version conflict changes nothing and
  a refresh advances the version by one, and the approval invariant survives.
\<close>

section \<open>Sync\<close>

definition find_deal_by_order :: "odoo_id \<Rightarrow> database \<Rightarrow> deal option" where
  "find_deal_by_order oid db = find_row d_odoo_sale_order_id oid (db_deals db)"

text \<open>\<^verbatim>\<open>"USER" if actor_id else "SYSTEM"\<close>: an actor numbered zero counts as none.\<close>

definition actor_kind :: "odoo_id option \<Rightarrow> string" where
  "actor_kind a = (if a = None \<or> a = Some 0 then ''SYSTEM'' else ''USER'')"

definition new_deal :: "uuid \<Rightarrow> string \<Rightarrow> deal_context \<Rightarrow> instant \<Rightarrow> deal" where
  "new_deal i ref ctx now = \<lparr>d_id = i, d_reference = ref,
     d_odoo_sale_order_id = dc_odoo_sale_order_id ctx, d_odoo_order_name = dc_odoo_order_name ctx,
     d_odoo_partner_id = dc_partner_id ctx, d_partner_name_cache = Some (dc_partner_name ctx),
     d_tier_code = Some (dc_tier_code ctx), d_owner_odoo_user_id = dc_user_id ctx,
     d_sales_team_odoo_id = dc_team_id ctx, d_odoo_company_id = dc_company_id ctx,
     d_currency_code = dc_currency_code ctx, d_status = DRAFT, d_approval_state = NOT_EVALUATED,
     d_health_status = HEALTHY, d_current_risk_score = None, d_current_severity = None,
     d_current_assessment_id = None, d_approved_assessment_id = None,
     d_required_level = ApprovalLevel.NONE, d_order_discount_pct = dc_blended_discount_pct ctx,
     d_amount_total_cache = dc_amount_total ctx, d_amount_untaxed_cache = dc_amount_untaxed ctx,
     d_margin_pct_cache = dc_total_margin_pct ctx, d_one_time_total_cache = dc_one_time_total ctx,
     d_recurring_first_cycle_total_cache = dc_recurring_first_cycle_total ctx,
     d_customer_confirmed_pending = False, d_sent_at = None, d_confirmed_at = None,
     d_promised_delivery_date = dc_delivery_date ctx, d_last_activity_at = now,
     d_last_synced_at = now, d_version = 1, d_created_at = now\<rparr>"

definition refreshed :: "deal_context \<Rightarrow> instant \<Rightarrow> deal \<Rightarrow> deal" where
  "refreshed ctx now d = d\<lparr>d_version := d_version d + 1,
     d_partner_name_cache := Some (dc_partner_name ctx),
     d_order_discount_pct := dc_blended_discount_pct ctx,
     d_amount_total_cache := dc_amount_total ctx, d_amount_untaxed_cache := dc_amount_untaxed ctx,
     d_margin_pct_cache := dc_total_margin_pct ctx,
     d_one_time_total_cache := dc_one_time_total ctx,
     d_recurring_first_cycle_total_cache := dc_recurring_first_cycle_total ctx,
     d_promised_delivery_date := (if dc_delivery_date ctx = None then d_promised_delivery_date d
       else dc_delivery_date ctx),
     d_last_synced_at := now, d_last_activity_at := now\<rparr>"

definition insert_deal :: "deal_context \<Rightarrow> instant \<Rightarrow> database \<Rightarrow> uuid \<times> database" where
  "insert_deal ctx now db =
     (case get_next_sequence ''DEAL'' ''D'' db of (ref, db1) \<Rightarrow>
        let i = db_next_id db1 in
        (i, db1\<lparr>db_deals := db_deals db1 @ [new_deal i ref ctx now], db_next_id := i + 1\<rparr>))"

definition deal_event ::
    "AuditEventType \<Rightarrow> uuid \<Rightarrow> odoo_id option \<Rightarrow> Role option \<Rightarrow> instant \<Rightarrow> database \<Rightarrow> database" where
  "deal_event ty i actor role now =
     record_audit_event ty ''deal'' (Some (int i)) (Some i) (actor_kind actor) actor role now"

text \<open>The row is committed before its audit event is written, so the event needs the caller's commit.\<close>

definition sync_deal_from_odoo ::
    "'g gateway \<Rightarrow> odoo_id \<Rightarrow> int option \<Rightarrow> odoo_id option \<Rightarrow> Role option \<Rightarrow> ('g world, uuid) effect" where
  "sync_deal_from_odoo gw oid expected_version actor role w =
     (let existing = find_deal_by_order oid (w_db w) in
      case build_deal_context (w_db w) gw (w_odoo w) (w_now w) oid (map_option d_id existing) of
        Inl e \<Rightarrow> (Inl e, w)
      | Inr ctx \<Rightarrow>
          (case existing of
             None \<Rightarrow>
               (case insert_deal ctx (w_now w) (w_db w) of (i, db1) \<Rightarrow>
                  (Inr i, on_db (deal_event DEAL_CREATED i actor role (w_now w))
                            (commit (on_db (\<lambda>_. db1) w))))
           | Some d \<Rightarrow>
               if expected_version \<noteq> None \<and> expected_version \<noteq> Some (d_version d)
               then (Inl (VersionConflictError (d_version d) (the expected_version)), w)
               else (Inr (d_id d), on_db (deal_event DEAL_SYNCED (d_id d) actor role (w_now w))
                      (commit (on_db (update_deal (d_id d) (refreshed ctx (w_now w))) w)))))"

definition get_deal_by_id :: "database \<Rightarrow> uuid \<Rightarrow> exc + deal" where
  "get_deal_by_id db i = option_or_raise (find_deal i db) NotFoundError"

record deal_patch_request =
  dpr_promised_delivery_date :: "instant option"
  dpr_tier_code :: "string option"

definition patched :: "deal_patch_request \<Rightarrow> instant \<Rightarrow> deal \<Rightarrow> deal" where
  "patched p now d = d\<lparr>d_promised_delivery_date :=
       (case dpr_promised_delivery_date p of None \<Rightarrow> d_promised_delivery_date d | Some t \<Rightarrow> Some t),
     d_tier_code := (case dpr_tier_code p of None \<Rightarrow> d_tier_code d | Some c \<Rightarrow> Some c),
     d_last_activity_at := now\<rparr>"

definition patch_deal ::
    "uuid \<Rightarrow> deal_patch_request \<Rightarrow> odoo_id option \<Rightarrow> Role option \<Rightarrow> ('g world, uuid) effect" where
  "patch_deal i p actor role w =
     (case get_deal_by_id (w_db w) i of Inl e \<Rightarrow> (Inl e, w)
      | Inr d \<Rightarrow> (Inr i, on_db (deal_event LINE_CHANGED i actor role (w_now w))
                    (commit (on_db (update_deal i (patched p (w_now w))) w))))"

section \<open>Lists\<close>

text \<open>
  SQL's \<^verbatim>\<open>ILIKE\<close> on ASCII text: \<^verbatim>\<open>%\<close> matches any text, \<^verbatim>\<open>_\<close> one character, and case is ignored. The
  query is put between two \<^verbatim>\<open>%\<close> as it is, so its own wildcards count as wildcards.
\<close>

definition char_lower :: "char \<Rightarrow> char" where
  "char_lower c = (let n = of_char c :: nat in if 65 \<le> n \<and> n \<le> 90 then char_of (n + 32) else c)"

fun like :: "string \<Rightarrow> string \<Rightarrow> bool" where
  "like [] s = (s = [])"
| "like (p # ps) [] = (p = CHR ''%'' \<and> like ps [])"
| "like (p # ps) (c # cs) =
     (if p = CHR ''%'' then like ps (c # cs) \<or> like (p # ps) cs
      else (p = CHR ''_'' \<or> p = c) \<and> like ps cs)"

definition ilike :: "string \<Rightarrow> string \<Rightarrow> bool" where
  "ilike pat s = like (map char_lower pat) (map char_lower s)"

record deal_filter_params =
  df_status :: "DealStatus option"
  df_approval_state :: "ApprovalState option"
  df_health_status :: "HealthStatus option"
  df_owner_id :: "odoo_id option"
  df_sales_team_id :: "odoo_id option"
  df_partner_id :: "odoo_id option"
  df_min_risk_score :: "dec option"
  df_max_risk_score :: "dec option"
  df_query :: "string option"

text \<open>A filter that is absent or, for identifiers and text, falsy lets every row pass.\<close>

definition matches :: "'a option \<Rightarrow> 'a \<Rightarrow> bool" where
  "matches f x = (case f of None \<Rightarrow> True | Some v \<Rightarrow> x = v)"

definition matches_id :: "odoo_id option \<Rightarrow> odoo_id option \<Rightarrow> bool" where
  "matches_id f x = (f = None \<or> f = Some 0 \<or> x = f)"

definition matches_text :: "string option \<Rightarrow> deal \<Rightarrow> bool" where
  "matches_text f d = (case f of None \<Rightarrow> True
     | Some q \<Rightarrow> q = [] \<or> (let pat = ''%'' @ q @ ''%'' in
         ilike pat (d_reference d) \<or> ilike pat (d_odoo_order_name d)
         \<or> (case d_partner_name_cache d of None \<Rightarrow> False | Some n \<Rightarrow> ilike pat n)))"

text \<open>A comparison with a null score is not true.\<close>

definition deal_matches :: "deal_filter_params \<Rightarrow> deal \<Rightarrow> bool" where
  "deal_matches p d =
     (matches (df_status p) (d_status d) \<and> matches (df_approval_state p) (d_approval_state d)
      \<and> matches (df_health_status p) (d_health_status d)
      \<and> matches_id (df_owner_id p) (Some (d_owner_odoo_user_id d))
      \<and> matches_id (df_sales_team_id p) (d_sales_team_odoo_id d)
      \<and> matches_id (df_partner_id p) (Some (d_odoo_partner_id d))
      \<and> (case df_min_risk_score p of None \<Rightarrow> True
         | Some lo \<Rightarrow> (case d_current_risk_score d of None \<Rightarrow> False | Some s \<Rightarrow> lo \<le> s))
      \<and> (case df_max_risk_score p of None \<Rightarrow> True
         | Some hi \<Rightarrow> (case d_current_risk_score d of None \<Rightarrow> False | Some s \<Rightarrow> s \<le> hi))
      \<and> matches_text (df_query p) d)"

definition paginate_query :: "pagination \<Rightarrow> 'a list \<Rightarrow> 'a list \<times> pagination_meta" where
  "paginate_query pg rows =
     (let total_rows = int (length rows) in
      (page_of pg rows,
       \<lparr>pm_page = pg_page pg, pm_page_size = pg_page_size pg, pm_total = total_rows,
        pm_total_pages = (if 0 < pg_page_size pg
          then (total_rows + pg_page_size pg - 1) div pg_page_size pg else 0)\<rparr>))"

definition list_deals :: "deal_filter_params \<Rightarrow> pagination \<Rightarrow> database \<Rightarrow> deal list \<times> pagination_meta" where
  "list_deals p pg db =
     paginate_query pg (newest_first d_last_activity_at (filter (deal_matches p) (db_deals db)))"

section \<open>References and orders are unique\<close>

definition deals_ok :: "database \<Rightarrow> bool" where
  "deals_ok db =
     (distinct (map d_odoo_sale_order_id (db_deals db)) \<and> distinct (map d_reference (db_deals db))
      \<and> 0 \<le> next_value ''DEAL'' db
      \<and> (\<forall>d\<in>set (db_deals db). \<exists>n\<ge>0. n < next_value ''DEAL'' db \<and> d_reference d = reference_text ''D'' n))"

lemma deals_ok_cong:
  assumes "deals_ok db" and "map (\<lambda>d. (d_odoo_sale_order_id d, d_reference d)) (db_deals db') =
      map (\<lambda>d. (d_odoo_sale_order_id d, d_reference d)) (db_deals db)"
    and "db_sequences db' = db_sequences db"
  shows "deals_ok db'"
proof -
  have "map fst (map (\<lambda>d. (d_odoo_sale_order_id d, d_reference d)) (db_deals db')) =
      map fst (map (\<lambda>d. (d_odoo_sale_order_id d, d_reference d)) (db_deals db))"
    "map snd (map (\<lambda>d. (d_odoo_sale_order_id d, d_reference d)) (db_deals db')) =
      map snd (map (\<lambda>d. (d_odoo_sale_order_id d, d_reference d)) (db_deals db))"
    by (simp_all only: assms(2))
  then have e: "map d_odoo_sale_order_id (db_deals db') = map d_odoo_sale_order_id (db_deals db)"
    "map d_reference (db_deals db') = map d_reference (db_deals db)"
    by (simp_all add: comp_def)
  have "d_reference ` set (db_deals db') = d_reference ` set (db_deals db)"
    using arg_cong[OF e(2), of set] by simp
  then have "\<exists>n\<ge>0. n < next_value ''DEAL'' db \<and> d_reference d = reference_text ''D'' n"
    if "d \<in> set (db_deals db')" for d
    using that assms(1) unfolding deals_ok_def by (metis (no_types, lifting) imageE imageI)
  then show ?thesis using assms(1,3) e by (simp add: deals_ok_def next_value_def)
qed

lemma deals_ok_update_deal:
  assumes "deals_ok db" and "\<And>d. d_odoo_sale_order_id (f d) = d_odoo_sale_order_id d"
    and "\<And>d. d_reference (f d) = d_reference d"
  shows "deals_ok (update_deal i f db)"
  by (rule deals_ok_cong[OF assms(1)]) (simp_all add: update_deal_def update_row_def assms)

lemma deals_ok_audit: "deals_ok db \<Longrightarrow> deals_ok (record_audit_event t et ei di ty ai ar now db)"
  by (erule deals_ok_cong) (cases di; simp add: db_deals_audit update_row_def)+

lemma deals_ok_notify: "deals_ok db \<Longrightarrow> deals_ok (notify r t i k now db)"
  by (erule deals_ok_cong) simp_all

lemma deals_ok_insert:
  assumes ok: "deals_ok db" and fresh: "find_deal_by_order (dc_odoo_sale_order_id ctx) db = None"
  shows "deals_ok (snd (insert_deal ctx now db))"
proof -
  let ?n = "next_value ''DEAL'' db"
  let ?db1 = "snd (get_next_sequence ''DEAL'' ''D'' db)"
  have new: "d_reference d \<noteq> reference_text ''D'' ?n" if d: "d \<in> set (db_deals db)" for d
  proof -
    obtain n where "0 \<le> n" "n < ?n" "d_reference d = reference_text ''D'' n"
      using ok d by (auto simp: deals_ok_def)
    then show ?thesis using reference_text_inj[of n ?n "''D''"] by simp
  qed
  have old: "\<exists>n\<ge>0. n < ?n + 1 \<and> d_reference d = reference_text ''D'' n" if d: "d \<in> set (db_deals db)" for d
    using ok d by (fastforce simp: deals_ok_def)
  have "deals_ok (?db1\<lparr>db_deals := db_deals ?db1 @ [new_deal (db_next_id ?db1) (fst (get_next_sequence ''DEAL'' ''D'' db)) ctx now],
      db_next_id := db_next_id ?db1 + 1\<rparr>)"
    using ok fresh new old next_value_get_next[of "''DEAL''" "''D''" db]
    by (auto simp: deals_ok_def new_deal_def fst_get_next_sequence find_deal_by_order_def find_row_None
        next_value_def)
  then show ?thesis by (simp add: insert_deal_def split_beta Let_def)
qed

text \<open>A created deal keeps the approval invariant: its key is fresh, so no request refers to it.\<close>

lemma governance_ok_insert:
  assumes ok: "governance_ok db"
  shows "governance_ok (snd (insert_deal ctx now db))"
proof -
  note D = governance_okD[OF ok]
  have none: "pending_requests (db_next_id db) db = []"
    using D(3) by (fastforce simp: pending_requests_def is_pending_def filter_empty_conv)
  have reqs: "db_requests (snd (get_next_sequence k p db)) = db_requests db" for k p
    by (simp add: get_next_sequence_def ensure_sequence_def Let_def split: option.splits)
  define db' where "db' = snd (insert_deal ctx now db)"
  obtain d where d: "db_deals db' = db_deals db @ [d]" "d_id d = db_next_id db" "d_approval_state d = NOT_EVALUATED"
    by (simp add: db'_def insert_deal_def split_beta Let_def new_deal_def)
  have r: "db_requests db' = db_requests db" "db_next_id db' = db_next_id db + 1"
    by (simp_all add: db'_def insert_deal_def split_beta Let_def reqs)
  have "governance_ok db'"
  proof
    show "distinct (map d_id (db_deals db'))" using D(2) D(4) by (fastforce simp: d)
    show "deal_governed db' e" if "e \<in> set (db_deals db')" for e
      using that D(5) none by (auto simp: d r deal_governed_def pending_requests_def)
  qed (use D in \<open>auto simp: d r intro: less_SucI\<close>)
  then show ?thesis by (simp add: db'_def)
qed

lemma refreshed_frame [simp]:
  "governance_view (refreshed ctx now d) = governance_view d" "d_id (refreshed ctx now d) = d_id d"
  "d_odoo_sale_order_id (refreshed ctx now d) = d_odoo_sale_order_id d"
  "d_reference (refreshed ctx now d) = d_reference d"
  "d_version (refreshed ctx now d) = d_version d + 1" "d_status (refreshed ctx now d) = d_status d"
  by (simp_all add: refreshed_def governance_view_def)

lemma build_context_order:
  assumes "build_deal_context db gw g now oid did = Inr ctx"
    and "\<And>ro. gw_get_sale_order gw oid g = Inr ro \<Longrightarrow> roh_id (ro_header ro) = oid"
  shows "dc_odoo_sale_order_id ctx = oid"
  using assms by (auto simp: build_deal_context_def Let_def split: sum.splits prod.splits)

section \<open>Versions\<close>

lemma find_row_map:
  "(\<And>r. key (g r) = key r) \<Longrightarrow> find_row key k (map g rows) = map_option g (find_row key k rows)"
  by (induction rows) (auto simp: find_row_def)

lemma find_deal_by_order_update:
  "(\<And>d. d_odoo_sale_order_id (f d) = d_odoo_sale_order_id d) \<Longrightarrow>
     find_deal_by_order oid (update_deal i f db) =
       map_option (\<lambda>d. if d_id d = i then f d else d) (find_deal_by_order oid db)"
  by (simp add: find_deal_by_order_def update_deal_def update_row_def find_row_map)

lemma find_deal_by_order_audit [simp]:
  "find_deal_by_order oid (record_audit_event t et ei di ty ai ar now db) =
     map_option (\<lambda>d. if di = Some (d_id d) then d\<lparr>d_last_activity_at := now\<rparr> else d)
       (find_deal_by_order oid db)"
proof (cases di)
  case None
  have "find_row d_odoo_sale_order_id oid ds = map_option (\<lambda>d. d) (find_row d_odoo_sale_order_id oid ds)" for ds
    by (simp add: option.map_ident)
  with None show ?thesis by (simp add: find_deal_by_order_def db_deals_audit option.map_ident)
next
  case (Some i)
  then have "find_deal_by_order oid (record_audit_event t et ei di ty ai ar now db) =
      find_deal_by_order oid (update_deal i (\<lambda>d. d\<lparr>d_last_activity_at := now\<rparr>) db)"
    by (simp add: find_deal_by_order_def db_deals_audit update_deal_def)
  with Some show ?thesis by (simp add: find_deal_by_order_update cong: option.map_cong) (auto intro!: option.map_cong)
qed

lemma sync_existing:
  assumes "sync_deal_from_odoo gw oid ev a r w = (Inr i, w')" and "find_deal_by_order oid (w_db w) = Some d"
  shows "i = d_id d \<and> (ev = None \<or> ev = Some (d_version d)) \<and>
    (\<exists>ctx. build_deal_context (w_db w) gw (w_odoo w) (w_now w) oid (Some (d_id d)) = Inr ctx \<and>
      w' = on_db (deal_event DEAL_SYNCED (d_id d) a r (w_now w))
             (commit (on_db (update_deal (d_id d) (refreshed ctx (w_now w))) w)))"
  using assms by (auto simp: sync_deal_from_odoo_def Let_def split: sum.splits if_splits)

text \<open>The stored deal of an order after a refresh: the same deal, one version on.\<close>

lemma sync_existing_deal:
  assumes "sync_deal_from_odoo gw oid ev a r w = (Inr i, w')" and "find_deal_by_order oid (w_db w) = Some d"
  shows "\<exists>d'. find_deal_by_order oid (w_db w') = Some d' \<and> d_id d' = d_id d \<and>
    d_version d' = d_version d + 1 \<and> d_status d' = d_status d \<and>
    d_approval_state d' = d_approval_state d"
proof -
  have "find_deal_by_order oid (w_db w) \<noteq> None" using assms(2) by simp
  then show ?thesis using sync_existing[OF assms] assms(2)
    by (auto simp: deal_event_def find_deal_by_order_update) (simp_all add: refreshed_def)
qed

text \<open>
  C29: No lost update. When a refresh that states the version it saw has succeeded, a second one that
  states the same version is refused, whatever else it asks for, and changes neither the database
  nor Odoo.
\<close>

theorem sync_no_lost_update:
  assumes "find_deal_by_order oid (w_db w) = Some d"
    and "sync_deal_from_odoo gw oid (Some v) a r w = (Inr i, w1)"
  shows "\<exists>e. sync_deal_from_odoo gw oid (Some v) a' r' w1 = (Inl e, w1)"
proof -
  obtain d' where d': "find_deal_by_order oid (w_db w1) = Some d'" "d_version d' = d_version d + 1"
    using sync_existing_deal[OF assms(2,1)] by blast
  have "v = d_version d" using sync_existing[OF assms(2,1)] by simp
  with d' show ?thesis
    by (auto simp: sync_deal_from_odoo_def Let_def split: sum.splits)
qed

lemma sync_world:
  "w_odoo (snd (sync_deal_from_odoo gw oid ev a r w)) = w_odoo w"
  "w_now (snd (sync_deal_from_odoo gw oid ev a r w)) = w_now w"
  by (auto simp: sync_deal_from_odoo_def Let_def split: sum.splits option.splits prod.splits)

lemma governance_ok_sync:
  assumes ok: "governance_ok (w_db w)"
  shows "governance_ok (w_db (snd (sync_deal_from_odoo gw oid ev a r w)))"
proof (cases "build_deal_context (w_db w) gw (w_odoo w) (w_now w) oid
    (map_option d_id (find_deal_by_order oid (w_db w)))")
  case (Inr ctx)
  have "governance_ok (snd (insert_deal ctx (w_now w) (w_db w)))" by (rule governance_ok_insert[OF ok])
  moreover have "governance_ok (update_deal i (refreshed ctx (w_now w)) (w_db w))" for i
    by (rule governance_ok_update_deal[OF ok]) simp
  ultimately show ?thesis using ok Inr
    by (auto simp: sync_deal_from_odoo_def Let_def deal_event_def governance_ok_audit split_beta split: option.splits)
qed (use ok in \<open>simp add: sync_deal_from_odoo_def Let_def\<close>)

context odoo_gateway
begin

lemma deals_ok_sync:
  assumes "valid (w_odoo w)" and ok: "deals_ok (w_db w)"
  shows "deals_ok (w_db (snd (sync_deal_from_odoo gw oid ev a r w)))"
proof (cases "build_deal_context (w_db w) gw (w_odoo w) (w_now w) oid
    (map_option d_id (find_deal_by_order oid (w_db w)))")
  case (Inr ctx)
  have "dc_odoo_sale_order_id ctx = oid"
    by (rule build_context_order[OF Inr]) (rule order_id[OF assms(1)])
  then have "deals_ok (snd (insert_deal ctx (w_now w) (w_db w)))"
    if "find_deal_by_order oid (w_db w) = None" using deals_ok_insert[OF ok, of ctx "w_now w"] that by simp
  moreover have "deals_ok (update_deal i (refreshed ctx (w_now w)) (w_db w))" for i
    by (rule deals_ok_update_deal[OF ok]) simp_all
  ultimately show ?thesis using ok Inr
    by (auto simp: sync_deal_from_odoo_def Let_def deal_event_def deals_ok_audit split_beta split: option.splits)
qed (use ok in \<open>simp add: sync_deal_from_odoo_def Let_def\<close>)

end

text \<open>
  Syncing any order, in any valid state of the in-memory Odoo, keeps deals unique: no two deals
  carry the same reference, no two stand for the same order, and every reference has been handed
  out by the sequence.
\<close>

theorem sync_keeps_deals_unique:
  assumes "fake_ok (w_odoo w)" and "deals_ok (w_db w)"
  shows "deals_ok (w_db (snd (sync_deal_from_odoo fake_gateway oid ev a r w)))"
  by (rule fake.deals_ok_sync[OF assms])

lemma deals_ok_empty: "deals_ok empty_database"
  by (simp add: deals_ok_def empty_database_def next_value_def find_row_def)

theorem sync_keeps_deals_unique_witness:
  "deals_ok (w_db (snd (sync_deal_from_odoo fake_gateway 1 None None None (small_world empty_database))))"
  by (rule sync_keeps_deals_unique) (simp_all add: small_state_ok deals_ok_empty)

lemma small_sync_db: "find_deal_by_order 1 awaiting_db = Some (small_deal PENDING_MANAGER MANAGER_AND_FINANCE)"
  by (simp add: find_deal_by_order_def awaiting_db_def)

text \<open>The context reads the tiers, their assignments and the discount statistics, and nothing else.\<close>

lemma build_context_cong:
  "db_tiers db' = db_tiers db \<Longrightarrow> db_tier_assignments db' = db_tier_assignments db \<Longrightarrow>
     db_rep_stats db' = db_rep_stats db \<Longrightarrow>
     build_deal_context db' gw g now i did = build_deal_context db gw g now i did"
  unfolding build_deal_context_def resolve_tier_def by (simp only:)

lemma awaiting_context: "build_deal_context awaiting_db gw g now i did = build_deal_context empty_database gw g now i did"
  by (rule build_context_cong) (simp_all add: awaiting_db_def small_db_def)

theorem sync_no_lost_update_witness:
  "\<exists>e w1. sync_deal_from_odoo fake_gateway 1 (Some 1) None None w1 = (Inl e, w1) \<and>
     w1 = snd (sync_deal_from_odoo fake_gateway 1 (Some 1) None None (small_world awaiting_db\<lparr>w_now := 0\<rparr>))"
proof -
  let ?w = "small_world awaiting_db\<lparr>w_now := 0\<rparr>"
  have db: "w_db ?w = awaiting_db" "w_odoo ?w = small_state 20" "w_now ?w = 0" by (simp_all add: small_world_def)
  have f: "find_deal_by_order 1 (w_db ?w) = Some (small_deal PENDING_MANAGER MANAGER_AND_FINANCE)"
    by (simp only: db small_sync_db)
  have v: "d_version (small_deal s l) = 1" for s l by (simp add: small_deal_def)
  have "\<exists>i. fst (sync_deal_from_odoo fake_gateway 1 (Some 1) None None ?w) = Inr i"
    by (simp add: sync_deal_from_odoo_def Let_def db small_sync_db awaiting_context build_small v)
  then obtain i where "sync_deal_from_odoo fake_gateway 1 (Some 1) None None ?w =
      (Inr i, snd (sync_deal_from_odoo fake_gateway 1 (Some 1) None None ?w))"
    by (metis prod.collapse)
  from sync_no_lost_update[OF f this] show ?thesis by blast
qed

end
