(* ===== verification/Recommend.thy ===== *)
theory Recommend
  imports Deal_Service "HOL-Library.Multiset"
begin

text \<open>
  Product recommendations: the scoring engine of \<^verbatim>\<open>app/guardian/recommend.py\<close>, and from
  \<^verbatim>\<open>app/services/recommendation_service.py\<close> the generation of a deal's recommendations, the mining of
  co-purchase rules and the maintenance of rules. (Adding a recommendation to a deal re-evaluates
  it; that is in \<open>Deal_Actions\<close>.) The reason text of a candidate is not modelled.

  The lemmas: a recommended product is new to the deal, not dismissed, above the margin floors and
  recommended once, the list is ordered by score and bounded; and mining counts, for every ordered
  pair of products, the orders that contain both.
\<close>

section \<open>The engine\<close>

record recommendation_candidate =
  rc_odoo_product_id :: odoo_id
  rc_product_name :: string
  rc_recommendation_type :: RecommendationType
  rc_score :: dec
  rc_co_purchase_score :: dec
  rc_promotion_score :: dec
  rc_margin_score :: dec
  rc_relevance_score :: dec
  rc_margin_delta_amount :: dec
  rc_margin_delta_pct :: dec
  rc_unit_price :: dec
  rc_source :: string

record rec_weights =
  rw_co :: rat
  rw_promo :: rat
  rw_margin :: rat
  rw_rel :: rat

record rec_settings =
  rs_min_margin_pct :: dec
  rs_max :: int
  rs_weights :: rec_weights

text \<open>The defaults of \<^verbatim>\<open>app/core/config.py\<close>; the weights are floats.\<close>

definition default_rec_settings :: rec_settings where
  "default_rec_settings = \<lparr>rs_min_margin_pct = 15, rs_max = 5,
     rs_weights = \<lparr>rw_co = fl64 (40 / 100), rw_promo = fl64 (15 / 100), rw_margin = fl64 (30 / 100),
       rw_rel = fl64 (15 / 100)\<rparr>\<rparr>"

definition rule_applies ::
    "odoo_id list \<Rightarrow> odoo_id list \<Rightarrow> (odoo_id \<times> raw_product) list \<Rightarrow> recommendation_rule \<Rightarrow> bool" where
  "rule_applies deal_pids dismissed products r =
     (rr_active r \<and> rr_trigger_product_id r \<in> set deal_pids
      \<and> rr_suggested_product_id r \<notin> set deal_pids \<and> rr_suggested_product_id r \<notin> set dismissed
      \<and> map_of products (rr_suggested_product_id r) \<noteq> None)"

definition max_co_purchase :: "recommendation_rule list \<Rightarrow> int" where
  "max_co_purchase rules =
     (case map rr_co_purchase_count rules of [] \<Rightarrow> 1
      | c # cs \<Rightarrow> let m = fold max cs c in if m \<le> 0 then 1 else m)"

definition boosted_count :: "recommendation_rule \<Rightarrow> rat" where
  "boosted_count r = fadd (fl64 (of_int (rr_co_purchase_count r))) (fl64 (rr_manual_boost r))"

definition keep_best :: "recommendation_rule \<Rightarrow> (odoo_id \<times> recommendation_rule) list \<Rightarrow>
    (odoo_id \<times> recommendation_rule) list" where
  "keep_best r best =
     (case map_of best (rr_suggested_product_id r) of
        None \<Rightarrow> AList.update (rr_suggested_product_id r) r best
      | Some old \<Rightarrow> if boosted_count old < boosted_count r
                    then AList.update (rr_suggested_product_id r) r best else best)"

definition best_rule_per_product :: "recommendation_rule list \<Rightarrow> (odoo_id \<times> recommendation_rule) list" where
  "best_rule_per_product rules = fold keep_best rules []"

text \<open>\<^verbatim>\<open>min(1.0, max(0.0, x))\<close>.\<close>

definition clamp :: "rat \<Rightarrow> rat" where
  "clamp x = min 1 (max 0 x)"

definition parent_of :: "odoo_id list \<Rightarrow> odoo_id option" where
  "parent_of path = (if 1 < length path then Some (path ! (length path - 2)) else None)"

definition relevance :: "deal_line_context option \<Rightarrow> raw_product \<Rightarrow> rat" where
  "relevance trigger p =
     (case trigger of None \<Rightarrow> fl64 (3 / 10)
      | Some l \<Rightarrow>
          if rpr_category_id p = dl_category_id l \<or> rpr_category_id p \<in> set (dl_category_path l) then 1
          else if parent_of (rpr_category_path p) \<noteq> None
            \<and> parent_of (rpr_category_path p) = parent_of (dl_category_path l) then fl64 (6 / 10)
          else if dl_category_id l \<in> set (rpr_category_path p) then 1
          else fl64 (3 / 10))"

definition margin_ratio :: "dec \<Rightarrow> dec \<Rightarrow> dec" where
  "margin_ratio price cost = ddiv (dsub price cost) price"

definition thousandths :: "rat \<Rightarrow> dec" where
  "thousandths f = pyround (float_repr f) 3"

definition candidate_price :: "(odoo_id \<times> dec) list \<Rightarrow> odoo_id \<Rightarrow> raw_product \<Rightarrow> dec" where
  "candidate_price prices i p = (case map_of prices i of Some q \<Rightarrow> q | None \<Rightarrow> float_repr (rpr_list_price p))"

definition passes_floors :: "dec \<Rightarrow> dec option \<Rightarrow> dec \<Rightarrow> dec \<Rightarrow> bool" where
  "passes_floors min_margin policy_margin price cost =
     (0 < price \<and> min_margin \<le> dmul (margin_ratio price cost) 100
      \<and> (case policy_margin of None \<Rightarrow> True | Some m \<Rightarrow> m \<le> dmul (margin_ratio price cost) 100))"

definition total_rec_score :: "rec_weights \<Rightarrow> rat \<Rightarrow> rat \<Rightarrow> rat \<Rightarrow> rat \<Rightarrow> rat" where
  "total_rec_score w co promo margin rel =
     fadd (fadd (fadd (fmul (rw_co w) co) (fmul (rw_promo w) promo)) (fmul (rw_margin w) margin))
       (fmul (rw_rel w) rel)"

text \<open>The loop body: a candidate, or nothing when a floor rejects it. A rule that applies has its product.\<close>

definition candidate ::
    "rec_settings \<Rightarrow> dec option \<Rightarrow> deal_line_context list \<Rightarrow> dec \<Rightarrow> dec \<Rightarrow> dec \<Rightarrow> int \<Rightarrow>
     (odoo_id \<times> raw_product) list \<Rightarrow> (odoo_id \<times> dec) list \<Rightarrow> odoo_id \<times> recommendation_rule \<Rightarrow>
     recommendation_candidate option" where
  "candidate rs policy_margin deal_lines untaxed total_cost margin_pct max_co products prices ir =
     (case ir of (i, rule) \<Rightarrow>
      (case map_of products i of None \<Rightarrow> None
       | Some p \<Rightarrow>
          let price = candidate_price prices i p; cost = float_repr (rpr_standard_price p) in
          if \<not> passes_floors (rs_min_margin_pct rs) policy_margin price cost then None
          else
            let raw_co = fdiv (fl64 (of_int (rr_co_purchase_count rule))) (fl64 (of_int max_co));
                co_score = clamp (fadd raw_co (fl64 (rr_manual_boost rule)));
                is_promoted = (case rr_is_promoted_override rule of Some b \<Rightarrow> b
                               | None \<Rightarrow> ''DealFlow Promo'' \<in> set (rpr_tags p));
                promo_score = (if is_promoted then 1 else 0);
                margin_score = clamp (fl64 (margin_ratio price cost));
                trigger = find (\<lambda>l. dl_product_id l = rr_trigger_product_id rule) deal_lines;
                rel = relevance trigger p;
                final_score = thousandths (total_rec_score (rs_weights rs) co_score promo_score margin_score rel);
                delta_amount = pyround (dsub price cost) 2;
                new_untaxed = dadd untaxed price;
                new_cost = dadd total_cost cost;
                new_margin_pct = (if 0 < new_untaxed
                  then dmul (ddiv (dsub new_untaxed new_cost) new_untaxed) 100 else 0);
                delta_pct = pyround (dsub new_margin_pct margin_pct) 2;
                rec_type = (case trigger of Some l \<Rightarrow>
                    if dl_category_id l = rpr_category_id p then UPSELL else CROSS_SELL
                  | None \<Rightarrow> CROSS_SELL) in
            Some \<lparr>rc_odoo_product_id = i, rc_product_name = rpr_name p,
              rc_recommendation_type = rec_type, rc_score = final_score,
              rc_co_purchase_score = thousandths co_score,
              rc_promotion_score = thousandths promo_score,
              rc_margin_score = thousandths margin_score, rc_relevance_score = thousandths rel,
              rc_margin_delta_amount = delta_amount, rc_margin_delta_pct = delta_pct,
              rc_unit_price = price, rc_source = rr_source rule\<rparr>))"

text \<open>Descending by score, then co-purchase score, then margin; ties keep their order.\<close>

definition rank_candidates :: "recommendation_candidate list \<Rightarrow> recommendation_candidate list" where
  "rank_candidates cs =
     sort_key (\<lambda>c. - rc_score c) (sort_key (\<lambda>c. - rc_co_purchase_score c)
       (sort_key (\<lambda>c. - rc_margin_delta_amount c) cs))"

text \<open>\<^verbatim>\<open>xs[:n]\<close>.\<close>

definition slice_to :: "int \<Rightarrow> 'a list \<Rightarrow> 'a list" where
  "slice_to n xs = take (nat (if 0 \<le> n then n else int (length xs) + n)) xs"

definition evaluate_recommendations ::
    "rec_settings \<Rightarrow> dec option \<Rightarrow> deal_line_context list \<Rightarrow> dec \<Rightarrow> dec \<Rightarrow> dec \<Rightarrow> recommendation_rule list \<Rightarrow>
     (odoo_id \<times> raw_product) list \<Rightarrow> (odoo_id \<times> dec) list \<Rightarrow> odoo_id list \<Rightarrow>
     recommendation_candidate list" where
  "evaluate_recommendations rs policy_margin deal_lines untaxed total_cost margin_pct rules products prices dismissed =
     (let rules' = filter (rule_applies (map dl_product_id deal_lines) dismissed products) rules;
          max_co = max_co_purchase rules' in
      slice_to (rs_max rs) (rank_candidates (List.map_filter
        (candidate rs policy_margin deal_lines untaxed total_cost margin_pct max_co products prices)
        (best_rule_per_product rules'))))"

section \<open>Generation\<close>

definition price_step ::
    "'g gateway \<Rightarrow> 'g \<Rightarrow> odoo_id \<Rightarrow> odoo_id \<Rightarrow> (odoo_id \<times> dec) list \<Rightarrow> exc + (odoo_id \<times> dec) list" where
  "price_step gw g partner pid acc =
     bind_exc (gw_get_price gw partner pid 1 g) (\<lambda>p. Inr (AList.update pid p acc))"

definition stored_recommendation ::
    "uuid \<Rightarrow> uuid \<Rightarrow> uuid \<Rightarrow> instant \<Rightarrow> recommendation_candidate \<Rightarrow> recommendation" where
  "stored_recommendation i deal_id assessment now c = \<lparr>rec_id = i, rec_deal_id = deal_id,
     rec_risk_assessment_id = assessment, rec_odoo_product_id = rc_odoo_product_id c,
     rec_product_name_cache = rc_product_name c,
     rec_recommendation_type = rc_recommendation_type c, rec_score = rc_score c,
     rec_co_purchase_score = rc_co_purchase_score c, rec_promotion_score = rc_promotion_score c,
     rec_margin_score = rc_margin_score c, rec_relevance_score = rc_relevance_score c,
     rec_margin_delta_amount = rc_margin_delta_amount c,
     rec_margin_delta_pct = rc_margin_delta_pct c, rec_unit_price_cache = rc_unit_price c,
     rec_source = rc_source c, rec_status = ACTIVE, rec_created_at = now, rec_added_at = None,
     rec_dismissed_at = None\<rparr>"

definition is_active_for :: "uuid \<Rightarrow> recommendation \<Rightarrow> bool" where
  "is_active_for i r = (rec_deal_id r = i \<and> rec_status r = ACTIVE)"

definition insert_recommendation ::
    "uuid \<Rightarrow> uuid \<Rightarrow> instant \<Rightarrow> recommendation_candidate \<Rightarrow> database \<Rightarrow> database" where
  "insert_recommendation deal_id assessment now c db =
     db\<lparr>db_recommendations := db_recommendations db @
          [stored_recommendation (db_next_id db) deal_id assessment now c],
        db_next_id := db_next_id db + 1\<rparr>"

definition replace_recommendations ::
    "uuid \<Rightarrow> uuid \<Rightarrow> instant \<Rightarrow> recommendation_candidate list \<Rightarrow> database \<Rightarrow> database" where
  "replace_recommendations deal_id assessment now cs db =
     fold (insert_recommendation deal_id assessment now) cs
       (db\<lparr>db_recommendations := filter (\<lambda>r. \<not> is_active_for deal_id r) (db_recommendations db)\<rparr>)"

text \<open>
  The order of the product identifiers, which the source takes from sets, only reaches calls whose
  results are looked up by identifier.
\<close>

definition generate_and_persist_recommendations ::
    "'g gateway \<Rightarrow> deal \<Rightarrow> uuid \<Rightarrow> ('g world, unit) effect" where
  "generate_and_persist_recommendations gw d assessment w =
     (let db = w_db w; g = w_odoo w in
      case build_deal_context db gw g (w_now w) (d_odoo_sale_order_id d) (Some (d_id d)) of
        Inl e \<Rightarrow> (Inl e, w)
      | Inr ctx \<Rightarrow>
          let deal_pids = map dl_product_id (dc_lines ctx);
              rules = filter (\<lambda>r. rr_odoo_company_id r = d_odoo_company_id d
                \<and> rr_trigger_product_id r \<in> set deal_pids \<and> rr_active r) (db_rules db);
              sugg = remdups (filter (\<lambda>p. p \<notin> set deal_pids) (map rr_suggested_product_id rules)) in
          if deal_pids = [] \<or> rules = [] \<or> sugg = [] then (Inr (), w)
          else case gw_get_products gw (remdups (deal_pids @ sugg)) g of
            Inl e \<Rightarrow> (Inl e, w)
          | Inr products \<Rightarrow>
              (case fold_exc (price_step gw g (d_odoo_partner_id d)) sugg [] of
                 Inl e \<Rightarrow> (Inl e, w)
               | Inr prices \<Rightarrow>
                   let dismissed = map rec_odoo_product_id
                         (filter (\<lambda>r. rec_deal_id r = d_id d \<and> rec_status r = DISMISSED) (db_recommendations db));
                       policy_margin = (case find (\<lambda>p. dp_odoo_company_id p = d_odoo_company_id d \<and> dp_active p)
                           (db_policies db) of None \<Rightarrow> None | Some p \<Rightarrow> dp_minimum_margin_pct p);
                       cs = evaluate_recommendations default_rec_settings policy_margin (dc_lines ctx)
                         (dc_amount_untaxed ctx) (dc_total_cost ctx) (dc_total_margin_pct ctx) rules
                         products prices dismissed in
                   (Inr (), on_db (replace_recommendations (d_id d) assessment (w_now w) cs) w)))"

definition list_deal_recommendations :: "uuid \<Rightarrow> database \<Rightarrow> recommendation list" where
  "list_deal_recommendations i db =
     sort_key (\<lambda>r. - rec_score r) (filter (is_active_for i) (db_recommendations db))"

section \<open>Mining and rules\<close>

text \<open>Every ordered pair of distinct products of an order, once per order.\<close>

definition order_pairs :: "mined_order \<Rightarrow> (odoo_id \<times> odoo_id) list" where
  "order_pairs od =
     (let pids = sort (remdups (mo_product_ids od)) in
      [(a, b). a \<leftarrow> pids, b \<leftarrow> pids, a \<noteq> b])"

definition count_in :: "(('k \<times> int) list) \<Rightarrow> 'k \<Rightarrow> int" where
  "count_in d k = (case map_of d k of None \<Rightarrow> 0 | Some c \<Rightarrow> c)"

definition pair_counts :: "mined_order list \<Rightarrow> ((odoo_id \<times> odoo_id) \<times> int) list" where
  "pair_counts orders =
     foldl (\<lambda>d p. AList.update p (count_in d p + 1) d) [] (concat (map order_pairs orders))"

definition rule_key :: "recommendation_rule \<Rightarrow> odoo_id \<times> odoo_id \<times> odoo_id" where
  "rule_key r = (rr_odoo_company_id r, rr_trigger_product_id r, rr_suggested_product_id r)"

text \<open>The row a query returned first, changed in place.\<close>

fun update_first :: "('r \<Rightarrow> bool) \<Rightarrow> ('r \<Rightarrow> 'r) \<Rightarrow> 'r list \<Rightarrow> 'r list" where
  "update_first P f [] = []"
| "update_first P f (r # rs) = (if P r then f r # rs else r # update_first P f rs)"

definition upsert_rule :: "odoo_id \<Rightarrow> (odoo_id \<times> odoo_id) \<times> int \<Rightarrow> database \<Rightarrow> database" where
  "upsert_rule company e db =
     (case e of ((trig, sugg), n) \<Rightarrow>
      (case find_row rule_key (company, trig, sugg) (db_rules db) of
         Some _ \<Rightarrow> db\<lparr>db_rules := update_first (\<lambda>r. rule_key r = (company, trig, sugg))
             (\<lambda>r. r\<lparr>rr_co_purchase_count := n, rr_source := ''MINED''\<rparr>) (db_rules db)\<rparr>
       | None \<Rightarrow> db\<lparr>db_rules := db_rules db @ [\<lparr>rr_id = db_next_id db, rr_odoo_company_id = company,
             rr_trigger_product_id = trig, rr_suggested_product_id = sugg,
             rr_co_purchase_count = n, rr_manual_boost = 0, rr_is_promoted_override = None,
             rr_source = ''MINED'', rr_active = True\<rparr>], db_next_id := db_next_id db + 1\<rparr>))"

record mining_report =
  mr_orders_analyzed :: int
  mr_rules_upserted :: int

definition mine_co_purchase_rules :: "'g gateway \<Rightarrow> odoo_id \<Rightarrow> ('g world, mining_report) effect" where
  "mine_co_purchase_rules gw company w =
     (case gw_get_confirmed_orders_for_mining gw (w_odoo w) of
        Inl e \<Rightarrow> (Inl e, w)
      | Inr orders \<Rightarrow>
          (Inr \<lparr>mr_orders_analyzed = int (length orders),
                mr_rules_upserted = int (length (pair_counts orders))\<rparr>,
           commit (on_db (fold (upsert_rule company) (pair_counts orders)) w)))"

definition list_rules :: "odoo_id \<Rightarrow> pagination \<Rightarrow> database \<Rightarrow> recommendation_rule list \<times> pagination_meta" where
  "list_rules company pg db =
     (let rows = filter (\<lambda>r. rr_odoo_company_id r = company) (db_rules db); n = int (length rows) in
      (page_of pg (sort_key (\<lambda>r. - rr_co_purchase_count r) rows),
       \<lparr>pm_page = pg_page pg, pm_page_size = pg_page_size pg, pm_total = n,
        pm_total_pages = (if 0 < pg_page_size pg then \<lceil>fdiv (of_int n) (of_int (pg_page_size pg))\<rceil> else 1)\<rparr>))"

definition create_rule :: "recommendation_rule \<Rightarrow> 'g world \<Rightarrow> 'g world" where
  "create_rule payload w = commit (on_db (\<lambda>db. db\<lparr>
     db_rules := db_rules db @ [payload\<lparr>rr_id := db_next_id db\<rparr>], db_next_id := db_next_id db + 1\<rparr>) w)"

definition get_rule :: "database \<Rightarrow> uuid \<Rightarrow> exc + recommendation_rule" where
  "get_rule db i = option_or_raise (find_row rr_id i (db_rules db))
     (EntityNotFoundError ''RecommendationRule'' (int i))"

record rule_update =
  ru_co_purchase_count :: "int option"
  ru_manual_boost :: "dec option"
  ru_is_promoted_override :: "bool option"
  ru_active :: "bool option"

definition apply_rule_update :: "rule_update \<Rightarrow> recommendation_rule \<Rightarrow> recommendation_rule" where
  "apply_rule_update u r = r\<lparr>
     rr_co_purchase_count := (case ru_co_purchase_count u of None \<Rightarrow> rr_co_purchase_count r | Some x \<Rightarrow> x),
     rr_manual_boost := (case ru_manual_boost u of None \<Rightarrow> rr_manual_boost r | Some x \<Rightarrow> x),
     rr_is_promoted_override := (case ru_is_promoted_override u of None \<Rightarrow> rr_is_promoted_override r
       | Some x \<Rightarrow> Some x),
     rr_active := (case ru_active u of None \<Rightarrow> rr_active r | Some x \<Rightarrow> x)\<rparr>"

definition update_rule :: "uuid \<Rightarrow> rule_update \<Rightarrow> ('g world, unit) effect" where
  "update_rule i u w = (case get_rule (w_db w) i of Inl e \<Rightarrow> (Inl e, w)
     | Inr _ \<Rightarrow> (Inr (), commit (on_db (\<lambda>db. db\<lparr>db_rules :=
         update_row rr_id i (apply_rule_update u) (db_rules db)\<rparr>) w)))"

definition delete_rule :: "uuid \<Rightarrow> ('g world, bool) effect" where
  "delete_rule i w = (case get_rule (w_db w) i of Inl e \<Rightarrow> (Inl e, w)
     | Inr _ \<Rightarrow> (Inr True, commit (on_db (\<lambda>db. db\<lparr>db_rules :=
         filter (\<lambda>r. rr_id r \<noteq> i) (db_rules db)\<rparr>) w)))"

section \<open>Sound candidates\<close>

lemma keep_best_keys: "distinct (map fst best) \<Longrightarrow> distinct (map fst (keep_best r best))"
  by (auto simp: keep_best_def distinct_update split: option.splits)

lemma fold_keep_best:
  assumes "distinct (map fst best)" and "\<forall>(i, r)\<in>set best. r \<in> R \<and> rr_suggested_product_id r = i"
    and "set rules \<subseteq> R"
  shows "distinct (map fst (fold keep_best rules best)) \<and>
    (\<forall>(i, r)\<in>set (fold keep_best rules best). r \<in> R \<and> rr_suggested_product_id r = i)"
  using assms
proof (induction rules arbitrary: best)
  case (Cons r rules)
  have "\<forall>(i, q)\<in>set (keep_best r best). q \<in> R \<and> rr_suggested_product_id q = i"
    using Cons.prems(2,3) by (auto simp: keep_best_def split: option.splits if_splits dest!: in_set_update)
  with Cons.IH[OF keep_best_keys[OF Cons.prems(1)]] Cons.prems(3) show ?case by simp
qed simp

lemma best_rules:
  "distinct (map fst (best_rule_per_product rules))"
  "(i, r) \<in> set (best_rule_per_product rules) \<Longrightarrow> r \<in> set rules \<and> rr_suggested_product_id r = i"
  using fold_keep_best[of "[]" "set rules" rules] by (auto simp: best_rule_per_product_def)

lemma candidate_Some:
  assumes "candidate rs pm ls u c m mc products prices (i, r) = Some x"
  shows "rc_odoo_product_id x = i \<and> (\<exists>p. map_of products i = Some p \<and>
    rc_unit_price x = candidate_price prices i p \<and>
    passes_floors (rs_min_margin_pct rs) pm (rc_unit_price x) (float_repr (rpr_standard_price p)))"
  using assms by (auto simp: candidate_def Let_def split: option.splits if_splits)

lemma map_filter_keys:
  "(\<And>i r x. f (i, r) = Some x \<Longrightarrow> g x = i) \<Longrightarrow> distinct (map fst d) \<Longrightarrow>
     distinct (map g (List.map_filter f d)) \<and> set (map g (List.map_filter f d)) \<subseteq> fst ` set d"
proof (induction d)
  case (Cons e d)
  obtain i r where e: "e = (i, r)" by force
  show ?case using Cons by (cases "f e") (auto simp: e List.map_filter_simps)
qed (simp add: List.map_filter_simps)

lemma set_rank [simp]: "set (rank_candidates cs) = set cs"
  by (simp add: rank_candidates_def)

lemma distinct_rank: "distinct (map g (rank_candidates cs)) = distinct (map g cs)"
proof -
  have "mset (rank_candidates cs) = mset cs" by (simp add: rank_candidates_def)
  then have "mset (map g (rank_candidates cs)) = mset (map g cs)" by simp
  then show ?thesis by (metis mset_eq_imp_distinct_iff)
qed

lemma sorted_rank: "sorted (map (\<lambda>c. - rc_score c) (rank_candidates cs))"
  by (simp add: rank_candidates_def)

lemma set_slice: "set (slice_to n xs) \<subseteq> set xs"
  by (simp add: slice_to_def set_take_subset)

lemma slice_props:
  "0 \<le> n \<Longrightarrow> length (slice_to n xs) \<le> nat n" "distinct (map g xs) \<Longrightarrow> distinct (map g (slice_to n xs))"
  "sorted (map h xs) \<Longrightarrow> sorted (map h (slice_to n xs))"
  by (simp_all add: slice_to_def sorted_wrt_take flip: take_map)

text \<open>
  What is recommended is sound: every product in the list is suggested by an active rule whose
  trigger is on the deal, is not on the deal itself and was not dismissed, has a positive price and
  meets both margin floors; no product appears twice, the list is in descending order of score and
  at most as long as the limit.
\<close>

theorem recommendations_sound:
  assumes "cs = evaluate_recommendations rs pm ls untaxed cost mpct rules products prices dismissed"
    and "0 \<le> rs_max rs"
  shows "distinct (map rc_odoo_product_id cs) \<and> length cs \<le> nat (rs_max rs) \<and>
    sorted_wrt (\<ge>) (map rc_score cs) \<and>
    (\<forall>c\<in>set cs. rc_odoo_product_id c \<notin> dl_product_id ` set ls \<and> rc_odoo_product_id c \<notin> set dismissed \<and>
      0 < rc_unit_price c \<and>
      (\<exists>r\<in>set rules. rr_active r \<and> rr_suggested_product_id r = rc_odoo_product_id c \<and>
        rr_trigger_product_id r \<in> dl_product_id ` set ls) \<and>
      (\<exists>p. map_of products (rc_odoo_product_id c) = Some p \<and>
        rs_min_margin_pct rs \<le> dmul (margin_ratio (rc_unit_price c) (float_repr (rpr_standard_price p))) 100 \<and>
        (\<forall>m. pm = Some m \<longrightarrow>
          m \<le> dmul (margin_ratio (rc_unit_price c) (float_repr (rpr_standard_price p))) 100)))"
proof -
  define rules' where "rules' = filter (rule_applies (map dl_product_id ls) dismissed products) rules"
  define f where "f = candidate rs pm ls untaxed cost mpct (max_co_purchase rules') products prices"
  define all where "all = List.map_filter f (best_rule_per_product rules')"
  have cs: "cs = slice_to (rs_max rs) (rank_candidates all)"
    by (simp add: assms(1) evaluate_recommendations_def Let_def all_def f_def rules'_def)
  have d: "distinct (map rc_odoo_product_id all)"
    using map_filter_keys[of f rc_odoo_product_id "best_rule_per_product rules'"] candidate_Some best_rules(1)
    unfolding all_def f_def by blast
  have sound: "rc_odoo_product_id c \<notin> dl_product_id ` set ls \<and> rc_odoo_product_id c \<notin> set dismissed \<and>
      0 < rc_unit_price c \<and>
      (\<exists>r\<in>set rules. rr_active r \<and> rr_suggested_product_id r = rc_odoo_product_id c \<and>
        rr_trigger_product_id r \<in> dl_product_id ` set ls) \<and>
      (\<exists>p. map_of products (rc_odoo_product_id c) = Some p \<and>
        rs_min_margin_pct rs \<le> dmul (margin_ratio (rc_unit_price c) (float_repr (rpr_standard_price p))) 100 \<and>
        (\<forall>m. pm = Some m \<longrightarrow>
          m \<le> dmul (margin_ratio (rc_unit_price c) (float_repr (rpr_standard_price p))) 100))"
    if c: "c \<in> set cs" for c
  proof -
    have "c \<in> set all" using c set_slice unfolding cs by fastforce
    then obtain i r where ir: "(i, r) \<in> set (best_rule_per_product rules')" "f (i, r) = Some c"
      by (auto simp: all_def List.map_filter_def)
    have r: "r \<in> set rules" "rule_applies (map dl_product_id ls) dismissed products r"
      "rr_suggested_product_id r = i"
      using best_rules(2)[OF ir(1)] by (auto simp: rules'_def)
    obtain p where p: "rc_odoo_product_id c = i" "map_of products i = Some p"
      "passes_floors (rs_min_margin_pct rs) pm (rc_unit_price c) (float_repr (rpr_standard_price p))"
      using candidate_Some ir(2) unfolding f_def by blast
    have appl: "rr_active r" "rr_trigger_product_id r \<in> dl_product_id ` set ls" "i \<notin> dl_product_id ` set ls"
      "i \<notin> set dismissed"
      using r(2,3) by (auto simp: rule_applies_def)
    have floors: "0 < rc_unit_price c"
      "rs_min_margin_pct rs \<le> dmul (margin_ratio (rc_unit_price c) (float_repr (rpr_standard_price p))) 100"
      "\<forall>m. pm = Some m \<longrightarrow> m \<le> dmul (margin_ratio (rc_unit_price c) (float_repr (rpr_standard_price p))) 100"
      using p(3) by (auto simp: passes_floors_def)
    show ?thesis using appl floors p(1,2) r(1,3) by auto
  qed
  have order: "sorted_wrt (\<ge>) (map rc_score cs)"
    using slice_props(3)[OF sorted_rank, of "rs_max rs" all] by (simp add: cs sorted_wrt_map)
  show ?thesis
    using sound order slice_props(1)[OF assms(2), of "rank_candidates all"]
      slice_props(2)[of rc_odoo_product_id "rank_candidates all" "rs_max rs"] d
    unfolding cs distinct_rank by blast
qed

section \<open>Mining counts orders\<close>

lemma count_in_update: "count_in (AList.update k v d) k' = (if k' = k then v else count_in d k')"
  by (simp add: count_in_def update_conv')

lemma count_in_Nil [simp]: "count_in [] k = 0"
  by (simp add: count_in_def)

lemma count_in_foldl:
  "count_in (foldl (\<lambda>d p. AList.update p (count_in d p + 1) d) d ps) k = count_in d k + int (count_list ps k)"
  by (induction ps arbitrary: d) (simp_all add: count_in_update)

lemma count_list_concat: "count_list (concat xss) x = sum_list (map (\<lambda>xs. count_list xs x) xss)"
  by (induction xss) (simp_all add: count_list_append)

lemma distinct_order_pairs: "distinct (order_pairs od)"
proof -
  have inner: "distinct (concat (map (\<lambda>b. if a \<noteq> b then [(a, b)] else []) ys))" if "distinct ys" for a :: odoo_id and ys
    using that by (induction ys) auto
  have "distinct (concat (map (\<lambda>a. concat (map (\<lambda>b. if a \<noteq> b then [(a, b)] else []) ys)) xs))"
    if "distinct xs" "distinct ys" for xs ys :: "odoo_id list"
    using that by (induction xs) (auto simp: inner)
  then show ?thesis by (simp add: order_pairs_def Let_def)
qed

lemma set_order_pairs:
  "(a, b) \<in> set (order_pairs od) \<longleftrightarrow> a \<noteq> b \<and> a \<in> set (mo_product_ids od) \<and> b \<in> set (mo_product_ids od)"
  by (auto simp: order_pairs_def Let_def)

lemma distinct_count_list: "distinct xs \<Longrightarrow> count_list xs x = (if x \<in> set xs then 1 else 0)"
  by (induction xs) auto

lemma count_order_pairs:
  "count_list (order_pairs od) (a, b) =
     (if a \<noteq> b \<and> {a, b} \<subseteq> set (mo_product_ids od) then 1 else 0)"
  using distinct_order_pairs[of od] set_order_pairs[of a b od]
  by (auto simp: distinct_count_list)

text \<open>The number of orders that contain both products.\<close>

definition co_orders :: "mined_order list \<Rightarrow> odoo_id \<Rightarrow> odoo_id \<Rightarrow> nat" where
  "co_orders orders a b = length (filter (\<lambda>od. {a, b} \<subseteq> set (mo_product_ids od)) orders)"

lemma count_pairs: "a \<noteq> b \<Longrightarrow> count_in (pair_counts orders) (a, b) = int (co_orders orders a b)"
proof -
  assume ab: "a \<noteq> b"
  have "sum_list (map (\<lambda>od. count_list (order_pairs od) (a, b)) orders) = co_orders orders a b"
    using ab by (induction orders) (auto simp: count_order_pairs co_orders_def)
  then show ?thesis
    by (simp add: pair_counts_def count_in_foldl count_list_concat comp_def)
qed

lemma pair_counts_shape:
  "distinct (map fst (pair_counts orders)) \<and>
   map_of (pair_counts orders) p = (if count_in (pair_counts orders) p = 0 then None
     else Some (count_in (pair_counts orders) p))"
proof -
  define good where "good d \<longleftrightarrow> distinct (map fst d) \<and> (\<forall>(k, c)\<in>set d. 0 < c)" for d :: "((odoo_id \<times> odoo_id) \<times> int) list"
  have pos: "0 \<le> count_in d k" if "good d" for d k
    using that by (auto simp: good_def count_in_def split: option.splits dest!: map_of_SomeD)
  have step: "good (AList.update k (count_in d k + 1) d)" if "good d" for d k
    using that pos[OF that, of k] by (auto simp: good_def distinct_update dest!: in_set_update)
  have "good (foldl (\<lambda>d p. AList.update p (count_in d p + 1) d) d ps)" if "good d" for d ps
    using that by (induction ps arbitrary: d) (simp_all add: step)
  from this[of "[]"] have "good (pair_counts orders)" by (simp add: pair_counts_def good_def)
  then show ?thesis by (auto simp: good_def count_in_def split: option.splits dest!: map_of_SomeD)
qed

lemma find_update_first:
  "(\<And>r. key (f r) = key r) \<Longrightarrow> find_row key k' (update_first (\<lambda>r. key r = k) f rs) =
     (if k' = k then map_option f (find_row key k rs) else find_row key k' rs)"
  by (induction rs) (auto simp: find_row_def)

lemma find_upsert:
  "find_row rule_key k (db_rules (upsert_rule c (p, n) db)) =
     (if k = (c, p) then Some (case find_row rule_key k (db_rules db) of
        Some r \<Rightarrow> r\<lparr>rr_co_purchase_count := n, rr_source := ''MINED''\<rparr>
      | None \<Rightarrow> \<lparr>rr_id = db_next_id db, rr_odoo_company_id = c, rr_trigger_product_id = fst p,
          rr_suggested_product_id = snd p, rr_co_purchase_count = n, rr_manual_boost = 0,
          rr_is_promoted_override = None, rr_source = ''MINED'', rr_active = True\<rparr>)
      else find_row rule_key k (db_rules db))"
proof -
  obtain a b where p: "p = (a, b)" by force
  have "rule_key (r\<lparr>rr_co_purchase_count := n, rr_source := ''MINED''\<rparr>) = rule_key r" for r
    by (simp add: rule_key_def)
  moreover have "rule_key \<lparr>rr_id = i, rr_odoo_company_id = c, rr_trigger_product_id = a,
      rr_suggested_product_id = b, rr_co_purchase_count = n, rr_manual_boost = 0,
      rr_is_promoted_override = None, rr_source = s, rr_active = True\<rparr> = (c, a, b)" for i s
    by (simp add: rule_key_def)
  ultimately show ?thesis
    by (cases "find_row rule_key (c, a, b) (db_rules db)")
       (auto simp: p upsert_rule_def find_update_first find_row_append split: option.splits)
qed

lemma fold_upsert:
  assumes "distinct (map fst d)"
  shows "map_option (\<lambda>r. (rr_co_purchase_count r, rr_source r))
      (find_row rule_key (c, p) (db_rules (fold (upsert_rule c) d db))) =
    (case map_of d p of Some n \<Rightarrow> Some (n, ''MINED'')
     | None \<Rightarrow> map_option (\<lambda>r. (rr_co_purchase_count r, rr_source r)) (find_row rule_key (c, p) (db_rules db)))"
  using assms
proof (induction d arbitrary: db)
  case (Cons e d)
  obtain q n where e: "e = (q, n)" by (cases e)
  have "map_of d q = None" using Cons.prems by (auto simp: e map_of_eq_None_iff)
  then show ?case using Cons by (auto simp: e find_upsert split: option.splits)
qed simp

text \<open>
  Mining learns exactly the co-purchases: afterwards the rule from one product to another
  carries the number of confirmed orders that contain both, counting each order once, and a pair
  that never occurs together keeps whatever rule it had.
\<close>

theorem mining_counts_orders:
  assumes "gw_get_confirmed_orders_for_mining gw (w_odoo w) = Inr orders" and "a \<noteq> b"
  shows "map_option (\<lambda>r. (rr_co_purchase_count r, rr_source r))
      (find_row rule_key (company, a, b) (db_rules (w_db (snd (mine_co_purchase_rules gw company w))))) =
    (if co_orders orders a b = 0
     then map_option (\<lambda>r. (rr_co_purchase_count r, rr_source r)) (find_row rule_key (company, a, b) (db_rules (w_db w)))
     else Some (int (co_orders orders a b), ''MINED''))"
  using fold_upsert[of "pair_counts orders" company "(a, b)" "w_db w"]
    pair_counts_shape[of orders "(a, b)"] count_pairs[OF assms(2), of orders]
  by (auto simp: mine_co_purchase_rules_def assms(1))

theorem mining_counts_orders_witness:
  "map_option (\<lambda>r. (rr_co_purchase_count r, rr_source r)) (find_row rule_key (1, 101, 109)
     (db_rules (w_db (snd (mine_co_purchase_rules fake_gateway 1 (small_world empty_database)))))) = Some (1, ''MINED'')"
proof -
  obtain orders where o: "gw_get_confirmed_orders_for_mining fake_gateway (w_odoo (small_world empty_database)) = Inr orders"
    and n: "co_orders orders 101 109 = 1"
    by (simp add: fake_gateway_def fake_get_confirmed_orders_for_mining_def co_orders_def)
  show ?thesis using mining_counts_orders[OF o, of 101 109 1] n by simp
qed

definition small_rule :: recommendation_rule where
  "small_rule = \<lparr>rr_id = 20, rr_odoo_company_id = 1, rr_trigger_product_id = 101,
     rr_suggested_product_id = 110, rr_co_purchase_count = 4, rr_manual_boost = 0,
     rr_is_promoted_override = None, rr_source = ''MINED'', rr_active = True\<rparr>"

theorem recommendations_sound_witness:
  "length (evaluate_recommendations default_rec_settings None (dc_lines (small_context None)) 100000
     66000 34 [small_rule] [(110, small_product 110 6000 True)] [(110, 20000)] []) \<le> 5"
proof -
  have "0 \<le> rs_max default_rec_settings" by (simp add: default_rec_settings_def)
  from recommendations_sound[OF refl this, of None "dc_lines (small_context None)" 100000 66000 34
      "[small_rule]" "[(110, small_product 110 6000 True)]" "[(110, 20000)]" "[]"]
  show ?thesis by (simp add: default_rec_settings_def)
qed

end
