(* ===== verification/Health_Score.thy ===== *)
theory Health_Score
  imports Enums Decimals
begin

text \<open>
  The health score of a deal, \<^verbatim>\<open>app/guardian/health.py\<close>: five penalties, each with its own cap,
  their capped sum and the band it falls in. The lemmas bound every penalty and order the score: a
  deal that is worse on some counts and better on none never looks healthier.
\<close>

definition TERMINAL_DEAL_STATUSES :: "DealStatus list" where
  "TERMINAL_DEAL_STATUSES = [CONFIRMED, IN_FULFILLMENT, FULFILLED, INVOICED, PAID, DealStatus.CANCELLED, DealStatus.EXPIRED]"

record health_detail =
  hd_stalled_days :: rat
  hd_stalled_threshold :: int
  hd_days_pending_approval :: rat
  hd_anomaly_severity :: "RiskSeverity option"
  hd_has_slipping_delivery :: bool
  hd_has_backorder :: bool
  hd_has_warehouse_split :: bool
  hd_open_negotiation_requests :: int

record health_calculation_result =
  hc_overall_score :: dec
  hc_health_status :: HealthStatus
  hc_stalled_score :: dec
  hc_approval_delay_score :: dec
  hc_discount_anomaly_score :: dec
  hc_delivery_risk_score :: dec
  hc_negotiation_score :: dec
  hc_detail :: health_detail

text \<open>The arguments of \<^verbatim>\<open>calculate_deal_health\<close> after the deal's status.\<close>

record health_input =
  hi_days_since_activity :: dec
  hi_stalled_threshold_days :: int
  hi_days_pending_approval :: dec
  hi_anomaly_severity :: "RiskSeverity option"
  hi_has_slipping_delivery :: bool
  hi_has_backorder :: bool
  hi_has_warehouse_split :: bool
  hi_open_negotiation_requests :: int

definition day_count :: "dec \<Rightarrow> dec" where
  "day_count d = max 0 (quantize d 2)"

definition stalled_penalty :: "DealStatus \<Rightarrow> dec \<Rightarrow> int \<Rightarrow> dec" where
  "stalled_penalty st days_activity thresh =
     (if st \<in> set TERMINAL_DEAL_STATUSES then 0
      else min 40 (max 0 (quantize (ddiv (dmul 40 days_activity) (dmul 2 (of_int thresh))) 2)))"

definition approval_delay_penalty :: "dec \<Rightarrow> dec" where
  "approval_delay_penalty days_pending = min 20 (max 0 (quantize (dmul 5 days_pending) 2))"

fun anomaly_penalty :: "RiskSeverity option \<Rightarrow> dec" where
  "anomaly_penalty (Some RiskSeverity.HIGH) = 25"
| "anomaly_penalty (Some RiskSeverity.MEDIUM) = 15"
| "anomaly_penalty (Some RiskSeverity.LOW) = 0"
| "anomaly_penalty None = 0"

definition delivery_penalty :: "bool \<Rightarrow> bool \<Rightarrow> bool \<Rightarrow> dec" where
  "delivery_penalty slipping backorder split =
     (if slipping then 30 else if backorder then 20 else if split then 10 else 0)"

definition negotiation_penalty :: "int \<Rightarrow> dec" where
  "negotiation_penalty open_reqs = min 15 (quantize (dmul 5 (of_int open_reqs)) 2)"

definition health_band :: "dec \<Rightarrow> HealthStatus" where
  "health_band score = (if score \<le> 30 then HEALTHY else if score \<le> 60 then WATCH else AT_RISK)"

definition calculate_deal_health :: "DealStatus \<Rightarrow> health_input \<Rightarrow> health_calculation_result" where
  "calculate_deal_health st h =
     (let thresh = max 1 (hi_stalled_threshold_days h);
          days_activity = day_count (hi_days_since_activity h);
          stalled = stalled_penalty st days_activity thresh;
          days_pending = day_count (hi_days_pending_approval h);
          approval_delay = approval_delay_penalty days_pending;
          anomaly = anomaly_penalty (hi_anomaly_severity h);
          delivery = delivery_penalty (hi_has_slipping_delivery h) (hi_has_backorder h)
                       (hi_has_warehouse_split h);
          open_reqs = max 0 (hi_open_negotiation_requests h);
          negotiation = negotiation_penalty open_reqs;
          raw_total = dadd (dadd (dadd (dadd stalled approval_delay) anomaly) delivery) negotiation;
          overall = min 100 (quantize raw_total 2) in
      \<lparr>hc_overall_score = overall, hc_health_status = health_band overall,
       hc_stalled_score = stalled, hc_approval_delay_score = approval_delay,
       hc_discount_anomaly_score = anomaly, hc_delivery_risk_score = delivery,
       hc_negotiation_score = negotiation,
       hc_detail = \<lparr>hd_stalled_days = fl64 days_activity, hd_stalled_threshold = thresh,
         hd_days_pending_approval = fl64 days_pending,
         hd_anomaly_severity = hi_anomaly_severity h,
         hd_has_slipping_delivery = hi_has_slipping_delivery h,
         hd_has_backorder = hi_has_backorder h,
         hd_has_warehouse_split = hi_has_warehouse_split h,
         hd_open_negotiation_requests = open_reqs\<rparr>\<rparr>)"

section \<open>The penalties\<close>

lemma stalled_penalty_bounds: "0 \<le> stalled_penalty st d t \<and> stalled_penalty st d t \<le> 40"
  by (simp add: stalled_penalty_def)

lemma approval_delay_bounds: "0 \<le> approval_delay_penalty d \<and> approval_delay_penalty d \<le> 20"
  by (simp add: approval_delay_penalty_def)

lemma anomaly_bounds: "0 \<le> anomaly_penalty s \<and> anomaly_penalty s \<le> 25"
  by (cases s rule: anomaly_penalty.cases) simp_all

lemma delivery_bounds: "0 \<le> delivery_penalty a b c \<and> delivery_penalty a b c \<le> 30"
  by (simp add: delivery_penalty_def)

lemma negotiation_bounds: "0 \<le> n \<Longrightarrow> 0 \<le> negotiation_penalty n \<and> negotiation_penalty n \<le> 15"
  by (simp add: negotiation_penalty_def dec_nonneg)

lemma penalties_cents [cents_intros]:
  "cents (stalled_penalty st d t)" "cents (approval_delay_penalty d)" "cents (anomaly_penalty s)"
  "cents (delivery_penalty a b c)" "cents (negotiation_penalty n)"
  by (simp_all add: stalled_penalty_def approval_delay_penalty_def delivery_penalty_def
      negotiation_penalty_def cents_intros) (cases s rule: anomaly_penalty.cases; simp add: cents_intros)

lemma dadd_small: "cents x \<Longrightarrow> cents y \<Longrightarrow> 0 \<le> x \<Longrightarrow> 0 \<le> y \<Longrightarrow> x + y < 1000 \<Longrightarrow> dadd x y = x + y"
  by (simp add: dadd_def ctx28_cents cents_add)

lemma stalled_penalty_mono:
  assumes "0 \<le> d" and "d \<le> d'" and "1 \<le> t"
  shows "stalled_penalty st d t \<le> stalled_penalty st d' t"
proof -
  have "0 < dmul 2 (of_int t)" using assms(3) by (simp add: dmul_def ctx28_pos)
  then have "ddiv (dmul 40 d) (dmul 2 (of_int t)) \<le> ddiv (dmul 40 d') (dmul 2 (of_int t))"
    using assms by (intro ddiv_mono dmul_mono) simp_all
  then show ?thesis unfolding stalled_penalty_def
    by (cases "st \<in> set TERMINAL_DEAL_STATUSES")
       (simp_all only: if_True if_False order_refl, intro min.mono max.mono quantize_mono order_refl)
qed

lemma approval_delay_mono: "0 \<le> d \<Longrightarrow> d \<le> d' \<Longrightarrow> approval_delay_penalty d \<le> approval_delay_penalty d'"
  unfolding approval_delay_penalty_def by (intro min.mono max.mono quantize_mono dmul_mono) simp_all

lemma negotiation_mono: "0 \<le> n \<Longrightarrow> n \<le> n' \<Longrightarrow> negotiation_penalty n \<le> negotiation_penalty n'"
  unfolding negotiation_penalty_def by (intro min.mono quantize_mono dmul_mono) simp_all

lemma day_count_nonneg: "0 \<le> day_count d"
  by (simp add: day_count_def)

lemma day_count_mono: "d \<le> d' \<Longrightarrow> day_count d \<le> day_count d'"
  unfolding day_count_def by (intro max.mono quantize_mono) simp_all

lemma health_band_mono: "s \<le> s' \<Longrightarrow> health_band s \<le> health_band s'"
  by (auto simp: health_band_def less_eq_HealthStatus_def)

section \<open>The score\<close>

lemma health_status_band:
  "hc_health_status (calculate_deal_health st h) = health_band (hc_overall_score (calculate_deal_health st h))"
  by (simp add: calculate_deal_health_def Let_def)

text \<open>The five penalties add up exactly; only the cap can make the score differ from their sum.\<close>

lemma health_overall:
  "hc_overall_score (calculate_deal_health st h) =
     min 100 (hc_stalled_score (calculate_deal_health st h) +
       hc_approval_delay_score (calculate_deal_health st h) +
       hc_discount_anomaly_score (calculate_deal_health st h) +
       hc_delivery_risk_score (calculate_deal_health st h) +
       hc_negotiation_score (calculate_deal_health st h))"
proof -
  define a b c d e where "a = stalled_penalty st (day_count (hi_days_since_activity h)) (max 1 (hi_stalled_threshold_days h))"
    and "b = approval_delay_penalty (day_count (hi_days_pending_approval h))"
    and "c = anomaly_penalty (hi_anomaly_severity h)"
    and "d = delivery_penalty (hi_has_slipping_delivery h) (hi_has_backorder h) (hi_has_warehouse_split h)"
    and "e = negotiation_penalty (max 0 (hi_open_negotiation_requests h))"
  have bnd: "0 \<le> a" "a \<le> 40" "0 \<le> b" "b \<le> 20" "0 \<le> c" "c \<le> 25" "0 \<le> d" "d \<le> 30" "0 \<le> e" "e \<le> 15"
    using stalled_penalty_bounds approval_delay_bounds anomaly_bounds delivery_bounds negotiation_bounds
    by (simp_all add: a_def b_def c_def d_def e_def)
  have c2: "cents a" "cents b" "cents c" "cents d" "cents e"
    by (simp_all add: a_def b_def c_def d_def e_def cents_intros)
  have "dadd (dadd (dadd (dadd a b) c) d) e = a + b + c + d + e"
    using bnd c2 by (simp add: dadd_small cents_add)
  then show ?thesis using c2
    by (simp add: calculate_deal_health_def Let_def a_def[symmetric] b_def[symmetric] c_def[symmetric]
        d_def[symmetric] e_def[symmetric] cents_add)
qed

text \<open>
  The health score is the exact sum of its five penalties, capped at one hundred; each penalty
  stays between zero and its own cap, a closed deal is never penalised for being idle, and the
  status is the band the score falls in.
\<close>

theorem health_score_bounds:
  assumes "r = calculate_deal_health st h"
  shows "hc_overall_score r = min 100 (hc_stalled_score r + hc_approval_delay_score r +
      hc_discount_anomaly_score r + hc_delivery_risk_score r + hc_negotiation_score r) \<and>
    0 \<le> hc_overall_score r \<and> 0 \<le> hc_stalled_score r \<and> hc_stalled_score r \<le> 40 \<and>
    0 \<le> hc_approval_delay_score r \<and> hc_approval_delay_score r \<le> 20 \<and>
    0 \<le> hc_discount_anomaly_score r \<and> hc_discount_anomaly_score r \<le> 25 \<and>
    0 \<le> hc_delivery_risk_score r \<and> hc_delivery_risk_score r \<le> 30 \<and>
    0 \<le> hc_negotiation_score r \<and> hc_negotiation_score r \<le> 15 \<and>
    (st \<notin> {DRAFT, SENT, UNDER_NEGOTIATION} \<longrightarrow> hc_stalled_score r = 0) \<and>
    (hc_health_status r = AT_RISK \<longleftrightarrow> 60 < hc_overall_score r) \<and>
    (hc_health_status r = HEALTHY \<longleftrightarrow> hc_overall_score r \<le> 30)"
proof -
  have parts: "0 \<le> hc_stalled_score r" "hc_stalled_score r \<le> 40" "0 \<le> hc_approval_delay_score r"
    "hc_approval_delay_score r \<le> 20" "0 \<le> hc_discount_anomaly_score r" "hc_discount_anomaly_score r \<le> 25"
    "0 \<le> hc_delivery_risk_score r" "hc_delivery_risk_score r \<le> 30" "0 \<le> hc_negotiation_score r"
    "hc_negotiation_score r \<le> 15"
    using stalled_penalty_bounds approval_delay_bounds anomaly_bounds delivery_bounds negotiation_bounds
    by (simp_all add: assms calculate_deal_health_def Let_def)
  have closed: "hc_stalled_score r = 0" if "st \<notin> {DRAFT, SENT, UNDER_NEGOTIATION}"
    using that by (cases st) (simp_all add: assms calculate_deal_health_def Let_def stalled_penalty_def TERMINAL_DEAL_STATUSES_def)
  have band: "hc_health_status r = health_band (hc_overall_score r)"
    unfolding assms by (rule health_status_band)
  have total: "hc_overall_score r = min 100 (hc_stalled_score r + hc_approval_delay_score r +
      hc_discount_anomaly_score r + hc_delivery_risk_score r + hc_negotiation_score r)"
    unfolding assms by (rule health_overall)
  have bands: "hc_health_status r = AT_RISK \<longleftrightarrow> 60 < hc_overall_score r"
    "hc_health_status r = HEALTHY \<longleftrightarrow> hc_overall_score r \<le> 30"
    by (simp_all add: band health_band_def)
  have nonneg: "0 \<le> hc_overall_score r"
    unfolding total by (intro min.boundedI add_nonneg_nonneg parts) simp
  show ?thesis by (intro conjI impI; (rule total parts bands nonneg | erule closed))
qed

definition worst_case :: health_input where
  "worst_case = \<lparr>hi_days_since_activity = 100, hi_stalled_threshold_days = 7,
     hi_days_pending_approval = 100, hi_anomaly_severity = Some RiskSeverity.HIGH,
     hi_has_slipping_delivery = True, hi_has_backorder = True, hi_has_warehouse_split = True,
     hi_open_negotiation_requests = 9\<rparr>"

theorem health_score_bounds_witness:
  "hc_overall_score (calculate_deal_health SENT worst_case) \<le> 100 \<and>
   hc_stalled_score (calculate_deal_health PAID worst_case) = 0"
  using health_score_bounds[OF refl, of SENT worst_case] health_score_bounds[OF refl, of PAID worst_case]
  by simp

text \<open>
  Worse never looks healthier: with the same status and threshold, more idle days, a longer
  wait for approval, a more severe anomaly, a worse delivery situation or more open negotiations
  never lower the score and never improve the status.
\<close>

theorem health_score_monotone:
  assumes "hi_stalled_threshold_days h' = hi_stalled_threshold_days h"
    and "hi_days_since_activity h \<le> hi_days_since_activity h'"
    and "hi_days_pending_approval h \<le> hi_days_pending_approval h'"
    and "anomaly_penalty (hi_anomaly_severity h) \<le> anomaly_penalty (hi_anomaly_severity h')"
    and "delivery_penalty (hi_has_slipping_delivery h) (hi_has_backorder h) (hi_has_warehouse_split h) \<le>
         delivery_penalty (hi_has_slipping_delivery h') (hi_has_backorder h') (hi_has_warehouse_split h')"
    and "hi_open_negotiation_requests h \<le> hi_open_negotiation_requests h'"
  shows "hc_overall_score (calculate_deal_health st h) \<le> hc_overall_score (calculate_deal_health st h') \<and>
         hc_health_status (calculate_deal_health st h) \<le> hc_health_status (calculate_deal_health st h')"
proof -
  have "hc_overall_score (calculate_deal_health st h) \<le> hc_overall_score (calculate_deal_health st h')"
    unfolding calculate_deal_health_def Let_def health_calculation_result.simps assms(1)
    by (intro min.mono quantize_mono dadd_mono stalled_penalty_mono approval_delay_mono negotiation_mono
        day_count_mono assms) (use assms(6) in \<open>simp_all add: day_count_nonneg\<close>)
  with health_band_mono[OF this] show ?thesis by (simp only: health_status_band simp_thms)
qed

theorem health_score_monotone_witness:
  "hc_overall_score (calculate_deal_health SENT (worst_case\<lparr>hi_days_since_activity := 1\<rparr>)) \<le>
   hc_overall_score (calculate_deal_health SENT worst_case)"
proof -
  have "hc_overall_score (calculate_deal_health SENT (worst_case\<lparr>hi_days_since_activity := 1\<rparr>)) \<le>
      hc_overall_score (calculate_deal_health SENT worst_case) \<and>
    hc_health_status (calculate_deal_health SENT (worst_case\<lparr>hi_days_since_activity := 1\<rparr>)) \<le>
      hc_health_status (calculate_deal_health SENT worst_case)"
    by (rule health_score_monotone) (simp_all add: worst_case_def)
  then show ?thesis by blast
qed

end
