(* ===== verification/Next_Action.thy ===== *)
theory Next_Action
  imports Enums Decimals
begin

text \<open>
  The next best action of a deal, \<^verbatim>\<open>app/guardian/next_action.py\<close>: thirteen rules tried in order, the
  first that matches wins. The titles and explanations people read are not modelled; the action,
  its priority, its payload and the endpoint it links to are.
\<close>

record rec_summary =
  rs_id :: uuid
  rs_product_id :: odoo_id
  rs_product_name :: string
  rs_score :: rat
  rs_projected_margin_delta :: rat

datatype nba_payload =
    ApprovalPayload ApprovalState string
  | DealPayload "uuid option"
  | OpenRequestsPayload int
  | DiscountPayload "odoo_id option" "string option" rat rat
  | MarginPayload rat "rec_summary option"
  | PlanPayload FulfillmentPlanStatus
  | StatePayload ApprovalState
  | IdlePayload int int
  | AcceptedPayload
  | RecommendationPayload rec_summary
  | NoPayload

text \<open>A link: a fixed path, or a path under the deal.\<close>

datatype endpoint = Path string | DealPath uuid string

definition deal_path :: "uuid option \<Rightarrow> string \<Rightarrow> string \<Rightarrow> endpoint option" where
  "deal_path i suffix fallback =
     Some (case i of Some u \<Rightarrow> DealPath u suffix | None \<Rightarrow> Path fallback)"

record next_best_action =
  nba_type :: NextBestActionType
  nba_priority :: string
  nba_payload :: nba_payload
  nba_cta_endpoint :: "endpoint option"

record nba_input =
  ni_deal_id :: "uuid option"
  ni_approval_state :: ApprovalState
  ni_deal_status :: DealStatus
  ni_just_invalidated :: bool
  ni_open_negotiation_requests :: int
  ni_max_overage :: dec
  ni_worst_line_id :: "odoo_id option"
  ni_worst_line_name :: "string option"
  ni_worst_line_ceiling :: "dec option"
  ni_margin_exposure :: dec
  ni_top_active_recommendation :: "rec_summary option"
  ni_fulfillment_plan_status :: "FulfillmentPlanStatus option"
  ni_has_consolidatable_backorder :: bool
  ni_days_since_activity :: int
  ni_stalled_days :: int
  ni_customer_confirmed_pending :: bool
  ni_user_role :: "Role option"

definition nba :: "NextBestActionType \<Rightarrow> string \<Rightarrow> nba_payload \<Rightarrow> endpoint option \<Rightarrow> next_best_action" where
  "nba ty prio payload cta =
     \<lparr>nba_type = ty, nba_priority = prio, nba_payload = payload, nba_cta_endpoint = cta\<rparr>"

definition cleared :: "ApprovalState \<Rightarrow> bool" where
  "cleared s = (s \<in> {ApprovalState.APPROVED, EVALUATED_NO_APPROVAL})"

definition determine_next_best_action :: "nba_input \<Rightarrow> next_best_action" where
  "determine_next_best_action n =
     (let i = ni_deal_id n; state = ni_approval_state n in
      if state = PENDING_FINANCE then
        nba (if ni_user_role n \<in> {Some Role.FINANCE, Some ADMIN} then AWAITING_APPROVER
             else FINANCE_APPROVAL_REQUIRED)
          ''HIGH'' (ApprovalPayload state ''FINANCE'') (Some (Path ''/approvals/inbox''))
      else if state = PENDING_MANAGER then
        nba (if ni_user_role n \<in> {Some SALES_MANAGER, Some ADMIN} then AWAITING_APPROVER
             else MANAGER_APPROVAL_REQUIRED)
          ''HIGH'' (ApprovalPayload state ''SALES_MANAGER'') (Some (Path ''/approvals/inbox''))
      else if ni_just_invalidated n \<or> state = ApprovalState.INVALIDATED then
        nba REAPPROVAL_REQUIRED ''HIGH'' (DealPayload i) (deal_path i ''/evaluate'' ''/deals'')
      else if 0 < ni_open_negotiation_requests n then
        nba RESPOND_TO_CUSTOMER ''HIGH'' (OpenRequestsPayload (ni_open_negotiation_requests n))
          (deal_path i ''/negotiations'' ''/negotiations'')
      else if state \<in> {ApprovalState.RETURNED, ApprovalState.REJECTED} \<and> 0 < ni_max_overage n then
        nba REDUCE_DISCOUNT ''HIGH''
          (DiscountPayload (ni_worst_line_id n) (ni_worst_line_name n)
            (case ni_worst_line_ceiling n of Some c \<Rightarrow> fl64 c | None \<Rightarrow> 0) (fl64 (ni_max_overage n)))
          (deal_path i '''' ''/deals'')
      else if 0 < ni_margin_exposure n then
        nba RESTORE_MARGIN ''MEDIUM''
          (MarginPayload (fl64 (ni_margin_exposure n)) (ni_top_active_recommendation n))
          (deal_path i ''/recommendations'' ''/recommendations'')
      else if ni_fulfillment_plan_status n = Some PROPOSED \<and> ni_deal_status n = CONFIRMED then
        nba ACCEPT_FULFILLMENT_PLAN ''MEDIUM'' (PlanPayload PROPOSED)
          (deal_path i ''/fulfillment/accept'' ''/fulfillment'')
      else if ni_has_consolidatable_backorder n then
        nba CONSOLIDATE_BACKORDER ''MEDIUM'' NoPayload
          (deal_path i ''/fulfillment/consolidate'' ''/fulfillment'')
      else if ni_deal_status n = DRAFT \<and> cleared state then
        nba SEND_TO_CUSTOMER ''MEDIUM'' (StatePayload state) (deal_path i ''/send'' ''/deals'')
      else if ni_deal_status n = SENT \<and> ni_stalled_days n \<le> ni_days_since_activity n then
        nba FOLLOW_UP_CUSTOMER ''MEDIUM''
          (IdlePayload (ni_days_since_activity n) (ni_stalled_days n)) (deal_path i '''' ''/deals'')
      else if ni_customer_confirmed_pending n \<and> cleared state then
        nba CONFIRM_ORDER ''HIGH'' AcceptedPayload (deal_path i ''/confirm'' ''/deals'')
      else case ni_top_active_recommendation n of
        Some r \<Rightarrow> nba ADD_RECOMMENDATION ''LOW'' (RecommendationPayload r)
                    (deal_path i ''/recommendations'' ''/recommendations'')
      | None \<Rightarrow> nba NextBestActionType.NONE ''LOW'' NoPayload None)"

section \<open>What the action guarantees\<close>

text \<open>The rules as a table: what each action presupposes of the deal, ranked by the rule's place.\<close>

fun action_applies :: "NextBestActionType \<Rightarrow> nba_input \<Rightarrow> bool" where
  "action_applies FINANCE_APPROVAL_REQUIRED n = (ni_approval_state n = PENDING_FINANCE)"
| "action_applies MANAGER_APPROVAL_REQUIRED n = (ni_approval_state n = PENDING_MANAGER)"
| "action_applies AWAITING_APPROVER n =
     (ni_approval_state n = PENDING_FINANCE \<and> ni_user_role n \<in> {Some Role.FINANCE, Some ADMIN}
      \<or> ni_approval_state n = PENDING_MANAGER \<and> ni_user_role n \<in> {Some SALES_MANAGER, Some ADMIN})"
| "action_applies REAPPROVAL_REQUIRED n =
     (ni_just_invalidated n \<or> ni_approval_state n = ApprovalState.INVALIDATED)"
| "action_applies RESPOND_TO_CUSTOMER n = (0 < ni_open_negotiation_requests n)"
| "action_applies REDUCE_DISCOUNT n =
     (ni_approval_state n \<in> {ApprovalState.RETURNED, ApprovalState.REJECTED} \<and> 0 < ni_max_overage n)"
| "action_applies RESTORE_MARGIN n = (0 < ni_margin_exposure n)"
| "action_applies ACCEPT_FULFILLMENT_PLAN n =
     (ni_fulfillment_plan_status n = Some PROPOSED \<and> ni_deal_status n = CONFIRMED)"
| "action_applies CONSOLIDATE_BACKORDER n = ni_has_consolidatable_backorder n"
| "action_applies SEND_TO_CUSTOMER n = (ni_deal_status n = DRAFT \<and> cleared (ni_approval_state n))"
| "action_applies FOLLOW_UP_CUSTOMER n =
     (ni_deal_status n = SENT \<and> ni_stalled_days n \<le> ni_days_since_activity n)"
| "action_applies CONFIRM_ORDER n =
     (ni_customer_confirmed_pending n \<and> cleared (ni_approval_state n))"
| "action_applies ADD_RECOMMENDATION n = (ni_top_active_recommendation n \<noteq> None)"
| "action_applies NextBestActionType.NONE n = True"

fun action_rank :: "NextBestActionType \<Rightarrow> nat" where
  "action_rank FINANCE_APPROVAL_REQUIRED = 2"
| "action_rank MANAGER_APPROVAL_REQUIRED = 2"
| "action_rank AWAITING_APPROVER = 1"
| "action_rank REAPPROVAL_REQUIRED = 3"
| "action_rank RESPOND_TO_CUSTOMER = 4"
| "action_rank REDUCE_DISCOUNT = 5"
| "action_rank RESTORE_MARGIN = 6"
| "action_rank ACCEPT_FULFILLMENT_PLAN = 7"
| "action_rank CONSOLIDATE_BACKORDER = 8"
| "action_rank SEND_TO_CUSTOMER = 9"
| "action_rank FOLLOW_UP_CUSTOMER = 10"
| "action_rank CONFIRM_ORDER = 11"
| "action_rank ADD_RECOMMENDATION = 12"
| "action_rank NextBestActionType.NONE = 13"

lemma nba_simps [simp]:
  "nba_type (nba t p l c) = t" "nba_priority (nba t p l c) = p" "nba_cta_endpoint (nba t p l c) = c"
  by (simp_all add: nba_def)

text \<open>
  The action shown is the one of lowest rank that applies: it applies to the deal, and no
  action ranked before it does. In particular a deal waiting for an approver never shows a sales
  action, and a quote is offered for sending only when it needs no further approval.
\<close>

theorem next_action_first_rule:
  shows "action_applies (nba_type (determine_next_best_action n)) n \<and>
    (\<forall>a. action_applies a n \<longrightarrow> action_rank (nba_type (determine_next_best_action n)) \<le> action_rank a) \<and>
    (nba_type (determine_next_best_action n) \<in> {SEND_TO_CUSTOMER, CONFIRM_ORDER} \<longrightarrow>
       ni_approval_state n \<in> {ApprovalState.APPROVED, EVALUATED_NO_APPROVAL})"
proof -
  let ?t = "nba_type (determine_next_best_action n)"
  have applies: "action_applies ?t n"
    by (simp add: determine_next_best_action_def Let_def split: option.splits)
  have least: "action_rank ?t \<le> action_rank a" if "action_applies a n" for a
    using that
    by (cases a; cases "ni_top_active_recommendation n"; cases "ni_approval_state n")
       (simp_all add: determine_next_best_action_def Let_def)
  have "ni_approval_state n \<in> {ApprovalState.APPROVED, EVALUATED_NO_APPROVAL}"
    if "?t \<in> {SEND_TO_CUSTOMER, CONFIRM_ORDER}"
    using applies that by (elim insertE) (simp_all add: cleared_def)
  with applies least show ?thesis by blast
qed

definition idle_quote :: nba_input where
  "idle_quote = \<lparr>ni_deal_id = Some 6, ni_approval_state = EVALUATED_NO_APPROVAL, ni_deal_status = SENT,
     ni_just_invalidated = False, ni_open_negotiation_requests = 0, ni_max_overage = 0,
     ni_worst_line_id = None, ni_worst_line_name = None, ni_worst_line_ceiling = None,
     ni_margin_exposure = 0, ni_top_active_recommendation = None, ni_fulfillment_plan_status = None,
     ni_has_consolidatable_backorder = False, ni_days_since_activity = 8, ni_stalled_days = 7,
     ni_customer_confirmed_pending = True, ni_user_role = None\<rparr>"

theorem next_action_first_rule_witness:
  "action_rank (nba_type (determine_next_best_action idle_quote)) \<le> 10 \<and>
   nba_type (determine_next_best_action idle_quote) = FOLLOW_UP_CUSTOMER"
proof -
  have "action_applies FOLLOW_UP_CUSTOMER idle_quote" by (simp add: idle_quote_def)
  then have "action_rank (nba_type (determine_next_best_action idle_quote)) \<le> 10"
    using next_action_first_rule[of idle_quote] by fastforce
  then show ?thesis by (simp add: determine_next_best_action_def Let_def idle_quote_def cleared_def)
qed

end
