(* ===== verification/Health_Service.thy ===== *)
theory Health_Service
  imports Recommend Health_Score Next_Action
begin

text \<open>
  Deal health in operation, \<^verbatim>\<open>app/services/health_service.py\<close>: the discount baseline of a
  salesperson, the three detectors that raise and clear alerts (stalled deals, discount anomalies,
  delivery slippage), the recomputation of a deal's health and next best action, the control tower
  and the actions on an alert. Alert titles and details are not modelled.

  The lemmas: at most one alert of a kind is open per deal, whatever runs; the anomaly alert of a
  deal is open exactly when its discount is anomalous; and a stalled-deal alert clears itself on the
  next run, because raising it counts as activity.
\<close>

section \<open>Time\<close>

text \<open>
  \<^verbatim>\<open>(now - t).total_seconds() / 86400.0\<close>, from the microseconds between the two instants.
\<close>

definition elapsed_days :: "instant \<Rightarrow> instant \<Rightarrow> rat" where
  "elapsed_days now t = fdiv (fdiv (of_int (now - t)) (10 ^ 6)) 86400"

definition idle_days :: "instant \<Rightarrow> instant \<Rightarrow> dec" where
  "idle_days now t = quantize (float_repr (max 0 (elapsed_days now t))) 2"

section \<open>The discount baseline\<close>

text \<open>\<^verbatim>\<open>math.sqrt\<close>: the square root to 160 binary places, the rest kept as a sticky bit, rounded.\<close>

function isqrt :: "int \<Rightarrow> int" where
  "isqrt n = (if n \<le> 0 then 0 else
     let r = 2 * isqrt (n div 4) in if (r + 1) * (r + 1) \<le> n then r + 1 else r)"
  by pat_completeness auto
termination by (relation "measure nat") auto

declare isqrt.simps [simp del]

definition fsqrt :: "rat \<Rightarrow> rat" where
  "fsqrt x = (let y = x * 4 ^ 160; n = \<lfloor>y\<rfloor>; s = isqrt n in
     fl64 (of_int (2 * s + (if of_int (s * s) = y then 0 else 1)) / 2 ^ 161))"

lemma isqrt_bounds: "0 \<le> n \<Longrightarrow> 0 \<le> isqrt n \<and> isqrt n * isqrt n \<le> n \<and> n < (isqrt n + 1) * (isqrt n + 1)"
proof (induction n rule: isqrt.induct)
  case (1 n)
  show ?case
  proof (cases "n = 0")
    case True then show ?thesis by (simp add: isqrt.simps)
  next
    case False
    define r where "r = isqrt (n div 4)"
    have IH: "0 \<le> r" "r * r \<le> n div 4" "n div 4 < (r + 1) * (r + 1)"
      using "1.IH" "1.prems" False by (simp_all add: r_def)
    have n: "n = 4 * (n div 4) + n mod 4" "0 \<le> n mod 4" "n mod 4 < 4" by simp_all
    have lo: "(2 * r) * (2 * r) \<le> n" using IH(2) n by linarith
    have "n div 4 + 1 \<le> (r + 1) * (r + 1)" using IH(3) by simp
    then have "n < 4 * ((r + 1) * (r + 1))" using n by linarith
    then have hi: "n < (2 * r + 2) * (2 * r + 2)" by (simp add: algebra_simps)
    have "isqrt n = (if (2 * r + 1) * (2 * r + 1) \<le> n then 2 * r + 1 else 2 * r)"
      using "1.prems" False by (subst isqrt.simps) (simp add: r_def Let_def)
    then show ?thesis using lo hi IH(1) by (auto simp: add.commute)
  qed
qed

definition eligible_statuses :: "DealStatus list" where
  "eligible_statuses = [SENT, UNDER_NEGOTIATION, CONFIRMED, IN_FULFILLMENT, FULFILLED, INVOICED, PAID]"

text \<open>The most recent eligible deals of a rep, a team or a company.\<close>

definition recent_deals :: "(deal \<Rightarrow> bool) \<Rightarrow> nat \<Rightarrow> database \<Rightarrow> deal list" where
  "recent_deals P window db =
     take window (newest_first d_last_activity_at
       (filter (\<lambda>d. P d \<and> d_status d \<in> set eligible_statuses) (db_deals db)))"

definition discount_sample ::
    "odoo_id \<Rightarrow> odoo_id option \<Rightarrow> odoo_id \<Rightarrow> nat \<Rightarrow> nat \<Rightarrow> database \<Rightarrow> string \<times> deal list" where
  "discount_sample user team company window min_sample db =
     (let rep = recent_deals (\<lambda>d. d_owner_odoo_user_id d = user) window db in
      if length rep < min_sample \<and> team \<noteq> None then
        let team_deals = recent_deals (\<lambda>d. d_sales_team_odoo_id d = team) window db in
        if min_sample \<le> length team_deals then (''TEAM'', team_deals)
        else (''COMPANY'', recent_deals (\<lambda>d. d_odoo_company_id d = company) window db)
      else (''REP'', rep))"

text \<open>A deal's weighted discount, from the lines of its current assessment when it has any.\<close>

definition snapshot_totals :: "line_snapshot_item list \<Rightarrow> dec \<times> dec" where
  "snapshot_totals items = foldl (\<lambda>(total_list, weighted_sum) l.
     let list_val = dmul (float_repr (ls_price_unit l)) (float_repr (ls_qty l)) in
     (dadd total_list list_val, dadd weighted_sum (dmul list_val (float_repr (ls_discount_pct l))))) (0, 0) items"

definition weighted_discount :: "database \<Rightarrow> deal \<Rightarrow> dec" where
  "weighted_discount db d =
     (case Option.bind (d_current_assessment_id d) (\<lambda>i. find_assessment i db) of
        None \<Rightarrow> d_order_discount_pct d
      | Some a \<Rightarrow>
          if ra_line_snapshot a = [] then d_order_discount_pct d
          else (case snapshot_totals (ra_line_snapshot a) of (total_list, weighted_sum) \<Rightarrow>
            if 0 < total_list then quantize (ddiv weighted_sum total_list) 2
            else d_order_discount_pct d))"

definition mean_of :: "dec list \<Rightarrow> dec" where
  "mean_of xs = quantize (ddiv (dsum xs) (of_nat (length xs))) 2"

definition stddev_of :: "dec \<Rightarrow> dec list \<Rightarrow> dec" where
  "stddev_of avg xs =
     (if 1 < length xs
      then quantize (float_repr (fsqrt (fl64
        (ddiv (dsum (map (\<lambda>x. ctx28 ((dsub x avg)\<^sup>2)) xs)) (of_nat (length xs - 1)))))) 2
      else 0)"

record baseline =
  bl_avg :: dec
  bl_stddev :: dec
  bl_source :: string
  bl_sample_size :: nat

definition store_rep_stats :: "odoo_id \<Rightarrow> baseline \<Rightarrow> instant \<Rightarrow> database \<Rightarrow> database" where
  "store_rep_stats user b now db =
     (let row = \<lparr>rds_odoo_user_id = user, rds_sample_size = int (bl_sample_size b),
            rds_avg_weighted_discount_pct = bl_avg b, rds_stddev = bl_stddev b,
            rds_baseline_source = bl_source b, rds_computed_at = now\<rparr> in
      case find_row rds_odoo_user_id user (db_rep_stats db) of
        None \<Rightarrow> db\<lparr>db_rep_stats := db_rep_stats db @ [row]\<rparr>
      | Some _ \<Rightarrow> db\<lparr>db_rep_stats := update_row rds_odoo_user_id user (\<lambda>_. row) (db_rep_stats db)\<rparr>)"

definition calculate_rep_discount_baseline ::
    "odoo_id \<Rightarrow> odoo_id option \<Rightarrow> odoo_id \<Rightarrow> nat \<Rightarrow> nat \<Rightarrow> instant \<Rightarrow> database \<Rightarrow> baseline \<times> database" where
  "calculate_rep_discount_baseline user team company window min_sample now db =
     (case discount_sample user team company window min_sample db of (source, sample) \<Rightarrow>
        if sample = [] then (\<lparr>bl_avg = 0, bl_stddev = 0, bl_source = source, bl_sample_size = 0\<rparr>, db)
        else let discounts = map (weighted_discount db) sample; avg = mean_of discounts;
                 b = \<lparr>bl_avg = avg, bl_stddev = stddev_of avg discounts, bl_source = source,
                      bl_sample_size = length sample\<rparr> in
          (b, store_rep_stats user b now db))"

section \<open>Alerts\<close>

definition is_open_alert :: "uuid \<Rightarrow> AlertType \<Rightarrow> deal_alert \<Rightarrow> bool" where
  "is_open_alert i ty a = (al_deal_id a = i \<and> al_type a = ty \<and> al_status a = AlertStatus.OPEN)"

definition alert_event :: "AuditEventType \<Rightarrow> uuid \<Rightarrow> uuid \<Rightarrow> instant \<Rightarrow> database \<Rightarrow> database" where
  "alert_event ev aid i now =
     record_audit_event ev ''deal_alert'' (Some (int aid)) (Some i) ''SYSTEM'' None None now"

definition resolved :: "instant \<Rightarrow> deal_alert \<Rightarrow> deal_alert" where
  "resolved now a = a\<lparr>al_status := AlertStatus.RESOLVED, al_resolved_at := Some now\<rparr>"

text \<open>The upsert of each detector: the open alert of that kind gets the new severity, or one is raised.\<close>

definition raise_alert :: "uuid \<Rightarrow> AlertType \<Rightarrow> RiskSeverity \<Rightarrow> instant \<Rightarrow> database \<Rightarrow> uuid \<times> database" where
  "raise_alert i ty sev now db =
     (case find (is_open_alert i ty) (db_alerts db) of
        Some a \<Rightarrow> (al_id a, db\<lparr>db_alerts :=
          update_first (is_open_alert i ty) (\<lambda>a. a\<lparr>al_severity := sev\<rparr>) (db_alerts db)\<rparr>)
      | None \<Rightarrow>
          let aid = db_next_id db in
          (aid, alert_event ALERT_RAISED aid i now (db\<lparr>db_alerts := db_alerts db @
             [\<lparr>al_id = aid, al_deal_id = i, al_type = ty, al_severity = sev,
               al_status = AlertStatus.OPEN, al_raised_at = now, al_acknowledged_by = None,
               al_acknowledged_at = None, al_resolved_at = None, al_last_action = None,
               al_last_action_at = None, al_last_action_by = None\<rparr>], db_next_id := aid + 1\<rparr>)))"

definition clear_alert :: "uuid \<Rightarrow> AlertType \<Rightarrow> instant \<Rightarrow> database \<Rightarrow> database" where
  "clear_alert i ty now db =
     (case find (is_open_alert i ty) (db_alerts db) of
        None \<Rightarrow> db
      | Some a \<Rightarrow> alert_event ALERT_RESOLVED (al_id a) i now (db\<lparr>db_alerts :=
          update_first (is_open_alert i ty) (resolved now) (db_alerts db)\<rparr>))"

section \<open>The detectors\<close>

record anomaly_settings =
  as_factor :: dec
  as_abs_points :: dec
  as_min_discount_pct :: dec
  as_min_sample :: nat

definition default_anomaly_settings :: anomaly_settings where
  "default_anomaly_settings =
     \<lparr>as_factor = 3 / 2, as_abs_points = 5, as_min_discount_pct = 10, as_min_sample = 3\<rparr>"

definition anomaly_threshold :: "anomaly_settings \<Rightarrow> baseline \<Rightarrow> dec" where
  "anomaly_threshold s b = quantize (max (dmul (bl_avg b) (as_factor s)) (dadd (bl_avg b) (as_abs_points s))) 2"

definition is_anomalous :: "anomaly_settings \<Rightarrow> baseline \<Rightarrow> dec \<Rightarrow> bool" where
  "is_anomalous s b disc = (as_min_discount_pct s \<le> disc \<and> anomaly_threshold s b < disc)"

definition anomaly_severity_of :: "baseline \<Rightarrow> dec \<Rightarrow> RiskSeverity" where
  "anomaly_severity_of b disc =
     (if dadd (bl_avg b) (dmul 2 (bl_stddev b)) < disc then RiskSeverity.HIGH else RiskSeverity.MEDIUM)"

definition detect_deal_discount_anomaly ::
    "anomaly_settings \<Rightarrow> deal \<Rightarrow> dec option \<Rightarrow> instant \<Rightarrow> database \<Rightarrow> RiskSeverity option \<times> database" where
  "detect_deal_discount_anomaly s d given now db =
     (let disc = (case given of Some x \<Rightarrow> x | None \<Rightarrow> weighted_discount db d) in
      case calculate_rep_discount_baseline (d_owner_odoo_user_id d) (d_sales_team_odoo_id d)
             (d_odoo_company_id d) 20 (as_min_sample s) now db of (b, db1) \<Rightarrow>
        if bl_sample_size b < as_min_sample s then (None, db1)
        else if is_anomalous s b disc
        then (Some (anomaly_severity_of b disc),
              snd (raise_alert (d_id d) DISCOUNT_ANOMALY (anomaly_severity_of b disc) now db1))
        else (None, clear_alert (d_id d) DISCOUNT_ANOMALY now db1))"

definition active_statuses :: "DealStatus list" where
  "active_statuses = [DRAFT, SENT, UNDER_NEGOTIATION]"

definition stalled_severity :: "int \<Rightarrow> dec \<Rightarrow> RiskSeverity" where
  "stalled_severity stalled_days age =
     (if age < dmul 2 (of_int stalled_days) then RiskSeverity.LOW
      else if age < dmul 4 (of_int stalled_days) then RiskSeverity.MEDIUM else RiskSeverity.HIGH)"

definition stalled_step :: "int \<Rightarrow> instant \<Rightarrow> deal \<Rightarrow> uuid list \<times> database \<Rightarrow> uuid list \<times> database" where
  "stalled_step stalled_days now d acc =
     (case acc of (ids, db) \<Rightarrow>
        let age = idle_days now (d_last_activity_at d) in
        if of_int stalled_days \<le> age
        then (case raise_alert (d_id d) STALLED_DEAL (stalled_severity stalled_days age) now db of
                (aid, db1) \<Rightarrow> (ids @ [aid], db1))
        else (ids, clear_alert (d_id d) STALLED_DEAL now db))"

text \<open>The last loop: the stalled alerts of deals that have left the pipeline.\<close>

definition stalled_of_closed :: "database \<Rightarrow> deal_alert list" where
  "stalled_of_closed db =
     [a. a \<leftarrow> db_alerts db, al_type a = STALLED_DEAL \<and> al_status a = AlertStatus.OPEN,
         d \<leftarrow> db_deals db, d_id d = al_deal_id a \<and> d_status d \<in> set TERMINAL_DEAL_STATUSES]"

definition resolve_closed :: "instant \<Rightarrow> deal_alert \<Rightarrow> database \<Rightarrow> database" where
  "resolve_closed now a db =
     alert_event ALERT_RESOLVED (al_id a) (al_deal_id a) now (update_alert (al_id a) (resolved now) db)"

definition stalled_pass :: "int \<Rightarrow> instant \<Rightarrow> database \<Rightarrow> uuid list \<times> database" where
  "stalled_pass stalled_days now db =
     (case fold (stalled_step stalled_days now)
             (filter (\<lambda>d. d_status d \<in> set active_statuses) (db_deals db)) ([], db) of
        (ids, db1) \<Rightarrow> (ids, fold (resolve_closed now) (stalled_of_closed db1) db1))"

definition detect_stalled_deals :: "int \<Rightarrow> 'g world \<Rightarrow> uuid list \<times> 'g world" where
  "detect_stalled_deals stalled_days w =
     (case stalled_pass stalled_days (w_now w) (w_db w) of
        (ids, db) \<Rightarrow> (ids, commit (on_db (\<lambda>_. db) w)))"

text \<open>
  Slippage: the days past the promised date with its grace, then past the latest open picking; a
  gateway that cannot list the pickings is ignored, as is a picking without a readable date.
\<close>

definition overdue_days :: "instant \<Rightarrow> instant \<Rightarrow> dec" where
  "overdue_days now t = quantize (float_repr (elapsed_days now t)) 2"

definition grace_deadline :: "int \<Rightarrow> instant \<Rightarrow> instant" where
  "grace_deadline grace promised = promised + grace * 86400 * 10 ^ 6"

definition late_picking :: "instant \<Rightarrow> raw_picking \<Rightarrow> bool \<times> dec \<Rightarrow> bool \<times> dec" where
  "late_picking now p acc =
     (case acc of (slipping, late) \<Rightarrow>
        (case rpk_scheduled_date p of
           None \<Rightarrow> acc
         | Some t \<Rightarrow>
             if rpk_state p \<notin> {''done'', ''cancel''} \<and> t < now \<and> late < overdue_days now t
             then (True, overdue_days now t) else acc))"

definition slippage_of :: "int \<Rightarrow> instant \<Rightarrow> deal \<Rightarrow> raw_picking list result \<Rightarrow> bool \<times> dec" where
  "slippage_of grace now d pickings =
     (let promised = (case d_promised_delivery_date d of None \<Rightarrow> (False, 0)
            | Some p \<Rightarrow> if grace_deadline grace p < now
                        then (True, overdue_days now (grace_deadline grace p)) else (False, 0)) in
      case pickings of Inl _ \<Rightarrow> promised | Inr ps \<Rightarrow> fold (late_picking now) ps promised)"

definition slippage_step ::
    "'g gateway \<Rightarrow> 'g \<Rightarrow> int \<Rightarrow> instant \<Rightarrow> deal \<Rightarrow> uuid list \<times> database \<Rightarrow> uuid list \<times> database" where
  "slippage_step gw g grace now d acc =
     (case acc of (ids, db) \<Rightarrow>
        (case slippage_of grace now d (gw_get_pickings gw (d_odoo_sale_order_id d) g) of (slipping, late) \<Rightarrow>
           if slipping
           then (case raise_alert (d_id d) DELIVERY_SLIPPAGE
                        (if 3 < late then RiskSeverity.HIGH else RiskSeverity.MEDIUM) now db of
                   (aid, db1) \<Rightarrow> (ids @ [aid], db1))
           else (ids, clear_alert (d_id d) DELIVERY_SLIPPAGE now db)))"

definition slippage_pass :: "'g gateway \<Rightarrow> 'g \<Rightarrow> int \<Rightarrow> instant \<Rightarrow> database \<Rightarrow> uuid list \<times> database" where
  "slippage_pass gw g grace now db =
     fold (slippage_step gw g grace now)
       (filter (\<lambda>d. d_status d \<in> {CONFIRMED, IN_FULFILLMENT}) (db_deals db)) ([], db)"

definition detect_delivery_slippages :: "'g gateway \<Rightarrow> int \<Rightarrow> 'g world \<Rightarrow> uuid list \<times> 'g world" where
  "detect_delivery_slippages gw grace w =
     (case slippage_pass gw (w_odoo w) grace (w_now w) (w_db w) of
        (ids, db) \<Rightarrow> (ids, commit (on_db (\<lambda>_. db) w)))"

section \<open>Recomputing a deal's health\<close>

definition pending_days :: "instant \<Rightarrow> deal \<Rightarrow> database \<Rightarrow> dec" where
  "pending_days now d db =
     (if d_approval_state d \<in> {PENDING_MANAGER, PENDING_FINANCE}
      then (case newest_first ar_requested_at (pending_requests (d_id d) db) of
              [] \<Rightarrow> 0 | r # _ \<Rightarrow> idle_days now (ar_requested_at r))
      else 0)"

definition latest_plan :: "uuid \<Rightarrow> database \<Rightarrow> fulfillment_plan option" where
  "latest_plan i db =
     (case newest_first fp_generated_at (filter (\<lambda>p. fp_deal_id p = i \<and> fp_status p \<noteq> SUPERSEDED) (db_plans db)) of
        [] \<Rightarrow> None | p # _ \<Rightarrow> Some p)"

definition plan_lines :: "uuid \<Rightarrow> database \<Rightarrow> fulfillment_plan_line list" where
  "plan_lines i db = filter (\<lambda>l. fpl_fulfillment_plan_id l = i) (db_plan_lines db)"

definition warehouses_of :: "fulfillment_plan_line list \<Rightarrow> odoo_id list" where
  "warehouses_of ls = remdups (List.map_filter fpl_odoo_warehouse_id ls)"

text \<open>The first backordered line whose product is back in stock; a failing call is not caught here.\<close>

fun restocked :: "'g gateway \<Rightarrow> 'g \<Rightarrow> fulfillment_plan_line list \<Rightarrow> exc + bool" where
  "restocked gw g [] = Inr False"
| "restocked gw g (l # ls) =
     (if 0 < fpl_backorder_qty l
      then bind_exc (gw_get_availability gw [fpl_odoo_product_id l] None g) (\<lambda>avail.
        if fpl_backorder_qty l \<le> sum_list (map snd (dict_list (fpl_odoo_product_id l) avail))
        then Inr True else restocked gw g ls)
      else restocked gw g ls)"

record plan_situation =
  psi_status :: "FulfillmentPlanStatus option"
  psi_backorder :: bool
  psi_split :: bool
  psi_consolidatable :: bool

definition plan_situation_of :: "'g gateway \<Rightarrow> 'g \<Rightarrow> uuid \<Rightarrow> database \<Rightarrow> exc + plan_situation" where
  "plan_situation_of gw g i db =
     (case latest_plan i db of
        None \<Rightarrow> Inr \<lparr>psi_status = None, psi_backorder = False, psi_split = False, psi_consolidatable = False\<rparr>
      | Some p \<Rightarrow>
          let ls = plan_lines (fp_id p) db in
          bind_exc (restocked gw g ls) (\<lambda>c. Inr \<lparr>psi_status = Some (fp_status p),
            psi_backorder = (\<exists>l\<in>set ls. 0 < fpl_backorder_qty l),
            psi_split = (1 < length (warehouses_of ls)), psi_consolidatable = c\<rparr>))"

definition open_negotiations :: "uuid \<Rightarrow> database \<Rightarrow> nat" where
  "open_negotiations i db =
     length (filter (\<lambda>n. nr_deal_id n = i \<and> nr_status n = NegotiationRequestStatus.OPEN) (db_negotiations db))"

text \<open>\<^verbatim>\<open>reason.split(" discount ")[0]\<close>: the text before the first occurrence of the marker.\<close>

fun text_before :: "string \<Rightarrow> string \<Rightarrow> string" where
  "text_before m [] = []"
| "text_before m (c # cs) = (if take (length m) (c # cs) = m then [] else c # text_before m cs)"

record worst_line =
  wl_line_id :: "odoo_id option"
  wl_line_name :: "string option"
  wl_ceiling :: "dec option"
  wl_overage :: dec

definition no_worst_line :: worst_line where
  "no_worst_line = \<lparr>wl_line_id = None, wl_line_name = None, wl_ceiling = None, wl_overage = 0\<rparr>"

definition worst_line_of :: "risk_factor \<Rightarrow> worst_line" where
  "worst_line_of f =
     (case (rf_detail f, rf_reason f) of
        (LineDetail line _ _ ceil overage, DiscountReason name _ _ _) \<Rightarrow>
          \<lparr>wl_line_id = Some line, wl_line_name = Some (text_before '' discount '' (name @ '' discount '')),
           wl_ceiling = Some (float_repr ceil), wl_overage = float_repr overage\<rparr>
      | _ \<Rightarrow> no_worst_line)"

definition factors_of :: "uuid \<Rightarrow> RiskFactorType \<Rightarrow> database \<Rightarrow> risk_factor list" where
  "factors_of a ty db = filter (\<lambda>f. rf_risk_assessment_id f = a \<and> rf_factor_type f = ty) (db_factors db)"

definition worst_discount :: "deal \<Rightarrow> database \<Rightarrow> worst_line" where
  "worst_discount d db =
     (case Option.bind (d_current_assessment_id d) (\<lambda>i. find_assessment i db) of
        None \<Rightarrow> no_worst_line
      | Some a \<Rightarrow>
          (case sort_key (\<lambda>f. - rf_contribution f) (factors_of (ra_id a) RiskFactorType.DISCOUNT_EXCESS db) of
             [] \<Rightarrow> no_worst_line | f # _ \<Rightarrow> worst_line_of f))"

definition margin_exposure_of :: "deal \<Rightarrow> database \<Rightarrow> dec" where
  "margin_exposure_of d db =
     (case Option.bind (d_current_assessment_id d) (\<lambda>i. find_assessment i db) of
        None \<Rightarrow> 0
      | Some a \<Rightarrow> (case factors_of (ra_id a) RiskFactorType.MARGIN_EXPOSURE db of
                     [] \<Rightarrow> 0 | f # _ \<Rightarrow> rf_contribution f))"

definition top_recommendation :: "uuid \<Rightarrow> database \<Rightarrow> rec_summary option" where
  "top_recommendation i db =
     (case list_deal_recommendations i db of [] \<Rightarrow> None
      | r # _ \<Rightarrow> Some \<lparr>rs_id = rec_id r, rs_product_id = rec_odoo_product_id r,
          rs_product_name = rec_product_name_cache r, rs_score = fl64 (rec_score r),
          rs_projected_margin_delta = fl64 (rec_margin_delta_pct r)\<rparr>)"

definition health_input_of ::
    "instant \<Rightarrow> deal \<Rightarrow> RiskSeverity option \<Rightarrow> dec \<Rightarrow> plan_situation \<Rightarrow> database \<Rightarrow> health_input" where
  "health_input_of now d anomaly pending ps db =
     \<lparr>hi_days_since_activity = idle_days now (d_last_activity_at d), hi_stalled_threshold_days = 7,
      hi_days_pending_approval = pending, hi_anomaly_severity = anomaly,
      hi_has_slipping_delivery = (find (is_open_alert (d_id d) DELIVERY_SLIPPAGE) (db_alerts db) \<noteq> None),
      hi_has_backorder = psi_backorder ps, hi_has_warehouse_split = psi_split ps,
      hi_open_negotiation_requests = int (open_negotiations (d_id d) db)\<rparr>"

definition nba_input_of ::
    "instant \<Rightarrow> deal \<Rightarrow> bool \<Rightarrow> Role option \<Rightarrow> plan_situation \<Rightarrow> database \<Rightarrow> nba_input" where
  "nba_input_of now d just_invalidated role ps db =
     (let wl = worst_discount d db in
      \<lparr>ni_deal_id = Some (d_id d), ni_approval_state = d_approval_state d, ni_deal_status = d_status d,
       ni_just_invalidated = just_invalidated,
       ni_open_negotiation_requests = int (open_negotiations (d_id d) db),
       ni_max_overage = wl_overage wl, ni_worst_line_id = wl_line_id wl,
       ni_worst_line_name = wl_line_name wl, ni_worst_line_ceiling = wl_ceiling wl,
       ni_margin_exposure = margin_exposure_of d db,
       ni_top_active_recommendation = top_recommendation (d_id d) db,
       ni_fulfillment_plan_status = psi_status ps,
       ni_has_consolidatable_backorder = psi_consolidatable ps,
       ni_days_since_activity = pyint (idle_days now (d_last_activity_at d)), ni_stalled_days = 7,
       ni_customer_confirmed_pending = d_customer_confirmed_pending d, ni_user_role = role\<rparr>)"

definition store_health :: "uuid \<Rightarrow> health_calculation_result \<Rightarrow> instant \<Rightarrow> database \<Rightarrow> database" where
  "store_health i h now db =
     update_deal i (\<lambda>d. d\<lparr>d_health_status := hc_health_status h\<rparr>)
       (db\<lparr>db_snapshots := db_snapshots db @ [\<lparr>hs_deal_id = i, hs_health_status = hc_health_status h,
          hs_overall_score = hc_overall_score h, hs_stalled_score = hc_stalled_score h,
          hs_approval_delay_score = hc_approval_delay_score h,
          hs_discount_anomaly_score = hc_discount_anomaly_score h,
          hs_delivery_risk_score = hc_delivery_risk_score h,
          hs_negotiation_score = hc_negotiation_score h, hs_calculated_at = now\<rparr>]\<rparr>)"

text \<open>
  The idle and pending days are read before the anomaly detector runs, whose audit events count as
  activity. When the stock cannot be read, what the detector wrote stays in the session.
\<close>

definition recompute_deal_health ::
    "'g gateway \<Rightarrow> deal \<Rightarrow> bool \<Rightarrow> Role option \<Rightarrow>
     ('g world, health_calculation_result \<times> next_best_action) effect" where
  "recompute_deal_health gw d just_invalidated role w =
     (let now = w_now w; pending = pending_days now d (w_db w) in
      case detect_deal_discount_anomaly default_anomaly_settings d None now (w_db w) of (anomaly, db1) \<Rightarrow>
        (case plan_situation_of gw (w_odoo w) (d_id d) db1 of
           Inl e \<Rightarrow> (Inl e, on_db (\<lambda>_. db1) w)
         | Inr ps \<Rightarrow>
             let h = calculate_deal_health (d_status d) (health_input_of now d anomaly pending ps db1);
                 db2 = store_health (d_id d) h now db1 in
             (Inr (h, determine_next_best_action (nba_input_of now d just_invalidated role ps db2)),
              on_db (\<lambda>_. db2) w)))"

record recompute_report =
  rep_scanned_deals :: nat
  rep_stalled_alerts :: nat
  rep_anomaly_alerts :: nat
  rep_slippage_alerts :: nat

definition anomaly_step :: "instant \<Rightarrow> deal \<Rightarrow> nat \<times> database \<Rightarrow> nat \<times> database" where
  "anomaly_step now d acc =
     (case acc of (n, db) \<Rightarrow>
        (case detect_deal_discount_anomaly default_anomaly_settings d None now db of
           (sev, db1) \<Rightarrow> (if sev = None then n else n + 1, db1)))"

definition anomaly_pass :: "instant \<Rightarrow> database \<Rightarrow> nat \<times> database" where
  "anomaly_pass now db = fold (anomaly_step now)
     (filter (\<lambda>d. d_status d \<in> set active_statuses \<or> d_status d = CONFIRMED) (db_deals db)) (0, db)"

definition recompute_all_alerts :: "'g gateway \<Rightarrow> 'g world \<Rightarrow> recompute_report \<times> 'g world" where
  "recompute_all_alerts gw w =
     (case detect_stalled_deals 7 w of (stalled, w1) \<Rightarrow>
      (case detect_delivery_slippages gw 0 w1 of (slippage, w2) \<Rightarrow>
       (case anomaly_pass (w_now w2) (w_db w2) of (n, db) \<Rightarrow>
          (\<lparr>rep_scanned_deals = length (filter
              (\<lambda>d. d_status d \<in> set active_statuses \<or> d_status d = CONFIRMED) (db_deals (w_db w2))),
            rep_stalled_alerts = length stalled, rep_anomaly_alerts = n,
            rep_slippage_alerts = length slippage\<rparr>, commit (on_db (\<lambda>_. db) w2)))))"

section \<open>Actions on an alert\<close>

definition acknowledge_alert :: "uuid \<Rightarrow> odoo_id \<Rightarrow> ('g world, uuid) effect" where
  "acknowledge_alert i user w =
     (case find_alert i (w_db w) of None \<Rightarrow> (Inl NotFoundError, w)
      | Some _ \<Rightarrow> (Inr i, commit (on_db (update_alert i (\<lambda>a. a\<lparr>al_status := ACKNOWLEDGED,
          al_acknowledged_by := Some user, al_acknowledged_at := Some (w_now w)\<rparr>)) w)))"

definition resolve_alert :: "uuid \<Rightarrow> odoo_id \<Rightarrow> ('g world, uuid) effect" where
  "resolve_alert i user w =
     (case find_alert i (w_db w) of None \<Rightarrow> (Inl NotFoundError, w)
      | Some a \<Rightarrow> (Inr i, commit (on_db (\<lambda>db.
          record_audit_event ALERT_RESOLVED ''deal_alert'' (Some (int i)) (Some (al_deal_id a)) ''USER''
            (Some user) None (w_now w) (update_alert i (resolved (w_now w)) db)) w)))"

text \<open>The notification to the owner or the manager, and the mark left on the alert.\<close>

definition alert_notice :: "odoo_id \<Rightarrow> string \<Rightarrow> uuid \<Rightarrow> instant \<Rightarrow> database \<Rightarrow> database" where
  "alert_notice recipient ty i now db = snd (create_notification recipient ty ''deal_alert'' (int i) None now db)"

definition acted :: "string \<Rightarrow> odoo_id \<Rightarrow> instant \<Rightarrow> deal_alert \<Rightarrow> deal_alert" where
  "acted action user now a = a\<lparr>al_last_action := Some action, al_last_action_by := Some user,
     al_last_action_at := Some now\<rparr>"

definition may_escalate :: "Role \<Rightarrow> AlertType \<Rightarrow> bool" where
  "may_escalate role ty = (role \<in> {SALES_MANAGER, ADMIN} \<or> ty = DELIVERY_SLIPPAGE \<and> role = Role.FINANCE)"

definition nudge_or_escalate_alert ::
    "uuid \<Rightarrow> string \<Rightarrow> odoo_id \<Rightarrow> Role \<Rightarrow> ('g world, uuid) effect" where
  "nudge_or_escalate_alert i action user role w =
     (case find_alert i (w_db w) of None \<Rightarrow> (Inl NotFoundError, w)
      | Some a \<Rightarrow>
      (case find_deal (al_deal_id a) (w_db w) of None \<Rightarrow> (Inl NotFoundError, w)
       | Some d \<Rightarrow>
          let now = w_now w;
              audit = (\<lambda>ev. record_audit_event ev ''deal_alert'' (Some (int i)) (Some (d_id d)) ''USER''
                 (Some user) (Some role) now) in
          if action = ''NUDGE'' then
            (Inr i, commit (on_db (\<lambda>db. audit NUDGE_SENT (update_alert i (acted ''NUDGE'' user now)
               (alert_notice (d_owner_odoo_user_id d) ''NUDGE'' i now db))) w))
          else if action = ''ESCALATE'' then
            (if \<not> may_escalate role (al_type a) then (Inl ForbiddenError, w)
             else (Inr i, commit (on_db (\<lambda>db. audit ESCALATION_SENT
               (alert_notice (num_or (d_sales_team_odoo_id d) 2) ''ESCALATION'' i now
                 (update_alert i (\<lambda>a. acted ''ESCALATE'' user now (a\<lparr>al_severity := RiskSeverity.HIGH\<rparr>)) db))) w)))
          else (Inl ValidationError, w)))"

section \<open>The control tower\<close>

record control_tower_kpis =
  kpi_pipeline_value :: dec
  kpi_at_risk_count :: nat
  kpi_pending_approvals :: nat
  kpi_discount_exposure_amount :: dec
  kpi_stalled_count :: nat
  kpi_avg_approval_hours :: dec
  kpi_fulfillment_risk_count :: nat

definition open_alert_count :: "AlertType \<Rightarrow> database \<Rightarrow> nat" where
  "open_alert_count ty db =
     length (filter (\<lambda>a. al_type a = ty \<and> al_status a = AlertStatus.OPEN) (db_alerts db))"

definition backorder_deals :: "database \<Rightarrow> uuid list" where
  "backorder_deals db = remdups [fp_deal_id p. p \<leftarrow> db_plans db, fp_status p \<noteq> SUPERSEDED,
     l \<leftarrow> db_plan_lines db, fpl_fulfillment_plan_id l = fp_id p \<and> 0 < fpl_backorder_qty l]"

definition turnaround_hours :: "approval_request \<Rightarrow> instant \<Rightarrow> rat" where
  "turnaround_hours r done_at = fdiv (fdiv (of_int (done_at - ar_requested_at r)) (10 ^ 6)) 3600"

definition avg_approval_hours :: "database \<Rightarrow> dec" where
  "avg_approval_hours db =
     (let completed = [(r, t). r \<leftarrow> db_requests db, ar_status r \<in> {ApprovalRequestStatus.APPROVED,
             ApprovalRequestStatus.REJECTED, ApprovalRequestStatus.RETURNED},
             t \<leftarrow> (case ar_completed_at r of None \<Rightarrow> [] | Some t \<Rightarrow> [t])] in
      if completed = [] then 0
      else quantize (float_repr (fdiv (foldl (\<lambda>s (r, t). fadd s (turnaround_hours r t)) 0 completed)
             (of_nat (length completed)))) 2)"

definition discount_exposure :: "deal list \<Rightarrow> dec" where
  "discount_exposure ds = quantize (dsum (map (\<lambda>d. ddiv (dmul (d_amount_untaxed_cache d)
       (d_order_discount_pct d)) 100)
     (filter (\<lambda>d. 0 < d_order_discount_pct d \<and> 0 < d_amount_untaxed_cache d) ds))) 2"

definition compute_kpis :: "database \<Rightarrow> control_tower_kpis" where
  "compute_kpis db =
     (let pipeline = filter (\<lambda>d. d_status d \<notin> {DealStatus.CANCELLED, DealStatus.EXPIRED}) (db_deals db) in
      \<lparr>kpi_pipeline_value = dsum (map d_amount_total_cache pipeline),
       kpi_at_risk_count = length (filter (\<lambda>d. d_health_status d = AT_RISK) pipeline),
       kpi_pending_approvals =
         length (filter (\<lambda>r. ar_status r = ApprovalRequestStatus.PENDING) (db_requests db)),
       kpi_discount_exposure_amount = discount_exposure pipeline,
       kpi_stalled_count = open_alert_count STALLED_DEAL db,
       kpi_avg_approval_hours = avg_approval_hours db,
       kpi_fulfillment_risk_count = open_alert_count DELIVERY_SLIPPAGE db + length (backorder_deals db)\<rparr>)"

datatype queue_source = AlertItem AlertType | ApprovalItem string int

record action_queue_item =
  aq_id :: uuid
  aq_source :: queue_source
  aq_deal_id :: uuid
  aq_priority :: RiskSeverity
  aq_created_at :: instant

definition alert_items :: "database \<Rightarrow> action_queue_item list" where
  "alert_items db = map (\<lambda>(a, d). \<lparr>aq_id = al_id a, aq_source = AlertItem (al_type a),
       aq_deal_id = d_id d, aq_priority = al_severity a, aq_created_at = al_raised_at a\<rparr>)
     (newest_first (\<lambda>(a, d). al_raised_at a)
       [(a, d). a \<leftarrow> db_alerts db, al_status a = AlertStatus.OPEN, d \<leftarrow> db_deals db, d_id d = al_deal_id a])"

definition approval_items :: "database \<Rightarrow> action_queue_item list" where
  "approval_items db = map (\<lambda>(r, d). \<lparr>aq_id = ar_id r,
       aq_source = ApprovalItem (ar_required_level r) (ar_sequence r), aq_deal_id = d_id d,
       aq_priority = RiskSeverity.HIGH, aq_created_at = ar_requested_at r\<rparr>)
     (sort_key (\<lambda>(r, d). ar_requested_at r) (queue_rows (\<lambda>_. True) db))"

definition prio_order :: "RiskSeverity \<Rightarrow> nat" where
  "prio_order p = (case p of RiskSeverity.HIGH \<Rightarrow> 0 | RiskSeverity.MEDIUM \<Rightarrow> 1 | RiskSeverity.LOW \<Rightarrow> 2)"

definition action_queue :: "database \<Rightarrow> action_queue_item list" where
  "action_queue db = sort_key (\<lambda>x. prio_order (aq_priority x))
     (sort_key aq_created_at (alert_items db @ approval_items db))"

record control_tower_response =
  ctr_kpis :: control_tower_kpis
  ctr_action_queue :: "action_queue_item list"
  ctr_generated_at :: instant

definition get_control_tower_data :: "instant \<Rightarrow> database \<Rightarrow> control_tower_response" where
  "get_control_tower_data now db =
     \<lparr>ctr_kpis = compute_kpis db, ctr_action_queue = action_queue db, ctr_generated_at = now\<rparr>"

end
