(* ===== verification/Alerts.thy ===== *)
theory Alerts
  imports Health_Service
begin

text \<open>
  Properties of the detectors and alerts of \<open>Health_Service\<close>: uniqueness of open alerts, the
  anomaly alert, the fate of a stalled-deal alert, and who may escalate.
\<close>

section \<open>Open alerts\<close>

definition opens :: "uuid \<Rightarrow> AlertType \<Rightarrow> database \<Rightarrow> deal_alert list" where
  "opens i ty db = filter (is_open_alert i ty) (db_alerts db)"

text \<open>At most one open alert per deal and kind; keys are distinct and have been drawn.\<close>

definition alerts_ok :: "database \<Rightarrow> bool" where
  "alerts_ok db = ((\<forall>i ty. length (opens i ty db) \<le> 1) \<and> distinct (map al_id (db_alerts db))
     \<and> (\<forall>a\<in>set (db_alerts db). al_id a < db_next_id db))"

lemma alerts_ok_cong:
  "alerts_ok db \<Longrightarrow> db_alerts db' = db_alerts db \<Longrightarrow> db_next_id db \<le> db_next_id db' \<Longrightarrow> alerts_ok db'"
  by (fastforce simp: alerts_ok_def opens_def)

lemma filter_update_first_other:
  "(\<And>r. P r \<Longrightarrow> \<not> Q r \<and> \<not> Q (f r)) \<Longrightarrow> filter Q (update_first P f rs) = filter Q rs"
  by (induction rs) auto

lemma filter_update_first_close:
  "(\<And>r. P r \<Longrightarrow> \<not> P (f r)) \<Longrightarrow> filter P (update_first P f rs) = tl (filter P rs)"
  by (induction rs) auto

lemma filter_update_first_keep:
  "(\<And>r. P r \<Longrightarrow> P (f r)) \<Longrightarrow> filter P (update_first P f rs) =
     (case filter P rs of [] \<Rightarrow> [] | r # rs' \<Rightarrow> f r # rs')"
  by (induction rs) (auto split: list.splits)

lemma map_update_first: "(\<And>r. g (f r) = g r) \<Longrightarrow> map g (update_first P f rs) = map g rs"
  by (induction rs) auto

lemma filter_find: "find P xs = (case filter P xs of [] \<Rightarrow> None | x # _ \<Rightarrow> Some x)"
  by (induction xs) auto

lemma set_update_first: "set (update_first P f rs) \<subseteq> set rs \<union> f ` set rs"
  by (induction rs) auto

lemma db_alerts_event [simp]: "db_alerts (alert_event ev aid i now db) = db_alerts db"
  "db_next_id (alert_event ev aid i now db) = db_next_id db"
  "map governance_view (db_deals (alert_event ev aid i now db)) = map governance_view (db_deals db)"
  by (simp_all add: alert_event_def)

lemma resolved_simps [simp]:
  "al_id (resolved now a) = al_id a" "al_deal_id (resolved now a) = al_deal_id a"
  "\<not> is_open_alert i ty (resolved now a)"
  by (simp_all add: resolved_def is_open_alert_def)

lemma opens_raise:
  "opens j tj (snd (raise_alert i ty sev now db)) =
     (if j = i \<and> tj = ty
      then (case opens i ty db of a # as \<Rightarrow> a\<lparr>al_severity := sev\<rparr> # as
            | [] \<Rightarrow> [\<lparr>al_id = db_next_id db, al_deal_id = i, al_type = ty, al_severity = sev,
               al_status = AlertStatus.OPEN, al_raised_at = now, al_acknowledged_by = None,
               al_acknowledged_at = None, al_resolved_at = None, al_last_action = None,
               al_last_action_at = None, al_last_action_by = None\<rparr>])
      else opens j tj db)"
proof (cases "opens i ty db")
  case Nil
  then have n: "find (is_open_alert i ty) (db_alerts db) = None" by (simp add: filter_find opens_def)
  have "is_open_alert i ty a \<Longrightarrow> a \<notin> set (db_alerts db)" for a using Nil by (auto simp: opens_def filter_empty_conv)
  then show ?thesis using Nil n by (auto simp: raise_alert_def Let_def opens_def) (auto simp: is_open_alert_def)
next
  case (Cons a as)
  then have "find (is_open_alert i ty) (db_alerts db) = Some a" by (simp add: filter_find opens_def)
  moreover have "filter (is_open_alert j tj) (update_first (is_open_alert i ty) (\<lambda>a. a\<lparr>al_severity := sev\<rparr>) (db_alerts db)) =
      filter (is_open_alert j tj) (db_alerts db)" if "\<not> (j = i \<and> tj = ty)"
    by (rule filter_update_first_other) (use that in \<open>auto simp: is_open_alert_def\<close>)
  moreover have "filter (is_open_alert i ty) (update_first (is_open_alert i ty) (\<lambda>a. a\<lparr>al_severity := sev\<rparr>) (db_alerts db)) =
      a\<lparr>al_severity := sev\<rparr> # as"
    using Cons by (subst filter_update_first_keep) (auto simp: is_open_alert_def[of _ _ "_\<lparr>al_severity := _\<rparr>"]
      is_open_alert_def opens_def)
  ultimately show ?thesis using Cons by (simp add: raise_alert_def opens_def)
qed

lemma opens_clear:
  "opens j tj (clear_alert i ty now db) = (if j = i \<and> tj = ty then tl (opens i ty db) else opens j tj db)"
proof (cases "opens i ty db")
  case Nil
  then show ?thesis by (auto simp: clear_alert_def filter_find opens_def)
next
  case (Cons a as)
  have "filter (is_open_alert j tj) (update_first (is_open_alert i ty) (resolved now) (db_alerts db)) =
      filter (is_open_alert j tj) (db_alerts db)" if "\<not> (j = i \<and> tj = ty)"
    by (rule filter_update_first_other) (use that in \<open>auto simp: is_open_alert_def resolved_def\<close>)
  with Cons show ?thesis
    by (auto simp: clear_alert_def filter_find opens_def filter_update_first_close)
qed

lemma next_id_raise: "db_next_id db \<le> db_next_id (snd (raise_alert i ty sev now db))"
  by (simp add: raise_alert_def Let_def split: option.splits)

lemma next_id_clear [simp]: "db_next_id (clear_alert i ty now db) = db_next_id db"
  by (simp add: clear_alert_def split: option.splits)

lemma keys_raise:
  "\<exists>new. map al_id (db_alerts (snd (raise_alert i ty sev now db))) = map al_id (db_alerts db) @ new \<and>
    (new = [] \<or> new = [db_next_id db] \<and> db_next_id (snd (raise_alert i ty sev now db)) = db_next_id db + 1)"
  by (auto simp: raise_alert_def Let_def map_update_first split: option.splits)

lemma keys_clear [simp]: "map al_id (db_alerts (clear_alert i ty now db)) = map al_id (db_alerts db)"
  by (auto simp: clear_alert_def map_update_first split: option.splits)

lemma alerts_ok_keys: "alerts_ok db \<longleftrightarrow> (\<forall>i ty. length (opens i ty db) \<le> 1) \<and>
    distinct (map al_id (db_alerts db)) \<and> (\<forall>k\<in>set (map al_id (db_alerts db)). k < db_next_id db)"
  by (auto simp: alerts_ok_def)

lemma alerts_ok_raise:
  assumes "alerts_ok db"
  shows "alerts_ok (snd (raise_alert i ty sev now db))"
proof -
  obtain new where new: "map al_id (db_alerts (snd (raise_alert i ty sev now db))) = map al_id (db_alerts db) @ new"
    "new = [] \<or> new = [db_next_id db] \<and> db_next_id (snd (raise_alert i ty sev now db)) = db_next_id db + 1"
    using keys_raise by blast
  let ?db' = "snd (raise_alert i ty sev now db)"
  have one: "length (opens j tj db) \<le> 1" for j tj using assms by (simp add: alerts_ok_def)
  have "length (opens j tj ?db') \<le> 1" for j tj
    using one[of j tj] one[of i ty] by (cases "opens i ty db") (simp_all add: opens_raise)
  moreover have keys: "k < db_next_id db" if "k \<in> set (map al_id (db_alerts db))" for k
    using that assms by (auto simp: alerts_ok_def)
  moreover have "distinct (map al_id (db_alerts ?db'))"
  proof -
    have "db_next_id db \<notin> set (map al_id (db_alerts db))" using keys by blast
    moreover have "distinct (map al_id (db_alerts db))" using assms by (simp add: alerts_ok_def)
    ultimately show ?thesis using new(2) unfolding new(1) distinct_append by (elim disjE conjE) (simp_all del: set_map)
  qed
  moreover have "k < db_next_id ?db'" if "k \<in> set (map al_id (db_alerts ?db'))" for k
  proof -
    have "k \<in> set (map al_id (db_alerts db)) \<or> k \<in> set new" using that unfolding new(1) by simp
    then show ?thesis using new(2) next_id_raise[of db i ty sev now] keys[of k] by fastforce
  qed
  ultimately show ?thesis unfolding alerts_ok_keys by blast
qed

lemma alerts_ok_clear: "alerts_ok db \<Longrightarrow> alerts_ok (clear_alert i ty now db)"
proof -
  assume ok: "alerts_ok db"
  have "length (opens j tj (clear_alert i ty now db)) \<le> 1" for j tj
    using ok by (auto simp: opens_clear alerts_ok_def le_diff_conv intro: le_SucI)
  then show ?thesis using ok unfolding alerts_ok_keys by simp
qed

section \<open>Every operation keeps alerts unique\<close>

lemma store_rep_stats_frame [simp]:
  "db_alerts (store_rep_stats u b now db) = db_alerts db" "db_deals (store_rep_stats u b now db) = db_deals db"
  "db_next_id (store_rep_stats u b now db) = db_next_id db"
  "db_requests (store_rep_stats u b now db) = db_requests db"
  by (simp_all add: store_rep_stats_def Let_def split: option.splits)

lemma baseline_frame [simp]:
  "db_alerts (snd (calculate_rep_discount_baseline u t c wd ms now db)) = db_alerts db"
  "db_deals (snd (calculate_rep_discount_baseline u t c wd ms now db)) = db_deals db"
  "db_next_id (snd (calculate_rep_discount_baseline u t c wd ms now db)) = db_next_id db"
  "db_requests (snd (calculate_rep_discount_baseline u t c wd ms now db)) = db_requests db"
  by (simp_all add: calculate_rep_discount_baseline_def Let_def split: prod.splits)

lemma alerts_ok_baseline:
  "alerts_ok db \<Longrightarrow> alerts_ok (snd (calculate_rep_discount_baseline u t c wd ms now db))"
  by (erule alerts_ok_cong) simp_all

lemma alerts_ok_anomaly:
  assumes "alerts_ok db"
  shows "alerts_ok (snd (detect_deal_discount_anomaly s d given now db))"
  using alerts_ok_baseline[OF assms]
  by (simp add: detect_deal_discount_anomaly_def Let_def split_beta alerts_ok_raise alerts_ok_clear)

lemma fold_snd_invariant:
  assumes "\<And>x acc. P (snd acc) \<Longrightarrow> P (snd (f x acc))" and "P (snd acc)"
  shows "P (snd (fold f xs acc))"
  using assms(2) by (induction xs arbitrary: acc) (simp_all add: assms(1))

lemma fold_invariant:
  assumes "\<And>x s. P s \<Longrightarrow> P (f x s)" and "P s"
  shows "P (fold f xs s)"
  using assms(2) by (induction xs arbitrary: s) (simp_all add: assms(1))

lemma opens_update_resolved:
  "opens j tj (update_alert k (resolved now) db) = filter (\<lambda>a. al_id a \<noteq> k) (opens j tj db)"
proof -
  have "filter (is_open_alert j tj) (update_row al_id k (resolved now) rows) =
      filter (\<lambda>a. al_id a \<noteq> k) (filter (is_open_alert j tj) rows)" for rows
    by (induction rows) auto
  then show ?thesis by (simp add: opens_def update_alert_def)
qed

lemma alerts_ok_update:
  assumes "alerts_ok db" and "\<And>a. al_id (f a) = al_id a"
    and "\<And>j t. length (opens j t (update_alert k f db)) \<le> length (opens j t db)"
  shows "alerts_ok (update_alert k f db)"
proof -
  have "map al_id (db_alerts (update_alert k f db)) = map al_id (db_alerts db)"
    by (simp add: update_alert_def map_key_update_row assms(2))
  moreover have "db_next_id (update_alert k f db) = db_next_id db" by (simp add: update_alert_def)
  moreover have "length (opens j t (update_alert k f db)) \<le> 1" for j t
    using order_trans[OF assms(3)[of j t]] assms(1) by (simp add: alerts_ok_def)
  ultimately show ?thesis using assms(1) unfolding alerts_ok_keys by simp
qed

lemma alerts_ok_resolved: "alerts_ok db \<Longrightarrow> alerts_ok (update_alert k (resolved now) db)"
  by (rule alerts_ok_update) (simp_all add: opens_update_resolved)

lemma alerts_ok_audit: "alerts_ok db \<Longrightarrow> alerts_ok (record_audit_event t et ei di ty ai ar now db)"
  by (erule alerts_ok_cong) simp_all

lemma alerts_ok_resolve_closed: "alerts_ok db \<Longrightarrow> alerts_ok (resolve_closed now a db)"
  by (simp add: resolve_closed_def alert_event_def alerts_ok_audit alerts_ok_resolved)

lemma alerts_ok_stalled_step: "alerts_ok (snd acc) \<Longrightarrow> alerts_ok (snd (stalled_step n now d acc))"
  by (cases acc) (simp add: stalled_step_def Let_def split_beta alerts_ok_raise alerts_ok_clear)

lemma alerts_ok_stalled_pass: "alerts_ok db \<Longrightarrow> alerts_ok (snd (stalled_pass n now db))"
  unfolding stalled_pass_def
  by (simp add: split_beta fold_invariant[where P = alerts_ok] alerts_ok_resolve_closed
      fold_snd_invariant[where P = alerts_ok] alerts_ok_stalled_step)

lemma alerts_ok_slippage_step: "alerts_ok (snd acc) \<Longrightarrow> alerts_ok (snd (slippage_step gw g grace now d acc))"
  by (cases acc) (simp add: slippage_step_def Let_def split_beta alerts_ok_raise alerts_ok_clear)

lemma alerts_ok_slippage_pass: "alerts_ok db \<Longrightarrow> alerts_ok (snd (slippage_pass gw g grace now db))"
  unfolding slippage_pass_def
  by (rule fold_snd_invariant[where P = alerts_ok]) (simp_all add: alerts_ok_slippage_step)

lemma alerts_ok_anomaly_pass: "alerts_ok db \<Longrightarrow> alerts_ok (snd (anomaly_pass now db))"
  unfolding anomaly_pass_def
  by (rule fold_snd_invariant[where P = alerts_ok])
     (simp_all add: anomaly_step_def split_beta alerts_ok_anomaly)

lemma alerts_ok_recompute_all:
  "alerts_ok (w_db w) \<Longrightarrow> alerts_ok (w_db (snd (recompute_all_alerts gw w)))"
  by (simp add: recompute_all_alerts_def detect_stalled_deals_def detect_delivery_slippages_def split_beta
      alerts_ok_anomaly_pass alerts_ok_slippage_pass alerts_ok_stalled_pass)

lemma store_health_frame [simp]:
  "db_alerts (store_health i h now db) = db_alerts db" "db_next_id (store_health i h now db) = db_next_id db"
  "db_requests (store_health i h now db) = db_requests db"
  "map governance_view (db_deals (store_health i h now db)) = map governance_view (db_deals db)"
  by (simp_all add: store_health_def) (simp_all add: update_deal_def governance_view_update_row governance_view_def)

lemma alerts_ok_recompute:
  assumes "alerts_ok (w_db w)"
  shows "alerts_ok (w_db (snd (recompute_deal_health gw d ji role w)))"
proof -
  let ?db1 = "snd (detect_deal_discount_anomaly default_anomaly_settings d None (w_now w) (w_db w))"
  have "alerts_ok ?db1" by (rule alerts_ok_anomaly[OF assms])
  moreover from this have "alerts_ok (store_health i h now ?db1)" for i h now
    by (rule alerts_ok_cong) simp_all
  ultimately show ?thesis by (simp add: recompute_deal_health_def Let_def split_beta split: sum.splits)
qed

lemma alerts_ok_acknowledge: "alerts_ok (w_db w) \<Longrightarrow> alerts_ok (w_db (snd (acknowledge_alert i u w)))"
proof -
  have "length (filter (is_open_alert j t) (update_row al_id i (\<lambda>a. a\<lparr>al_status := ACKNOWLEDGED,
      al_acknowledged_by := x, al_acknowledged_at := y\<rparr>) rows)) \<le> length (filter (is_open_alert j t) rows)" for j t x y rows
    by (induction rows) (auto simp: is_open_alert_def)
  then have "alerts_ok db \<Longrightarrow> alerts_ok (update_alert i (\<lambda>a. a\<lparr>al_status := ACKNOWLEDGED,
      al_acknowledged_by := x, al_acknowledged_at := y\<rparr>) db)" for x y db
    by (intro alerts_ok_update) (simp_all add: opens_def update_alert_def)
  then show "alerts_ok (w_db w) \<Longrightarrow> alerts_ok (w_db (snd (acknowledge_alert i u w)))"
    by (simp add: acknowledge_alert_def split: option.splits)
qed

lemma alerts_ok_resolve: "alerts_ok (w_db w) \<Longrightarrow> alerts_ok (w_db (snd (resolve_alert i u w)))"
  by (simp add: resolve_alert_def alerts_ok_audit alerts_ok_resolved split: option.splits)

lemma alert_notice_frame [simp]: "db_alerts (alert_notice r t i now db) = db_alerts db"
  "db_deals (alert_notice r t i now db) = db_deals db" "db_requests (alert_notice r t i now db) = db_requests db"
  "db_next_id (alert_notice r t i now db) = db_next_id db + 1"
  by (simp_all add: alert_notice_def create_notification_def Let_def)

lemma alerts_ok_notice: "alerts_ok db \<Longrightarrow> alerts_ok (alert_notice r t i now db)"
  by (erule alerts_ok_cong) simp_all

lemma alerts_ok_mark:
  assumes "alerts_ok db" and "\<And>a. al_id (f a) = al_id a \<and> al_deal_id (f a) = al_deal_id a \<and>
    al_type (f a) = al_type a \<and> al_status (f a) = al_status a"
  shows "alerts_ok (update_alert k f db)"
proof (rule alerts_ok_update[OF assms(1)])
  have "length (filter (is_open_alert j t) (update_row al_id k f rows)) = length (filter (is_open_alert j t) rows)" for j t rows
    by (induction rows) (auto simp: is_open_alert_def assms(2))
  then show "length (opens j t (update_alert k f db)) \<le> length (opens j t db)" for j t
    by (simp add: opens_def update_alert_def)
qed (simp add: assms(2))

lemma alerts_ok_nudge: "alerts_ok (w_db w) \<Longrightarrow> alerts_ok (w_db (snd (nudge_or_escalate_alert i action u role w)))"
  by (auto simp: nudge_or_escalate_alert_def Let_def alerts_ok_audit alerts_ok_notice alerts_ok_mark acted_def
      split: option.splits)

text \<open>
  One alert per problem: starting from a database in which no deal has two open alerts of the
  same kind, none of the detectors, health recomputations or alert actions ever opens a second one.
\<close>

theorem alerts_stay_unique:
  assumes "alerts_ok (w_db w)"
  shows "alerts_ok (w_db (snd (recompute_all_alerts gw w))) \<and>
    alerts_ok (w_db (snd (detect_stalled_deals n w))) \<and>
    alerts_ok (w_db (snd (detect_delivery_slippages gw grace w))) \<and>
    alerts_ok (w_db (snd (recompute_deal_health gw d ji role w))) \<and>
    alerts_ok (w_db (snd (acknowledge_alert i u w))) \<and>
    alerts_ok (w_db (snd (resolve_alert i u w))) \<and>
    alerts_ok (w_db (snd (nudge_or_escalate_alert i action u r w)))"
  by (intro conjI alerts_ok_recompute_all alerts_ok_recompute alerts_ok_acknowledge alerts_ok_resolve
      alerts_ok_nudge assms)
     (simp_all add: detect_stalled_deals_def detect_delivery_slippages_def split_beta
        alerts_ok_slippage_pass alerts_ok_stalled_pass assms)

lemma alerts_ok_awaiting: "alerts_ok awaiting_db"
  by (simp add: alerts_ok_def opens_def awaiting_db_def small_db_def empty_database_def)

theorem alerts_stay_unique_witness:
  "alerts_ok (w_db (snd (recompute_all_alerts fake_gateway (small_world awaiting_db))))"
proof -
  have "alerts_ok (w_db (small_world awaiting_db))" by (simp add: alerts_ok_awaiting)
  from alerts_stay_unique[OF this, of fake_gateway] show ?thesis by blast
qed

section \<open>The anomaly alert\<close>

text \<open>
  With enough history, the anomaly detector and its alert agree: the deal has an open anomaly
  alert afterwards exactly when its discount is at least the minimum and above the threshold the
  baseline sets, the alert carries the severity returned, and alerts of other deals and kinds stay
  as they were.
\<close>

theorem anomaly_alert_agrees:
  assumes "alerts_ok db" and "detect_deal_discount_anomaly s d given now db = (sev, db')"
    and "calculate_rep_discount_baseline (d_owner_odoo_user_id d) (d_sales_team_odoo_id d)
      (d_odoo_company_id d) 20 (as_min_sample s) now db = (b, db1)"
    and "as_min_sample s \<le> bl_sample_size b"
  shows "map (Some \<circ> al_severity) (opens (d_id d) DISCOUNT_ANOMALY db') = (if sev = None then [] else [sev]) \<and>
    (sev \<noteq> None \<longleftrightarrow> is_anomalous s b (case given of Some x \<Rightarrow> x | None \<Rightarrow> weighted_discount db d)) \<and>
    (\<forall>j ty. j \<noteq> d_id d \<or> ty \<noteq> DISCOUNT_ANOMALY \<longrightarrow> opens j ty db' = opens j ty db)"
proof -
  let ?disc = "case given of Some x \<Rightarrow> x | None \<Rightarrow> weighted_discount db d"
  have o: "opens j ty db1 = opens j ty db" for j ty
    using baseline_frame(1)[of "d_owner_odoo_user_id d" "d_sales_team_odoo_id d" "d_odoo_company_id d" 20
        "as_min_sample s" now db] assms(3) by (simp add: opens_def)
  have one: "length (opens (d_id d) DISCOUNT_ANOMALY db) \<le> 1" using assms(1) by (simp add: alerts_ok_def)
  show ?thesis
  proof (cases "is_anomalous s b ?disc")
    case True
    then have r: "sev = Some (anomaly_severity_of b ?disc)"
      "db' = snd (raise_alert (d_id d) DISCOUNT_ANOMALY (anomaly_severity_of b ?disc) now db1)"
      using assms(2-4) by (auto simp: detect_deal_discount_anomaly_def Let_def)
    show ?thesis using True one unfolding r
      by (cases "opens (d_id d) DISCOUNT_ANOMALY db") (auto simp: opens_raise o)
  next
    case False
    then have r: "sev = None" "db' = clear_alert (d_id d) DISCOUNT_ANOMALY now db1"
      using assms(2-4) by (auto simp: detect_deal_discount_anomaly_def Let_def)
    show ?thesis using False one unfolding r
      by (cases "opens (d_id d) DISCOUNT_ANOMALY db") (auto simp: opens_clear o)
  qed
qed

text \<open>A rep whose only deal has a discount of forty percent, with the history of one deal required.\<close>

definition lone_settings :: anomaly_settings where
  "lone_settings = \<lparr>as_factor = 3 / 2, as_abs_points = 5, as_min_discount_pct = 10, as_min_sample = 1\<rparr>"

theorem anomaly_alert_agrees_witness:
  "\<exists>sev db'. detect_deal_discount_anomaly lone_settings (small_deal PENDING_MANAGER MANAGER_AND_FINANCE)
     (Some 40) 5 awaiting_db = (sev, db') \<and> length (opens 6 DISCOUNT_ANOMALY db') \<le> 1"
proof -
  let ?d = "small_deal PENDING_MANAGER MANAGER_AND_FINANCE"
  obtain sev db' where r: "detect_deal_discount_anomaly lone_settings ?d (Some 40) 5 awaiting_db = (sev, db')"
    by force
  obtain b db1 where b: "calculate_rep_discount_baseline (d_owner_odoo_user_id ?d) (d_sales_team_odoo_id ?d)
      (d_odoo_company_id ?d) 20 (as_min_sample lone_settings) 5 awaiting_db = (b, db1)" by force
  have "discount_sample 4 (Some 1) 1 20 1 awaiting_db = (''REP'', [?d])"
    by (simp add: discount_sample_def recent_deals_def newest_first_def awaiting_db_def eligible_statuses_def Let_def)
  then have "as_min_sample lone_settings \<le> bl_sample_size b"
    using b by (auto simp: calculate_rep_discount_baseline_def Let_def lone_settings_def small_deal_def)
  note a = anomaly_alert_agrees[OF alerts_ok_awaiting r b this]
  then have "length (map (Some \<circ> al_severity) (opens (d_id ?d) DISCOUNT_ANOMALY db')) \<le> 1" by (simp only:) simp
  then show ?thesis using r by (intro exI conjI) (assumption, simp)
qed

section \<open>The stalled-deal alert\<close>

lemma find_deal_alerts [simp]: "find_deal i (db\<lparr>db_alerts := x\<rparr>) = find_deal i db"
  "find_deal i (db\<lparr>db_alerts := x, db_next_id := n\<rparr>) = find_deal i db"
  by (simp_all add: find_deal_def)

lemma find_deal_event: "find_deal j (alert_event ev aid i now db) =
    (if j = i then map_option (\<lambda>d. d\<lparr>d_last_activity_at := now\<rparr>) (find_deal j db) else find_deal j db)"
  by (auto simp: alert_event_def find_deal_audit)

lemma opens_event [simp]: "opens j t (alert_event ev aid i now db) = opens j t db"
  by (simp add: opens_def)

text \<open>Raising or clearing an alert writes an audit event, which counts as activity on its deal.\<close>

lemma find_deal_raise:
  "find_deal j (snd (raise_alert i ty sev now db)) =
     (if j = i \<and> opens i ty db = [] then map_option (\<lambda>d. d\<lparr>d_last_activity_at := now\<rparr>) (find_deal j db)
      else find_deal j db)"
  by (auto simp: raise_alert_def Let_def find_deal_event filter_find opens_def split: option.splits list.splits)

lemma find_deal_clear:
  "j \<noteq> i \<Longrightarrow> find_deal j (clear_alert i ty now db) = find_deal j db"
  by (simp add: clear_alert_def find_deal_event split: option.splits)

lemma ids_event [simp]: "map d_id (db_deals (alert_event ev aid i now db)) = map d_id (db_deals db)"
  by (rule views_ids) simp

lemma ids_raise [simp]: "map d_id (db_deals (snd (raise_alert i ty sev now db))) = map d_id (db_deals db)"
  by (simp add: raise_alert_def Let_def split: option.splits)

lemma ids_clear [simp]: "map d_id (db_deals (clear_alert i ty now db)) = map d_id (db_deals db)"
  by (simp add: clear_alert_def split: option.splits)

definition deal_view :: "uuid \<Rightarrow> database \<Rightarrow> deal option \<times> deal_alert list" where
  "deal_view i db = (find_deal i db, opens i STALLED_DEAL db)"

lemma stalled_step_other:
  "d_id d \<noteq> i \<Longrightarrow> deal_view i (snd (stalled_step n now d acc)) = deal_view i (snd acc)"
  by (cases acc) (simp add: stalled_step_def Let_def split_beta deal_view_def find_deal_raise
      find_deal_clear opens_raise opens_clear)

lemma stalled_steps_other:
  "\<forall>d\<in>set ds. d_id d \<noteq> i \<Longrightarrow> deal_view i (snd (fold (stalled_step n now) ds acc)) = deal_view i (snd acc)"
  by (induction ds arbitrary: acc) (simp_all add: stalled_step_other)

lemma ids_stalled_step [simp]: "map d_id (db_deals (snd (stalled_step n now d acc))) = map d_id (db_deals (snd acc))"
  by (cases acc) (simp add: stalled_step_def Let_def split_beta)

lemma ids_stalled_steps [simp]:
  "map d_id (db_deals (snd (fold (stalled_step n now) ds acc))) = map d_id (db_deals (snd acc))"
  by (induction ds arbitrary: acc) simp_all

lemma ids_resolve_closed [simp]: "map d_id (db_deals (resolve_closed now a db)) = map d_id (db_deals db)"
  by (simp add: resolve_closed_def update_alert_def)

lemma resolve_closed_other:
  assumes "alerts_ok db" and "a \<in> set as" and "\<forall>b\<in>set (opens i STALLED_DEAL db). al_id b \<noteq> al_id a"
    and "al_deal_id a \<noteq> i"
  shows "deal_view i (resolve_closed now a db) = deal_view i db"
proof -
  have "filter (\<lambda>b. al_id b \<noteq> al_id a) (opens i STALLED_DEAL db) = opens i STALLED_DEAL db"
    using assms(3) by (intro filter_True) blast
  moreover have "find_deal i (update_alert k f db) = find_deal i db" for k f
    by (simp add: update_alert_def)
  ultimately show ?thesis using assms(4)
    by (simp add: deal_view_def resolve_closed_def find_deal_event opens_update_resolved)
qed

text \<open>The second loop leaves a deal of the pipeline alone.\<close>

lemma resolve_closed_steps:
  assumes "alerts_ok db" and "\<forall>a\<in>set as. al_deal_id a \<noteq> i \<and> (\<forall>b\<in>set (opens i STALLED_DEAL db). al_id b \<noteq> al_id a)"
  shows "deal_view i (fold (resolve_closed now) as db) = deal_view i db"
  using assms
proof (induction as arbitrary: db)
  case (Cons a as)
  have v: "deal_view i (resolve_closed now a db) = deal_view i db"
    using resolve_closed_other[OF Cons.prems(1), of a "a # as"] Cons.prems(2) by simp
  then have "opens i STALLED_DEAL (resolve_closed now a db) = opens i STALLED_DEAL db" by (simp add: deal_view_def)
  then show ?case using Cons.IH[OF alerts_ok_resolve_closed[OF Cons.prems(1)], of now a] Cons.prems(2) v by simp
qed simp

lemma closed_not_active:
  assumes ok: "alerts_ok db" and ids: "distinct (map d_id (db_deals db))"
    and d: "find_deal i db = Some d" "d_status d \<in> set active_statuses" and a: "a \<in> set (stalled_of_closed db)"
  shows "al_deal_id a \<noteq> i \<and> (\<forall>b\<in>set (opens i STALLED_DEAL db). al_id b \<noteq> al_id a)"
proof -
  obtain e where e: "a \<in> set (db_alerts db)" "e \<in> set (db_deals db)" "d_id e = al_deal_id a"
      "d_status e \<in> set TERMINAL_DEAL_STATUSES"
    using a by (auto simp: stalled_of_closed_def split: if_splits)
  have "al_deal_id a \<noteq> i"
  proof
    assume "al_deal_id a = i"
    then have "d_id e = d_id d" using e(3) find_deal_in[OF d(1)] by simp
    then have "e = d" using e(2) find_deal_in[OF d(1)] ids unfolding distinct_map by (metis inj_onD)
    then show False using e(4) d(2) by (auto simp: TERMINAL_DEAL_STATUSES_def active_statuses_def)
  qed
  moreover have "b = a" if "b \<in> set (opens i STALLED_DEAL db)" "al_id b = al_id a" for b
    using ok that e(1) by (auto simp: alerts_ok_def opens_def distinct_map dest: inj_onD)
  ultimately show ?thesis by (auto simp: opens_def is_open_alert_def)
qed

text \<open>What a pass does to one deal of the pipeline is its own step.\<close>

lemma stalled_pass_view:
  assumes ok: "alerts_ok db" and ids: "distinct (map d_id (db_deals db))"
    and d: "find_deal i db = Some d" "d_status d \<in> set active_statuses"
  shows "\<exists>ids0 db0. deal_view i db0 = deal_view i db \<and>
    deal_view i (snd (stalled_pass n now db)) = deal_view i (snd (stalled_step n now d (ids0, db0)))"
proof -
  define act where "act = filter (\<lambda>d. d_status d \<in> set active_statuses) (db_deals db)"
  have "d \<in> set act" using find_deal_in[OF d(1)] d(2) by (simp add: act_def)
  then obtain xs ys where act: "act = xs @ d # ys" by (auto simp: in_set_conv_decomp)
  have "distinct (map d_id act)" using ids by (simp add: act_def distinct_map_filter)
  then have "i \<notin> d_id ` set xs" "i \<notin> d_id ` set ys" using find_deal_in[OF d(1)] by (auto simp: act)
  then have others: "\<forall>e\<in>set xs. d_id e \<noteq> i" "\<forall>e\<in>set ys. d_id e \<noteq> i" by blast+
  define acc0 where "acc0 = fold (stalled_step n now) xs ([], db)"
  define acc1 where "acc1 = fold (stalled_step n now) act ([], db)"
  have v0: "deal_view i (snd acc0) = deal_view i db" using stalled_steps_other[OF others(1)] by (simp add: acc0_def)
  have v1: "deal_view i (snd acc1) = deal_view i (snd (stalled_step n now d acc0))"
    using stalled_steps_other[OF others(2)] by (simp add: acc1_def acc0_def act)
  have ok1: "alerts_ok (snd acc1)"
    unfolding acc1_def by (rule fold_snd_invariant[where P = alerts_ok]) (simp_all add: alerts_ok_stalled_step ok)
  have ids1: "distinct (map d_id (db_deals (snd acc1)))" using ids by (simp add: acc1_def)
  have "find_deal i (snd acc1) = find_deal i (snd (stalled_step n now d acc0))" using v1 by (simp add: deal_view_def)
  also have "\<exists>e. \<dots> = Some e \<and> d_status e = d_status d"
    using v0 d(1) find_deal_in[OF d(1)]
    by (cases acc0) (auto simp: stalled_step_def Let_def split_beta find_deal_raise deal_view_def clear_alert_def
        find_deal_event split: option.splits)
  finally obtain e where e: "find_deal i (snd acc1) = Some e" "d_status e = d_status d" by blast
  have "d_status e \<in> set active_statuses" using e(2) d(2) by simp
  note away = closed_not_active[OF ok1 ids1 e(1) this]
  have "deal_view i (fold (resolve_closed now) (stalled_of_closed (snd acc1)) (snd acc1)) = deal_view i (snd acc1)"
    by (rule resolve_closed_steps[OF ok1]) (use away in blast)
  then have "deal_view i (snd (stalled_pass n now db)) = deal_view i (snd (stalled_step n now d acc0))"
    using v1 by (simp add: stalled_pass_def split_beta acc1_def act_def)
  then show ?thesis using v0 by (metis prod.collapse)
qed

lemma stalled_pass_ids [simp]: "map d_id (db_deals (snd (stalled_pass n now db))) = map d_id (db_deals db)"
proof -
  have "map d_id (db_deals (fold (resolve_closed now) as db)) = map d_id (db_deals db)" for as db
    by (induction as arbitrary: db) simp_all
  then show ?thesis by (simp add: stalled_pass_def split_beta)
qed

text \<open>
  A stalled-deal alert clears itself. A run of the detector raises the alert of an idle deal, and
  by recording that counts as activity on the deal; the next run, any time before the deal would
  count as idle again, finds it active and resolves the alert, although nobody has touched the deal.
\<close>

theorem stalled_alert_clears_itself:
  assumes "alerts_ok db" and "distinct (map d_id (db_deals db))"
    and "find_deal i db = Some d" and "d_status d \<in> set active_statuses"
    and "opens i STALLED_DEAL db = []" and "of_int n \<le> idle_days now (d_last_activity_at d)"
    and "idle_days now' now < of_int n" and "db1 = snd (stalled_pass n now db)"
  shows "opens i STALLED_DEAL db1 \<noteq> [] \<and> opens i STALLED_DEAL (snd (stalled_pass n now' db1)) = []"
proof -
  have i: "d_id d = i" using find_deal_in[OF assms(3)] by simp
  obtain ids0 db0 where s: "deal_view i db0 = deal_view i db"
      "deal_view i db1 = deal_view i (snd (stalled_step n now d (ids0, db0)))"
    using stalled_pass_view[OF assms(1-4), of n now] assms(8) by blast
  have f0: "find_deal i db0 = Some d" "opens i STALLED_DEAL db0 = []" using s(1) assms(3,5) by (simp_all add: deal_view_def)
  let ?sv = "stalled_severity n (idle_days now (d_last_activity_at d))"
  have v1: "deal_view i db1 = (find_deal i (snd (raise_alert i STALLED_DEAL ?sv now db0)),
      opens i STALLED_DEAL (snd (raise_alert i STALLED_DEAL ?sv now db0)))"
    using s(2) assms(6) by (simp add: stalled_step_def Let_def split_beta i deal_view_def)
  then have d1: "find_deal i db1 = Some (d\<lparr>d_last_activity_at := now\<rparr>)"
    by (simp add: deal_view_def find_deal_raise f0)
  have o1: "length (opens i STALLED_DEAL db1) = 1" using v1 by (simp add: deal_view_def opens_raise f0)
  have ok1: "alerts_ok db1" unfolding assms(8) by (rule alerts_ok_stalled_pass[OF assms(1)])
  have ids1: "distinct (map d_id (db_deals db1))" using assms(2,8) by simp
  obtain ids2 db2 where t: "deal_view i db2 = deal_view i db1"
      "deal_view i (snd (stalled_pass n now' db1)) =
        deal_view i (snd (stalled_step n now' (d\<lparr>d_last_activity_at := now\<rparr>) (ids2, db2)))"
    using stalled_pass_view[OF ok1 ids1 d1, of n now'] assms(4) by auto
  have "opens i STALLED_DEAL (snd (stalled_pass n now' db1)) = tl (opens i STALLED_DEAL db1)"
    using t assms(7) by (simp add: deal_view_def stalled_step_def Let_def i opens_clear)
  then show ?thesis using o1 by (cases "opens i STALLED_DEAL db1") auto
qed

text \<open>Ten days without activity, then a second run at once.\<close>

theorem stalled_alert_clears_itself_witness:
  "opens 6 STALLED_DEAL (snd (stalled_pass 7 864000000000 awaiting_db)) \<noteq> [] \<and>
   opens 6 STALLED_DEAL (snd (stalled_pass 7 864000000000 (snd (stalled_pass 7 864000000000 awaiting_db)))) = []"
proof (rule stalled_alert_clears_itself[OF alerts_ok_awaiting _ awaiting_lookup(2) _ _ _ _ refl])
  have "float_repr 10 = 10" using float_repr_digit[of 1 1] by simp
  then show "of_int 7 \<le> idle_days 864000000000 (d_last_activity_at (small_deal PENDING_MANAGER MANAGER_AND_FINANCE))"
    by (simp add: idle_days_def elapsed_days_def small_deal_def decimal_eval)
  show "idle_days 864000000000 864000000000 < of_int 7"
    by (simp add: idle_days_def elapsed_days_def fdiv_def)
qed (simp_all add: awaiting_db_def active_statuses_def opens_def small_db_def empty_database_def)

section \<open>Escalation\<close>

text \<open>
  Only a sales manager or an administrator may escalate an alert, or finance when it is about
  delivery; an escalation that is let through leaves the alert at high severity under the actor's
  name, and whatever is refused changes nothing.
\<close>

theorem escalation_guarded:
  assumes "nudge_or_escalate_alert i ''ESCALATE'' user role w = (res, w')"
  shows "if isl res then w' = w
    else \<exists>a. find_alert i (w_db w) = Some a \<and>
      (role \<in> {SALES_MANAGER, ADMIN} \<or> al_type a = DELIVERY_SLIPPAGE \<and> role = Role.FINANCE) \<and>
      map_option al_severity (find_alert i (w_db w')) = Some RiskSeverity.HIGH \<and>
      map_option al_last_action_by (find_alert i (w_db w')) = Some (Some user)"
proof -
  have f: "find_alert i (record_audit_event t et ei di ty ai ar now db) = find_alert i db"
    "find_alert i (alert_notice r t' i now db) = find_alert i db" for t et ei di ty ai ar now db r t'
    by (simp_all add: find_alert_def)
  show ?thesis using assms
    by (auto simp: nudge_or_escalate_alert_def Let_def may_escalate_def f alerts.lookup_modify acted_def
        split: option.splits if_splits)
qed

definition slipping_db :: database where
  "slipping_db = awaiting_db\<lparr>db_alerts := [\<lparr>al_id = 8, al_deal_id = 6, al_type = DELIVERY_SLIPPAGE,
     al_severity = RiskSeverity.MEDIUM, al_status = AlertStatus.OPEN, al_raised_at = 0,
     al_acknowledged_by = None, al_acknowledged_at = None, al_resolved_at = None,
     al_last_action = None, al_last_action_at = None, al_last_action_by = None\<rparr>]\<rparr>"

theorem escalation_guarded_witness:
  "map_option al_severity (find_alert 8 (w_db (snd (nudge_or_escalate_alert 8 ''ESCALATE'' 9 Role.FINANCE
     (small_world slipping_db))))) = Some RiskSeverity.HIGH"
proof -
  have "\<not> isl (fst (nudge_or_escalate_alert 8 ''ESCALATE'' 9 Role.FINANCE (small_world slipping_db)))"
    by (simp add: nudge_or_escalate_alert_def Let_def slipping_db_def find_alert_def may_escalate_def)
  then show ?thesis
    using escalation_guarded[of 8 9 Role.FINANCE "small_world slipping_db", OF prod.collapse[symmetric]] by auto
qed

end
