(* ===== verification/Risk.thy ===== *)
theory Risk
  imports Fixture
begin

text \<open>
  The risk engine, \<^verbatim>\<open>calculate_deal_risk\<close> of \<^verbatim>\<open>app/guardian/risk.py\<close>: the overage of every line over
  its ceiling, the four kinds of risk factor with the points they contribute, the score, the
  severity band and the approval level. Every step is decimal arithmetic rounded to 28 digits.

  The lemmas follow the calculation: overages and weights are non-negative, a line's share of the
  discount points is at most one, so the points of the lines are cents whose sum is exact and the
  correction on the line of the greatest overage makes the factors add up to the discount points.
\<close>

section \<open>Parameters, factors and result\<close>

record risk_params =
  rk_minimum_margin_pct :: dec
  rk_manager_threshold :: dec
  rk_finance_threshold :: dec
  rk_single_line_finance_pts :: dec
  rk_w_discount_max :: dec
  rk_w_discount_weighted :: dec
  rk_w_discount_ratio :: dec
  rk_discount_cap :: dec
  rk_w_margin :: dec
  rk_margin_cap :: dec
  rk_inv_split_points :: dec
  rk_inv_backorder_points :: dec
  rk_inv_cap :: dec

definition default_risk_params :: risk_params where
  "default_risk_params = \<lparr>rk_minimum_margin_pct = 20, rk_manager_threshold = 20,
     rk_finance_threshold = 50, rk_single_line_finance_pts = 10, rk_w_discount_max = 5,
     rk_w_discount_weighted = 2, rk_w_discount_ratio = 10, rk_discount_cap = 60, rk_w_margin = 3,
     rk_margin_cap = 25, rk_inv_split_points = 8, rk_inv_backorder_points = 20, rk_inv_cap = 20\<rparr>"

record risk_factor_detail =
  fd_factor_type :: RiskFactorType
  fd_source_reference :: risk_source
  fd_raw_value :: dec
  fd_weight :: dec
  fd_contribution :: dec
  fd_reason :: risk_reason
  fd_detail :: risk_detail

record risk_calculation_result =
  rcr_risk_score :: dec
  rcr_severity :: RiskSeverity
  rcr_required_level :: ApprovalLevel
  rcr_decision :: string
  rcr_factors :: "risk_factor_detail list"
  rcr_max_overage :: dec
  rcr_weighted_overage :: dec
  rcr_violation_ratio :: dec
  rcr_margin_pct :: dec
  rcr_minimum_margin_pct :: dec

section \<open>Discount overages\<close>

record line_overage =
  lo_line :: deal_line_context
  lo_effective :: dec
  lo_ceiling :: dec
  lo_overage :: dec
  lo_list_amt :: dec
  lo_weight :: dec

definition effective_discount :: "dec \<Rightarrow> dec \<Rightarrow> dec" where
  "effective_discount order_discount_pct discount_pct =
     quantize (if 0 < order_discount_pct
       then dmul 100 (dsub 1 (dmul (dsub 1 (ddiv discount_pct 100)) (dsub 1 (ddiv order_discount_pct 100))))
       else discount_pct) 4"

definition overage_of :: "dec \<Rightarrow> dec \<Rightarrow> dec" where
  "overage_of eff ceil_pct = quantize (max 0 (dsub eff ceil_pct)) 4"

definition list_amount :: "deal_line_context \<Rightarrow> dec" where
  "list_amount l = dmul (dl_qty l) (dl_price_unit l)"

definition line_ceiling :: "deal_context \<Rightarrow> (odoo_id \<times> dec) list \<Rightarrow> deal_line_context \<Rightarrow> dec" where
  "line_ceiling ctx line_ceilings l =
     (case map_of line_ceilings (dl_line_id l) of None \<Rightarrow> dc_tier_default_ceiling ctx | Some c \<Rightarrow> c)"

definition line_overages :: "deal_context \<Rightarrow> (odoo_id \<times> dec) list \<Rightarrow> line_overage list" where
  "line_overages ctx line_ceilings =
     (let total_list = dsum (map list_amount (dc_lines ctx)) in
      map (\<lambda>l. let c = line_ceiling ctx line_ceilings l;
                   eff = effective_discount (dc_order_discount_pct ctx) (dl_discount_pct l);
                   list_amt = list_amount l in
        \<lparr>lo_line = l, lo_effective = eff, lo_ceiling = c, lo_overage = overage_of eff c,
         lo_list_amt = list_amt,
         lo_weight = (if 0 < total_list then ddiv list_amt total_list else 0)\<rparr>)
      (dc_lines ctx))"

text \<open>\<^verbatim>\<open>max(xs, default=Decimal("0.00"))\<close>.\<close>

fun max_default :: "dec list \<Rightarrow> dec" where
  "max_default [] = 0"
| "max_default (x # xs) = foldl max x xs"

definition weighted :: "line_overage \<Rightarrow> dec" where
  "weighted ov = dmul (lo_overage ov) (lo_weight ov)"

definition violating :: "line_overage list \<Rightarrow> line_overage list" where
  "violating ovs = filter (\<lambda>ov. 0 < lo_overage ov) ovs"

definition violation_ratio :: "line_overage list \<Rightarrow> dec" where
  "violation_ratio ovs =
     (if ovs = [] then 0 else ddiv (of_nat (length (violating ovs))) (of_nat (length ovs)))"

definition discount_excess :: "risk_params \<Rightarrow> line_overage list \<Rightarrow> dec" where
  "discount_excess prm ovs =
     quantize (min (rk_discount_cap prm)
       (dadd (dadd (dmul (rk_w_discount_max prm) (max_default (map lo_overage ovs)))
                   (dmul (rk_w_discount_weighted prm) (dsum (map weighted ovs))))
             (dmul (rk_w_discount_ratio prm) (violation_ratio ovs)))) 2"

text \<open>A violating line's share of the discount points, and its points before the correction.\<close>

definition line_share :: "line_overage list \<Rightarrow> line_overage \<Rightarrow> dec" where
  "line_share vs ov =
     (let sum_overage_weight = dsum (map weighted vs) in
      if 0 < sum_overage_weight then ddiv (weighted ov) sum_overage_weight
      else ddiv 1 (of_nat (length vs)))"

definition line_contrib :: "dec \<Rightarrow> line_overage list \<Rightarrow> line_overage \<Rightarrow> dec" where
  "line_contrib contrib vs ov = quantize (dmul contrib (line_share vs ov)) 2"

definition discount_factor :: "risk_params \<Rightarrow> dec \<Rightarrow> line_overage list \<Rightarrow> line_overage \<Rightarrow> risk_factor_detail" where
  "discount_factor prm contrib vs ov =
     (let l = lo_line ov in
      \<lparr>fd_factor_type = RiskFactorType.DISCOUNT_EXCESS, fd_source_reference = LineSource (dl_line_id l),
       fd_raw_value = lo_overage ov, fd_weight = rk_w_discount_max prm,
       fd_contribution = line_contrib contrib vs ov,
       fd_reason = DiscountReason (dl_product_name l) (lo_effective ov) (lo_ceiling ov) (lo_overage ov),
       fd_detail = LineDetail (dl_line_id l) (dl_product_id l) (fl64 (lo_effective ov))
         (fl64 (lo_ceiling ov)) (fl64 (lo_overage ov))\<rparr>)"

text \<open>
  The loop's \<^verbatim>\<open>max_line_entry\<close>: the position of the first line of the greatest overage, searched from
  \<open>highest\<close> (minus one at the start).
\<close>

fun max_line_entry :: "nat \<Rightarrow> dec \<Rightarrow> nat option \<Rightarrow> line_overage list \<Rightarrow> nat option" where
  "max_line_entry i highest e [] = e"
| "max_line_entry i highest e (ov # ovs) =
     (if highest < lo_overage ov then max_line_entry (Suc i) (lo_overage ov) (Some i) ovs
      else max_line_entry (Suc i) highest e ovs)"

definition add_contribution :: "dec \<Rightarrow> risk_factor_detail \<Rightarrow> risk_factor_detail" where
  "add_contribution d f = f\<lparr>fd_contribution := dadd (fd_contribution f) d\<rparr>"

definition apportion :: "risk_params \<Rightarrow> dec \<Rightarrow> line_overage list \<Rightarrow> risk_factor_detail list" where
  "apportion prm contrib vs =
     (let factors = map (discount_factor prm contrib vs) vs;
          diff = dsub contrib (dsum (map fd_contribution factors)) in
      if diff \<noteq> 0
      then (case max_line_entry 0 (- 1) None vs of
              None \<Rightarrow> factors
            | Some i \<Rightarrow> factors[i := add_contribution diff (factors ! i)])
      else factors)"

definition discount_factors :: "risk_params \<Rightarrow> line_overage list \<Rightarrow> risk_factor_detail list" where
  "discount_factors prm ovs =
     (let contrib = discount_excess prm ovs in
      if 0 < contrib then apportion prm contrib (violating ovs) else [])"

section \<open>Margin, inventory and negotiation\<close>

definition risk_margin_pct :: "line_overage list \<Rightarrow> dec" where
  "risk_margin_pct ovs =
     (let total_net = dsum (map (\<lambda>ov. dmul (lo_list_amt ov) (dsub 1 (ddiv (lo_effective ov) 100))) ovs);
          total_cost = dsum (map (\<lambda>ov. dl_cost_subtotal (lo_line ov)) ovs);
          total_margin = dsub total_net total_cost in
      quantize (if 0 < total_net then dmul (ddiv total_margin total_net) 100 else 0) 2)"

definition margin_factors :: "risk_params \<Rightarrow> dec \<Rightarrow> risk_factor_detail list" where
  "margin_factors prm margin_pct =
     (if margin_pct < rk_minimum_margin_pct prm then
        let gap = dsub (rk_minimum_margin_pct prm) margin_pct in
        [\<lparr>fd_factor_type = RiskFactorType.MARGIN_EXPOSURE, fd_source_reference = MarginSource,
          fd_raw_value = gap, fd_weight = rk_w_margin prm,
          fd_contribution = min (rk_margin_cap prm) (quantize (dmul (rk_w_margin prm) gap) 2),
          fd_reason = MarginReason margin_pct (rk_minimum_margin_pct prm) gap,
          fd_detail = MarginDetail (fl64 margin_pct) (fl64 (rk_minimum_margin_pct prm)) (fl64 gap)\<rparr>]
      else [])"

text \<open>One turn of the inventory loop: points, reason and the products that are short.\<close>

definition inventory_step ::
    "risk_params \<Rightarrow> dec \<times> risk_reason \<times> string list \<Rightarrow> deal_line_context \<Rightarrow> dec \<times> risk_reason \<times> string list" where
  "inventory_step prm acc l = (case acc of (points, reason, short) \<Rightarrow>
     if is_stockable (dl_product_type l) then
       if dl_available_qty l < pyint (dl_qty l) then
         (max points (rk_inv_backorder_points prm),
          ShortageReason (dl_product_name l) (dl_qty l) (dl_available_qty l), short @ [dl_product_name l])
       else if dl_inventory_shortage l then
         (max points (rk_inv_split_points prm), SplitReason (dl_product_name l), short)
       else acc
     else acc)"

definition inventory_factors :: "risk_params \<Rightarrow> deal_line_context list \<Rightarrow> risk_factor_detail list" where
  "inventory_factors prm ls =
     (let (points, reason, short) = foldl (inventory_step prm) (0, CoveredReason, []) ls;
          inv_points = min (rk_inv_cap prm) points in
      if 0 < inv_points then
        [\<lparr>fd_factor_type = RiskFactorType.INVENTORY_RISK, fd_source_reference = InventorySource,
          fd_raw_value = inv_points, fd_weight = 1, fd_contribution = inv_points,
          fd_reason = reason, fd_detail = InventoryDetail short\<rparr>]
      else [])"

definition negotiation_factors :: "bool \<Rightarrow> risk_factor_detail list" where
  "negotiation_factors has_open_negotiation_counter =
     (if has_open_negotiation_counter then
        [\<lparr>fd_factor_type = RiskFactorType.NEGOTIATION_PRESSURE, fd_source_reference = NegotiationSource,
          fd_raw_value = 1, fd_weight = 5, fd_contribution = 5, fd_reason = NegotiationReason,
          fd_detail = EmptyDetail\<rparr>]
      else [])"

section \<open>Score, severity and level\<close>

definition total_score :: "risk_factor_detail list \<Rightarrow> dec" where
  "total_score factors = min 100 (quantize (dsum (map fd_contribution factors)) 2)"

definition severity_band :: "risk_params \<Rightarrow> dec \<Rightarrow> RiskSeverity" where
  "severity_band prm score =
     (if score < rk_manager_threshold prm then RiskSeverity.LOW
      else if score \<le> rk_finance_threshold prm then RiskSeverity.MEDIUM
      else RiskSeverity.HIGH)"

definition routing_level :: "risk_params \<Rightarrow> dec \<Rightarrow> dec \<Rightarrow> ApprovalLevel \<times> string" where
  "routing_level prm max_overage score =
     (if max_overage = 0 \<and> score < rk_manager_threshold prm then (ApprovalLevel.NONE, ''AUTO_APPROVED'')
      else if rk_finance_threshold prm < score \<or> rk_single_line_finance_pts prm \<le> max_overage
      then (ApprovalLevel.MANAGER_AND_FINANCE, ''FINANCE_APPROVAL_REQUIRED'')
      else (ApprovalLevel.MANAGER, ''MANAGER_APPROVAL_REQUIRED''))"

definition risk_factors_of ::
    "deal_context \<Rightarrow> (odoo_id \<times> dec) list \<Rightarrow> risk_params \<Rightarrow> bool \<Rightarrow> risk_factor_detail list" where
  "risk_factors_of ctx line_ceilings prm counter =
     (let ovs = line_overages ctx line_ceilings in
      discount_factors prm ovs @ margin_factors prm (risk_margin_pct ovs) @
      inventory_factors prm (dc_lines ctx) @ negotiation_factors counter)"

definition calculate_deal_risk ::
    "deal_context \<Rightarrow> (odoo_id \<times> dec) list \<Rightarrow> risk_params \<Rightarrow> bool \<Rightarrow> risk_calculation_result" where
  "calculate_deal_risk ctx line_ceilings prm has_open_negotiation_counter =
     (let ovs = line_overages ctx line_ceilings;
          factors = risk_factors_of ctx line_ceilings prm has_open_negotiation_counter;
          max_overage = max_default (map lo_overage ovs);
          risk_score = total_score factors;
          (required_level, decision) = routing_level prm max_overage risk_score in
      \<lparr>rcr_risk_score = risk_score, rcr_severity = severity_band prm risk_score,
       rcr_required_level = required_level, rcr_decision = decision, rcr_factors = factors,
       rcr_max_overage = max_overage, rcr_weighted_overage = dsum (map weighted ovs),
       rcr_violation_ratio = violation_ratio ovs, rcr_margin_pct = risk_margin_pct ovs,
       rcr_minimum_margin_pct = rk_minimum_margin_pct prm\<rparr>)"

section \<open>Overages, weights and shares\<close>

text \<open>Sensible parameters: non-negative weights, and caps and points that are cents up to a hundred.\<close>

definition points_ok :: "dec \<Rightarrow> bool" where
  "points_ok x \<longleftrightarrow> cents x \<and> 0 \<le> x \<and> x \<le> 100"

definition risk_params_ok :: "risk_params \<Rightarrow> bool" where
  "risk_params_ok prm \<longleftrightarrow> 0 \<le> rk_w_discount_max prm \<and> 0 \<le> rk_w_discount_weighted prm \<and>
     0 \<le> rk_w_discount_ratio prm \<and> 0 \<le> rk_w_margin prm \<and> points_ok (rk_discount_cap prm) \<and>
     points_ok (rk_margin_cap prm) \<and> points_ok (rk_inv_split_points prm) \<and>
     points_ok (rk_inv_backorder_points prm) \<and> points_ok (rk_inv_cap prm)"

text \<open>Every line sells a non-negative quantity at a non-negative price; ten to the twenty lines.\<close>

definition context_ok :: "deal_context \<Rightarrow> bool" where
  "context_ok ctx \<longleftrightarrow> (\<forall>l\<in>set (dc_lines ctx). 0 \<le> dl_qty l \<and> 0 \<le> dl_price_unit l) \<and>
     of_nat (length (dc_lines ctx)) < (10 ^ 20 :: rat)"

lemma default_risk_params_ok: "risk_params_ok default_risk_params"
  by (simp add: risk_params_ok_def default_risk_params_def points_ok_def cents_intros)

lemma overage_nonneg [simp]: "0 \<le> overage_of e c"
  by (simp add: overage_of_def quantize_nonneg)

lemma line_overages_length [simp]: "length (line_overages ctx cs) = length (dc_lines ctx)"
  by (simp add: line_overages_def Let_def)

lemma line_overages_nonneg:
  assumes "context_ok ctx" and "ov \<in> set (line_overages ctx cs)"
  shows "0 \<le> lo_overage ov" and "0 \<le> lo_weight ov"
  using assms
  by (auto simp: line_overages_def Let_def context_ok_def list_amount_def dmul_nonneg ddiv_nonneg)

definition ovs_ok :: "line_overage list \<Rightarrow> bool" where
  "ovs_ok ovs \<longleftrightarrow> (\<forall>ov\<in>set ovs. 0 \<le> lo_overage ov \<and> 0 \<le> lo_weight ov) \<and>
     of_nat (length ovs) < (10 ^ 20 :: rat)"

lemma line_overages_ok: "context_ok ctx \<Longrightarrow> ovs_ok (line_overages ctx cs)"
  using line_overages_nonneg by (auto simp: ovs_ok_def context_ok_def)

lemma ovs_ok_violating: "ovs_ok ovs \<Longrightarrow> ovs_ok (violating ovs)"
  by (auto simp: ovs_ok_def violating_def intro: order.strict_trans1[OF length_filter_le])

lemma weighted_nonneg: "ovs_ok ovs \<Longrightarrow> ov \<in> set ovs \<Longrightarrow> 0 \<le> weighted ov"
  by (simp add: ovs_ok_def weighted_def dmul_nonneg)

lemma weighted_sum_ge: "ovs_ok ovs \<Longrightarrow> ov \<in> set ovs \<Longrightarrow> weighted ov \<le> dsum (map weighted ovs)"
  by (rule dsum_ge_member) (auto simp: weighted_nonneg, simp add: weighted_def dmul_def)

lemma ddiv_le_1: "0 \<le> x \<Longrightarrow> x \<le> y \<Longrightarrow> 0 < y \<Longrightarrow> ddiv x y \<le> 1"
  using ddiv_mono[of y x y] by (simp add: ddiv_def)

lemma line_share_bounds:
  assumes "ovs_ok vs" and "ov \<in> set vs"
  shows "0 \<le> line_share vs ov" and "line_share vs ov \<le> 1"
proof -
  have n: "1 \<le> (of_nat (length vs) :: rat)" using assms(2) by (cases vs) auto
  have ne: "vs \<noteq> []" using assms(2) by auto
  note w = weighted_nonneg[OF assms] weighted_sum_ge[OF assms]
  show "0 \<le> line_share vs ov" using w n by (simp add: line_share_def Let_def ddiv_nonneg)
  show "line_share vs ov \<le> 1"
    using w n ne ddiv_le_1[of "weighted ov" "dsum (map weighted vs)"] ddiv_le_1[of 1 "of_nat (length vs)"]
    by (auto simp: line_share_def Let_def)
qed

lemma line_contrib_bounds:
  assumes "ovs_ok vs" and "ov \<in> set vs" and "points_ok c"
  shows "0 \<le> line_contrib c vs ov" and "line_contrib c vs ov \<le> c" and "cents (line_contrib c vs ov)"
proof -
  have c: "cents c" "0 \<le> c" "c \<le> 100" using assms(3) by (auto simp: points_ok_def)
  note s = line_share_bounds[OF assms(1,2)]
  show "0 \<le> line_contrib c vs ov" using c s by (simp add: line_contrib_def quantize_nonneg dmul_nonneg)
  have "c * line_share vs ov \<le> c * 1" using c s by (intro mult_left_mono) auto
  then have "dmul c (line_share vs ov) \<le> ctx28 c" unfolding dmul_def by (intro ctx28_mono) simp
  also have "ctx28 c = c" using c by (intro ctx28_cents) auto
  finally have "quantize (dmul c (line_share vs ov)) 2 \<le> quantize c 2" by (rule quantize_mono)
  then show "line_contrib c vs ov \<le> c" using c by (simp add: line_contrib_def)
  show "cents (line_contrib c vs ov)" by (simp add: line_contrib_def cents_quantize)
qed

section \<open>The apportionment\<close>

lemma max_line_entry_keeps: "e \<noteq> None \<Longrightarrow> max_line_entry i h e ovs \<noteq> None"
  by (induction i h e ovs rule: max_line_entry.induct) auto

lemma max_line_entry_range:
  "max_line_entry i h e ovs = Some k \<Longrightarrow> e = Some k \<or> (i \<le> k \<and> k < i + length ovs)"
  by (induction i h e ovs rule: max_line_entry.induct) (force split: if_splits)+

lemma max_line_entry_violating:
  assumes "vs \<noteq> []" and "\<forall>ov\<in>set vs. 0 \<le> lo_overage ov"
  obtains k where "max_line_entry 0 (- 1) None vs = Some k" and "k < length vs"
proof -
  have "max_line_entry 0 (- 1) None vs \<noteq> None"
    using assms max_line_entry_keeps by (cases vs) force+
  then obtain k where k: "max_line_entry 0 (- 1) None vs = Some k" by auto
  with max_line_entry_range[OF k] that show ?thesis by auto
qed

lemma sum_list_update_rat:
  "k < length xs \<Longrightarrow> sum_list (xs[k := y]) = sum_list xs - xs ! k + (y :: rat)"
  by (induction xs arbitrary: k) (auto split: nat.splits)

lemma sum_list_bounds:
  "(\<And>x. x \<in> set xs \<Longrightarrow> 0 \<le> f x \<and> f x \<le> (c :: rat)) \<Longrightarrow>
     0 \<le> sum_list (map f xs) \<and> sum_list (map f xs) \<le> of_nat (length xs) * c"
  by (induction xs) (auto simp: algebra_simps intro!: add_mono)

definition contribs_ok :: "risk_factor_detail list \<Rightarrow> bool" where
  "contribs_ok fs \<longleftrightarrow> (\<forall>f\<in>set fs. cents (fd_contribution f)) \<and>
     sum_list (map (\<lambda>f. \<bar>fd_contribution f\<bar>) fs) < 10 ^ 25"

lemma apportion_sum:
  assumes ok: "ovs_ok vs" and ne: "vs \<noteq> []" and c: "points_ok c"
  shows "sum_list (map fd_contribution (apportion prm c vs)) = c" and "contribs_ok (apportion prm c vs)"
proof -
  let ?f = "discount_factor prm c vs"
  let ?xs = "map (line_contrib c vs) vs"
  have cc: "cents c" "0 \<le> c" "c \<le> 100" using c by (auto simp: points_ok_def)
  have contrib: "fd_contribution (?f ov) = line_contrib c vs ov" for ov
    by (simp add: discount_factor_def Let_def)
  then have map_c: "map fd_contribution (map ?f vs) = ?xs" by simp
  note b = line_contrib_bounds[OF ok _ c]
  have sb: "0 \<le> sum_list ?xs" "sum_list ?xs \<le> of_nat (length vs) * c"
    using sum_list_bounds[of vs "line_contrib c vs" c] b by auto
  have n: "of_nat (length vs) * c \<le> 10 ^ 20 * 100"
    using ok cc by (intro mult_mono) (auto simp: ovs_ok_def)
  have abs_xs: "sum_list (map abs ?xs) = sum_list ?xs"
    using b(1) by (intro arg_cong[where f = sum_list]) (simp add: comp_def)
  have dsum_xs: "dsum ?xs = sum_list ?xs"
  proof (rule dsum_cents)
    show "sum_list (map abs ?xs) < 10 ^ 26" unfolding abs_xs using sb n by simp
  qed (use b in auto)
  have cents_sum: "cents (sum_list ?xs)" by (intro cents_sum_list) (auto simp: b(3))
  have diff: "dsub c (dsum ?xs) = c - sum_list ?xs"
    unfolding dsub_def dsum_xs using cc sb n cents_sum by (intro ctx28_cents cents_diff) auto
  obtain k where k: "max_line_entry 0 (- 1) None vs = Some k" "k < length vs"
    using max_line_entry_violating[OF ne] ok by (auto simp: ovs_ok_def)
  have xk: "0 \<le> line_contrib c vs (vs ! k)" "line_contrib c vs (vs ! k) \<le> c"
    "cents (line_contrib c vs (vs ! k))" using b[of "vs ! k"] k(2) by auto
  define y where "y = line_contrib c vs (vs ! k) + (c - sum_list ?xs)"
  have y: "dadd (line_contrib c vs (vs ! k)) (c - sum_list ?xs) = y"
    unfolding dadd_def y_def using cc sb n cents_sum xk
    by (intro ctx28_cents cents_add cents_diff) auto
  define fs where "fs = map ?f vs"
  have app: "map fd_contribution (apportion prm c vs) = (if sum_list ?xs = c then ?xs else ?xs[k := y])"
    using k diff y by (simp add: apportion_def Let_def map_c map_update add_contribution_def contrib
        comp_def)
  show "sum_list (map fd_contribution (apportion prm c vs)) = c"
    unfolding app using k(2) by (simp add: sum_list_update_rat y_def)
  have cy: "cents y" unfolding y_def using cc xk cents_sum by (intro cents_add cents_diff)
  have "set (map fd_contribution (apportion prm c vs)) \<subseteq> insert y (set ?xs)"
    unfolding app using set_update_subset_insert[of ?xs k y] by auto
  then have "\<forall>f\<in>set (apportion prm c vs). cents (fd_contribution f)" using cy b(3) by auto
  moreover have "sum_list (map abs (map fd_contribution (apportion prm c vs))) < 10 ^ 25"
  proof -
    have "\<bar>y\<bar> \<le> 3 * (10 ^ 20 * 100)" unfolding y_def using xk cc sb n by (simp add: abs_le_iff)
    moreover have "sum_list ((map abs ?xs)[k := \<bar>y\<bar>]) = sum_list ?xs - line_contrib c vs (vs ! k) + \<bar>y\<bar>"
      using k(2) xk abs_xs by (subst sum_list_update_rat) auto
    ultimately show ?thesis unfolding app using sb n xk abs_xs by (auto simp: map_update)
  qed
  ultimately show "contribs_ok (apportion prm c vs)" by (simp add: contribs_ok_def comp_def)
qed

section \<open>The discount points\<close>

lemma foldl_max_ge: "(y :: rat) \<in> insert x (set xs) \<Longrightarrow> y \<le> foldl max x xs"
proof (induction xs arbitrary: x y)
  case (Cons z zs)
  have "max x z \<le> foldl max (max x z) zs" by (rule Cons.IH) simp
  with Cons show ?case by force
qed simp

lemma foldl_max_in: "foldl max (x :: rat) xs \<in> insert x (set xs)"
proof (induction xs arbitrary: x)
  case (Cons z zs)
  from Cons.IH[of "max x z"] show ?case by (auto simp: max_def split: if_splits)
qed simp

lemma max_default_ge: "x \<in> set xs \<Longrightarrow> x \<le> max_default xs"
  using foldl_max_ge by (cases xs) auto

lemma max_default_in: "xs \<noteq> [] \<Longrightarrow> max_default xs \<in> set xs"
  using foldl_max_in by (cases xs) auto

lemma max_default_0_iff:
  "\<forall>x\<in>set xs. 0 \<le> x \<Longrightarrow> max_default xs = 0 \<longleftrightarrow> (\<forall>x\<in>set xs. x = 0)"
  using max_default_ge[of _ xs] max_default_in[of xs] by (cases "xs = []") force+

lemma max_default_nonneg: "\<forall>x\<in>set xs. 0 \<le> x \<Longrightarrow> 0 \<le> max_default xs"
  using max_default_in[of xs] by (cases "xs = []") auto

lemma violating_Nil_iff: "ovs_ok ovs \<Longrightarrow> violating ovs = [] \<longleftrightarrow> (\<forall>ov\<in>set ovs. lo_overage ov = 0)"
  by (force simp: violating_def filter_empty_conv ovs_ok_def)

lemma discount_excess_none:
  assumes "ovs_ok ovs" and "risk_params_ok prm" and "violating ovs = []"
  shows "discount_excess prm ovs = 0"
proof -
  have z: "\<forall>ov\<in>set ovs. lo_overage ov = 0" using violating_Nil_iff assms by blast
  then have "max_default (map lo_overage ovs) = 0" by (subst max_default_0_iff) auto
  moreover have "map weighted ovs = replicate (length ovs) 0"
    using z by (intro replicate_eqI) (auto simp: weighted_def dmul_def)
  moreover have "dsum (replicate n 0) = 0" for n by (induction n) (simp_all add: dsum_def dadd_def)
  ultimately show ?thesis using assms
    by (simp add: discount_excess_def violation_ratio_def dmul_def dadd_def ddiv_def
        risk_params_ok_def points_ok_def min_def)
qed

lemma discount_excess_points:
  assumes "ovs_ok ovs" and "risk_params_ok prm"
  shows "points_ok (discount_excess prm ovs)"
proof -
  have m: "0 \<le> max_default (map lo_overage ovs)"
    using assms(1) by (intro max_default_nonneg) (auto simp: ovs_ok_def)
  have w: "0 \<le> dsum (map weighted ovs)" by (intro dsum_nonneg) (auto simp: weighted_nonneg[OF assms(1)])
  have r: "0 \<le> violation_ratio ovs" by (simp add: violation_ratio_def ddiv_nonneg)
  have cap: "cents (rk_discount_cap prm)" "0 \<le> rk_discount_cap prm" "rk_discount_cap prm \<le> 100"
    using assms(2) by (auto simp: risk_params_ok_def points_ok_def)
  have "0 \<le> discount_excess prm ovs"
    using assms(2) m w r cap unfolding discount_excess_def risk_params_ok_def
    by (intro quantize_nonneg) (simp add: dadd_nonneg dmul_nonneg)
  moreover have "discount_excess prm ovs \<le> quantize (rk_discount_cap prm) 2"
    unfolding discount_excess_def by (intro quantize_mono) simp
  ultimately show ?thesis using cap by (simp add: points_ok_def discount_excess_def cents_quantize)
qed

lemma discount_factors_sum:
  assumes "ovs_ok ovs" and "risk_params_ok prm"
  shows "sum_list (map fd_contribution (discount_factors prm ovs)) = discount_excess prm ovs"
    and "contribs_ok (discount_factors prm ovs)"
proof -
  note c = discount_excess_points[OF assms]
  show "sum_list (map fd_contribution (discount_factors prm ovs)) = discount_excess prm ovs"
    using apportion_sum(1)[OF ovs_ok_violating[OF assms(1)] _ c] discount_excess_none[OF assms] c
    by (fastforce simp: discount_factors_def Let_def points_ok_def)
  show "contribs_ok (discount_factors prm ovs)"
    using apportion_sum(2)[OF ovs_ok_violating[OF assms(1)] _ c] discount_excess_none[OF assms]
    by (fastforce simp: discount_factors_def Let_def contribs_ok_def[of "[]"])
qed

section \<open>The other points\<close>

lemma margin_factors_points:
  assumes "risk_params_ok prm"
  shows "\<forall>f\<in>set (margin_factors prm m). points_ok (fd_contribution f)" and "length (margin_factors prm m) \<le> 1"
proof -
  have gap: "0 \<le> dsub (rk_minimum_margin_pct prm) m" if "m < rk_minimum_margin_pct prm"
    using that by (intro dsub_nonneg) simp
  show "\<forall>f\<in>set (margin_factors prm m). points_ok (fd_contribution f)"
    using assms gap
    by (auto simp: margin_factors_def Let_def risk_params_ok_def points_ok_def dmul_nonneg
        quantize_nonneg cents_min cents_quantize)
qed (simp add: margin_factors_def Let_def)

lemma inventory_fold_points:
  "risk_params_ok prm \<Longrightarrow> points_ok (fst acc) \<Longrightarrow> points_ok (fst (foldl (inventory_step prm) acc ls))"
proof (induction ls arbitrary: acc)
  case (Cons l ls)
  have "points_ok (fst (inventory_step prm acc l))"
    using Cons.prems by (cases acc) (auto simp: inventory_step_def risk_params_ok_def points_ok_def cents_max)
  then show ?case using Cons by simp
qed simp

lemma inventory_factors_points:
  assumes "risk_params_ok prm"
  shows "\<forall>f\<in>set (inventory_factors prm ls). points_ok (fd_contribution f)" and "length (inventory_factors prm ls) \<le> 1"
proof -
  have "points_ok 0" by (simp add: points_ok_def cents_intros)
  then have "points_ok (fst (foldl (inventory_step prm) (0, CoveredReason, []) ls))"
    using inventory_fold_points[OF assms, of "(0, CoveredReason, [])"] by simp
  with assms show "\<forall>f\<in>set (inventory_factors prm ls). points_ok (fd_contribution f)"
    by (cases "foldl (inventory_step prm) (0, CoveredReason, []) ls")
       (auto simp: inventory_factors_def Let_def risk_params_ok_def points_ok_def cents_min split: if_splits)
qed (simp add: inventory_factors_def Let_def split: prod.splits)

lemma negotiation_factors_points:
  "\<forall>f\<in>set (negotiation_factors c). points_ok (fd_contribution f)" "length (negotiation_factors c) \<le> 1"
  by (auto simp: negotiation_factors_def points_ok_def cents_intros)

lemma points_list_ok:
  assumes "\<forall>f\<in>set fs. points_ok (fd_contribution f)" and "length fs \<le> 1"
  shows "contribs_ok fs" and "0 \<le> sum_list (map fd_contribution fs)"
    and "sum_list (map (\<lambda>f. \<bar>fd_contribution f\<bar>) fs) \<le> 100"
  using assms by (cases fs; auto simp: contribs_ok_def points_ok_def)+

section \<open>The score\<close>

lemma risk_factors_sum:
  fixes cs :: "(odoo_id \<times> dec) list" and counter :: bool
  assumes "context_ok ctx" and "risk_params_ok prm"
  defines "fs \<equiv> risk_factors_of ctx cs prm counter"
  shows "dsum (map fd_contribution fs) = sum_list (map fd_contribution fs)"
    and "0 \<le> sum_list (map fd_contribution fs)" and "cents (sum_list (map fd_contribution fs))"
proof -
  let ?ovs = "line_overages ctx cs"
  note d = discount_factors_sum[OF line_overages_ok[OF assms(1), of cs] assms(2)]
  note m = margin_factors_points[OF assms(2), of "risk_margin_pct ?ovs"]
  note v = inventory_factors_points[OF assms(2), of "dc_lines ctx"]
  note n = negotiation_factors_points[of counter]
  have c: "cents (fd_contribution f)" if "f \<in> set fs" for f
    using that d(2) m(1) v(1) n(1)
    by (auto simp: fs_def risk_factors_of_def Let_def contribs_ok_def points_ok_def)
  show "dsum (map fd_contribution fs) = sum_list (map fd_contribution fs)"
  proof (rule dsum_cents)
    have "sum_list (map (\<lambda>f. \<bar>fd_contribution f\<bar>) fs) < 10 ^ 25 + 100 + 100 + 100"
      using d(2) points_list_ok(3)[OF m] points_list_ok(3)[OF v] points_list_ok(3)[OF n]
      by (simp add: fs_def risk_factors_of_def Let_def contribs_ok_def)
    then show "sum_list (map abs (map fd_contribution fs)) < 10 ^ 26" by (simp add: comp_def)
  qed (use c in auto)
  show "0 \<le> sum_list (map fd_contribution fs)"
    using d(1) discount_excess_points[OF line_overages_ok[OF assms(1), of cs] assms(2)]
      points_list_ok(2)[OF m] points_list_ok(2)[OF v] points_list_ok(2)[OF n]
    by (simp add: fs_def risk_factors_of_def Let_def points_ok_def)
  show "cents (sum_list (map fd_contribution fs))" by (intro cents_sum_list) (use c in auto)
qed

lemma risk_result [simp]:
  "rcr_factors (calculate_deal_risk ctx cs prm b) = risk_factors_of ctx cs prm b"
  "rcr_risk_score (calculate_deal_risk ctx cs prm b) = total_score (risk_factors_of ctx cs prm b)"
  "rcr_max_overage (calculate_deal_risk ctx cs prm b) = max_default (map lo_overage (line_overages ctx cs))"
  "rcr_severity (calculate_deal_risk ctx cs prm b) =
     severity_band prm (total_score (risk_factors_of ctx cs prm b))"
  by (simp_all add: calculate_deal_risk_def Let_def split: prod.splits)

lemma risk_routing:
  "(rcr_required_level (calculate_deal_risk ctx cs prm b), rcr_decision (calculate_deal_risk ctx cs prm b)) =
     routing_level prm (max_default (map lo_overage (line_overages ctx cs)))
       (total_score (risk_factors_of ctx cs prm b))"
  by (simp add: calculate_deal_risk_def Let_def split: prod.splits)

lemma apportion_type:
  assumes "f \<in> set (apportion prm c vs)"
  shows "fd_factor_type f = RiskFactorType.DISCOUNT_EXCESS"
proof -
  let ?fs = "map (discount_factor prm c vs) vs"
  have t: "g \<in> set ?fs \<Longrightarrow> fd_factor_type g = RiskFactorType.DISCOUNT_EXCESS" for g
    by (auto simp: discount_factor_def Let_def)
  consider "f \<in> set ?fs"
    | i d where "max_line_entry 0 (- 1) None vs = Some i" "f = add_contribution d (?fs ! i)"
  proof (cases "max_line_entry 0 (- 1) None vs")
    case None
    with assms have "f \<in> set ?fs" unfolding apportion_def Let_def by (simp split: if_splits)
    then show ?thesis by (rule that(1))
  next
    case (Some i)
    define x where "x = add_contribution (dsub c (dsum (map fd_contribution ?fs))) (?fs ! i)"
    have "apportion prm c vs = ?fs \<or> apportion prm c vs = ?fs[i := x]"
      using Some by (simp add: apportion_def Let_def x_def)
    with assms have "f \<in> set ?fs \<or> f \<in> set (?fs[i := x])" by (elim disjE) simp_all
    then have "f \<in> set ?fs \<or> f = x" using set_update_subset_insert[of ?fs i x] by (meson insertE subsetD)
    then show ?thesis using that Some unfolding x_def by (elim disjE) simp_all
  qed
  then show ?thesis
  proof cases
    case (2 i d)
    have "?fs ! i \<in> set ?fs" using max_line_entry_range[OF 2(1)] by (intro nth_mem) simp
    from t[OF this] show ?thesis unfolding 2(2) add_contribution_def by simp
  qed (rule t)
qed

text \<open>
  The points of the discount-excess factors are a breakdown of the deal's discount points: over
  the violating lines they add up to exactly that amount, rounding and correction included.
\<close>

theorem discount_points_add_up:
  assumes "context_ok ctx" and "risk_params_ok prm"
  shows "(\<Sum>f\<leftarrow>filter (\<lambda>f. fd_factor_type f = RiskFactorType.DISCOUNT_EXCESS)
             (rcr_factors (calculate_deal_risk ctx cs prm counter)). fd_contribution f) =
           discount_excess prm (line_overages ctx cs)"
proof -
  let ?P = "\<lambda>f. fd_factor_type f = RiskFactorType.DISCOUNT_EXCESS"
  let ?d = "discount_factors prm (line_overages ctx cs)"
  have "filter ?P ?d = ?d"
    by (intro filter_True) (auto simp: discount_factors_def Let_def dest: apportion_type split: if_splits)
  moreover have "filter ?P (margin_factors prm m) = []" "filter ?P (inventory_factors prm ls) = []"
      "filter ?P (negotiation_factors counter) = []" for m ls
    by (auto simp: margin_factors_def inventory_factors_def negotiation_factors_def Let_def split: prod.splits)
  ultimately show ?thesis
    using discount_factors_sum(1)[OF line_overages_ok[OF assms(1), of cs] assms(2)]
    by (simp add: risk_factors_of_def Let_def)
qed

text \<open>
  The risk score is the sum of the factors' points capped at a hundred, with no rounding error in
  the sum, and it lies between 0 and 100.
\<close>

theorem risk_score_is_capped_sum:
  assumes "context_ok ctx" and "risk_params_ok prm"
  shows "rcr_risk_score (calculate_deal_risk ctx cs prm counter) =
           min 100 (\<Sum>f\<leftarrow>rcr_factors (calculate_deal_risk ctx cs prm counter). fd_contribution f) \<and>
         0 \<le> rcr_risk_score (calculate_deal_risk ctx cs prm counter) \<and>
         rcr_risk_score (calculate_deal_risk ctx cs prm counter) \<le> 100"
  using risk_factors_sum[OF assms] by (simp add: total_score_def)

lemma over_ceiling_level:
  assumes "l \<in> set (dc_lines ctx)"
    and "line_ceiling ctx cs l + 1 / 10000 \<le>
           effective_discount (dc_order_discount_pct ctx) (dl_discount_pct l)"
  shows "rcr_required_level (calculate_deal_risk ctx cs prm counter) \<noteq> ApprovalLevel.NONE"
proof -
  let ?e = "effective_discount (dc_order_discount_pct ctx) (dl_discount_pct l)"
  have "ctx28 (1 / 10000) \<le> dsub ?e (line_ceiling ctx cs l)"
    unfolding dsub_def using assms(2) by (intro ctx28_mono) simp
  moreover have "ctx28 (1 / 10000) = 1 / 10000" by (simp add: decimal_eval)
  ultimately have "quantize (1 / 10000) 4 \<le> overage_of ?e (line_ceiling ctx cs l)"
    unfolding overage_of_def by (intro quantize_mono) simp
  moreover have "quantize (1 / 10000) 4 = (1 / 10000 :: rat)" using quantize_of_int_div[of 1 4] by simp
  ultimately have "0 < overage_of ?e (line_ceiling ctx cs l)" by (simp add: order.strict_trans2[rotated])
  moreover have "overage_of ?e (line_ceiling ctx cs l) \<in> set (map lo_overage (line_overages ctx cs))"
    using assms(1) by (force simp: line_overages_def Let_def)
  ultimately have "0 < max_default (map lo_overage (line_overages ctx cs))"
    by (meson max_default_ge order.strict_trans2)
  then show ?thesis
    using risk_routing[of ctx cs prm counter] by (auto simp: routing_level_def split: if_splits)
qed

text \<open>
  C26: A line whose effective discount is above its ceiling by 0.0001 points or more is never approved automatically, whatever the other lines and the score.
\<close>

theorem over_ceiling_needs_approval:
  assumes "l \<in> set (dc_lines ctx)"
    and "line_ceiling ctx cs l + 1 / 10000 \<le>
           effective_discount (dc_order_discount_pct ctx) (dl_discount_pct l)"
  shows "rcr_required_level (calculate_deal_risk ctx cs prm counter) \<noteq> ApprovalLevel.NONE"
  by (rule over_ceiling_level[OF assms])

text \<open>
  The severity and the routing agree: with the finance threshold not below the manager
  threshold, a deal of high severity always needs manager and finance, and a deal that is approved
  automatically is of low severity with every line within its ceiling.
\<close>

theorem severity_and_level_agree:
  assumes "rk_manager_threshold prm \<le> rk_finance_threshold prm"
    and "r = calculate_deal_risk ctx cs prm counter"
  shows "(rcr_severity r = RiskSeverity.HIGH \<longrightarrow>
            rcr_required_level r = ApprovalLevel.MANAGER_AND_FINANCE) \<and>
         (rcr_required_level r = ApprovalLevel.NONE \<longrightarrow>
            rcr_severity r = RiskSeverity.LOW \<and> (\<forall>ov\<in>set (line_overages ctx cs). lo_overage ov = 0))"
proof -
  let ?xs = "map lo_overage (line_overages ctx cs)"
  have "\<forall>x\<in>set ?xs. 0 \<le> x" by (auto simp: line_overages_def Let_def)
  from max_default_0_iff[OF this] have z: "max_default ?xs = 0 \<longleftrightarrow> (\<forall>ov\<in>set (line_overages ctx cs). lo_overage ov = 0)"
    by simp
  show ?thesis
    unfolding assms(2) using assms(1) risk_routing[of ctx cs prm counter] z
    by (auto simp: routing_level_def severity_band_def split: if_splits)
qed

section \<open>Instances\<close>

lemma small_context_ok: "context_ok (small_context did)"
  by (simp add: context_ok_def small_context_def small_line_context_def)

theorem discount_points_add_up_witness:
  "(\<Sum>f\<leftarrow>filter (\<lambda>f. fd_factor_type f = RiskFactorType.DISCOUNT_EXCESS)
      (rcr_factors (calculate_deal_risk (small_context None) [(11, 10)] default_risk_params False)).
        fd_contribution f) =
     discount_excess default_risk_params (line_overages (small_context None) [(11, 10)])"
  by (rule discount_points_add_up[OF small_context_ok default_risk_params_ok])

theorem risk_score_is_capped_sum_witness:
  "0 \<le> rcr_risk_score (calculate_deal_risk (small_context None) [(11, 10)] default_risk_params True)"
  using risk_score_is_capped_sum[OF small_context_ok default_risk_params_ok] by blast

theorem over_ceiling_needs_approval_witness:
  "rcr_required_level (calculate_deal_risk (small_context None) [(11, 10)] default_risk_params False)
     \<noteq> ApprovalLevel.NONE"
  by (rule over_ceiling_needs_approval[where l = "dc_lines (small_context None) ! 0"])
     (simp_all add: small_context_def small_line_context_def line_ceiling_def effective_discount_def
       decimal_eval)

theorem severity_and_level_agree_witness:
  "rcr_severity (calculate_deal_risk ((small_context None)\<lparr>dc_lines := []\<rparr>) []
     (default_risk_params\<lparr>rk_minimum_margin_pct := 0\<rparr>) False) = RiskSeverity.LOW"
proof -
  let ?prm = "default_risk_params\<lparr>rk_minimum_margin_pct := 0\<rparr>"
  let ?ctx = "(small_context None)\<lparr>dc_lines := []\<rparr>"
  have "rcr_required_level (calculate_deal_risk ?ctx [] ?prm False) = ApprovalLevel.NONE"
    by (simp add: calculate_deal_risk_def risk_factors_of_def line_overages_def discount_factors_def
        discount_excess_def violation_ratio_def margin_factors_def risk_margin_pct_def
        inventory_factors_def negotiation_factors_def total_score_def routing_level_def
        default_risk_params_def dadd_def dmul_def)
  moreover have "rk_manager_threshold ?prm \<le> rk_finance_threshold ?prm"
    by (simp add: default_risk_params_def)
  ultimately show ?thesis using severity_and_level_agree[OF _ refl, of ?prm ?ctx "[]" False] by blast
qed

end
