(* ===== verification/Material_Change.thy ===== *)
theory Material_Change
  imports Fixture
begin

text \<open>
  Material changes of a deal, \<^verbatim>\<open>app/guardian/material_change.py\<close>: which kinds of change separate two
  contexts of a deal, and whether an approved assessment still covers a new evaluation. The
  lemmas characterise both.
\<close>

definition add_once :: "'a \<Rightarrow> 'a list \<Rightarrow> 'a list" where
  "add_once k ks = (if k \<in> set ks then ks else ks @ [k])"

lemma set_add_once [simp]: "set (add_once k ks) = insert k (set ks)"
  by (auto simp: add_once_def)

definition far :: "dec \<Rightarrow> dec \<Rightarrow> dec \<Rightarrow> bool" where
  "far tol x y \<longleftrightarrow> tol < \<bar>dsub x y\<bar>"

definition lines_map :: "deal_context \<Rightarrow> (odoo_id \<times> deal_line_context) list" where
  "lines_map ctx = dict_of dl_line_id (dc_lines ctx)"

definition terms_changed :: "deal_line_context \<Rightarrow> deal_line_context \<Rightarrow> bool" where
  "terms_changed new_l old_l \<longleftrightarrow> dl_is_recurring new_l \<and>
     (dl_price_unit new_l \<noteq> dl_price_unit old_l \<or> dl_qty new_l \<noteq> dl_qty old_l \<or>
      dl_discount_pct new_l \<noteq> dl_discount_pct old_l)"

text \<open>One turn of the loop over the new lines.\<close>

definition compare_line ::
    "(odoo_id \<times> deal_line_context) list \<Rightarrow> odoo_id \<times> deal_line_context \<Rightarrow>
      MaterialChangeKind list \<Rightarrow> MaterialChangeKind list" where
  "compare_line old_map entry changes =
     (case map_of old_map (fst entry) of
        None \<Rightarrow> changes
      | Some old_l \<Rightarrow>
          let new_l = snd entry;
              c1 = (if far (1 / 1000) (dl_qty new_l) (dl_qty old_l)
                    then add_once MaterialChangeKind.QUANTITY changes else changes);
              c2 = (if far (1 / 100) (dl_discount_pct new_l) (dl_discount_pct old_l)
                    then add_once MaterialChangeKind.DISCOUNT c1 else c1) in
          if terms_changed new_l old_l then add_once MaterialChangeKind.SUBSCRIPTION_TERMS c2 else c2)"

definition any_shortage :: "deal_context \<Rightarrow> bool" where
  "any_shortage ctx \<longleftrightarrow> list_ex dl_inventory_shortage (dc_lines ctx)"

definition material_changes :: "deal_context \<Rightarrow> deal_context \<Rightarrow> trigger \<Rightarrow> MaterialChangeKind list" where
  "material_changes old_ctx new_ctx trigger_type =
     (let c0 = (if far (1 / 100) (dc_order_discount_pct old_ctx) (dc_order_discount_pct new_ctx)
                then [MaterialChangeKind.DISCOUNT] else []);
          old_map = lines_map old_ctx;
          new_map = lines_map new_ctx;
          c1 = (if set (map fst new_map) - set (map fst old_map) \<noteq> {}
                then c0 @ [MaterialChangeKind.LINE_ADDED] else c0);
          c2 = (if set (map fst old_map) - set (map fst new_map) \<noteq> {}
                then c1 @ [MaterialChangeKind.LINE_REMOVED] else c1);
          c3 = fold (compare_line old_map) new_map c2;
          c4 = (if trigger_type = Inl TriggerType.CUSTOMER_NEGOTIATED
                then c3 @ [MaterialChangeKind.CUSTOMER_COUNTER] else c3) in
      if trigger_type = Inl TriggerType.STOCK_CHANGED \<and> any_shortage new_ctx \<and> \<not> any_shortage old_ctx
      then c4 @ [MaterialChangeKind.FULFILLMENT_RISK] else c4)"

definition is_material_change ::
    "deal_context option \<Rightarrow> deal_context \<Rightarrow> trigger \<Rightarrow> risk_assessment option \<Rightarrow>
      bool \<times> MaterialChangeKind list" where
  "is_material_change old_ctx new_ctx trigger_type previous_assessment =
     (case old_ctx of
        None \<Rightarrow> (True, [MaterialChangeKind.DISCOUNT])
      | Some old \<Rightarrow>
          if previous_assessment = None then (True, [MaterialChangeKind.DISCOUNT])
          else let changes = material_changes old new_ctx trigger_type in (changes \<noteq> [], changes))"

definition is_covered_by_approved_assessment ::
    "risk_assessment option \<Rightarrow> ApprovalLevel \<Rightarrow> dec \<Rightarrow> bool" where
  "is_covered_by_approved_assessment approved_assessment new_level new_risk_score =
     (case approved_assessment of
        None \<Rightarrow> False
      | Some a \<Rightarrow>
          if LEVEL_PRIORITY (ra_required_level a) < LEVEL_PRIORITY new_level then False
          else if ra_risk_score a < new_risk_score then False
          else True)"

section \<open>Characterisation\<close>

definition line_differs :: "(odoo_id \<times> deal_line_context) list \<Rightarrow> odoo_id \<times> deal_line_context \<Rightarrow> bool" where
  "line_differs old_map entry \<longleftrightarrow> (case map_of old_map (fst entry) of None \<Rightarrow> False
     | Some old_l \<Rightarrow> far (1 / 1000) (dl_qty (snd entry)) (dl_qty old_l) \<or>
         far (1 / 100) (dl_discount_pct (snd entry)) (dl_discount_pct old_l) \<or>
         terms_changed (snd entry) old_l)"

lemma compare_line_Nil_iff: "compare_line m e cs = [] \<longleftrightarrow> cs = [] \<and> \<not> line_differs m e"
  by (auto simp: compare_line_def line_differs_def Let_def add_once_def split: option.split if_splits)

lemma fold_compare_line_Nil_iff:
  "fold (compare_line m) es cs = [] \<longleftrightarrow> cs = [] \<and> (\<forall>e\<in>set es. \<not> line_differs m e)"
  by (induction es arbitrary: cs) (auto simp: compare_line_Nil_iff)

lemma lines_map_keys: "set (map fst (lines_map ctx)) = dl_line_id ` set (dc_lines ctx)"
proof (rule set_eqI)
  fix k
  have "k \<in> set (map fst (lines_map ctx)) \<longleftrightarrow> map_of (lines_map ctx) k \<noteq> None"
    by (simp add: map_of_eq_None_iff)
  also have "\<dots> \<longleftrightarrow> k \<in> dl_line_id ` set (dc_lines ctx)"
    by (auto simp: lines_map_def map_of_dict_of find_None_iff)
  finally show "k \<in> set (map fst (lines_map ctx)) \<longleftrightarrow> k \<in> dl_line_id ` set (dc_lines ctx)" .
qed

lemma find_distinct:
  "distinct (map f xs) \<Longrightarrow> x \<in> set xs \<Longrightarrow> find (\<lambda>y. f y = f x) xs = Some x"
  by (induction xs) (auto simp: rev_image_eqI)

lemma map_of_lines_map:
  assumes "distinct (map dl_line_id (dc_lines ctx))"
  shows "map_of (lines_map ctx) k = Some l \<longleftrightarrow> l \<in> set (dc_lines ctx) \<and> dl_line_id l = k"
proof -
  have "find (\<lambda>y. dl_line_id y = k) (rev (dc_lines ctx)) = Some l \<Longrightarrow>
      l \<in> set (dc_lines ctx) \<and> dl_line_id l = k"
    using find_row_Some[of dl_line_id k "rev (dc_lines ctx)" l] by (auto simp: find_row_def)
  moreover have "l \<in> set (dc_lines ctx) \<Longrightarrow>
      find (\<lambda>y. dl_line_id y = dl_line_id l) (rev (dc_lines ctx)) = Some l"
    using find_distinct[of dl_line_id "rev (dc_lines ctx)" l] assms by (simp flip: rev_map)
  ultimately show ?thesis by (auto simp: lines_map_def map_of_dict_of)
qed

lemma in_lines_map:
  assumes "distinct (map dl_line_id (dc_lines ctx))"
  shows "(k, l) \<in> set (lines_map ctx) \<longleftrightarrow> l \<in> set (dc_lines ctx) \<and> dl_line_id l = k"
  using map_of_lines_map[OF assms, of k l] distinct_dict_of[of dl_line_id "dc_lines ctx"]
  by (simp add: lines_map_def map_of_eq_Some_iff)

text \<open>
  With a previous context and assessment, a re-evaluation counts as no material change exactly
  when the two contexts have the same lines, no quantity moved by more than 0.001, no discount (of
  a line or the order) by more than 0.01, no recurring line changed price, quantity or discount at
  all, the trigger is not a customer negotiation, and a stock trigger brought no first shortage.
\<close>

theorem no_material_change_iff:
  assumes "distinct (map dl_line_id (dc_lines old))" and "distinct (map dl_line_id (dc_lines new))"
  shows "is_material_change (Some old) new trigger (Some prev) = (False, []) \<longleftrightarrow>
    \<not> far (1 / 100) (dc_order_discount_pct old) (dc_order_discount_pct new) \<and>
    dl_line_id ` set (dc_lines old) = dl_line_id ` set (dc_lines new) \<and>
    (\<forall>n\<in>set (dc_lines new). \<forall>l\<in>set (dc_lines old). dl_line_id l = dl_line_id n \<longrightarrow>
       \<not> far (1 / 1000) (dl_qty n) (dl_qty l) \<and> \<not> far (1 / 100) (dl_discount_pct n) (dl_discount_pct l) \<and>
       \<not> terms_changed n l) \<and>
    trigger \<noteq> Inl TriggerType.CUSTOMER_NEGOTIATED \<and>
    (trigger = Inl TriggerType.STOCK_CHANGED \<longrightarrow> any_shortage new \<longrightarrow> any_shortage old)"
proof -
  have d: "(\<forall>e\<in>set (lines_map new). \<not> line_differs (lines_map old) e) \<longleftrightarrow>
      (\<forall>n\<in>set (dc_lines new). \<forall>l\<in>set (dc_lines old). dl_line_id l = dl_line_id n \<longrightarrow>
         \<not> far (1 / 1000) (dl_qty n) (dl_qty l) \<and> \<not> far (1 / 100) (dl_discount_pct n) (dl_discount_pct l) \<and>
         \<not> terms_changed n l)"
  proof -
    have A: "line_differs (lines_map old) (k, n) \<longleftrightarrow> (\<exists>l. (l \<in> set (dc_lines old) \<and> dl_line_id l = k) \<and>
        (far (1 / 1000) (dl_qty n) (dl_qty l) \<or> far (1 / 100) (dl_discount_pct n) (dl_discount_pct l) \<or>
         terms_changed n l))" for k n
      unfolding map_of_lines_map[OF assms(1), symmetric]
      by (auto simp: line_differs_def split: option.split)
    have B: "(\<forall>e\<in>set (lines_map new). P e) \<longleftrightarrow> (\<forall>n\<in>set (dc_lines new). P (dl_line_id n, n))" for P
      using in_lines_map[OF assms(2)] by auto
    show ?thesis unfolding B A by blast
  qed
  have "is_material_change (Some old) new trigger (Some prev) = (False, []) \<longleftrightarrow>
      material_changes old new trigger = []"
    by (auto simp: is_material_change_def Let_def)
  also have "\<dots> \<longleftrightarrow> \<not> far (1 / 100) (dc_order_discount_pct old) (dc_order_discount_pct new) \<and>
      set (map fst (lines_map old)) = set (map fst (lines_map new)) \<and>
      (\<forall>e\<in>set (lines_map new). \<not> line_differs (lines_map old) e) \<and>
      trigger \<noteq> Inl TriggerType.CUSTOMER_NEGOTIATED \<and>
      (trigger = Inl TriggerType.STOCK_CHANGED \<longrightarrow> any_shortage new \<longrightarrow> any_shortage old)"
    unfolding material_changes_def Let_def by (auto simp: fold_compare_line_Nil_iff)
  finally show ?thesis unfolding d lines_map_keys .
qed

theorem no_material_change_iff_witness:
  "is_material_change (Some (small_context None)) (small_context None) (Inl TriggerType.MANUAL)
     (Some (small_assessment 1 1 30 ApprovalLevel.MANAGER)) = (False, [])"
proof -
  have d: "distinct (map dl_line_id (dc_lines (small_context None)))"
    by (simp add: small_context_def small_line_context_def)
  show ?thesis
    unfolding no_material_change_iff[OF d d]
    by (auto simp: far_def terms_changed_def small_context_def small_line_context_def)
qed

text \<open>
  An approval covers a new evaluation exactly when there is one, its level is at least the new
  level, and its risk score at least the new score; so what covers one deal covers every milder one.
\<close>

theorem approved_assessment_covers:
  "is_covered_by_approved_assessment (Some a) lvl score \<longleftrightarrow>
     lvl \<le> ra_required_level a \<and> score \<le> ra_risk_score a"
  by (auto simp: is_covered_by_approved_assessment_def less_eq_ApprovalLevel_def)

end
