(* ===== verification/Policy.thy ===== *)
theory Policy
  imports Entities
begin

text \<open>
  The discount policy that governs an order line, \<^verbatim>\<open>app/guardian/policy.py\<close>: among the company's
  active policies, the one with the best score. Category and tier both named score from 400, the
  category alone from 300, the tier alone from 200, neither from 100, less the policy's priority;
  among equals the earliest row wins. Without a match the tier's own ceiling applies.
\<close>

record resolved_policy =
  rpol_policy_id :: "uuid option"
  rpol_name :: string
  rpol_max_discount_pct :: dec
  rpol_minimum_margin_pct :: dec
  rpol_manager_threshold :: dec
  rpol_finance_threshold :: dec
  rpol_single_line_finance_pts :: dec
  rpol_version :: "uuid option"

text \<open>
  The version text is \<^verbatim>\<open>policy_<id>\<close> or \<^verbatim>\<open>default_v1\<close>: the model keeps the identifier it prints, \<open>None\<close>
  for the default. The score of a policy for a line, \<open>None\<close> where the loop continues:
\<close>

definition policy_score :: "string \<Rightarrow> odoo_id option \<Rightarrow> discount_policy \<Rightarrow> int option" where
  "policy_score tier_code category_id p =
     (let cat_match = (dp_odoo_product_category_id p \<noteq> None \<and> dp_odoo_product_category_id p = category_id);
          tier_match = (dp_customer_tier_code p = Some tier_code);
          cat_wildcard = (dp_odoo_product_category_id p = None);
          tier_wildcard = (dp_customer_tier_code p = None) in
      if cat_match \<and> tier_match then Some (400 - dp_priority p)
      else if cat_match \<and> tier_wildcard then Some (300 - dp_priority p)
      else if cat_wildcard \<and> tier_match then Some (200 - dp_priority p)
      else if cat_wildcard \<and> tier_wildcard then Some (100 - dp_priority p)
      else None)"

definition company_policies :: "database \<Rightarrow> odoo_id \<Rightarrow> discount_policy list" where
  "company_policies db company_id =
     filter (\<lambda>p. dp_active p \<and> dp_odoo_company_id p = company_id) (db_policies db)"

text \<open>The loop: the best score so far, from minus one, and its policy.\<close>

fun best_policy :: "string \<Rightarrow> odoo_id option \<Rightarrow> discount_policy list \<Rightarrow>
    int \<times> discount_policy option \<Rightarrow> int \<times> discount_policy option" where
  "best_policy tier_code category_id [] best = best"
| "best_policy tier_code category_id (p # ps) (best_score, best) =
     best_policy tier_code category_id ps
       (case policy_score tier_code category_id p of
          None \<Rightarrow> (best_score, best)
        | Some s \<Rightarrow> if best_score < s then (s, Some p) else (best_score, best))"

definition resolve_policy_for_line ::
    "database \<Rightarrow> odoo_id \<Rightarrow> string \<Rightarrow> odoo_id option \<Rightarrow> dec \<Rightarrow> resolved_policy" where
  "resolve_policy_for_line db company_id tier_code category_id tier_default_ceiling =
     (case snd (best_policy tier_code category_id (company_policies db company_id) (- 1, None)) of
        Some p \<Rightarrow>
          \<lparr>rpol_policy_id = Some (dp_id p), rpol_name = dp_name p,
           rpol_max_discount_pct = dp_max_discount_pct p,
           rpol_minimum_margin_pct = num_or (dp_minimum_margin_pct p) 20,
           rpol_manager_threshold = num_or (dp_manager_threshold p) 20,
           rpol_finance_threshold = num_or (dp_finance_threshold p) 50,
           rpol_single_line_finance_pts = num_or (dp_single_line_finance_pts p) 10,
           rpol_version = Some (dp_id p)\<rparr>
      | None \<Rightarrow>
          \<lparr>rpol_policy_id = None, rpol_name = ''Default Tier Policy ('' @ tier_code @ '')'',
           rpol_max_discount_pct = tier_default_ceiling, rpol_minimum_margin_pct = 20,
           rpol_manager_threshold = 20, rpol_finance_threshold = 50,
           rpol_single_line_finance_pts = 10, rpol_version = None\<rparr>)"

section \<open>What the loop finds\<close>

text \<open>
  The outcome of the loop over \<open>ps\<close> from \<open>(b, best)\<close>: either nothing beat \<open>b\<close>, or the first row with
  the greatest score, which is above \<open>b\<close>.
\<close>

definition beats :: "string \<Rightarrow> odoo_id option \<Rightarrow> int \<Rightarrow> discount_policy \<Rightarrow> bool" where
  "beats t c b p = (case policy_score t c p of None \<Rightarrow> False | Some s \<Rightarrow> b < s)"

lemma best_policy_None:
  "\<forall>p\<in>set ps. \<not> beats t c b p \<Longrightarrow> best_policy t c ps (b, best) = (b, best)"
  by (induction ps) (auto simp: beats_def split: option.splits)

lemma best_policy_ge: "b \<le> fst (best_policy t c ps (b, best))"
proof (induction ps arbitrary: b best)
  case (Cons p ps)
  show ?case
  proof (cases "policy_score t c p")
    case (Some s)
    then show ?thesis using Cons.IH[of b best] Cons.IH[of s "Some p"] by auto
  qed (use Cons.IH[of b best] in auto)
qed simp

lemma best_policy_upper: "p \<in> set ps \<Longrightarrow> \<not> beats t c (fst (best_policy t c ps (b, best))) p"
proof (induction ps arbitrary: b best)
  case (Cons q ps)
  show ?case
  proof (cases "policy_score t c q")
    case None
    then show ?thesis using Cons by (auto simp: beats_def)
  next
    case (Some s)
    define r where "r = (if b < s then (s, Some q) else (b, best))"
    have eq: "best_policy t c (q # ps) (b, best) = best_policy t c ps r" using Some by (simp add: r_def)
    have "s \<le> fst (best_policy t c ps r)"
      using best_policy_ge[of "fst r" t c ps "snd r"] by (auto simp: r_def split: if_splits)
    then show ?thesis
      unfolding eq using Cons.prems Cons.IH[of "fst r" "snd r"] Some by (auto simp: beats_def)
  qed
qed simp

lemma best_policy_found:
  "best_policy t c ps (b, best) = (b', best') \<Longrightarrow>
     (b' = b \<and> best' = best) \<or> (\<exists>p\<in>set ps. best' = Some p \<and> policy_score t c p = Some b' \<and> b < b')"
proof (induction ps arbitrary: b best)
  case (Cons q ps)
  show ?case
  proof (cases "beats t c b q")
    case True
    then obtain s where s: "policy_score t c q = Some s" "b < s" by (auto simp: beats_def split: option.splits)
    with Cons.prems have "best_policy t c ps (s, Some q) = (b', best')" by simp
    from Cons.IH[OF this] s show ?thesis by fastforce
  next
    case False
    with Cons.prems have "best_policy t c ps (b, best) = (b', best')"
      by (auto simp: beats_def split: option.splits if_splits)
    from Cons.IH[OF this] show ?thesis by auto
  qed
qed simp

lemma resolve_policy_cases:
  obtains (default) "\<forall>p\<in>set (company_policies db c). \<not> beats t cat (- 1) p"
      "snd (best_policy t cat (company_policies db c) (- 1, None)) = None"
  | (policy) p s where "p \<in> set (company_policies db c)" "policy_score t cat p = Some s" "- 1 < s"
      "snd (best_policy t cat (company_policies db c) (- 1, None)) = Some p"
      "\<And>q s'. q \<in> set (company_policies db c) \<Longrightarrow> policy_score t cat q = Some s' \<Longrightarrow> s' \<le> s"
proof (cases "\<forall>p\<in>set (company_policies db c). \<not> beats t cat (- 1) p")
  case True
  with default show ?thesis by (simp add: best_policy_None)
next
  case False
  obtain b' best' where b: "best_policy t cat (company_policies db c) (- 1, None) = (b', best')"
    by force
  have up: "\<And>q. q \<in> set (company_policies db c) \<Longrightarrow> \<not> beats t cat b' q"
    using best_policy_upper[of _ "company_policies db c" t cat "- 1" None] by (simp add: b)
  with False have "b' \<noteq> - 1" by auto
  then obtain p where p: "p \<in> set (company_policies db c)" "best' = Some p"
      "policy_score t cat p = Some b'" "- 1 < b'"
    using best_policy_found[OF b] by blast
  have "s' \<le> b'" if "q \<in> set (company_policies db c)" "policy_score t cat q = Some s'" for q s'
    using up[OF that(1)] that(2) by (simp add: beats_def)
  with p b show ?thesis using policy[of p b'] by simp
qed

text \<open>
  The resolved policy of a line is the default of the tier exactly when no active policy of the
  company with a score of at least zero matches it; otherwise it is a matching active policy of that
  company, its ceiling is the one applied, and no other matching policy scores higher.
\<close>

theorem resolve_policy_best:
  "(rpol_policy_id (resolve_policy_for_line db c t cat dflt) = None \<and>
      rpol_max_discount_pct (resolve_policy_for_line db c t cat dflt) = dflt \<and>
      (\<forall>p\<in>set (db_policies db). dp_active p \<and> dp_odoo_company_id p = c \<longrightarrow>
         (\<forall>s. policy_score t cat p = Some s \<longrightarrow> s < 0))) \<or>
   (\<exists>p s. p \<in> set (db_policies db) \<and> dp_active p \<and> dp_odoo_company_id p = c \<and>
      policy_score t cat p = Some s \<and> 0 \<le> s \<and>
      rpol_policy_id (resolve_policy_for_line db c t cat dflt) = Some (dp_id p) \<and>
      rpol_max_discount_pct (resolve_policy_for_line db c t cat dflt) = dp_max_discount_pct p \<and>
      (\<forall>q\<in>set (db_policies db). dp_active q \<and> dp_odoo_company_id q = c \<longrightarrow>
         (\<forall>s'. policy_score t cat q = Some s' \<longrightarrow> s' \<le> s)))"
proof (cases rule: resolve_policy_cases[of db c t cat])
  case default
  then show ?thesis
    by (auto simp: resolve_policy_for_line_def company_policies_def beats_def)
next
  case (policy p s)
  have "s' \<le> s" if "q \<in> set (db_policies db)" "dp_active q" "dp_odoo_company_id q = c"
      "policy_score t cat q = Some s'" for q s'
    using policy(5)[of q s'] that by (simp add: company_policies_def)
  with policy(1-4) show ?thesis
    by (intro disjI2 exI[of _ p] exI[of _ s])
       (auto simp: resolve_policy_for_line_def company_policies_def)
qed

text \<open>
  With priorities from 0 to 99 a more specific policy always scores higher than a less specific one,
  whatever their priorities.
\<close>

definition specificity :: "discount_policy \<Rightarrow> nat" where
  "specificity p = (if dp_odoo_product_category_id p \<noteq> None then 2 else 0) +
                   (if dp_customer_tier_code p \<noteq> None then 1 else 0)"

lemma policy_score_eq:
  "policy_score t c p = Some s \<Longrightarrow> s = 100 + 100 * int (specificity p) - dp_priority p"
  by (auto simp: policy_score_def specificity_def Let_def split: if_splits)

text \<open>
  Specific rules win: when priorities lie between 0 and 99, the policy applied to a line is at
  least as specific (category before tier) as every other matching active policy of the company.
\<close>

theorem resolve_policy_specific:
  assumes "\<forall>p\<in>set (db_policies db). 0 \<le> dp_priority p \<and> dp_priority p < 100"
    and "distinct (map dp_id (db_policies db))"
    and "p \<in> set (db_policies db)"
    and "rpol_policy_id (resolve_policy_for_line db c t cat dflt) = Some (dp_id p)"
    and "q \<in> set (db_policies db)" and "dp_active q" and "dp_odoo_company_id q = c"
    and "policy_score t cat q \<noteq> None"
  shows "specificity q \<le> specificity p"
proof (cases rule: resolve_policy_cases[of db c t cat])
  case default
  with assms(4) show ?thesis by (simp add: resolve_policy_for_line_def)
next
  case (policy p' s)
  have "dp_id p' = dp_id p" using assms(4) policy(4) by (simp add: resolve_policy_for_line_def)
  moreover have "p' \<in> set (db_policies db)" using policy(1) by (simp add: company_policies_def)
  ultimately have "p' = p" using assms(2,3) by (metis (no_types, lifting) distinct_map inj_onD)
  obtain s' where s': "policy_score t cat q = Some s'" using assms(8) by auto
  with policy(5)[of q s'] assms(5-7) have "s' \<le> s" by (simp add: company_policies_def)
  moreover have "dp_priority q < 100" "0 \<le> dp_priority p" using assms(1,3,5) by auto
  ultimately have "int (specificity q) < int (specificity p) + 1"
    using policy_score_eq[OF s'] policy_score_eq[OF policy(2)] unfolding \<open>p' = p\<close> by linarith
  then show ?thesis by simp
qed

definition sample_policy :: "uuid \<Rightarrow> string option \<Rightarrow> odoo_id option \<Rightarrow> dec \<Rightarrow> int \<Rightarrow> discount_policy" where
  "sample_policy i tier cat ceil_pct prio = \<lparr>dp_id = i, dp_odoo_company_id = 1, dp_name = ''P'',
     dp_customer_tier_code = tier, dp_odoo_product_category_id = cat, dp_max_discount_pct = ceil_pct,
     dp_minimum_margin_pct = None, dp_manager_threshold = None, dp_finance_threshold = None,
     dp_single_line_finance_pts = None, dp_priority = prio, dp_active = True\<rparr>"

definition sample_policies :: database where
  "sample_policies = empty_database\<lparr>db_policies :=
     [sample_policy 1 (Some ''GOLD'') None 15 1, sample_policy 2 None (Some 3) 10 90,
      sample_policy 3 None None 5 0]\<rparr>"

theorem resolve_policy_specific_witness:
  "specificity (sample_policy 1 (Some ''GOLD'') None 15 1) \<le> specificity (sample_policy 2 None (Some 3) 10 90)"
  by (rule resolve_policy_specific[where db = sample_policies and c = 1 and t = "''GOLD''" and cat = "Some 3"
        and dflt = 5])
     (simp_all add: sample_policies_def sample_policy_def resolve_policy_for_line_def
       company_policies_def empty_database_def policy_score_def)

theorem resolve_policy_best_witness:
  "rpol_policy_id (resolve_policy_for_line sample_policies 1 ''GOLD'' (Some 3) 7) = Some 2 \<and>
   rpol_max_discount_pct (resolve_policy_for_line sample_policies 1 ''GOLD'' (Some 3) 7) = 10"
  using resolve_policy_best[of sample_policies 1 "''GOLD''" "Some 3" 7]
  by (simp add: sample_policies_def sample_policy_def company_policies_def empty_database_def
      policy_score_def resolve_policy_for_line_def)

end
