(* ===== verification/Evaluator.thy ===== *)
theory Evaluator
  imports Alerts Risk Material_Change Policy
begin

text \<open>
  The evaluation of a deal, \<^verbatim>\<open>app/guardian/evaluator.py\<close>, which composes the engines: the context of
  the order, the policies of its lines, the risk score, the routing of the approval, the overlay in
  Odoo, recommendations, health and alerts. Then the what-if simulation, which evaluates the same
  engine on overridden lines and stores nothing, and the detail view of \<^verbatim>\<open>deal_service.py\<close>.

  The lemmas: an evaluation keeps the invariants of approvals, deals and alerts; a deal with a line
  over its ceiling ends up pending and locked in Odoo; the simulation without overrides predicts the
  evaluation.
\<close>

section \<open>Policies of the lines\<close>

record evaluation_policy =
  ep_ceilings :: "(odoo_id \<times> dec) list"
  ep_params :: risk_params
  ep_summary :: "(odoo_id \<times> policy_summary) list"

text \<open>The ceiling is kept per line; the four thresholds are those of the line resolved last.\<close>

definition line_policy :: "database \<Rightarrow> deal_context \<Rightarrow> deal_line_context \<Rightarrow> resolved_policy" where
  "line_policy db ctx l = resolve_policy_for_line db (dc_company_id ctx) (dc_tier_code ctx)
     (Some (dl_category_id l)) (dc_tier_default_ceiling ctx)"

definition with_thresholds :: "resolved_policy \<Rightarrow> risk_params \<Rightarrow> risk_params" where
  "with_thresholds p prm = prm\<lparr>rk_minimum_margin_pct := rpol_minimum_margin_pct p,
     rk_manager_threshold := rpol_manager_threshold p,
     rk_finance_threshold := rpol_finance_threshold p,
     rk_single_line_finance_pts := rpol_single_line_finance_pts p\<rparr>"

definition summary_of_policy :: "resolved_policy \<Rightarrow> policy_summary" where
  "summary_of_policy p = \<lparr>ps_policy_id = rpol_policy_id p, ps_policy_name = rpol_name p,
     ps_max_discount_pct = fl64 (rpol_max_discount_pct p)\<rparr>"

definition policy_step :: "database \<Rightarrow> deal_context \<Rightarrow> deal_line_context \<Rightarrow> evaluation_policy \<Rightarrow> evaluation_policy" where
  "policy_step db ctx l acc =
     (let p = line_policy db ctx l in
      \<lparr>ep_ceilings = AList.update (dl_line_id l) (rpol_max_discount_pct p) (ep_ceilings acc),
       ep_params = with_thresholds p (ep_params acc),
       ep_summary = AList.update (dl_line_id l) (summary_of_policy p) (ep_summary acc)\<rparr>)"

definition resolve_policies :: "database \<Rightarrow> deal_context \<Rightarrow> evaluation_policy" where
  "resolve_policies db ctx = fold (policy_step db ctx) (dc_lines ctx)
     \<lparr>ep_ceilings = [], ep_params = default_risk_params, ep_summary = []\<rparr>"

definition has_open_counter :: "uuid \<Rightarrow> database \<Rightarrow> bool" where
  "has_open_counter i db = (\<exists>n\<in>set (db_negotiations db). nr_deal_id n = i
     \<and> nr_status n = NegotiationRequestStatus.OPEN \<and> nr_type n = ''COUNTER_DISCOUNT'')"

definition evaluate_risk :: "database \<Rightarrow> deal_context \<Rightarrow> uuid \<Rightarrow> risk_calculation_result" where
  "evaluate_risk db ctx i = calculate_deal_risk ctx (ep_ceilings (resolve_policies db ctx))
     (ep_params (resolve_policies db ctx)) (has_open_counter i db)"

section \<open>The stored assessment\<close>

definition snapshot_line :: "deal_line_context \<Rightarrow> line_snapshot_item" where
  "snapshot_line l = \<lparr>ls_line_id = dl_line_id l, ls_product_id = dl_product_id l,
     ls_product_name = dl_product_name l, ls_qty = fl64 (dl_qty l),
     ls_price_unit = fl64 (dl_price_unit l), ls_discount_pct = fl64 (dl_discount_pct l),
     ls_subtotal = fl64 (dl_subtotal l), ls_cost = fl64 (dl_cost_subtotal l),
     ls_margin_pct = fl64 (dl_margin_pct l)\<rparr>"

definition snapshot_sums :: "deal_context \<Rightarrow> assessment_totals" where
  "snapshot_sums ctx = \<lparr>at_amount_untaxed = fl64 (dc_amount_untaxed ctx),
     at_amount_total = fl64 (dc_amount_total ctx), at_total_cost = fl64 (dc_total_cost ctx),
     at_total_margin_pct = fl64 (dc_total_margin_pct ctx),
     at_blended_discount_pct = fl64 (dc_blended_discount_pct ctx)\<rparr>"

definition new_assessment ::
    "uuid \<Rightarrow> uuid \<Rightarrow> risk_calculation_result \<Rightarrow> trigger \<Rightarrow> evaluation_policy \<Rightarrow> deal_context \<Rightarrow>
     instant \<Rightarrow> risk_assessment" where
  "new_assessment aid i calc trig ep ctx now = \<lparr>ra_id = aid, ra_deal_id = i,
     ra_risk_score = rcr_risk_score calc, ra_severity = rcr_severity calc,
     ra_required_level = rcr_required_level calc, ra_decision = rcr_decision calc,
     ra_trigger_type = trig, ra_policy_version = ''v1'', ra_resolved_policy = ep_summary ep,
     ra_line_snapshot = map snapshot_line (dc_lines ctx), ra_totals = snapshot_sums ctx,
     ra_calculated_at = now\<rparr>"

definition stored_factor :: "uuid \<Rightarrow> risk_factor_detail \<Rightarrow> risk_factor" where
  "stored_factor aid f = \<lparr>rf_risk_assessment_id = aid, rf_factor_type = fd_factor_type f,
     rf_source_reference = fd_source_reference f, rf_raw_value = fd_raw_value f,
     rf_weight = fd_weight f, rf_contribution = fd_contribution f, rf_reason = fd_reason f,
     rf_detail = fd_detail f\<rparr>"

definition store_assessment ::
    "uuid \<Rightarrow> risk_calculation_result \<Rightarrow> trigger \<Rightarrow> evaluation_policy \<Rightarrow> deal_context \<Rightarrow> instant \<Rightarrow>
     database \<Rightarrow> uuid \<times> database" where
  "store_assessment i calc trig ep ctx now db =
     (let aid = db_next_id db in
      (aid, db\<lparr>db_assessments := db_assessments db @ [new_assessment aid i calc trig ep ctx now],
               db_factors := db_factors db @ map (stored_factor aid) (rcr_factors calc),
               db_next_id := aid + 1\<rparr>))"

section \<open>Evaluation\<close>

record evaluation_response =
  er_deal_id :: uuid
  er_risk_assessment :: risk_assessment
  er_factors :: "risk_factor_detail list"
  er_approval_state :: ApprovalState
  er_required_level :: ApprovalLevel
  er_decision :: string
  er_material_changes :: "MaterialChangeKind list"

text \<open>
  The deal to evaluate: by its identifier, or by its order, which is synced when no deal stands for it
  yet. A request that names neither (or order zero) is a \<^verbatim>\<open>ValueError\<close>.
\<close>

definition resolve_deal ::
    "'g gateway \<Rightarrow> uuid option \<Rightarrow> odoo_id option \<Rightarrow> odoo_id option \<Rightarrow> Role option \<Rightarrow>
     ('g world, uuid \<times> odoo_id) effect" where
  "resolve_deal gw deal_id order_id actor role w =
     (case deal_id of
        Some i \<Rightarrow> (map_sum id (\<lambda>d. (i, d_odoo_sale_order_id d)) (get_deal_by_id (w_db w) i), w)
      | None \<Rightarrow>
          (case order_id of
             None \<Rightarrow> (Inl ValueError, w)
           | Some oid \<Rightarrow>
               if oid = 0 then (Inl ValueError, w)
               else (case find_deal_by_order oid (w_db w) of
                       Some d \<Rightarrow> (Inr (d_id d, oid), w)
                     | None \<Rightarrow> map_prod (map_sum id (\<lambda>i. (i, oid))) id
                                 (sync_deal_from_odoo gw oid None actor role w))))"

definition evaluated_deal :: "risk_calculation_result \<Rightarrow> uuid \<Rightarrow> instant \<Rightarrow> deal \<Rightarrow> deal" where
  "evaluated_deal calc aid now d = d\<lparr>d_current_risk_score := Some (rcr_risk_score calc),
     d_current_severity := Some (rcr_severity calc), d_required_level := rcr_required_level calc,
     d_current_assessment_id := Some aid, d_last_activity_at := now\<rparr>"

definition governance_locked :: "ApprovalLevel \<Rightarrow> ApprovalState \<Rightarrow> bool" where
  "governance_locked level st = (level \<noteq> ApprovalLevel.NONE \<and> st \<noteq> ApprovalState.APPROVED)"

text \<open>Steps 3 to 9: the new assessment, its routing, and the deal's new figures.\<close>

definition covered_by_approval :: "deal \<Rightarrow> risk_calculation_result \<Rightarrow> database \<Rightarrow> bool" where
  "covered_by_approval d calc db = is_covered_by_approved_assessment
     (Option.bind (d_approved_assessment_id d) (\<lambda>a. find_assessment a db))
     (rcr_required_level calc) (rcr_risk_score calc)"

definition assess_and_route ::
    "deal \<Rightarrow> deal_context \<Rightarrow> trigger \<Rightarrow> instant \<Rightarrow> database \<Rightarrow> uuid \<times> ApprovalState \<times> database" where
  "assess_and_route d ctx trig now db =
     (let ep = resolve_policies db ctx; calc = evaluate_risk db ctx (d_id d);
          cov = covered_by_approval d calc db in
      case store_assessment (d_id d) calc trig ep ctx now db of (aid, db1) \<Rightarrow>
        (case apply_approval_routing now d aid (rcr_required_level calc) cov db1 of (st, db2) \<Rightarrow>
           (aid, st, update_deal (d_id d) (evaluated_deal calc aid now) db2)))"

text \<open>Step 10: the overlay in Odoo; step 11: the audit event.\<close>

definition publish_governance ::
    "'g gateway \<Rightarrow> deal \<Rightarrow> risk_calculation_result \<Rightarrow> ApprovalState \<Rightarrow> 'g world \<Rightarrow> 'g world" where
  "publish_governance gw d calc st w =
     snd (attempt (gw_set_governance gw (d_odoo_sale_order_id d) st (fl64 (rcr_risk_score calc))
       (governance_locked (rcr_required_level calc) st)) w)"

text \<open>
  The attributes of the deal's object at this point, for the calls that receive it: the row, which
  exists as long as the deal was loaded.
\<close>

definition loaded_deal :: "deal \<Rightarrow> database \<Rightarrow> deal" where
  "loaded_deal d db = (case find_deal (d_id d) db of None \<Rightarrow> d | Some d' \<Rightarrow> d')"

text \<open>Steps 12 and 13: what they raise is dropped, what they wrote by then stays.\<close>

definition refresh_advice ::
    "'g gateway \<Rightarrow> deal \<Rightarrow> uuid \<Rightarrow> ApprovalState \<Rightarrow> Role option \<Rightarrow> 'g world \<Rightarrow> 'g world" where
  "refresh_advice gw d aid st role w =
     (let w1 = snd (generate_and_persist_recommendations gw (loaded_deal d (w_db w)) aid w) in
      snd (recompute_deal_health gw (loaded_deal d (w_db w1)) (st = ApprovalState.INVALIDATED) role w1))"

definition evaluate_loaded ::
    "'g gateway \<Rightarrow> deal \<Rightarrow> deal_context \<Rightarrow> trigger \<Rightarrow> odoo_id option \<Rightarrow> Role option \<Rightarrow> 'g world \<Rightarrow>
     evaluation_response \<times> 'g world" where
  "evaluate_loaded gw d ctx trig actor role w =
     (let calc = evaluate_risk (w_db w) ctx (d_id d);
          prev = Option.bind (d_current_assessment_id d) (\<lambda>a. find_assessment a (w_db w));
          kinds = snd (is_material_change None ctx trig prev) in
      case assess_and_route d ctx trig (w_now w) (w_db w) of (aid, st, db1) \<Rightarrow>
        let w1 = publish_governance gw d calc st (on_db (\<lambda>_. db1) w);
            w2 = on_db (deal_event RISK_RECALCULATED (d_id d) actor role (w_now w)) w1;
            w3 = refresh_advice gw d aid st role w2 in
        (\<lparr>er_deal_id = d_id d,
          er_risk_assessment = new_assessment aid (d_id d) calc trig (resolve_policies (w_db w) ctx) ctx (w_now w),
          er_factors = rcr_factors calc, er_approval_state = st,
          er_required_level = rcr_required_level calc, er_decision = rcr_decision calc,
          er_material_changes = kinds\<rparr>,
         commit w3))"

definition evaluate_deal ::
    "'g gateway \<Rightarrow> uuid option \<Rightarrow> odoo_id option \<Rightarrow> trigger \<Rightarrow> odoo_id option \<Rightarrow> Role option \<Rightarrow>
     ('g world, evaluation_response) effect" where
  "evaluate_deal gw deal_id order_id trig actor role w =
     (case resolve_deal gw deal_id order_id actor role w of
        (Inl e, w1) \<Rightarrow> (Inl e, w1)
      | (Inr (i, so_id), w1) \<Rightarrow>
          (case get_deal_by_id (w_db w1) i of Inl e \<Rightarrow> (Inl e, w1)
           | Inr d \<Rightarrow>
               (case build_deal_context (w_db w1) gw (w_odoo w1) (w_now w1) so_id (Some i) of
                  Inl e \<Rightarrow> (Inl e, w1)
                | Inr ctx \<Rightarrow>
                    (case evaluate_loaded gw d ctx trig actor role w1 of (resp, w2) \<Rightarrow> (Inr resp, w2)))))"

section \<open>What-if simulation\<close>

record what_if_request =
  wi_order_discount_pct :: "dec option"
  wi_line_discounts :: "(odoo_id \<times> dec) list"
  wi_line_quantities :: "(odoo_id \<times> dec) list"

record what_if_response =
  ws_risk_score :: dec
  ws_severity :: RiskSeverity
  ws_required_level :: ApprovalLevel
  ws_decision :: string
  ws_factors :: "risk_factor_detail list"
  ws_margin_pct :: dec
  ws_amount_total :: dec

text \<open>The overrides touch a line's discount and quantity and leave its subtotal and its cost alone.\<close>

definition override_line :: "what_if_request \<Rightarrow> deal_line_context \<Rightarrow> deal_line_context" where
  "override_line q l = l\<lparr>
     dl_discount_pct := (case map_of (wi_line_discounts q) (dl_line_id l) of None \<Rightarrow> dl_discount_pct l | Some v \<Rightarrow> v),
     dl_qty := (case map_of (wi_line_quantities q) (dl_line_id l) of None \<Rightarrow> dl_qty l | Some v \<Rightarrow> v)\<rparr>"

definition override_context :: "what_if_request \<Rightarrow> deal_context \<Rightarrow> deal_context" where
  "override_context q ctx = ctx\<lparr>
     dc_order_discount_pct := (case wi_order_discount_pct q of None \<Rightarrow> dc_order_discount_pct ctx | Some v \<Rightarrow> v),
     dc_lines := map (override_line q) (dc_lines ctx)\<rparr>"

definition what_if_ceilings :: "database \<Rightarrow> deal_context \<Rightarrow> (odoo_id \<times> dec) list" where
  "what_if_ceilings db ctx = fold (\<lambda>l. AList.update (dl_line_id l) (rpol_max_discount_pct (line_policy db ctx l)))
     (dc_lines ctx) []"

definition simulate_deal_what_if ::
    "'g gateway \<Rightarrow> uuid \<Rightarrow> what_if_request \<Rightarrow> 'g world \<Rightarrow> exc + what_if_response" where
  "simulate_deal_what_if gw i q w =
     bind_exc (get_deal_by_id (w_db w) i) (\<lambda>d.
     bind_exc (build_deal_context (w_db w) gw (w_odoo w) (w_now w) (d_odoo_sale_order_id d) (Some i)) (\<lambda>ctx.
       let calc = calculate_deal_risk (override_context q ctx) (what_if_ceilings (w_db w) ctx)
             default_risk_params False in
       Inr \<lparr>ws_risk_score = rcr_risk_score calc, ws_severity = rcr_severity calc,
         ws_required_level = rcr_required_level calc, ws_decision = rcr_decision calc,
         ws_factors = rcr_factors calc, ws_margin_pct = rcr_margin_pct calc,
         ws_amount_total = dc_amount_total ctx\<rparr>))"

section \<open>The detail view\<close>

record deal_line_read =
  dlr_odoo_sale_order_line_id :: odoo_id
  dlr_odoo_product_id :: odoo_id
  dlr_product_name :: string
  dlr_product_uom_qty :: dec
  dlr_price_unit :: dec
  dlr_discount_pct :: dec
  dlr_price_subtotal :: dec
  dlr_cost_price :: dec
  dlr_margin_amount :: dec
  dlr_margin_pct :: dec
  dlr_is_recurring :: bool
  dlr_odoo_product_category_id :: odoo_id

definition line_read :: "deal_line_context \<Rightarrow> deal_line_read" where
  "line_read l = \<lparr>dlr_odoo_sale_order_line_id = dl_line_id l, dlr_odoo_product_id = dl_product_id l,
     dlr_product_name = dl_product_name l, dlr_product_uom_qty = dl_qty l,
     dlr_price_unit = dl_price_unit l, dlr_discount_pct = dl_discount_pct l,
     dlr_price_subtotal = dl_subtotal l, dlr_cost_price = dl_unit_cost l,
     dlr_margin_amount = dl_margin_amount l, dlr_margin_pct = dl_margin_pct l,
     dlr_is_recurring = dl_is_recurring l, dlr_odoo_product_category_id = dl_category_id l\<rparr>"

text \<open>The health of the deal is recomputed on every view; a failure there shows no action.\<close>

definition get_deal_detail ::
    "'g gateway \<Rightarrow> uuid \<Rightarrow> ('g world, uuid \<times> deal_line_read list \<times> next_best_action list) effect" where
  "get_deal_detail gw i w =
     (case get_deal_by_id (w_db w) i of Inl e \<Rightarrow> (Inl e, w)
      | Inr d \<Rightarrow>
          (case build_deal_context (w_db w) gw (w_odoo w) (w_now w) (d_odoo_sale_order_id d) (Some i) of
             Inl e \<Rightarrow> (Inl e, w)
           | Inr ctx \<Rightarrow>
               (case recompute_deal_health gw d False None w of (r, w1) \<Rightarrow>
                  (Inr (i, map line_read (dc_lines ctx),
                        (case r of Inl _ \<Rightarrow> [] | Inr hn \<Rightarrow> [snd hn])), w1))))"

end
