(* ===== verification/Evaluation.thy ===== *)
theory Evaluation
  imports Evaluator
begin

text \<open>
  What an evaluation guarantees (definitions in \<open>Evaluator\<close>). First the steps that leave the core of
  the database alone: the audit journal, the notifications, recommendations, health and alerts
  change nothing of a deal but its activity and its health (\<open>calm\<close>), so the invariants of approvals
  and deals survive them.
\<close>

section \<open>Calm steps\<close>

definition deal_core :: "deal \<Rightarrow> deal" where
  "deal_core d = d\<lparr>d_health_status := HEALTHY, d_last_activity_at := 0\<rparr>"

definition calm :: "database \<Rightarrow> database \<Rightarrow> bool" where
  "calm db db' = (db_requests db' = db_requests db \<and> db_sequences db' = db_sequences db
     \<and> db_plans db' = db_plans db \<and> db_plan_lines db' = db_plan_lines db
     \<and> db_profiles db' = db_profiles db \<and> db_negotiations db' = db_negotiations db
     \<and> map deal_core (db_deals db') = map deal_core (db_deals db) \<and> db_next_id db \<le> db_next_id db')"

lemma calmD:
  assumes "calm db db'"
  shows "db_requests db' = db_requests db" "db_sequences db' = db_sequences db"
    "db_plans db' = db_plans db" "db_plan_lines db' = db_plan_lines db"
    "db_profiles db' = db_profiles db" "db_negotiations db' = db_negotiations db" "map deal_core (db_deals db') = map deal_core (db_deals db)" "db_next_id db \<le> db_next_id db'"
  using assms by (simp_all add: calm_def)

lemma calm_refl [intro!, simp]: "calm db db"
  by (simp add: calm_def)

lemma calm_trans [trans]: "calm a b \<Longrightarrow> calm b c \<Longrightarrow> calm a c"
  by (simp add: calm_def)

lemma calm_fold: "(\<And>x db. calm db (f x db)) \<Longrightarrow> calm db (fold f xs db)"
  by (induction xs arbitrary: db) (auto intro: calm_trans)

lemma calm_fold_snd: "(\<And>x acc. calm (snd acc) (snd (f x acc))) \<Longrightarrow> calm (snd acc) (snd (fold f xs acc))"
proof (induction xs arbitrary: acc)
  case (Cons x xs)
  show ?case unfolding fold_simps by (rule calm_trans[OF Cons.prems Cons.IH[OF Cons.prems]])
qed simp

text \<open>What is computed from the core of each deal is the same after a calm step.\<close>

lemma calm_views:
  assumes "map deal_core ds' = map deal_core ds" and "\<And>d. f (deal_core d) = f d"
  shows "map f ds' = map f ds"
proof -
  have "map f (map deal_core ds') = map f (map deal_core ds)" by (simp only: assms(1))
  then show ?thesis by (simp add: comp_def assms(2))
qed

lemma governance_view_core: "governance_view (deal_core d) = governance_view d"
  by (simp add: governance_view_def deal_core_def)

lemma deal_core_id [simp]: "d_id (deal_core d) = d_id d"
  by (simp add: deal_core_def)

lemma calm_governance_ok: "calm db db' \<Longrightarrow> governance_ok db \<Longrightarrow> governance_ok db'"
  by (erule governance_ok_cong) (auto simp: calm_def governance_view_core intro: calm_views)

lemma calm_deals_ok: "calm db db' \<Longrightarrow> deals_ok db \<Longrightarrow> deals_ok db'"
  by (erule deals_ok_cong) (auto simp: calm_def deal_core_def intro: calm_views)

lemma calm_find_deal:
  assumes "calm db db'"
  shows "map_option deal_core (find_deal i db') = map_option deal_core (find_deal i db)"
proof -
  have f: "map_option deal_core (find_row d_id i ds) = find_row d_id i (map deal_core ds)" for ds
    by (induction ds) (auto simp: find_row_def)
  show ?thesis using assms by (simp add: find_deal_def f calm_def)
qed

lemma calm_found:
  assumes "calm db db'" and "find_deal i db = Some d"
  obtains e where "find_deal i db' = Some e" and "deal_core e = deal_core d"
  using calm_find_deal[OF assms(1), of i] assms(2) by auto

lemma deal_core_fields:
  "deal_core e = deal_core d \<Longrightarrow> d_approval_state e = d_approval_state d \<and> d_status e = d_status d \<and>
     d_required_level e = d_required_level d \<and> d_current_risk_score e = d_current_risk_score d \<and>
     d_current_assessment_id e = d_current_assessment_id d \<and> d_id e = d_id d \<and>
     d_current_severity e = d_current_severity d \<and> d_approved_assessment_id e = d_approved_assessment_id d \<and>
     d_odoo_sale_order_id e = d_odoo_sale_order_id d \<and> d_version e = d_version d \<and>
     d_customer_confirmed_pending e = d_customer_confirmed_pending d \<and>
     d_owner_odoo_user_id e = d_owner_odoo_user_id d"
  by (cases e; cases d; simp add: deal_core_def)

lemma core_update_row:
  "(\<And>d. deal_core (f d) = deal_core d) \<Longrightarrow> map deal_core (update_row d_id i f ds) = map deal_core ds"
  by (simp add: update_row_def)

lemma calm_update_deal: "(\<And>d. deal_core (f d) = deal_core d) \<Longrightarrow> calm db (update_deal i f db)"
  by (simp add: calm_def update_deal_def core_update_row)

lemma calm_audit: "calm db (record_audit_event t et ei di ty ai ar now db)"
  by (cases di) (simp_all add: calm_def db_deals_audit core_update_row deal_core_def)

lemma calm_notify: "calm db (notify r t i k now db)"
  by (simp add: calm_def notify_next_id)

lemma calm_event: "calm db (alert_event ev aid i now db)"
  by (simp add: alert_event_def calm_audit)

text \<open>An update of a table that \<open>calm\<close> does not look at.\<close>

lemma calm_after:
  assumes "calm db1 db2" and "db_requests db1 = db_requests db" "db_sequences db1 = db_sequences db"
    "db_plans db1 = db_plans db" "db_plan_lines db1 = db_plan_lines db"
    "db_profiles db1 = db_profiles db" "db_negotiations db1 = db_negotiations db" "db_deals db1 = db_deals db"
    "db_next_id db \<le> db_next_id db1"
  shows "calm db db2"
  using assms by (simp add: calm_def)

lemma calm_raise: "calm db (snd (raise_alert i ty sev now db))"
  by (auto simp: raise_alert_def Let_def split: option.splits intro!: calm_after[OF calm_event])
     (simp add: calm_def)

lemma calm_clear: "calm db (clear_alert i ty now db)"
  by (auto simp: clear_alert_def split: option.splits intro!: calm_after[OF calm_event])

lemma calm_rep_stats: "calm db (store_rep_stats u b now db)"
  by (simp add: calm_def store_rep_stats_def Let_def split: option.splits)

lemma calm_baseline: "calm db (snd (calculate_rep_discount_baseline u t c wd ms now db))"
  by (simp add: calculate_rep_discount_baseline_def Let_def calm_rep_stats split: prod.splits)

lemma calm_anomaly: "calm db (snd (detect_deal_discount_anomaly s d given now db))"
  by (auto simp: detect_deal_discount_anomaly_def Let_def split_beta calm_baseline
      intro: calm_trans[OF calm_baseline calm_raise] calm_trans[OF calm_baseline calm_clear])

lemma calm_store_health: "calm db (store_health i h now db)"
  by (simp add: store_health_def) (rule calm_after[OF calm_update_deal], simp_all add: deal_core_def)

lemma calm_recompute: "calm (w_db w) (w_db (snd (recompute_deal_health gw d ji role w)))"
  by (auto simp: recompute_deal_health_def Let_def split_beta calm_anomaly
      intro: calm_trans[OF calm_anomaly calm_store_health] split: sum.splits)

lemma recompute_world [simp]:
  "w_odoo (snd (recompute_deal_health gw d ji role w)) = w_odoo w"
  "w_now (snd (recompute_deal_health gw d ji role w)) = w_now w"
  by (simp_all add: recompute_deal_health_def Let_def split_beta split: sum.splits)

lemma calm_replace: "calm db (replace_recommendations i a now cs db)"
proof -
  have "calm db1 (fold (insert_recommendation i a now) cs db1)" for db1
    by (rule calm_fold) (simp add: insert_recommendation_def calm_def)
  then show ?thesis unfolding replace_recommendations_def by (rule calm_after) simp_all
qed

lemma calm_generate: "calm (w_db w) (w_db (snd (generate_and_persist_recommendations gw d a w)))"
  by (auto simp: generate_and_persist_recommendations_def Let_def calm_replace split: sum.splits)

lemma generate_world [simp]:
  "w_odoo (snd (generate_and_persist_recommendations gw d a w)) = w_odoo w"
  "w_now (snd (generate_and_persist_recommendations gw d a w)) = w_now w"
  "db_alerts (w_db (snd (generate_and_persist_recommendations gw d a w))) = db_alerts (w_db w)"
  "db_assessments (w_db (snd (generate_and_persist_recommendations gw d a w))) = db_assessments (w_db w)"
proof -
  have "db_alerts (fold (insert_recommendation i a now) cs db) = db_alerts db \<and>
      db_assessments (fold (insert_recommendation i a now) cs db) = db_assessments db" for i a now cs db
    by (induction cs arbitrary: db) (simp_all add: insert_recommendation_def)
  then show "w_odoo (snd (generate_and_persist_recommendations gw d a w)) = w_odoo w"
    "w_now (snd (generate_and_persist_recommendations gw d a w)) = w_now w"
    "db_alerts (w_db (snd (generate_and_persist_recommendations gw d a w))) = db_alerts (w_db w)"
    "db_assessments (w_db (snd (generate_and_persist_recommendations gw d a w))) = db_assessments (w_db w)"
    by (simp_all add: generate_and_persist_recommendations_def Let_def replace_recommendations_def split: sum.splits)
qed

section \<open>Routing, once more\<close>

lemma invalidate_pending_rest [simp]:
  "db_alerts (invalidate_pending now i db) = db_alerts db"
  "db_sequences (invalidate_pending now i db) = db_sequences db"
  "db_plans (invalidate_pending now i db) = db_plans db"
  "db_plan_lines (invalidate_pending now i db) = db_plan_lines db"
  "db_profiles (invalidate_pending now i db) = db_profiles db"
  "db_negotiations (invalidate_pending now i db) = db_negotiations db"
  "db_assessments (invalidate_pending now i db) = db_assessments db"
proof -
  have "P (invalidate_pending now i db)" if "P db" "\<And>db r. P db \<Longrightarrow> P (invalidate_request now i r db)" for P
    unfolding invalidate_pending_def by (rule fold_invariant) (use that in auto)
  from this[of "\<lambda>x. db_alerts x = db_alerts db"] this[of "\<lambda>x. db_sequences x = db_sequences db"]
    this[of "\<lambda>x. db_plans x = db_plans db"]
    this[of "\<lambda>x. db_plan_lines x = db_plan_lines db"] this[of "\<lambda>x. db_profiles x = db_profiles db"] this[of "\<lambda>x. db_negotiations x = db_negotiations db"]
    this[of "\<lambda>x. db_assessments x = db_assessments db"]
  show "db_alerts (invalidate_pending now i db) = db_alerts db"
    "db_sequences (invalidate_pending now i db) = db_sequences db"
    "db_plans (invalidate_pending now i db) = db_plans db"
    "db_plan_lines (invalidate_pending now i db) = db_plan_lines db"
    "db_profiles (invalidate_pending now i db) = db_profiles db"
    "db_negotiations (invalidate_pending now i db) = db_negotiations db"
    "db_assessments (invalidate_pending now i db) = db_assessments db"
    by (simp_all add: invalidate_request_def update_request_def)
qed

lemma routing_rest [simp]:
  "db_alerts (snd (apply_approval_routing now d a l cov db)) = db_alerts db"
  "db_sequences (snd (apply_approval_routing now d a l cov db)) = db_sequences db"
  "db_plans (snd (apply_approval_routing now d a l cov db)) = db_plans db"
  "db_plan_lines (snd (apply_approval_routing now d a l cov db)) = db_plan_lines db"
  "db_profiles (snd (apply_approval_routing now d a l cov db)) = db_profiles db"
  "db_negotiations (snd (apply_approval_routing now d a l cov db)) = db_negotiations db"
  "db_assessments (snd (apply_approval_routing now d a l cov db)) = db_assessments db"
  "db_next_id db \<le> db_next_id (snd (apply_approval_routing now d a l cov db))"
  by (simp_all add: apply_approval_routing_def Let_def)
     (simp_all add: set_approval_state_def update_deal_def add_request_def)

lemma deals_ok_set_state: "deals_ok db \<Longrightarrow> deals_ok (set_approval_state i s db)"
  unfolding set_approval_state_def by (erule deals_ok_update_deal) simp_all

lemma deals_ok_add_request: "deals_ok db \<Longrightarrow> deals_ok (add_request i a l sq now db)"
  by (erule deals_ok_cong) (simp_all add: add_request_def)

lemma deals_ok_update_request: "deals_ok db \<Longrightarrow> deals_ok (update_request i f db)"
  by (erule deals_ok_cong) (simp_all add: update_request_def)

lemma deals_ok_routing:
  assumes "deals_ok db"
  shows "deals_ok (snd (apply_approval_routing now d a l cov db))"
proof -
  have "deals_ok (invalidate_pending now (d_id d) db)"
    unfolding invalidate_pending_def
    by (rule fold_invariant[where P = deals_ok, OF _ assms])
       (simp add: invalidate_request_def deals_ok_audit deals_ok_update_request)
  then show ?thesis using assms
    by (simp add: apply_approval_routing_def Let_def deals_ok_set_state deals_ok_audit deals_ok_add_request)
qed

section \<open>The invariants\<close>

lemma store_assessment_calm: "calm db (snd (store_assessment i calc trig ep ctx now db))"
  by (simp add: store_assessment_def Let_def calm_def)

lemma evaluated_deal_frame [simp]:
  "governance_view (evaluated_deal calc aid now d) = governance_view d"
  "d_id (evaluated_deal calc aid now d) = d_id d"
  "d_odoo_sale_order_id (evaluated_deal calc aid now d) = d_odoo_sale_order_id d"
  "d_reference (evaluated_deal calc aid now d) = d_reference d"
  "d_approval_state (evaluated_deal calc aid now d) = d_approval_state d"
  "d_status (evaluated_deal calc aid now d) = d_status d"
  by (simp_all add: evaluated_deal_def governance_view_def)

text \<open>The three databases of steps 7 to 9.\<close>

lemma assess_and_route_cases:
  obtains aid db1 st db2 where
    "store_assessment (d_id d) (evaluate_risk db ctx (d_id d)) trig (resolve_policies db ctx) ctx now db = (aid, db1)"
    "apply_approval_routing now d aid (rcr_required_level (evaluate_risk db ctx (d_id d)))
       (covered_by_approval d (evaluate_risk db ctx (d_id d)) db) db1 = (st, db2)"
    "assess_and_route d ctx trig now db =
       (aid, st, update_deal (d_id d) (evaluated_deal (evaluate_risk db ctx (d_id d)) aid now) db2)"
  by (rule that[OF prod.collapse[symmetric] prod.collapse[symmetric]])
     (simp add: assess_and_route_def Let_def split_beta)

definition routed :: "deal \<Rightarrow> deal_context \<Rightarrow> trigger \<Rightarrow> instant \<Rightarrow> database \<Rightarrow> database" where
  "routed d ctx trig now db = snd (snd (assess_and_route d ctx trig now db))"

lemma db_deals_store [simp]: "db_deals (snd (store_assessment i calc trig ep ctx now db)) = db_deals db"
  "db_alerts (snd (store_assessment i calc trig ep ctx now db)) = db_alerts db"
  by (simp_all add: store_assessment_def Let_def)

lemma governance_ok_assess:
  assumes "governance_ok db" and "d \<in> set (db_deals db)"
  shows "governance_ok (routed d ctx trig now db)"
proof -
  obtain aid db1 st db2 where s:
    "store_assessment (d_id d) (evaluate_risk db ctx (d_id d)) trig (resolve_policies db ctx) ctx now db = (aid, db1)"
    "apply_approval_routing now d aid (rcr_required_level (evaluate_risk db ctx (d_id d)))
       (covered_by_approval d (evaluate_risk db ctx (d_id d)) db) db1 = (st, db2)"
    "assess_and_route d ctx trig now db =
       (aid, st, update_deal (d_id d) (evaluated_deal (evaluate_risk db ctx (d_id d)) aid now) db2)"
    by (rule assess_and_route_cases)
  have "governance_ok db1"
    using calm_governance_ok[OF store_assessment_calm assms(1)] s(1) by (metis snd_conv)
  moreover have "d \<in> set (db_deals db1)" using assms(2) db_deals_store s(1) by (metis snd_conv)
  ultimately have "governance_ok db2" using governance_ok_routing s(2) by (metis snd_conv)
  then show ?thesis unfolding routed_def s(3) by (simp add: governance_ok_update_deal)
qed

lemma deals_ok_assess: "deals_ok db \<Longrightarrow> deals_ok (routed d ctx trig now db)"
  using calm_deals_ok[OF store_assessment_calm]
  by (simp add: routed_def assess_and_route_def Let_def split_beta deals_ok_update_deal deals_ok_routing)

lemma alerts_ok_assess: "alerts_ok db \<Longrightarrow> alerts_ok (routed d ctx trig now db)"
proof (erule alerts_ok_cong)
  obtain aid db1 st db2 where s:
    "store_assessment (d_id d) (evaluate_risk db ctx (d_id d)) trig (resolve_policies db ctx) ctx now db = (aid, db1)"
    "apply_approval_routing now d aid (rcr_required_level (evaluate_risk db ctx (d_id d)))
       (covered_by_approval d (evaluate_risk db ctx (d_id d)) db) db1 = (st, db2)"
    "assess_and_route d ctx trig now db =
       (aid, st, update_deal (d_id d) (evaluated_deal (evaluate_risk db ctx (d_id d)) aid now) db2)"
    by (rule assess_and_route_cases)
  have "db_next_id db \<le> db_next_id db1" using calmD(8)[OF store_assessment_calm] s(1) by (metis snd_conv)
  also have "\<dots> \<le> db_next_id db2" using routing_rest(8) s(2) by (metis snd_conv)
  finally show "db_next_id db \<le> db_next_id (routed d ctx trig now db)" by (simp add: routed_def s(3))
  have "db_alerts db1 = db_alerts db" using db_deals_store(2) s(1) by (metis snd_conv)
  moreover have "db_alerts db2 = db_alerts db1" using routing_rest(1) s(2) by (metis snd_conv)
  ultimately show "db_alerts (routed d ctx trig now db) = db_alerts db" by (simp add: routed_def s(3) update_deal_def)
qed

lemma publish_frame [simp]:
  "w_db (publish_governance gw d calc st w) = w_db w" "w_now (publish_governance gw d calc st w) = w_now w"
  by (simp_all add: publish_governance_def)

lemma refresh_advice_frame:
  "calm (w_db w) (w_db (refresh_advice gw d aid st role w))"
  "w_odoo (refresh_advice gw d aid st role w) = w_odoo w"
  "alerts_ok (w_db w) \<Longrightarrow> alerts_ok (w_db (refresh_advice gw d aid st role w))"
proof -
  let ?w1 = "snd (generate_and_persist_recommendations gw (loaded_deal d (w_db w)) aid w)"
  show "calm (w_db w) (w_db (refresh_advice gw d aid st role w))"
    unfolding refresh_advice_def Let_def by (rule calm_trans[OF calm_generate calm_recompute])
  show "w_odoo (refresh_advice gw d aid st role w) = w_odoo w" by (simp add: refresh_advice_def Let_def)
  assume "alerts_ok (w_db w)"
  then have "alerts_ok (w_db ?w1)" by (rule alerts_ok_cong) (simp_all add: calmD(8)[OF calm_generate])
  then show "alerts_ok (w_db (refresh_advice gw d aid st role w))"
    by (simp add: refresh_advice_def Let_def alerts_ok_recompute)
qed

lemma deal_event_frame:
  "calm db (deal_event ty i actor role now db)"
  "alerts_ok db \<Longrightarrow> alerts_ok (deal_event ty i actor role now db)"
  by (simp_all add: deal_event_def calm_audit alerts_ok_audit)

lemma evaluate_loaded_db:
  assumes "evaluate_loaded gw d ctx trig actor role w = (resp, w')"
  shows "calm (routed d ctx trig (w_now w) (w_db w)) (w_db w')"
    and "alerts_ok (routed d ctx trig (w_now w) (w_db w)) \<Longrightarrow> alerts_ok (w_db w')"
    and "w_saved w' = w_db w'"
    and "w_odoo w' = snd (gw_set_governance gw (d_odoo_sale_order_id d) (er_approval_state resp)
      (fl64 (rcr_risk_score (evaluate_risk (w_db w) ctx (d_id d))))
      (governance_locked (er_required_level resp) (er_approval_state resp)) (w_odoo w))"
proof -
  obtain aid st db1 where r: "assess_and_route d ctx trig (w_now w) (w_db w) = (aid, st, db1)"
    using prod_cases3 by blast
  then have db1: "routed d ctx trig (w_now w) (w_db w) = db1" by (simp add: routed_def)
  let ?calc = "evaluate_risk (w_db w) ctx (d_id d)"
  let ?w2 = "on_db (deal_event RISK_RECALCULATED (d_id d) actor role (w_now w))
    (publish_governance gw d ?calc st (on_db (\<lambda>_. db1) w))"
  have w': "w' = commit (refresh_advice gw d aid st role ?w2)" and st: "er_approval_state resp = st"
    and lv: "er_required_level resp = rcr_required_level ?calc"
    using assms by (auto simp: evaluate_loaded_def Let_def r)
  have "calm db1 (w_db ?w2)" by (simp add: deal_event_frame)
  from calm_trans[OF this refresh_advice_frame(1)]
  show "calm (routed d ctx trig (w_now w) (w_db w)) (w_db w')" by (simp add: db1 w')
  show "alerts_ok (w_db w')" if "alerts_ok (routed d ctx trig (w_now w) (w_db w))"
    using that by (simp add: db1 w' refresh_advice_frame(3) deal_event_frame)
  show "w_saved w' = w_db w'" by (simp add: w')
  show "w_odoo w' = snd (gw_set_governance gw (d_odoo_sale_order_id d) (er_approval_state resp)
      (fl64 (rcr_risk_score ?calc)) (governance_locked (er_required_level resp) (er_approval_state resp)) (w_odoo w))"
    by (simp add: w' refresh_advice_frame(2) st lv publish_governance_def)
qed

lemma evaluate_Inr:
  assumes "evaluate_deal gw did oid trig actor role w = (Inr resp, w')"
  obtains i so w1 d ctx where "resolve_deal gw did oid actor role w = (Inr (i, so), w1)"
    "find_deal i (w_db w1) = Some d"
    "build_deal_context (w_db w1) gw (w_odoo w1) (w_now w1) so (Some i) = Inr ctx"
    "evaluate_loaded gw d ctx trig actor role w1 = (resp, w')"
  using assms
  by (auto simp: evaluate_deal_def get_deal_by_id_def option_or_raise_def split: prod.splits sum.splits option.splits)

text \<open>An evaluation by identifier: no other world is involved.\<close>

lemma evaluate_by_id:
  assumes "evaluate_deal gw (Some i) oid trig actor role w = (Inr resp, w')" and "find_deal i (w_db w) = Some d"
  obtains ctx where
    "build_deal_context (w_db w) gw (w_odoo w) (w_now w) (d_odoo_sale_order_id d) (Some i) = Inr ctx"
    "evaluate_loaded gw d ctx trig actor role w = (resp, w')"
  using assms
  by (auto simp: evaluate_deal_def resolve_deal_def get_deal_by_id_def option_or_raise_def split: prod.splits sum.splits)

lemma resolve_keeps:
  assumes "\<And>oid. P w \<Longrightarrow> P (snd (sync_deal_from_odoo gw oid None actor role w))" and "P w"
  shows "P (snd (resolve_deal gw did oid actor role w))"
  using assms by (auto simp: resolve_deal_def split: option.splits)

lemma evaluate_cases:
  assumes "P (snd (resolve_deal gw did oid actor role w))"
    and "\<And>i so w1 d ctx. resolve_deal gw did oid actor role w = (Inr (i, so), w1) \<Longrightarrow>
      find_deal i (w_db w1) = Some d \<Longrightarrow> P w1 \<Longrightarrow> P (snd (evaluate_loaded gw d ctx trig actor role w1))"
  shows "P (snd (evaluate_deal gw did oid trig actor role w))"
proof (cases "resolve_deal gw did oid actor role w")
  case (Pair res w1)
  have w1: "P w1" using assms(1) Pair by simp
  show ?thesis
  proof (cases res)
    case (Inl e) then show ?thesis using w1 by (simp add: evaluate_deal_def Pair)
  next
    case (Inr iso)
    obtain i so where iso: "iso = (i, so)" by force
    show ?thesis using w1 assms(2)[OF Pair[unfolded Inr iso]]
      by (auto simp: evaluate_deal_def Pair Inr iso get_deal_by_id_def option_or_raise_def split_beta
          split: option.splits sum.splits)
  qed
qed

lemma governance_ok_evaluate:
  assumes "governance_ok (w_db w)"
  shows "governance_ok (w_db (snd (evaluate_deal gw did oid trig actor role w)))"
proof (rule evaluate_cases[where P = "\<lambda>w. governance_ok (w_db w)"])
  show "governance_ok (w_db (snd (resolve_deal gw did oid actor role w)))"
    by (rule resolve_keeps[where P = "\<lambda>w. governance_ok (w_db w)"]) (simp_all add: governance_ok_sync assms)
  fix i :: uuid and w1 :: "'a world" and d ctx
  assume "find_deal i (w_db w1) = Some d" and ok: "governance_ok (w_db w1)"
  then have "governance_ok (routed d ctx trig (w_now w1) (w_db w1))"
    by (intro governance_ok_assess) (auto dest: find_deal_in)
  then show "governance_ok (w_db (snd (evaluate_loaded gw d ctx trig actor role w1)))"
    by (rule calm_governance_ok[OF evaluate_loaded_db(1)[OF prod.collapse[symmetric]]])
qed

lemma alerts_ok_sync:
  "alerts_ok (w_db w) \<Longrightarrow> alerts_ok (w_db (snd (sync_deal_from_odoo gw oid ev a r w)))"
proof (erule alerts_ok_cong)
  have s: "db_alerts (snd (get_next_sequence k p db)) = db_alerts db" for k p db
    by (simp add: get_next_sequence_def ensure_sequence_def Let_def split: option.splits)
  show "db_alerts (w_db (snd (sync_deal_from_odoo gw oid ev a r w))) = db_alerts (w_db w)"
    "db_next_id (w_db w) \<le> db_next_id (w_db (snd (sync_deal_from_odoo gw oid ev a r w)))"
    by (simp_all add: sync_deal_from_odoo_def insert_deal_def Let_def split_beta deal_event_def s update_deal_def
        split: sum.splits option.splits)
qed

lemma alerts_ok_evaluate:
  assumes "alerts_ok (w_db w)"
  shows "alerts_ok (w_db (snd (evaluate_deal gw did oid trig actor role w)))"
proof (rule evaluate_cases[where P = "\<lambda>w. alerts_ok (w_db w)"])
  show "alerts_ok (w_db (snd (resolve_deal gw did oid actor role w)))"
    by (rule resolve_keeps[where P = "\<lambda>w. alerts_ok (w_db w)"]) (simp_all add: alerts_ok_sync assms)
  show "alerts_ok (w_db (snd (evaluate_loaded gw d ctx trig actor role w1)))" if "alerts_ok (w_db w1)" for w1 d ctx
    by (rule evaluate_loaded_db(2)[OF prod.collapse[symmetric]]) (rule alerts_ok_assess[OF that])
qed

context odoo_gateway
begin

lemma valid_sync: "valid (w_odoo w) \<Longrightarrow> valid (w_odoo (snd (sync_deal_from_odoo gw oid ev a r w)))"
  by (simp add: sync_world)

lemma deals_ok_evaluate:
  assumes "valid (w_odoo w)" and "deals_ok (w_db w)"
  shows "deals_ok (w_db (snd (evaluate_deal gw did oid trig actor role w)))"
proof (rule evaluate_cases[where P = "\<lambda>w. deals_ok (w_db w)"])
  show "deals_ok (w_db (snd (resolve_deal gw did oid actor role w)))"
    by (rule resolve_keeps[where P = "\<lambda>w. deals_ok (w_db w)"]) (simp_all add: deals_ok_sync assms)
  show "deals_ok (w_db (snd (evaluate_loaded gw d ctx trig actor role w1)))" if "deals_ok (w_db w1)" for w1 d ctx
    by (rule calm_deals_ok[OF evaluate_loaded_db(1)[OF prod.collapse[symmetric]]]) (rule deals_ok_assess[OF that])
qed

lemma valid_evaluate:
  assumes "valid (w_odoo w)"
  shows "valid (w_odoo (snd (evaluate_deal gw did oid trig actor role w)))"
proof (rule evaluate_cases[where P = "\<lambda>w. valid (w_odoo w)"])
  show "valid (w_odoo (snd (resolve_deal gw did oid actor role w)))"
    by (rule resolve_keeps[where P = "\<lambda>w. valid (w_odoo w)"]) (simp_all add: valid_sync assms)
  show "valid (w_odoo (snd (evaluate_loaded gw d ctx trig actor role w1)))" if "valid (w_odoo w1)" for w1 d ctx
    using evaluate_loaded_db(4)[OF prod.collapse[symmetric], of gw d ctx trig actor role w1] governance_valid[OF that]
    by simp
qed

end

section \<open>The outcome of an evaluation\<close>

lemma find_deal_store [simp]:
  "find_deal j (snd (store_assessment i calc trig ep ctx now db)) = find_deal j db"
  by (simp add: find_deal_def)

text \<open>The state a deal is in after routing.\<close>

definition routed_state :: "deal \<Rightarrow> risk_calculation_result \<Rightarrow> database \<Rightarrow> ApprovalState" where
  "routed_state d calc db =
     (if covered_by_approval d calc db \<and> d_approval_state d = ApprovalState.APPROVED then ApprovalState.APPROVED
      else if rcr_required_level calc = ApprovalLevel.NONE then EVALUATED_NO_APPROVAL else PENDING_MANAGER)"

lemma routing_state:
  assumes ok: "governance_ok db1" and d: "find_deal (d_id d) db1 = Some d"
    and r: "apply_approval_routing now d aid level cov db1 = (st, db2)"
  shows "st = (if cov \<and> d_approval_state d = ApprovalState.APPROVED then ApprovalState.APPROVED
      else if level = ApprovalLevel.NONE then EVALUATED_NO_APPROVAL else PENDING_MANAGER) \<and>
    map_option d_approval_state (find_deal (d_id d) db2) = Some st"
proof (cases "cov \<and> d_approval_state d = ApprovalState.APPROVED")
  case True
  then show ?thesis using r d by (auto simp: apply_approval_routing_def)
next
  case False
  from routing_result[OF ok d False, of now aid level] r show ?thesis by (auto simp: False split: if_splits)
qed

lemma routed_deal:
  assumes ok: "governance_ok db" and d: "find_deal (d_id d) db = Some d"
    and r: "assess_and_route d ctx trig now db = (aid, st, db3)"
  defines "calc \<equiv> evaluate_risk db ctx (d_id d)"
  shows "st = routed_state d calc db" and "aid = db_next_id db"
    and "new_assessment aid (d_id d) calc trig (resolve_policies db ctx) ctx now \<in> set (db_assessments db3)"
    and "\<exists>e. find_deal (d_id d) db3 = Some e \<and> d_approval_state e = st \<and>
      d_current_risk_score e = Some (rcr_risk_score calc) \<and> d_required_level e = rcr_required_level calc \<and>
      d_current_assessment_id e = Some aid"
proof -
  obtain aid' db1 st' db2 where s:
    "store_assessment (d_id d) calc trig (resolve_policies db ctx) ctx now db = (aid', db1)"
    "apply_approval_routing now d aid' (rcr_required_level calc) (covered_by_approval d calc db) db1 = (st', db2)"
    "assess_and_route d ctx trig now db = (aid', st', update_deal (d_id d) (evaluated_deal calc aid' now) db2)"
    unfolding calc_def by (rule assess_and_route_cases)
  have eq: "aid' = aid" "st' = st" "db3 = update_deal (d_id d) (evaluated_deal calc aid now) db2"
    using s(3) r by simp_all
  have "governance_ok db1" using calm_governance_ok[OF store_assessment_calm ok] s(1) by (metis snd_conv)
  moreover have "find_deal (d_id d) db1 = Some d" using find_deal_store s(1) d by (metis snd_conv)
  ultimately have st: "st = routed_state d calc db \<and> map_option d_approval_state (find_deal (d_id d) db2) = Some st"
    using routing_state s(2) unfolding eq routed_state_def by blast
  then show "st = routed_state d calc db" by blast
  show aid: "aid = db_next_id db" using s(1) by (simp add: eq store_assessment_def Let_def)
  have "new_assessment aid (d_id d) calc trig (resolve_policies db ctx) ctx now \<in> set (db_assessments db1)"
    using s(1) by (auto simp: eq store_assessment_def Let_def)
  moreover have "db_assessments db2 = db_assessments db1" using routing_rest(7) s(2) by (metis snd_conv)
  ultimately show "new_assessment aid (d_id d) calc trig (resolve_policies db ctx) ctx now \<in> set (db_assessments db3)"
    by (simp add: eq)
  show "\<exists>e. find_deal (d_id d) db3 = Some e \<and> d_approval_state e = st \<and>
      d_current_risk_score e = Some (rcr_risk_score calc) \<and> d_required_level e = rcr_required_level calc \<and>
      d_current_assessment_id e = Some aid"
    using st by (auto simp: eq deals.lookup_modify evaluated_deal_def)
qed

lemma evaluate_loaded_outcome:
  assumes ok: "governance_ok (w_db w)" and d: "find_deal (d_id d) (w_db w) = Some d"
    and ev: "evaluate_loaded gw d ctx trig actor role w = (resp, w')"
  defines "calc \<equiv> evaluate_risk (w_db w) ctx (d_id d)"
  shows "er_approval_state resp = routed_state d calc (w_db w) \<and>
    er_required_level resp = rcr_required_level calc \<and>
    er_risk_assessment resp = new_assessment (db_next_id (w_db w)) (d_id d) calc trig
      (resolve_policies (w_db w) ctx) ctx (w_now w) \<and>
    (\<exists>e. find_deal (d_id d) (w_db w') = Some e \<and> d_approval_state e = er_approval_state resp \<and>
      d_current_risk_score e = Some (rcr_risk_score calc) \<and> d_required_level e = rcr_required_level calc \<and>
      d_current_assessment_id e = Some (ra_id (er_risk_assessment resp)))"
proof -
  obtain aid st db3 where r: "assess_and_route d ctx trig (w_now w) (w_db w) = (aid, st, db3)"
    using prod_cases3 by blast
  note o = routed_deal[OF ok d r, folded calc_def]
  obtain e where e: "find_deal (d_id d) db3 = Some e" "d_approval_state e = st"
      "d_current_risk_score e = Some (rcr_risk_score calc)" "d_required_level e = rcr_required_level calc"
      "d_current_assessment_id e = Some aid" using o(4) by blast
  have "calm db3 (w_db w')" using evaluate_loaded_db(1)[OF ev] by (simp add: routed_def r)
  then obtain e' where e': "find_deal (d_id d) (w_db w') = Some e'" "deal_core e' = deal_core e"
    using calm_found e(1) by blast
  have resp: "er_approval_state resp = st" "er_required_level resp = rcr_required_level calc"
    "er_risk_assessment resp = new_assessment aid (d_id d) calc trig (resolve_policies (w_db w) ctx) ctx (w_now w)"
    using ev by (auto simp: evaluate_loaded_def Let_def r calc_def)
  have "ra_id (er_risk_assessment resp) = aid" by (simp add: resp new_assessment_def)
  then show ?thesis using e e' deal_core_fields[OF e'(2)] o(1,2) resp by simp
qed

lemma evaluation_result:
  assumes ok: "governance_ok (w_db w)" and d: "find_deal i (w_db w) = Some d"
    and ev: "evaluate_deal gw (Some i) None trig actor role w = (Inr resp, w')"
    and ctx: "build_deal_context (w_db w) gw (w_odoo w) (w_now w) (d_odoo_sale_order_id d) (Some i) = Inr ctx"
    and calc: "calc = evaluate_risk (w_db w) ctx i"
  shows "(\<exists>e. find_deal i (w_db w') = Some e \<and>
      d_current_risk_score e = Some (rcr_risk_score calc) \<and> d_required_level e = rcr_required_level calc \<and>
      d_current_assessment_id e = Some (ra_id (er_risk_assessment resp)) \<and>
      ra_risk_score (er_risk_assessment resp) = rcr_risk_score calc \<and>
      d_approval_state e = er_approval_state resp \<and>
      er_approval_state resp =
        (if covered_by_approval d calc (w_db w) \<and> d_approval_state d = ApprovalState.APPROVED then ApprovalState.APPROVED
         else if rcr_required_level calc = ApprovalLevel.NONE then EVALUATED_NO_APPROVAL else PENDING_MANAGER) \<and>
      map ar_required_level (pending_requests i (w_db w')) = awaited_levels (d_approval_state e)) \<and>
    w_saved w' = w_db w'"
proof -
  have i: "d_id d = i" using find_deal_in[OF d] by simp
  have l: "evaluate_loaded gw d ctx trig actor role w = (resp, w')"
    by (rule evaluate_by_id[OF ev d]) (use ctx in simp)
  have ok': "governance_ok (w_db w')" using governance_ok_evaluate[OF ok, of gw "Some i" None trig actor role] ev by simp
  have "find_deal (d_id d) (w_db w) = Some d" using d i by simp
  from evaluate_loaded_outcome[OF ok this l]
  have o: "er_approval_state resp = routed_state d calc (w_db w)"
      "er_risk_assessment resp = new_assessment (db_next_id (w_db w)) i calc trig
         (resolve_policies (w_db w) ctx) ctx (w_now w)"
    and "\<exists>e. find_deal i (w_db w') = Some e \<and> d_approval_state e = er_approval_state resp \<and>
      d_current_risk_score e = Some (rcr_risk_score calc) \<and> d_required_level e = rcr_required_level calc \<and>
      d_current_assessment_id e = Some (ra_id (er_risk_assessment resp))"
    unfolding i calc[symmetric] by blast+
  then obtain e where e: "find_deal i (w_db w') = Some e" "d_approval_state e = er_approval_state resp"
      "d_current_risk_score e = Some (rcr_risk_score calc)" "d_required_level e = rcr_required_level calc"
      "d_current_assessment_id e = Some (ra_id (er_risk_assessment resp))" by blast
  have "ra_risk_score (er_risk_assessment resp) = rcr_risk_score calc" by (simp only: o(2)) (simp add: new_assessment_def)
  then show ?thesis
    using e o(1)[unfolded routed_state_def] pending_own(1)[OF ok' e(1)] evaluate_loaded_db(3)[OF l] by blast
qed

text \<open>
  C11: An evaluation leaves the deal as the risk engine says. The deal carries the score, the level and
  the fresh assessment computed from the context of its order and the policies of its lines; it stays
  approved only when its approved assessment covers the new result, and is otherwise free of
  approval or pending with the sales manager, as the level demands; exactly the requests its state
  awaits are pending; everything is committed and the answer shows what was stored.
\<close>

theorem evaluation_outcome:
  assumes ok: "governance_ok (w_db w)" and d: "find_deal i (w_db w) = Some d"
    and ev: "evaluate_deal gw (Some i) None trig actor role w = (Inr resp, w')"
    and ctx: "build_deal_context (w_db w) gw (w_odoo w) (w_now w) (d_odoo_sale_order_id d) (Some i) = Inr ctx"
    and calc: "calc = evaluate_risk (w_db w) ctx i"
  shows "(\<exists>e. find_deal i (w_db w') = Some e \<and>
      d_current_risk_score e = Some (rcr_risk_score calc) \<and> d_required_level e = rcr_required_level calc \<and>
      d_current_assessment_id e = Some (ra_id (er_risk_assessment resp)) \<and>
      ra_risk_score (er_risk_assessment resp) = rcr_risk_score calc \<and>
      d_approval_state e = er_approval_state resp \<and>
      er_approval_state resp =
        (if covered_by_approval d calc (w_db w) \<and> d_approval_state d = ApprovalState.APPROVED then ApprovalState.APPROVED
         else if rcr_required_level calc = ApprovalLevel.NONE then EVALUATED_NO_APPROVAL else PENDING_MANAGER) \<and>
      map ar_required_level (pending_requests i (w_db w')) = awaited_levels (d_approval_state e)) \<and>
    w_saved w' = w_db w'"
  by (rule evaluation_result[OF assms])

lemma evaluate_total:
  assumes "find_deal i (w_db w) = Some d"
    and "build_deal_context (w_db w) gw (w_odoo w) (w_now w) (d_odoo_sale_order_id d) (Some i) = Inr ctx"
  obtains resp w' where "evaluate_deal gw (Some i) None trig actor role w = (Inr resp, w')"
  using assms that
  by (cases "evaluate_loaded gw d ctx trig actor role w")
     (auto simp: evaluate_deal_def resolve_deal_def get_deal_by_id_def option_or_raise_def)

text \<open>The small world, with a deal that waits for its sales manager, at time zero.\<close>

definition awaiting_world :: "fake_state world" where
  "awaiting_world = small_world awaiting_db\<lparr>w_now := 0\<rparr>"

lemma awaiting_world_simps [simp]:
  "w_db awaiting_world = awaiting_db" "w_odoo awaiting_world = small_state 20" "w_now awaiting_world = 0"
  by (simp_all add: awaiting_world_def)

lemma awaiting_world_context:
  "build_deal_context (w_db awaiting_world) fake_gateway (w_odoo awaiting_world) (w_now awaiting_world)
     (d_odoo_sale_order_id (small_deal st lv)) (Some 6) = Inr (small_context (Some 6))"
  by (simp add: awaiting_context build_small)

theorem evaluation_outcome_witness:
  "\<exists>resp w'. evaluate_deal fake_gateway (Some 6) None (Inl TriggerType.MANUAL) None None awaiting_world = (Inr resp, w') \<and>
     w_saved w' = w_db w'"
proof -
  have ok: "governance_ok (w_db awaiting_world)"
    and d: "find_deal 6 (w_db awaiting_world) = Some (small_deal PENDING_MANAGER MANAGER_AND_FINANCE)"
    by (simp_all add: awaiting_ok)
  obtain resp w' where ev: "evaluate_deal fake_gateway (Some 6) None (Inl TriggerType.MANUAL) None None awaiting_world = (Inr resp, w')"
    by (rule evaluate_total[OF d awaiting_world_context])
  from evaluation_outcome[OF ok d ev awaiting_world_context refl] ev show ?thesis by blast
qed

section \<open>A line over its ceiling\<close>

lemma fold_ceilings:
  "ep_ceilings (fold (policy_step db ctx) ls acc) =
     fold (\<lambda>l. AList.update (dl_line_id l) (rpol_max_discount_pct (line_policy db ctx l))) ls (ep_ceilings acc)"
  by (induction ls arbitrary: acc) (simp_all add: policy_step_def Let_def)

lemma ceilings_eq: "ep_ceilings (resolve_policies db ctx) = what_if_ceilings db ctx"
  by (simp add: resolve_policies_def fold_ceilings what_if_ceilings_def)

lemma map_of_fold_update:
  assumes "distinct (map k ls)" and "l \<in> set ls"
  shows "map_of (fold (\<lambda>l. AList.update (k l) (v l)) ls acc) (k l) = Some (v l)"
proof -
  have other: "map_of (fold (\<lambda>l. AList.update (k l) (v l)) ls acc) x = map_of acc x" if "x \<notin> k ` set ls" for x ls acc
    using that by (induction ls arbitrary: acc) (auto simp: update_conv)
  show ?thesis using assms
    by (induction ls arbitrary: acc) (auto simp: other update_conv)
qed

text \<open>With distinct lines, the ceiling the engine sees is the one of the line's own policy.\<close>

lemma line_ceiling_policy:
  assumes "distinct (map dl_line_id (dc_lines ctx))" and "l \<in> set (dc_lines ctx)"
  shows "line_ceiling ctx (ep_ceilings (resolve_policies db ctx)) l = rpol_max_discount_pct (line_policy db ctx l)"
  using map_of_fold_update[OF assms, of "\<lambda>l. rpol_max_discount_pct (line_policy db ctx l)" "[]"]
  by (simp add: line_ceiling_def ceilings_eq what_if_ceilings_def)

lemma fake_lines_distinct:
  assumes "fake_ok g" and "build_deal_context db fake_gateway g now i did = Inr ctx"
  shows "distinct (map dl_line_id (dc_lines ctx))"
proof -
  obtain ro where ro: "gw_get_sale_order fake_gateway i g = Inr ro"
    "dc_lines ctx = build_lines (ro_lines ro) (read_availability fake_gateway g (map rol_product_id (ro_lines ro)))"
    using build_deal_context_lines[OF assms(2)] by blast
  then have f: "fake_get_sale_order i g = Inr ro" by (simp add: fake_gateway_def)
  then obtain od where od: "map_of (fk_orders g) i = Some od" using fake_get_sale_order_Inr by blast
  have "map dl_line_id (dc_lines ctx) = map rol_id (ro_lines ro)"
    by (simp add: ro(2) build_lines_def build_line_def Let_def comp_def)
  also have "\<dots> = map fl_id (fo_lines od)" by (rule fake_get_sale_order_ids[OF f od])
  finally show ?thesis using fake_okD[OF assms(1) od] by (simp add: fake_order_ok_def)
qed

context odoo_gateway
begin

lemma evaluation_locks:
  assumes "valid (w_odoo w)" and "evaluate_loaded gw d ctx trig actor role w = (resp, w')"
    and "er_approval_state resp \<noteq> ApprovalState.APPROVED" and "er_required_level resp \<noteq> ApprovalLevel.NONE"
    and "\<not> isl (gw_get_sale_order gw (d_odoo_sale_order_id d) (w_odoo w))"
    and "\<And>sc. \<not> isl (fst (gw_set_governance gw (d_odoo_sale_order_id d) (er_approval_state resp) sc True (w_odoo w)))"
  shows "\<exists>e. gw_confirm gw (d_odoo_sale_order_id d) (w_odoo w') = (Inl e, w_odoo w')"
proof -
  define sc where "sc = fl64 (rcr_risk_score (evaluate_risk (w_db w) ctx (d_id d)))"
  have "w_odoo w' = snd (gw_set_governance gw (d_odoo_sale_order_id d) (er_approval_state resp) sc True (w_odoo w))"
    using evaluate_loaded_db(4)[OF assms(2)] assms(3,4) by (simp add: governance_locked_def sc_def)
  moreover obtain b g' where g': "gw_set_governance gw (d_odoo_sale_order_id d) (er_approval_state resp) sc True (w_odoo w) = (Inr b, g')"
    using assms(6)[of sc] by (cases "gw_set_governance gw (d_odoo_sale_order_id d) (er_approval_state resp) sc True (w_odoo w)";
      cases "fst (gw_set_governance gw (d_odoo_sale_order_id d) (er_approval_state resp) sc True (w_odoo w))") auto
  ultimately show ?thesis using lock_stops_confirm[OF assms(1) g' assms(5)] by simp
qed

end

text \<open>
  C3: The ceiling holds end to end. When any line's effective discount is above the ceiling of its own
  policy by 0.0001 points or more, and no approval covers the result, evaluating the deal leaves it
  pending with exactly one request, for the sales manager, and its order locked: the in-memory Odoo
  refuses to confirm it.
\<close>

theorem over_ceiling_deal_blocked:
  assumes odoo: "fake_ok (w_odoo w)" and ok: "governance_ok (w_db w)" and d: "find_deal i (w_db w) = Some d"
    and ctx: "build_deal_context (w_db w) fake_gateway (w_odoo w) (w_now w) (d_odoo_sale_order_id d) (Some i) = Inr ctx"
    and ev: "evaluate_deal fake_gateway (Some i) None trig actor role w = (Inr resp, w')"
    and l: "l \<in> set (dc_lines ctx)" "rpol_max_discount_pct (line_policy (w_db w) ctx l) + 1 / 10000 \<le>
      effective_discount (dc_order_discount_pct ctx) (dl_discount_pct l)"
    and uncovered: "d_approval_state d \<noteq> ApprovalState.APPROVED \<or>
      \<not> covered_by_approval d (evaluate_risk (w_db w) ctx i) (w_db w)"
  shows "map_option d_approval_state (find_deal i (w_db w')) = Some PENDING_MANAGER \<and>
    map ar_required_level (pending_requests i (w_db w')) = [''SALES_MANAGER''] \<and>
    (\<exists>e. gw_confirm fake_gateway (d_odoo_sale_order_id d) (w_odoo w') = (Inl e, w_odoo w'))"
proof -
  let ?calc = "evaluate_risk (w_db w) ctx i"
  have level: "rcr_required_level ?calc \<noteq> ApprovalLevel.NONE"
    unfolding evaluate_risk_def by (rule over_ceiling_level[OF l(1)])
      (simp only: line_ceiling_policy[OF fake_lines_distinct[OF odoo ctx] l(1)] l(2))
  from evaluation_result[OF ok d ev ctx refl] obtain e where
    e: "find_deal i (w_db w') = Some e" "d_approval_state e = er_approval_state resp"
      "map ar_required_level (pending_requests i (w_db w')) = awaited_levels (d_approval_state e)"
    and st: "er_approval_state resp =
        (if covered_by_approval d ?calc (w_db w) \<and> d_approval_state d = ApprovalState.APPROVED then ApprovalState.APPROVED
         else if rcr_required_level ?calc = ApprovalLevel.NONE then EVALUATED_NO_APPROVAL else PENDING_MANAGER)"
    by blast
  have pm: "er_approval_state resp = PENDING_MANAGER" using st level uncovered by auto
  have i: "d_id d = i" using find_deal_in[OF d] by simp
  have run: "evaluate_loaded fake_gateway d ctx trig actor role w = (resp, w')"
    by (rule evaluate_by_id[OF ev d]) (use ctx in simp)
  have lv: "er_required_level resp \<noteq> ApprovalLevel.NONE"
    using evaluate_loaded_outcome[OF ok _ run] d level unfolding i by metis
  obtain ro where ro: "fake_get_sale_order (d_odoo_sale_order_id d) (w_odoo w) = Inr ro"
    using build_deal_context_lines[OF ctx] by (auto simp: fake_gateway_def)
  then have "\<not> isl (gw_get_sale_order fake_gateway (d_odoo_sale_order_id d) (w_odoo w))"
    by (simp add: fake_gateway_def)
  moreover have "\<not> isl (fst (gw_set_governance fake_gateway (d_odoo_sale_order_id d) st' sc True (w_odoo w)))" for st' sc
    using fake_get_sale_order_Inr[OF ro] by (auto simp: fake_gateway_def fake_set_governance_def)
  ultimately have "\<exists>e. gw_confirm fake_gateway (d_odoo_sale_order_id d) (w_odoo w') = (Inl e, w_odoo w')"
    using fake.evaluation_locks[OF odoo run _ lv] pm by simp
  then show ?thesis using e pm by simp
qed

theorem over_ceiling_deal_blocked_witness:
  "\<exists>w'. map_option d_approval_state (find_deal 6 (w_db w')) = Some PENDING_MANAGER \<and>
     w' = snd (evaluate_deal fake_gateway (Some 6) None (Inl TriggerType.MANUAL) None None awaiting_world)"
proof -
  have ok: "fake_ok (w_odoo awaiting_world)" "governance_ok (w_db awaiting_world)"
    and d: "find_deal 6 (w_db awaiting_world) = Some (small_deal PENDING_MANAGER MANAGER_AND_FINANCE)"
    by (simp_all add: awaiting_ok small_state_ok)
  obtain resp w' where ev: "evaluate_deal fake_gateway (Some 6) None (Inl TriggerType.MANUAL) None None awaiting_world = (Inr resp, w')"
    by (rule evaluate_total[OF d awaiting_world_context])
  let ?l = "small_line_context 11 101 False 2 50000 20 30000 80000 60000 20000 25 13"
  have l: "?l \<in> set (dc_lines (small_context (Some 6)))" by (simp add: small_context_def)
  have "rpol_max_discount_pct (line_policy awaiting_db (small_context (Some 6)) ?l) = 5"
    by (simp add: line_policy_def resolve_policy_for_line_def company_policies_def awaiting_db_def small_db_def
        empty_database_def small_context_def)
  moreover have "effective_discount 0 20 = 20" using quantize_of_int_div[of 200000 4] by (simp add: effective_discount_def)
  ultimately have "rpol_max_discount_pct (line_policy (w_db awaiting_world) (small_context (Some 6)) ?l) + 1 / 10000 \<le>
      effective_discount (dc_order_discount_pct (small_context (Some 6))) (dl_discount_pct ?l)"
    by (simp add: small_context_def small_line_context_def)
  from over_ceiling_deal_blocked[OF ok d awaiting_world_context ev l this] ev show ?thesis by simp
qed

section \<open>The simulation\<close>

lemma override_context_id:
  assumes "\<forall>l\<in>set (dc_lines ctx). override_line q l = l"
    and "wi_order_discount_pct q = None \<or> wi_order_discount_pct q = Some (dc_order_discount_pct ctx)"
  shows "override_context q ctx = ctx"
proof -
  have "map (override_line q) (dc_lines ctx) = dc_lines ctx" using assms(1) by (simp add: map_idI)
  then show ?thesis using assms(2) by (auto simp: override_context_def)
qed

text \<open>
  C30: The simulation predicts the evaluation. When the lines resolve to the default thresholds and no
  counter-offer is open, a what-if run that changes nothing (no overrides, or overrides that restate
  the order's own values) answers exactly the score, the severity, the level, the decision and the
  factors that evaluating the deal then stores and returns.
\<close>

theorem what_if_predicts_evaluation:
  assumes ok: "governance_ok (w_db w)" and d: "find_deal i (w_db w) = Some d"
    and ctx: "build_deal_context (w_db w) gw (w_odoo w) (w_now w) (d_odoo_sale_order_id d) (Some i) = Inr ctx"
    and thresholds: "ep_params (resolve_policies (w_db w) ctx) = default_risk_params"
    and counter: "\<not> has_open_counter i (w_db w)"
    and same: "\<forall>l\<in>set (dc_lines ctx). override_line q l = l"
      "wi_order_discount_pct q = None \<or> wi_order_discount_pct q = Some (dc_order_discount_pct ctx)"
    and sim: "simulate_deal_what_if gw i q w = Inr s"
    and ev: "evaluate_deal gw (Some i) None trig actor role w = (Inr resp, w')"
  shows "ra_risk_score (er_risk_assessment resp) = ws_risk_score s \<and>
    ra_severity (er_risk_assessment resp) = ws_severity s \<and>
    er_required_level resp = ws_required_level s \<and> er_decision resp = ws_decision s \<and>
    er_factors resp = ws_factors s"
proof -
  have i: "d_id d = i" using find_deal_in[OF d] by simp
  have calc: "evaluate_risk (w_db w) ctx i = calculate_deal_risk ctx (what_if_ceilings (w_db w) ctx) default_risk_params False"
    using thresholds counter by (simp add: evaluate_risk_def ceilings_eq)
  have run: "evaluate_loaded gw d ctx trig actor role w = (resp, w')"
    by (rule evaluate_by_id[OF ev d]) (use ctx in simp)
  then have "er_factors resp = rcr_factors (evaluate_risk (w_db w) ctx i)"
    "er_decision resp = rcr_decision (evaluate_risk (w_db w) ctx i)"
    by (auto simp: evaluate_loaded_def Let_def i split: prod.splits)
  moreover have "er_required_level resp = rcr_required_level (evaluate_risk (w_db w) ctx i)"
    "er_risk_assessment resp = new_assessment (db_next_id (w_db w)) i (evaluate_risk (w_db w) ctx i) trig
       (resolve_policies (w_db w) ctx) ctx (w_now w)"
    using evaluate_loaded_outcome[OF ok _ run] d unfolding i by blast+
  ultimately show ?thesis
    using sim calc override_context_id[OF same]
    by (auto simp: simulate_deal_what_if_def get_deal_by_id_def option_or_raise_def d ctx Let_def new_assessment_def)
qed

definition no_overrides :: what_if_request where
  "no_overrides = \<lparr>wi_order_discount_pct = None, wi_line_discounts = [], wi_line_quantities = [(11, 2)]\<rparr>"

theorem what_if_predicts_evaluation_witness:
  "\<exists>s resp w'. simulate_deal_what_if fake_gateway 6 no_overrides awaiting_world = Inr s \<and>
     evaluate_deal fake_gateway (Some 6) None (Inl TriggerType.MANUAL) None None awaiting_world = (Inr resp, w') \<and>
     er_required_level resp = ws_required_level s"
proof -
  have ok: "governance_ok (w_db awaiting_world)"
    and d: "find_deal 6 (w_db awaiting_world) = Some (small_deal PENDING_MANAGER MANAGER_AND_FINANCE)"
    by (simp_all add: awaiting_ok)
  obtain resp w' where ev: "evaluate_deal fake_gateway (Some 6) None (Inl TriggerType.MANUAL) None None awaiting_world = (Inr resp, w')"
    by (rule evaluate_total[OF d awaiting_world_context])
  obtain s where sim: "simulate_deal_what_if fake_gateway 6 no_overrides awaiting_world = Inr s"
    using d awaiting_world_context[of PENDING_MANAGER MANAGER_AND_FINANCE]
    by (auto simp: simulate_deal_what_if_def get_deal_by_id_def option_or_raise_def Let_def)
  have "ep_params (resolve_policies (w_db awaiting_world) (small_context (Some 6))) = default_risk_params"
    by (simp add: resolve_policies_def policy_step_def Let_def line_policy_def resolve_policy_for_line_def
        company_policies_def awaiting_db_def small_db_def empty_database_def small_context_def
        with_thresholds_def default_risk_params_def)
  moreover have "\<not> has_open_counter 6 (w_db awaiting_world)"
    by (simp add: has_open_counter_def awaiting_db_def small_db_def empty_database_def)
  moreover have "\<forall>l\<in>set (dc_lines (small_context (Some 6))). override_line no_overrides l = l"
    by (simp add: small_context_def small_line_context_def override_line_def no_overrides_def)
  ultimately show ?thesis
    using what_if_predicts_evaluation[OF ok d awaiting_world_context _ _ _ _ sim ev] sim ev
    by (auto simp: no_overrides_def)
qed

end
