(* ===== verification/Effects.thy ===== *)
theory Effects
  imports Journal
begin

text \<open>
  Sequencing of the steps of a service: a step may raise, and then what it has done to the world by
  that point is what the world is left as. The longer services are written with these combinators,
  line by line as the code has them. \<open>preserves P m\<close> says that a service keeps a property of the world
  however it ends; the rules for the combinators give one per service.
\<close>

definition bind_eff :: "('w, 'a) effect \<Rightarrow> ('a \<Rightarrow> ('w, 'b) effect) \<Rightarrow> ('w, 'b) effect" where
  "bind_eff m f w = (case m w of (Inl e, w') \<Rightarrow> (Inl e, w') | (Inr x, w') \<Rightarrow> f x w')"

text \<open>A result that needs the world but does not change it; a step on the database; a call to Odoo.\<close>

definition ask :: "('w \<Rightarrow> exc + 'a) \<Rightarrow> ('w, 'a) effect" where
  "ask f w = (f w, w)"

definition act :: "('w \<Rightarrow> 'w) \<Rightarrow> ('w, unit) effect" where
  "act f w = (Inr (), f w)"

definition answer :: "'a \<Rightarrow> ('w, 'a) effect" where
  "answer x w = (Inr x, w)"

definition odoo_read :: "('g \<Rightarrow> exc + 'a) \<Rightarrow> ('g world, 'a) effect" where
  "odoo_read f w = (f (w_odoo w), w)"

definition odoo_call :: "('g, 'a) effect \<Rightarrow> ('g world, 'a) effect" where
  "odoo_call f w = (case f (w_odoo w) of (r, g) \<Rightarrow> (r, w\<lparr>w_odoo := g\<rparr>))"

text \<open>A step that draws something from the database, such as the key of a new row.\<close>

definition draw :: "(instant \<Rightarrow> database \<Rightarrow> 'a \<times> database) \<Rightarrow> ('g world, 'a) effect" where
  "draw f w = (case f (w_now w) (w_db w) of (x, db) \<Rightarrow> (Inr x, on_db (\<lambda>_. db) w))"

definition guard_eff :: "bool \<Rightarrow> exc \<Rightarrow> ('w, unit) effect" where
  "guard_eff b e = ask (\<lambda>_. raise_unless b e)"

lemma bind_eff_Inr_iff:
  "bind_eff m f w = (Inr y, w') \<longleftrightarrow> (\<exists>x w1. m w = (Inr x, w1) \<and> f x w1 = (Inr y, w'))"
  by (auto simp: bind_eff_def split: prod.splits sum.splits)

lemma bind_eff_Inl_iff:
  "bind_eff m f w = (Inl e, w') \<longleftrightarrow> m w = (Inl e, w') \<or> (\<exists>x w1. m w = (Inr x, w1) \<and> f x w1 = (Inl e, w'))"
  by (auto simp: bind_eff_def split: prod.splits sum.splits)

lemma bind_eff_Inr [simp]: "m w = (Inr x, w1) \<Longrightarrow> bind_eff m f w = f x w1"
  by (simp add: bind_eff_def)

lemma bind_eff_Inl [simp]: "m w = (Inl e, w1) \<Longrightarrow> bind_eff m f w = (Inl e, w1)"
  by (simp add: bind_eff_def)

lemma eff_Inr_iff:
  "ask g w = (Inr y, w') \<longleftrightarrow> g w = Inr y \<and> w' = w"
  "act h w = (Inr u, w') \<longleftrightarrow> w' = h w"
  "answer x w = (Inr y, w') \<longleftrightarrow> y = x \<and> w' = w"
  "guard_eff b e w = (Inr u, w') \<longleftrightarrow> b \<and> w' = w"
  "ask g w = (Inl x1, w') \<longleftrightarrow> g w = Inl x1 \<and> w' = w"
  "act h w = (Inl x1, w') \<longleftrightarrow> False"
  "answer x w = (Inl x1, w') \<longleftrightarrow> False"
  "guard_eff b e w = (Inl x1, w') \<longleftrightarrow> \<not> b \<and> x1 = e \<and> w' = w"
  by (auto simp: ask_def act_def answer_def guard_eff_def)

lemma odoo_eff_Inr_iff:
  "odoo_read r v = (Inr y, v') \<longleftrightarrow> r (w_odoo v) = Inr y \<and> v' = v"
  "odoo_call c v = (Inr y, v') \<longleftrightarrow> (\<exists>g. c (w_odoo v) = (Inr y, g) \<and> v' = v\<lparr>w_odoo := g\<rparr>)"
  "draw d v = (Inr y, v') \<longleftrightarrow> (\<exists>db. d (w_now v) (w_db v) = (y, db) \<and> v' = on_db (\<lambda>_. db) v)"
  by (auto simp: odoo_read_def odoo_call_def draw_def split: prod.splits)

definition preserves :: "('w \<Rightarrow> bool) \<Rightarrow> ('w, 'a) effect \<Rightarrow> bool" where
  "preserves P m \<longleftrightarrow> (\<forall>w. P w \<longrightarrow> P (snd (m w)))"

lemma preservesI: "(\<And>w. P w \<Longrightarrow> P (snd (m w))) \<Longrightarrow> preserves P m"
  by (simp add: preserves_def)

lemma preservesD: "preserves P m \<Longrightarrow> P w \<Longrightarrow> P (snd (m w))"
  by (simp add: preserves_def)

lemma preserves_bind: "preserves P m \<Longrightarrow> (\<And>x. preserves P (f x)) \<Longrightarrow> preserves P (bind_eff m f)"
  by (auto simp: preserves_def bind_eff_def split: prod.splits sum.splits)

lemma preserves_ask: "preserves P (ask g)"
  by (simp add: preserves_def ask_def)

lemma preserves_answer: "preserves P (answer x)"
  by (simp add: preserves_def answer_def)

lemma preserves_guard: "preserves P (guard_eff b e)"
  by (simp add: guard_eff_def preserves_ask)

lemma preserves_act: "(\<And>w. P w \<Longrightarrow> P (h w)) \<Longrightarrow> preserves P (act h)"
  by (simp add: preserves_def act_def)

lemma preserves_read: "preserves P (odoo_read r)"
  by (simp add: preserves_def odoo_read_def)

lemma preserves_call:
  "(\<And>w. P w \<Longrightarrow> P (w\<lparr>w_odoo := snd (c (w_odoo w))\<rparr>)) \<Longrightarrow> preserves P (odoo_call c)"
  by (simp add: preserves_def odoo_call_def split_beta)

lemma preserves_draw:
  "(\<And>w. P w \<Longrightarrow> P (on_db (\<lambda>_. snd (d (w_now w) (w_db w))) w)) \<Longrightarrow> preserves P (draw d)"
  by (simp add: preserves_def draw_def split_beta)

lemma preserves_each: "(\<And>x. preserves P (f x)) \<Longrightarrow> preserves P (for_each f xs)"
  unfolding preserves_def by (intro allI impI) (rule for_each_invariant, simp_all)

lemmas preserves_intros =
  preserves_bind preserves_ask preserves_answer preserves_guard preserves_read preserves_each

end
