(* ===== verification/Fulfillment_Service.thy ===== *)
theory Fulfillment_Service
  imports Fulfillment_Planner Evaluation Effects
begin

text \<open>
  Fulfillment plans, \<^verbatim>\<open>app/services/fulfillment_service.py\<close>: a plan is proposed from the planner's
  result on the order and the stock in Odoo, accepted or overridden by hand, and applied to Odoo when
  the deal is confirmed. A new proposal supersedes the deal's open one. With the choice of the plan a
  request is about (\<^verbatim>\<open>_find_target_plan\<close> of \<^verbatim>\<open>api/v1/endpoints/fulfillment.py\<close>) and the warehouse
  profiles. The properties are in \<open>Plans\<close>.
\<close>

section \<open>Proposal\<close>

text \<open>\<^verbatim>\<open>GREEDY\<close> and \<^verbatim>\<open>EXHAUSTIVE\<close> force a strategy; any other text acts like none.\<close>

definition parse_strategy :: "string option \<Rightarrow> plan_strategy option" where
  "parse_strategy s = (if s = Some ''GREEDY'' then Some GREEDY
     else if s = Some ''EXHAUSTIVE'' then Some EXHAUSTIVE else None)"

fun strategy_text :: "plan_strategy \<Rightarrow> string" where
  "strategy_text NO_STOCKABLE_ITEMS = ''NO_STOCKABLE_ITEMS''"
| "strategy_text NO_ACTIVE_WAREHOUSES = ''NO_ACTIVE_WAREHOUSES''"
| "strategy_text FULL_COVERAGE = ''FULL_COVERAGE''"
| "strategy_text EXHAUSTIVE = ''EXHAUSTIVE''"
| "strategy_text GREEDY = ''GREEDY''"

definition is_shippable :: "(odoo_id \<times> raw_product) list \<Rightarrow> raw_order_line \<Rightarrow> bool" where
  "is_shippable products l =
     (case map_of products (rol_product_id l) of None \<Rightarrow> False
      | Some p \<Rightarrow> rpr_type p = ''STOCKABLE'' \<and> \<not> rpr_is_recurring p \<and> 0 < rol_qty l)"

definition stockable_of :: "raw_order_line \<Rightarrow> stockable_line" where
  "stockable_of l = \<lparr>sl_line_id = rol_id l, sl_product_id = rol_product_id l,
     sl_requested_qty = pyint (rol_qty l)\<rparr>"

definition stockable_lines_of ::
    "(odoo_id \<times> raw_product) list \<Rightarrow> raw_order_line list \<Rightarrow> stockable_line list" where
  "stockable_lines_of products ls = map stockable_of (filter (is_shippable products) ls)"

definition active_profiles :: "database \<Rightarrow> warehouse_profile list" where
  "active_profiles db = filter wp_active (db_profiles db)"

definition default_weight :: "odoo_id \<Rightarrow> dec \<times> int" where
  "default_weight wid = (if wid = 1 then (10, 1) else if wid = 2 then (15, 2)
     else if wid = 3 then (25, 3) else (10, 1))"

definition insert_profile :: "odoo_id \<Rightarrow> dec \<Rightarrow> int \<Rightarrow> int \<Rightarrow> bool \<Rightarrow> database \<Rightarrow> uuid \<times> database" where
  "insert_profile wid weight prio lead active db =
     (let k = db_next_id db in
      (k, db\<lparr>db_profiles := db_profiles db @ [\<lparr>wp_id = k, wp_odoo_warehouse_id = wid,
            wp_shipping_cost_weight = weight, wp_priority = prio, wp_lead_time_days = lead,
            wp_active = active\<rparr>], db_next_id := k + 1\<rparr>))"

definition insert_default_profile :: "raw_warehouse \<Rightarrow> database \<Rightarrow> database" where
  "insert_default_profile rw db = (case default_weight (rw_id rw) of (weight, prio) \<Rightarrow>
     snd (insert_profile (rw_id rw) weight prio 0 True db))"

text \<open>
  The warehouse of a profile is unique, so the insertion fails when a profile of one of the
  warehouses exists already, which then is inactive; a failed commit rolls the session back.
\<close>

definition store_default_profiles :: "raw_warehouse list \<Rightarrow> ('g world, unit) effect" where
  "store_default_profiles rws w =
     (if distinct (map rw_id rws)
         \<and> set (map rw_id rws) \<inter> set (map wp_odoo_warehouse_id (db_profiles (w_db w))) = {}
      then (Inr (), commit (on_db (fold insert_default_profile rws) w))
      else (Inl IntegrityError, rollback w))"

definition ensure_profiles :: "'g gateway \<Rightarrow> ('g world, unit) effect" where
  "ensure_profiles gw w =
     (if active_profiles (w_db w) \<noteq> [] then (Inr (), w)
      else bind_eff (odoo_read (gw_get_warehouses gw)) store_default_profiles w)"

definition warehouse_info_of :: "raw_warehouse list \<Rightarrow> warehouse_profile \<Rightarrow> warehouse_info" where
  "warehouse_info_of rws wp = \<lparr>wi_warehouse_id = wp_odoo_warehouse_id wp,
     wi_name = (case map_of (dict_of rw_id rws) (wp_odoo_warehouse_id wp) of
        Some rw \<Rightarrow> rw_name rw | None \<Rightarrow> ''Warehouse '' @ int_digits (wp_odoo_warehouse_id wp)),
     wi_shipping_cost_weight = wp_shipping_cost_weight wp, wi_priority = wp_priority wp,
     wi_active = wp_active wp\<rparr>"

definition planned_line :: "uuid \<Rightarrow> odoo_id option \<Rightarrow> plan_allocation \<Rightarrow> fulfillment_plan_line" where
  "planned_line pid wid a = \<lparr>fpl_fulfillment_plan_id = pid, fpl_odoo_sale_order_line_id = pa_line_id a,
     fpl_odoo_product_id = pa_product_id a, fpl_odoo_warehouse_id = wid,
     fpl_requested_qty = pa_requested_qty a, fpl_allocated_qty = pa_allocated_qty a,
     fpl_backorder_qty = pa_backorder_qty a, fpl_shipping_cost = pa_shipping_cost a\<rparr>"

definition planned_lines :: "uuid \<Rightarrow> fulfillment_calculation_result \<Rightarrow> fulfillment_plan_line list" where
  "planned_lines pid calc = map (\<lambda>a. planned_line pid (pa_warehouse_id a) a) (fcr_allocations calc)
     @ map (planned_line pid None) (fcr_backorders calc)"

definition new_plan ::
    "uuid \<Rightarrow> deal \<Rightarrow> fulfillment_calculation_result \<Rightarrow> instant \<Rightarrow> fulfillment_plan" where
  "new_plan pid d calc now = \<lparr>fp_id = pid, fp_deal_id = d_id d,
     fp_odoo_sale_order_id = d_odoo_sale_order_id d, fp_status = PROPOSED,
     fp_estimated_shipments = fcr_estimated_shipments calc,
     fp_estimated_shipping_cost = fcr_estimated_shipping_cost calc,
     fp_strategy = strategy_text (fcr_strategy calc), fp_generated_at = now,
     fp_accepted_by_odoo_user_id = None, fp_accepted_at = None, fp_applied_at = None,
     fp_odoo_picking_ids = None\<rparr>"

definition supersede :: "uuid \<Rightarrow> fulfillment_plan \<Rightarrow> fulfillment_plan" where
  "supersede i p = (if fp_deal_id p = i \<and> fp_status p = PROPOSED then p\<lparr>fp_status := SUPERSEDED\<rparr> else p)"

definition store_plan ::
    "deal \<Rightarrow> fulfillment_calculation_result \<Rightarrow> instant \<Rightarrow> database \<Rightarrow> uuid \<times> database" where
  "store_plan d calc now db =
     (let pid = db_next_id db in
      (pid, db\<lparr>db_plans := map (supersede (d_id d)) (db_plans db) @ [new_plan pid d calc now],
               db_plan_lines := db_plan_lines db @ planned_lines pid calc, db_next_id := pid + 1\<rparr>))"

definition record_proposal ::
    "deal \<Rightarrow> fulfillment_calculation_result \<Rightarrow> instant \<Rightarrow> database \<Rightarrow> uuid \<times> database" where
  "record_proposal d calc now db =
     (case store_plan d calc now db of (pid, db1) \<Rightarrow>
        (pid, record_audit_event FULFILLMENT_PLANNED ''fulfillment_plan'' (Some (int pid)) (Some (d_id d))
                ''SYSTEM'' None None now (touch_deal now (d_id d) db1)))"

text \<open>What the planner is asked: the shippable lines, the active warehouses and their stock.\<close>

definition plan_for_order ::
    "'g gateway \<Rightarrow> raw_order \<Rightarrow> (odoo_id \<times> raw_product) list \<Rightarrow> string option \<Rightarrow> 'g world \<Rightarrow>
     exc + fulfillment_calculation_result" where
  "plan_for_order gw ord products strategy w =
     bind_exc (gw_get_warehouses gw (w_odoo w)) (\<lambda>rws.
       let ls = stockable_lines_of products (ro_lines ord);
           whs = map (warehouse_info_of rws) (active_profiles (w_db w)) in
       bind_exc (gw_get_availability gw (remdups (map sl_product_id ls)) (Some (map wi_warehouse_id whs)) (w_odoo w))
         (\<lambda>av. Inr (calculate_fulfillment_plan ls whs av (parse_strategy strategy))))"

definition plan_and_record ::
    "'g gateway \<Rightarrow> deal \<Rightarrow> raw_order \<Rightarrow> (odoo_id \<times> raw_product) list \<Rightarrow> string option \<Rightarrow>
     ('g world, uuid) effect" where
  "plan_and_record gw d ord products strategy =
     bind_eff (ask (plan_for_order gw ord products strategy)) (\<lambda>calc.
     bind_eff (draw (record_proposal d calc)) (\<lambda>pid.
     bind_eff (act commit) (\<lambda>_. answer pid)))"

definition propose_fulfillment_plan ::
    "'g gateway \<Rightarrow> uuid \<Rightarrow> string option \<Rightarrow> ('g world, uuid) effect" where
  "propose_fulfillment_plan gw i strategy =
     bind_eff (ask (\<lambda>w. get_deal_by_id (w_db w) i)) (\<lambda>d.
     bind_eff (odoo_read (gw_get_sale_order gw (d_odoo_sale_order_id d))) (\<lambda>ord.
     bind_eff (guard_eff (ro_lines ord \<noteq> []) (BusinessRuleError ''NO_LINES'')) (\<lambda>_.
     bind_eff (odoo_read (gw_get_products gw (remdups (map rol_product_id (ro_lines ord))))) (\<lambda>products.
     bind_eff (ensure_profiles gw) (\<lambda>_. plan_and_record gw d ord products strategy)))))"

section \<open>Acceptance\<close>

definition find_deal_plan :: "uuid \<Rightarrow> uuid \<Rightarrow> database \<Rightarrow> exc + fulfillment_plan" where
  "find_deal_plan i pid db = option_or_raise
     (find (\<lambda>p. fp_id p = pid \<and> fp_deal_id p = i) (db_plans db))
     (EntityNotFoundError ''FulfillmentPlan'' (int pid))"

definition plan_event ::
    "AuditEventType \<Rightarrow> uuid \<Rightarrow> uuid \<Rightarrow> dealflow_user \<Rightarrow> instant \<Rightarrow> database \<Rightarrow> database" where
  "plan_event ty pid i actor now =
     record_audit_event ty ''fulfillment_plan'' (Some (int pid)) (Some i) ''USER''
       (Some (u_odoo_user_id actor)) (Some (u_role actor)) now"

definition accepted :: "FulfillmentPlanStatus \<Rightarrow> odoo_id \<Rightarrow> instant \<Rightarrow> fulfillment_plan \<Rightarrow> fulfillment_plan" where
  "accepted st user now p = p\<lparr>fp_status := st, fp_accepted_by_odoo_user_id := Some user,
     fp_accepted_at := Some now\<rparr>"

definition record_acceptance :: "uuid \<Rightarrow> uuid \<Rightarrow> dealflow_user \<Rightarrow> instant \<Rightarrow> database \<Rightarrow> database" where
  "record_acceptance i pid actor now db =
     plan_event FULFILLMENT_ACCEPTED pid i actor now (touch_deal now i
       (update_plan pid (accepted FulfillmentPlanStatus.ACCEPTED (u_odoo_user_id actor) now) db))"

definition accept_fulfillment_plan ::
    "uuid \<Rightarrow> uuid \<Rightarrow> dealflow_user \<Rightarrow> ('g world, uuid) effect" where
  "accept_fulfillment_plan i pid actor =
     bind_eff (ask (\<lambda>w. find_deal_plan i pid (w_db w))) (\<lambda>p.
     bind_eff (guard_eff (fp_status p = PROPOSED) (BusinessRuleError ''INVALID_PLAN_STATUS'')) (\<lambda>_.
     bind_eff (act (\<lambda>w. commit (on_db (record_acceptance i pid actor (w_now w)) w))) (\<lambda>_. answer pid)))"

section \<open>Override\<close>

record override_item =
  ov_odoo_sale_order_line_id :: "odoo_id option"
  ov_line_id :: "odoo_id option"
  ov_odoo_product_id :: "odoo_id option"
  ov_product_id :: "odoo_id option"
  ov_odoo_warehouse_id :: "odoo_id option"
  ov_warehouse_id :: "odoo_id option"
  ov_allocated_qty :: "int option"
  ov_qty :: "int option"
  ov_backorder_qty :: "int option"

text \<open>\<^verbatim>\<open>a or b\<close> on optional integers: an absent or zero \<^verbatim>\<open>a\<close> gives \<^verbatim>\<open>b\<close>.\<close>

definition id_or :: "int option \<Rightarrow> int option \<Rightarrow> int option" where
  "id_or a b = (if a = None \<or> a = Some 0 then b else a)"

text \<open>What \<^verbatim>\<open>str.strip\<close> removes, among the first 256 code points.\<close>

definition is_py_space :: "char \<Rightarrow> bool" where
  "is_py_space c = (let n = of_char c :: nat in 9 \<le> n \<and> n \<le> 13 \<or> 28 \<le> n \<and> n \<le> 32 \<or> n = 133 \<or> n = 160)"

definition profile_of :: "database \<Rightarrow> odoo_id \<Rightarrow> warehouse_profile option" where
  "profile_of db wid = map_of (dict_of wp_odoo_warehouse_id (db_profiles db)) wid"

definition item_cost :: "database \<Rightarrow> odoo_id option \<Rightarrow> int \<Rightarrow> dec" where
  "item_cost db wid q =
     (if id_or wid None \<noteq> None \<and> 0 < q
      then (case profile_of db (the wid) of None \<Rightarrow> 0 | Some wp \<Rightarrow> wp_shipping_cost_weight wp) else 0)"

text \<open>
  The loop body: the rows so far and the warehouses used so far. An item whose quantity is missing
  under both names adds \<^verbatim>\<open>None\<close> to a number; an item of no positive quantity is skipped.
\<close>

definition override_step ::
    "database \<Rightarrow> (odoo_id \<times> odoo_id) list \<Rightarrow> uuid \<Rightarrow> override_item \<Rightarrow> fulfillment_plan_line list \<times> odoo_id list \<Rightarrow>
     exc + fulfillment_plan_line list \<times> odoo_id list" where
  "override_step db order_products pid item acc =
     (let line = id_or (ov_odoo_sale_order_line_id item) (ov_line_id item);
          wid = id_or (ov_odoo_warehouse_id item) (ov_warehouse_id item);
          allocated = (if ov_allocated_qty item \<noteq> None then ov_allocated_qty item else ov_qty item);
          backordered = num_or (ov_backorder_qty item) 0 in
      case Option.bind (id_or line None) (map_of order_products) of
        None \<Rightarrow> Inl (BusinessRuleError ''INVALID_LINE_ID'')
      | Some product \<Rightarrow>
          (case allocated of None \<Rightarrow> Inl TypeError
           | Some q \<Rightarrow>
               if q + backordered \<le> 0 then Inr acc
               else Inr (fst acc @ [\<lparr>fpl_fulfillment_plan_id = pid, fpl_odoo_sale_order_line_id = the line,
                        fpl_odoo_product_id = num_or (id_or (ov_odoo_product_id item) (ov_product_id item)) product,
                        fpl_odoo_warehouse_id = wid, fpl_requested_qty = q + backordered,
                        fpl_allocated_qty = q, fpl_backorder_qty = backordered,
                        fpl_shipping_cost = item_cost db wid q\<rparr>],
                      if id_or wid None \<noteq> None \<and> 0 < q then List.insert (the wid) (snd acc) else snd acc)))"

definition used_cost :: "database \<Rightarrow> odoo_id list \<Rightarrow> dec" where
  "used_cost db used = dsum (map wp_shipping_cost_weight (List.map_filter (profile_of db) used))"

definition overridden :: "dealflow_user \<Rightarrow> odoo_id list \<Rightarrow> dec \<Rightarrow> instant \<Rightarrow> fulfillment_plan \<Rightarrow> fulfillment_plan" where
  "overridden actor used cost now p = (accepted OVERRIDDEN (u_odoo_user_id actor) now p)
     \<lparr>fp_strategy := ''MANUAL'', fp_estimated_shipments := int (length used),
      fp_estimated_shipping_cost := cost\<rparr>"

definition delete_plan_lines :: "uuid \<Rightarrow> database \<Rightarrow> database" where
  "delete_plan_lines pid db = db\<lparr>db_plan_lines := filter (\<lambda>l. fpl_fulfillment_plan_id l \<noteq> pid) (db_plan_lines db)\<rparr>"

definition record_override ::
    "uuid \<Rightarrow> uuid \<Rightarrow> dealflow_user \<Rightarrow> fulfillment_plan_line list \<times> odoo_id list \<Rightarrow> instant \<Rightarrow> database \<Rightarrow> database" where
  "record_override i pid actor rows now db =
     plan_event FULFILLMENT_OVERRIDDEN pid i actor now (touch_deal now i
       (update_plan pid (overridden actor (snd rows) (used_cost db (snd rows)) now)
         (db\<lparr>db_plan_lines := db_plan_lines db @ fst rows\<rparr>)))"

definition override_fulfillment_plan ::
    "'g gateway \<Rightarrow> uuid \<Rightarrow> uuid \<Rightarrow> override_item list \<Rightarrow> dealflow_user \<Rightarrow> string \<Rightarrow> ('g world, uuid) effect" where
  "override_fulfillment_plan gw i pid items actor reason =
     bind_eff (guard_eff (\<not> list_all is_py_space reason) (BusinessRuleError ''REASON_REQUIRED'')) (\<lambda>_.
     bind_eff (ask (\<lambda>w. find_deal_plan i pid (w_db w))) (\<lambda>p.
     bind_eff (guard_eff (fp_status p \<in> {PROPOSED, FulfillmentPlanStatus.ACCEPTED})
       (BusinessRuleError ''INVALID_PLAN_STATUS'')) (\<lambda>_.
     bind_eff (ask (\<lambda>w. option_or_raise (find_deal i (w_db w)) AttributeError)) (\<lambda>d.
     bind_eff (odoo_read (gw_get_sale_order gw (d_odoo_sale_order_id d))) (\<lambda>ord.
     bind_eff (act (on_db (delete_plan_lines pid))) (\<lambda>_.
     bind_eff (ask (\<lambda>w. fold_exc (override_step (w_db w)
       (map (\<lambda>(k, l). (k, rol_product_id l)) (dict_of rol_id (ro_lines ord))) pid) items ([], []))) (\<lambda>rows.
     bind_eff (act (\<lambda>w. commit (on_db (record_override i pid actor rows (w_now w)) w))) (\<lambda>_.
     answer pid))))))))"

section \<open>Application\<close>

definition payload_line :: "fulfillment_plan_line \<Rightarrow> raw_allocation" where
  "payload_line l = \<lparr>ra_warehouse_id = fpl_odoo_warehouse_id l, ra_product_id = fpl_odoo_product_id l,
     ra_qty = fpl_allocated_qty l\<rparr>"

definition allocation_payload :: "uuid \<Rightarrow> database \<Rightarrow> raw_allocation list" where
  "allocation_payload pid db = map payload_line (filter (\<lambda>l. fpl_fulfillment_plan_id l = pid
     \<and> 0 < fpl_allocated_qty l \<and> fpl_odoo_warehouse_id l \<noteq> None) (db_plan_lines db))"

definition record_application ::
    "uuid \<Rightarrow> uuid \<Rightarrow> odoo_id list \<Rightarrow> dealflow_user \<Rightarrow> instant \<Rightarrow> database \<Rightarrow> database" where
  "record_application i pid pickings actor now db =
     plan_event FULFILLMENT_APPLIED pid i actor now
       (update_deal i (\<lambda>d. d\<lparr>d_status := IN_FULFILLMENT, d_last_activity_at := now\<rparr>)
         (update_plan pid (\<lambda>p. p\<lparr>fp_status := FulfillmentPlanStatus.APPLIED, fp_applied_at := Some now,
            fp_odoo_picking_ids := Some pickings\<rparr>) db))"

definition apply_fulfillment_plan ::
    "'g gateway \<Rightarrow> uuid \<Rightarrow> uuid \<Rightarrow> dealflow_user \<Rightarrow> ('g world, uuid \<times> odoo_id list) effect" where
  "apply_fulfillment_plan gw i pid actor =
     bind_eff (ask (\<lambda>w. get_deal_by_id (w_db w) i)) (\<lambda>d.
     bind_eff (guard_eff (d_status d \<in> {CONFIRMED, IN_FULFILLMENT}) (BusinessRuleError ''DEAL_NOT_CONFIRMED'')) (\<lambda>_.
     bind_eff (ask (\<lambda>w. find_deal_plan i pid (w_db w))) (\<lambda>p.
     bind_eff (guard_eff (fp_status p \<in> {FulfillmentPlanStatus.ACCEPTED, OVERRIDDEN})
       (BusinessRuleError ''INVALID_PLAN_STATUS'')) (\<lambda>_.
     bind_eff (ask (\<lambda>w. Inr (allocation_payload pid (w_db w)))) (\<lambda>payload.
     bind_eff (odoo_call (gw_apply_fulfillment_plan gw (d_odoo_sale_order_id d) payload)) (\<lambda>pickings.
     bind_eff (act (\<lambda>w. commit (on_db (record_application i pid pickings actor (w_now w)) w))) (\<lambda>_.
     answer (pid, pickings))))))))"

section \<open>Consolidation and views\<close>

definition consolidate_backorder ::
    "'g gateway \<Rightarrow> uuid \<Rightarrow> uuid \<Rightarrow> dealflow_user \<Rightarrow> ('g world, uuid) effect" where
  "consolidate_backorder gw i pid actor =
     bind_eff (ask (\<lambda>w. get_deal_by_id (w_db w) i)) (\<lambda>d.
     bind_eff (propose_fulfillment_plan gw i None) (\<lambda>new_pid.
     bind_eff (act (\<lambda>w. commit (on_db (plan_event FULFILLMENT_REPLANNED new_pid i actor (w_now w)) w))) (\<lambda>_.
     answer new_pid)))"

record deal_fulfillment =
  df_plan :: "fulfillment_plan option"
  df_pickings :: "raw_picking list"
  df_backorders :: "fulfillment_plan_line list"

definition get_deal_fulfillment :: "'g gateway \<Rightarrow> uuid \<Rightarrow> 'g world \<Rightarrow> exc + deal_fulfillment" where
  "get_deal_fulfillment gw i w =
     bind_exc (get_deal_by_id (w_db w) i) (\<lambda>d.
     bind_exc (gw_get_pickings gw (d_odoo_sale_order_id d) (w_odoo w)) (\<lambda>pickings.
       Inr \<lparr>df_plan = latest_plan i (w_db w), df_pickings = pickings,
            df_backorders = (case latest_plan i (w_db w) of None \<Rightarrow> []
              | Some p \<Rightarrow> filter (\<lambda>l. 0 < fpl_backorder_qty l) (plan_lines (fp_id p) (w_db w)))\<rparr>))"

definition get_fulfillment_exceptions ::
    "odoo_id \<Rightarrow> database \<Rightarrow> (fulfillment_plan_line \<times> fulfillment_plan \<times> deal) list" where
  "get_fulfillment_exceptions company db =
     newest_first (\<lambda>(l, p, d). fp_generated_at p)
       [(l, p, d). l \<leftarrow> db_plan_lines db, 0 < fpl_backorder_qty l, p \<leftarrow> db_plans db,
          fp_id p = fpl_fulfillment_plan_id l
          \<and> fp_status p \<in> {PROPOSED, FulfillmentPlanStatus.ACCEPTED, OVERRIDDEN, FulfillmentPlanStatus.APPLIED},
          d \<leftarrow> db_deals db, d_id d = fp_deal_id p \<and> d_odoo_company_id d = company]"

text \<open>The plan a request is about: the one it names, else the deal's latest open one.\<close>

definition find_target_plan :: "uuid \<Rightarrow> uuid option \<Rightarrow> database \<Rightarrow> exc + fulfillment_plan" where
  "find_target_plan i pid db =
     (case pid of Some k \<Rightarrow> find_deal_plan i k db
      | None \<Rightarrow>
          (case newest_first fp_generated_at (filter (\<lambda>p. fp_deal_id p = i
              \<and> fp_status p \<in> {PROPOSED, FulfillmentPlanStatus.ACCEPTED, OVERRIDDEN}) (db_plans db)) of
             [] \<Rightarrow> Inl (EntityNotFoundError ''FulfillmentPlan'' (int i)) | p # _ \<Rightarrow> Inr p))"

section \<open>Warehouse profiles\<close>

definition list_warehouse_profiles :: "database \<Rightarrow> warehouse_profile list" where
  "list_warehouse_profiles db = sort_key wp_priority (db_profiles db)"

definition create_warehouse_profile ::
    "odoo_id \<Rightarrow> dec \<Rightarrow> int \<Rightarrow> int \<Rightarrow> bool \<Rightarrow> ('g world, uuid) effect" where
  "create_warehouse_profile wid weight prio lead active =
     bind_eff (ask (\<lambda>w. raise_unless (find_row wp_odoo_warehouse_id wid (db_profiles (w_db w)) = None)
       (BusinessRuleError ''DUPLICATE_WAREHOUSE''))) (\<lambda>_.
     bind_eff (draw (\<lambda>_. insert_profile wid weight prio lead active)) (\<lambda>k.
     bind_eff (act commit) (\<lambda>_. answer k)))"

definition get_warehouse_profile :: "uuid \<Rightarrow> database \<Rightarrow> exc + warehouse_profile" where
  "get_warehouse_profile k db = option_or_raise (find_row wp_id k (db_profiles db))
     (EntityNotFoundError ''WarehouseProfile'' (int k))"

record profile_update =
  pu_shipping_cost_weight :: "dec option"
  pu_priority :: "int option"
  pu_lead_time_days :: "int option"
  pu_active :: "bool option"

definition set_if :: "'a option \<Rightarrow> 'a \<Rightarrow> 'a" where
  "set_if given current = (case given of None \<Rightarrow> current | Some x \<Rightarrow> x)"

definition updated_profile :: "profile_update \<Rightarrow> warehouse_profile \<Rightarrow> warehouse_profile" where
  "updated_profile u wp = wp\<lparr>
     wp_shipping_cost_weight := set_if (pu_shipping_cost_weight u) (wp_shipping_cost_weight wp),
     wp_priority := set_if (pu_priority u) (wp_priority wp),
     wp_lead_time_days := set_if (pu_lead_time_days u) (wp_lead_time_days wp),
     wp_active := set_if (pu_active u) (wp_active wp)\<rparr>"

definition update_warehouse_profile :: "uuid \<Rightarrow> profile_update \<Rightarrow> ('g world, uuid) effect" where
  "update_warehouse_profile k u =
     bind_eff (ask (\<lambda>w. get_warehouse_profile k (w_db w))) (\<lambda>_.
     bind_eff (act (\<lambda>w. commit (on_db (\<lambda>db. db\<lparr>db_profiles :=
       update_row wp_id k (updated_profile u) (db_profiles db)\<rparr>) w))) (\<lambda>_. answer k))"

definition delete_warehouse_profile :: "uuid \<Rightarrow> ('g world, bool) effect" where
  "delete_warehouse_profile k =
     bind_eff (ask (\<lambda>w. get_warehouse_profile k (w_db w))) (\<lambda>_.
     bind_eff (act (\<lambda>w. commit (on_db (\<lambda>db. db\<lparr>db_profiles :=
       filter (\<lambda>wp. wp_id wp \<noteq> k) (db_profiles db)\<rparr>) w))) (\<lambda>_. answer True))"

end
