(* ===== verification/Plans.thy ===== *)
theory Plans
  imports Fulfillment_Service
begin

text \<open>
  Properties of the fulfillment plans of \<open>Fulfillment_Service\<close>: the invariant of their tables, the
  life cycle of a plan, what a proposal stores of the planner's result, and when a plan reaches Odoo.
\<close>

section \<open>The invariant\<close>

definition proposed :: "uuid \<Rightarrow> database \<Rightarrow> fulfillment_plan list" where
  "proposed i db = filter (\<lambda>p. fp_deal_id p = i \<and> fp_status p = PROPOSED) (db_plans db)"

definition row_adds_up :: "fulfillment_plan_line \<Rightarrow> bool" where
  "row_adds_up l = (fpl_allocated_qty l + fpl_backorder_qty l = fpl_requested_qty l)"

definition row_ok :: "uuid \<Rightarrow> fulfillment_plan_line \<Rightarrow> bool" where
  "row_ok n l = (row_adds_up l \<and> fpl_fulfillment_plan_id l < n)"

text \<open>
  Keys are distinct and drawn, a deal has at most one open proposal, every row of a plan adds up (the
  table's check constraint) and refers to a key that has been drawn, and a warehouse has one profile (its unique constraint).
\<close>

definition fulfillment_ok :: "database \<Rightarrow> bool" where
  "fulfillment_ok db =
     (distinct (map fp_id (db_plans db))
      \<and> (\<forall>p\<in>set (db_plans db). fp_id p < db_next_id db \<and> fp_status p \<noteq> FulfillmentPlanStatus.CANCELLED)
      \<and> (\<forall>i. length (proposed i db) \<le> 1) \<and> (\<forall>l\<in>set (db_plan_lines db). row_ok (db_next_id db) l)
      \<and> distinct (map wp_odoo_warehouse_id (db_profiles db)))"

lemma fulfillment_ok_cong:
  "fulfillment_ok db \<Longrightarrow> db_plans db' = db_plans db \<Longrightarrow> db_plan_lines db' = db_plan_lines db \<Longrightarrow>
     db_profiles db' = db_profiles db \<Longrightarrow> db_next_id db \<le> db_next_id db' \<Longrightarrow> fulfillment_ok db'"
  unfolding fulfillment_ok_def proposed_def row_ok_def by (simp, meson order.strict_trans2)

lemma calm_fulfillment_ok: "calm db db' \<Longrightarrow> fulfillment_ok db \<Longrightarrow> fulfillment_ok db'"
  by (erule fulfillment_ok_cong) (simp_all add: calm_def)

lemma fulfillment_ok_audit:
  "fulfillment_ok db \<Longrightarrow> fulfillment_ok (record_audit_event t et ei di ty ai ar now db)"
  by (erule fulfillment_ok_cong) simp_all

lemma fulfillment_ok_touch: "fulfillment_ok db \<Longrightarrow> fulfillment_ok (touch_deal now i db)"
  by (erule fulfillment_ok_cong) simp_all

lemma fulfillment_ok_update_deal: "fulfillment_ok db \<Longrightarrow> fulfillment_ok (update_deal i f db)"
  by (erule fulfillment_ok_cong) (simp_all add: update_deal_def)

lemma fulfillment_ok_plan_event: "fulfillment_ok db \<Longrightarrow> fulfillment_ok (plan_event ty pid i actor now db)"
  by (simp add: plan_event_def fulfillment_ok_audit)

lemma proposed_update:
  assumes "\<And>p. fp_status (f p) \<noteq> PROPOSED"
  shows "length (proposed i (update_plan k f db)) \<le> length (proposed i db)"
proof -
  have "length (filter (\<lambda>p. fp_deal_id p = i \<and> fp_status p = PROPOSED) (update_row fp_id k f rows)) \<le>
      length (filter (\<lambda>p. fp_deal_id p = i \<and> fp_status p = PROPOSED) rows)" for rows
    using assms by (induction rows) auto
  then show ?thesis by (simp add: proposed_def update_plan_def)
qed

lemma fulfillment_ok_update_plan:
  assumes ok: "fulfillment_ok db" and f: "\<And>p. fp_id (f p) = fp_id p" "\<And>p. fp_status (f p) \<noteq> PROPOSED"
      "\<And>p. fp_status (f p) \<noteq> FulfillmentPlanStatus.CANCELLED"
  shows "fulfillment_ok (update_plan k f db)"
proof -
  have "map fp_id (db_plans (update_plan k f db)) = map fp_id (db_plans db)"
    by (simp add: update_plan_def map_key_update_row f)
  moreover have "fp_id p < db_next_id db \<and> fp_status p \<noteq> FulfillmentPlanStatus.CANCELLED"
    if "p \<in> set (db_plans (update_plan k f db))" for p
    using that ok f(1,3) by (auto simp: update_plan_def set_update_row fulfillment_ok_def)
  moreover have "length (proposed i (update_plan k f db)) \<le> 1" for i
    using proposed_update[of f i k db] f(2) ok by (meson fulfillment_ok_def order_trans)
  ultimately show ?thesis using ok
    by (simp add: fulfillment_ok_def) (simp add: update_plan_def)
qed

section \<open>Rows of the planner\<close>

definition allocation_adds_up :: "plan_allocation \<Rightarrow> bool" where
  "allocation_adds_up a = (pa_allocated_qty a + pa_backorder_qty a = pa_requested_qty a)"

lemma allocate_line_adds_up:
  "allocate_line l ws n st = (as, n', st') \<Longrightarrow> \<forall>a\<in>set as. allocation_adds_up a"
  by (induction l ws n st arbitrary: as n' st' rule: allocate_line.induct)
     (fastforce simp: Let_def allocation_def allocation_adds_up_def split: if_splits prod.splits)+

lemma allocate_lines_adds_up:
  "allocate_lines ws ls st = (as, bs, st') \<Longrightarrow> (\<forall>a\<in>set as. allocation_adds_up a) \<and> (\<forall>b\<in>set bs. allocation_adds_up b)"
proof (induction ws ls st arbitrary: as bs st' rule: allocate_lines.induct)
  case (2 ws l ls st)
  then show ?case
    by (fastforce simp: backorder_def allocation_adds_up_def dest!: allocate_line_adds_up split: prod.splits if_splits)
qed simp

lemma calculation_adds_up:
  "(\<forall>a\<in>set (fcr_allocations (calculate_fulfillment_plan ls whs av s)). allocation_adds_up a) \<and>
   (\<forall>b\<in>set (fcr_backorders (calculate_fulfillment_plan ls whs av s)). allocation_adds_up b)"
  using allocate_lines_adds_up
  by (auto simp: calculate_fulfillment_plan_def Let_def split_beta backorder_def allocation_adds_up_def prod_eq_iff)

definition calculation_ok :: "fulfillment_calculation_result \<Rightarrow> bool" where
  "calculation_ok calc = ((\<forall>a\<in>set (fcr_allocations calc). allocation_adds_up a)
     \<and> (\<forall>b\<in>set (fcr_backorders calc). allocation_adds_up b))"

lemma planned_lines_add_up: "calculation_ok calc \<Longrightarrow> l \<in> set (planned_lines pid calc) \<Longrightarrow> row_adds_up l"
  by (auto simp: planned_lines_def planned_line_def calculation_ok_def allocation_adds_up_def row_adds_up_def)

lemma plan_for_order_ok: "plan_for_order gw ord products s w = Inr calc \<Longrightarrow> calculation_ok calc"
  using calculation_adds_up by (auto simp: plan_for_order_def bind_exc_Inr_iff Let_def calculation_ok_def)

lemma supersede_simps [simp]:
  "fp_id (supersede i p) = fp_id p" "fp_deal_id (supersede i p) = fp_deal_id p"
  by (simp_all add: supersede_def)

lemma proposed_store:
  "proposed j (snd (store_plan d calc now db)) =
     (if j = d_id d then [new_plan (db_next_id db) d calc now] else proposed j db)"
proof -
  have "filter (\<lambda>p. fp_deal_id p = j \<and> fp_status p = PROPOSED) (map (supersede (d_id d)) ps) =
      (if j = d_id d then [] else filter (\<lambda>p. fp_deal_id p = j \<and> fp_status p = PROPOSED) ps)" for ps
    by (induction ps) (auto simp: supersede_def)
  then show ?thesis by (simp add: proposed_def store_plan_def Let_def new_plan_def)
qed

lemma store_plan_frame:
  "db_plan_lines (snd (store_plan d calc now db)) = db_plan_lines db @ planned_lines (db_next_id db) calc"
  "db_next_id (snd (store_plan d calc now db)) = Suc (db_next_id db)"
  "db_profiles (snd (store_plan d calc now db)) = db_profiles db"
  "map fp_id (db_plans (snd (store_plan d calc now db))) = map fp_id (db_plans db) @ [db_next_id db]"
  "fst (store_plan d calc now db) = db_next_id db"
  by (simp_all add: store_plan_def Let_def comp_def new_plan_def)

lemma planned_lines_plan: "l \<in> set (planned_lines pid calc) \<Longrightarrow> fpl_fulfillment_plan_id l = pid"
  by (auto simp: planned_lines_def planned_line_def)

lemma fulfillment_ok_store:
  assumes ok: "fulfillment_ok db" and calc: "calculation_ok calc"
  shows "fulfillment_ok (snd (store_plan d calc now db))"
proof -
  have one: "length (proposed j (snd (store_plan d calc now db))) \<le> 1" for j
    using ok by (simp add: proposed_store fulfillment_ok_def)
  have rows: "row_ok (Suc (db_next_id db)) l" if "l \<in> set (db_plan_lines db @ planned_lines (db_next_id db) calc)" for l
  proof (cases "l \<in> set (db_plan_lines db)")
    case True
    then show ?thesis using ok by (auto simp: fulfillment_ok_def row_ok_def)
  next
    case False
    then have l: "l \<in> set (planned_lines (db_next_id db) calc)" using that by simp
    show ?thesis using planned_lines_add_up[OF calc l] planned_lines_plan[OF l] by (simp add: row_ok_def)
  qed
  have keys: "k < db_next_id db" if "k \<in> set (map fp_id (db_plans db))" for k
    using ok that by (auto simp: fulfillment_ok_def)
  have "fp_id p < Suc (db_next_id db) \<and> fp_status p \<noteq> FulfillmentPlanStatus.CANCELLED"
    if "p \<in> set (db_plans (snd (store_plan d calc now db)))" for p
  proof
    show "fp_status p \<noteq> FulfillmentPlanStatus.CANCELLED"
      using that ok by (auto simp: store_plan_def Let_def new_plan_def supersede_def fulfillment_ok_def split: if_splits)
    have "fp_id p \<in> set (map fp_id (db_plans db) @ [db_next_id db])"
      unfolding store_plan_frame(4)[of d calc now db, symmetric] using that by simp
    then show "fp_id p < Suc (db_next_id db)" using keys by (auto intro: less_SucI)
  qed
  moreover have "distinct (map fp_id (db_plans db) @ [db_next_id db])"
    using ok keys by (auto simp: fulfillment_ok_def)
  ultimately show ?thesis using ok one rows unfolding fulfillment_ok_def store_plan_frame by blast
qed

lemma fulfillment_ok_proposal:
  "fulfillment_ok db \<Longrightarrow> calculation_ok calc \<Longrightarrow> fulfillment_ok (snd (record_proposal d calc now db))"
  by (simp add: record_proposal_def split_beta fulfillment_ok_audit fulfillment_ok_touch fulfillment_ok_store)

section \<open>The life cycle\<close>

text \<open>The moves of a plan's status; \<^verbatim>\<open>APPLIED\<close> and \<^verbatim>\<open>SUPERSEDED\<close> are final.\<close>

inductive plan_move :: "FulfillmentPlanStatus \<Rightarrow> FulfillmentPlanStatus \<Rightarrow> bool" where
  supersede: "plan_move PROPOSED SUPERSEDED"
| accept: "plan_move PROPOSED FulfillmentPlanStatus.ACCEPTED"
| override: "st \<in> {PROPOSED, FulfillmentPlanStatus.ACCEPTED} \<Longrightarrow> plan_move st OVERRIDDEN"
| apply_plan: "st \<in> {FulfillmentPlanStatus.ACCEPTED, OVERRIDDEN} \<Longrightarrow> plan_move st FulfillmentPlanStatus.APPLIED"

inductive_cases plan_move_from_final:
  "plan_move SUPERSEDED st" "plan_move FulfillmentPlanStatus.APPLIED st"

lemma plan_move_target: "plan_move st st' \<Longrightarrow> st' \<noteq> PROPOSED \<and> st' \<noteq> FulfillmentPlanStatus.CANCELLED"
  by (auto elim: plan_move.cases)

lemma plan_moves_final: "plan_move\<^sup>*\<^sup>* st st' \<Longrightarrow> st \<in> {SUPERSEDED, FulfillmentPlanStatus.APPLIED} \<Longrightarrow> st' = st"
  by (induction rule: rtranclp_induct) (auto elim: plan_move_from_final)

text \<open>No plan is lost or changes hands, and its status only moves along the edges.\<close>

definition plans_evolve :: "database \<Rightarrow> database \<Rightarrow> bool" where
  "plans_evolve db db' = (\<forall>p\<in>set (db_plans db). \<exists>p'\<in>set (db_plans db'). fp_id p' = fp_id p
     \<and> fp_deal_id p' = fp_deal_id p \<and> plan_move\<^sup>*\<^sup>* (fp_status p) (fp_status p'))"

lemma plans_evolve_refl [simp]: "plans_evolve db db"
  by (auto simp: plans_evolve_def)

lemma plans_evolve_trans: "plans_evolve a b \<Longrightarrow> plans_evolve b c \<Longrightarrow> plans_evolve a c"
  unfolding plans_evolve_def by (metis rtranclp_trans)

lemma plans_evolve_same: "db_plans db' = db_plans db \<Longrightarrow> plans_evolve db db'"
  by (auto simp: plans_evolve_def)

lemma plans_evolve_store: "plans_evolve db (snd (store_plan d calc now db))"
proof -
  have "plan_move\<^sup>*\<^sup>* (fp_status p) (fp_status (supersede i p))" for i p
    by (auto simp: supersede_def intro: plan_move.supersede)
  then show ?thesis by (auto simp: plans_evolve_def store_plan_def Let_def)
qed

lemma find_deal_plan_Inr:
  "find_deal_plan i pid db = Inr p \<Longrightarrow> p \<in> set (db_plans db) \<and> fp_id p = pid \<and> fp_deal_id p = i"
  by (auto simp: find_deal_plan_def find_Some_iff)

lemma plans_evolve_update:
  assumes "fulfillment_ok db" and "find_deal_plan i pid db = Inr p"
    and "plan_move (fp_status p) st"
    and f: "\<And>p. fp_id (f p) = fp_id p \<and> fp_deal_id (f p) = fp_deal_id p \<and> fp_status (f p) = st"
  shows "plans_evolve db (update_plan pid f db)"
  unfolding plans_evolve_def
proof
  fix q assume q: "q \<in> set (db_plans db)"
  note p = find_deal_plan_Inr[OF assms(2)]
  have "fp_id q = pid \<Longrightarrow> q = p" using p q assms(1) by (auto simp: fulfillment_ok_def distinct_map dest: inj_onD)
  then show "\<exists>p'\<in>set (db_plans (update_plan pid f db)). fp_id p' = fp_id q \<and> fp_deal_id p' = fp_deal_id q \<and>
      plan_move\<^sup>*\<^sup>* (fp_status q) (fp_status p')"
    using q assms(3) f
    by (intro bexI[of _ "if fp_id q = pid then f q else q"]) (auto simp: update_plan_def set_update_row)
qed

text \<open>What the services keep: both the session and the last commit are sound and evolved from \<open>db0\<close>.\<close>

definition plan_trace :: "database \<Rightarrow> 'g world \<Rightarrow> bool" where
  "plan_trace db0 w = (fulfillment_ok (w_db w) \<and> fulfillment_ok (w_saved w)
     \<and> plans_evolve db0 (w_db w) \<and> plans_evolve db0 (w_saved w))"

lemma plan_trace_commit: "plan_trace db0 w \<Longrightarrow> plan_trace db0 (commit w)"
  by (simp add: plan_trace_def)

lemma plan_trace_rollback: "plan_trace db0 w \<Longrightarrow> plan_trace db0 (rollback w)"
  by (simp add: plan_trace_def)

lemma plan_trace_on_db:
  "plan_trace db0 w \<Longrightarrow> fulfillment_ok (f (w_db w)) \<Longrightarrow> plans_evolve (w_db w) (f (w_db w)) \<Longrightarrow>
     plan_trace db0 (on_db f w)"
  by (auto simp: plan_trace_def intro: plans_evolve_trans)

lemma insert_profile_frame [simp]:
  "db_plans (insert_default_profile rw db) = db_plans db"
  "db_plan_lines (insert_default_profile rw db) = db_plan_lines db"
  "db_next_id (insert_default_profile rw db) = Suc (db_next_id db)"
  "map wp_odoo_warehouse_id (db_profiles (insert_default_profile rw db)) =
     map wp_odoo_warehouse_id (db_profiles db) @ [rw_id rw]"
  by (simp_all add: insert_default_profile_def insert_profile_def Let_def split_beta)

lemma insert_profiles_frame:
  "db_plans (fold insert_default_profile rws db) = db_plans db"
  "db_plan_lines (fold insert_default_profile rws db) = db_plan_lines db"
  "map wp_odoo_warehouse_id (db_profiles (fold insert_default_profile rws db)) =
     map wp_odoo_warehouse_id (db_profiles db) @ map rw_id rws"
  "db_next_id (fold insert_default_profile rws db) = length rws + db_next_id db"
  by (induction rws arbitrary: db) simp_all

lemma fulfillment_ok_profiles:
  assumes "fulfillment_ok db" and "db_plans db' = db_plans db" and "db_plan_lines db' = db_plan_lines db"
    and "distinct (map wp_odoo_warehouse_id (db_profiles db'))" and "db_next_id db \<le> db_next_id db'"
  shows "fulfillment_ok db'"
  using assms unfolding fulfillment_ok_def proposed_def row_ok_def by (simp, meson order.strict_trans2)

lemma preserves_default_profiles: "preserves (plan_trace db0) (store_default_profiles rws)"
proof (rule preservesI)
  fix w :: "'a world" assume t: "plan_trace db0 w"
  let ?new = "fold insert_default_profile rws (w_db w)"
  have ok: "fulfillment_ok (w_db w)" using t by (simp add: plan_trace_def)
  have "fulfillment_ok ?new"
    if d: "distinct (map rw_id rws)" "set (map rw_id rws) \<inter> set (map wp_odoo_warehouse_id (db_profiles (w_db w))) = {}"
  proof (rule fulfillment_ok_profiles[OF ok])
    show "distinct (map wp_odoo_warehouse_id (db_profiles ?new))"
      using ok d unfolding insert_profiles_frame distinct_append by (simp only: fulfillment_ok_def Int_commute simp_thms)
  qed (simp_all add: insert_profiles_frame)
  then show "plan_trace db0 (snd (store_default_profiles rws w))"
    using t by (simp add: store_default_profiles_def plan_trace_rollback plan_trace_commit plan_trace_on_db
        plans_evolve_same insert_profiles_frame)
qed

lemma preserves_ensure: "preserves (plan_trace db0) (ensure_profiles gw)"
proof -
  have "preserves (plan_trace db0) (bind_eff (odoo_read (gw_get_warehouses gw)) store_default_profiles)"
    by (intro preserves_intros preserves_default_profiles)
  then show ?thesis by (auto simp: preserves_def ensure_profiles_def)
qed

lemma plan_trace_proposal:
  assumes "plan_trace db0 w" and "calculation_ok calc"
  shows "plan_trace db0 (on_db (\<lambda>_. snd (record_proposal d calc (w_now w) (w_db w))) w)"
proof (rule plan_trace_on_db[OF assms(1)])
  show "fulfillment_ok (snd (record_proposal d calc (w_now w) (w_db w)))"
    using assms fulfillment_ok_proposal by (auto simp: plan_trace_def)
  have "db_plans (snd (record_proposal d calc (w_now w) (w_db w))) = db_plans (snd (store_plan d calc (w_now w) (w_db w)))"
    by (simp add: record_proposal_def split_beta)
  then show "plans_evolve (w_db w) (snd (record_proposal d calc (w_now w) (w_db w)))"
    using plans_evolve_trans[OF plans_evolve_store plans_evolve_same] by blast
qed

lemma preserves_plan_and_record: "preserves (plan_trace db0) (plan_and_record gw d ord products s)"
proof (rule preservesI)
  fix w :: "'a world" assume t: "plan_trace db0 w"
  show "plan_trace db0 (snd (plan_and_record gw d ord products s w))"
    using t plan_for_order_ok[of gw ord products s w] plan_trace_proposal[OF t]
    by (auto simp: plan_and_record_def bind_eff_def ask_def draw_def act_def answer_def plan_trace_commit split_beta
        split: sum.splits)
qed

lemma preserves_propose: "preserves (plan_trace db0) (propose_fulfillment_plan gw i s)"
  unfolding propose_fulfillment_plan_def by (intro preserves_intros preserves_ensure preserves_plan_and_record)

text \<open>A plan that is found and may make the move makes it.\<close>

lemma plan_trace_update:
  assumes "plan_trace db0 w" and "find_deal_plan i pid (w_db w) = Inr p" and "plan_move (fp_status p) st"
    and "\<And>p. fp_id (f p) = fp_id p \<and> fp_deal_id (f p) = fp_deal_id p \<and> fp_status (f p) = st" and "st \<noteq> PROPOSED"
  shows "plan_trace db0 (on_db (update_plan pid f) w)"
proof (rule plan_trace_on_db[OF assms(1)])
  have ok: "fulfillment_ok (w_db w)" using assms(1) by (simp add: plan_trace_def)
  show "fulfillment_ok (update_plan pid f (w_db w))"
    by (rule fulfillment_ok_update_plan[OF ok]) (use assms(4,5) plan_move_target[OF assms(3)] in auto)
  show "plans_evolve (w_db w) (update_plan pid f (w_db w))"
    by (rule plans_evolve_update[OF ok assms(2-4)])
qed

text \<open>Steps that leave the plans and their rows alone.\<close>

lemma plan_trace_rest:
  assumes "plan_trace db0 w" and "\<And>db. db_plans (f db) = db_plans db" and "\<And>db. fulfillment_ok db \<Longrightarrow> fulfillment_ok (f db)"
  shows "plan_trace db0 (on_db f w)"
  using assms by (intro plan_trace_on_db plans_evolve_same) (auto simp: plan_trace_def)

lemma plan_event_plans [simp]: "db_plans (plan_event ty pid i actor now db) = db_plans db"
  by (simp add: plan_event_def)

lemma plan_trace_event:
  "plan_trace db0 w \<Longrightarrow> plan_trace db0 (on_db (plan_event ty pid i actor now) w)"
  by (rule plan_trace_rest) (simp_all add: fulfillment_ok_plan_event)

lemma plan_trace_touch: "plan_trace db0 w \<Longrightarrow> plan_trace db0 (on_db (touch_deal now i) w)"
  by (rule plan_trace_rest) (simp_all add: fulfillment_ok_touch)

lemma plan_trace_update_deal: "plan_trace db0 w \<Longrightarrow> plan_trace db0 (on_db (update_deal i f) w)"
  by (rule plan_trace_rest) (simp_all add: fulfillment_ok_update_deal, simp add: update_deal_def)

lemma plan_trace_accept:
  assumes "plan_trace db0 w" and "find_deal_plan i pid (w_db w) = Inr p" and "fp_status p = PROPOSED"
  shows "plan_trace db0 (commit (on_db (record_acceptance i pid actor (w_now w)) w))"
proof -
  let ?f = "accepted FulfillmentPlanStatus.ACCEPTED (u_odoo_user_id actor) (w_now w)"
  have "plan_trace db0 (on_db (update_plan pid ?f) w)"
    by (rule plan_trace_update[OF assms(1,2), of FulfillmentPlanStatus.ACCEPTED])
      (simp_all add: accepted_def assms(3) plan_move.accept)
  then have "plan_trace db0 (on_db (plan_event FULFILLMENT_ACCEPTED pid i actor (w_now w))
      (on_db (touch_deal (w_now w) i) (on_db (update_plan pid ?f) w)))"
    by (intro plan_trace_event plan_trace_touch)
  then show ?thesis unfolding record_acceptance_def on_db_def by (simp add: plan_trace_commit)
qed

lemma preserves_accept: "preserves (plan_trace db0) (accept_fulfillment_plan i pid actor)"
  by (rule preservesI)
     (auto simp: accept_fulfillment_plan_def bind_eff_def ask_def guard_eff_def raise_unless_def act_def answer_def
       plan_trace_accept split: sum.splits)

lemma override_rows_add_up:
  assumes "fold_exc (override_step db prods pid) items ([], []) = Inr (rows, used)"
  shows "\<forall>l\<in>set rows. row_adds_up l \<and> fpl_fulfillment_plan_id l = pid"
proof -
  have "\<forall>l\<in>set (fst acc). row_adds_up l \<and> fpl_fulfillment_plan_id l = pid"
    if "fold_exc (override_step db prods pid) items ([], []) = Inr acc" for acc
    by (rule fold_exc_invariant[OF _ _ that, where P = "\<lambda>acc. \<forall>l\<in>set (fst acc). row_adds_up l \<and> fpl_fulfillment_plan_id l = pid"])
       (auto simp: override_step_def Let_def row_adds_up_def split: option.splits if_splits)
  from this[OF assms] show ?thesis by simp
qed

lemma plan_trace_override:
  assumes "plan_trace db0 w" and "find_deal_plan i pid (w_db w) = Inr p"
    and "fp_status p \<in> {PROPOSED, FulfillmentPlanStatus.ACCEPTED}" and "\<forall>l\<in>set (fst rows). row_adds_up l \<and> fpl_fulfillment_plan_id l = pid"
  shows "plan_trace db0 (commit (on_db (record_override i pid actor rows (w_now w)) w))"
proof -
  let ?add = "\<lambda>db. db\<lparr>db_plan_lines := db_plan_lines db @ fst rows\<rparr>"
  have t: "plan_trace db0 (on_db ?add w)"
  proof (rule plan_trace_on_db[OF assms(1)])
    show "fulfillment_ok (?add (w_db w))"
      using assms(1,4) find_deal_plan_Inr[OF assms(2)]
      by (auto simp: plan_trace_def fulfillment_ok_def proposed_def row_ok_def)
  qed (simp add: plans_evolve_same)
  have "plan_trace db0 (on_db (update_plan pid (overridden actor (snd rows) cost (w_now w))) (on_db ?add w))" for cost
    by (rule plan_trace_update[OF t, of i pid p OVERRIDDEN])
       (use assms(2,3) in \<open>simp_all add: overridden_def accepted_def find_deal_plan_def plan_move.override\<close>)
  then have "plan_trace db0 (on_db (plan_event FULFILLMENT_OVERRIDDEN pid i actor (w_now w)) (on_db (touch_deal (w_now w) i)
      (on_db (update_plan pid (overridden actor (snd rows) (used_cost (w_db w) (snd rows)) (w_now w))) (on_db ?add w))))"
    by (intro plan_trace_event plan_trace_touch)
  then show ?thesis unfolding record_override_def on_db_def by (simp add: plan_trace_commit)
qed

lemma plan_trace_delete:
  assumes "plan_trace db0 w"
  shows "plan_trace db0 (on_db (delete_plan_lines pid) w)"
  by (rule plan_trace_rest[OF assms]) (auto simp: delete_plan_lines_def fulfillment_ok_def proposed_def)

lemma preserves_override: "preserves (plan_trace db0) (override_fulfillment_plan gw i pid items actor reason)"
proof (rule preservesI)
  fix w :: "'a world" assume t: "plan_trace db0 w"
  have f: "find_deal_plan i pid (delete_plan_lines pid db) = find_deal_plan i pid db" for db
    by (simp add: find_deal_plan_def delete_plan_lines_def)
  note d = plan_trace_delete[OF t, of pid]
  show "plan_trace db0 (snd (override_fulfillment_plan gw i pid items actor reason w))"
    using t d plan_trace_override[OF d, of i pid _ _ actor] override_rows_add_up
    by (auto simp: override_fulfillment_plan_def bind_eff_def ask_def guard_eff_def raise_unless_def act_def answer_def
        odoo_read_def option_or_raise_def f split: sum.splits option.splits)
qed

lemma plan_trace_apply:
  assumes "plan_trace db0 w" and "find_deal_plan i pid (w_db w) = Inr p"
    and "fp_status p \<in> {FulfillmentPlanStatus.ACCEPTED, OVERRIDDEN}"
  shows "plan_trace db0 (commit (on_db (record_application i pid pickings actor (w_now w)) w))"
proof -
  let ?f = "\<lambda>p. p\<lparr>fp_status := FulfillmentPlanStatus.APPLIED, fp_applied_at := Some (w_now w),
            fp_odoo_picking_ids := Some pickings\<rparr>"
  have "plan_trace db0 (on_db (update_plan pid ?f) w)"
    by (rule plan_trace_update[OF assms(1,2), of FulfillmentPlanStatus.APPLIED])
      (use assms(3) in \<open>simp_all add: plan_move.apply_plan\<close>)
  then have "plan_trace db0 (on_db (plan_event FULFILLMENT_APPLIED pid i actor (w_now w))
      (on_db (update_deal i (\<lambda>d. d\<lparr>d_status := IN_FULFILLMENT, d_last_activity_at := w_now w\<rparr>))
        (on_db (update_plan pid ?f) w)))"
    by (intro plan_trace_event plan_trace_update_deal)
  then show ?thesis unfolding record_application_def on_db_def by (simp add: plan_trace_commit)
qed

lemma plan_trace_odoo [simp]: "plan_trace db0 (w\<lparr>w_odoo := g\<rparr>) = plan_trace db0 w"
  by (simp add: plan_trace_def)

lemma preserves_apply: "preserves (plan_trace db0) (apply_fulfillment_plan gw i pid actor)"
proof (rule preservesI)
  fix w :: "'a world" assume t: "plan_trace db0 w"
  have "plan_trace db0 (w\<lparr>w_odoo := g\<rparr>)" for g using t by simp
  from plan_trace_apply[OF this, of i pid] t
  show "plan_trace db0 (snd (apply_fulfillment_plan gw i pid actor w))"
    by (auto simp: apply_fulfillment_plan_def bind_eff_def ask_def guard_eff_def raise_unless_def act_def answer_def
        odoo_call_def split: sum.splits prod.splits)
qed

lemma preserves_consolidate: "preserves (plan_trace db0) (consolidate_backorder gw i pid actor)"
proof -
  have "preserves (plan_trace db0) (act (\<lambda>w. commit (on_db (plan_event FULFILLMENT_REPLANNED k i actor (w_now w)) w)))" for k
    by (rule preserves_act) (intro plan_trace_commit plan_trace_event)
  then show ?thesis unfolding consolidate_backorder_def by (intro preserves_intros preserves_propose)
qed

lemma plan_trace_profiles:
  assumes "plan_trace db0 w" and "distinct (map wp_odoo_warehouse_id (g (db_profiles (w_db w))))"
  shows "plan_trace db0 (on_db (\<lambda>db. db\<lparr>db_profiles := g (db_profiles db)\<rparr>) w)"
proof (rule plan_trace_on_db[OF assms(1)])
  show "fulfillment_ok ((w_db w)\<lparr>db_profiles := g (db_profiles (w_db w))\<rparr>)"
    by (rule fulfillment_ok_profiles[of "w_db w"]) (use assms in \<open>simp_all add: plan_trace_def\<close>)
qed (simp add: plans_evolve_same)

lemma distinct_profiles: "plan_trace db0 w \<Longrightarrow> distinct (map wp_odoo_warehouse_id (db_profiles (w_db w)))"
  by (simp add: plan_trace_def fulfillment_ok_def)

lemma preserves_update_profile: "preserves (plan_trace db0) (update_warehouse_profile k u)"
proof -
  have "distinct (map wp_odoo_warehouse_id (update_row wp_id k (updated_profile u) ps)) = distinct (map wp_odoo_warehouse_id ps)" for ps
    by (simp add: map_key_update_row[of wp_odoo_warehouse_id] update_row_def comp_def updated_profile_def if_distrib cong: if_cong)
  then show ?thesis unfolding update_warehouse_profile_def
    by (intro preserves_intros preserves_act plan_trace_commit plan_trace_profiles) (simp_all add: distinct_profiles)
qed

lemma preserves_delete_profile: "preserves (plan_trace db0) (delete_warehouse_profile k)"
  unfolding delete_warehouse_profile_def
  by (intro preserves_intros preserves_act plan_trace_commit plan_trace_profiles distinct_map_filter distinct_profiles)

lemma preserves_create_profile: "preserves (plan_trace db0) (create_warehouse_profile wid weight prio lead active)"
proof (rule preservesI)
  fix w :: "'a world" assume t: "plan_trace db0 w"
  have "plan_trace db0 (on_db (\<lambda>_. snd (insert_profile wid weight prio lead active (w_db w))) w)"
    if "find_row wp_odoo_warehouse_id wid (db_profiles (w_db w)) = None"
  proof (rule plan_trace_on_db[OF t])
    have ok: "fulfillment_ok (w_db w)" using t by (simp add: plan_trace_def)
    show "fulfillment_ok (snd (insert_profile wid weight prio lead active (w_db w)))"
      by (rule fulfillment_ok_profiles[OF ok])
         (use that distinct_profiles[OF t] in \<open>simp_all add: insert_profile_def Let_def find_row_None\<close>)
  qed (simp add: plans_evolve_same insert_profile_def Let_def)
  then show "plan_trace db0 (snd (create_warehouse_profile wid weight prio lead active w))"
    using t by (auto simp: create_warehouse_profile_def bind_eff_def ask_def draw_def act_def answer_def raise_unless_def
        split_beta plan_trace_commit)
qed

section \<open>Application\<close>

lemma find_plan_audit [simp]:
  "find_plan k (record_audit_event t et ei di ty ai ar now db) = find_plan k db"
  "find_plan k (update_deal i f db) = find_plan k db"
  by (simp_all add: find_plan_def) (simp add: update_deal_def)

lemma find_deal_update_plan [simp]: "find_deal i (update_plan k f db) = find_deal i db"
  by (simp add: find_deal_def update_plan_def)

text \<open>
  C12: What applying a plan does. Unless the deal is confirmed or in fulfillment and the plan is its own
  and accepted or overridden, the call is refused and nothing changes, here or in Odoo. Otherwise Odoo
  is handed exactly the plan's rows that allocate something from a warehouse; if it refuses, the
  database stays as it was, and if it answers, the plan is applied with its pickings, the deal is in
  fulfillment, and all of it is committed.
\<close>

theorem apply_plan_outcome:
  assumes "apply_fulfillment_plan gw i pid actor w = (res, w')"
  shows "case (find_deal i (w_db w), find_deal_plan i pid (w_db w)) of
      (Some d, Inr p) \<Rightarrow>
        if d_status d \<in> {CONFIRMED, IN_FULFILLMENT} \<and> fp_status p \<in> {FulfillmentPlanStatus.ACCEPTED, OVERRIDDEN}
        then (case gw_apply_fulfillment_plan gw (d_odoo_sale_order_id d) (allocation_payload pid (w_db w)) (w_odoo w) of
                (Inl e, g) \<Rightarrow> res = Inl e \<and> w_db w' = w_db w \<and> w_saved w' = w_saved w
              | (Inr pickings, g) \<Rightarrow> res = Inr (pid, pickings) \<and> w_odoo w' = g \<and> w_saved w' = w_db w' \<and>
                  map_option d_status (find_deal i (w_db w')) = Some IN_FULFILLMENT \<and>
                  map_option fp_status (find_plan pid (w_db w')) = Some FulfillmentPlanStatus.APPLIED \<and>
                  map_option fp_odoo_picking_ids (find_plan pid (w_db w')) = Some (Some pickings))
        else isl res \<and> w' = w
    | _ \<Rightarrow> isl res \<and> w' = w"
proof (cases "find_deal i (w_db w)")
  case None
  then show ?thesis using assms
    by (auto simp: apply_fulfillment_plan_def bind_eff_def ask_def get_deal_by_id_def)
next
  case d: (Some d)
  show ?thesis
  proof (cases "find_deal_plan i pid (w_db w)")
    case (Inl e)
    then show ?thesis using assms d
      by (auto simp: apply_fulfillment_plan_def bind_eff_def ask_def get_deal_by_id_def guard_eff_def raise_unless_def
          split: if_splits)
  next
    case (Inr p)
    have "find_plan pid (w_db w) \<noteq> None"
      using find_deal_plan_Inr[OF Inr] by (auto simp: find_plan_def find_row_None)
    then show ?thesis using assms d Inr
      by (auto simp: apply_fulfillment_plan_def bind_eff_def ask_def get_deal_by_id_def guard_eff_def raise_unless_def
          odoo_call_def act_def answer_def record_application_def plan_event_def find_deal_audit deals.lookup_modify
          plans.lookup_modify split: if_splits sum.splits prod.splits)
  qed
qed

text \<open>A confirmed deal with an accepted plan of two pieces from the first warehouse.\<close>

definition shipping_db :: database where
  "shipping_db = (small_db [(small_deal ApprovalState.APPROVED MANAGER)\<lparr>d_status := CONFIRMED\<rparr>] [])
     \<lparr>db_plans := [\<lparr>fp_id = 7, fp_deal_id = 6, fp_odoo_sale_order_id = 1,
        fp_status = FulfillmentPlanStatus.ACCEPTED, fp_estimated_shipments = 1,
        fp_estimated_shipping_cost = 10, fp_strategy = ''FULL_COVERAGE'', fp_generated_at = 0,
        fp_accepted_by_odoo_user_id = Some 4, fp_accepted_at = Some 0, fp_applied_at = None,
        fp_odoo_picking_ids = None\<rparr>],
      db_plan_lines := [\<lparr>fpl_fulfillment_plan_id = 7, fpl_odoo_sale_order_line_id = 11,
        fpl_odoo_product_id = 101, fpl_odoo_warehouse_id = Some 1, fpl_requested_qty = 2,
        fpl_allocated_qty = 2, fpl_backorder_qty = 0, fpl_shipping_cost = 10\<rparr>]\<rparr>"

lemma fake_apply_known:
  "map_of (fk_orders g) i \<noteq> None \<Longrightarrow> \<exists>pk g'. fake_apply_fulfillment_plan i as g = (Inr pk, g')"
  by (auto simp: fake_apply_fulfillment_plan_def split_beta)

lemma small_state_orders: "map_of (fk_orders (small_state n)) 1 = Some (small_order n)"
  by (simp add: small_state_def)

theorem apply_plan_outcome_witness:
  "map_option d_status (find_deal 6 (w_db (snd (apply_fulfillment_plan fake_gateway 6 7 (small_user 4 SALES_REP)
     (small_world shipping_db))))) = Some IN_FULFILLMENT"
proof -
  have d: "find_deal 6 (w_db (small_world shipping_db)) = Some ((small_deal ApprovalState.APPROVED MANAGER)\<lparr>d_status := CONFIRMED\<rparr>)"
    by (simp add: shipping_db_def find_deal_def)
  obtain p where p: "find_deal_plan 6 7 (w_db (small_world shipping_db)) = Inr p" "fp_status p = FulfillmentPlanStatus.ACCEPTED"
    by (simp add: shipping_db_def find_deal_plan_def)
  obtain pk g where g: "gw_apply_fulfillment_plan fake_gateway 1 (allocation_payload 7 shipping_db) (small_state 20) = (Inr pk, g)"
    using fake_apply_known[of "small_state 20" 1 "allocation_payload 7 shipping_db"]
    by (auto simp: fake_gateway_def small_state_orders)
  from apply_plan_outcome[OF prod.collapse[symmetric], of fake_gateway 6 7 "small_user 4 SALES_REP" "small_world shipping_db"]
  show ?thesis using d p g by simp
qed

section \<open>What a proposal stores\<close>

definition stored_quantity :: "uuid \<Rightarrow> odoo_id \<Rightarrow> database \<Rightarrow> int" where
  "stored_quantity pid line db = sum_list (map fpl_requested_qty
     (filter (\<lambda>l. fpl_odoo_sale_order_line_id l = line) (plan_lines pid db)))"

definition stored_from :: "uuid \<Rightarrow> odoo_id \<Rightarrow> odoo_id \<Rightarrow> database \<Rightarrow> int" where
  "stored_from pid wid product db = sum_list (map fpl_allocated_qty
     (filter (\<lambda>l. fpl_odoo_warehouse_id l = Some wid \<and> fpl_odoo_product_id l = product) (plan_lines pid db)))"

definition fake_stock :: "fake_state \<Rightarrow> odoo_id \<Rightarrow> odoo_id \<Rightarrow> int" where
  "fake_stock g wid product =
     (case map_of (fk_stock g) product of None \<Rightarrow> 0
      | Some m \<Rightarrow> (case map_of m wid of None \<Rightarrow> 0 | Some q \<Rightarrow> q))"

lemma fake_stock_nonneg:
  assumes "fake_ok g"
  shows "0 \<le> fake_stock g wid p"
proof (cases "map_of (fk_stock g) p")
  case (Some m)
  then have m: "\<forall>e\<in>set m. 0 \<le> snd e"
    using fake_ok_stockD[OF assms] map_of_SomeD[OF Some] by (fastforce simp: stock_ok_def)
  show ?thesis
  proof (cases "map_of m wid")
    case (Some q)
    then show ?thesis using m map_of_SomeD[OF Some] \<open>map_of (fk_stock g) p = _\<close> by (force simp: fake_stock_def)
  qed (use Some in \<open>simp add: fake_stock_def\<close>)
qed (simp add: fake_stock_def)

lemma map_of_foldl_update:
  "map_of (foldl (\<lambda>r k. AList.update k (f k) r) acc ks) x = (if x \<in> set ks then Some (f x) else map_of acc x)"
  by (induction ks arbitrary: acc) (auto simp: update_conv)

lemma fake_avail:
  assumes "fake_ok g" and "gw_get_availability fake_gateway pids wids g = Inr av"
  shows "get_avail av wid p \<le> fake_stock g wid p"
proof -
  have nn: "0 \<le> fake_stock g wid p" by (rule fake_stock_nonneg[OF assms(1)])
  have q: "(case map_of (case map_of (fk_stock g) pid of None \<Rightarrow> [] | Some m \<Rightarrow> m) wid of None \<Rightarrow> 0 | Some q \<Rightarrow> q) =
      fake_stock g wid pid" for pid wid
    by (simp add: fake_stock_def split: option.split)
  have "\<exists>wh. av = foldl (\<lambda>res pid. AList.update pid (foldl (\<lambda>r wid. AList.update wid (fake_stock g wid pid) r) [] wh) res) [] pids"
    using assms(2) by (simp add: fake_gateway_def fake_get_availability_def Let_def q) (drule sym, erule exI)
  then show ?thesis using nn by (auto simp: get_avail_def map_of_foldl_update)
qed

definition allocation_shape :: "plan_allocation \<Rightarrow> bool" where
  "allocation_shape a = (pa_requested_qty a = pa_allocated_qty a)"

definition backorder_shape :: "plan_allocation \<Rightarrow> bool" where
  "backorder_shape b = (pa_requested_qty b = pa_backorder_qty b)"

lemma allocate_line_shape:
  "allocate_line l ws n st = (as, n', st') \<Longrightarrow> \<forall>a\<in>set as. allocation_shape a"
  by (induction l ws n st arbitrary: as n' st' rule: allocate_line.induct)
     (fastforce simp: Let_def allocation_def allocation_shape_def split: if_splits prod.splits)+

lemma allocate_lines_shape:
  "allocate_lines ws ls st = (as, bs, st') \<Longrightarrow> (\<forall>a\<in>set as. allocation_shape a) \<and> (\<forall>b\<in>set bs. backorder_shape b)"
proof (induction ws ls st arbitrary: as bs st' rule: allocate_lines.induct)
  case (2 ws l ls st)
  then show ?case
    by (fastforce simp: backorder_def backorder_shape_def dest!: allocate_line_shape split: prod.splits if_splits)
qed simp

lemma calculation_shape:
  "(\<forall>a\<in>set (fcr_allocations (calculate_fulfillment_plan ls whs av s)). allocation_shape a) \<and>
   (\<forall>b\<in>set (fcr_backorders (calculate_fulfillment_plan ls whs av s)). backorder_shape b)"
  using allocate_lines_shape
  by (auto simp: calculate_fulfillment_plan_def Let_def split_beta backorder_def backorder_shape_def prod_eq_iff)

lemma planned_requested:
  assumes "\<forall>a\<in>set (fcr_allocations calc). allocation_shape a" and "\<forall>b\<in>set (fcr_backorders calc). backorder_shape b"
  shows "sum_list (map fpl_requested_qty (filter (\<lambda>l. fpl_odoo_sale_order_line_id l = line) (planned_lines pid calc))) =
     line_total (fcr_allocations calc) (fcr_backorders calc) line"
proof -
  have "sum_list (map fpl_requested_qty (filter (\<lambda>l. fpl_odoo_sale_order_line_id l = line)
        (map (\<lambda>a. planned_line pid (pa_warehouse_id a) a) as))) =
      sum_list (map pa_allocated_qty (filter (\<lambda>a. pa_line_id a = line) as))"
    if "\<forall>a\<in>set as. allocation_shape a" for as
    using that by (induction as) (auto simp: planned_line_def allocation_shape_def)
  moreover have "sum_list (map fpl_requested_qty (filter (\<lambda>l. fpl_odoo_sale_order_line_id l = line)
        (map (planned_line pid None) bs))) = sum_list (map pa_backorder_qty (filter (\<lambda>b. pa_line_id b = line) bs))"
    if "\<forall>b\<in>set bs. backorder_shape b" for bs
    using that by (induction bs) (auto simp: planned_line_def backorder_shape_def)
  ultimately show ?thesis using assms by (simp add: planned_lines_def line_total_def)
qed

lemma planned_from:
  "sum_list (map fpl_allocated_qty (filter (\<lambda>l. fpl_odoo_warehouse_id l = Some wid \<and> fpl_odoo_product_id l = p)
     (planned_lines pid calc))) = allocated_from (fcr_allocations calc) wid p"
proof -
  have "sum_list (map fpl_allocated_qty (filter (\<lambda>l. fpl_odoo_warehouse_id l = Some wid \<and> fpl_odoo_product_id l = p)
        (map (\<lambda>a. planned_line pid (pa_warehouse_id a) a) as))) = allocated_from as wid p" for as
    by (induction as) (auto simp: planned_line_def allocated_from_def)
  moreover have "filter (\<lambda>l. fpl_odoo_warehouse_id l = Some wid \<and> fpl_odoo_product_id l = p)
        (map (planned_line pid None) bs) = []" for bs
    by (induction bs) (auto simp: planned_line_def)
  ultimately show ?thesis by (simp add: planned_lines_def)
qed

lemma plan_lines_stored:
  assumes "fulfillment_ok db"
  shows "plan_lines (db_next_id db) (snd (record_proposal d calc now db)) = planned_lines (db_next_id db) calc"
proof -
  have "filter (\<lambda>l. fpl_fulfillment_plan_id l = db_next_id db) (db_plan_lines db) = []"
    using assms by (auto simp: fulfillment_ok_def row_ok_def filter_empty_conv)
  moreover have "filter (\<lambda>l. fpl_fulfillment_plan_id l = db_next_id db) (planned_lines (db_next_id db) calc) =
      planned_lines (db_next_id db) calc"
    by (rule filter_True) (auto dest: planned_lines_plan)
  ultimately show ?thesis
    by (simp add: plan_lines_def record_proposal_def split_beta store_plan_frame)
qed

lemma ensure_profiles_odoo: "w_odoo (snd (ensure_profiles gw w)) = w_odoo w"
  by (simp add: ensure_profiles_def bind_eff_def odoo_read_def store_default_profiles_def on_db_def commit_def rollback_def
      split: sum.splits)

lemma propose_cases:
  assumes "propose_fulfillment_plan gw i s w = (Inr pid, w')"
  obtains d ord products w1 calc where
    "find_deal i (w_db w) = Some d" "gw_get_sale_order gw (d_odoo_sale_order_id d) (w_odoo w) = Inr ord"
    "gw_get_products gw (remdups (map rol_product_id (ro_lines ord))) (w_odoo w) = Inr products"
    "ensure_profiles gw w = (Inr (), w1)" "plan_for_order gw ord products s w1 = Inr calc"
    "pid = db_next_id (w_db w1)" "w_db w' = snd (record_proposal d calc (w_now w1) (w_db w1))"
proof -
  have draws: "draw (record_proposal d calc) v = (Inr k, v') \<longleftrightarrow>
      k = db_next_id (w_db v) \<and> v' = on_db (\<lambda>_. snd (record_proposal d calc (w_now v) (w_db v))) v" for d calc v k v'
    by (auto simp: draw_def record_proposal_def store_plan_frame split_beta)
  show ?thesis using assms
    by (auto simp: propose_fulfillment_plan_def plan_and_record_def bind_eff_Inr_iff eff_Inr_iff draws
        odoo_eff_Inr_iff(1) get_deal_by_id_def intro!: that)
qed

lemma fake_products:
  "map_of (foldl (\<lambda>res pid. case f pid of None \<Rightarrow> res | Some p \<Rightarrow> AList.update pid p res) acc pids) q =
     (if q \<in> set pids \<and> f q \<noteq> None then f q else map_of acc q)"
  by (induction pids arbitrary: acc) (auto simp: update_conv split: option.splits)

definition ships :: "fake_state \<Rightarrow> fake_line \<Rightarrow> bool" where
  "ships g l = (case map_of (fk_products g) (fl_product_id l) of None \<Rightarrow> False
     | Some p \<Rightarrow> rpr_type p = ''STOCKABLE'' \<and> \<not> rpr_is_recurring p \<and> 1 \<le> fl_qty l)"

definition stockable_line_of :: "fake_line \<Rightarrow> stockable_line" where
  "stockable_line_of l = \<lparr>sl_line_id = fl_id l, sl_product_id = fl_product_id l, sl_requested_qty = pyint (fl_qty l)\<rparr>"

lemma pyint_pos: "0 < pyint x \<longleftrightarrow> 1 \<le> x"
  by (simp add: pyint_def ceiling_le_zero not_less)

text \<open>What the planner is handed: exactly the lines that ship, each once.\<close>

lemma positive_shippable_lines:
  assumes "fake_ok g" and "map_of (fk_orders g) oid = Some od"
    and "fake_get_sale_order oid g = Inr ord"
    and "fake_get_products (remdups (map rol_product_id (ro_lines ord))) g = Inr products"
  shows "positive_lines (stockable_lines_of products (ro_lines ord)) = map stockable_line_of (filter (ships g) (fo_lines od))"
proof -
  have lines: "ro_lines ord = map (\<lambda>l. fake_raw_line l (the (map_of (fk_products g) (fl_product_id l)))) (fo_lines od)"
    using fake_get_sale_order_lines[OF assms(3,2)] by (simp add: fake_raw_lines_def)
  have known: "map_of products (fl_product_id l) = map_of (fk_products g) (fl_product_id l)" if "l \<in> set (fo_lines od)" for l
  proof -
    have "fl_product_id l \<in> set (remdups (map rol_product_id (ro_lines ord)))"
      using that by (simp add: lines fake_raw_line_def image_iff) (rule bexI, rule refl)
    then show ?thesis using assms(4) by (auto simp: fake_get_products_def fake_products)
  qed
  have one: "is_shippable products (fake_raw_line l x) \<and> 0 < pyint (fl_qty l) \<longleftrightarrow> ships g l" if "l \<in> set (fo_lines od)" for l x
    using known[OF that]
    by (auto simp: is_shippable_def fake_raw_line_def ships_def pyint_pos split: option.splits)
  have two: "stockable_of (fake_raw_line l x) = stockable_line_of l" for l x
    by (simp add: stockable_of_def fake_raw_line_def stockable_line_of_def)
  have "positive_lines (stockable_lines_of products (map (\<lambda>l. fake_raw_line l (f l)) ls)) =
      map stockable_line_of (filter (\<lambda>l. is_shippable products (fake_raw_line l (f l)) \<and> 0 < pyint (fl_qty l)) ls)" for f ls
    by (induction ls) (simp_all add: positive_lines_def stockable_lines_of_def two, simp add: stockable_line_of_def)
  then show ?thesis unfolding lines using one by (simp cong: filter_cong)
qed

lemma active_infos_distinct:
  assumes "fulfillment_ok db"
  shows "distinct (map wi_warehouse_id (active_warehouses (map (warehouse_info_of rws) (active_profiles db))))"
proof -
  have "distinct (map wp_odoo_warehouse_id (db_profiles db))" using assms by (simp add: fulfillment_ok_def)
  then have "distinct (map wp_odoo_warehouse_id (filter P (db_profiles db)))" for P by (rule distinct_map_filter)
  then show ?thesis
    by (simp add: active_warehouses_def active_profiles_def filter_map comp_def warehouse_info_of_def)
qed

text \<open>Rows belong to lines that were planned.\<close>

lemma line_total_none:
  assumes "distinct (map wi_warehouse_id (active_warehouses whs))" and "i \<notin> sl_line_id ` set (positive_lines ls)"
  shows "line_total (fcr_allocations (calculate_fulfillment_plan ls whs av s))
     (fcr_backorders (calculate_fulfillment_plan ls whs av s)) i = 0"
  using assms(1)
proof (cases rule: calculate_plan_cases[of whs ls av s])
  case empty
  then show ?thesis by (simp add: line_total_def)
next
  case idle
  have "filter (\<lambda>b. pa_line_id b = i) (map (\<lambda>l. backorder l (sl_requested_qty l)) (positive_lines ls)) = []"
    using assms(2) by (auto simp: filter_empty_conv backorder_def)
  then show ?thesis by (simp add: idle line_total_def)
next
  case (plan chosen st')
  have "pa_line_id a \<noteq> i"
    if "a \<in> set (fcr_allocations (calculate_fulfillment_plan ls whs av s)) \<union> set (fcr_backorders (calculate_fulfillment_plan ls whs av s))" for a
    using plan_ok_lines[OF plan(2) that] assms(2) by blast
  then show ?thesis by (simp add: line_total_def filter_False)
qed

lemma ensured_ok:
  assumes "fulfillment_ok (w_db w)" and "fulfillment_ok (w_saved w)" and "ensure_profiles gw w = (r, w1)"
  shows "fulfillment_ok (w_db w1)"
proof -
  have "plan_trace ((w_db w)\<lparr>db_plans := []\<rparr>) w" using assms by (simp add: plan_trace_def plans_evolve_def)
  from preservesD[OF preserves_ensure this, of gw] assms(3) show ?thesis by (simp add: plan_trace_def)
qed

lemma proposed_record:
  "proposed j (snd (record_proposal d calc now db)) =
     (if j = d_id d then [new_plan (db_next_id db) d calc now] else proposed j db)"
proof -
  have "proposed j (snd (record_proposal d calc now db)) = proposed j (snd (store_plan d calc now db))"
    by (simp add: record_proposal_def split_beta proposed_def)
  then show ?thesis by (simp only: proposed_store)
qed

lemma planned_ids:
  assumes od: "fake_ok g" "map_of (fk_orders g) oid = Some od"
    and pos: "positive_lines ls = map stockable_line_of (filter (ships g) (fo_lines od))"
  shows "map sl_line_id (positive_lines ls) = map fl_id (filter (ships g) (fo_lines od))"
    and "distinct (map sl_line_id (positive_lines ls))"
proof -
  have d: "distinct (map fl_id (fo_lines od))" using fake_okD[OF od] by (simp add: fake_order_ok_def)
  show ids: "map sl_line_id (positive_lines ls) = map fl_id (filter (ships g) (fo_lines od))"
    by (simp add: pos stockable_line_of_def comp_def)
  show "distinct (map sl_line_id (positive_lines ls))" unfolding ids by (rule distinct_map_filter[OF d])
qed

lemma line_total_planned:
  assumes od: "fake_ok g" "map_of (fk_orders g) oid = Some od" and l: "l \<in> set (fo_lines od)"
    and pos: "positive_lines ls = map stockable_line_of (filter (ships g) (fo_lines od))"
    and whs: "distinct (map wi_warehouse_id (active_warehouses whs))"
  shows "line_total (fcr_allocations (calculate_fulfillment_plan ls whs av s))
     (fcr_backorders (calculate_fulfillment_plan ls whs av s)) (fl_id l) = (if ships g l then pyint (fl_qty l) else 0)"
proof -
  have d: "distinct (map fl_id (fo_lines od))" using fake_okD[OF od] by (simp add: fake_order_ok_def)
  note ids = planned_ids[OF od pos]
  show ?thesis
  proof (cases "ships g l")
    case True
    have "stockable_line_of l \<in> set (positive_lines ls)" using l True by (simp add: pos)
    with plan_quantities[OF whs ids(2), of av s] True show ?thesis by (force simp: stockable_line_of_def)
  next
    case False
    have "fl_id l \<notin> set (map fl_id (filter (ships g) (fo_lines od)))"
      using l False d by (auto simp: distinct_map dest: inj_onD)
    then have "fl_id l \<notin> sl_line_id ` set (positive_lines ls)" unfolding ids(1)[symmetric] by simp
    then show ?thesis using line_total_none[OF whs] False by simp
  qed
qed

lemma proposal_result:
  assumes g: "fake_ok (w_odoo w)" and ok: "fulfillment_ok (w_db w)" "fulfillment_ok (w_saved w)"
    and run: "propose_fulfillment_plan fake_gateway i s w = (Inr pid, w')"
    and d: "find_deal i (w_db w) = Some d" and od: "map_of (fk_orders (w_odoo w)) (d_odoo_sale_order_id d) = Some od"
  shows "map fp_id (proposed i (w_db w')) = [pid] \<and>
    (l \<in> set (fo_lines od) \<longrightarrow> stored_quantity pid (fl_id l) (w_db w') = (if ships (w_odoo w) l then pyint (fl_qty l) else 0)) \<and>
    stored_from pid wid p (w_db w') \<le> fake_stock (w_odoo w) wid p"
proof -
  obtain ord products w1 calc where
    ord: "fake_get_sale_order (d_odoo_sale_order_id d) (w_odoo w) = Inr ord" and
    products: "fake_get_products (remdups (map rol_product_id (ro_lines ord))) (w_odoo w) = Inr products" and
    w1: "ensure_profiles fake_gateway w = (Inr (), w1)" and calc: "plan_for_order fake_gateway ord products s w1 = Inr calc" and
    pid: "pid = db_next_id (w_db w1)" and db: "w_db w' = snd (record_proposal d calc (w_now w1) (w_db w1))"
    using d by (auto simp: fake_gateway_def intro: propose_cases[OF run])
  have g1: "w_odoo w1 = w_odoo w" using ensure_profiles_odoo[of fake_gateway w] w1 by simp
  have ok1: "fulfillment_ok (w_db w1)" by (rule ensured_ok[OF ok w1])
  let ?ls = "stockable_lines_of products (ro_lines ord)"
  note pos = positive_shippable_lines[OF g od ord products]
  obtain rws av where av: "gw_get_availability fake_gateway (remdups (map sl_product_id ?ls))
        (Some (map wi_warehouse_id (map (warehouse_info_of rws) (active_profiles (w_db w1))))) (w_odoo w) = Inr av" and
    c: "calc = calculate_fulfillment_plan ?ls (map (warehouse_info_of rws) (active_profiles (w_db w1))) av (parse_strategy s)"
    using calc unfolding plan_for_order_def bind_exc_Inr_iff Let_def g1 by blast
  note whs = active_infos_distinct[OF ok1, of rws]
  note lines = plan_lines_stored[OF ok1, of d calc "w_now w1"]
  have "d_id d = i" using find_row_Some[OF d[unfolded find_deal_def]] by simp
  then have "map fp_id (proposed i (w_db w')) = [pid]"
    unfolding db proposed_record by (simp add: new_plan_def pid)
  moreover have "stored_quantity pid (fl_id l) (w_db w') = (if ships (w_odoo w) l then pyint (fl_qty l) else 0)"
    if "l \<in> set (fo_lines od)"
    unfolding stored_quantity_def db pid lines
    unfolding c planned_requested[OF conjunct1[OF calculation_shape] conjunct2[OF calculation_shape]]
    by (rule line_total_planned[OF g od that pos whs])
  moreover have "stored_from pid wid p (w_db w') \<le> fake_stock (w_odoo w) wid p"
  proof -
    have "allocated_from (fcr_allocations calc) wid p \<le> get_avail av wid p"
      using plan_quantities[OF whs planned_ids(2)[OF g od pos], of av "parse_strategy s"] c by blast
    also have "\<dots> \<le> fake_stock (w_odoo w) wid p" by (rule fake_avail[OF g av])
    finally show ?thesis unfolding stored_from_def db pid lines planned_from .
  qed
  ultimately show ?thesis by blast
qed

text \<open>
  C18: What a proposal stores. When a proposal succeeds against the in-memory Odoo, the new plan is the
  deal's only open proposal; for each line of the order its rows add up to the quantity ordered (in
  whole units) when the line ships, and to nothing when it does not; and the plan takes from each
  warehouse no more of any product than Odoo has there.
\<close>

theorem proposal_exact:
  assumes "fake_ok (w_odoo w)" and "fulfillment_ok (w_db w)" and "fulfillment_ok (w_saved w)"
    and "propose_fulfillment_plan fake_gateway i s w = (Inr pid, w')"
    and "find_deal i (w_db w) = Some d" and "map_of (fk_orders (w_odoo w)) (d_odoo_sale_order_id d) = Some od"
  shows "map fp_id (proposed i (w_db w')) = [pid] \<and>
    (\<forall>l\<in>set (fo_lines od). stored_quantity pid (fl_id l) (w_db w') = (if ships (w_odoo w) l then pyint (fl_qty l) else 0)) \<and>
    (\<forall>wid p. stored_from pid wid p (w_db w') \<le> fake_stock (w_odoo w) wid p)"
  using proposal_result[OF assms] by blast

text \<open>The shipping deal again, with one warehouse: two pieces ship, the recurring line does not.\<close>

definition stocked_db :: database where
  "stocked_db = shipping_db\<lparr>db_profiles := [\<lparr>wp_id = 2, wp_odoo_warehouse_id = 1, wp_shipping_cost_weight = 10,
     wp_priority = 1, wp_lead_time_days = 0, wp_active = True\<rparr>]\<rparr>"

lemma fake_plan_total: "\<exists>calc. plan_for_order fake_gateway ord products s w = Inr calc"
  by (simp add: plan_for_order_def fake_gateway_def fake_get_warehouses_def fake_get_availability_def Let_def)

lemma stocked_proposal:
  "\<exists>pid w'. propose_fulfillment_plan fake_gateway 6 None (small_world stocked_db) = (Inr pid, w')"
proof -
  obtain ro where ro: "gw_get_sale_order fake_gateway 1 (small_state 20) = Inr ro" "ro_lines ro \<noteq> []"
    using small_read by (auto simp: fake_gateway_def)
  obtain ps where ps: "gw_get_products fake_gateway (remdups (map rol_product_id (ro_lines ro))) (small_state 20) = Inr ps"
    by (simp add: fake_gateway_def fake_get_products_def)
  obtain calc where c: "plan_for_order fake_gateway ro ps None (small_world stocked_db) = Inr calc"
    using fake_plan_total by blast
  have "ensure_profiles fake_gateway (small_world stocked_db) = (Inr (), small_world stocked_db)"
    by (simp add: ensure_profiles_def active_profiles_def stocked_db_def)
  moreover have "find_deal 6 stocked_db = Some ((small_deal ApprovalState.APPROVED MANAGER)\<lparr>d_status := CONFIRMED\<rparr>)"
    by (simp add: stocked_db_def shipping_db_def find_deal_def)
  ultimately show ?thesis using ro ps c
    by (simp add: propose_fulfillment_plan_def plan_and_record_def bind_eff_def ask_def odoo_read_def guard_eff_def
        raise_unless_def get_deal_by_id_def draw_def act_def answer_def split_beta)
qed

theorem proposal_exact_witness:
  "\<exists>pid w'. propose_fulfillment_plan fake_gateway 6 None (small_world stocked_db) = (Inr pid, w') \<and>
     map fp_id (proposed 6 (w_db w')) = [pid] \<and> stored_quantity pid 11 (w_db w') = 2 \<and> stored_quantity pid 12 (w_db w') = 0"
proof -
  let ?w = "small_world stocked_db"
  let ?d = "(small_deal ApprovalState.APPROVED MANAGER)\<lparr>d_status := CONFIRMED\<rparr>"
  have d: "find_deal 6 (w_db ?w) = Some ?d" by (simp add: stocked_db_def shipping_db_def find_deal_def)
  have od: "map_of (fk_orders (w_odoo ?w)) (d_odoo_sale_order_id ?d) = Some (small_order 20)"
    by (simp add: small_state_orders)
  have ok: "fulfillment_ok (w_db ?w)" "fulfillment_ok (w_saved ?w)"
    by (simp_all add: stocked_db_def shipping_db_def fulfillment_ok_def proposed_def row_ok_def row_adds_up_def)
  have g: "fake_ok (w_odoo ?w)" using small_state_ok by simp
  obtain pid w' where run: "propose_fulfillment_plan fake_gateway 6 None ?w = (Inr pid, w')"
    using stocked_proposal by blast
  let ?l = "small_line 11 101 2 50000 20" and ?m = "small_line 12 109 1 20000 0"
  have lines: "?l \<in> set (fo_lines (small_order 20))" "?m \<in> set (fo_lines (small_order 20))"
    by (simp_all add: small_order_def)
  have eval: "ships (small_state 20) ?l" "\<not> ships (small_state 20) ?m" "pyint (fl_qty ?l) = 2" "fl_id ?l = 11" "fl_id ?m = 12"
    by (simp_all add: ships_def small_state_def small_line_def small_product_def pyint_def)
  note exact = proposal_exact[OF g ok run d od]
  have "stored_quantity pid 11 (w_db w') = 2" "stored_quantity pid 12 (w_db w') = 0"
    using bspec[OF conjunct1[OF conjunct2[OF exact]] lines(1)] bspec[OF conjunct1[OF conjunct2[OF exact]] lines(2)]
    by (simp_all add: eval)
  then show ?thesis by (intro exI conjI) (rule run, rule conjunct1[OF exact])
qed

end
