(* ===== verification/Negotiation.thy ===== *)
theory Negotiation
  imports Plans
begin

text \<open>
  Negotiation with the customer, \<^verbatim>\<open>app/services/negotiation_service.py\<close>: a customer submits a request on
  a quotation, a sales user accepts, rejects or counters it, and both sides leave comments. Accepting a
  request writes its changes to the order in Odoo, synchronises the deal and evaluates it again. The
  properties are in \<open>Negotiations\<close>.
\<close>

section \<open>Submission\<close>

record negotiation_submit =
  ns_type :: "string option"
  ns_request_type :: "string option"
  ns_message :: "string option"
  ns_counter_value :: "dec option"
  ns_odoo_sale_order_line_id :: "odoo_id option"
  ns_odoo_line_id :: "odoo_id option"
  ns_requested_qty :: "dec option"
  ns_requested_product_id :: "odoo_id option"

fun request_type_value :: "NegotiationRequestType \<Rightarrow> string" where
  "request_type_value COMMENT = ''COMMENT''"
| "request_type_value QTY_CHANGE = ''QTY_CHANGE''"
| "request_type_value REMOVE_LINE = ''REMOVE_LINE''"
| "request_type_value ADD_LINE = ''ADD_LINE''"
| "request_type_value COUNTER_DISCOUNT = ''COUNTER_DISCOUNT''"

definition resolved_type :: "negotiation_submit \<Rightarrow> string" where
  "resolved_type p = str_or (ns_type p) (str_or (ns_request_type p) (request_type_value COMMENT))"

definition resolved_line_id :: "negotiation_submit \<Rightarrow> odoo_id option" where
  "resolved_line_id p = id_or (ns_odoo_sale_order_line_id p) (ns_odoo_line_id p)"

text \<open>
  The change a request asks for. The first two kinds look at the resolved type, the last two only at
  the field \<^verbatim>\<open>type\<close>, so that a removal or addition named in \<^verbatim>\<open>request_type\<close> stores no change.
\<close>

definition requested_change :: "uuid \<Rightarrow> negotiation_submit \<Rightarrow> negotiation_change list" where
  "requested_change rid p =
     (let change = (\<lambda>line field v. [\<lparr>nc_negotiation_request_id = rid, nc_odoo_sale_order_line_id = line,
            nc_field_name = field, nc_requested_value = v\<rparr>]) in
      if resolved_type p = request_type_value QTY_CHANGE
      then change (resolved_line_id p) ''product_uom_qty'' (map_option DecimalValue (ns_requested_qty p))
      else if resolved_type p = request_type_value COUNTER_DISCOUNT
      then change (resolved_line_id p) ''discount'' (map_option DecimalValue (ns_counter_value p))
      else if ns_type p = Some (request_type_value REMOVE_LINE)
      then change (ns_odoo_sale_order_line_id p) ''remove_line'' (Some TrueValue)
      else if ns_type p = Some (request_type_value ADD_LINE)
      then change None ''add_product'' (map_option ProductValue (ns_requested_product_id p))
      else [])"

definition new_negotiation ::
    "uuid \<Rightarrow> deal \<Rightarrow> odoo_id \<Rightarrow> odoo_id \<Rightarrow> negotiation_submit \<Rightarrow> instant \<Rightarrow> negotiation_request" where
  "new_negotiation rid d partner user p now = \<lparr>nr_id = rid, nr_deal_id = d_id d,
     nr_odoo_sale_order_id = d_odoo_sale_order_id d, nr_customer_partner_id = partner,
     nr_requested_by_odoo_user_id = user, nr_type = resolved_type p,
     nr_status = NegotiationRequestStatus.OPEN, nr_message = ns_message p,
     nr_based_on_assessment_id = d_current_assessment_id d, nr_created_at = now,
     nr_processed_at = None, nr_processed_by_odoo_user_id = None, nr_response_message = None,
     nr_counter_value = ns_counter_value p, nr_applied_assessment_id = None\<rparr>"

definition record_submission ::
    "deal \<Rightarrow> odoo_id \<Rightarrow> odoo_id \<Rightarrow> negotiation_submit \<Rightarrow> instant \<Rightarrow> database \<Rightarrow> uuid \<times> database" where
  "record_submission d partner user p now db =
     (let rid = db_next_id db in
      (rid, notify (d_owner_odoo_user_id d) ''NEGOTIATION_RECEIVED'' (d_id d) None now
         (record_audit_event NEGOTIATION_RECEIVED ''negotiation_request'' (Some (int rid)) (Some (d_id d))
            ''CUSTOMER'' (Some partner) None now
           (update_deal (d_id d) (\<lambda>d. d\<lparr>d_status := UNDER_NEGOTIATION, d_last_activity_at := now\<rparr>)
             (db\<lparr>db_negotiations := db_negotiations db @ [new_negotiation rid d partner user p now],
                 db_changes := db_changes db @ requested_change rid p, db_next_id := rid + 1\<rparr>)))))"

definition customer_deal :: "uuid \<Rightarrow> odoo_id \<Rightarrow> database \<Rightarrow> exc + deal" where
  "customer_deal i partner db =
     bind_exc (option_or_raise (find_deal i db) (EntityNotFoundError ''Deal'' (int i))) (\<lambda>d.
       if d_odoo_partner_id d \<noteq> partner then Inl (EntityNotFoundError ''Deal'' (int i)) else Inr d)"

definition submit_negotiation_request ::
    "uuid \<Rightarrow> odoo_id \<Rightarrow> odoo_id \<Rightarrow> negotiation_submit \<Rightarrow> ('g world, uuid) effect" where
  "submit_negotiation_request i partner user p =
     bind_eff (ask (\<lambda>w. customer_deal i partner (w_db w))) (\<lambda>d.
     bind_eff (guard_eff (d_status d \<notin> {CONFIRMED, DealStatus.CANCELLED, DealStatus.EXPIRED})
       (BusinessRuleError ''DEAL_CLOSED'')) (\<lambda>_.
     bind_eff (draw (record_submission d partner user p)) (\<lambda>rid.
     bind_eff (act commit) (\<lambda>_. answer rid))))"

section \<open>Response\<close>

text \<open>\<^verbatim>\<open>float(text)\<close> and \<^verbatim>\<open>int(text)\<close> of a stored value; product identifiers are stored as integers.\<close>

fun float_of_value :: "requested_value \<Rightarrow> exc + rat" where
  "float_of_value (DecimalValue q) = Inr (fl64 q)"
| "float_of_value (ProductValue p) = Inr (fl64 (of_int p))"
| "float_of_value TrueValue = Inl ValueError"

fun int_of_value :: "requested_value \<Rightarrow> exc + int" where
  "int_of_value (ProductValue p) = Inr p"
| "int_of_value v = Inl ValueError"

definition qty_update :: "odoo_id \<Rightarrow> rat \<Rightarrow> line_change" where
  "qty_update line q = \<lparr>lc_line_id = Some line, lc_id = None, lc_discount = None, lc_discount_pct = None,
     lc_qty = Some q, lc_product_uom_qty = None\<rparr>"

definition discount_update :: "rat \<Rightarrow> odoo_id \<Rightarrow> line_change" where
  "discount_update x line = \<lparr>lc_line_id = Some line, lc_id = None, lc_discount = Some x, lc_discount_pct = None,
     lc_qty = None, lc_product_uom_qty = None\<rparr>"

definition write_lines :: "'g gateway \<Rightarrow> odoo_id \<Rightarrow> line_change list \<Rightarrow> ('g world, unit) effect" where
  "write_lines gw oid cs = bind_eff (odoo_call (gw_apply_line_changes gw oid cs)) (\<lambda>_. answer ())"

text \<open>A discount without a line goes to every line of the order as Odoo has it by then.\<close>

definition discount_whole_order :: "'g gateway \<Rightarrow> odoo_id \<Rightarrow> requested_value \<Rightarrow> ('g world, unit) effect" where
  "discount_whole_order gw oid v =
     bind_eff (odoo_read (gw_get_sale_order gw oid)) (\<lambda>ord.
       if ro_lines ord = [] then answer ()
       else bind_eff (ask (\<lambda>_. float_of_value v)) (\<lambda>x.
         write_lines gw oid (map (\<lambda>l. discount_update x (rol_id l)) (ro_lines ord))))"

definition apply_change :: "'g gateway \<Rightarrow> odoo_id \<Rightarrow> negotiation_change \<Rightarrow> ('g world, unit) effect" where
  "apply_change gw oid c =
     (let line = id_or (nc_odoo_sale_order_line_id c) None in
      case (nc_field_name c, line, nc_requested_value c) of
        (field, Some l, Some v) \<Rightarrow>
          if field = ''product_uom_qty''
          then bind_eff (ask (\<lambda>_. float_of_value v)) (\<lambda>q. write_lines gw oid [qty_update l q])
          else if field = ''remove_line'' then write_lines gw oid [qty_update l 0]
          else if field = ''add_product''
          then bind_eff (ask (\<lambda>_. int_of_value v)) (\<lambda>p.
                 bind_eff (odoo_call (gw_add_line gw oid p 1 0)) (\<lambda>_. answer ()))
          else if field = ''counter_value'' \<or> field = ''discount''
          then bind_eff (ask (\<lambda>_. float_of_value v)) (\<lambda>x. write_lines gw oid [discount_update x l])
          else answer ()
      | (field, Some l, None) \<Rightarrow>
          if field = ''remove_line'' then write_lines gw oid [qty_update l 0] else answer ()
      | (field, None, Some v) \<Rightarrow>
          if field = ''add_product''
          then bind_eff (ask (\<lambda>_. int_of_value v)) (\<lambda>p.
                 bind_eff (odoo_call (gw_add_line gw oid p 1 0)) (\<lambda>_. answer ()))
          else if field = ''counter_value'' \<or> field = ''discount'' then discount_whole_order gw oid v
          else answer ()
      | (field, None, None) \<Rightarrow> answer ())"

definition changes_of :: "uuid \<Rightarrow> database \<Rightarrow> negotiation_change list" where
  "changes_of rid db = filter (\<lambda>c. nc_negotiation_request_id c = rid) (db_changes db)"

definition answered ::
    "dealflow_user \<Rightarrow> string option \<Rightarrow> instant \<Rightarrow> negotiation_request \<Rightarrow> negotiation_request" where
  "answered actor msg now r = r\<lparr>nr_processed_at := Some now,
     nr_processed_by_odoo_user_id := Some (u_odoo_user_id actor), nr_response_message := msg\<rparr>"

definition set_deal_status :: "uuid \<Rightarrow> DealStatus \<Rightarrow> database \<Rightarrow> database" where
  "set_deal_status i st = update_deal i (\<lambda>d. d\<lparr>d_status := st\<rparr>)"

definition set_request_status :: "uuid \<Rightarrow> NegotiationRequestStatus \<Rightarrow> database \<Rightarrow> database" where
  "set_request_status rid st = update_negotiation rid (\<lambda>r. r\<lparr>nr_status := st\<rparr>)"

text \<open>
  The accepted branch. The synchronisation commits, so from there on the request counts as accepted
  even when the evaluation that follows fails.
\<close>

definition accept_changes ::
    "'g gateway \<Rightarrow> negotiation_request \<Rightarrow> deal \<Rightarrow> dealflow_user \<Rightarrow> ('g world, unit) effect" where
  "accept_changes gw r d actor =
     bind_eff (act (on_db (set_request_status (nr_id r) NegotiationRequestStatus.ACCEPTED))) (\<lambda>_.
     bind_eff (ask (\<lambda>w. Inr (changes_of (nr_id r) (w_db w)))) (\<lambda>changes.
     bind_eff (for_each (apply_change gw (d_odoo_sale_order_id d)) changes) (\<lambda>_.
     bind_eff (sync_deal_from_odoo gw (d_odoo_sale_order_id d) None (Some (u_odoo_user_id actor))
       (Some (u_role actor))) (\<lambda>_.
     bind_eff (evaluate_deal gw (Some (d_id d)) None (Inl TriggerType.NEGOTIATION_ACCEPTED)
       (Some (u_odoo_user_id actor)) (Some (u_role actor))) (\<lambda>resp.
     act (on_db (\<lambda>db. set_deal_status (d_id d) SENT
       (update_negotiation (nr_id r)
         (\<lambda>r. r\<lparr>nr_applied_assessment_id := Some (ra_id (er_risk_assessment resp))\<rparr>) db))))))))"

definition respond_action ::
    "'g gateway \<Rightarrow> negotiation_request \<Rightarrow> deal \<Rightarrow> dealflow_user \<Rightarrow> string option \<Rightarrow> dec option \<Rightarrow>
     ('g world, unit) effect" where
  "respond_action gw r d actor action counter =
     (if action = Some ''ACCEPT'' then accept_changes gw r d actor
      else if action = Some ''REJECT''
      then act (on_db (\<lambda>db. set_deal_status (d_id d) SENT
             (set_request_status (nr_id r) NegotiationRequestStatus.REJECTED db)))
      else if action = Some ''COUNTER''
      then act (on_db (\<lambda>db. set_deal_status (d_id d) UNDER_NEGOTIATION
             (update_negotiation (nr_id r) (\<lambda>r. r\<lparr>nr_status := COUNTERED, nr_counter_value := counter\<rparr>) db)))
      else answer ())"

definition record_response :: "uuid \<Rightarrow> uuid \<Rightarrow> dealflow_user \<Rightarrow> instant \<Rightarrow> database \<Rightarrow> database" where
  "record_response rid i actor now db =
     record_audit_event NEGOTIATION_RESPONDED ''negotiation_request'' (Some (int rid)) (Some i) ''USER''
       (Some (u_odoo_user_id actor)) (Some (u_role actor)) now (touch_deal now i db)"

definition respond_negotiation_request ::
    "'g gateway \<Rightarrow> uuid \<Rightarrow> dealflow_user \<Rightarrow> string option \<Rightarrow> string option \<Rightarrow> dec option \<Rightarrow>
     ('g world, uuid) effect" where
  "respond_negotiation_request gw rid actor action msg counter =
     bind_eff (ask (\<lambda>w. option_or_raise (find_negotiation rid (w_db w))
       (EntityNotFoundError ''NegotiationRequest'' (int rid)))) (\<lambda>r.
     bind_eff (guard_eff (nr_status r = NegotiationRequestStatus.OPEN) (BusinessRuleError ''NEGOTIATION_NOT_OPEN'')) (\<lambda>_.
     bind_eff (ask (\<lambda>w. option_or_raise (find_deal (nr_deal_id r) (w_db w))
       (EntityNotFoundError ''Deal'' (int (nr_deal_id r))))) (\<lambda>d.
     bind_eff (act (\<lambda>w. on_db (update_negotiation rid (answered actor msg (w_now w))) w)) (\<lambda>_.
     bind_eff (respond_action gw r d actor action counter) (\<lambda>_.
     bind_eff (act (\<lambda>w. commit (on_db (record_response rid (d_id d) actor (w_now w)) w))) (\<lambda>_.
     answer rid))))))"

text \<open>What the two routes hand to the service: one normalises the words of the payload, the other does not.\<close>

record negotiation_respond =
  nre_action :: "string option"
  nre_decision :: "string option"
  nre_response_message :: "string option"
  nre_message :: "string option"
  nre_counter_value :: "dec option"

definition py_strip :: "string \<Rightarrow> string" where
  "py_strip s = rev (dropWhile is_py_space (rev (dropWhile is_py_space s)))"

definition get_action :: "negotiation_respond \<Rightarrow> string" where
  "get_action p =
     (let action = map char_upper (py_strip (str_or (nre_action p) (str_or (nre_decision p) ''ACCEPT''))) in
      if action = ''ACCEPT'' \<or> action = ''ACCEPTED'' then ''ACCEPT''
      else if action = ''REJECT'' \<or> action = ''REJECTED'' then ''REJECT'' else action)"

definition get_message :: "negotiation_respond \<Rightarrow> string option" where
  "get_message p = (if nre_response_message p = None \<or> nre_response_message p = Some []
     then nre_message p else nre_response_message p)"

definition respond_deal_negotiation ::
    "'g gateway \<Rightarrow> uuid \<Rightarrow> dealflow_user \<Rightarrow> negotiation_respond \<Rightarrow> ('g world, uuid) effect" where
  "respond_deal_negotiation gw rid actor p =
     respond_negotiation_request gw rid actor (Some (get_action p)) (get_message p) (nre_counter_value p)"

definition respond_to_negotiation ::
    "'g gateway \<Rightarrow> uuid \<Rightarrow> dealflow_user \<Rightarrow> negotiation_respond \<Rightarrow> ('g world, uuid) effect" where
  "respond_to_negotiation gw rid actor p =
     respond_negotiation_request gw rid actor (nre_action p) (nre_response_message p) (nre_counter_value p)"

section \<open>Requests and comments of a deal\<close>

definition list_negotiation_requests :: "uuid \<Rightarrow> database \<Rightarrow> negotiation_request list" where
  "list_negotiation_requests i db =
     newest_first nr_created_at (filter (\<lambda>r. nr_deal_id r = i) (db_negotiations db))"

definition new_comment ::
    "uuid \<Rightarrow> uuid \<Rightarrow> odoo_id \<Rightarrow> Role \<Rightarrow> string \<Rightarrow> bool \<Rightarrow> odoo_id option \<Rightarrow> instant \<Rightarrow> portal_comment" where
  "new_comment cid i author role body internal line now = \<lparr>pc_id = cid, pc_deal_id = i,
     pc_odoo_sale_order_line_id = line, pc_author_odoo_user_id = author, pc_author_role = role,
     pc_body = body, pc_is_internal = (if role = CUSTOMER then False else internal), pc_created_at = now\<rparr>"

definition store_comment ::
    "uuid \<Rightarrow> odoo_id \<Rightarrow> Role \<Rightarrow> string \<Rightarrow> bool \<Rightarrow> odoo_id option \<Rightarrow> instant \<Rightarrow> database \<Rightarrow> uuid \<times> database" where
  "store_comment i author role body internal line now db =
     (let cid = db_next_id db in
      (cid, touch_deal now i (db\<lparr>db_comments := db_comments db @
          [new_comment cid i author role body internal line now], db_next_id := cid + 1\<rparr>)))"

definition add_portal_comment ::
    "uuid \<Rightarrow> odoo_id \<Rightarrow> Role \<Rightarrow> string \<Rightarrow> bool \<Rightarrow> odoo_id option \<Rightarrow> ('g world, uuid) effect" where
  "add_portal_comment i author role body internal line =
     bind_eff (ask (\<lambda>w. option_or_raise (find_deal i (w_db w)) (EntityNotFoundError ''Deal'' (int i)))) (\<lambda>d.
     bind_eff (draw (store_comment (d_id d) author role body internal line)) (\<lambda>cid.
     bind_eff (act commit) (\<lambda>_. answer cid)))"

definition list_portal_comments :: "uuid \<Rightarrow> bool \<Rightarrow> database \<Rightarrow> portal_comment list" where
  "list_portal_comments i include_internal db =
     sort_key pc_created_at (filter (\<lambda>c. pc_deal_id c = i \<and> (include_internal \<or> \<not> pc_is_internal c)) (db_comments db))"

end
