(* ===== verification/Portal.thy ===== *)
theory Portal
  imports Negotiation
begin

text \<open>
  The customer's side, \<^verbatim>\<open>app/services/portal_service.py\<close>: the view of a deal, the list of deals, and the
  confirmation of a quotation. The properties are in \<open>Portal_View\<close>.
\<close>

section \<open>The view of a deal\<close>

text \<open>The keys of \<^verbatim>\<open>schemas/portal.py\<close> that no payload may have, and those of the payloads.\<close>

definition FORBIDDEN_PORTAL_KEYS :: "string list" where
  "FORBIDDEN_PORTAL_KEYS = [''cost_price'', ''cost'', ''margin_pct'', ''margin_pct_cache'', ''margin_amount'',
     ''current_risk_score'', ''risk_score'', ''current_severity'', ''current_assessment_id'',
     ''approved_assessment_id'', ''required_level'', ''risk_factors'', ''is_internal'',
     ''decided_by_odoo_user_id'', ''decision_reason'', ''algorithm_notes'', ''shipping_cost_weight'',
     ''warehouse_profile'', ''tier_ceiling'']"

definition portal_deal_keys :: "string list" where
  "portal_deal_keys = [''reference'', ''odoo_sale_order_id'', ''odoo_order_name'', ''partner_name'',
     ''currency_code'', ''status'', ''order_discount_pct'', ''amount_untaxed'', ''amount_total'',
     ''customer_confirmed_pending'', ''sent_at'', ''confirmed_at'', ''promised_delivery_date'', ''lines'',
     ''comments'', ''negotiations'']"

record portal_line_read =
  plr_odoo_sale_order_line_id :: odoo_id
  plr_odoo_product_id :: odoo_id
  plr_product_name :: string
  plr_product_uom_qty :: dec
  plr_price_unit :: dec
  plr_discount_pct :: dec
  plr_price_subtotal :: dec

record portal_comment_public_read =
  pcp_id :: uuid
  pcp_odoo_sale_order_line_id :: "odoo_id option"
  pcp_author_role :: Role
  pcp_body :: string
  pcp_created_at :: instant

record portal_negotiation_read =
  pnr_id :: uuid
  pnr_type :: string
  pnr_status :: NegotiationRequestStatus
  pnr_message :: "string option"
  pnr_response_message :: "string option"
  pnr_counter_value :: "dec option"
  pnr_created_at :: instant
  pnr_processed_at :: "instant option"

datatype portal_status = UNDER_REVIEW | PortalStatus DealStatus

record portal_deal_read =
  pdr_reference :: string
  pdr_odoo_sale_order_id :: odoo_id
  pdr_odoo_order_name :: string
  pdr_partner_name :: "string option"
  pdr_currency_code :: string
  pdr_status :: portal_status
  pdr_order_discount_pct :: dec
  pdr_amount_untaxed :: dec
  pdr_amount_total :: dec
  pdr_customer_confirmed_pending :: bool
  pdr_sent_at :: "instant option"
  pdr_confirmed_at :: "instant option"
  pdr_promised_delivery_date :: "instant option"
  pdr_lines :: "portal_line_read list"
  pdr_comments :: "portal_comment_public_read list"
  pdr_negotiations :: "portal_negotiation_read list"

text \<open>The built-in \<^verbatim>\<open>round\<close> rounds ties to even, unlike the context builder's \<^verbatim>\<open>quantize\<close>.\<close>

definition portal_subtotal :: "dec \<Rightarrow> dec \<Rightarrow> dec \<Rightarrow> dec" where
  "portal_subtotal price qty disc = pyround (dmul (dmul price qty) (dsub 1 (ddiv disc 100))) 2"

definition portal_line :: "raw_order_line \<Rightarrow> portal_line_read" where
  "portal_line l =
     (let price = float_repr (rol_price_unit l); qty = float_repr (rol_qty l);
          disc = float_repr (rol_discount_pct l) in
      \<lparr>plr_odoo_sale_order_line_id = rol_id l, plr_odoo_product_id = rol_product_id l,
       plr_product_name = rol_product_name l, plr_product_uom_qty = qty, plr_price_unit = price,
       plr_discount_pct = disc, plr_price_subtotal = portal_subtotal price qty disc\<rparr>)"

definition public_comment :: "portal_comment \<Rightarrow> portal_comment_public_read" where
  "public_comment c = \<lparr>pcp_id = pc_id c, pcp_odoo_sale_order_line_id = pc_odoo_sale_order_line_id c,
     pcp_author_role = pc_author_role c, pcp_body = pc_body c, pcp_created_at = pc_created_at c\<rparr>"

definition public_negotiation :: "negotiation_request \<Rightarrow> portal_negotiation_read" where
  "public_negotiation n = \<lparr>pnr_id = nr_id n, pnr_type = nr_type n, pnr_status = nr_status n,
     pnr_message = nr_message n, pnr_response_message = nr_response_message n,
     pnr_counter_value = nr_counter_value n, pnr_created_at = nr_created_at n,
     pnr_processed_at = nr_processed_at n\<rparr>"

definition shown_status :: "deal \<Rightarrow> portal_status" where
  "shown_status d = (if d_customer_confirmed_pending d \<and> d_status d \<notin> {CONFIRMED, INVOICED, PAID}
     then UNDER_REVIEW else PortalStatus (d_status d))"

definition portal_deal ::
    "deal \<Rightarrow> raw_order_line list \<Rightarrow> portal_comment list \<Rightarrow> negotiation_request list \<Rightarrow> portal_deal_read" where
  "portal_deal d ls comments negs = \<lparr>pdr_reference = d_reference d,
     pdr_odoo_sale_order_id = d_odoo_sale_order_id d, pdr_odoo_order_name = d_odoo_order_name d,
     pdr_partner_name = d_partner_name_cache d, pdr_currency_code = d_currency_code d,
     pdr_status = shown_status d, pdr_order_discount_pct = d_order_discount_pct d,
     pdr_amount_untaxed = d_amount_untaxed_cache d, pdr_amount_total = d_amount_total_cache d,
     pdr_customer_confirmed_pending = d_customer_confirmed_pending d, pdr_sent_at = d_sent_at d,
     pdr_confirmed_at = d_confirmed_at d, pdr_promised_delivery_date = d_promised_delivery_date d,
     pdr_lines = map portal_line ls, pdr_comments = map public_comment comments,
     pdr_negotiations = map public_negotiation negs\<rparr>"

definition get_deal_for_portal ::
    "'g gateway \<Rightarrow> uuid \<Rightarrow> odoo_id \<Rightarrow> ('g world, portal_deal_read) effect" where
  "get_deal_for_portal gw i partner =
     bind_eff (ask (\<lambda>w. customer_deal i partner (w_db w))) (\<lambda>d.
     bind_eff (odoo_read (gw_get_sale_order gw (d_odoo_sale_order_id d))) (\<lambda>ord.
     bind_eff (ask (\<lambda>w. Inr (portal_deal d (ro_lines ord) (list_portal_comments (d_id d) False (w_db w))
       (list_negotiation_requests (d_id d) (w_db w))))) (\<lambda>view.
     bind_eff (guard_eff (list_all (\<lambda>k. k \<notin> set portal_deal_keys) FORBIDDEN_PORTAL_KEYS) AssertionError) (\<lambda>_.
     answer view))))"

section \<open>Confirmation by the customer\<close>

text \<open>The flag \<^verbatim>\<open>accepted\<close> of the payload is never read.\<close>

record portal_confirm_request =
  pcr_accepted :: bool
  pcr_signature_name :: "string option"
  pcr_comment :: "string option"

definition customer_event ::
    "AuditEventType \<Rightarrow> uuid \<Rightarrow> string \<Rightarrow> odoo_id option \<Rightarrow> instant \<Rightarrow> database \<Rightarrow> database" where
  "customer_event ty i actor_type actor now =
     record_audit_event ty ''deal'' (Some (int i)) (Some i) actor_type actor None now"

definition record_confirmation :: "deal \<Rightarrow> odoo_id \<Rightarrow> instant \<Rightarrow> database \<Rightarrow> database" where
  "record_confirmation d partner now db =
     notify (d_owner_odoo_user_id d) ''ORDER_CONFIRMED'' (d_id d) None now
       (customer_event ORDER_CONFIRMED (d_id d) ''SYSTEM'' None now
         (customer_event CUSTOMER_CONFIRMED (d_id d) ''CUSTOMER'' (Some partner) now
           (update_deal (d_id d) (\<lambda>d. d\<lparr>d_status := CONFIRMED, d_confirmed_at := Some now,
              d_customer_confirmed_pending := False, d_last_activity_at := now\<rparr>) db)))"

definition record_pending_confirmation :: "deal \<Rightarrow> odoo_id \<Rightarrow> instant \<Rightarrow> database \<Rightarrow> database" where
  "record_pending_confirmation d partner now db =
     notify (d_owner_odoo_user_id d) ''CUSTOMER_ACCEPTED_PENDING'' (d_id d) None now
       (customer_event CUSTOMER_CONFIRMED (d_id d) ''CUSTOMER'' (Some partner) now
         (update_deal (d_id d) (\<lambda>d. d\<lparr>d_customer_confirmed_pending := True, d_last_activity_at := now\<rparr>) db))"

text \<open>What Odoo raises on the confirmation is swallowed.\<close>

definition confirm_or_wait :: "'g gateway \<Rightarrow> deal \<Rightarrow> odoo_id \<Rightarrow> ('g world, unit) effect" where
  "confirm_or_wait gw d partner =
     (if d_approval_state d = ApprovalState.APPROVED
      then bind_eff (act (\<lambda>w. snd (attempt (gw_confirm gw (d_odoo_sale_order_id d)) w))) (\<lambda>_.
           act (\<lambda>w. on_db (record_confirmation d partner (w_now w)) w))
      else act (\<lambda>w. on_db (record_pending_confirmation d partner (w_now w)) w))"

definition confirmation_note :: "uuid \<Rightarrow> portal_confirm_request \<Rightarrow> ('g world, unit) effect" where
  "confirmation_note i p =
     (if str_or (pcr_comment p) [] = [] then answer ()
      else bind_eff (add_portal_comment i 0 CUSTOMER (''Customer Confirmation Note: '' @ the (pcr_comment p)) False None)
             (\<lambda>_. answer ()))"

definition confirm_deal_by_customer ::
    "'g gateway \<Rightarrow> uuid \<Rightarrow> odoo_id \<Rightarrow> portal_confirm_request \<Rightarrow> ('g world, portal_deal_read) effect" where
  "confirm_deal_by_customer gw i partner p =
     bind_eff (ask (\<lambda>w. customer_deal i partner (w_db w))) (\<lambda>d.
       if d_status d \<in> {CONFIRMED, INVOICED, PAID} then get_deal_for_portal gw i partner
       else bind_eff (confirm_or_wait gw d partner) (\<lambda>_.
            bind_eff (confirmation_note (d_id d) p) (\<lambda>_.
            bind_eff (act commit) (\<lambda>_. get_deal_for_portal gw i partner))))"

section \<open>The list of deals\<close>

record portal_deal_summary =
  pds_id :: uuid
  pds_reference :: string
  pds_status :: DealStatus
  pds_approval_state :: ApprovalState
  pds_amount_total :: rat
  pds_currency_code :: string
  pds_created_at :: instant

definition deal_summary :: "deal \<Rightarrow> portal_deal_summary" where
  "deal_summary d = \<lparr>pds_id = d_id d, pds_reference = d_reference d, pds_status = d_status d,
     pds_approval_state = d_approval_state d, pds_amount_total = fl64 (d_amount_total_cache d),
     pds_currency_code = str_or (Some (d_currency_code d)) ''INR'', pds_created_at = d_created_at d\<rparr>"

definition list_deals_for_portal :: "odoo_id \<Rightarrow> database \<Rightarrow> portal_deal_summary list" where
  "list_deals_for_portal partner db =
     map deal_summary (newest_first d_created_at (filter (\<lambda>d. d_odoo_partner_id d = partner) (db_deals db)))"

end
