(* ===== verification/Soundness.thy ===== *)
theory Soundness
  imports Portal
begin

text \<open>
  What every request keeps. \<open>sound_world\<close> collects the invariants of the components: approvals agree
  with the states of their deals, deals and alerts are unique, the tables of plans are well-formed and
  plans only move along their life cycle, all of it both in the session and in what was last
  committed, and the state behind the gateway is valid. Most steps of a service leave the tables the
  invariants speak of alone (\<open>steady\<close>); the rules here give one \<open>preserves\<close> lemma per service.
\<close>

section \<open>Steady steps\<close>

text \<open>What the invariants see of a deal.\<close>

definition deal_view :: "deal \<Rightarrow> (uuid \<times> ApprovalState \<times> bool) \<times> odoo_id \<times> string" where
  "deal_view d = (governance_view d, d_odoo_sale_order_id d, d_reference d)"

definition steady :: "database \<Rightarrow> database \<Rightarrow> bool" where
  "steady db db' = (db_requests db' = db_requests db \<and> db_sequences db' = db_sequences db
     \<and> db_plans db' = db_plans db \<and> db_plan_lines db' = db_plan_lines db \<and> db_profiles db' = db_profiles db
     \<and> db_alerts db' = db_alerts db \<and> map deal_view (db_deals db') = map deal_view (db_deals db)
     \<and> db_next_id db \<le> db_next_id db')"

lemma steady_refl [intro!, simp]: "steady db db"
  by (simp add: steady_def)

lemma steady_trans [trans]: "steady a b \<Longrightarrow> steady b c \<Longrightarrow> steady a c"
  by (simp add: steady_def)

lemma view_update_row:
  "(\<And>d. deal_view (f d) = deal_view d) \<Longrightarrow> map deal_view (update_row d_id i f ds) = map deal_view ds"
  by (simp add: update_row_def)

lemma steady_update_deal: "(\<And>d. deal_view (f d) = deal_view d) \<Longrightarrow> steady db (update_deal i f db)"
  by (simp add: steady_def) (simp add: update_deal_def view_update_row)

lemma deal_view_core: "deal_view (deal_core d) = deal_view d"
  by (simp add: deal_view_def deal_core_def governance_view_def)

lemma calm_steady: "calm db db' \<Longrightarrow> db_alerts db' = db_alerts db \<Longrightarrow> steady db db'"
  by (auto simp: calm_def steady_def deal_view_core intro: calm_views)

lemma steady_audit: "steady db (record_audit_event t et ei di ty ai ar now db)"
  by (rule calm_steady[OF calm_audit]) simp

lemma steady_notify: "steady db (notify r t i k now db)"
  by (rule calm_steady[OF calm_notify]) simp

lemma steady_touch: "steady db (touch_deal now i db)"
  unfolding touch_deal_def by (rule steady_update_deal) (simp add: deal_view_def governance_view_def)

text \<open>The form in which the services nest their steps: a steady function after a steady start.\<close>

lemma steady_after:
  assumes "steady db db1"
  shows "steady db (record_audit_event t et ei di ty ai ar now db1)" "steady db (notify r t' i k now db1)"
    "steady db (touch_deal now i db1)"
    "(\<And>d. deal_view (f d) = deal_view d) \<Longrightarrow> steady db (update_deal i f db1)"
    "steady db (update_negotiation j g db1)"
  by (auto intro: steady_trans[OF assms] steady_audit steady_notify steady_touch steady_update_deal)
     (rule steady_trans[OF assms], simp add: steady_def update_negotiation_def)

lemma deal_view_updates [simp]:
  "deal_view (d\<lparr>d_status := st\<rparr>) = deal_view d"
  "deal_view (d\<lparr>d_last_activity_at := t\<rparr>) = deal_view d"
  "deal_view (d\<lparr>d_customer_confirmed_pending := b\<rparr>) = deal_view d"
  "deal_view (d\<lparr>d_confirmed_at := t'\<rparr>) = deal_view d"
  "deal_view (d\<lparr>d_sent_at := t'\<rparr>) = deal_view d"
  "deal_view (d\<lparr>d_last_synced_at := t\<rparr>) = deal_view d"
  "deal_view (d\<lparr>d_promised_delivery_date := t'\<rparr>) = deal_view d"
  "deal_view (d\<lparr>d_tier_code := c\<rparr>) = deal_view d"
  by (simp_all add: deal_view_def governance_view_def)

definition sound :: "database \<Rightarrow> bool" where
  "sound db = (governance_ok db \<and> deals_ok db \<and> alerts_ok db)"

lemma steady_sound: 
  assumes "steady db db'" and "sound db"
  shows "sound db'"
proof -
  have v: "map deal_view (db_deals db') = map deal_view (db_deals db)" using assms(1) by (simp add: steady_def)
  have "map fst (map deal_view (db_deals db')) = map fst (map deal_view (db_deals db))"
    "map snd (map deal_view (db_deals db')) = map snd (map deal_view (db_deals db))" by (simp_all only: v)
  then have g: "map governance_view (db_deals db') = map governance_view (db_deals db)"
    and r: "map (\<lambda>d. (d_odoo_sale_order_id d, d_reference d)) (db_deals db') =
      map (\<lambda>d. (d_odoo_sale_order_id d, d_reference d)) (db_deals db)"
    by (simp_all add: deal_view_def comp_def)
  show ?thesis using assms g r unfolding sound_def steady_def
    by (blast intro: governance_ok_cong deals_ok_cong alerts_ok_cong)
qed

lemma steady_sound_cong:
  assumes "sound db" and "db_requests db' = db_requests db" and "db_sequences db' = db_sequences db"
    and "db_alerts db' = db_alerts db" and "db_deals db' = db_deals db" and "db_next_id db' = db_next_id db"
  shows "sound db'"
  using assms unfolding sound_def
  by (auto intro: governance_ok_cong[of db] deals_ok_cong[of db] alerts_ok_cong[of db])

lemma steady_fulfillment: "steady db db' \<Longrightarrow> fulfillment_ok db \<Longrightarrow> fulfillment_ok db'"
  by (erule fulfillment_ok_cong) (simp_all add: steady_def)

section \<open>Approved deals\<close>

definition approved :: "database \<Rightarrow> uuid set" where
  "approved db = {i. (i, ApprovalState.APPROVED) \<in> set (map (\<lambda>d. (d_id d, d_approval_state d)) (db_deals db))}"

lemma approved_view:
  assumes "map governance_view ds' = map governance_view ds"
  shows "map (\<lambda>d. (d_id d, d_approval_state d)) ds' = map (\<lambda>d. (d_id d, d_approval_state d)) ds"
proof -
  have "map (\<lambda>v. (fst v, fst (snd v))) (map governance_view ds') = map (\<lambda>v. (fst v, fst (snd v))) (map governance_view ds)"
    by (simp only: assms)
  then show ?thesis by (simp add: governance_view_def comp_def)
qed

lemma approved_cong: "map governance_view (db_deals db') = map governance_view (db_deals db) \<Longrightarrow> approved db' = approved db"
  unfolding approved_def by (drule approved_view) (erule ssubst, rule refl)

lemma deal_view_governance:
  "map deal_view ds' = map deal_view ds \<Longrightarrow> map governance_view ds' = map governance_view ds"
proof -
  assume v: "map deal_view ds' = map deal_view ds"
  have "map fst (map deal_view ds') = map fst (map deal_view ds)" by (simp only: v)
  then show ?thesis by (simp add: deal_view_def comp_def)
qed

lemma steady_approved: "steady db db' \<Longrightarrow> approved db' = approved db"
  by (rule approved_cong, rule deal_view_governance) (simp add: steady_def)

lemma calm_approved: "calm db db' \<Longrightarrow> approved db' = approved db"
  by (rule approved_cong) (auto simp: calm_def governance_view_core intro: calm_views)

lemma approved_set_state: "s \<noteq> ApprovalState.APPROVED \<Longrightarrow> approved (set_approval_state i s db) \<subseteq> approved db"
  by (auto simp: approved_def set_approval_state_def update_deal_def set_update_row)

lemma approved_routing: "approved (snd (apply_approval_routing now d a l cov db)) \<subseteq> approved db"
proof -
  have inv: "approved (invalidate_pending now i db) = approved db" for i
    by (rule approved_cong) simp
  have add: "approved (add_request i b lv sq now db') = approved db'" for i b lv sq db'
    by (simp add: approved_def)
  have aud: "approved (record_audit_event t et ei di ty ai ar now db') = approved db'" for t et ei di ty ai ar db'
    by (rule approved_cong) simp
  have st: "approved (set_approval_state (d_id d) s db') \<subseteq> approved db'" if "s \<noteq> ApprovalState.APPROVED" for s db'
    by (rule approved_set_state[OF that])
  show ?thesis
    using st[of EVALUATED_NO_APPROVAL "invalidate_pending now (d_id d) db"]
      st[of PENDING_MANAGER "add_request (d_id d) a ''SALES_MANAGER'' 1 now (invalidate_pending now (d_id d) db)"]
    unfolding apply_approval_routing_def Let_def by (simp add: aud inv add)
qed

section \<open>Sound worlds\<close>

text \<open>
  A world is sound relative to an anchor: a database its plans have evolved from, and a set that bounds
  the deals approved.
\<close>

type_synonym anchor = "database \<times> uuid set"

definition sound_world :: "('g \<Rightarrow> bool) \<Rightarrow> anchor \<Rightarrow> 'g world \<Rightarrow> bool" where
  "sound_world valid a w = (sound (w_db w) \<and> sound (w_saved w) \<and> plan_trace (fst a) w
     \<and> approved (w_db w) \<union> approved (w_saved w) \<subseteq> snd a \<and> valid (w_odoo w))"

lemma sound_world_on_db:
  assumes "sound_world valid db0 w" and "steady (w_db w) db"
  shows "sound_world valid db0 (on_db (\<lambda>_. db) w)"
proof -
  have "plan_trace (fst db0) (on_db (\<lambda>_. db) w)"
    using assms steady_fulfillment[OF assms(2)]
    by (intro plan_trace_on_db plans_evolve_same) (auto simp: sound_world_def plan_trace_def steady_def)
  then show ?thesis using assms steady_sound[OF assms(2)] steady_approved[OF assms(2)] by (simp add: sound_world_def)
qed

lemma sound_world_steady:
  assumes "sound_world valid db0 w" and "steady (w_db w) (f (w_db w))"
  shows "sound_world valid db0 (on_db f w)"
  using sound_world_on_db[OF assms] unfolding on_db_def .

lemma sound_world_commit: "sound_world valid db0 w \<Longrightarrow> sound_world valid db0 (commit w)"
  by (simp add: sound_world_def plan_trace_commit)

lemma sound_world_rollback: "sound_world valid db0 w \<Longrightarrow> sound_world valid db0 (rollback w)"
  by (simp add: sound_world_def plan_trace_rollback)

lemma sound_world_odoo: "sound_world valid db0 w \<Longrightarrow> valid g \<Longrightarrow> sound_world valid db0 (w\<lparr>w_odoo := g\<rparr>)"
  by (simp add: sound_world_def plan_trace_def)

lemma preserves_steady:
  assumes "\<And>now db. steady db (f now db)"
  shows "preserves (sound_world valid db0) (act (\<lambda>w. on_db (f (w_now w)) w))"
  by (rule preserves_act) (rule sound_world_steady, assumption, rule assms)

lemma preserves_steady_commit:
  assumes "\<And>now db. steady db (f now db)"
  shows "preserves (sound_world valid db0) (act (\<lambda>w. commit (on_db (f (w_now w)) w)))"
  by (rule preserves_act) (rule sound_world_commit, rule sound_world_steady, assumption, rule assms)

lemma preserves_steady_db:
  assumes "\<And>db. steady db (f db)"
  shows "preserves (sound_world valid db0) (act (on_db f))"
  by (rule preserves_act) (rule sound_world_steady, assumption, rule assms)

lemma preserves_commit: "preserves (sound_world valid db0) (act commit)"
  by (rule preserves_act) (rule sound_world_commit)

lemma preserves_steady_draw:
  assumes "\<And>now db. steady db (snd (f now db))"
  shows "preserves (sound_world valid db0) (draw f)"
  by (rule preserves_draw) (rule sound_world_on_db, assumption, rule assms)

lemma preserves_valid_call:
  assumes "\<And>g. valid g \<Longrightarrow> valid (snd (c g))"
  shows "preserves (sound_world valid db0) (odoo_call c)"
  by (rule preserves_call) (rule sound_world_odoo, assumption, rule assms, simp add: sound_world_def)

lemma preserves_get_db: "preserves (sound_world valid db0) m \<Longrightarrow> preserves (sound_world valid db0) (get_db m)"
  by (auto simp: preserves_def get_db_def sound_world_commit sound_world_rollback split: prod.splits sum.splits)

lemma preserves_if: "(b \<Longrightarrow> preserves P m) \<Longrightarrow> (\<not> b \<Longrightarrow> preserves P n) \<Longrightarrow> preserves P (if b then m else n)"
  by simp

lemmas sound_intros = preserves_intros preserves_steady preserves_steady_commit preserves_steady_db preserves_commit
  preserves_steady_draw preserves_valid_call preserves_if

section \<open>The gateway's writes\<close>

text \<open>The calls that change orders keep the gateway's state valid.\<close>

locale odoo_writes = odoo_gateway +
  assumes line_changes_valid: "valid g \<Longrightarrow> valid (snd (gw_apply_line_changes gw i cs g))"
    and add_line_valid: "valid g \<Longrightarrow> valid (snd (gw_add_line gw i p q x g))"
    and create_valid: "valid g \<Longrightarrow> valid (snd (gw_create_order gw partner user team cur ls g))"
    and fulfillment_valid: "valid g \<Longrightarrow> valid (snd (gw_apply_fulfillment_plan gw i as g))"
    and payment_valid: "valid g \<Longrightarrow> valid (snd (gw_register_payment gw i amount memo g))"
begin

end

interpretation fake_writes: odoo_writes fake_gateway fake_ok
  by unfold_locales
     (simp_all add: fake_gateway_def fake_ok_apply_line_changes fake_ok_add_line fake_ok_create_order
        fake_ok_apply_fulfillment_plan fake_ok_register_payment)

section \<open>Synchronisation and evaluation\<close>

lemma insert_deal_frame [simp]:
  "db_plans (snd (insert_deal ctx now db)) = db_plans db"
  "db_plan_lines (snd (insert_deal ctx now db)) = db_plan_lines db"
  "db_profiles (snd (insert_deal ctx now db)) = db_profiles db"
  "db_alerts (snd (insert_deal ctx now db)) = db_alerts db"
  "db_next_id db \<le> db_next_id (snd (insert_deal ctx now db))"
  by (simp_all add: insert_deal_def Let_def split_beta get_next_sequence_def ensure_sequence_def split: option.splits)

lemma sound_insert:
  assumes "sound db" and "find_deal_by_order (dc_odoo_sale_order_id ctx) db = None"
  shows "sound (snd (insert_deal ctx now db))"
proof -
  have "alerts_ok (snd (insert_deal ctx now db))"
    by (rule alerts_ok_cong[of db]) (use assms(1) in \<open>simp_all add: sound_def\<close>)
  then show ?thesis using assms by (simp add: sound_def governance_ok_insert deals_ok_insert)
qed

lemma fulfillment_ok_insert: "fulfillment_ok db \<Longrightarrow> fulfillment_ok (snd (insert_deal ctx now db))"
  by (erule fulfillment_ok_cong) simp_all

lemma approved_insert: "approved (snd (insert_deal ctx now db)) = approved db"
  by (auto simp: approved_def insert_deal_def Let_def split_beta new_deal_def get_next_sequence_def ensure_sequence_def
      split: option.splits)

lemma refreshed_view [simp]: "deal_view (refreshed ctx now d) = deal_view d"
  by (simp add: refreshed_def deal_view_def governance_view_def)

lemma steady_deal_event: "steady db (deal_event ty i actor role now db)"
  by (simp add: deal_event_def steady_audit)

text \<open>The effect of a synchronisation: a row is inserted or refreshed and committed, then the event is written.\<close>

lemma sound_world_commit_event:
  assumes w: "sound_world valid db0 w" and db: "sound db" "fulfillment_ok db" "db_plans db = db_plans (w_db w)"
    "approved db = approved (w_db w)"
  shows "sound_world valid db0 (on_db (deal_event ty i actor role now) (commit (on_db (\<lambda>_. db) w)))"
proof -
  have "plan_trace (fst db0) (on_db (\<lambda>_. db) w)"
    using w db(2,3) by (intro plan_trace_on_db plans_evolve_same) (auto simp: sound_world_def)
  then have "sound_world valid db0 (commit (on_db (\<lambda>_. db) w))"
    using w db(1,4) by (intro sound_world_commit) (simp add: sound_world_def)
  then show ?thesis by (rule sound_world_steady) (simp add: steady_deal_event)
qed

lemma routed_plans:
  "db_plans (routed d ctx trig now db) = db_plans db \<and> db_plan_lines (routed d ctx trig now db) = db_plan_lines db \<and>
   db_profiles (routed d ctx trig now db) = db_profiles db \<and> db_next_id db \<le> db_next_id (routed d ctx trig now db)"
proof -
  obtain aid db1 st db2 where s:
    "store_assessment (d_id d) (evaluate_risk db ctx (d_id d)) trig (resolve_policies db ctx) ctx now db = (aid, db1)"
    "apply_approval_routing now d aid (rcr_required_level (evaluate_risk db ctx (d_id d)))
       (covered_by_approval d (evaluate_risk db ctx (d_id d)) db) db1 = (st, db2)"
    "assess_and_route d ctx trig now db =
       (aid, st, update_deal (d_id d) (evaluated_deal (evaluate_risk db ctx (d_id d)) aid now) db2)"
    by (rule assess_and_route_cases)
  have "calm db db1" using store_assessment_calm s(1) by (metis snd_conv)
  moreover have "db_plans db2 = db_plans db1" "db_plan_lines db2 = db_plan_lines db1" "db_profiles db2 = db_profiles db1"
    "db_next_id db1 \<le> db_next_id db2"
    using routing_rest(3-5,8) s(2) by (metis snd_conv)+
  ultimately show ?thesis
    by (simp add: routed_def s(3) calm_def) (simp add: update_deal_def)
qed

lemma approved_routed: "approved (routed d ctx trig now db) \<subseteq> approved db"
proof -
  obtain aid db1 st db2 where s:
    "store_assessment (d_id d) (evaluate_risk db ctx (d_id d)) trig (resolve_policies db ctx) ctx now db = (aid, db1)"
    "apply_approval_routing now d aid (rcr_required_level (evaluate_risk db ctx (d_id d)))
       (covered_by_approval d (evaluate_risk db ctx (d_id d)) db) db1 = (st, db2)"
    "assess_and_route d ctx trig now db =
       (aid, st, update_deal (d_id d) (evaluated_deal (evaluate_risk db ctx (d_id d)) aid now) db2)"
    by (rule assess_and_route_cases)
  have "approved db1 = approved db" using store_assessment_calm calm_approved s(1) by (metis snd_conv)
  moreover have "approved db2 \<subseteq> approved db1" using approved_routing s(2) by (metis snd_conv)
  moreover have "approved (routed d ctx trig now db) = approved db2"
    unfolding routed_def s(3) snd_conv
    by (rule approved_cong) (simp add: update_deal_def governance_view_update_row)
  ultimately show ?thesis by simp
qed

context odoo_gateway
begin

lemma preserves_sync: "preserves (sound_world valid db0) (sync_deal_from_odoo gw oid ev actor role)"
proof (rule preservesI)
  fix w assume w: "sound_world valid db0 w"
  then have s: "sound (w_db w)" "fulfillment_ok (w_db w)" "valid (w_odoo w)"
    by (simp_all add: sound_world_def plan_trace_def)
  show "sound_world valid db0 (snd (sync_deal_from_odoo gw oid ev actor role w))"
  proof (cases "build_deal_context (w_db w) gw (w_odoo w) (w_now w) oid
      (map_option d_id (find_deal_by_order oid (w_db w)))")
    case (Inr ctx)
    have o: "dc_odoo_sale_order_id ctx = oid"
      by (rule build_context_order[OF Inr]) (rule order_id[OF s(3)])
    show ?thesis
    proof (cases "find_deal_by_order oid (w_db w)")
      case None
      then have "sound (snd (insert_deal ctx (w_now w) (w_db w)))" using sound_insert[OF s(1)] o by simp
      from sound_world_commit_event[OF w this fulfillment_ok_insert[OF s(2)] _ approved_insert] None Inr show ?thesis
        by (simp add: sync_deal_from_odoo_def split_beta)
    next
      case (Some d)
      let ?db = "update_deal (d_id d) (refreshed ctx (w_now w)) (w_db w)"
      have st: "steady (w_db w) ?db" by (simp add: steady_update_deal)
      have db: "sound ?db" "fulfillment_ok ?db" "db_plans ?db = db_plans (w_db w)" "approved ?db = approved (w_db w)"
        using steady_sound[OF st s(1)] steady_fulfillment[OF st s(2)] steady_approved[OF st]
        by (simp_all add: update_deal_def)
      have "on_db (update_deal (d_id d) (refreshed ctx (w_now w))) w = on_db (\<lambda>_. ?db) w"
        by (simp add: on_db_def)
      with sound_world_commit_event[OF w db] Some Inr w show ?thesis
        by (simp add: sync_deal_from_odoo_def del: on_db_simps)
    qed
  qed (use w in \<open>simp add: sync_deal_from_odoo_def\<close>)
qed

lemma sound_evaluate_loaded:
  assumes w: "sound_world valid db0 w" and d: "find_deal i (w_db w) = Some d"
  shows "sound_world valid db0 (snd (evaluate_loaded gw d ctx trig actor role w))"
proof -
  let ?db = "routed d ctx trig (w_now w) (w_db w)"
  obtain resp w' where run: "evaluate_loaded gw d ctx trig actor role w = (resp, w')" by force
  note db = evaluate_loaded_db[OF run]
  have s: "governance_ok (w_db w)" "deals_ok (w_db w)" "alerts_ok (w_db w)" "valid (w_odoo w)"
    using w by (simp_all add: sound_world_def sound_def)
  have r: "governance_ok ?db" "deals_ok ?db" "alerts_ok ?db"
    using s d by (auto intro: governance_ok_assess deals_ok_assess alerts_ok_assess dest: find_deal_in)
  have snd': "sound (w_db w')"
    using calm_governance_ok[OF db(1) r(1)] calm_deals_ok[OF db(1) r(2)] db(2)[OF r(3)] by (simp add: sound_def)
  have f: "fulfillment_ok (w_db w')" "db_plans (w_db w') = db_plans (w_db w)"
    using w routed_plans[of d ctx trig "w_now w" "w_db w"] calmD[OF db(1)]
    by (auto simp: sound_world_def plan_trace_def intro: fulfillment_ok_cong[of "w_db w"])
  have "plan_trace (fst db0) (commit (on_db (\<lambda>_. w_db w') w))"
    using w f by (intro plan_trace_commit plan_trace_on_db plans_evolve_same) (auto simp: sound_world_def)
  then have "plan_trace (fst db0) w'" by (simp add: plan_trace_def db(3))
  moreover have "approved (w_db w') \<subseteq> snd db0"
    using w approved_routed[of d ctx trig "w_now w" "w_db w"] calm_approved[OF db(1)] by (auto simp: sound_world_def)
  moreover have "valid (w_odoo w')" unfolding db(4) by (rule governance_valid[OF s(4)])
  ultimately show ?thesis using snd' by (simp add: run sound_world_def db(3))
qed

lemma preserves_evaluate: "preserves (sound_world valid db0) (evaluate_deal gw did oid trig actor role)"
proof (rule preservesI)
  fix w assume w: "sound_world valid db0 w"
  show "sound_world valid db0 (snd (evaluate_deal gw did oid trig actor role w))"
  proof (rule evaluate_cases[where P = "sound_world valid db0"])
    show "sound_world valid db0 (snd (resolve_deal gw did oid actor role w))"
      by (rule resolve_keeps[where P = "sound_world valid db0"]) (simp_all add: preservesD[OF preserves_sync] w)
  qed (rule sound_evaluate_loaded)
qed

end

section \<open>Fulfillment\<close>

text \<open>The services of fulfillment write plans, which \<open>plan_trace\<close> is about, and nothing else the invariants see.\<close>

definition aside :: "database \<Rightarrow> database \<Rightarrow> bool" where
  "aside db db' = (db_requests db' = db_requests db \<and> db_sequences db' = db_sequences db
     \<and> db_alerts db' = db_alerts db \<and> map deal_view (db_deals db') = map deal_view (db_deals db)
     \<and> db_next_id db \<le> db_next_id db')"

lemma aside_sound: "aside db db' \<Longrightarrow> sound db \<Longrightarrow> sound db'"
proof -
  assume a: "aside db db'" and ok: "sound db"
  let ?db = "db'\<lparr>db_plans := db_plans db, db_plan_lines := db_plan_lines db, db_profiles := db_profiles db\<rparr>"
  have "sound ?db" by (rule steady_sound[OF _ ok]) (use a in \<open>simp add: aside_def steady_def\<close>)
  then show "sound db'" by (rule steady_sound_cong) simp_all
qed

lemma aside_approved: "aside db db' \<Longrightarrow> approved db' = approved db"
  by (rule approved_cong, rule deal_view_governance) (simp add: aside_def)

lemma aside_refl [intro!, simp]: "aside db db"
  by (simp add: aside_def)

lemma aside_trans [trans]: "aside a b \<Longrightarrow> aside b c \<Longrightarrow> aside a c"
  by (simp add: aside_def)

lemma steady_aside: "steady db db' \<Longrightarrow> aside db db'"
  by (simp add: steady_def aside_def)

definition rest_ok :: "('g \<Rightarrow> bool) \<Rightarrow> uuid set \<Rightarrow> 'g world \<Rightarrow> bool" where
  "rest_ok valid A w = (sound (w_db w) \<and> sound (w_saved w) \<and> approved (w_db w) \<union> approved (w_saved w) \<subseteq> A
     \<and> valid (w_odoo w))"

lemma preserves_sound_world:
  "preserves (rest_ok valid (snd a)) m \<Longrightarrow> preserves (plan_trace (fst a)) m \<Longrightarrow> preserves (sound_world valid a) m"
  by (auto simp: preserves_def rest_ok_def sound_world_def)

lemma rest_on_db: "rest_ok valid A w \<Longrightarrow> aside (w_db w) (f (w_db w)) \<Longrightarrow> rest_ok valid A (on_db f w)"
  by (simp add: rest_ok_def aside_sound aside_approved)

lemma rest_commit: "rest_ok valid A w \<Longrightarrow> rest_ok valid A (commit w)"
  by (simp add: rest_ok_def)

lemma rest_rollback: "rest_ok valid A w \<Longrightarrow> rest_ok valid A (rollback w)"
  by (simp add: rest_ok_def)

lemma preserves_rest:
  assumes "\<And>now db. aside db (f now db)"
  shows "preserves (rest_ok valid A) (act (\<lambda>w. commit (on_db (f (w_now w)) w)))"
    and "preserves (rest_ok valid A) (act (\<lambda>w. on_db (f (w_now w)) w))"
  by (rule preserves_act, rule rest_commit, rule rest_on_db, assumption, rule assms)
     (rule preserves_act, rule rest_on_db, assumption, rule assms)

lemma preserves_rest_db: "(\<And>db. aside db (f db)) \<Longrightarrow> preserves (rest_ok valid A) (act (on_db f))"
  by (rule preserves_act) (rule rest_on_db, assumption)

lemma preserves_rest_commit: "preserves (rest_ok valid A) (act commit)"
  by (rule preserves_act) (rule rest_commit)

lemma preserves_rest_draw: "(\<And>now db. aside db (snd (f now db))) \<Longrightarrow> preserves (rest_ok valid A) (draw f)"
  by (rule preserves_draw) (rule rest_on_db, assumption)

lemma preserves_rest_call:
  "(\<And>g. valid g \<Longrightarrow> valid (snd (c g))) \<Longrightarrow> preserves (rest_ok valid A) (odoo_call c)"
  by (rule preserves_call) (simp add: rest_ok_def)

lemmas rest_intros = preserves_intros preserves_rest preserves_rest_db preserves_rest_commit preserves_rest_draw
  preserves_rest_call

lemma aside_after:
  assumes "aside db db1"
  shows "aside db (record_audit_event t et ei di ty ai ar now db1)" "aside db (touch_deal now i db1)"
    "(\<And>d. deal_view (f d) = deal_view d) \<Longrightarrow> aside db (update_deal i f db1)" "aside db (update_plan k g db1)"
  by (auto intro: aside_trans[OF assms] steady_aside steady_audit steady_touch steady_update_deal)
     (rule aside_trans[OF assms], simp add: aside_def update_plan_def)

lemma aside_event: "aside db db1 \<Longrightarrow> aside db (plan_event ty pid i actor now db1)"
  by (simp add: plan_event_def aside_after)

lemma aside_profiles: "aside db (fold insert_default_profile rws db)"
proof -
  have "aside db (insert_default_profile rw db)" for rw db
    by (simp add: aside_def) (simp add: insert_default_profile_def insert_profile_def Let_def split_beta)
  then show ?thesis by (induction rws arbitrary: db) (auto intro: aside_trans)
qed

lemma rest_ensure: "preserves (rest_ok valid A) (ensure_profiles gw)"
proof -
  have "preserves (rest_ok valid A) (store_default_profiles rws)" for rws
    by (rule preservesI)
       (simp add: store_default_profiles_def rest_rollback rest_commit rest_on_db aside_profiles)
  then have "preserves (rest_ok valid A) (bind_eff (odoo_read (gw_get_warehouses gw)) store_default_profiles)"
    by (intro preserves_intros)
  then show ?thesis by (auto simp: preserves_def ensure_profiles_def)
qed

lemma aside_proposal: "aside db (snd (record_proposal d calc now db))"
  unfolding record_proposal_def split_beta snd_conv
  by (intro aside_after) (simp add: store_plan_def Let_def aside_def)

lemma rest_propose: "preserves (rest_ok valid A) (propose_fulfillment_plan gw i s)"
  unfolding propose_fulfillment_plan_def plan_and_record_def
  by (intro rest_intros rest_ensure aside_proposal)

lemma preserves_sound_propose: "preserves (sound_world valid db0) (propose_fulfillment_plan gw i s)"
  by (rule preserves_sound_world[OF rest_propose preserves_propose])

lemma preserves_sound_accept: "preserves (sound_world valid db0) (accept_fulfillment_plan i pid actor)"
  unfolding accept_fulfillment_plan_def
  by (rule preserves_sound_world[OF _ preserves_accept[unfolded accept_fulfillment_plan_def]])
     (intro rest_intros, simp add: record_acceptance_def aside_event aside_after)

lemma aside_override: "aside db (record_override i pid actor rows now db)"
  unfolding record_override_def by (intro aside_event aside_after) (simp add: aside_def)

lemma preserves_sound_override:
  "preserves (sound_world valid db0) (override_fulfillment_plan gw i pid items actor reason)"
proof (rule preserves_sound_world[OF _ preserves_override])
  have "aside db (delete_plan_lines pid db)" for db by (simp add: aside_def delete_plan_lines_def)
  then show "preserves (rest_ok valid (snd db0)) (override_fulfillment_plan gw i pid items actor reason)"
    unfolding override_fulfillment_plan_def by (intro rest_intros aside_override)
qed

lemma preserves_sound_consolidate: "preserves (sound_world valid db0) (consolidate_backorder gw i pid actor)"
  unfolding consolidate_backorder_def
  by (intro sound_intros preserves_sound_propose) (simp add: plan_event_def steady_audit)

lemma preserves_sound_profiles:
  "preserves (sound_world valid db0) (create_warehouse_profile wid weight prio lead active)"
  "preserves (sound_world valid db0) (update_warehouse_profile k u)"
  "preserves (sound_world valid db0) (delete_warehouse_profile k)"
proof -
  have "aside db (snd (insert_profile wid weight prio lead active db))" for db
    by (simp add: insert_profile_def Let_def aside_def)
  then have "preserves (rest_ok valid (snd db0)) (create_warehouse_profile wid weight prio lead active)"
    unfolding create_warehouse_profile_def by (intro rest_intros)
  moreover have "aside db (db\<lparr>db_profiles := x db\<rparr>)" for db x by (simp add: aside_def)
  then have "preserves (rest_ok valid (snd db0)) (update_warehouse_profile k u)" "preserves (rest_ok valid (snd db0)) (delete_warehouse_profile k)"
    unfolding update_warehouse_profile_def delete_warehouse_profile_def by (intro rest_intros; assumption)+
  ultimately show "preserves (sound_world valid db0) (create_warehouse_profile wid weight prio lead active)"
    "preserves (sound_world valid db0) (update_warehouse_profile k u)"
    "preserves (sound_world valid db0) (delete_warehouse_profile k)"
    by (auto intro: preserves_sound_world preserves_create_profile preserves_update_profile preserves_delete_profile)
qed

lemma aside_application: "aside db (record_application i pid pk actor now db)"
proof -
  have "deal_view (d\<lparr>d_status := IN_FULFILLMENT, d_last_activity_at := now\<rparr>) = deal_view d" for d
    by (simp add: deal_view_def governance_view_def)
  then show ?thesis unfolding record_application_def by (intro aside_event aside_after) simp_all
qed

context odoo_writes
begin

lemma preserves_sound_apply: "preserves (sound_world valid db0) (apply_fulfillment_plan gw i pid actor)"
proof (rule preserves_sound_world[OF _ preserves_apply])
  show "preserves (rest_ok valid (snd db0)) (apply_fulfillment_plan gw i pid actor)"
    unfolding apply_fulfillment_plan_def
    by (intro rest_intros aside_application; (assumption | erule fulfillment_valid))
qed

end

section \<open>Negotiation and portal\<close>

lemma steady_store_comment: "steady db (snd (store_comment i a r b n l now db))"
  unfolding store_comment_def Let_def snd_conv by (rule steady_after) (simp add: steady_def)

lemma preserves_comment: "preserves (sound_world valid db0) (add_portal_comment i a r b n l)"
  unfolding add_portal_comment_def by (intro sound_intros steady_store_comment)

lemma steady_submission: "steady db (snd (record_submission d partner user p now db))"
proof -
  have "deal_view (d\<lparr>d_status := UNDER_NEGOTIATION, d_last_activity_at := now\<rparr>) = deal_view d" for d
    by (simp add: deal_view_def governance_view_def)
  then show ?thesis
    unfolding record_submission_def Let_def snd_conv by (intro steady_after) (simp_all add: steady_def)
qed

lemma preserves_submit: "preserves (sound_world valid db0) (submit_negotiation_request i partner user p)"
  unfolding submit_negotiation_request_def by (intro sound_intros steady_submission)

end
