(* ===== verification/Access.thy ===== *)
theory Access
  imports Negotiation
begin

text \<open>
  Who a caller is: \<^verbatim>\<open>app/core/security.py\<close> (tokens), \<^verbatim>\<open>app/core/deps.py\<close> (the dependencies of the routes),
  \<^verbatim>\<open>app/core/rbac.py\<close> and \<^verbatim>\<open>app/services/auth_service.py\<close> (login and magic links). The token library and
  the hash are parameters: \<open>'t\<close> is the type of encoded tokens, \<open>token_library\<close> what the code calls, and
  \<open>library_ok\<close> the documented behaviour it relies on. The text of an integer claim (\<^verbatim>\<open>str\<close> when it is
  written, \<^verbatim>\<open>int\<close> when it is read) is kept as the integer.
\<close>

section \<open>Settings and tokens\<close>

record access_settings =
  st_SECRET_KEY :: string
  st_ACCESS_TOKEN_EXPIRE_MINUTES :: int
  st_PORTAL_TOKEN_EXPIRE_MINUTES :: int
  st_ENVIRONMENT :: string
  st_DEALFLOW_ODOO_MODE :: string
  st_ODOO_WEBHOOK_SECRET :: string

definition default_access_settings :: access_settings where
  "default_access_settings = \<lparr>
     st_SECRET_KEY = ''replace-with-a-secure-random-secret-key-dealflow360-min-32-chars'',
     st_ACCESS_TOKEN_EXPIRE_MINUTES = 720, st_PORTAL_TOKEN_EXPIRE_MINUTES = 240,
     st_ENVIRONMENT = ''development'', st_DEALFLOW_ODOO_MODE = ''fake'',
     st_ODOO_WEBHOOK_SECRET = ''dealflow-webhook-hmac-secret-key-min-32-bytes''\<rparr>"

record token_claims =
  cl_sub :: odoo_id
  cl_role :: Role
  cl_company_id :: string
  cl_aud :: string
  cl_iat :: int
  cl_exp :: int
  cl_customer_id :: "odoo_id option"
  cl_login :: "string option"
  cl_name :: "string option"
  cl_is_portal :: "bool option"
  cl_partner_id :: "odoo_id option"

record 't token_library =
  tl_encode :: "string \<Rightarrow> token_claims \<Rightarrow> 't"
  tl_decode :: "string \<Rightarrow> 't \<Rightarrow> string \<Rightarrow> instant \<Rightarrow> token_claims option"
  tl_sha256 :: "string \<Rightarrow> string"

text \<open>\<^verbatim>\<open>jwt.decode\<close> returns the claims of a token encoded under the key, unless its audience or its expiry refuse it.\<close>

definition library_ok :: "'t token_library \<Rightarrow> bool" where
  "library_ok lib = (\<forall>key c aud now. tl_decode lib key (tl_encode lib key c) aud now =
     (if cl_aud c = aud \<and> now div 10 ^ 6 \<le> cl_exp c then Some c else None))"

definition minutes :: "int \<Rightarrow> instant" where
  "minutes m = m * 60 * 10 ^ 6"

definition create_access_token ::
    "'t token_library \<Rightarrow> access_settings \<Rightarrow> instant \<Rightarrow> dealflow_user \<Rightarrow> 't" where
  "create_access_token lib st now u = tl_encode lib (st_SECRET_KEY st)
     \<lparr>cl_sub = u_odoo_user_id u, cl_role = u_role u, cl_company_id = ''1'', cl_aud = ''internal'',
      cl_iat = now div 10 ^ 6, cl_exp = (now + minutes (st_ACCESS_TOKEN_EXPIRE_MINUTES st)) div 10 ^ 6,
      cl_customer_id = None, cl_login = Some (u_login u), cl_name = Some (u_name u),
      cl_is_portal = Some False, cl_partner_id = u_partner_id u\<rparr>"

definition create_portal_token :: "'t token_library \<Rightarrow> access_settings \<Rightarrow> instant \<Rightarrow> odoo_id \<Rightarrow> 't" where
  "create_portal_token lib st now customer = tl_encode lib (st_SECRET_KEY st)
     \<lparr>cl_sub = customer, cl_role = CUSTOMER, cl_company_id = ''1'', cl_aud = ''portal'',
      cl_iat = now div 10 ^ 6, cl_exp = (now + minutes (st_PORTAL_TOKEN_EXPIRE_MINUTES st)) div 10 ^ 6,
      cl_customer_id = Some customer, cl_login = None, cl_name = None, cl_is_portal = None,
      cl_partner_id = None\<rparr>"

definition decode_token ::
    "'t token_library \<Rightarrow> access_settings \<Rightarrow> instant \<Rightarrow> 't \<Rightarrow> string \<Rightarrow> exc + token_claims" where
  "decode_token lib st now tok aud = option_or_raise (tl_decode lib (st_SECRET_KEY st) tok aud now) ValueError"

section \<open>The dependencies of the routes\<close>

definition find_user :: "odoo_id \<Rightarrow> database \<Rightarrow> dealflow_user option" where
  "find_user i db = find_row u_odoo_user_id i (db_users db)"

definition user_by_partner :: "odoo_id \<Rightarrow> database \<Rightarrow> dealflow_user option" where
  "user_by_partner p db = find (\<lambda>u. u_partner_id u = Some p) (db_users db)"

definition user_by_login :: "string \<Rightarrow> database \<Rightarrow> dealflow_user option" where
  "user_by_login l db = find_row u_login l (db_users db)"

definition get_current_user ::
    "'t token_library \<Rightarrow> access_settings \<Rightarrow> 't option \<Rightarrow> 'g world \<Rightarrow> exc + dealflow_user" where
  "get_current_user lib st auth w =
     (case auth of None \<Rightarrow> Inl UnauthorizedError
      | Some tok \<Rightarrow> (case decode_token lib st (w_now w) tok ''internal'' of
          Inl _ \<Rightarrow> Inl UnauthorizedError
        | Inr c \<Rightarrow> (case find_user (cl_sub c) (w_db w) of
            None \<Rightarrow> Inl UnauthorizedError
          | Some u \<Rightarrow> if u_is_active u then Inr u else Inl ForbiddenError)))"

definition get_current_active_user ::
    "'t token_library \<Rightarrow> access_settings \<Rightarrow> 't option \<Rightarrow> 'g world \<Rightarrow> exc + dealflow_user" where
  "get_current_active_user lib st auth w =
     bind_exc (get_current_user lib st auth w) (\<lambda>u. if u_is_active u then Inr u else Inl ForbiddenError)"

definition check_role_permission :: "Role \<Rightarrow> Role list \<Rightarrow> bool" where
  "check_role_permission role allowed = (role = ADMIN \<or> role \<in> set allowed)"

definition require_roles ::
    "'t token_library \<Rightarrow> access_settings \<Rightarrow> Role list \<Rightarrow> 't option \<Rightarrow> 'g world \<Rightarrow> exc + dealflow_user" where
  "require_roles lib st allowed auth w =
     bind_exc (get_current_active_user lib st auth w) (\<lambda>u.
       if u_role u = ADMIN then Inr u
       else if u_role u \<notin> set allowed then Inl ForbiddenError else Inr u)"

definition int_text :: "int \<Rightarrow> string" where
  "int_text n = (if n < 0 then CHR ''-'' # int_digits (- n) else int_digits n)"

text \<open>A partner without a user record gets a stand-in with no Odoo user.\<close>

definition portal_proxy :: "odoo_id \<Rightarrow> token_claims \<Rightarrow> dealflow_user" where
  "portal_proxy p c = \<lparr>u_odoo_user_id = 0, u_login = ''partner_'' @ int_text p,
     u_name = (case cl_name c of None \<Rightarrow> ''Partner '' @ int_text p | Some n \<Rightarrow> n), u_role = CUSTOMER,
     u_sales_team_odoo_id = None, u_is_portal = True, u_partner_id = Some p, u_is_active = True,
     u_last_login_at = None\<rparr>"

definition get_current_portal_user ::
    "'t token_library \<Rightarrow> access_settings \<Rightarrow> 't option \<Rightarrow> 'g world \<Rightarrow> exc + dealflow_user" where
  "get_current_portal_user lib st auth w =
     (case auth of None \<Rightarrow> Inl UnauthorizedError
      | Some tok \<Rightarrow> (case decode_token lib st (w_now w) tok ''portal'' of
          Inl _ \<Rightarrow> Inl UnauthorizedError
        | Inr c \<Rightarrow> (case id_or (cl_partner_id c) (cl_customer_id c) of
            None \<Rightarrow> Inl UnauthorizedError
          | Some p \<Rightarrow> (case user_by_partner p (w_db w) of
              None \<Rightarrow> Inr (portal_proxy p c)
            | Some u \<Rightarrow> if u_is_active u then Inr u else Inl ForbiddenError))))"

section \<open>Login\<close>

fun text_in :: "string \<Rightarrow> string \<Rightarrow> bool" where
  "text_in m [] = (m = [])"
| "text_in m (c # cs) = (take (length m) (c # cs) = m \<or> text_in m cs)"

definition mentions :: "string \<Rightarrow> string \<Rightarrow> bool" where
  "mentions text word = text_in word (map char_lower text)"

definition is_portal_identity :: "odoo_identity \<Rightarrow> bool" where
  "is_portal_identity oi = (oi_is_share oi \<or> list_ex (\<lambda>g. mentions g ''portal'') (oi_groups oi))"

text \<open>The last group that says something decides.\<close>

definition role_of_group :: "string \<Rightarrow> Role \<Rightarrow> Role" where
  "role_of_group g role =
     (if mentions g ''admin'' then ADMIN
      else if mentions g ''manager'' then SALES_MANAGER
      else if mentions g ''billing'' \<or> mentions g ''account'' \<or> mentions g ''finance'' then Role.FINANCE
      else role)"

definition initial_role :: "string \<Rightarrow> odoo_identity \<Rightarrow> Role" where
  "initial_role login oi =
     (if is_portal_identity oi then CUSTOMER
      else if login = ''admin'' \<or> login = ''admin@dealflow.test'' then ADMIN
      else fold role_of_group (oi_groups oi) SALES_REP)"

definition new_user :: "string \<Rightarrow> odoo_identity \<Rightarrow> instant \<Rightarrow> dealflow_user" where
  "new_user login oi now = \<lparr>u_odoo_user_id = oi_uid oi, u_login = login, u_name = oi_name oi,
     u_role = initial_role login oi, u_sales_team_odoo_id = None, u_is_portal = is_portal_identity oi,
     u_partner_id = oi_partner_id oi, u_is_active = True, u_last_login_at = Some now\<rparr>"

text \<open>An identity of Odoo has no sales team, so the team of a user is never set here.\<close>

definition returning_user :: "odoo_identity \<Rightarrow> instant \<Rightarrow> dealflow_user \<Rightarrow> dealflow_user" where
  "returning_user oi now u =
     (let u1 = u\<lparr>u_name := oi_name oi, u_last_login_at := Some now\<rparr> in
      if is_portal_identity oi
      then u1\<lparr>u_is_portal := True, u_role := CUSTOMER, u_partner_id := oi_partner_id oi\<rparr> else u1)"

definition put_user :: "dealflow_user \<Rightarrow> database \<Rightarrow> database" where
  "put_user u db = db\<lparr>db_users := (if find_user (u_odoo_user_id u) db = None then db_users db @ [u]
     else update_row u_odoo_user_id (u_odoo_user_id u) (\<lambda>_. u) (db_users db))\<rparr>"

text \<open>A login is unique: a second user with the login of another breaks the constraint at the commit.\<close>

definition upsert_user :: "string \<Rightarrow> odoo_identity \<Rightarrow> ('g world, dealflow_user) effect" where
  "upsert_user login oi =
     bind_eff (ask (\<lambda>w. case find_user (oi_uid oi) (w_db w) of
         Some u \<Rightarrow> Inr (returning_user oi (w_now w) u)
       | None \<Rightarrow> (if user_by_login login (w_db w) = None then Inr (new_user login oi (w_now w))
                  else Inl IntegrityError))) (\<lambda>u.
     bind_eff (act (\<lambda>w. commit (on_db (put_user u) w))) (\<lambda>_. answer u))"

definition sign_in :: "'g gateway \<Rightarrow> string \<Rightarrow> string \<Rightarrow> ('g world, dealflow_user) effect" where
  "sign_in gw login password w =
     (case gw_authenticate gw login password (w_odoo w) of
        Inr oi \<Rightarrow> upsert_user login oi w
      | Inl _ \<Rightarrow> (case user_by_login login (w_db w) of
          Some u \<Rightarrow> if login = ''admin'' \<and> password = ''admin'' then (Inr u, w) else (Inl UnauthorizedError, w)
        | None \<Rightarrow> (Inl UnauthorizedError, w)))"

record 't token_response =
  tr_access_token :: 't
  tr_expires_in :: int
  tr_role :: Role
  tr_odoo_user_id :: odoo_id
  tr_name :: string
  tr_is_portal :: bool
  tr_partner_id :: "odoo_id option"

definition portal_subject :: "dealflow_user \<Rightarrow> odoo_id" where
  "portal_subject u = num_or (u_partner_id u) (u_odoo_user_id u)"

definition token_for :: "'t token_library \<Rightarrow> access_settings \<Rightarrow> instant \<Rightarrow> dealflow_user \<Rightarrow> 't token_response" where
  "token_for lib st now u =
     (if u_is_portal u
      then \<lparr>tr_access_token = create_portal_token lib st now (portal_subject u),
        tr_expires_in = st_PORTAL_TOKEN_EXPIRE_MINUTES st * 60, tr_role = CUSTOMER,
        tr_odoo_user_id = u_odoo_user_id u, tr_name = u_name u, tr_is_portal = True,
        tr_partner_id = u_partner_id u\<rparr>
      else \<lparr>tr_access_token = create_access_token lib st now u,
        tr_expires_in = st_ACCESS_TOKEN_EXPIRE_MINUTES st * 60, tr_role = u_role u,
        tr_odoo_user_id = u_odoo_user_id u, tr_name = u_name u, tr_is_portal = False,
        tr_partner_id = u_partner_id u\<rparr>)"

definition authenticate_user ::
    "'t token_library \<Rightarrow> access_settings \<Rightarrow> 'g gateway \<Rightarrow> string \<Rightarrow> string \<Rightarrow>
     ('g world, 't token_response) effect" where
  "authenticate_user lib st gw login password =
     bind_eff (sign_in gw login password) (\<lambda>u.
     bind_eff (guard_eff (u_is_active u) UnauthorizedError) (\<lambda>_.
     bind_eff (ask (\<lambda>w. Inr (token_for lib st (w_now w) u))) answer))"

section \<open>Magic links\<close>

text \<open>The raw token, \<^verbatim>\<open>secrets.token_urlsafe\<close>, is an argument; the link's text around it is not modelled.\<close>

definition magic_link_partner ::
    "'g gateway \<Rightarrow> string option \<Rightarrow> odoo_id option \<Rightarrow> 'g world \<Rightarrow> exc + odoo_id" where
  "magic_link_partner gw email partner w =
     (if id_or partner None = None \<and> str_or email [] = [] then Inl ValidationError
      else case id_or partner None of Some p \<Rightarrow> Inr p
      | None \<Rightarrow> bind_exc (gw_get_customer_by_email gw (the email) (w_odoo w)) (\<lambda>found.
          map_sum id rp_id (option_or_raise found NotFoundError)))"

definition find_magic_link :: "string \<Rightarrow> database \<Rightarrow> magic_link_token option" where
  "find_magic_link h db = find_row ml_token_hash h (db_magic_links db)"

definition add_magic_link :: "magic_link_token \<Rightarrow> database \<Rightarrow> database" where
  "add_magic_link m db = db\<lparr>db_magic_links := db_magic_links db @ [m]\<rparr>"

definition create_magic_link ::
    "'t token_library \<Rightarrow> access_settings \<Rightarrow> 'g gateway \<Rightarrow> string \<Rightarrow> string option \<Rightarrow> odoo_id option \<Rightarrow>
     uuid option \<Rightarrow> string option \<Rightarrow> ('g world, string \<times> odoo_id) effect" where
  "create_magic_link lib st gw raw email partner deal ip =
     bind_eff (ask (magic_link_partner gw email partner)) (\<lambda>p.
     bind_eff (ask (\<lambda>w. raise_unless (find_magic_link (tl_sha256 lib raw) (w_db w) = None) IntegrityError)) (\<lambda>_.
     bind_eff (act (\<lambda>w. commit (on_db (add_magic_link \<lparr>ml_odoo_partner_id = p,
        ml_token_hash = tl_sha256 lib raw,
        ml_expires_at = w_now w + minutes (st_PORTAL_TOKEN_EXPIRE_MINUTES st), ml_used_at = None,
        ml_deal_id = deal, ml_created_ip = ip\<rparr>) w))) (\<lambda>_. answer (raw, p))))"

definition check_magic_link :: "'t token_library \<Rightarrow> string \<Rightarrow> 'g world \<Rightarrow> exc + magic_link_token" where
  "check_magic_link lib raw w =
     bind_exc (option_or_raise (find_magic_link (tl_sha256 lib raw) (w_db w)) UnauthorizedError) (\<lambda>m.
     bind_exc (raise_unless (ml_used_at m = None) UnauthorizedError) (\<lambda>_.
     bind_exc (raise_unless (\<not> ml_expires_at m < w_now w) UnauthorizedError) (\<lambda>_. Inr m)))"

definition use_magic_link :: "string \<Rightarrow> instant \<Rightarrow> database \<Rightarrow> database" where
  "use_magic_link h now db = db\<lparr>db_magic_links :=
     update_row ml_token_hash h (\<lambda>m. m\<lparr>ml_used_at := Some now\<rparr>) (db_magic_links db)\<rparr>"

definition magic_link_response ::
    "'t token_library \<Rightarrow> access_settings \<Rightarrow> 'g gateway \<Rightarrow> odoo_id \<Rightarrow> 'g world \<Rightarrow> 't token_response" where
  "magic_link_response lib st gw p w =
     \<lparr>tr_access_token = create_portal_token lib st (w_now w) p,
      tr_expires_in = st_PORTAL_TOKEN_EXPIRE_MINUTES st * 60, tr_role = CUSTOMER, tr_odoo_user_id = 0,
      tr_name = (case gw_get_partner gw p (w_odoo w) of
        Inr partner \<Rightarrow> rp_name partner | Inl _ \<Rightarrow> ''Customer '' @ int_text p),
      tr_is_portal = True, tr_partner_id = Some p\<rparr>"

definition verify_magic_link ::
    "'t token_library \<Rightarrow> access_settings \<Rightarrow> 'g gateway \<Rightarrow> string \<Rightarrow> ('g world, 't token_response) effect" where
  "verify_magic_link lib st gw raw =
     bind_eff (ask (check_magic_link lib raw)) (\<lambda>m.
     bind_eff (act (\<lambda>w. commit (on_db (use_magic_link (ml_token_hash m) (w_now w)) w))) (\<lambda>_.
     bind_eff (ask (\<lambda>w. Inr (magic_link_response lib st gw (ml_odoo_partner_id m) w))) answer))"

end
