(* ===== verification/Handlers.thy ===== *)
theory Handlers
  imports Portal Access
begin

text \<open>
  The routes of the sales application, \<^verbatim>\<open>app/api/v1/endpoints\<close>: deals, approvals, governance, health,
  negotiations, recommendations and the portal. A handler takes what the dependencies of its route
  resolved (the user of \<open>Access\<close>) and the payload, and is a service or a few of them in sequence. The
  JSON around an answer is not modelled; an answer that is a deal is its key. The routes of the
  administration are in \<open>Admin\<close>, and \<open>System\<close> puts a session around every request.
\<close>

section \<open>Deals\<close>

abbreviation actor_id :: "dealflow_user \<Rightarrow> odoo_id option" where
  "actor_id u \<equiv> Some (u_odoo_user_id u)"

abbreviation actor_role :: "dealflow_user \<Rightarrow> Role option" where
  "actor_role u \<equiv> Some (u_role u)"

record deal_line_create =
  dlc_product_id :: odoo_id
  dlc_qty :: rat
  dlc_discount_pct :: rat

record deal_create_direct =
  dcd_partner_id :: odoo_id
  dcd_currency :: "string option"
  dcd_lines :: "deal_line_create list"

definition order_lines_of :: "deal_create_direct \<Rightarrow> order_line_spec list" where
  "order_lines_of p = map (\<lambda>l. \<lparr>ols_product_id = dlc_product_id l, ols_qty = Some (dlc_qty l),
     ols_discount_pct = Some (dlc_discount_pct l)\<rparr>) (dcd_lines p)"

text \<open>The trigger of the first evaluation is the text \<^verbatim>\<open>CREATE\<close>, which is no \<^verbatim>\<open>TriggerType\<close>.\<close>

definition create_deal_endpoint :: "'g gateway \<Rightarrow> deal_create_direct \<Rightarrow> dealflow_user \<Rightarrow> ('g world, uuid) effect" where
  "create_deal_endpoint gw p u =
     bind_eff (odoo_call (gw_create_order gw (dcd_partner_id p) (u_odoo_user_id u)
       (Some (num_or (u_sales_team_odoo_id u) 1)) (str_or (dcd_currency p) ''INR'') (Some (order_lines_of p)))) (\<lambda>ord.
     bind_eff (sync_deal_from_odoo gw (roh_id (ro_header ord)) None (actor_id u) (actor_role u)) (\<lambda>i.
     bind_eff (ask (\<lambda>w. get_deal_by_id (w_db w) i)) (\<lambda>d.
     bind_eff (evaluate_deal gw (Some i) (Some (d_odoo_sale_order_id d)) (Inr ''CREATE'') (actor_id u) (actor_role u)) (\<lambda>_.
     answer i))))"

text \<open>
  The list of deals. Its route accepts a status, an approval state, a health status and a sort key and
  does not pass them on.
\<close>

record deal_query =
  dq_page :: int
  dq_page_size :: int
  dq_sort :: "string option"
  dq_status :: "string option"
  dq_approval_state :: "string option"
  dq_health_status :: "string option"
  dq_owner_id :: "odoo_id option"
  dq_sales_team_id :: "odoo_id option"
  dq_partner_id :: "odoo_id option"
  dq_min_risk_score :: "rat option"
  dq_max_risk_score :: "rat option"
  dq_query :: "string option"

definition filter_params_of :: "deal_query \<Rightarrow> deal_filter_params" where
  "filter_params_of q = \<lparr>df_status = None, df_approval_state = None, df_health_status = None,
     df_owner_id = dq_owner_id q, df_sales_team_id = dq_sales_team_id q, df_partner_id = dq_partner_id q,
     df_min_risk_score = map_option float_repr (dq_min_risk_score q),
     df_max_risk_score = map_option float_repr (dq_max_risk_score q), df_query = dq_query q\<rparr>"

definition list_deals_endpoint :: "deal_query \<Rightarrow> database \<Rightarrow> deal list \<times> pagination_meta" where
  "list_deals_endpoint q db =
     list_deals (filter_params_of q) \<lparr>pg_page = dq_page q, pg_page_size = dq_page_size q\<rparr> db"

definition create_deal_from_odoo :: "'g gateway \<Rightarrow> odoo_id \<Rightarrow> dealflow_user \<Rightarrow> ('g world, uuid) effect" where
  "create_deal_from_odoo gw oid u = sync_deal_from_odoo gw oid None (actor_id u) (actor_role u)"

text \<open>The version expected of the deal is the version it has.\<close>

definition sync_deal_endpoint :: "'g gateway \<Rightarrow> uuid \<Rightarrow> bool \<Rightarrow> dealflow_user \<Rightarrow> ('g world, uuid) effect" where
  "sync_deal_endpoint gw i force u =
     bind_eff (ask (\<lambda>w. get_deal_by_id (w_db w) i)) (\<lambda>d.
       sync_deal_from_odoo gw (d_odoo_sale_order_id d) (if force then None else Some (d_version d))
         (actor_id u) (actor_role u))"

definition patch_deal_endpoint :: "uuid \<Rightarrow> deal_patch_request \<Rightarrow> dealflow_user \<Rightarrow> ('g world, uuid) effect" where
  "patch_deal_endpoint i p u = patch_deal i p (actor_id u) (actor_role u)"

text \<open>The pending request of a deal with the least sequence number.\<close>

definition first_pending :: "uuid \<Rightarrow> database \<Rightarrow> approval_request option" where
  "first_pending i db = (case sort_key ar_sequence (pending_requests i db) of [] \<Rightarrow> None | r # _ \<Rightarrow> Some r)"

definition decide_first_pending ::
    "'g gateway \<Rightarrow> uuid \<Rightarrow> ApprovalActionType \<Rightarrow> string option \<Rightarrow> dealflow_user \<Rightarrow> ('g world, uuid) effect" where
  "decide_first_pending gw i action reason u =
     bind_eff (ask (\<lambda>w. option_or_raise (first_pending i (w_db w)) (BusinessRuleError ''NO_PENDING_APPROVAL''))) (\<lambda>r.
     bind_eff (decide_approval_request gw (ar_id r) u action reason) (\<lambda>_. answer i))"

definition approve_deal_endpoint ::
    "'g gateway \<Rightarrow> uuid \<Rightarrow> string option \<Rightarrow> dealflow_user \<Rightarrow> ('g world, uuid) effect" where
  "approve_deal_endpoint gw i reason u =
     bind_eff (ask (\<lambda>w. get_deal_by_id (w_db w) i)) (\<lambda>d.
     bind_eff (guard_eff (d_owner_odoo_user_id d \<noteq> u_odoo_user_id u) (BusinessRuleError ''OWN_DEAL'')) (\<lambda>_.
       decide_first_pending gw (d_id d) APPROVE reason u))"

definition has_reason :: "string option \<Rightarrow> bool" where
  "has_reason reason = (case reason of None \<Rightarrow> False | Some s \<Rightarrow> \<not> list_all is_py_space s)"

definition reject_deal_endpoint ::
    "'g gateway \<Rightarrow> uuid \<Rightarrow> string option \<Rightarrow> dealflow_user \<Rightarrow> ('g world, uuid) effect" where
  "reject_deal_endpoint gw i reason u =
     bind_eff (guard_eff (has_reason reason) (BusinessRuleError ''REASON_REQUIRED'')) (\<lambda>_.
     bind_eff (ask (\<lambda>w. get_deal_by_id (w_db w) i)) (\<lambda>d. decide_first_pending gw (d_id d) REJECT reason u))"

definition return_deal_endpoint ::
    "'g gateway \<Rightarrow> uuid \<Rightarrow> string option \<Rightarrow> dealflow_user \<Rightarrow> ('g world, uuid) effect" where
  "return_deal_endpoint gw i reason u =
     bind_eff (guard_eff (has_reason reason) (BusinessRuleError ''REASON_REQUIRED'')) (\<lambda>_.
     bind_eff (ask (\<lambda>w. get_deal_by_id (w_db w) i)) (\<lambda>d. decide_first_pending gw (d_id d) RETURN reason u))"

text \<open>Sending a quotation looks at nothing of the deal: not at its status, not at its approval.\<close>

definition send_deal_endpoint :: "uuid \<Rightarrow> dealflow_user \<Rightarrow> ('g world, uuid) effect" where
  "send_deal_endpoint i u =
     bind_eff (ask (\<lambda>w. get_deal_by_id (w_db w) i)) (\<lambda>d.
     bind_eff (act (\<lambda>w. commit (on_db (update_deal i (\<lambda>d. d\<lparr>d_status := SENT, d_sent_at := Some (w_now w),
       d_last_activity_at := w_now w\<rparr>)) w))) (\<lambda>_.
     bind_eff (act (\<lambda>w. on_db (record_audit_event AuditEventType_QUOTATION_SENT ''deal'' (Some (int i)) (Some i) ''USER''
       (actor_id u) (actor_role u) (w_now w)) w)) (\<lambda>_. answer i)))"

definition get_deal_billing :: "'g gateway \<Rightarrow> uuid \<Rightarrow> 'g world \<Rightarrow> exc + raw_billing_summary" where
  "get_deal_billing gw i w =
     bind_exc (get_deal_by_id (w_db w) i) (\<lambda>d. gw_get_billing_summary gw (d_odoo_sale_order_id d) (w_odoo w))"

text \<open>The invoice is not checked to be one of the deal's.\<close>

definition record_invoice_payment ::
    "'g gateway \<Rightarrow> uuid \<Rightarrow> odoo_id \<Rightarrow> rat \<Rightarrow> dealflow_user \<Rightarrow> ('g world, payment_result) effect" where
  "record_invoice_payment gw i invoice amount u =
     bind_eff (ask (\<lambda>w. get_deal_by_id (w_db w) i)) (\<lambda>d.
     bind_eff (odoo_call (gw_register_payment gw invoice amount None)) (\<lambda>res.
     bind_eff (act (\<lambda>w. on_db (record_audit_event PAYMENT_RECEIVED ''invoice'' (Some invoice) (Some i) ''USER''
       (actor_id u) (actor_role u) (w_now w)) w)) (\<lambda>_. answer res)))"

section \<open>Governance\<close>

definition evaluate_deal_endpoint ::
    "'g gateway \<Rightarrow> uuid option \<Rightarrow> odoo_id option \<Rightarrow> TriggerType \<Rightarrow> dealflow_user \<Rightarrow>
     ('g world, evaluation_response) effect" where
  "evaluate_deal_endpoint gw did oid trig u = evaluate_deal gw did oid (Inl trig) (actor_id u) (actor_role u)"

definition simulate_what_if_endpoint ::
    "'g gateway \<Rightarrow> uuid \<Rightarrow> what_if_request \<Rightarrow> 'g world \<Rightarrow> exc + what_if_response" where
  "simulate_what_if_endpoint gw i q = simulate_deal_what_if gw i q"

type_synonym assessment_view = "risk_assessment \<times> risk_factor list"

definition assessment_read :: "database \<Rightarrow> risk_assessment \<Rightarrow> assessment_view" where
  "assessment_read db a = (a, filter (\<lambda>f. rf_risk_assessment_id f = ra_id a) (db_factors db))"

definition get_latest_assessment_endpoint :: "uuid \<Rightarrow> database \<Rightarrow> exc + assessment_view" where
  "get_latest_assessment_endpoint i db =
     bind_exc (get_deal_by_id db i) (\<lambda>d.
     bind_exc (option_or_raise (d_current_assessment_id d) NotFoundError) (\<lambda>aid.
     bind_exc (option_or_raise (find_assessment aid db) NotFoundError) (\<lambda>a. Inr (assessment_read db a))))"

record workspace_deal =
  wd_id :: uuid
  wd_reference :: string
  wd_odoo_sale_order_id :: odoo_id
  wd_odoo_order_name :: string
  wd_partner_name :: "string option"
  wd_status :: DealStatus
  wd_approval_state :: ApprovalState
  wd_health_status :: HealthStatus
  wd_risk_score :: "rat option"
  wd_severity :: "RiskSeverity option"
  wd_required_level :: ApprovalLevel
  wd_amount_untaxed :: rat
  wd_amount_total :: rat
  wd_margin_pct :: rat
  wd_order_discount_pct :: rat
  wd_version :: int

definition workspace_deal_of :: "deal \<Rightarrow> workspace_deal" where
  "workspace_deal_of d = \<lparr>wd_id = d_id d, wd_reference = d_reference d,
     wd_odoo_sale_order_id = d_odoo_sale_order_id d, wd_odoo_order_name = d_odoo_order_name d,
     wd_partner_name = d_partner_name_cache d, wd_status = d_status d, wd_approval_state = d_approval_state d,
     wd_health_status = d_health_status d, wd_risk_score = map_option fl64 (d_current_risk_score d),
     wd_severity = d_current_severity d, wd_required_level = d_required_level d,
     wd_amount_untaxed = fl64 (d_amount_untaxed_cache d), wd_amount_total = fl64 (d_amount_total_cache d),
     wd_margin_pct = fl64 (d_margin_pct_cache d), wd_order_discount_pct = fl64 (d_order_discount_pct d),
     wd_version = d_version d\<rparr>"

record workspace_request =
  wr_id :: uuid
  wr_sequence :: int
  wr_required_level :: string
  wr_status :: ApprovalRequestStatus
  wr_requested_at :: instant

definition workspace_requests :: "uuid \<Rightarrow> database \<Rightarrow> workspace_request list" where
  "workspace_requests i db = map (\<lambda>r. \<lparr>wr_id = ar_id r, wr_sequence = ar_sequence r,
     wr_required_level = ar_required_level r, wr_status = ar_status r, wr_requested_at = ar_requested_at r\<rparr>)
     (sort_key ar_sequence (filter (\<lambda>r. ar_deal_id r = i) (db_requests db)))"

record workspace_bundle =
  wb_deal :: workspace_deal
  wb_lines :: "deal_line_read list"
  wb_assessment :: "assessment_view option"
  wb_risk :: "rat \<times> RiskSeverity \<times> risk_factor list"
  wb_approval :: "ApprovalLevel \<times> ApprovalState \<times> workspace_request list"
  wb_fulfillment :: "(fulfillment_plan \<times> fulfillment_plan_line list) option"
  wb_recommendations :: "recommendation list"
  wb_health :: "deal_health_snapshot option"
  wb_next_best_actions :: "next_best_action list"

definition latest_snapshot :: "uuid \<Rightarrow> database \<Rightarrow> deal_health_snapshot option" where
  "latest_snapshot i db =
     (case newest_first hs_calculated_at (filter (\<lambda>s. hs_deal_id s = i) (db_snapshots db)) of
        [] \<Rightarrow> None | s # _ \<Rightarrow> Some s)"

definition workspace_of ::
    "deal \<Rightarrow> deal_line_read list \<Rightarrow> next_best_action list \<Rightarrow> database \<Rightarrow> workspace_bundle" where
  "workspace_of d ls nbas db =
     (let a = map_option (assessment_read db)
            (Option.bind (d_current_assessment_id d) (\<lambda>aid. find_assessment aid db)) in
      \<lparr>wb_deal = workspace_deal_of d, wb_lines = ls, wb_assessment = a,
       wb_risk = (case d_current_risk_score d of None \<Rightarrow> 0 | Some q \<Rightarrow> fl64 q,
         case d_current_severity d of None \<Rightarrow> RiskSeverity.LOW | Some s \<Rightarrow> s,
         case a of None \<Rightarrow> [] | Some (_, fs) \<Rightarrow> fs),
       wb_approval = (d_required_level d, d_approval_state d, workspace_requests (d_id d) db),
       wb_fulfillment = map_option (\<lambda>p. (p, plan_lines (fp_id p) db)) (latest_plan (d_id d) db),
       wb_recommendations = list_deal_recommendations (d_id d) db,
       wb_health = latest_snapshot (d_id d) db, wb_next_best_actions = nbas\<rparr>)"

definition get_deal_workspace_bundle :: "'g gateway \<Rightarrow> uuid \<Rightarrow> ('g world, workspace_bundle) effect" where
  "get_deal_workspace_bundle gw i =
     bind_eff (get_deal_detail gw i) (\<lambda>(i, ls, nbas).
     bind_eff (ask (\<lambda>w. map_sum id (\<lambda>d. workspace_of d ls nbas (w_db w)) (get_deal_by_id (w_db w) i))) answer)"

section \<open>Health and alerts\<close>

record deal_health_detail =
  dhd_deal_id :: uuid
  dhd_health_status :: HealthStatus
  dhd_overall_score :: dec
  dhd_components :: "dec \<times> dec \<times> dec \<times> dec \<times> dec"
  dhd_alerts :: "deal_alert list"
  dhd_next_best_action :: next_best_action
  dhd_calculated_at :: instant

definition health_detail_of ::
    "uuid \<Rightarrow> health_calculation_result \<Rightarrow> next_best_action \<Rightarrow> deal \<Rightarrow> database \<Rightarrow> deal_health_detail" where
  "health_detail_of i h act_next d db = \<lparr>dhd_deal_id = i, dhd_health_status = hc_health_status h,
     dhd_overall_score = hc_overall_score h,
     dhd_components = (hc_stalled_score h, hc_approval_delay_score h, hc_discount_anomaly_score h,
       hc_delivery_risk_score h, hc_negotiation_score h),
     dhd_alerts = newest_first al_raised_at (filter (\<lambda>a. al_deal_id a = i) (db_alerts db)),
     dhd_next_best_action = act_next, dhd_calculated_at = d_last_activity_at d\<rparr>"

text \<open>A health calculation carries no time of its own, so the deal's last activity is shown.\<close>

definition get_deal_health_detail ::
    "'g gateway \<Rightarrow> uuid \<Rightarrow> dealflow_user \<Rightarrow> ('g world, deal_health_detail) effect" where
  "get_deal_health_detail gw i u =
     bind_eff (ask (\<lambda>w. get_deal_by_id (w_db w) i)) (\<lambda>d.
     bind_eff (recompute_deal_health gw d False (actor_role u)) (\<lambda>(h, act_next).
     bind_eff (act commit) (\<lambda>_.
     bind_eff (ask (\<lambda>w. map_sum id (\<lambda>e. health_detail_of i h act_next e (w_db w)) (get_deal_by_id (w_db w) i))) answer)))"

record alert_query =
  alq_type :: "AlertType option"
  alq_status :: "AlertStatus option"
  alq_severity :: "RiskSeverity option"
  alq_owner_id :: "odoo_id option"
  alq_sales_team_id :: "odoo_id option"
  alq_deal_id :: "uuid option"

definition alert_matches :: "alert_query \<Rightarrow> deal_alert \<times> deal \<Rightarrow> bool" where
  "alert_matches q ad = (case ad of (a, d) \<Rightarrow>
     matches (alq_type q) (al_type a) \<and> matches (alq_status q) (al_status a)
     \<and> matches (alq_severity q) (al_severity a) \<and> matches (alq_owner_id q) (d_owner_odoo_user_id d)
     \<and> (alq_sales_team_id q = None \<or> d_sales_team_odoo_id d = alq_sales_team_id q)
     \<and> matches (alq_deal_id q) (al_deal_id a))"

definition list_alerts_endpoint :: "alert_query \<Rightarrow> database \<Rightarrow> deal_alert list" where
  "list_alerts_endpoint q db = newest_first al_raised_at
     (map fst (filter (alert_matches q) [(a, d). a \<leftarrow> db_alerts db, d \<leftarrow> db_deals db, d_id d = al_deal_id a]))"

text \<open>The payload's pattern admits four words; the last two go to the same service.\<close>

datatype alert_action = ACKNOWLEDGE | RESOLVE | NUDGE | ESCALATE_ALERT

definition alert_action_endpoint ::
    "uuid \<Rightarrow> alert_action \<Rightarrow> dealflow_user \<Rightarrow> ('g world, uuid) effect" where
  "alert_action_endpoint i action u =
     (case action of
        ACKNOWLEDGE \<Rightarrow> acknowledge_alert i (u_odoo_user_id u)
      | RESOLVE \<Rightarrow> resolve_alert i (u_odoo_user_id u)
      | NUDGE \<Rightarrow> nudge_or_escalate_alert i ''NUDGE'' (u_odoo_user_id u) (u_role u)
      | ESCALATE_ALERT \<Rightarrow> nudge_or_escalate_alert i ''ESCALATE'' (u_odoo_user_id u) (u_role u))"

definition recompute_alerts_endpoint :: "'g gateway \<Rightarrow> ('g world, recompute_report) effect" where
  "recompute_alerts_endpoint gw w = (case recompute_all_alerts gw w of (rep, w1) \<Rightarrow> (Inr rep, w1))"

section \<open>Recommendations\<close>

definition mark_recommendation :: "uuid \<Rightarrow> (recommendation \<Rightarrow> recommendation) \<Rightarrow> database \<Rightarrow> database" where
  "mark_recommendation k f db = db\<lparr>db_recommendations := update_row rec_id k f (db_recommendations db)\<rparr>"

definition find_recommendation :: "uuid \<Rightarrow> uuid \<Rightarrow> database \<Rightarrow> recommendation option" where
  "find_recommendation i k db = find (\<lambda>r. rec_id r = k \<and> rec_deal_id r = i) (db_recommendations db)"

definition recommendation_event ::
    "AuditEventType \<Rightarrow> uuid \<Rightarrow> uuid \<Rightarrow> dealflow_user \<Rightarrow> instant \<Rightarrow> database \<Rightarrow> database" where
  "recommendation_event ty k i u now = record_audit_event ty ''recommendation'' (Some (int k)) (Some i) ''USER''
     (actor_id u) (actor_role u) now"

definition added_recommendation :: "uuid \<Rightarrow> uuid \<Rightarrow> instant \<Rightarrow> database \<Rightarrow> database" where
  "added_recommendation i k now db = touch_deal now i
     (mark_recommendation k (\<lambda>r. r\<lparr>rec_status := RecommendationStatus.ADDED, rec_added_at := Some now\<rparr>) db)"

definition dismissed_recommendation :: "uuid \<Rightarrow> uuid \<Rightarrow> dealflow_user \<Rightarrow> instant \<Rightarrow> database \<Rightarrow> database" where
  "dismissed_recommendation i k u now db = recommendation_event RECOMMENDATION_DISMISSED k i u now
     (touch_deal now i (mark_recommendation k (\<lambda>r. r\<lparr>rec_status := RecommendationStatus.DISMISSED,
        rec_dismissed_at := Some now\<rparr>) db))"

definition add_recommendation ::
    "'g gateway \<Rightarrow> deal \<Rightarrow> recommendation \<Rightarrow> dealflow_user \<Rightarrow> rat \<Rightarrow>
     ('g world, deal_line_read list \<times> recommendation list \<times> next_best_action list \<times> evaluation_response) effect" where
  "add_recommendation gw d r u qty =
     bind_eff (guard_eff (rec_status r = RecommendationStatus.ACTIVE) (BusinessRuleError ''REC_NOT_ACTIVE'')) (\<lambda>_.
     bind_eff (odoo_call (gw_add_line gw (d_odoo_sale_order_id d) (rec_odoo_product_id r) (fl64 qty) 0)) (\<lambda>_.
     bind_eff (act (\<lambda>w. on_db (added_recommendation (d_id d) (rec_id r) (w_now w)) w)) (\<lambda>_.
     bind_eff (sync_deal_from_odoo gw (d_odoo_sale_order_id d) None (actor_id u) (actor_role u)) (\<lambda>_.
     bind_eff (evaluate_deal gw (Some (d_id d)) None (Inl TriggerType.LINE_ADDED) (actor_id u) (actor_role u)) (\<lambda>res.
     bind_eff (act (\<lambda>w. commit (on_db (recommendation_event RECOMMENDATION_ADDED (rec_id r) (d_id d) u (w_now w)) w))) (\<lambda>_.
     bind_eff (get_deal_detail gw (d_id d)) (\<lambda>(_, ls, nbas).
     bind_eff (ask (\<lambda>w. Inr (list_deal_recommendations (d_id d) (w_db w)))) (\<lambda>recs.
     answer (ls, recs, nbas, res)))))))))"

definition add_recommendation_to_deal_endpoint ::
    "'g gateway \<Rightarrow> uuid \<Rightarrow> uuid \<Rightarrow> dec option \<Rightarrow> dealflow_user \<Rightarrow>
     ('g world, deal_line_read list \<times> recommendation list \<times> next_best_action list \<times> evaluation_response) effect" where
  "add_recommendation_to_deal_endpoint gw i k qty u =
     bind_eff (ask (\<lambda>w. option_or_raise (find_recommendation i k (w_db w))
       (EntityNotFoundError ''Recommendation'' (int k)))) (\<lambda>r.
     bind_eff (ask (\<lambda>w. option_or_raise (find_deal i (w_db w)) (EntityNotFoundError ''Deal'' (int i)))) (\<lambda>d.
       add_recommendation gw d r u (num_or qty 1)))"

definition dismiss_recommendation_endpoint :: "uuid \<Rightarrow> uuid \<Rightarrow> dealflow_user \<Rightarrow> ('g world, uuid) effect" where
  "dismiss_recommendation_endpoint i k u =
     bind_eff (ask (\<lambda>w. option_or_raise (find_recommendation i k (w_db w))
       (EntityNotFoundError ''Recommendation'' (int k)))) (\<lambda>r.
     bind_eff (ask (\<lambda>w. option_or_raise (find_deal i (w_db w)) (EntityNotFoundError ''Deal'' (int i)))) (\<lambda>d.
     bind_eff (act (\<lambda>w. commit (on_db (dismissed_recommendation i k u (w_now w)) w))) (\<lambda>_. answer k)))"

section \<open>Fulfillment and comments\<close>

text \<open>The plan the route is about is looked up first; the payload of a consolidation is not used.\<close>

definition accept_plan_endpoint :: "uuid \<Rightarrow> uuid option \<Rightarrow> dealflow_user \<Rightarrow> ('g world, uuid) effect" where
  "accept_plan_endpoint i pid u =
     bind_eff (ask (\<lambda>w. find_target_plan i pid (w_db w))) (\<lambda>p. accept_fulfillment_plan i (fp_id p) u)"

definition override_plan_endpoint ::
    "'g gateway \<Rightarrow> uuid \<Rightarrow> uuid option \<Rightarrow> override_item list option \<Rightarrow> override_item list option \<Rightarrow> string \<Rightarrow>
     dealflow_user \<Rightarrow> ('g world, uuid) effect" where
  "override_plan_endpoint gw i pid allocs ls reason u =
     bind_eff (ask (\<lambda>w. find_target_plan i pid (w_db w))) (\<lambda>p.
       override_fulfillment_plan gw i (fp_id p)
         (case allocs of Some xs \<Rightarrow> xs | None \<Rightarrow> (case ls of Some xs \<Rightarrow> xs | None \<Rightarrow> [])) u reason)"

definition apply_plan_endpoint ::
    "'g gateway \<Rightarrow> uuid \<Rightarrow> uuid option \<Rightarrow> dealflow_user \<Rightarrow> ('g world, uuid \<times> odoo_id list) effect" where
  "apply_plan_endpoint gw i pid u =
     bind_eff (ask (\<lambda>w. find_target_plan i pid (w_db w))) (\<lambda>p. apply_fulfillment_plan gw i (fp_id p) u)"

definition consolidate_endpoint ::
    "'g gateway \<Rightarrow> uuid \<Rightarrow> uuid option \<Rightarrow> dealflow_user \<Rightarrow> ('g world, uuid) effect" where
  "consolidate_endpoint gw i pid u =
     bind_eff (ask (\<lambda>w. find_target_plan i pid (w_db w))) (\<lambda>p. consolidate_backorder gw i (fp_id p) u)"

definition add_deal_comment ::
    "uuid \<Rightarrow> string \<Rightarrow> bool \<Rightarrow> odoo_id option \<Rightarrow> dealflow_user \<Rightarrow> ('g world, uuid) effect" where
  "add_deal_comment i body internal line u =
     add_portal_comment i (u_odoo_user_id u) (u_role u) body internal line"

section \<open>The portal\<close>

text \<open>Every route of the portal acts for the partner of the caller.\<close>

definition portal_partner :: "dealflow_user \<Rightarrow> odoo_id" where
  "portal_partner u = (case u_partner_id u of None \<Rightarrow> 0 | Some p \<Rightarrow> p)"

definition submit_portal_negotiation ::
    "uuid \<Rightarrow> negotiation_submit \<Rightarrow> dealflow_user \<Rightarrow> ('g world, uuid) effect" where
  "submit_portal_negotiation i p u = submit_negotiation_request i (portal_partner u) (u_odoo_user_id u) p"

definition confirm_portal_deal ::
    "'g gateway \<Rightarrow> uuid \<Rightarrow> portal_confirm_request option \<Rightarrow> dealflow_user \<Rightarrow> ('g world, portal_deal_read) effect" where
  "confirm_portal_deal gw i p u = confirm_deal_by_customer gw i (portal_partner u)
     (case p of Some q \<Rightarrow> q | None \<Rightarrow> \<lparr>pcr_accepted = True, pcr_signature_name = None, pcr_comment = None\<rparr>)"

text \<open>The deal commented on is not checked to be the caller's.\<close>

definition add_portal_public_comment ::
    "uuid \<Rightarrow> string \<Rightarrow> odoo_id option \<Rightarrow> dealflow_user \<Rightarrow> ('g world, uuid) effect" where
  "add_portal_public_comment i body line u =
     add_portal_comment i (u_odoo_user_id u) CUSTOMER body False line"

end
