(* ===== verification/Admin.thy ===== *)
theory Admin
  imports Handlers
begin

text \<open>
  The administration: users, discount policies and customer tiers, the rules of the recommendation
  engine, the background jobs (\<^verbatim>\<open>app/jobs/tasks.py\<close>) and Odoo's webhook
  (\<^verbatim>\<open>app/api/v1/endpoints/events.py\<close>). The properties are in \<open>Webhooks\<close>.
\<close>

section \<open>Users\<close>

definition list_users :: "Role option \<Rightarrow> bool option \<Rightarrow> pagination \<Rightarrow> database \<Rightarrow> dealflow_user list \<times> pagination_meta" where
  "list_users role active pg db = paginate_query pg (sort_key u_odoo_user_id
     (filter (\<lambda>u. matches role (u_role u) \<and> matches active (u_is_active u)) (db_users db)))"

definition get_user :: "odoo_id \<Rightarrow> database \<Rightarrow> exc + dealflow_user" where
  "get_user i db = option_or_raise (find_user i db) NotFoundError"

record user_update =
  uu_role :: "Role option"
  uu_is_active :: "bool option"
  uu_sales_team_odoo_id :: "odoo_id option"

definition updated_user :: "user_update \<Rightarrow> dealflow_user \<Rightarrow> dealflow_user" where
  "updated_user p u = u\<lparr>u_role := set_if (uu_role p) (u_role u), u_is_active := set_if (uu_is_active p) (u_is_active u),
     u_sales_team_odoo_id := (if uu_sales_team_odoo_id p = None then u_sales_team_odoo_id u
       else uu_sales_team_odoo_id p)\<rparr>"

definition update_user :: "odoo_id \<Rightarrow> user_update \<Rightarrow> ('g world, odoo_id) effect" where
  "update_user i p =
     bind_eff (ask (\<lambda>w. get_user i (w_db w))) (\<lambda>_.
     bind_eff (act (\<lambda>w. commit (on_db (\<lambda>db. db\<lparr>db_users :=
       update_row u_odoo_user_id i (updated_user p) (db_users db)\<rparr>) w))) (\<lambda>_. answer i))"

section \<open>Policies and tiers\<close>

text \<open>Of two policies with the same priority the newer comes first; rows are in insertion order.\<close>

definition list_discount_policies :: "bool \<Rightarrow> database \<Rightarrow> discount_policy list" where
  "list_discount_policies active_only db =
     sort_key dp_priority (rev (filter (\<lambda>p. active_only \<longrightarrow> dp_active p) (db_policies db)))"

definition percentage_ok :: "dec option \<Rightarrow> bool" where
  "percentage_ok x = (case x of None \<Rightarrow> True | Some v \<Rightarrow> 0 \<le> v \<and> v \<le> 100)"

text \<open>The bounds of the payload's schema; a payload outside of them never reaches the handler.\<close>

definition policy_payload_ok :: "discount_policy \<Rightarrow> bool" where
  "policy_payload_ok p = (percentage_ok (Some (dp_max_discount_pct p)) \<and> percentage_ok (dp_minimum_margin_pct p)
     \<and> percentage_ok (dp_manager_threshold p) \<and> percentage_ok (dp_finance_threshold p)
     \<and> percentage_ok (dp_single_line_finance_pts p))"

definition create_discount_policy :: "discount_policy \<Rightarrow> ('g world, uuid) effect" where
  "create_discount_policy p =
     bind_eff (guard_eff (policy_payload_ok p) ValidationError) (\<lambda>_.
     bind_eff (draw (\<lambda>_ db. (db_next_id db, db\<lparr>db_policies := db_policies db @ [p\<lparr>dp_id := db_next_id db\<rparr>],
       db_next_id := db_next_id db + 1\<rparr>))) (\<lambda>i.
     bind_eff (act commit) (\<lambda>_. answer i)))"

definition get_discount_policy :: "uuid \<Rightarrow> database \<Rightarrow> exc + discount_policy" where
  "get_discount_policy i db = option_or_raise (find_row dp_id i (db_policies db)) NotFoundError"

text \<open>
  A key that the request sets is assigned, a null as well: the outer \<open>None\<close> is an absent key, the inner
  one a null.
\<close>

record policy_update =
  pl_name :: "string option"
  pl_customer_tier_code :: "string option option"
  pl_odoo_product_category_id :: "odoo_id option option"
  pl_max_discount_pct :: "dec option option"
  pl_minimum_margin_pct :: "dec option option"
  pl_manager_threshold :: "dec option option"
  pl_finance_threshold :: "dec option option"
  pl_single_line_finance_pts :: "dec option option"
  pl_priority :: "int option"
  pl_active :: "bool option"

definition policy_update_ok :: "policy_update \<Rightarrow> bool" where
  "policy_update_ok p = list_all (\<lambda>x. case x of None \<Rightarrow> True | Some v \<Rightarrow> percentage_ok v)
     [pl_max_discount_pct p, pl_minimum_margin_pct p, pl_manager_threshold p, pl_finance_threshold p,
      pl_single_line_finance_pts p]"

definition updated_policy :: "policy_update \<Rightarrow> discount_policy \<Rightarrow> discount_policy" where
  "updated_policy p d = d\<lparr>dp_name := set_if (pl_name p) (dp_name d),
     dp_customer_tier_code := set_if (pl_customer_tier_code p) (dp_customer_tier_code d),
     dp_odoo_product_category_id := set_if (pl_odoo_product_category_id p) (dp_odoo_product_category_id d),
     dp_max_discount_pct := (case pl_max_discount_pct p of Some (Some v) \<Rightarrow> v | _ \<Rightarrow> dp_max_discount_pct d),
     dp_minimum_margin_pct := set_if (pl_minimum_margin_pct p) (dp_minimum_margin_pct d),
     dp_manager_threshold := set_if (pl_manager_threshold p) (dp_manager_threshold d),
     dp_finance_threshold := set_if (pl_finance_threshold p) (dp_finance_threshold d),
     dp_single_line_finance_pts := set_if (pl_single_line_finance_pts p) (dp_single_line_finance_pts d),
     dp_priority := set_if (pl_priority p) (dp_priority d), dp_active := set_if (pl_active p) (dp_active d)\<rparr>"

definition change_policy :: "uuid \<Rightarrow> (discount_policy \<Rightarrow> discount_policy) \<Rightarrow> database \<Rightarrow> database" where
  "change_policy i f db = db\<lparr>db_policies := update_row dp_id i f (db_policies db)\<rparr>"

text \<open>A null for the maximal discount breaks the column's constraint.\<close>

definition update_discount_policy :: "uuid \<Rightarrow> policy_update \<Rightarrow> ('g world, uuid) effect" where
  "update_discount_policy i p =
     bind_eff (guard_eff (policy_update_ok p) ValidationError) (\<lambda>_.
     bind_eff (ask (\<lambda>w. get_discount_policy i (w_db w))) (\<lambda>_.
     bind_eff (guard_eff (pl_max_discount_pct p \<noteq> Some None) IntegrityError) (\<lambda>_.
     bind_eff (act (\<lambda>w. commit (on_db (change_policy i (updated_policy p)) w))) (\<lambda>_. answer i))))"

definition delete_discount_policy :: "uuid \<Rightarrow> ('g world, unit) effect" where
  "delete_discount_policy i =
     bind_eff (ask (\<lambda>w. get_discount_policy i (w_db w))) (\<lambda>_.
       act (\<lambda>w. commit (on_db (change_policy i (\<lambda>d. d\<lparr>dp_active := False\<rparr>)) w)))"

definition list_customer_tiers :: "bool \<Rightarrow> database \<Rightarrow> customer_tier list" where
  "list_customer_tiers active_only db =
     sort_key ct_rank (filter (\<lambda>t. active_only \<longrightarrow> ct_is_active t) (db_tiers db))"

definition create_customer_tier :: "customer_tier \<Rightarrow> ('g world, string) effect" where
  "create_customer_tier t =
     bind_eff (ask (\<lambda>w. raise_unless (find_row ct_code (ct_code t) (db_tiers (w_db w)) = None)
       (ConflictError ''TIER_EXISTS''))) (\<lambda>_.
     bind_eff (act (\<lambda>w. commit (on_db (\<lambda>db. db\<lparr>db_tiers := db_tiers db @ [t]\<rparr>) w))) (\<lambda>_. answer (ct_code t)))"

definition put_assignment :: "odoo_id \<Rightarrow> string \<Rightarrow> database \<Rightarrow> database" where
  "put_assignment p code db = db\<lparr>db_tier_assignments :=
     (if find_row cta_odoo_partner_id p (db_tier_assignments db) = None
      then db_tier_assignments db @ [\<lparr>cta_odoo_partner_id = p, cta_tier_code = code\<rparr>]
      else update_row cta_odoo_partner_id p (\<lambda>a. a\<lparr>cta_tier_code := code\<rparr>) (db_tier_assignments db))\<rparr>"

definition assign_customer_tier :: "odoo_id \<Rightarrow> string \<Rightarrow> ('g world, odoo_id) effect" where
  "assign_customer_tier p code =
     bind_eff (ask (\<lambda>w. option_or_raise (find_row ct_code code (db_tiers (w_db w))) NotFoundError)) (\<lambda>_.
     bind_eff (act (\<lambda>w. commit (on_db (put_assignment p code) w))) (\<lambda>_. answer p))"

definition get_customer_tier_assignment :: "odoo_id \<Rightarrow> database \<Rightarrow> exc + customer_tier_assignment" where
  "get_customer_tier_assignment p db =
     option_or_raise (find_row cta_odoo_partner_id p (db_tier_assignments db)) NotFoundError"

section \<open>Notifications\<close>

definition mark_notification_read :: "uuid \<Rightarrow> dealflow_user \<Rightarrow> ('g world, unit) effect" where
  "mark_notification_read i u w =
     (case mark_as_read i (u_odoo_user_id u) w of (success, w1) \<Rightarrow> if success then (Inr (), w1) else (Inl NotFoundError, w1))"

definition mark_all_notifications_read :: "dealflow_user \<Rightarrow> ('g world, nat) effect" where
  "mark_all_notifications_read u w = map_prod Inr id (mark_all_as_read (u_odoo_user_id u) w)"

section \<open>Jobs\<close>

datatype job_result = AlertsAffected nat | RecomputeDetails recompute_report | RulesGenerated nat

text \<open>The last job calls \<^verbatim>\<open>recommendation_service.mine_copurchase_pairings\<close>, which does not exist.\<close>

definition REGISTERED_JOBS :: "string list" where
  "REGISTERED_JOBS = [''detect_stalled_deals'', ''detect_discount_anomalies'', ''detect_slippage'',
     ''mine_upsell_pairings'']"

definition run_job :: "'g gateway \<Rightarrow> string \<Rightarrow> ('g world, job_result) effect" where
  "run_job gw name w =
     (if name = ''detect_stalled_deals''
      then map_prod (\<lambda>alerts. Inr (AlertsAffected (length alerts))) id (detect_stalled_deals 7 w)
      else if name = ''detect_discount_anomalies''
      then map_prod (\<lambda>rep. Inr (RecomputeDetails rep)) id (recompute_all_alerts gw w)
      else if name = ''detect_slippage''
      then map_prod (\<lambda>alerts. Inr (AlertsAffected (length alerts))) id (detect_delivery_slippages gw 0 w)
      else if name = ''mine_upsell_pairings'' then (Inl AttributeError, w)
      else (Inl ValueError, w))"

definition run_job_endpoint :: "'g gateway \<Rightarrow> string \<Rightarrow> ('g world, job_result) effect" where
  "run_job_endpoint gw name w =
     (case run_job gw name w of (Inl ValueError, w1) \<Rightarrow> (Inl NotFoundError, w1) | r \<Rightarrow> r)"

section \<open>The webhook\<close>

record odoo_event =
  ev_event_id :: string
  ev_event_type :: string
  ev_model :: "string option"
  ev_record_id :: "odoo_id option"
  ev_order_id :: "odoo_id option"

definition resolved_record_id :: "odoo_event \<Rightarrow> odoo_id" where
  "resolved_record_id e = (case id_or (ev_record_id e) (id_or (ev_order_id e) None) of None \<Rightarrow> 0 | Some i \<Rightarrow> i)"

definition resolved_model :: "odoo_event \<Rightarrow> string" where
  "resolved_model e = str_or (ev_model e) ''sale.order''"

text \<open>\<^verbatim>\<open>str.replace\<close> of a text by nothing, then \<^verbatim>\<open>strip\<close>.\<close>

function remove_text :: "string \<Rightarrow> string \<Rightarrow> string" where
  "remove_text m s = (case s of [] \<Rightarrow> []
     | c # cs \<Rightarrow> if m \<noteq> [] \<and> take (length m) s = m then remove_text m (drop (length m) s) else c # remove_text m cs)"
  by pat_completeness auto
termination by (relation "measure (\<lambda>(m, s). length s)") (auto simp: neq_Nil_conv)

declare remove_text.simps [simp del]

definition bearer_token :: "string option \<Rightarrow> string option" where
  "bearer_token authorization = (case authorization of None \<Rightarrow> None
     | Some a \<Rightarrow> if take 7 a = ''Bearer '' then Some (py_strip (remove_text ''Bearer '' a)) else None)"

text \<open>
  The signature of a request. Outside of the in-memory and the test mode a request needs the secret in
  one of the two headers, unless no secret is configured; inside, a header that is present must be right.
\<close>

definition live_mode :: "access_settings \<Rightarrow> bool" where
  "live_mode st = (st_DEALFLOW_ODOO_MODE st \<noteq> ''fake'' \<and> st_ENVIRONMENT st \<notin> {''test'', ''testing''})"

definition signature_ok :: "access_settings \<Rightarrow> string option \<Rightarrow> string option \<Rightarrow> bool" where
  "signature_ok st signature authorization =
     (let secret = st_ODOO_WEBHOOK_SECRET st; tok = bearer_token authorization in
      if live_mode st
      then secret = [] \<or> signature = Some secret \<or> tok = Some secret
      else (str_or signature [] = [] \<or> signature = Some secret) \<and> (str_or tok [] = [] \<or> tok = Some secret))"

definition new_processed_event :: "odoo_event \<Rightarrow> uuid option \<Rightarrow> instant \<Rightarrow> processed_event" where
  "new_processed_event e did now = \<lparr>pe_event_id = ev_event_id e, pe_source = ''ODOO'',
     pe_event_type = ev_event_type e, pe_deal_id = did, pe_received_at = now, pe_processed_at = now,
     pe_result = ''PROCESSED''\<rparr>"

text \<open>A cancellation is written to the journal as a confirmation.\<close>

definition event_journal :: "AuditEventType \<Rightarrow> deal \<Rightarrow> instant \<Rightarrow> database \<Rightarrow> database" where
  "event_journal ty d now = record_audit_event ty ''deal'' (Some (int (d_id d))) (Some (d_id d)) ''SYSTEM'' None None now"

definition dispatch_event :: "odoo_event \<Rightarrow> deal option \<Rightarrow> instant \<Rightarrow> database \<Rightarrow> database" where
  "dispatch_event e target now db =
     (case target of None \<Rightarrow> db
      | Some d \<Rightarrow>
          if resolved_model e \<noteq> ''sale.order'' then db
          else if mentions (ev_event_type e) ''cancel''
          then event_journal ORDER_CONFIRMED d now
                 (update_deal (d_id d) (\<lambda>d. d\<lparr>d_status := DealStatus.CANCELLED, d_last_activity_at := now\<rparr>) db)
          else event_journal DEAL_SYNCED d now (update_deal (d_id d) (\<lambda>d. d\<lparr>d_last_synced_at := now\<rparr>) db))"

definition record_event :: "odoo_event \<Rightarrow> instant \<Rightarrow> database \<Rightarrow> database" where
  "record_event e now db =
     (let target = find_deal_by_order (resolved_record_id e) db in
      dispatch_event e target now
        (db\<lparr>db_processed_events := db_processed_events db @ [new_processed_event e (map_option d_id target) now]\<rparr>))"

datatype event_status = DuplicateEvent | ProcessedEvent "uuid option"

definition handle_odoo_inbound_event ::
    "access_settings \<Rightarrow> string option \<Rightarrow> string option \<Rightarrow> odoo_event \<Rightarrow> ('g world, event_status) effect" where
  "handle_odoo_inbound_event st signature authorization e =
     bind_eff (guard_eff (signature_ok st signature authorization) UnauthorizedError) (\<lambda>_.
     bind_eff (ask (\<lambda>w. Inr (find_row pe_event_id (ev_event_id e) (db_processed_events (w_db w))))) (\<lambda>known.
       if known \<noteq> None then answer DuplicateEvent
       else bind_eff (ask (\<lambda>w. Inr (map_option d_id (find_deal_by_order (resolved_record_id e) (w_db w))))) (\<lambda>target.
            bind_eff (act (\<lambda>w. commit (on_db (record_event e (w_now w)) w))) (\<lambda>_.
            answer (ProcessedEvent target)))))"

end
