(* ===== verification/Services_Soundness.thy ===== *)
theory Services_Soundness
  imports Soundness Admin
begin

text \<open>
  One \<open>preserves\<close> lemma per remaining service, continuing \<open>Soundness\<close>: health and alerts, decisions,
  negotiation and confirmation, recommendations, administration, the webhook and the sign-in.
\<close>

section \<open>Health and alerts\<close>

lemma sound_world_calm:
  assumes w: "sound_world valid db0 w" and c: "calm (w_db w) db" and a: "alerts_ok db"
  shows "sound_world valid db0 (on_db (\<lambda>_. db) w)"
proof -
  have "governance_ok db" "deals_ok db"
    using w calm_governance_ok[OF c] calm_deals_ok[OF c] by (simp_all add: sound_world_def sound_def)
  moreover have "plan_trace (fst db0) (on_db (\<lambda>_. db) w)"
    using w calm_fulfillment_ok[OF c] calmD(3)[OF c]
    by (intro plan_trace_on_db plans_evolve_same) (auto simp: sound_world_def plan_trace_def)
  ultimately show ?thesis using w a calm_approved[OF c] by (simp add: sound_world_def sound_def)
qed

lemma sound_world_alerts: "sound_world valid db0 w \<Longrightarrow> alerts_ok (w_db w)"
  by (simp add: sound_world_def sound_def)

text \<open>A service whose result is its session with a calmer database, committed or not.\<close>

lemma on_db_same: "w' = w\<lparr>w_db := w_db w'\<rparr> \<Longrightarrow> w' = on_db (\<lambda>_. w_db w') w"
  by (simp add: on_db_def)

lemma preserves_calm:
  assumes "\<And>w. calm (w_db w) (w_db (snd (m w)))" and "\<And>w. alerts_ok (w_db w) \<Longrightarrow> alerts_ok (w_db (snd (m w)))"
    and "\<And>w. snd (m w) = on_db (\<lambda>_. w_db (snd (m w))) w \<or> snd (m w) = commit (on_db (\<lambda>_. w_db (snd (m w))) w)"
  shows "preserves (sound_world valid db0) m"
proof (rule preservesI)
  fix w assume w: "sound_world valid db0 w"
  have s: "sound_world valid db0 (on_db (\<lambda>_. w_db (snd (m w))) w)"
    by (rule sound_world_calm[OF w assms(1) assms(2)[OF sound_world_alerts[OF w]]])
  show "sound_world valid db0 (snd (m w))"
    using assms(3)[of w] s sound_world_commit[OF s] by (elim disjE) (erule ssubst, assumption)+
qed

lemma preserves_recompute: "preserves (sound_world valid db0) (recompute_deal_health gw d ji role)"
  by (rule preserves_calm)
     (auto simp: calm_recompute alerts_ok_recompute, auto simp: recompute_deal_health_def Let_def split_beta
        on_db_def split: sum.splits)

lemma preserves_detail: "preserves (sound_world valid db0) (get_deal_detail gw i)"
  using preserves_recompute[of valid db0 gw]
  by (auto simp: preserves_def get_deal_detail_def split_beta split: sum.splits)

lemma preserves_health_detail: "preserves (sound_world valid db0) (get_deal_health_detail gw i u)"
  unfolding get_deal_health_detail_def split_beta by (intro sound_intros preserves_recompute)

lemma preserves_workspace: "preserves (sound_world valid db0) (get_deal_workspace_bundle gw i)"
  unfolding get_deal_workspace_bundle_def split_beta by (intro sound_intros preserves_detail)

lemma calm_stalled_step: "calm (snd acc) (snd (stalled_step n now d acc))"
  by (cases acc) (simp add: stalled_step_def Let_def split_beta calm_raise calm_clear)

lemma calm_resolve_closed: "calm db (resolve_closed now a db)"
  unfolding resolve_closed_def by (rule calm_after[OF calm_event]) (simp_all add: update_alert_def)

lemma calm_stalled_pass: "calm db (snd (stalled_pass n now db))"
proof -
  let ?ds = "filter (\<lambda>d. d_status d \<in> set active_statuses) (db_deals db)"
  have "calm db (snd (fold (stalled_step n now) ?ds ([], db)))"
    using calm_fold_snd[where f = "stalled_step n now" and acc = "([], db)"] calm_stalled_step by (metis snd_conv)
  then show ?thesis
    unfolding stalled_pass_def split_beta snd_conv by (rule calm_trans) (rule calm_fold, rule calm_resolve_closed)
qed

lemma calm_slippage_step: "calm (snd acc) (snd (slippage_step gw g grace now d acc))"
  by (cases acc) (simp add: slippage_step_def Let_def split_beta calm_raise calm_clear)

lemma calm_slippage_pass: "calm db (snd (slippage_pass gw g grace now db))"
  unfolding slippage_pass_def
  using calm_fold_snd[where f = "slippage_step gw g grace now" and acc = "([], db)"] calm_slippage_step
  by (metis snd_conv)

lemma calm_anomaly_pass: "calm db (snd (anomaly_pass now db))"
proof -
  have "calm (snd acc) (snd (anomaly_step now d acc))" for d acc
    by (cases acc) (simp add: anomaly_step_def split_beta calm_anomaly)
  then show ?thesis unfolding anomaly_pass_def
    using calm_fold_snd[where f = "anomaly_step now" and acc = "(0, db)"] by (metis snd_conv)
qed

text \<open>A pass over the deals and its commit.\<close>

lemma sound_world_pass:
  assumes "sound_world valid db0 w" and "calm (w_db w) db" and "alerts_ok (w_db w) \<Longrightarrow> alerts_ok db"
  shows "sound_world valid db0 (commit (on_db (\<lambda>_. db) w))"
  by (intro sound_world_commit sound_world_calm[OF assms(1,2)] assms(3) sound_world_alerts[OF assms(1)])

lemma sound_world_stalled: "sound_world valid db0 w \<Longrightarrow> sound_world valid db0 (snd (detect_stalled_deals n w))"
  unfolding detect_stalled_deals_def split_beta snd_conv
  by (erule sound_world_pass) (simp_all add: calm_stalled_pass alerts_ok_stalled_pass)

lemma sound_world_slippage: "sound_world valid db0 w \<Longrightarrow> sound_world valid db0 (snd (detect_delivery_slippages gw n w))"
  unfolding detect_delivery_slippages_def split_beta snd_conv
  by (erule sound_world_pass) (simp_all add: calm_slippage_pass alerts_ok_slippage_pass)

lemma sound_world_recompute_all: "sound_world valid db0 w \<Longrightarrow> sound_world valid db0 (snd (recompute_all_alerts gw w))"
  unfolding recompute_all_alerts_def split_beta snd_conv
  by (rule sound_world_pass, rule sound_world_slippage, erule sound_world_stalled)
     (simp_all add: calm_anomaly_pass alerts_ok_anomaly_pass)

lemma preserves_jobs: "preserves (sound_world valid db0) (run_job_endpoint gw name)"
  "preserves (sound_world valid db0) (recompute_alerts_endpoint gw)"
  using sound_world_stalled[of valid db0 _ 7] sound_world_slippage[of valid db0 _ gw 0]
    sound_world_recompute_all[of valid db0 _ gw]
  by (auto simp: preserves_def run_job_endpoint_def run_job_def recompute_alerts_endpoint_def split_beta
      split: sum.splits exc.splits)

lemma calm_update_alert: "calm db (update_alert k f db)"
  by (simp add: calm_def update_alert_def)

lemma calm_notice: "calm db (alert_notice r t i now db)"
  by (simp add: calm_def alert_notice_def create_notification_def Let_def)

lemma preserves_alert_action: "preserves (sound_world valid db0) (alert_action_endpoint i action u)"
proof -
  have "preserves (sound_world valid db0) (acknowledge_alert i (u_odoo_user_id u))"
    by (rule preserves_calm)
       (auto simp: alerts_ok_acknowledge, auto simp: acknowledge_alert_def calm_update_alert on_db_def split: option.splits)
  moreover have "preserves (sound_world valid db0) (resolve_alert i (u_odoo_user_id u))"
    by (rule preserves_calm)
       (auto simp: alerts_ok_resolve, auto simp: resolve_alert_def on_db_def split: option.splits
          intro: calm_trans[OF calm_update_alert calm_audit])
  moreover have "preserves (sound_world valid db0) (nudge_or_escalate_alert i a (u_odoo_user_id u) (u_role u))" for a
    by (rule preserves_calm)
       (auto simp: alerts_ok_nudge, auto simp: nudge_or_escalate_alert_def Let_def on_db_def split: option.splits
          intro: calm_trans[OF _ calm_audit] calm_trans[OF calm_notice calm_update_alert]
            calm_trans[OF calm_update_alert calm_notice])
  ultimately show ?thesis by (cases action) (simp_all add: alert_action_endpoint_def)
qed

section \<open>Decisions\<close>

text \<open>What a decision leaves alone, apart from the requests and the approval states.\<close>

definition ledger :: "database \<Rightarrow> database \<Rightarrow> bool" where
  "ledger db db' = (db_sequences db' = db_sequences db \<and> db_plans db' = db_plans db
     \<and> db_plan_lines db' = db_plan_lines db \<and> db_profiles db' = db_profiles db \<and> db_alerts db' = db_alerts db
     \<and> map (\<lambda>d. (d_odoo_sale_order_id d, d_reference d)) (db_deals db') =
         map (\<lambda>d. (d_odoo_sale_order_id d, d_reference d)) (db_deals db)
     \<and> db_next_id db \<le> db_next_id db')"

lemma ledger_refl [intro!, simp]: "ledger db db"
  by (simp add: ledger_def)

lemma ledger_trans [trans]: "ledger a b \<Longrightarrow> ledger b c \<Longrightarrow> ledger a c"
  by (simp add: ledger_def)

lemma steady_ledger: "steady db db' \<Longrightarrow> ledger db db'"
proof -
  assume s: "steady db db'"
  have "map snd (map deal_view (db_deals db')) = map snd (map deal_view (db_deals db))"
    using s by (simp only: steady_def)
  then show "ledger db db'" using s by (simp add: steady_def ledger_def deal_view_def comp_def)
qed

lemma ledger_update_deal:
  "(\<And>d. d_odoo_sale_order_id (f d) = d_odoo_sale_order_id d \<and> d_reference (f d) = d_reference d) \<Longrightarrow>
     ledger db (update_deal i f db)"
  by (simp add: ledger_def) (simp add: update_deal_def update_row_def)

lemma ledger_after:
  assumes "ledger db db1"
  shows "ledger db (record_audit_event t et ei di ty ai ar now db1)" "ledger db (notify r t' i k now db1)"
    "ledger db (audit_decision ty' q d a now db1)" "ledger db (settle_deal st d now db1)"
    "ledger db (add_request i as l sq now db1)" "ledger db (update_request rid g db1)"
    "ledger db (add_action rid a ac reason now db1)"
    "(\<And>d. d_odoo_sale_order_id (f d) = d_odoo_sale_order_id d \<and> d_reference (f d) = d_reference d) \<Longrightarrow>
       ledger db (update_deal i f db1)"
  unfolding audit_decision_def settle_deal_def
  by (intro ledger_trans[OF assms] ledger_update_deal steady_ledger[OF steady_audit] steady_ledger[OF steady_notify];
      simp add: ledger_def add_request_def update_request_def add_action_def)+

lemma ledger_overlay: "ledger db (w_db w) \<Longrightarrow> ledger db (w_db (overlay gw d s l w))"
  by simp

lemma ledger_auto_confirm: "ledger db (w_db w) \<Longrightarrow> ledger db (w_db (auto_confirm gw d w))"
  unfolding auto_confirm_def by (auto simp: split_beta confirmed_deal_def intro!: ledger_after)

lemma ledger_finalize: "ledger db (w_db w) \<Longrightarrow> ledger db (w_db (finalize_approval gw r d w))"
  unfolding finalize_approval_def Let_def
  by (auto intro!: ledger_after ledger_auto_confirm)

lemma ledger_carry_out: "ledger db (w_db w) \<Longrightarrow> ledger db (w_db (carry_out gw action r d u reason w))"
  by (cases action)
     (auto simp: approve_request_def reject_request_def return_request_def escalate_request_def Let_def
        open_finance_stage_def intro!: ledger_after ledger_finalize)

text \<open>Only an approval approves.\<close>

lemma approved_frames:
  "approved (record_audit_event t et ei di ty ai ar now db) = approved db" "approved (notify r t' i k now db) = approved db"
  "approved (audit_decision ty' q d u now db) = approved db" "approved (update_request rid g db) = approved db"
  "approved (add_action rid u ac reason now db) = approved db"
  by (rule steady_approved[OF steady_audit], rule steady_approved[OF steady_notify])
     (simp_all add: audit_decision_def approved_def[of "update_request rid g db"] approved_def[of "add_action rid u ac reason now db"]
        update_request_def steady_approved[OF steady_audit], simp_all add: approved_def add_action_def)

lemma approved_settle: "st \<noteq> ApprovalState.APPROVED \<Longrightarrow> approved (settle_deal st d now db) \<subseteq> approved db"
  by (auto simp: approved_def settle_deal_def update_deal_def set_update_row)

lemma approved_carry_out:
  assumes "action \<noteq> APPROVE"
  shows "approved (w_db (carry_out gw action r d u reason w)) \<subseteq> approved (w_db w)"
  using assms approved_settle[of ApprovalState.REJECTED] approved_settle[of ApprovalState.RETURNED]
  by (cases action)
     (simp_all add: reject_request_def return_request_def escalate_request_def Let_def approved_frames
        order_trans[OF approved_settle])

context odoo_gateway
begin

lemma valid_overlay: "valid (w_odoo w) \<Longrightarrow> valid (w_odoo (overlay gw d s l w))"
  by (simp add: overlay_def governance_valid)

lemma valid_auto_confirm: "valid (w_odoo w) \<Longrightarrow> valid (w_odoo (auto_confirm gw d w))"
  by (simp add: auto_confirm_def split_beta confirm_valid)

lemma valid_carry_out: "valid (w_odoo w) \<Longrightarrow> valid (w_odoo (carry_out gw action r d u reason w))"
  by (cases action)
     (simp_all add: approve_request_def reject_request_def return_request_def escalate_request_def Let_def
        finalize_approval_def valid_overlay valid_auto_confirm)

lemma preserves_decide:
  assumes may: "action = APPROVE \<Longrightarrow> snd db0 = UNIV"
  shows "preserves (sound_world valid db0) (decide_approval_request gw i u action reason)"
proof (rule preservesI)
  fix w assume w: "sound_world valid db0 w"
  show "sound_world valid db0 (snd (decide_approval_request gw i u action reason w))"
  proof (cases "check_decision i u (w_db w)")
    case (Inr rd)
    let ?w1 = "on_db (add_action (ar_id (fst rd)) u action reason (w_now w)) w"
    let ?w2 = "carry_out gw action (fst rd) (snd rd) u reason ?w1"
    have run: "snd (decide_approval_request gw i u action reason w) = commit ?w2"
      by (simp add: decide_approval_request_def Inr Let_def split_beta)
    have "ledger (w_db w) (w_db ?w1)" by (simp add: ledger_after)
    from ledger_carry_out[OF this] have l: "ledger (w_db w) (w_db ?w2)" .
    have "governance_ok (w_db (commit ?w2))"
      using governance_ok_decide[of w gw i u action reason] w unfolding run by (simp add: sound_world_def sound_def)
    then have s: "sound (w_db ?w2)" using w l unfolding sound_def
      by (auto simp: ledger_def sound_world_def sound_def intro: deals_ok_cong[of "w_db w"] alerts_ok_cong[of "w_db w"])
    have "plan_trace (fst db0) (commit (on_db (\<lambda>_. w_db ?w2) w))"
      using w l by (intro plan_trace_commit plan_trace_on_db plans_evolve_same)
        (auto simp: ledger_def sound_world_def plan_trace_def intro: fulfillment_ok_cong[of "w_db w"])
    then have "plan_trace (fst db0) (commit ?w2)" by (simp add: plan_trace_def)
    moreover have "approved (w_db ?w2) \<subseteq> snd db0"
    proof (cases "action = APPROVE")
      case False
      from approved_carry_out[OF this, of gw "fst rd" "snd rd" u reason ?w1] w show ?thesis
        by (auto simp: sound_world_def approved_frames)
    qed (simp add: may)
    moreover have "valid (w_odoo ?w2)" by (rule valid_carry_out) (use w in \<open>simp add: sound_world_def\<close>)
    ultimately show ?thesis using s unfolding run by (simp add: sound_world_def)
  qed (use w in \<open>simp add: decide_approval_request_def\<close>)
qed

end

end
