(* ===== verification/Sessions.thy ===== *)
theory Sessions
  imports Access World_Fixture
begin

text \<open>
  Properties of \<open>Access\<close>: a magic link works once and lets its partner in, a login yields a token that
  names its user, and the tokens of the two audiences do not pass for each other.
\<close>

section \<open>Tokens\<close>

lemma decode_own:
  "library_ok lib \<Longrightarrow> decode_token lib st now (tl_encode lib (st_SECRET_KEY st) c) aud =
     (if cl_aud c = aud \<and> now div 10 ^ 6 \<le> cl_exp c then Inr c else Inl ValueError)"
  by (simp add: decode_token_def library_ok_def option_or_raise_def)

lemma audiences:
  assumes "library_ok lib"
  shows "get_current_user lib st (Some (create_portal_token lib st now p)) w = Inl UnauthorizedError"
    and "get_current_portal_user lib st (Some (create_access_token lib st now u)) w = Inl UnauthorizedError"
  by (simp_all add: get_current_user_def get_current_portal_user_def create_portal_token_def
      create_access_token_def decode_own[OF assms])

lemma portal_caller:
  assumes "library_ok lib" and "w_now w \<le> now + minutes (st_PORTAL_TOKEN_EXPIRE_MINUTES st)"
    and "\<And>u. user_by_partner p (w_db w) = Some u \<Longrightarrow> u_is_active u"
  shows "\<exists>u. get_current_portal_user lib st (Some (create_portal_token lib st now p)) w = Inr u \<and>
    u_partner_id u = Some p"
proof -
  have "w_now w div 10 ^ 6 \<le> (now + minutes (st_PORTAL_TOKEN_EXPIRE_MINUTES st)) div 10 ^ 6"
    using assms(2) by (simp add: zdiv_mono1)
  moreover have "user_by_partner p (w_db w) = Some u \<Longrightarrow> u_partner_id u = Some p" for u
    by (auto simp: user_by_partner_def find_Some_iff)
  ultimately show ?thesis using assms(3)
    by (cases "user_by_partner p (w_db w)")
       (auto simp: get_current_portal_user_def create_portal_token_def decode_own[OF assms(1)] id_or_def
          portal_proxy_def)
qed

lemma internal_caller:
  assumes "library_ok lib" and "w_now w \<le> now + minutes (st_ACCESS_TOKEN_EXPIRE_MINUTES st)"
    and "find_user (u_odoo_user_id u) (w_db w) = Some u" and "u_is_active u"
  shows "get_current_user lib st (Some (create_access_token lib st now u)) w = Inr u"
proof -
  have "w_now w div 10 ^ 6 \<le> (now + minutes (st_ACCESS_TOKEN_EXPIRE_MINUTES st)) div 10 ^ 6"
    using assms(2) by (simp add: zdiv_mono1)
  then show ?thesis using assms(3,4)
    by (simp add: get_current_user_def create_access_token_def decode_own[OF assms(1)])
qed

section \<open>Magic links\<close>

interpretation magic_links: row_store find_magic_link "\<lambda>h f db. db\<lparr>db_magic_links :=
    update_row ml_token_hash h f (db_magic_links db)\<rparr>" ml_token_hash
proof
  show "find_magic_link h db = Some m \<Longrightarrow> ml_token_hash m = h" for h db m
    unfolding find_magic_link_def by (drule find_row_Some) simp
qed (simp_all add: find_magic_link_def find_row_update_same find_row_update_other)

lemma find_row_replace:
  "find_row key (key u) rows \<noteq> None \<Longrightarrow> find_row key (key u) (update_row key (key u) (\<lambda>_. u) rows) = Some u"
  by (induction rows) (auto simp: find_row_def)

lemma created_link:
  assumes "create_magic_link lib st gw raw email partner deal ip w = (Inr (r, p), w')"
  shows "r = raw \<and> find_magic_link (tl_sha256 lib raw) (w_db w') = Some \<lparr>ml_odoo_partner_id = p,
      ml_token_hash = tl_sha256 lib raw,
      ml_expires_at = w_now w + minutes (st_PORTAL_TOKEN_EXPIRE_MINUTES st), ml_used_at = None,
      ml_deal_id = deal, ml_created_ip = ip\<rparr> \<and> w_saved w' = w_db w' \<and> w_now w' = w_now w"
  using assms
  by (auto simp: create_magic_link_def bind_eff_Inr_iff eff_Inr_iff find_magic_link_def add_magic_link_def
      find_row_append find_row_single)

lemma verified_link:
  assumes "find_magic_link (tl_sha256 lib raw) (w_db w) = Some m" and "ml_used_at m = None"
    and "w_now w \<le> ml_expires_at m"
  shows "verify_magic_link lib st gw raw w =
    (let w' = commit (on_db (use_magic_link (tl_sha256 lib raw) (w_now w)) w) in
     (Inr (magic_link_response lib st gw (ml_odoo_partner_id m) w'), w'))"
  using assms magic_links.lookup_key[OF assms(1)]
  by (simp add: verify_magic_link_def bind_eff_def ask_def act_def answer_def check_magic_link_def Let_def)

lemma used_link:
  assumes "verify_magic_link lib st gw raw w = (Inr resp, w1)"
  shows "\<exists>m. find_magic_link (tl_sha256 lib raw) (w_db w1) = Some m \<and> ml_used_at m = Some (w_now w)"
  using assms magic_links.lookup_key
  by (fastforce simp: verify_magic_link_def bind_eff_Inr_iff eff_Inr_iff check_magic_link_def bind_exc_Inr_iff
      use_magic_link_def magic_links.lookup_modify_same)

text \<open>
  C5: A magic link works once. After a verification that succeeded, a verification of the same raw
  token in any later state of the database that keeps the links is refused and changes nothing.
\<close>

theorem magic_link_single_use:
  assumes "verify_magic_link lib st gw raw w = (Inr resp, w1)"
    and "db_magic_links (w_db w2) = db_magic_links (w_db w1)"
  shows "verify_magic_link lib st gw raw w2 = (Inl UnauthorizedError, w2)"
proof -
  obtain m where "find_magic_link (tl_sha256 lib raw) (w_db w2) = Some m" "ml_used_at m = Some (w_now w)"
    using used_link[OF assms(1)] assms(2) by (auto simp: find_magic_link_def)
  then show ?thesis by (simp add: verify_magic_link_def bind_eff_def ask_def check_magic_link_def)
qed

text \<open>
  From the link to the portal and back to the partner. A link created for a partner (named by its
  identifier, or found by its e-mail address) is accepted until it expires, and the token it is
  exchanged for identifies, until the token expires in turn, a portal caller of that very partner.
\<close>

theorem magic_link_roundtrip:
  assumes lib: "library_ok lib"
    and created: "create_magic_link lib st gw raw email partner deal ip w = (Inr (r, p), w1)"
    and verified: "w_db w2 = w_db w1" "w_now w2 \<le> w_now w + minutes (st_PORTAL_TOKEN_EXPIRE_MINUTES st)"
    and used: "w_now w4 \<le> w_now w2 + minutes (st_PORTAL_TOKEN_EXPIRE_MINUTES st)"
    and active: "\<And>u. user_by_partner p (w_db w4) = Some u \<Longrightarrow> u_is_active u"
  shows "\<exists>resp w3 u. verify_magic_link lib st gw r w2 = (Inr resp, w3) \<and> tr_partner_id resp = Some p \<and>
    get_current_portal_user lib st (Some (tr_access_token resp)) w4 = Inr u \<and> u_partner_id u = Some p"
proof -
  let ?w3 = "commit (on_db (use_magic_link (tl_sha256 lib raw) (w_now w2)) w2)"
  have v: "verify_magic_link lib st gw raw w2 = (Inr (magic_link_response lib st gw p ?w3), ?w3)"
  proof -
    obtain m where "find_magic_link (tl_sha256 lib raw) (w_db w2) = Some m" "ml_used_at m = None"
        "ml_odoo_partner_id m = p" "w_now w2 \<le> ml_expires_at m"
      using created_link[OF created] verified by auto
    from verified_link[OF this(1,2,4), of st gw] this(3) show ?thesis by (simp add: Let_def)
  qed
  obtain u where u: "get_current_portal_user lib st (Some (create_portal_token lib st (w_now w2) p)) w4 = Inr u"
      "u_partner_id u = Some p"
    using portal_caller[OF lib used active] by blast
  have t: "tr_partner_id (magic_link_response lib st gw p ?w3) = Some p"
    "tr_access_token (magic_link_response lib st gw p ?w3) = create_portal_token lib st (w_now w2) p"
    by (simp_all add: magic_link_response_def)
  show ?thesis using v t u created_link[OF created] by auto
qed

text \<open>A concrete library: a token is the key with the claims, the hash is the token itself.\<close>

definition plain_library :: "(string \<times> token_claims) token_library" where
  "plain_library = \<lparr>tl_encode = Pair, tl_decode = (\<lambda>key tok aud now.
     if fst tok = key \<and> cl_aud (snd tok) = aud \<and> now div 10 ^ 6 \<le> cl_exp (snd tok) then Some (snd tok) else None),
     tl_sha256 = id\<rparr>"

lemma plain_library_ok: "library_ok plain_library"
  by (simp add: library_ok_def plain_library_def)

lemma small_link:
  "\<exists>w1. create_magic_link plain_library default_access_settings fake_gateway ''raw'' None (Some 7) None None
     (small_world (small_db [] [])) = (Inr (''raw'', 7), w1)"
  by (simp add: create_magic_link_def bind_eff_def ask_def act_def answer_def magic_link_partner_def id_or_def
      small_db_def empty_database_def find_magic_link_def find_row_def)

theorem magic_link_roundtrip_witness:
  "\<exists>w2 resp w3. verify_magic_link plain_library default_access_settings fake_gateway ''raw'' w2 = (Inr resp, w3) \<and>
     tr_partner_id resp = Some 7"
proof -
  obtain w1 where w1: "create_magic_link plain_library default_access_settings fake_gateway ''raw'' None (Some 7)
      None None (small_world (small_db [] [])) = (Inr (''raw'', 7), w1)"
    using small_link by blast
  have "w_now w1 = 5" "w_db w1 = w_db w1" using created_link[OF w1] by simp_all
  moreover have "user_by_partner 7 (w_db (small_world (small_db [] []))) = None"
    by (simp add: user_by_partner_def small_db_def empty_database_def)
  ultimately show ?thesis
    using magic_link_roundtrip[OF plain_library_ok w1, of w1 "small_world (small_db [] [])"]
    by (auto simp: minutes_def default_access_settings_def)
qed

theorem magic_link_single_use_witness:
  "\<exists>w. verify_magic_link plain_library default_access_settings fake_gateway ''raw'' w = (Inl UnauthorizedError, w)"
proof -
  obtain w1 where w1: "create_magic_link plain_library default_access_settings fake_gateway ''raw'' None (Some 7)
      None None (small_world (small_db [] [])) = (Inr (''raw'', 7), w1)"
    using small_link by blast
  have "\<exists>m. find_magic_link (tl_sha256 plain_library ''raw'') (w_db w1) = Some m \<and> ml_used_at m = None \<and>
      w_now w1 \<le> ml_expires_at m"
    using created_link[OF w1] by (auto simp: minutes_def default_access_settings_def)
  then obtain resp w2 where "verify_magic_link plain_library default_access_settings fake_gateway ''raw'' w1 =
      (Inr resp, w2)"
    using verified_link by (metis (no_types, lifting) prod.exhaust)
  from magic_link_single_use[OF this refl] show ?thesis by blast
qed

section \<open>Login\<close>

lemma put_user_found: "find_user (u_odoo_user_id u) (put_user u db) = Some u"
  using find_row_replace[of u_odoo_user_id u "db_users db"]
  by (cases "find_user (u_odoo_user_id u) db")
     (simp_all add: put_user_def find_user_def find_row_append find_row_single)

lemma sign_in_user:
  assumes "sign_in gw login password w = (Inr u, w')" and "gw_authenticate gw login password (w_odoo w) = Inr oi"
  shows "find_user (oi_uid oi) (w_db w') = Some u \<and> u_odoo_user_id u = oi_uid oi \<and> w_now w' = w_now w \<and>
    w_saved w' = w_db w'"
proof -
  have "u_odoo_user_id u = oi_uid oi \<and> w' = commit (on_db (put_user u) w)"
    using assms find_row_Some[of u_odoo_user_id "oi_uid oi" "db_users (w_db w)"]
    by (auto simp: sign_in_def upsert_user_def bind_eff_Inr_iff eff_Inr_iff new_user_def returning_user_def
        find_user_def Let_def split: option.splits if_splits)
  then show ?thesis using put_user_found[of u "w_db w"] by simp
qed

text \<open>
  C17: A login is its user. When Odoo knows the caller, a login that succeeds answers with the role and the
  identity of the user record it left for Odoo's user; the token of an internal user names exactly that
  record to the internal routes until it expires, and the portal refuses it; the token of a portal
  user is refused by the internal routes.
\<close>

theorem login_roundtrip:
  assumes lib: "library_ok lib" and oi: "gw_authenticate gw login password (w_odoo w) = Inr oi"
    and run: "authenticate_user lib st gw login password w = (Inr resp, w1)"
    and now: "w_db w2 = w_db w1" "w_now w2 \<le> w_now w + minutes (st_ACCESS_TOKEN_EXPIRE_MINUTES st)"
  shows "\<exists>u. find_user (oi_uid oi) (w_db w1) = Some u \<and> tr_odoo_user_id resp = oi_uid oi \<and>
    tr_is_portal resp = u_is_portal u \<and>
    (if u_is_portal u then get_current_user lib st (Some (tr_access_token resp)) w2 = Inl UnauthorizedError
     else tr_role resp = u_role u \<and> get_current_user lib st (Some (tr_access_token resp)) w2 = Inr u \<and>
       get_current_portal_user lib st (Some (tr_access_token resp)) w2 = Inl UnauthorizedError)"
proof -
  obtain u where u: "sign_in gw login password w = (Inr u, w1)" "u_is_active u"
      "resp = token_for lib st (w_now w1) u"
    using run by (auto simp: authenticate_user_def bind_eff_Inr_iff eff_Inr_iff)
  note s = sign_in_user[OF u(1) oi]
  have "\<not> u_is_portal u \<Longrightarrow>
      get_current_user lib st (Some (create_access_token lib st (w_now w) u)) w2 = Inr u"
    using s now u(2) by (intro internal_caller[OF lib]) simp_all
  then show ?thesis using s u(3) by (cases "u_is_portal u") (auto simp: token_for_def audiences[OF lib])
qed

text \<open>A representative who signs in for the first time.\<close>

definition rep_world :: "fake_state world" where
  "rep_world = (small_world (small_db [] []))\<lparr>w_odoo := (small_state 20)\<lparr>fk_users := [(''rep'',
     \<lparr>fu_uid = 4, fu_name = ''R'', fu_login = ''rep'', fu_password = ''pw'', fu_email = None, fu_groups = [],
      fu_is_share = False, fu_partner_id = None, fu_company_id = 1, fu_team_id = None\<rparr>)]\<rparr>\<rparr>"

lemma rep_login:
  "\<exists>oi resp w1. gw_authenticate fake_gateway ''rep'' ''pw'' (w_odoo rep_world) = Inr oi \<and> oi_uid oi = 4 \<and>
     authenticate_user plain_library default_access_settings fake_gateway ''rep'' ''pw'' rep_world = (Inr resp, w1) \<and>
     tr_role resp = SALES_REP \<and> \<not> tr_is_portal resp"
proof -
  have g: "gw_authenticate fake_gateway = fake_authenticate" by (simp add: fake_gateway_def)
  show ?thesis
    by (simp add: authenticate_user_def sign_in_def g fake_authenticate_def rep_world_def fake_identity_def
        upsert_user_def new_user_def initial_role_def is_portal_identity_def bind_eff_def ask_def act_def
        answer_def guard_eff_def find_user_def user_by_login_def find_row_def token_for_def small_db_def
        empty_database_def raise_unless_def)
qed

theorem login_roundtrip_witness:
  "\<exists>resp w1 u. authenticate_user plain_library default_access_settings fake_gateway ''rep'' ''pw'' rep_world =
       (Inr resp, w1) \<and>
     get_current_user plain_library default_access_settings (Some (tr_access_token resp)) (w1\<lparr>w_now := 6\<rparr>) = Inr u \<and>
     u_role u = SALES_REP"
proof -
  obtain oi resp w1 where r: "gw_authenticate fake_gateway ''rep'' ''pw'' (w_odoo rep_world) = Inr oi"
      "authenticate_user plain_library default_access_settings fake_gateway ''rep'' ''pw'' rep_world = (Inr resp, w1)"
      "tr_role resp = SALES_REP" "\<not> tr_is_portal resp"
    using rep_login by blast
  from login_roundtrip[OF plain_library_ok r(1,2), of "w1\<lparr>w_now := 6\<rparr>"] r(2-4) show ?thesis
    by (auto simp: minutes_def default_access_settings_def rep_world_def)
qed

end
