(* ===== verification/System.thy ===== *)
theory System
  imports Services_Soundness Sessions
begin

text \<open>
  The program as a whole: every request that changes the state, its dependencies and its session, and
  the runs of the server, in which requests, the clock and Odoo's own activity interleave. What the
  components keep holds along every run.
\<close>

section \<open>The remaining services\<close>

text \<open>Steps that write only tables no invariant speaks of.\<close>

lemma steady_tables:
  "steady db (db\<lparr>db_users := a db\<rparr>)" "steady db (db\<lparr>db_policies := b db\<rparr>)" "steady db (db\<lparr>db_tiers := c db\<rparr>)"
  "steady db (db\<lparr>db_tier_assignments := d db\<rparr>)" "steady db (db\<lparr>db_notifications := e db\<rparr>)"
  "steady db (db\<lparr>db_rules := f db\<rparr>)" "steady db (db\<lparr>db_magic_links := g db\<rparr>)"
  "steady db (db\<lparr>db_recommendations := h db\<rparr>)" "steady db (db\<lparr>db_negotiations := i db\<rparr>)"
  "steady db (db\<lparr>db_processed_events := j db\<rparr>)"
  by (simp_all add: steady_def)

lemma steady_negotiation: "steady db (update_negotiation k f db)"
  by (simp add: steady_def update_negotiation_def)

lemma steady_set_status: "steady db (set_deal_status i st db)" "steady db (set_request_status k rst db)"
  by (simp_all add: set_deal_status_def set_request_status_def steady_update_deal steady_negotiation)

lemma steady_chain: "steady db1 (f db1) \<Longrightarrow> steady db db1 \<Longrightarrow> steady db (f db1)"
  by (rule steady_trans)

context odoo_writes
begin

lemma preserves_write_lines: "preserves (sound_world valid db0) (write_lines gw oid cs)"
  unfolding write_lines_def by (intro sound_intros) (rule line_changes_valid)

lemma preserves_apply_change: "preserves (sound_world valid db0) (apply_change gw oid c)"
proof -
  have whole: "preserves (sound_world valid db0) (discount_whole_order gw oid v)" for v
    unfolding discount_whole_order_def by (intro sound_intros preserves_write_lines)
  have add: "preserves (sound_world valid db0) (bind_eff (odoo_call (gw_add_line gw oid p 1 0)) (\<lambda>_. answer ()))" for p
    by (intro sound_intros) (rule add_line_valid)
  show ?thesis
    unfolding apply_change_def Let_def
    by (auto split: option.splits intro!: sound_intros preserves_write_lines whole add)
qed

lemma preserves_respond: "preserves (sound_world valid db0) (respond_negotiation_request gw rid actor action msg counter)"
proof -
  have two: "steady db (set_deal_status i st (set_request_status k rst db))"
      "steady db (set_deal_status i st (update_negotiation k f db))" for db i st k rst f
    by (rule steady_trans[OF steady_set_status(2) steady_set_status(1)],
        rule steady_trans[OF steady_negotiation steady_set_status(1)])
  have "preserves (sound_world valid db0) (respond_action gw r d actor action counter)" for r d
    unfolding respond_action_def accept_changes_def
    by (intro sound_intros preserves_apply_change preserves_sync preserves_evaluate two steady_set_status)
  moreover have "steady db (record_response rid i actor now db)" for i now db
    unfolding record_response_def by (intro steady_after) simp
  ultimately show ?thesis
    unfolding respond_negotiation_request_def by (intro sound_intros steady_negotiation)
qed

lemma preserves_confirm_deal: "preserves (sound_world valid db0) (confirm_deal_by_customer gw i partner p)"
proof -
  have view: "preserves (sound_world valid db0) (get_deal_for_portal gw i partner)"
    unfolding get_deal_for_portal_def by (intro sound_intros)
  have "steady db (record_confirmation d partner now db)" "steady db (record_pending_confirmation d partner now db)"
    for d now db
    unfolding record_confirmation_def record_pending_confirmation_def customer_event_def
    by (intro steady_after; simp add: deal_view_def governance_view_def)+
  moreover have "sound_world valid db0 w \<Longrightarrow> sound_world valid db0 (snd (attempt (gw_confirm gw oid) w))" for w oid
    by (simp add: attempt_def split_beta) (rule sound_world_odoo, assumption, rule confirm_valid, simp add: sound_world_def)
  ultimately have "preserves (sound_world valid db0) (confirm_or_wait gw d partner)" for d
    unfolding confirm_or_wait_def by (intro sound_intros preserves_act)
  moreover have "preserves (sound_world valid db0) (confirmation_note k p)" for k
    unfolding confirmation_note_def by (intro sound_intros preserves_comment)
  ultimately show ?thesis
    unfolding confirm_deal_by_customer_def by (intro sound_intros view)
qed

lemma preserves_create: "preserves (sound_world valid db0) (create_deal_endpoint gw p u)"
  unfolding create_deal_endpoint_def
  by (intro sound_intros preserves_sync preserves_evaluate) (rule create_valid)

lemma preserves_payment: "preserves (sound_world valid db0) (record_invoice_payment gw i invoice amount u)"
  unfolding record_invoice_payment_def
  by (intro sound_intros steady_audit) (rule payment_valid)

lemma preserves_add_recommendation: "preserves (sound_world valid db0) (add_recommendation_to_deal_endpoint gw i k qty u)"
proof -
  have "steady db (added_recommendation j r now db)" for j r now db
    unfolding added_recommendation_def mark_recommendation_def by (intro steady_after steady_tables)
  moreover have "steady db (recommendation_event ty r j u now db)" for ty r j now db
    unfolding recommendation_event_def by (rule steady_audit)
  ultimately show ?thesis
    unfolding add_recommendation_to_deal_endpoint_def add_recommendation_def split_beta
    by (intro sound_intros preserves_sync preserves_evaluate preserves_detail) (rule add_line_valid)
qed

end

lemma preserves_patch: "preserves (sound_world valid db0) (patch_deal i p actor role)"
proof -
  have s: "steady db (update_deal i (patched p now) db)" for now db
    by (rule steady_update_deal) (simp add: patched_def deal_view_def governance_view_def)
  show ?thesis
  proof (rule preservesI)
    fix w assume w: "sound_world valid db0 w"
    have "sound_world valid db0 (on_db (deal_event LINE_CHANGED i actor role (w_now w))
        (commit (on_db (update_deal i (patched p (w_now w))) w)))"
      by (rule sound_world_steady, rule sound_world_commit, rule sound_world_steady[OF w], rule s, rule steady_deal_event)
    then show "sound_world valid db0 (snd (patch_deal i p actor role w))"
      using w by (simp add: patch_deal_def split: sum.splits)
  qed
qed

lemma preserves_send: "preserves (sound_world valid db0) (send_deal_endpoint i u)"
proof -
  have "steady db (update_deal i (\<lambda>d. d\<lparr>d_status := SENT, d_sent_at := Some now, d_last_activity_at := now\<rparr>) db)" for now db
    by (rule steady_update_deal) (simp add: deal_view_def governance_view_def)
  then show ?thesis unfolding send_deal_endpoint_def by (intro sound_intros steady_audit)
qed

lemma preserves_dismiss: "preserves (sound_world valid db0) (dismiss_recommendation_endpoint i k u)"
proof -
  have "steady db (dismissed_recommendation i k u now db)" for now db
    unfolding dismissed_recommendation_def mark_recommendation_def recommendation_event_def
    by (intro steady_after steady_tables)
  then show ?thesis unfolding dismiss_recommendation_endpoint_def by (intro sound_intros)
qed

lemma preserves_notifications:
  "preserves (sound_world valid db0) (mark_notification_read i u)"
  "preserves (sound_world valid db0) (mark_all_notifications_read u)"
proof -
  have s: "sound_world valid db0 w \<Longrightarrow> sound_world valid db0 (commit (w\<lparr>w_db := (w_db w)\<lparr>db_notifications := x\<rparr>\<rparr>))" for w x
    using sound_world_commit[OF sound_world_on_db[OF _ steady_tables(5)[where e = "\<lambda>_. x"]]]
    by (simp add: on_db_def)
  show "preserves (sound_world valid db0) (mark_notification_read i u)"
    "preserves (sound_world valid db0) (mark_all_notifications_read u)"
    by (auto simp: preserves_def mark_notification_read_def mark_as_read_def mark_all_notifications_read_def
        mark_all_as_read_def Let_def s split: option.splits)
qed

lemma preserves_administration:
  "preserves (sound_world valid db0) (update_user k up)"
  "preserves (sound_world valid db0) (create_discount_policy pol)"
  "preserves (sound_world valid db0) (update_discount_policy i pu)"
  "preserves (sound_world valid db0) (delete_discount_policy i)"
  "preserves (sound_world valid db0) (create_customer_tier t)"
  "preserves (sound_world valid db0) (assign_customer_tier partner code)"
proof -
  have "steady db (snd (db_next_id db, db\<lparr>db_policies := db_policies db @ [pol\<lparr>dp_id := db_next_id db\<rparr>],
      db_next_id := db_next_id db + 1\<rparr>))" for db
    by (simp add: steady_def)
  then show "preserves (sound_world valid db0) (update_user k up)"
    "preserves (sound_world valid db0) (create_discount_policy pol)"
    "preserves (sound_world valid db0) (update_discount_policy i pu)"
    "preserves (sound_world valid db0) (delete_discount_policy i)"
    "preserves (sound_world valid db0) (create_customer_tier t)"
    "preserves (sound_world valid db0) (assign_customer_tier partner code)"
    unfolding update_user_def create_discount_policy_def update_discount_policy_def delete_discount_policy_def
      create_customer_tier_def assign_customer_tier_def change_policy_def put_assignment_def
    by (intro sound_intros steady_tables; assumption)+
qed

lemma preserves_rules:
  "preserves (sound_world valid db0) (update_rule i ru)" "preserves (sound_world valid db0) (delete_rule i)"
  "preserves (sound_world valid db0) (mine_co_purchase_rules gw company)"
  "sound_world valid db0 w \<Longrightarrow> sound_world valid db0 (create_rule payload w)"
proof -
  have step: "sound_world valid db0 w \<Longrightarrow> steady (w_db w) (f (w_db w)) \<Longrightarrow> sound_world valid db0 (commit (on_db f w))"
    for f and w :: "'a world"
    by (rule sound_world_commit, rule sound_world_steady)
  have up: "steady db (upsert_rule company e db)" for e db
    by (auto simp: upsert_rule_def steady_def split: prod.splits option.splits)
  have mined: "steady db (fold (upsert_rule company) es db)" for es db
  proof (induction es arbitrary: db)
    case (Cons e es)
    show ?case unfolding fold_simps by (rule steady_trans[OF up Cons.IH])
  qed simp
  show "preserves (sound_world valid db0) (update_rule i ru)" "preserves (sound_world valid db0) (delete_rule i)"
    by (auto simp: preserves_def update_rule_def delete_rule_def steady_def intro!: step split: sum.splits)
  show "preserves (sound_world valid db0) (mine_co_purchase_rules gw company)"
    by (auto simp: preserves_def mine_co_purchase_rules_def intro!: step mined split: sum.splits)
  show "sound_world valid db0 w \<Longrightarrow> sound_world valid db0 (create_rule payload w)"
    unfolding create_rule_def by (rule step) (simp_all add: steady_def)
qed

lemma preserves_event: "preserves (sound_world valid db0) (handle_odoo_inbound_event st sg au e)"
proof -
  have disp: "steady db (dispatch_event e target now db1)" if "steady db db1" for db db1 target now
    using that unfolding dispatch_event_def event_journal_def
    by (auto split: option.splits intro!: steady_after simp: deal_view_def governance_view_def)
  have "steady db (record_event e now db)" for db now
    unfolding record_event_def Let_def by (rule disp) (rule steady_tables)
  then show ?thesis unfolding handle_odoo_inbound_event_def by (intro sound_intros)
qed

lemma preserves_sign_in: "preserves (sound_world valid db0) (authenticate_user lib st gw login password)"
proof -
  have "preserves (sound_world valid db0) (upsert_user login oi)" for oi
    unfolding upsert_user_def put_user_def by (intro sound_intros steady_tables)
  then have "preserves (sound_world valid db0) (sign_in gw login password)"
    by (auto simp: preserves_def sign_in_def split: sum.splits option.splits)
  then show ?thesis unfolding authenticate_user_def by (intro sound_intros)
qed

lemma preserves_magic_links:
  "preserves (sound_world valid db0) (create_magic_link lib st gw raw email partner deal ip)"
  "preserves (sound_world valid db0) (verify_magic_link lib st gw raw)"
  unfolding create_magic_link_def verify_magic_link_def add_magic_link_def use_magic_link_def
  by (intro sound_intros steady_tables)+

section \<open>Requests\<close>

text \<open>
  The requests that reach a service with an effect, by who may send them: anybody, a signed-in user of
  the sales application, a customer of the portal.
\<close>

datatype open_request =
    Login string string
  | RequestMagicLink string "string option" "odoo_id option" "uuid option" "string option"
  | VerifyMagicLink string
  | OdooEvent "string option" "string option" odoo_event

datatype staff_request =
    CreateDeal deal_create_direct
  | CreateFromOdoo odoo_id
  | SyncDeal uuid bool
  | PatchDeal uuid deal_patch_request
  | ApproveDeal uuid "string option"
  | RejectDeal uuid "string option"
  | ReturnDeal uuid "string option"
  | SendDeal uuid
  | PayInvoice uuid odoo_id rat
  | ViewDeal uuid
  | ViewWorkspace uuid
  | ViewHealth uuid
  | Evaluate "uuid option" "odoo_id option" TriggerType
  | Decide uuid ApprovalActionType "string option"
  | RespondOnDeal uuid negotiation_respond
  | Respond uuid negotiation_respond
  | Comment uuid string bool "odoo_id option"
  | ProposePlan uuid "string option"
  | AcceptPlan uuid "uuid option"
  | OverridePlan uuid "uuid option" "override_item list option" "override_item list option" string
  | ApplyPlan uuid "uuid option"
  | ConsolidatePlan uuid "uuid option"
  | CreateProfile odoo_id dec int int bool
  | UpdateProfile uuid profile_update
  | DeleteProfile uuid
  | AddRecommendation uuid uuid "dec option"
  | DismissRecommendation uuid uuid
  | CreateRule recommendation_rule
  | MineRules odoo_id
  | UpdateRule uuid rule_update
  | DeleteRule uuid
  | ActOnAlert uuid alert_action
  | RecomputeAlerts
  | RunJob string
  | UpdateUser odoo_id user_update
  | CreatePolicy discount_policy
  | UpdatePolicy uuid policy_update
  | DeletePolicy uuid
  | CreateTier customer_tier
  | AssignTier odoo_id string
  | ReadNotification uuid
  | ReadAllNotifications

datatype portal_request =
    SubmitNegotiation uuid negotiation_submit
  | ConfirmDeal uuid "portal_confirm_request option"
  | CommentDeal uuid string "odoo_id option"

text \<open>The roles a route asks for; an empty list where any active user may call.\<close>

fun required_roles :: "staff_request \<Rightarrow> Role list" where
  "required_roles (CreateProfile _ _ _ _ _) = [ADMIN]"
| "required_roles (UpdateProfile _ _) = [ADMIN]"
| "required_roles (DeleteProfile _) = [ADMIN]"
| "required_roles (CreateRule _) = [ADMIN, SALES_MANAGER]"
| "required_roles (MineRules _) = [ADMIN]"
| "required_roles (UpdateRule _ _) = [ADMIN, SALES_MANAGER]"
| "required_roles (DeleteRule _) = [ADMIN]"
| "required_roles (RunJob _) = [ADMIN, SALES_MANAGER]"
| "required_roles (UpdateUser _ _) = [ADMIN]"
| "required_roles (CreatePolicy _) = [ADMIN, Role.FINANCE, SALES_MANAGER]"
| "required_roles (UpdatePolicy _ _) = [ADMIN, Role.FINANCE]"
| "required_roles (DeletePolicy _) = [ADMIN, Role.FINANCE]"
| "required_roles (CreateTier _) = [ADMIN, Role.FINANCE]"
| "required_roles (AssignTier _ _) = [ADMIN, SALES_MANAGER, Role.FINANCE]"
| "required_roles _ = []"

text \<open>The requests that may approve a deal.\<close>

fun approves :: "staff_request \<Rightarrow> bool" where
  "approves (ApproveDeal i reason) = True"
| "approves (Decide k action reason) = (action = APPROVE)"
| "approves _ = False"

definition ignore :: "('w, 'a) effect \<Rightarrow> ('w, unit) effect" where
  "ignore m = bind_eff m (\<lambda>_. answer ())"

fun staff_step :: "'g gateway \<Rightarrow> staff_request \<Rightarrow> dealflow_user \<Rightarrow> ('g world, unit) effect" where
  "staff_step gw (CreateDeal p) u = ignore (create_deal_endpoint gw p u)"
| "staff_step gw (CreateFromOdoo oid) u = ignore (create_deal_from_odoo gw oid u)"
| "staff_step gw (SyncDeal i force) u = ignore (sync_deal_endpoint gw i force u)"
| "staff_step gw (PatchDeal i p) u = ignore (patch_deal_endpoint i p u)"
| "staff_step gw (ApproveDeal i reason) u = ignore (approve_deal_endpoint gw i reason u)"
| "staff_step gw (RejectDeal i reason) u = ignore (reject_deal_endpoint gw i reason u)"
| "staff_step gw (ReturnDeal i reason) u = ignore (return_deal_endpoint gw i reason u)"
| "staff_step gw (SendDeal i) u = ignore (send_deal_endpoint i u)"
| "staff_step gw (PayInvoice i invoice amount) u = ignore (record_invoice_payment gw i invoice amount u)"
| "staff_step gw (ViewDeal i) u = ignore (get_deal_detail gw i)"
| "staff_step gw (ViewWorkspace i) u = ignore (get_deal_workspace_bundle gw i)"
| "staff_step gw (ViewHealth i) u = ignore (get_deal_health_detail gw i u)"
| "staff_step gw (Evaluate did oid trig) u = ignore (evaluate_deal_endpoint gw did oid trig u)"
| "staff_step gw (Decide k action reason) u = ignore (decide_approval_request gw k u action reason)"
| "staff_step gw (RespondOnDeal k p) u = ignore (respond_deal_negotiation gw k u p)"
| "staff_step gw (Respond k p) u = ignore (respond_to_negotiation gw k u p)"
| "staff_step gw (Comment i body internal line) u = ignore (add_deal_comment i body internal line u)"
| "staff_step gw (ProposePlan i strategy) u = ignore (propose_fulfillment_plan gw i strategy)"
| "staff_step gw (AcceptPlan i pid) u = ignore (accept_plan_endpoint i pid u)"
| "staff_step gw (OverridePlan i pid allocs ls reason) u = ignore (override_plan_endpoint gw i pid allocs ls reason u)"
| "staff_step gw (ApplyPlan i pid) u = ignore (apply_plan_endpoint gw i pid u)"
| "staff_step gw (ConsolidatePlan i pid) u = ignore (consolidate_endpoint gw i pid u)"
| "staff_step gw (CreateProfile wid weight prio lead active) u = ignore (create_warehouse_profile wid weight prio lead active)"
| "staff_step gw (UpdateProfile k p) u = ignore (update_warehouse_profile k p)"
| "staff_step gw (DeleteProfile k) u = ignore (delete_warehouse_profile k)"
| "staff_step gw (AddRecommendation i k qty) u = ignore (add_recommendation_to_deal_endpoint gw i k qty u)"
| "staff_step gw (DismissRecommendation i k) u = ignore (dismiss_recommendation_endpoint i k u)"
| "staff_step gw (CreateRule payload) u = act (create_rule payload)"
| "staff_step gw (MineRules company) u = ignore (mine_co_purchase_rules gw company)"
| "staff_step gw (UpdateRule k p) u = ignore (update_rule k p)"
| "staff_step gw (DeleteRule k) u = ignore (delete_rule k)"
| "staff_step gw (ActOnAlert k action) u = ignore (alert_action_endpoint k action u)"
| "staff_step gw RecomputeAlerts u = ignore (recompute_alerts_endpoint gw)"
| "staff_step gw (RunJob name) u = ignore (run_job_endpoint gw name)"
| "staff_step gw (UpdateUser k p) u = ignore (update_user k p)"
| "staff_step gw (CreatePolicy p) u = ignore (create_discount_policy p)"
| "staff_step gw (UpdatePolicy k p) u = ignore (update_discount_policy k p)"
| "staff_step gw (DeletePolicy k) u = ignore (delete_discount_policy k)"
| "staff_step gw (CreateTier t) u = ignore (create_customer_tier t)"
| "staff_step gw (AssignTier partner code) u = ignore (assign_customer_tier partner code)"
| "staff_step gw (ReadNotification k) u = ignore (mark_notification_read k u)"
| "staff_step gw ReadAllNotifications u = ignore (mark_all_notifications_read u)"

fun portal_step :: "'g gateway \<Rightarrow> portal_request \<Rightarrow> dealflow_user \<Rightarrow> ('g world, unit) effect" where
  "portal_step gw (SubmitNegotiation i p) u = ignore (submit_portal_negotiation i p u)"
| "portal_step gw (ConfirmDeal i p) u = ignore (confirm_portal_deal gw i p u)"
| "portal_step gw (CommentDeal i body line) u = ignore (add_portal_public_comment i body line u)"

fun open_step ::
    "'t token_library \<Rightarrow> access_settings \<Rightarrow> 'g gateway \<Rightarrow> open_request \<Rightarrow> ('g world, unit) effect" where
  "open_step lib st gw (Login login password) = ignore (authenticate_user lib st gw login password)"
| "open_step lib st gw (RequestMagicLink raw email partner deal ip) =
     ignore (create_magic_link lib st gw raw email partner deal ip)"
| "open_step lib st gw (VerifyMagicLink raw) = ignore (verify_magic_link lib st gw raw)"
| "open_step lib st gw (OdooEvent sg au e) = ignore (handle_odoo_inbound_event st sg au e)"

datatype 't request = Open open_request | Staff "'t option" staff_request | Portal "'t option" portal_request

fun approving :: "'t request \<Rightarrow> bool" where
  "approving (Staff auth r) = approves r"
| "approving _ = False"

definition staff_caller ::
    "'t token_library \<Rightarrow> access_settings \<Rightarrow> staff_request \<Rightarrow> 't option \<Rightarrow> 'g world \<Rightarrow> exc + dealflow_user" where
  "staff_caller lib st r auth = (if required_roles r = [] then get_current_active_user lib st auth
     else require_roles lib st (required_roles r) auth)"

fun route :: "'t token_library \<Rightarrow> access_settings \<Rightarrow> 'g gateway \<Rightarrow> 't request \<Rightarrow> ('g world, unit) effect" where
  "route lib st gw (Open r) = open_step lib st gw r"
| "route lib st gw (Staff auth r) = bind_eff (ask (staff_caller lib st r auth)) (staff_step gw r)"
| "route lib st gw (Portal auth r) = bind_eff (ask (get_current_portal_user lib st auth)) (portal_step gw r)"

definition serve :: "'t token_library \<Rightarrow> access_settings \<Rightarrow> 'g gateway \<Rightarrow> 't request \<Rightarrow> ('g world, unit) effect" where
  "serve lib st gw r = get_db (route lib st gw r)"

section \<open>Runs\<close>

text \<open>
  The server answers a request, time passes, or Odoo changes by itself, to any state that is valid for
  its gateway.
\<close>

inductive system_step ::
    "'t token_library \<Rightarrow> access_settings \<Rightarrow> 'g gateway \<Rightarrow> ('g \<Rightarrow> bool) \<Rightarrow> 'g world \<Rightarrow> 'g world \<Rightarrow> bool"
  for lib st gw valid where
  request: "serve lib st gw r w = (result, w') \<Longrightarrow> system_step lib st gw valid w w'"
| clock: "w_now w \<le> t \<Longrightarrow> system_step lib st gw valid w (w\<lparr>w_now := t\<rparr>)"
| odoo: "valid g \<Longrightarrow> system_step lib st gw valid w (w\<lparr>w_odoo := g\<rparr>)"

abbreviation runs ::
    "'t token_library \<Rightarrow> access_settings \<Rightarrow> 'g gateway \<Rightarrow> ('g \<Rightarrow> bool) \<Rightarrow> 'g world \<Rightarrow> 'g world \<Rightarrow> bool" where
  "runs lib st gw valid \<equiv> (system_step lib st gw valid)\<^sup>*\<^sup>*"

lemma preserves_ignore: "preserves P m \<Longrightarrow> preserves P (ignore m)"
  unfolding ignore_def by (intro preserves_intros)

context odoo_writes
begin

lemma preserves_first_pending:
  "(action = APPROVE \<Longrightarrow> snd db0 = UNIV) \<Longrightarrow> preserves (sound_world valid db0) (decide_first_pending gw i action reason u)"
  unfolding decide_first_pending_def by (intro sound_intros preserves_decide)

lemma preserves_staff:
  assumes may: "approves r \<Longrightarrow> snd db0 = UNIV"
  shows "preserves (sound_world valid db0) (staff_step gw r u)"
proof (cases r)
  case (CreateRule payload)
  then show ?thesis by (simp add: preserves_act preserves_rules(4))
next
  case (ApproveDeal i reason)
  then have "snd db0 = UNIV" using may by simp
  then show ?thesis unfolding ApproveDeal staff_step.simps approve_deal_endpoint_def
    by (intro preserves_ignore sound_intros preserves_first_pending)
next
  case (Decide k action reason)
  then have "action = APPROVE \<Longrightarrow> snd db0 = UNIV" using may by simp
  then show ?thesis unfolding Decide staff_step.simps by (intro preserves_ignore preserves_decide)
next
  case (RejectDeal i reason)
  show ?thesis unfolding RejectDeal staff_step.simps reject_deal_endpoint_def
    by (intro preserves_ignore sound_intros preserves_first_pending) simp
next
  case (ReturnDeal i reason)
  show ?thesis unfolding ReturnDeal staff_step.simps return_deal_endpoint_def
    by (intro preserves_ignore sound_intros preserves_first_pending) simp
qed (simp_all, unfold create_deal_from_odoo_def sync_deal_endpoint_def patch_deal_endpoint_def
      evaluate_deal_endpoint_def respond_deal_negotiation_def respond_to_negotiation_def add_deal_comment_def
      accept_plan_endpoint_def override_plan_endpoint_def apply_plan_endpoint_def consolidate_endpoint_def,
    (intro preserves_ignore sound_intros preserves_create preserves_sync preserves_patch
      preserves_send preserves_payment preserves_detail preserves_workspace preserves_health_detail
      preserves_evaluate preserves_respond preserves_comment preserves_sound_propose
      preserves_sound_accept preserves_sound_override preserves_sound_apply preserves_sound_consolidate
      preserves_sound_profiles preserves_add_recommendation preserves_dismiss preserves_rules
      preserves_alert_action preserves_jobs preserves_administration preserves_notifications)+)

lemma preserves_serve:
  assumes may: "approving r \<Longrightarrow> snd db0 = UNIV"
  shows "preserves (sound_world valid db0) (serve lib st gw r)"
proof -
  have "preserves (sound_world valid db0) (portal_step gw q u)" for q u
    by (cases q)
       (simp_all add: submit_portal_negotiation_def confirm_portal_deal_def add_portal_public_comment_def
          preserves_ignore preserves_submit preserves_confirm_deal preserves_comment)
  moreover have "preserves (sound_world valid db0) (open_step lib st gw q)" for q
    by (cases q) (simp_all add: preserves_ignore preserves_sign_in preserves_magic_links preserves_event)
  ultimately have "preserves (sound_world valid db0) (route lib st gw r)"
    using preserves_staff may by (cases r) (simp_all add: preserves_bind preserves_ask)
  then show ?thesis unfolding serve_def by (rule preserves_get_db)
qed

lemma sound_step:
  assumes "system_step lib st gw valid w w'" and "sound_world valid (db0, UNIV) w"
  shows "sound_world valid (db0, UNIV) w'"
  using assms(1)
proof cases
  case (request r result)
  have "preserves (sound_world valid (db0, UNIV)) (serve lib st gw r)" by (rule preserves_serve) simp
  from preservesD[OF this assms(2)] request show ?thesis by simp
qed (use assms(2) in \<open>simp_all add: sound_world_def plan_trace_def\<close>)

lemma sound_runs: "runs lib st gw valid w w' \<Longrightarrow> sound_world valid (db0, UNIV) w \<Longrightarrow> sound_world valid (db0, UNIV) w'"
  by (induction rule: rtranclp_induct) (auto intro: sound_step)

text \<open>A deal that a request leaves approved, and that was not approved before, was approved by a decision.\<close>

lemma new_approval_request:
  assumes run: "serve lib st gw r w = (result, w')" and s: "sound_world valid (db0, UNIV) w"
    and new: "i \<in> approved (w_db w')" "i \<notin> approved (w_db w)" "i \<notin> approved (w_saved w)"
  shows "approving r"
proof (rule ccontr)
  assume "\<not> approving r"
  then have "preserves (sound_world valid (db0, - {i})) (serve lib st gw r)" by (intro preserves_serve) simp
  moreover have "sound_world valid (db0, - {i}) w" using s new(2,3) by (auto simp: sound_world_def)
  ultimately show False using new(1) preservesD run by (fastforce simp: sound_world_def)
qed

end

section \<open>What holds along every run\<close>

text \<open>The server's start: an empty database, and any valid Odoo.\<close>

definition started :: "('g \<Rightarrow> bool) \<Rightarrow> 'g world \<Rightarrow> bool" where
  "started valid w = (w_db w = empty_database \<and> w_saved w = empty_database \<and> valid (w_odoo w))"

lemma started_sound:
  assumes "started valid w"
  shows "sound_world valid (empty_database, UNIV) w"
proof -
  have "governance_ok empty_database" by (simp add: governance_ok_def empty_database_def)
  moreover have "deals_ok empty_database" by (simp add: deals_ok_def empty_database_def next_value_def find_row_def)
  moreover have "alerts_ok empty_database" by (simp add: alerts_ok_def opens_def empty_database_def)
  moreover have "fulfillment_ok empty_database" by (simp add: fulfillment_ok_def proposed_def empty_database_def)
  ultimately show ?thesis using assms by (simp add: started_def sound_world_def sound_def plan_trace_def)
qed

lemma sessions_settled:
  assumes "runs lib st gw valid w w'" and "w_saved w = w_db w"
  shows "w_saved w' = w_db w'"
  using assms
proof (induction rule: rtranclp_induct)
  case (step w1 w2)
  from step(2) show ?case
  proof cases
    case (request r result)
    then show ?thesis unfolding serve_def using get_db_settled[of "route lib st gw r" w1] by simp
  qed (use step in simp_all)
qed

section \<open>Who approves\<close>

lemma approved_found:
  assumes "governance_ok db"
  shows "i \<in> approved db \<longleftrightarrow> (\<exists>d. find_deal i db = Some d \<and> d_approval_state d = ApprovalState.APPROVED)"
proof
  assume "i \<in> approved db"
  then obtain d where d: "d \<in> set (db_deals db)" "d_id d = i" "d_approval_state d = ApprovalState.APPROVED"
    by (auto simp: approved_def)
  obtain e where e: "find_deal i db = Some e"
    using d by (cases "find_deal i db") (auto simp: find_deal_def find_row_None)
  have "e = d" using governance_okD(2)[OF assms] find_deal_in[OF e] d by (auto simp: distinct_map dest: inj_onD)
  with e d(3) show "\<exists>d. find_deal i db = Some d \<and> d_approval_state d = ApprovalState.APPROVED" by blast
next
  assume "\<exists>d. find_deal i db = Some d \<and> d_approval_state d = ApprovalState.APPROVED"
  then show "i \<in> approved db" using find_deal_in by (force simp: approved_def)
qed

lemma approved_finalize: "approved (w_db (finalize_approval gw r d w)) \<subseteq> insert (d_id d) (approved (w_db w))"
proof -
  have u: "approved (update_deal (d_id d) (\<lambda>d. d\<lparr>d_approval_state := ApprovalState.APPROVED,
      d_approved_assessment_id := x, d_last_activity_at := t\<rparr>) db) \<subseteq> insert (d_id d) (approved db)" for x t db
    by (auto simp: approved_def update_deal_def set_update_row)
  have c: "approved (w_db (auto_confirm gw d w1)) = approved (w_db w1)" for w1 :: "'a world"
    by (rule approved_cong) simp
  show ?thesis unfolding finalize_approval_def Let_def using u by (simp add: approved_frames c)
qed

lemma approved_approve:
  "approved (w_db (approve_request gw r d u reason w)) \<subseteq>
     (if d_required_level d = MANAGER_AND_FINANCE \<and> ar_required_level r = ''SALES_MANAGER'' then approved (w_db w)
      else insert (d_id d) (approved (w_db w)))"
proof -
  have add: "approved (add_request i a l sq now db) = approved db" for i a l sq now db by (simp add: approved_def)
  have "approved (open_finance_stage r d now db) \<subseteq> approved db" for now db
    unfolding open_finance_stage_def approved_frames
    using approved_settle[of PENDING_FINANCE d now "add_request (d_id d) (ar_risk_assessment_id r) ''FINANCE'' 2 now db"]
    by (simp add: add)
  then have stage: "approved (open_finance_stage r d (w_now w) db) \<subseteq> approved db" for db .
  let ?w = "on_db (\<lambda>db. audit_decision APPROVAL_APPROVED r d u (w_now w) (update_request (ar_id r)
      (decided ApprovalRequestStatus.APPROVED (w_now w) (u_odoo_user_id u) reason) db)) w"
  have "approved (w_db ?w) = approved (w_db w)" by (simp add: approved_frames)
  then show ?thesis
    using approved_finalize[of gw r d ?w] stage[of "w_db ?w"] by (simp add: approve_request_def Let_def)
qed

definition may_approve :: "dealflow_user \<Rightarrow> deal \<Rightarrow> approval_request \<Rightarrow> bool" where
  "may_approve u d q = (d_owner_odoo_user_id d \<noteq> u_odoo_user_id u \<and> role_may_decide (u_role u) (ar_required_level q)
     \<and> (d_required_level d = MANAGER_AND_FINANCE \<longrightarrow> ar_required_level q \<noteq> ''SALES_MANAGER''))"

lemma decide_approves:
  assumes run: "decide_approval_request gw k u action reason w = (Inr x, w')"
    and new: "i \<in> approved (w_db w')" "i \<notin> approved (w_db w)"
  shows "\<exists>q d. q \<in> set (pending_requests i (w_db w)) \<and> find_deal i (w_db w) = Some d \<and> may_approve u d q"
proof -
  obtain q d where c: "check_decision k u (w_db w) = Inr (q, d)"
    using run by (auto simp: decide_approval_request_def split: sum.splits)
  note f = check_decision_Inr[OF c]
  have w': "w' = commit (carry_out gw action q d u reason (on_db (add_action (ar_id q) u action reason (w_now w)) w))"
    using run c by (simp add: decide_approval_request_def Let_def)
  have a: "action = APPROVE"
    using approved_carry_out[of action gw q d u reason "on_db (add_action (ar_id q) u action reason (w_now w)) w"] new
    unfolding w' by (auto simp: approved_frames)
  have "i = d_id d \<and> \<not> (d_required_level d = MANAGER_AND_FINANCE \<and> ar_required_level q = ''SALES_MANAGER'')"
    using approved_approve[of gw q d u reason "on_db (add_action (ar_id q) u action reason (w_now w)) w"] new
    unfolding w' a by (auto simp: approved_frames split: if_splits)
  moreover have "q \<in> set (db_requests (w_db w))" "d_id d = ar_deal_id q"
    using f find_request_in find_deal_in by blast+
  ultimately show ?thesis using f
    by (intro exI[of _ q] exI[of _ d]) (auto simp: pending_requests_def is_pending_def may_approve_def)
qed

lemma decide_cases:
  obtains e where "decide_approval_request gw k u action reason w = (Inl e, w)"
  | x w1 where "decide_approval_request gw k u action reason w = (Inr x, w1)"
  by (cases "check_decision k u (w_db w)") (auto simp: decide_approval_request_def Let_def)

lemma approving_step:
  assumes "approves body" and step: "staff_step gw body u w = (res, w1)"
  shows "isl res \<and> w1 = w \<or> (\<exists>k action reason x. decide_approval_request gw k u action reason w = (Inr x, w1))"
  using assms(1)
proof (cases body)
  case (Decide k action reason)
  show ?thesis
    by (rule decide_cases[of gw k u action reason w]) (use step Decide in \<open>auto simp: ignore_def answer_def\<close>)
next
  case (ApproveDeal i reason)
  show ?thesis
  proof (cases "get_deal_by_id (w_db w) i")
    case (Inr d)
    show ?thesis
    proof (cases "first_pending (d_id d) (w_db w)")
      case (Some q)
      show ?thesis
        by (rule decide_cases[of gw "ar_id q" u APPROVE reason w])
           (use step ApproveDeal Inr Some in \<open>auto simp: ignore_def approve_deal_endpoint_def decide_first_pending_def
              bind_eff_def ask_def guard_eff_def answer_def raise_unless_def split: if_splits\<close>)
    qed (use step ApproveDeal Inr in \<open>auto simp: ignore_def approve_deal_endpoint_def decide_first_pending_def
        bind_eff_def ask_def guard_eff_def raise_unless_def split: if_splits\<close>)
  qed (use step ApproveDeal in \<open>auto simp: ignore_def approve_deal_endpoint_def bind_eff_def ask_def\<close>)
qed simp_all

lemma approvals_decided:
  assumes run: "serve lib st fake_gateway r w = (result, w')"
    and s: "sound_world fake_ok (db0, UNIV) w" and settled: "w_saved w = w_db w"
    and new: "i \<in> approved (w_db w')" "i \<notin> approved (w_db w)"
  shows "\<exists>auth body u q d. r = Staff auth body \<and> approves body \<and> get_current_active_user lib st auth w = Inr u \<and>
    q \<in> set (pending_requests i (w_db w)) \<and> find_deal i (w_db w) = Some d \<and> may_approve u d q"
proof -
  have "approving r"
    by (rule fake_writes.new_approval_request[OF run s new]) (use new settled in simp)
  then obtain auth body where r: "r = Staff auth body" "approves body" by (cases r) auto
  have roles: "staff_caller lib st body auth = get_current_active_user lib st auth"
    using r(2) by (cases body) (auto simp: staff_caller_def)
  have w': "w_db w' = (case route lib st fake_gateway r w of (Inl e, w1) \<Rightarrow> w_saved w1 | (Inr x, w1) \<Rightarrow> w_db w1)"
    using run by (auto simp: serve_def get_db_def split: prod.splits sum.splits)
  obtain u where u: "get_current_active_user lib st auth w = Inr u"
    using w' new settled by (cases "get_current_active_user lib st auth w")
      (auto simp: r(1) roles bind_eff_def ask_def)
  obtain res w1 where step: "staff_step fake_gateway body u w = (res, w1)" by force
  have route: "route lib st fake_gateway r w = (res, w1)" using u step by (simp add: r(1) roles bind_eff_def ask_def)
  from approving_step[OF r(2) step] obtain k action reason x where
      d: "decide_approval_request fake_gateway k u action reason w = (Inr x, w1)"
    using w' new settled by (auto simp: route split: sum.splits)
  have "w_saved w1 = w_db w1" using d by (auto simp: decide_approval_request_def Let_def split: sum.splits)
  then have "i \<in> approved (w_db w1)" using w' new(1) by (cases res) (simp_all add: route)
  from decide_approves[OF d this new(2)] show ?thesis using r u by blast
qed

section \<open>The life cycle of a plan\<close>

text \<open>The abstract machine: a plan is proposed, then moves; no other status ever appears.\<close>

definition plan_status :: "uuid \<Rightarrow> database \<Rightarrow> FulfillmentPlanStatus option" where
  "plan_status pid db = map_option fp_status (find_row fp_id pid (db_plans db))"

inductive plan_step :: "FulfillmentPlanStatus option \<Rightarrow> FulfillmentPlanStatus option \<Rightarrow> bool" where
  propose: "plan_step None (Some PROPOSED)"
| move: "plan_move st st' \<Longrightarrow> plan_step (Some st) (Some st')"

lemma plan_moves_steps: "plan_move\<^sup>*\<^sup>* st st' \<Longrightarrow> plan_step\<^sup>*\<^sup>* (Some st) (Some st')"
  by (induction rule: rtranclp_induct) (auto intro: plan_step.move rtranclp.rtrancl_into_rtrancl)

lemma plan_step_more:
  assumes "plan_step\<^sup>*\<^sup>* x (Some st)" and "plan_move st st'"
  shows "plan_step\<^sup>*\<^sup>* x (Some st')"
  using assms(1) plan_step.move[OF assms(2)] by (rule rtranclp.rtrancl_into_rtrancl)

lemma reachable_status:
  assumes "st \<noteq> FulfillmentPlanStatus.CANCELLED"
  shows "plan_step\<^sup>*\<^sup>* None (Some st)"
proof -
  have a: "plan_step\<^sup>*\<^sup>* None (Some PROPOSED)" by (rule r_into_rtranclp) (rule plan_step.propose)
  have b: "plan_step\<^sup>*\<^sup>* None (Some s)" if "plan_move PROPOSED s" for s
    using a that by (rule plan_step_more)
  have "plan_step\<^sup>*\<^sup>* None (Some FulfillmentPlanStatus.APPLIED)"
    by (rule plan_step_more[OF b[OF plan_move.accept]]) (rule plan_move.apply_plan, simp)
  then show ?thesis
    using assms a b[OF plan_move.accept] b[OF plan_move.supersede] b[OF plan_move.override] by (cases st) auto
qed

lemma evolve_steps:
  assumes e: "plans_evolve db db'" and ok: "fulfillment_ok db'"
  shows "plan_step\<^sup>*\<^sup>* (plan_status pid db) (plan_status pid db')"
proof (cases "find_row fp_id pid (db_plans db)")
  case None
  show ?thesis
  proof (cases "find_row fp_id pid (db_plans db')")
    case (Some p)
    then have "p \<in> set (db_plans db')" using find_row_Some by metis
    then have "fp_status p \<noteq> FulfillmentPlanStatus.CANCELLED" using ok by (auto simp: fulfillment_ok_def)
    then show ?thesis using None Some reachable_status by (simp add: plan_status_def)
  qed (simp add: None plan_status_def)
next
  case (Some p)
  then have p: "p \<in> set (db_plans db)" "fp_id p = pid" using find_row_Some by metis+
  obtain p' where p': "p' \<in> set (db_plans db')" "fp_id p' = pid" "plan_move\<^sup>*\<^sup>* (fp_status p) (fp_status p')"
    using e p unfolding plans_evolve_def by metis
  obtain q where q: "find_row fp_id pid (db_plans db') = Some q"
    using p' by (cases "find_row fp_id pid (db_plans db')") (auto simp: find_row_None)
  have "q \<in> set (db_plans db')" "fp_id q = pid" using find_row_Some[OF q] by simp_all
  then have "q = p'" using p' ok by (auto simp: fulfillment_ok_def distinct_map dest: inj_onD)
  then show ?thesis using Some q plan_moves_steps[OF p'(3)] by (simp add: plan_status_def)
qed

lemma runs_refine:
  assumes "started fake_ok w0" and "runs lib st fake_gateway fake_ok w0 w" and "runs lib st fake_gateway fake_ok w w'"
  shows "plan_step\<^sup>*\<^sup>* (plan_status pid (w_db w)) (plan_status pid (w_db w'))"
proof -
  have s: "sound_world fake_ok (empty_database, UNIV) w"
    by (rule fake_writes.sound_runs[OF assms(2) started_sound[OF assms(1)]])
  have "w_saved w = w_db w" by (rule sessions_settled[OF assms(2)]) (use assms(1) in \<open>simp add: started_def\<close>)
  then have "sound_world fake_ok (w_db w, UNIV) w" using s by (simp add: sound_world_def plan_trace_def)
  from fake_writes.sound_runs[OF assms(3) this] show ?thesis
    by (intro evolve_steps) (simp_all add: sound_world_def plan_trace_def)
qed

end
