(* ===== verification/Run_Fixture.thy ===== *)
theory Run_Fixture
  imports System
begin

text \<open>
  Concrete runs of \<open>System\<close>: a sales manager who approves the deal of \<open>World_Fixture\<close> through the route of the
  approvals, and a server that starts, signs a representative in, takes an order over as a deal and plans its delivery.
\<close>

definition manager_world :: "fake_state world" where
  "manager_world = small_world ((small_db [small_deal PENDING_MANAGER MANAGER]
     [new_request 3 6 2 ''SALES_MANAGER'' 1 0])\<lparr>db_users := [small_user 7 SALES_MANAGER],
        db_sequences := [\<lparr>ns_key = ''DEAL'', ns_next_value = 1002\<rparr>]\<rparr>)"

definition manager_approves :: "(string \<times> token_claims) request" where
  "manager_approves = Staff (Some (create_access_token plain_library default_access_settings 0
     (small_user 7 SALES_MANAGER))) (ApproveDeal 6 None)"

lemma manager_db:
  "db_requests (w_db manager_world) = [new_request 3 6 2 ''SALES_MANAGER'' 1 0]"
  "db_deals (w_db manager_world) = [small_deal PENDING_MANAGER MANAGER]"
  "db_users (w_db manager_world) = [small_user 7 SALES_MANAGER]"
  "db_alerts (w_db manager_world) = []" "db_plans (w_db manager_world) = []"
  "db_plan_lines (w_db manager_world) = []" "db_profiles (w_db manager_world) = []"
  "db_sequences (w_db manager_world) = [\<lparr>ns_key = ''DEAL'', ns_next_value = 1002\<rparr>]"
  "db_next_id (w_db manager_world) = 10" "w_now manager_world = 5"
  by (simp_all add: manager_world_def small_db_def empty_database_def)

lemma manager_found:
  "find_deal 6 (w_db manager_world) = Some (small_deal PENDING_MANAGER MANAGER)"
  "find_request 3 (w_db manager_world) = Some (new_request 3 6 2 ''SALES_MANAGER'' 1 0)"
  by (simp_all add: find_deal_def find_request_def manager_db)

lemma manager_pending:
  "pending_requests 6 (w_db manager_world) = [new_request 3 6 2 ''SALES_MANAGER'' 1 0]"
  by (simp add: pending_requests_def manager_db is_pending_def)

lemma manager_sound: "sound (w_db manager_world)"
proof -
  have "d_reference (small_deal PENDING_MANAGER MANAGER) = reference_text ''D'' 1001"
    unfolding small_deal_def by code_simp
  then have "deals_ok (w_db manager_world)"
    by (auto simp: deals_ok_def manager_db next_value_def find_row_def intro!: exI[of _ 1001])
  moreover have "governance_ok (w_db manager_world)"
    using manager_pending by (simp add: governance_ok_def manager_db deal_governed_def)
  moreover have "alerts_ok (w_db manager_world)" by (simp add: alerts_ok_def opens_def manager_db)
  ultimately show ?thesis by (simp add: sound_def)
qed

lemma manager_known:
  "get_current_active_user plain_library default_access_settings
     (Some (create_access_token plain_library default_access_settings 0 (small_user 7 SALES_MANAGER)))
     manager_world = Inr (small_user 7 SALES_MANAGER)"
  by (simp add: get_current_active_user_def get_current_user_def decode_token_def plain_library_def
      create_access_token_def option_or_raise_def minutes_def default_access_settings_def find_user_def
      manager_db find_row_def small_user_def)

lemma manager_run:
  obtains w' e where "serve plain_library default_access_settings fake_gateway manager_approves manager_world =
      (Inr (), w')" and "find_deal 6 (w_db w') = Some e" and "d_approval_state e = ApprovalState.APPROVED"
proof -
  let ?u = "small_user 7 SALES_MANAGER" and ?r = "new_request 3 6 2 ''SALES_MANAGER'' 1 0"
  let ?d = "small_deal PENDING_MANAGER MANAGER"
  have c: "check_decision 3 ?u (w_db manager_world) = Inr (?r, ?d)"
    by (simp add: check_decision_def role_may_decide_def manager_found)
  have f: "first_pending 6 (w_db manager_world) = Some ?r"
    by (simp add: first_pending_def manager_pending)
  obtain x where d: "decide_approval_request fake_gateway 3 ?u APPROVE None manager_world = (x, commit
      (approve_request fake_gateway ?r ?d ?u None (on_db (add_action 3 ?u APPROVE None 5) manager_world)))" "\<not> isl x"
    using c by (simp add: decide_approval_request_def Let_def manager_db)
  have "get_deal_by_id (w_db manager_world) 6 = Inr ?d" by (simp add: get_deal_by_id_def manager_found)
  then have s: "serve plain_library default_access_settings fake_gateway manager_approves manager_world =
      (Inr (), commit (commit (approve_request fake_gateway ?r ?d ?u None
         (on_db (add_action 3 ?u APPROVE None 5) manager_world))))"
    using d manager_known f
    by (cases x) (simp_all add: serve_def manager_approves_def staff_caller_def get_db_def bind_eff_def ask_def ignore_def
        approve_deal_endpoint_def guard_eff_def raise_unless_def decide_first_pending_def option_or_raise_def answer_def)
  show ?thesis
    by (rule that[OF s], simp add: approve_request_def Let_def finalize_approval_def find_deal_audit
        deals.lookup_modify overlay_def manager_found, simp)
qed

section \<open>A run from the empty database\<close>

text \<open>
  A run from the empty database: a representative signs in, Odoo changes, the representative takes an order
  of Odoo over as a deal and asks for a plan of its delivery.
\<close>

definition rep_odoo :: fake_state where
  "rep_odoo = (small_state 20)\<lparr>fk_users := [(''rep'', \<lparr>fu_uid = 4, fu_name = ''R'', fu_login = ''rep'', fu_password = ''pw'',
     fu_email = None, fu_groups = [], fu_is_share = False, fu_partner_id = None, fu_company_id = 1, fu_team_id = None\<rparr>)]\<rparr>"

definition start_world :: "fake_state world" where
  "start_world = \<lparr>w_db = empty_database, w_saved = empty_database, w_odoo = rep_odoo, w_now = 0\<rparr>"

definition rep_user :: dealflow_user where
  "rep_user = \<lparr>u_odoo_user_id = 4, u_login = ''rep'', u_name = ''R'', u_role = SALES_REP, u_sales_team_odoo_id = None,
     u_is_portal = False, u_partner_id = None, u_is_active = True, u_last_login_at = Some 0\<rparr>"

definition rep_token :: "(string \<times> token_claims) option" where
  "rep_token = Some (create_access_token plain_library default_access_settings 0 rep_user)"

definition signed_in :: "fake_state world" where
  "signed_in = (let db = empty_database\<lparr>db_users := [rep_user]\<rparr> in \<lparr>w_db = db, w_saved = db, w_odoo = rep_odoo, w_now = 0\<rparr>)"

lemma rep_signs_in:
  "serve plain_library default_access_settings fake_gateway (Open (Login ''rep'' ''pw'')) start_world = (Inr (), signed_in)"
proof -
  have g: "gw_authenticate fake_gateway = fake_authenticate" by (simp add: fake_gateway_def)
  show ?thesis
    by (simp add: serve_def get_db_def ignore_def authenticate_user_def sign_in_def g fake_authenticate_def start_world_def fake_identity_def
        upsert_user_def new_user_def initial_role_def is_portal_identity_def bind_eff_def ask_def act_def
        answer_def guard_eff_def find_user_def user_by_login_def find_row_def token_for_def 
        empty_database_def raise_unless_def rep_odoo_def signed_in_def rep_user_def commit_def put_user_def on_db_def Let_def)
qed

definition ready_world :: "fake_state world" where
  "ready_world = signed_in\<lparr>w_odoo := small_state 20\<rparr>"

lemma ready_simps [simp]:
  "w_db ready_world = empty_database\<lparr>db_users := [rep_user]\<rparr>" "w_odoo ready_world = small_state 20" "w_now ready_world = 0"
  by (simp_all add: ready_world_def signed_in_def Let_def)

lemma rep_known:
  "db_users (w_db w) = [rep_user] \<Longrightarrow> w_now w = 0 \<Longrightarrow>
     get_current_active_user plain_library default_access_settings rep_token w = Inr rep_user"
  by (simp add: get_current_active_user_def get_current_user_def decode_token_def plain_library_def rep_token_def
      create_access_token_def option_or_raise_def minutes_def default_access_settings_def find_user_def find_row_def rep_user_def)

lemma ready_context: "build_deal_context (empty_database\<lparr>db_users := us\<rparr>) gw g now i did = build_deal_context empty_database gw g now i did"
  by (rule build_context_cong) simp_all

lemma empty_rows: "db_deals empty_database = []" "db_users empty_database = []" "db_plans empty_database = []" 
  "db_next_id empty_database = 1" "db_sequences empty_database = []" "db_plan_lines empty_database = []" "db_profiles empty_database = []"
  by (simp_all add: empty_database_def)

definition taken_deal :: deal where
  "taken_deal = (new_deal 1 (reference_text ''D'' 1001) (small_context None) 0)"

lemma rep_takes_over:
  obtains w where "serve plain_library default_access_settings fake_gateway (Staff rep_token (CreateFromOdoo 1)) ready_world = (Inr (), w)"
    and "db_deals (w_db w) = [taken_deal]" and "db_users (w_db w) = [rep_user]" and "db_plans (w_db w) = []"
    and "db_plan_lines (w_db w) = []" and "db_profiles (w_db w) = []"
    and "w_saved w = w_db w" and "w_odoo w = small_state 20" and "w_now w = 0"
proof -
  let ?w = "snd (serve plain_library default_access_settings fake_gateway (Staff rep_token (CreateFromOdoo 1)) ready_world)"
  have f: "find_deal_by_order 1 (w_db ready_world) = None" by (simp add: find_deal_by_order_def empty_rows find_row_def)
  have s: "sync_deal_from_odoo fake_gateway 1 None a r ready_world =
      (case insert_deal (small_context None) 0 (w_db ready_world) of (i, db1) \<Rightarrow>
         (Inr i, on_db (deal_event DEAL_CREATED i a r 0) (commit (on_db (\<lambda>_. db1) ready_world))))" for a r
    using f by (simp add: sync_deal_from_odoo_def Let_def ready_context build_small)
  show ?thesis
    by (rule that[of ?w])
      (simp_all add: serve_def get_db_def bind_eff_def ask_def staff_caller_def rep_known ignore_def create_deal_from_odoo_def s
        insert_deal_def get_next_sequence_def ensure_sequence_def next_value_def find_row_def empty_rows Let_def split_beta
        deal_event_def record_audit_event_def touch_deal_def update_deal_def update_row_def taken_deal_def new_deal_def on_db_def commit_def answer_def)
qed

lemma taken_simps [simp]: "d_id taken_deal = 1" "d_odoo_sale_order_id taken_deal = 1"
  by (simp_all add: taken_deal_def new_deal_def small_context_def)

lemma rep_plans:
  assumes "db_deals (w_db w) = [taken_deal]" and "db_users (w_db w) = [rep_user]" and "db_plans (w_db w) = []"
    and "db_profiles (w_db w) = []" and "w_odoo w = small_state 20" and "w_now w = 0"
  obtains w' p where "serve plain_library default_access_settings fake_gateway (Staff rep_token (ProposePlan 1 None)) w = (Inr (), w')"
    and "db_plans (w_db w') = [p]" and "fp_status p = PROPOSED"
proof -
  obtain ro where ro: "gw_get_sale_order fake_gateway 1 (small_state 20) = Inr ro" "ro_lines ro \<noteq> []"
    using small_read by (auto simp: fake_gateway_def)
  obtain ps where ps: "gw_get_products fake_gateway (remdups (map rol_product_id (ro_lines ro))) (small_state 20) = Inr ps"
    by (simp add: fake_gateway_def fake_get_products_def)
  let ?w = "commit w"
  obtain calc where c: "plan_for_order fake_gateway ro ps None ?w = Inr calc" using fake_plan_total by blast
  have "gw_get_warehouses fake_gateway (small_state 20) = Inr []"
    by (simp add: fake_gateway_def fake_get_warehouses_def small_state_def)
  then have e: "ensure_profiles fake_gateway w = (Inr (), ?w)"
    using assms by (simp add: ensure_profiles_def active_profiles_def bind_eff_def odoo_read_def store_default_profiles_def on_db_def)
  have f: "get_deal_by_id (w_db w) 1 = Inr taken_deal"
    using assms(1) by (simp add: get_deal_by_id_def find_deal_def find_row_def option_or_raise_def)
  let ?w' = "snd (serve plain_library default_access_settings fake_gateway (Staff rep_token (ProposePlan 1 None)) w)"
  have "db_plans (w_db ?w') = [new_plan (db_next_id (w_db w)) taken_deal calc 0]"
    "fst (serve plain_library default_access_settings fake_gateway (Staff rep_token (ProposePlan 1 None)) w) = Inr ()"
    using assms ro ps c e f rep_known[OF assms(2,6)]
    by (simp_all add: serve_def get_db_def bind_eff_def ask_def staff_caller_def ignore_def propose_fulfillment_plan_def plan_and_record_def
        odoo_read_def guard_eff_def raise_unless_def draw_def act_def answer_def split_beta record_proposal_def store_plan_def
        record_audit_event_def touch_deal_def update_deal_def Let_def on_db_def)
  then show ?thesis by (intro that[of ?w' "new_plan (db_next_id (w_db w)) taken_deal calc 0"]) (simp_all add: prod_eq_iff new_plan_def)
qed

lemma rep_odoo_ok: "fake_ok rep_odoo"
  using small_state_ok by (simp add: rep_odoo_def fake_ok_def fake_order_ok_def)

lemma rep_started: "started fake_ok start_world"
  by (simp add: started_def start_world_def rep_odoo_ok)

lemma rep_ready: "runs plain_library default_access_settings fake_gateway fake_ok start_world ready_world"
proof -
  have "system_step plain_library default_access_settings fake_gateway fake_ok start_world signed_in"
    by (rule system_step.request[OF rep_signs_in])
  moreover have "system_step plain_library default_access_settings fake_gateway fake_ok signed_in ready_world"
    unfolding ready_world_def by (rule system_step.odoo) (rule small_state_ok)
  ultimately show ?thesis by (meson rtranclp.rtrancl_refl rtranclp.rtrancl_into_rtrancl)
qed

text \<open>The whole run: after the third step there is one deal, after the fourth one plan.\<close>

lemma rep_run:
  obtains w w' pid where "runs plain_library default_access_settings fake_gateway fake_ok start_world w"
    and "runs plain_library default_access_settings fake_gateway fake_ok w w'"
    and "db_deals (w_db w) = [taken_deal]" and "plan_status pid (w_db w) = None" and "plan_status pid (w_db w') = Some PROPOSED"
proof -
  obtain w where w: "serve plain_library default_access_settings fake_gateway (Staff rep_token (CreateFromOdoo 1)) ready_world = (Inr (), w)"
      "db_deals (w_db w) = [taken_deal]" "db_users (w_db w) = [rep_user]" "db_plans (w_db w) = []"
      "db_profiles (w_db w) = []" "w_odoo w = small_state 20" "w_now w = 0"
    by (rule rep_takes_over)
  obtain w' p where p: "serve plain_library default_access_settings fake_gateway (Staff rep_token (ProposePlan 1 None)) w = (Inr (), w')"
      "db_plans (w_db w') = [p]" "fp_status p = PROPOSED"
    by (rule rep_plans[OF w(2-7)])
  show ?thesis
  proof (rule that)
    show "runs plain_library default_access_settings fake_gateway fake_ok start_world w"
      using rep_ready system_step.request[OF w(1)] by (rule rtranclp.rtrancl_into_rtrancl)
    show "runs plain_library default_access_settings fake_gateway fake_ok w w'"
      using system_step.request[OF p(1)] by (rule r_into_rtranclp)
    show "plan_status (fp_id p) (w_db w) = None" "plan_status (fp_id p) (w_db w') = Some PROPOSED"
      by (simp_all add: plan_status_def w(4) p find_row_def)
  qed (rule w(2))
qed

end
