(* ===== verification/Webhooks.thy ===== *)
theory Webhooks
  imports Admin World_Fixture
begin

text \<open>
  What the webhook of Odoo (definitions in \<open>Admin\<close>) guarantees: an event is taken once, an event with a bad
  signature is not taken at all, and an event changes the one deal it is about.
\<close>

section \<open>The header\<close>

lemma remove_text_bearer: "remove_text ''Bearer '' (''Bearer '' @ tok) = remove_text ''Bearer '' tok"
  by (simp add: remove_text.simps)

lemma live_signature:
  assumes "live_mode st" and "st_ODOO_WEBHOOK_SECRET st \<noteq> []"
  shows "signature_ok st signature authorization \<longleftrightarrow>
    signature = Some (st_ODOO_WEBHOOK_SECRET st) \<or> bearer_token authorization = Some (st_ODOO_WEBHOOK_SECRET st)"
  using assms by (simp add: signature_ok_def Let_def)

text \<open>Without a secret, or outside of live mode when the request carries no signature, anybody may call.\<close>

lemma unsigned_event_accepted:
  "st_ODOO_WEBHOOK_SECRET st = [] \<or> \<not> live_mode st \<Longrightarrow> signature_ok st None None"
  by (auto simp: signature_ok_def Let_def bearer_token_def str_or_def)

section \<open>The effect of an event\<close>

lemma event_journal_frame [simp]:
  "db_processed_events (event_journal ty d now db) = db_processed_events db"
  "find_deal i (event_journal ty d now db) = (if i = d_id d
     then map_option (\<lambda>d. d\<lparr>d_last_activity_at := now\<rparr>) (find_deal i db) else find_deal i db)"
  by (simp_all add: event_journal_def find_deal_audit) (simp add: record_audit_event_def touch_deal_def update_deal_def Let_def)

lemma dispatch_event_frame [simp]:
  "db_processed_events (dispatch_event e target now db) = db_processed_events db"
  by (auto simp: dispatch_event_def update_deal_def split: option.split)

lemma dispatched_deal:
  assumes "find_deal i db = Some d"
  shows "\<exists>d'. find_deal i (dispatch_event e target now db) = Some d' \<and>
    d_status d' = (if map_option d_id target = Some i \<and> resolved_model e = ''sale.order'' \<and>
        mentions (ev_event_type e) ''cancel'' then DealStatus.CANCELLED else d_status d) \<and>
    (map_option d_id target \<noteq> Some i \<longrightarrow> d' = d) \<and>
    d_approval_state d' = d_approval_state d \<and> d_version d' = d_version d \<and>
    d_amount_total_cache d' = d_amount_total_cache d"
  using assms by (cases target) (auto simp: dispatch_event_def deals.lookup_modify)

lemma find_deal_events [simp]: "find_deal i (db\<lparr>db_processed_events := evs\<rparr>) = find_deal i db"
  by (simp add: find_deal_def)

lemma handled_event:
  assumes "handle_odoo_inbound_event st signature authorization e w = (Inr r, w')"
  shows "ev_event_id e \<in> pe_event_id ` set (db_processed_events (w_db w'))"
proof (cases "find_row pe_event_id (ev_event_id e) (db_processed_events (w_db w))")
  case None
  have "w' = commit (on_db (record_event e (w_now w)) w)"
    using assms None by (auto simp: handle_odoo_inbound_event_def bind_eff_def ask_def act_def guard_eff_def answer_def
        raise_unless_def split: if_splits)
  then show ?thesis by (simp add: record_event_def Let_def new_processed_event_def)
next
  case (Some p)
  then have "w' = w"
    using assms by (auto simp: handle_odoo_inbound_event_def bind_eff_def ask_def act_def guard_eff_def answer_def
        raise_unless_def split: if_splits)
  then show ?thesis using find_row_Some[OF Some] by force
qed

text \<open>
  C15: An event is handled once. After an event was accepted, an event with the same identifier that
  arrives in any later state which keeps the events recorded by then - with whatever content, at whatever
  time - is answered as a duplicate and changes nothing, and with a signature that is not accepted it is
  refused and changes nothing.
\<close>

theorem webhook_once:
  assumes "handle_odoo_inbound_event st sig1 auth1 e w = (Inr r, w1)"
    and "set (db_processed_events (w_db w1)) \<subseteq> set (db_processed_events (w_db w2))"
    and "ev_event_id e2 = ev_event_id e"
  shows "handle_odoo_inbound_event st sig2 auth2 e2 w2 =
    (if signature_ok st sig2 auth2 then Inr DuplicateEvent else Inl UnauthorizedError, w2)"
proof -
  have "ev_event_id e2 \<in> pe_event_id ` set (db_processed_events (w_db w2))"
    using handled_event[OF assms(1)] assms(2,3) by auto
  then have "find_row pe_event_id (ev_event_id e2) (db_processed_events (w_db w2)) \<noteq> None"
    by (simp add: find_row_None)
  then show ?thesis
    by (simp add: handle_odoo_inbound_event_def bind_eff_def ask_def guard_eff_def raise_unless_def answer_def)
qed

definition cancel_event :: odoo_event where
  "cancel_event = \<lparr>ev_event_id = ''e1'', ev_event_type = ''order.cancelled'', ev_model = None,
     ev_record_id = Some 1, ev_order_id = None\<rparr>"

lemma cancel_accepted:
  "\<exists>r w1. handle_odoo_inbound_event default_access_settings None None cancel_event (small_world awaiting_db) = (Inr r, w1)"
proof -
  have "\<not> live_mode default_access_settings" by (simp add: live_mode_def default_access_settings_def)
  then have "signature_ok default_access_settings None None" by (rule unsigned_event_accepted[OF disjI2])
  moreover have "find_row pe_event_id ''e1'' (db_processed_events awaiting_db) = None"
    by (simp add: awaiting_db_def small_db_def empty_database_def find_row_def)
  ultimately show ?thesis
    by (simp add: handle_odoo_inbound_event_def bind_eff_def ask_def guard_eff_def raise_unless_def answer_def act_def
        cancel_event_def)
qed

theorem webhook_once_witness:
  "\<exists>w1 :: fake_state world. ''e1'' \<in> pe_event_id ` set (db_processed_events (w_db w1)) \<and>
     handle_odoo_inbound_event default_access_settings None None cancel_event w1 = (Inr DuplicateEvent, w1) \<and>
     handle_odoo_inbound_event default_access_settings (Some ''forged'') None cancel_event w1 = (Inl UnauthorizedError, w1)"
proof -
  obtain r w1 where w1: "handle_odoo_inbound_event default_access_settings None None cancel_event
      (small_world awaiting_db) = (Inr r, w1)"
    using cancel_accepted by blast
  note once = webhook_once[OF w1 order_refl refl]
  have "\<not> signature_ok default_access_settings (Some ''forged'') None" "signature_ok default_access_settings None None"
    by (simp_all add: signature_ok_def Let_def live_mode_def default_access_settings_def str_or_def bearer_token_def)
  then have "handle_odoo_inbound_event default_access_settings None None cancel_event w1 = (Inr DuplicateEvent, w1)"
    "handle_odoo_inbound_event default_access_settings (Some ''forged'') None cancel_event w1 = (Inl UnauthorizedError, w1)"
    using once[of None None] once[of "Some ''forged''" None] by simp_all
  moreover have "''e1'' \<in> pe_event_id ` set (db_processed_events (w_db w1))"
    using handled_event[OF w1] by (simp add: cancel_event_def)
  ultimately show ?thesis by blast
qed

text \<open>
  What an event does. A refused event changes nothing. An accepted one that was not seen before is
  recorded and committed without asking Odoo; a deal other than the one of the event's order is as it was,
  and the deal of the order keeps its approval, its amounts and its version, and its status as well unless
  the event is the cancellation of a sale order, which cancels it.
\<close>

theorem webhook_outcome:
  assumes run: "handle_odoo_inbound_event st signature authorization e w = (res, w')"
    and d: "find_deal i (w_db w) = Some d"
  shows "if isl res \<or> res = Inr DuplicateEvent then w' = w
    else w_odoo w' = w_odoo w \<and> w_saved w' = w_db w' \<and>
      (\<exists>d'. find_deal i (w_db w') = Some d' \<and>
        d_status d' = (if map_option d_id (find_deal_by_order (resolved_record_id e) (w_db w)) = Some i \<and>
            resolved_model e = ''sale.order'' \<and> mentions (ev_event_type e) ''cancel''
          then DealStatus.CANCELLED else d_status d) \<and>
        (map_option d_id (find_deal_by_order (resolved_record_id e) (w_db w)) \<noteq> Some i \<longrightarrow> d' = d) \<and>
        d_approval_state d' = d_approval_state d \<and> d_version d' = d_version d \<and>
        d_amount_total_cache d' = d_amount_total_cache d)"
proof (cases "isl res \<or> res = Inr DuplicateEvent")
  case True
  then show ?thesis
    using run by (auto simp: handle_odoo_inbound_event_def bind_eff_def ask_def act_def guard_eff_def answer_def
        raise_unless_def split: if_splits)
next
  case False
  then have w': "w' = commit (on_db (record_event e (w_now w)) w)"
    using run by (auto simp: handle_odoo_inbound_event_def bind_eff_def ask_def act_def guard_eff_def answer_def
        raise_unless_def split: if_splits)
  then show ?thesis
    using False dispatched_deal[of i "(w_db w)\<lparr>db_processed_events := db_processed_events (w_db w) @
        [new_processed_event e (map_option d_id (find_deal_by_order (resolved_record_id e) (w_db w))) (w_now w)]\<rparr>" d
        e "find_deal_by_order (resolved_record_id e) (w_db w)" "w_now w"] d
    by (simp add: record_event_def Let_def)
qed

theorem webhook_outcome_witness:
  "\<exists>(w1 :: fake_state world) d'. find_deal 6 (w_db w1) = Some d' \<and> d_status d' = DealStatus.CANCELLED \<and> d_approval_state d' = PENDING_MANAGER"
proof -
  obtain r w1 where w1: "handle_odoo_inbound_event default_access_settings None None cancel_event
      (small_world awaiting_db) = (Inr r, w1)"
    using cancel_accepted by blast
  have "find_row pe_event_id ''e1'' (db_processed_events awaiting_db) = None"
    by (simp add: awaiting_db_def small_db_def empty_database_def find_row_def)
  then have r: "r \<noteq> DuplicateEvent"
    using w1 by (auto simp: handle_odoo_inbound_event_def bind_eff_def ask_def act_def guard_eff_def answer_def
        raise_unless_def cancel_event_def split: if_splits)
  have "find_deal_by_order (resolved_record_id cancel_event) awaiting_db =
      Some (small_deal PENDING_MANAGER MANAGER_AND_FINANCE)"
    by (simp add: find_deal_by_order_def awaiting_db_def resolved_record_id_def cancel_event_def id_or_def)
  moreover have "resolved_model cancel_event = ''sale.order''" "mentions (ev_event_type cancel_event) ''cancel''"
    by (simp_all add: resolved_model_def cancel_event_def str_or_def mentions_def char_lower_def)
  moreover have "find_deal 6 (w_db (small_world awaiting_db)) = Some (small_deal PENDING_MANAGER MANAGER_AND_FINANCE)"
    by simp
  ultimately have "\<exists>d'. find_deal 6 (w_db w1) = Some d' \<and> d_status d' = DealStatus.CANCELLED \<and>
      d_approval_state d' = PENDING_MANAGER"
    using webhook_outcome[OF w1, of 6 "small_deal PENDING_MANAGER MANAGER_AND_FINANCE"] r by auto
  then show ?thesis by blast
qed

end
