(* ===== verification/Negotiations.thy ===== *)
theory Negotiations
  imports Negotiation Decisions Evaluation
begin

text \<open>
  What the answer to a customer's request (definitions in \<open>Negotiation\<close>) leaves behind: in the request, in
  the deal, and in Odoo.
\<close>

section \<open>Frames\<close>

lemma apply_change_db: "preserves (\<lambda>v. w_db v = db \<and> w_now v = t) (apply_change gw oid c)"
proof -
  have wr: "preserves (\<lambda>v. w_db v = db \<and> w_now v = t) (write_lines gw oid cs)" for cs
    unfolding write_lines_def by (intro preserves_intros preserves_call) simp
  show ?thesis
    unfolding apply_change_def Let_def discount_whole_order_def
    by (auto split: option.split intro!: preserves_intros preserves_call wr)
qed

lemma changes_db:
  assumes "for_each (apply_change gw oid) cs w = (res, w')"
  shows "w_db w' = w_db w" "w_now w' = w_now w"
  using preservesD[OF preserves_each[of _ "apply_change gw oid" cs, OF apply_change_db[of "w_db w" "w_now w"]], of w] assms by simp_all

lemma find_deal_kept_sync:
  assumes "find_deal i (w_db w) = Some d"
  shows "\<exists>e. find_deal i (w_db (snd (sync_deal_from_odoo gw oid ev a r w))) = Some e"
proof -
  have ins: "find_deal i (snd (insert_deal ctx now (w_db w))) = Some d" for ctx now
    using assms by (simp add: insert_deal_def split_beta Let_def find_deal_def find_row_append)
  have eventful: "\<exists>e. find_deal i (deal_event ty j a r now db) = Some e" if "\<exists>e. find_deal i db = Some e" for ty j now db
    using that by (auto simp: deal_event_def find_deal_audit)
  have upd: "\<exists>e. find_deal i (update_deal k (refreshed ctx now) (w_db w)) = Some e" for k ctx now
    using assms by (auto simp: deals.lookup_modify)
  show ?thesis
    using assms ins upd by (auto simp: sync_deal_from_odoo_def Let_def split_beta split: sum.split option.split intro!: eventful)
qed

lemma negotiations_sequence [simp]: "db_negotiations (snd (get_next_sequence key pre db)) = db_negotiations db"
  by (simp add: get_next_sequence_def ensure_sequence_def Let_def split: option.split)

lemma negotiations_sync: "db_negotiations (w_db (snd (sync_deal_from_odoo gw oid ev a r w))) = db_negotiations (w_db w)"
  by (auto simp: sync_deal_from_odoo_def Let_def split_beta insert_deal_def deal_event_def update_deal_def
      split: sum.split option.split)

lemma negotiations_evaluate_loaded:
  "db_negotiations (w_db (snd (evaluate_loaded gw d ctx trig actor role w))) = db_negotiations (w_db w)"
proof -
  obtain resp w' where e: "evaluate_loaded gw d ctx trig actor role w = (resp, w')" by force
  have "db_negotiations (routed d ctx trig now db) = db_negotiations db" for now db
    by (simp add: routed_def assess_and_route_def Let_def split_beta store_assessment_def update_deal_def)
  then show ?thesis using calmD(6)[OF evaluate_loaded_db(1)[OF e]] e by simp
qed

lemma negotiations_evaluate:
  assumes "evaluate_deal gw (Some i) oid trig actor role w = (Inr resp, w')" and "find_deal i (w_db w) = Some d"
  shows "db_negotiations (w_db w') = db_negotiations (w_db w)"
proof -
  obtain ctx where "evaluate_loaded gw d ctx trig actor role w = (resp, w')" by (rule evaluate_by_id[OF assms])
  then show ?thesis using negotiations_evaluate_loaded[of gw d ctx trig actor role w] by simp
qed

lemma governance_ok_update_negotiation: "governance_ok (update_negotiation k f db) = governance_ok db"
  by (simp add: update_negotiation_def governance_ok_def deal_governed_def pending_requests_def)

section \<open>Acceptance\<close>

lemma find_deal_update_negotiation [simp]: "find_deal i (update_negotiation k f db) = find_deal i db"
  by (simp add: find_deal_def update_negotiation_def)

lemma negotiations_set_status [simp]: "db_negotiations (set_deal_status i st db) = db_negotiations db"
  by (simp add: set_deal_status_def update_deal_def)

lemma accepted_outcome:
  assumes ok: "governance_ok (w_db w)" and d: "find_deal (d_id d) (w_db w) = Some d0"
    and run: "accept_changes gw r d actor w = (Inr u, w')"
  shows "\<exists>e a. find_deal (d_id d) (w_db w') = Some e \<and> d_status e = SENT \<and> d_current_assessment_id e = Some a \<and>
    db_negotiations (w_db w') = update_row nr_id (nr_id r) (\<lambda>r. r\<lparr>nr_applied_assessment_id := Some a\<rparr>)
      (update_row nr_id (nr_id r) (\<lambda>r. r\<lparr>nr_status := NegotiationRequestStatus.ACCEPTED\<rparr>) (db_negotiations (w_db w)))"
proof -
  let ?w1 = "on_db (set_request_status (nr_id r) NegotiationRequestStatus.ACCEPTED) w"
  obtain v w2 j w3 resp w4 where
      changes: "for_each (apply_change gw (d_odoo_sale_order_id d)) (changes_of (nr_id r) (w_db ?w1)) ?w1 = (Inr v, w2)"
    and sync: "sync_deal_from_odoo gw (d_odoo_sale_order_id d) None (Some (u_odoo_user_id actor)) (Some (u_role actor)) w2
        = (Inr j, w3)"
    and eval: "evaluate_deal gw (Some (d_id d)) None (Inl TriggerType.NEGOTIATION_ACCEPTED)
        (Some (u_odoo_user_id actor)) (Some (u_role actor)) w3 = (Inr resp, w4)"
    and w': "w' = on_db (\<lambda>db. set_deal_status (d_id d) SENT (update_negotiation (nr_id r)
        (\<lambda>r. r\<lparr>nr_applied_assessment_id := Some (ra_id (er_risk_assessment resp))\<rparr>) db)) w4"
    using run by (auto simp: accept_changes_def bind_eff_Inr_iff eff_Inr_iff)
  have db2: "w_db w2 = w_db ?w1" by (rule changes_db(1)[OF changes])
  have "find_deal (d_id d) (w_db w2) = Some d0" using d by (simp add: db2 set_request_status_def)
  then obtain d3 where d3: "find_deal (d_id d) (w_db w3) = Some d3"
    using find_deal_kept_sync[of "d_id d" w2 d0] sync by (metis snd_conv)
  have "governance_ok (w_db w2)" using ok by (simp add: db2 set_request_status_def governance_ok_update_negotiation)
  then have ok3: "governance_ok (w_db w3)" using governance_ok_sync[of w2] sync by (metis snd_conv)
  obtain ctx where ctx: "build_deal_context (w_db w3) gw (w_odoo w3) (w_now w3) (d_odoo_sale_order_id d3)
      (Some (d_id d)) = Inr ctx"
    by (rule evaluate_by_id[OF eval d3])
  obtain e where e: "find_deal (d_id d) (w_db w4) = Some e"
      "d_current_assessment_id e = Some (ra_id (er_risk_assessment resp))"
    using evaluation_result[OF ok3 d3 eval ctx refl] by blast
  have n3: "db_negotiations (w_db w3) = db_negotiations (w_db w2)"
    using negotiations_sync[of gw "d_odoo_sale_order_id d" None _ _ w2] sync by (metis snd_conv)
  have "db_negotiations (w_db w4) = update_row nr_id (nr_id r)
      (\<lambda>r. r\<lparr>nr_status := NegotiationRequestStatus.ACCEPTED\<rparr>) (db_negotiations (w_db w))"
    using negotiations_evaluate[OF eval d3] by (simp add: n3 db2 set_request_status_def update_negotiation_def)
  then show ?thesis
    using e by (simp add: w' set_deal_status_def deals.lookup_modify) (simp add: update_deal_def update_negotiation_def)
qed

section \<open>The answer\<close>

text \<open>What an answer makes of the request, given the assessment that its acceptance leads to.\<close>

definition answered_as :: "string option \<Rightarrow> dec option \<Rightarrow> uuid option \<Rightarrow> negotiation_request \<Rightarrow> negotiation_request" where
  "answered_as action counter a r =
     (if action = Some ''ACCEPT''
      then r\<lparr>nr_status := NegotiationRequestStatus.ACCEPTED, nr_applied_assessment_id := a\<rparr>
      else if action = Some ''REJECT'' then r\<lparr>nr_status := NegotiationRequestStatus.REJECTED\<rparr>
      else if action = Some ''COUNTER'' then r\<lparr>nr_status := COUNTERED, nr_counter_value := counter\<rparr>
      else r)"

definition answered_status :: "string option \<Rightarrow> DealStatus \<Rightarrow> DealStatus" where
  "answered_status action st = (if action = Some ''ACCEPT'' \<or> action = Some ''REJECT'' then SENT
     else if action = Some ''COUNTER'' then UNDER_NEGOTIATION else st)"

lemma find_deal_set_status [simp]:
  "find_deal i (set_deal_status j st db) = (if i = j then map_option (\<lambda>d. d\<lparr>d_status := st\<rparr>) (find_deal i db) else find_deal i db)"
  "find_deal i (set_request_status k rst db) = find_deal i db"
  by (simp_all add: set_deal_status_def deals.lookup_modify set_request_status_def)

lemma negotiations_updates [simp]:
  "db_negotiations (update_negotiation k f db) = update_row nr_id k f (db_negotiations db)"
  "db_negotiations (set_request_status k rst db) = update_row nr_id k (\<lambda>r. r\<lparr>nr_status := rst\<rparr>) (db_negotiations db)"
  by (simp_all add: update_negotiation_def set_request_status_def)

lemma responded_action:
  assumes ok: "governance_ok (w_db w)" and d: "find_deal (d_id d) (w_db w) = Some d"
    and run: "respond_action gw r d actor action counter w = (Inr u, w')"
  shows "\<exists>e a. find_deal (d_id d) (w_db w') = Some e \<and> d_status e = answered_status action (d_status d) \<and>
    (action = Some ''ACCEPT'' \<longrightarrow> a \<noteq> None \<and> d_current_assessment_id e = a) \<and>
    (action \<noteq> Some ''ACCEPT'' \<longrightarrow> w_odoo w' = w_odoo w) \<and>
    db_negotiations (w_db w') = update_row nr_id (nr_id r) (answered_as action counter a) (db_negotiations (w_db w))"
proof (cases "action = Some ''ACCEPT''")
  case True
  then have "accept_changes gw r d actor w = (Inr u, w')" using run by (simp add: respond_action_def)
  from accepted_outcome[OF ok d this] obtain e a where e: "find_deal (d_id d) (w_db w') = Some e" "d_status e = SENT"
      "d_current_assessment_id e = Some a" "db_negotiations (w_db w') = update_row nr_id (nr_id r)
      (\<lambda>r. r\<lparr>nr_applied_assessment_id := Some a\<rparr>) (update_row nr_id (nr_id r)
        (\<lambda>r. r\<lparr>nr_status := NegotiationRequestStatus.ACCEPTED\<rparr>) (db_negotiations (w_db w)))"
    by blast
  have "update_row nr_id k (\<lambda>r. r\<lparr>nr_applied_assessment_id := Some a\<rparr>)
      (update_row nr_id k (\<lambda>r. r\<lparr>nr_status := NegotiationRequestStatus.ACCEPTED\<rparr>) rows) =
    update_row nr_id k (answered_as action counter (Some a)) rows" for k rows
    by (simp add: update_row_def True answered_as_def)
  with e show ?thesis by (intro exI[of _ e] exI[of _ "Some a"]) (simp add: True answered_status_def)
next
  case False
  have same: "update_row nr_id k (\<lambda>r. r) rows = rows" for k rows by (simp add: update_row_def)
  consider "action = Some ''REJECT''" | "action = Some ''COUNTER''"
    | "action \<noteq> Some ''REJECT'' \<and> action \<noteq> Some ''COUNTER''" by blast
  then show ?thesis
  proof cases
    case 1
    then have "w' = on_db (\<lambda>db. set_deal_status (d_id d) SENT (set_request_status (nr_id r) NegotiationRequestStatus.REJECTED db)) w"
      using run by (simp add: respond_action_def eff_Inr_iff)
    then show ?thesis using 1 d by (simp add: answered_status_def answered_as_def[abs_def])
  next
    case 2
    then have "w' = on_db (\<lambda>db. set_deal_status (d_id d) UNDER_NEGOTIATION
        (update_negotiation (nr_id r) (\<lambda>r. r\<lparr>nr_status := COUNTERED, nr_counter_value := counter\<rparr>) db)) w"
      using run by (simp add: respond_action_def eff_Inr_iff)
    then show ?thesis using 2 d by (simp add: answered_status_def answered_as_def[abs_def])
  next
    case 3
    then have "w' = w" using run False by (simp add: respond_action_def eff_Inr_iff)
    then show ?thesis using 3 False d by (simp add: answered_status_def answered_as_def[abs_def] same)
  qed
qed

lemma record_response_frame [simp]:
  "db_negotiations (record_response rid i u now db) = db_negotiations db"
  "find_deal j (record_response rid i u now db) =
     (if j = i then map_option (\<lambda>d. d\<lparr>d_last_activity_at := now\<rparr>) (find_deal j db) else find_deal j db)"
proof -
  have audit: "find_deal j (record_audit_event t et ei (Some i) ty ai ar now' db') =
      (if j = i then map_option (\<lambda>d. d\<lparr>d_last_activity_at := now'\<rparr>) (find_deal j db') else find_deal j db')"
    for t et ei ty ai ar now' db'
    by (simp add: find_deal_audit)
  show "db_negotiations (record_response rid i u now db) = db_negotiations db"
    unfolding record_response_def by simp
  show "find_deal j (record_response rid i u now db) =
     (if j = i then map_option (\<lambda>d. d\<lparr>d_last_activity_at := now\<rparr>) (find_deal j db) else find_deal j db)"
    unfolding record_response_def audit by (cases "find_deal i db") (auto simp: find_deal_touch)
qed

lemma find_updated_row:
  "(\<And>r. nr_id (f r) = nr_id r) \<Longrightarrow> find_negotiation k (db\<lparr>db_negotiations := update_row nr_id j f (db_negotiations db)\<rparr>) =
     (if k = j then map_option f (find_negotiation j db) else find_negotiation k db)"
  using negotiations.lookup_modify[of f k j db] by (simp add: update_negotiation_def)

lemma response_result:
  assumes ok: "governance_ok (w_db w)" and r: "find_negotiation rid (w_db w) = Some r"
    and d: "find_deal (nr_deal_id r) (w_db w) = Some d"
    and run: "respond_negotiation_request gw rid actor action msg counter w = (Inr x, w')"
  shows "nr_status r = NegotiationRequestStatus.OPEN \<and> w_saved w' = w_db w' \<and>
    (\<exists>e a. find_deal (nr_deal_id r) (w_db w') = Some e \<and> d_status e = answered_status action (d_status d) \<and>
      (action = Some ''ACCEPT'' \<longrightarrow> a \<noteq> None \<and> d_current_assessment_id e = a) \<and>
      (action \<noteq> Some ''ACCEPT'' \<longrightarrow> w_odoo w' = w_odoo w) \<and>
      find_negotiation rid (w_db w') = Some (answered_as action counter a (answered actor msg (w_now w) r)) \<and>
      (\<forall>k. k \<noteq> rid \<longrightarrow> find_negotiation k (w_db w') = find_negotiation k (w_db w)))"
proof -
  let ?w1 = "on_db (update_negotiation rid (answered actor msg (w_now w))) w"
  have id: "nr_id r = rid" "d_id d = nr_deal_id r"
    using find_row_Some[of nr_id rid _ r] find_deal_in[OF d] r by (auto simp: find_negotiation_def)
  obtain u w2 where act: "respond_action gw r d actor action counter ?w1 = (Inr u, w2)"
      and w': "w' = commit (on_db (record_response rid (d_id d) actor (w_now w2)) w2)"
      and st: "nr_status r = NegotiationRequestStatus.OPEN"
    using run r d by (auto simp: respond_negotiation_request_def bind_eff_Inr_iff eff_Inr_iff option_or_raise_def)
  have "governance_ok (w_db ?w1)" using ok by (simp add: governance_ok_update_negotiation)
  moreover have "find_deal (d_id d) (w_db ?w1) = Some d" using d id by simp
  ultimately obtain e a where e: "find_deal (d_id d) (w_db w2) = Some e" "d_status e = answered_status action (d_status d)"
      "action = Some ''ACCEPT'' \<longrightarrow> a \<noteq> None \<and> d_current_assessment_id e = a"
      "action \<noteq> Some ''ACCEPT'' \<longrightarrow> w_odoo w2 = w_odoo ?w1"
      "db_negotiations (w_db w2) = update_row nr_id (nr_id r) (answered_as action counter a) (db_negotiations (w_db ?w1))"
    using responded_action[OF _ _ act] by blast
  have "find_negotiation k (w_db w') = find_negotiation k ((w_db ?w1)\<lparr>db_negotiations := db_negotiations (w_db w2)\<rparr>)" for k
    by (simp add: w' find_negotiation_def)
  moreover have "nr_id (answered_as action counter a q) = nr_id q" "nr_id (answered actor msg t q) = nr_id q" for q t
    by (simp_all add: answered_as_def answered_def)
  ultimately have n: "find_negotiation k (w_db w') = (if k = rid
      then map_option (answered_as action counter a) (find_negotiation rid (w_db ?w1)) else find_negotiation k (w_db ?w1))"
    "find_negotiation k (w_db ?w1) = (if k = rid then Some (answered actor msg (w_now w) r) else find_negotiation k (w_db w))" for k
    using r by (simp_all only: e(5) id find_updated_row) (simp add: negotiations.lookup_modify answered_def)
  show ?thesis using st e(1-4) n id by (intro conjI exI[of _ "e\<lparr>d_last_activity_at := w_now w2\<rparr>"] exI[of _ a]) (simp_all add: w')
qed

lemma response_refused:
  assumes "find_negotiation rid (w_db w) = Some r" and "nr_status r \<noteq> NegotiationRequestStatus.OPEN"
  shows "respond_negotiation_request gw rid actor action msg counter w = (Inl (BusinessRuleError ''NEGOTIATION_NOT_OPEN''), w)"
  using assms by (simp add: respond_negotiation_request_def bind_eff_def ask_def option_or_raise_def guard_eff_def raise_unless_def)

text \<open>
  C13: What the answer to a customer's request does. A request is answered only while it is open, and a
  refused answer changes nothing. An acceptance leaves the request accepted and tied to the assessment that the deal
  now has, made after the changes were written to the order, and sends the deal again; a rejection sends
  it again; a counter offer keeps the offer and leaves the deal in negotiation; only an acceptance reaches
  Odoo, no other request changes, and a request answered in one of these ways cannot be answered again.
\<close>

theorem negotiation_response_outcome:
  assumes ok: "governance_ok (w_db w)" and r: "find_negotiation rid (w_db w) = Some r"
    and d: "find_deal (nr_deal_id r) (w_db w) = Some d"
    and run: "respond_negotiation_request gw rid actor action msg counter w = (res, w')"
  shows "(nr_status r \<noteq> NegotiationRequestStatus.OPEN \<longrightarrow> isl res \<and> w' = w) \<and>
    (\<not> isl res \<longrightarrow> w_saved w' = w_db w' \<and>
      (\<exists>e a. find_deal (nr_deal_id r) (w_db w') = Some e \<and> d_status e = answered_status action (d_status d) \<and>
        (action = Some ''ACCEPT'' \<longrightarrow> a \<noteq> None \<and> d_current_assessment_id e = a) \<and>
        (action \<noteq> Some ''ACCEPT'' \<longrightarrow> w_odoo w' = w_odoo w) \<and>
        find_negotiation rid (w_db w') = Some (answered_as action counter a (answered actor msg (w_now w) r)) \<and>
        (\<forall>k. k \<noteq> rid \<longrightarrow> find_negotiation k (w_db w') = find_negotiation k (w_db w))) \<and>
      (action \<in> {Some ''ACCEPT'', Some ''REJECT'', Some ''COUNTER''} \<longrightarrow>
        (\<forall>actor' action' msg' counter'. respond_negotiation_request gw rid actor' action' msg' counter' w' =
          (Inl (BusinessRuleError ''NEGOTIATION_NOT_OPEN''), w'))))"
proof (cases res)
  case (Inl e)
  then show ?thesis using response_refused[OF r, of gw actor action msg counter] run by auto
next
  case (Inr x)
  note res = response_result[OF ok r d run[unfolded Inr]]
  then obtain a where a: "find_negotiation rid (w_db w') = Some (answered_as action counter a (answered actor msg (w_now w) r))"
    by blast
  have "action \<in> {Some ''ACCEPT'', Some ''REJECT'', Some ''COUNTER''} \<Longrightarrow>
      nr_status (answered_as action counter a (answered actor msg (w_now w) r)) \<noteq> NegotiationRequestStatus.OPEN"
    by (auto simp: answered_as_def)
  then show ?thesis using res response_refused[OF a] Inr by auto
qed

definition asked_db :: database where
  "asked_db = awaiting_db\<lparr>db_negotiations := [new_negotiation 8 (small_deal PENDING_MANAGER MANAGER_AND_FINANCE) 1 0
     \<lparr>ns_type = Some ''COMMENT'', ns_request_type = None, ns_message = None, ns_counter_value = None,
      ns_odoo_sale_order_line_id = None, ns_odoo_line_id = None, ns_requested_qty = None,
      ns_requested_product_id = None\<rparr> 0]\<rparr>"

theorem negotiation_response_outcome_witness:
  "\<exists>w'. respond_negotiation_request fake_gateway 8 (small_user 4 SALES_REP) (Some ''REJECT'') None None (small_world asked_db) =
       (Inr 8, w') \<and>
     respond_negotiation_request fake_gateway 8 (small_user 4 SALES_REP) (Some ''ACCEPT'') None None w' =
       (Inl (BusinessRuleError ''NEGOTIATION_NOT_OPEN''), w')"
proof -
  obtain r where r: "find_negotiation 8 asked_db = Some r" "nr_deal_id r = 6" "nr_status r = NegotiationRequestStatus.OPEN"
    by (simp add: asked_db_def find_negotiation_def new_negotiation_def)
  have d: "find_deal 6 asked_db = Some (small_deal PENDING_MANAGER MANAGER_AND_FINANCE)"
    using awaiting_lookup(2) by (simp add: find_deal_def asked_db_def)
  have ok: "governance_ok asked_db"
    using awaiting_ok by (simp add: asked_db_def governance_ok_def deal_governed_def pending_requests_def)
  obtain w' where w': "respond_negotiation_request fake_gateway 8 (small_user 4 SALES_REP) (Some ''REJECT'') None None
      (small_world asked_db) = (Inr 8, w')"
    using r d by (simp add: respond_negotiation_request_def bind_eff_def ask_def option_or_raise_def guard_eff_def
        raise_unless_def act_def respond_action_def answer_def)
  have d': "find_deal (nr_deal_id r) (w_db (small_world asked_db)) = Some (small_deal PENDING_MANAGER MANAGER_AND_FINANCE)"
    using d r(2) by simp
  from negotiation_response_outcome[OF _ _ d' w'] ok r(1) w' show ?thesis by simp
qed

end
