(* ===== verification/Portal_View.thy ===== *)
theory Portal_View
  imports Portal Decisions Deal_Service
begin

text \<open>
  What the portal (definitions in \<open>Portal\<close>) guarantees: a customer sees nothing of the internal side of a
  deal, and what a confirmation by the customer leaves in the database and in Odoo.
\<close>

section \<open>Confidentiality\<close>

text \<open>A database stripped of what is internal: to the deals, the requests and the comments, and altogether.\<close>

definition public_deal :: "deal \<Rightarrow> deal" where
  "public_deal d = d\<lparr>d_tier_code := None, d_owner_odoo_user_id := 0, d_sales_team_odoo_id := None,
     d_odoo_company_id := 0, d_approval_state := NOT_EVALUATED, d_health_status := HEALTHY,
     d_current_risk_score := None, d_current_severity := None, d_current_assessment_id := None,
     d_approved_assessment_id := None, d_required_level := ApprovalLevel.NONE, d_margin_pct_cache := 0,
     d_one_time_total_cache := 0, d_recurring_first_cycle_total_cache := 0, d_last_activity_at := 0,
     d_last_synced_at := 0, d_version := 0, d_created_at := 0\<rparr>"

definition public_request :: "negotiation_request \<Rightarrow> negotiation_request" where
  "public_request n = n\<lparr>nr_odoo_sale_order_id := 0, nr_customer_partner_id := 0,
     nr_requested_by_odoo_user_id := 0, nr_based_on_assessment_id := None,
     nr_processed_by_odoo_user_id := None, nr_applied_assessment_id := None\<rparr>"

definition public_remark :: "portal_comment \<Rightarrow> portal_comment" where
  "public_remark c = c\<lparr>pc_author_odoo_user_id := 0\<rparr>"

definition public_db :: "database \<Rightarrow> database" where
  "public_db db = empty_database\<lparr>db_deals := map public_deal (db_deals db),
     db_negotiations := map public_request (db_negotiations db),
     db_comments := map public_remark (filter (\<lambda>c. \<not> pc_is_internal c) (db_comments db))\<rparr>"

lemma sort_key_map_same: "(\<And>r. k (f r) = k r) \<Longrightarrow> sort_key k (map f rows) = map f (sort_key k rows)"
proof (induction rows)
  case (Cons r rows)
  have i: "insort_key k (f x) (map f ys) = map f (insort_key k x ys)" for x ys
    by (induction ys) (simp_all add: Cons.prems)
  show ?case using Cons by (simp add: i)
qed simp

lemma public_deal_lookup: "find_deal i (public_db db) = map_option public_deal (find_deal i db)"
  by (simp add: find_deal_def public_db_def find_row_map public_deal_def)

lemma public_deal_shown:
  "portal_deal (public_deal d) ls comments negs = portal_deal d ls comments negs"
  by (simp add: portal_deal_def public_deal_def shown_status_def)

lemma public_comments:
  "list_portal_comments i False (public_db db) = map public_remark (list_portal_comments i False db)"
proof -
  have "filter (\<lambda>c. pc_deal_id c = i \<and> \<not> pc_is_internal c) (map public_remark xs) =
      map public_remark (filter (\<lambda>c. pc_deal_id c = i \<and> \<not> pc_is_internal c) xs)" for xs
    by (induction xs) (simp_all add: public_remark_def)
  then show ?thesis
    by (simp add: list_portal_comments_def public_db_def sort_key_map_same public_remark_def conj_commute)
qed

lemma public_negotiations:
  "list_negotiation_requests i (public_db db) = map public_request (list_negotiation_requests i db)"
proof -
  have "filter (\<lambda>r. nr_deal_id r = i) (map public_request xs) =
      map public_request (filter (\<lambda>r. nr_deal_id r = i) xs)" for xs
    by (induction xs) (simp_all add: public_request_def)
  then show ?thesis
    by (simp add: list_negotiation_requests_def public_db_def newest_first_def sort_key_map_same public_request_def)
qed

lemma shown_parts:
  "public_comment \<circ> public_remark = public_comment" "public_negotiation \<circ> public_request = public_negotiation"
  by (auto simp: public_comment_def public_remark_def public_negotiation_def public_request_def)

lemma portal_deal_public:
  "portal_deal d ls (map public_remark cs) (map public_request ns) = portal_deal d ls cs ns"
  by (simp add: portal_deal_def shown_parts)

lemma customer_deal_public:
  "customer_deal i p (public_db db) = map_sum id public_deal (customer_deal i p db)"
  by (cases "find_deal i db") (simp_all add: customer_deal_def public_deal_lookup option_or_raise_def public_deal_def)

lemma view_hides_internals:
  "fst (get_deal_for_portal gw i partner (w\<lparr>w_db := public_db (w_db w)\<rparr>)) = fst (get_deal_for_portal gw i partner w)"
proof (cases "customer_deal i partner (w_db w)")
  case (Inr d)
  have "d_id (public_deal d) = d_id d" "d_odoo_sale_order_id (public_deal d) = d_odoo_sale_order_id d"
    by (simp_all add: public_deal_def)
  with Inr show ?thesis
    by (cases "gw_get_sale_order gw (d_odoo_sale_order_id d) (w_odoo w)")
       (simp_all add: get_deal_for_portal_def bind_eff_def ask_def odoo_read_def customer_deal_public public_comments
          public_negotiations portal_deal_public public_deal_shown guard_eff_def raise_unless_def answer_def)
qed (simp add: get_deal_for_portal_def bind_eff_def ask_def customer_deal_public)

text \<open>
  The list of deals shows of each deal of the customer, beside what is public, the approval state and the
  time of creation; \<open>listed_db\<close> keeps these two of the customer's own deals, and nothing of the deals of others.
\<close>

definition listed_deal :: "deal \<Rightarrow> deal" where
  "listed_deal d = (public_deal d)\<lparr>d_approval_state := d_approval_state d, d_created_at := d_created_at d\<rparr>"

definition listed_db :: "odoo_id \<Rightarrow> database \<Rightarrow> database" where
  "listed_db partner db = empty_database\<lparr>db_deals := map listed_deal (filter (\<lambda>d. d_odoo_partner_id d = partner) (db_deals db))\<rparr>"

lemma list_hides_internals: "list_deals_for_portal partner (listed_db partner db) = list_deals_for_portal partner db"
proof -
  have "filter (\<lambda>d. d_odoo_partner_id d = partner) (map listed_deal (filter (\<lambda>d. d_odoo_partner_id d = partner) ds)) =
      map listed_deal (filter (\<lambda>d. d_odoo_partner_id d = partner) ds)" for ds
    by (induction ds) (simp_all add: listed_deal_def public_deal_def)
  moreover have "deal_summary \<circ> listed_deal = deal_summary"
    by (auto simp: deal_summary_def listed_deal_def public_deal_def)
  ultimately show ?thesis
    by (simp add: list_deals_for_portal_def listed_db_def newest_first_def sort_key_map_same listed_deal_def)
qed

text \<open>
  C4: What the portal's two read operations give away. The view of a deal hides everything internal: whatever
  get_deal_for_portal answers, the view or the error, is the same when margins, risk, approval state, health,
  owner, team, versions, the staff named on the requests, every internal comment and every other table (assessments,
  approvals, policies, plans, recommendations, alerts, the journal) are erased. The list of deals is weaker:
  list_deals_for_portal does show the approval state and the time of creation of the customer's own deals, which
  the documentation says are stripped; of everything else that is internal, and of the deals of other customers, it
  depends on nothing. What a confirmation answers is not part of this property: it depends on the approval by
  design.
\<close>

theorem portal_hides_internals:
  "fst (get_deal_for_portal gw i partner (w\<lparr>w_db := public_db (w_db w)\<rparr>)) = fst (get_deal_for_portal gw i partner w) \<and>
   list_deals_for_portal partner (listed_db partner (w_db w)) = list_deals_for_portal partner (w_db w)"
  by (simp add: view_hides_internals list_hides_internals)

text \<open>Two databases that differ in the approval of a deal, and in nothing else, are told apart by the list.\<close>

lemma list_shows_approval:
  "list_deals_for_portal 1 (small_db [small_deal PENDING_MANAGER MANAGER] []) \<noteq>
   list_deals_for_portal 1 (small_db [small_deal PENDING_FINANCE MANAGER] [])"
  by (simp add: list_deals_for_portal_def small_db_def newest_first_def deal_summary_def small_deal_def)

section \<open>The subtotals\<close>

text \<open>
  A line of the portal and a line of the deal context are computed from the same numbers and rounded
  differently: ties go to the even cent here and away from zero there.
\<close>

lemma portal_subtotal_ties:
  "portal_subtotal (1/8) 1 0 \<noteq> line_subtotal 1 (1/8) 0"
  by code_simp

section \<open>Confirmation\<close>

lemma view_keeps_world: "snd (get_deal_for_portal gw i partner w) = w"
  by (auto simp: get_deal_for_portal_def bind_eff_def ask_def odoo_read_def guard_eff_def answer_def raise_unless_def
      split: sum.splits)

lemma find_deal_notify [simp]: "find_deal i (notify r t k dk now db) = find_deal i db"
  by (simp add: find_deal_def)

lemma find_deal_store_comment [simp]:
  "find_deal i (snd (store_comment j author role body internal line now db)) =
     (if i = j then map_option (\<lambda>d. d\<lparr>d_last_activity_at := now\<rparr>) (find_deal i db) else find_deal i db)"
proof -
  have "find_deal k (db\<lparr>db_comments := cs, db_next_id := n\<rparr>) = find_deal k db" for k cs n by (simp add: find_deal_def)
  then show ?thesis by (simp add: store_comment_def Let_def find_deal_touch)
qed

lemma customer_confirms:
  assumes "find_deal i (w_db w) = Some d" and "d_odoo_partner_id d = partner"
    and "d_status d \<notin> {CONFIRMED, INVOICED, PAID}"
  shows "\<exists>e. (let w' = snd (confirm_deal_by_customer gw i partner p w) in
    find_deal i (w_db w') = Some e \<and> w_saved w' = w_db w' \<and>
    (if d_approval_state d = ApprovalState.APPROVED
     then d_status e = CONFIRMED \<and> d_confirmed_at e = Some (w_now w) \<and> \<not> d_customer_confirmed_pending e \<and>
       w_odoo w' = snd (gw_confirm gw (d_odoo_sale_order_id d) (w_odoo w))
     else d_status e = d_status d \<and> d_customer_confirmed_pending e \<and> w_odoo w' = w_odoo w))"
proof -
  have i: "d_id d = i" using find_deal_in[OF assms(1)] by simp
  have c: "customer_deal i partner (w_db w) = Inr d"
    using assms(1,2) by (simp add: customer_deal_def option_or_raise_def)
  let ?w1 = "snd (confirm_or_wait gw d partner w)"
  let ?w2 = "commit (snd (confirmation_note i p ?w1))"
  have w1: "confirm_or_wait gw d partner w = (Inr (), ?w1)"
    by (simp add: confirm_or_wait_def bind_eff_def act_def)
  have "\<exists>e1. find_deal i (w_db ?w1) = Some e1 \<and> w_now ?w1 = w_now w \<and>
    (if d_approval_state d = ApprovalState.APPROVED
     then d_status e1 = CONFIRMED \<and> d_confirmed_at e1 = Some (w_now w) \<and> \<not> d_customer_confirmed_pending e1 \<and>
       w_odoo ?w1 = snd (gw_confirm gw (d_odoo_sale_order_id d) (w_odoo w))
     else d_status e1 = d_status d \<and> d_customer_confirmed_pending e1 \<and> w_odoo ?w1 = w_odoo w)"
    using assms(1) by (simp add: confirm_or_wait_def bind_eff_def act_def record_confirmation_def
        record_pending_confirmation_def customer_event_def find_deal_audit deals.lookup_modify i)
  then obtain e1 where e1: "find_deal i (w_db ?w1) = Some e1"
    "if d_approval_state d = ApprovalState.APPROVED
     then d_status e1 = CONFIRMED \<and> d_confirmed_at e1 = Some (w_now w) \<and> \<not> d_customer_confirmed_pending e1 \<and>
       w_odoo ?w1 = snd (gw_confirm gw (d_odoo_sale_order_id d) (w_odoo w))
     else d_status e1 = d_status d \<and> d_customer_confirmed_pending e1 \<and> w_odoo ?w1 = w_odoo w"
    by blast
  have n: "confirmation_note i p ?w1 = (Inr (), snd (confirmation_note i p ?w1)) \<and>
      w_odoo (snd (confirmation_note i p ?w1)) = w_odoo ?w1 \<and>
      (\<exists>e2. find_deal i (w_db (snd (confirmation_note i p ?w1))) = Some e2 \<and> d_status e2 = d_status e1 \<and>
        d_confirmed_at e2 = d_confirmed_at e1 \<and> d_customer_confirmed_pending e2 = d_customer_confirmed_pending e1)"
    using e1(1) find_deal_in[OF e1(1)]
    by (simp add: confirmation_note_def add_portal_comment_def bind_eff_def ask_def option_or_raise_def draw_def
        act_def answer_def split_beta)
  obtain v1 where v1: "confirm_or_wait gw d partner w = (Inr (), v1)" using w1 by blast
  obtain v2 where v2: "confirmation_note i p v1 = (Inr (), v2)" using n v1 by fastforce
  have "snd (confirm_deal_by_customer gw i partner p w) = commit v2"
    using assms(3) c v1 v2 by (simp add: confirm_deal_by_customer_def bind_eff_def ask_def act_def i view_keeps_world)
  then have "snd (confirm_deal_by_customer gw i partner p w) = ?w2" using v1 v2 by simp
  then show ?thesis using e1(2) n by (auto simp: Let_def)
qed

text \<open>
  C16: What a customer's confirmation does. Only the customer of a deal confirms it, and a deal that is
  already confirmed, invoiced or paid is only shown. An approved deal becomes confirmed at once and Odoo
  is asked to confirm the order - whatever Odoo answers; any other deal keeps its status and Odoo is left
  alone, and it is marked as accepted by the customer for when the approval comes.
\<close>

theorem customer_confirmation_outcome:
  assumes run: "confirm_deal_by_customer gw i partner p w = (res, w')"
  shows "(case find_deal i (w_db w) of
      None \<Rightarrow> res = Inl (EntityNotFoundError ''Deal'' (int i)) \<and> w' = w
    | Some d \<Rightarrow>
        if d_odoo_partner_id d \<noteq> partner then res = Inl (EntityNotFoundError ''Deal'' (int i)) \<and> w' = w
        else if d_status d \<in> {CONFIRMED, INVOICED, PAID} then w' = w
        else w_saved w' = w_db w' \<and> (\<exists>e. find_deal i (w_db w') = Some e \<and>
          (if d_approval_state d = ApprovalState.APPROVED
           then d_status e = CONFIRMED \<and> d_confirmed_at e = Some (w_now w) \<and> \<not> d_customer_confirmed_pending e \<and>
             w_odoo w' = snd (gw_confirm gw (d_odoo_sale_order_id d) (w_odoo w))
           else d_status e = d_status d \<and> d_customer_confirmed_pending e \<and> w_odoo w' = w_odoo w)))"
proof (cases "find_deal i (w_db w)")
  case None
  then show ?thesis
    using run by (simp add: confirm_deal_by_customer_def bind_eff_def ask_def customer_deal_def option_or_raise_def)
next
  case (Some d)
  have w': "w' = snd (confirm_deal_by_customer gw i partner p w)" using run by simp
  show ?thesis
  proof (cases "d_odoo_partner_id d = partner \<and> d_status d \<notin> {CONFIRMED, INVOICED, PAID}")
    case True
    then show ?thesis using customer_confirms[OF Some, of partner gw p] Some w' by (auto simp: Let_def)
  next
    case False
    then show ?thesis
      using run Some w' view_keeps_world[of gw i partner w]
      by (auto simp: confirm_deal_by_customer_def bind_eff_def ask_def customer_deal_def option_or_raise_def)
  qed
qed

definition approved_db :: database where
  "approved_db = small_db [(small_deal ApprovalState.APPROVED MANAGER)\<lparr>d_approved_assessment_id := Some 2\<rparr>] []"

lemma approved_db_found: "find_deal 6 approved_db = Some ((small_deal ApprovalState.APPROVED MANAGER)\<lparr>d_approved_assessment_id := Some 2\<rparr>)"
  by (simp add: approved_db_def find_deal_def)

theorem customer_confirmation_outcome_witness:
  "\<exists>e. find_deal 6 (w_db (snd (confirm_deal_by_customer fake_gateway 6 1
      \<lparr>pcr_accepted = False, pcr_signature_name = None, pcr_comment = Some ''no''\<rparr> (small_world approved_db)))) = Some e \<and>
    d_status e = CONFIRMED"
  using customer_confirmation_outcome[OF prod.collapse[symmetric], of fake_gateway 6 1 "\<lparr>pcr_accepted = False,
      pcr_signature_name = None, pcr_comment = Some ''no''\<rparr>" "small_world approved_db"]
  by (auto simp: approved_db_found)

text \<open>
  The order of the deal may be locked, or not exist in Odoo at all: the deal is confirmed all the same.
\<close>

lemma confirmed_without_odoo:
  "let (res, w') = confirm_deal_by_customer fake_gateway 6 1
      \<lparr>pcr_accepted = True, pcr_signature_name = None, pcr_comment = None\<rparr>
      ((small_world approved_db)\<lparr>w_odoo := (small_state 20)\<lparr>fk_orders := []\<rparr>\<rparr>) in
   map_option d_status (find_deal 6 (w_db w')) = Some CONFIRMED \<and>
   isl (gw_get_sale_order fake_gateway 1 (w_odoo w'))"
proof -
  let ?w = "(small_world approved_db)\<lparr>w_odoo := (small_state 20)\<lparr>fk_orders := []\<rparr>\<rparr>"
  let ?p = "\<lparr>pcr_accepted = True, pcr_signature_name = None, pcr_comment = None\<rparr>"
  have "snd (gw_confirm fake_gateway 1 ((small_state 20)\<lparr>fk_orders := []\<rparr>)) = (small_state 20)\<lparr>fk_orders := []\<rparr>"
    by (simp add: fake_gateway_def fake_confirm_def)
  moreover have "isl (gw_get_sale_order fake_gateway 1 ((small_state 20)\<lparr>fk_orders := []\<rparr>))"
    by (simp add: fake_gateway_def fake_get_sale_order_def)
  ultimately show ?thesis
    using customer_confirms[of 6 ?w "(small_deal ApprovalState.APPROVED MANAGER)\<lparr>d_approved_assessment_id := Some 2\<rparr>" 1 fake_gateway ?p]
    by (auto simp: approved_db_found Let_def split_beta)
qed

end
