(* ===== verification/Approval_Progress.thy ===== *)
theory Approval_Progress
  imports Decisions
begin

text \<open>
  The approval of a deal comes to an end: every decision that is not an escalation uses up one of the
  stages that are left, so that only so many decisions can follow each other before the deals are evaluated again.
\<close>

section \<open>Stages\<close>

definition stage_weight :: "approval_request \<Rightarrow> nat" where
  "stage_weight r = (if ar_status r \<noteq> ApprovalRequestStatus.PENDING then 0
     else if ar_required_level r = ''SALES_MANAGER'' then 2 else 1)"

definition stages_left :: "database \<Rightarrow> nat" where
  "stages_left db = sum_list (map stage_weight (db_requests db))"

lemma stages_cong: "db_requests db' = db_requests db \<Longrightarrow> stages_left db' = stages_left db"
  by (simp add: stages_left_def)

lemma stages_close:
  assumes "r \<in> set (db_requests db)" and "\<And>q. ar_status (f q) \<noteq> ApprovalRequestStatus.PENDING"
  shows "stages_left (update_request (ar_id r) f db) + stage_weight r \<le> stages_left db"
proof -
  have z: "stage_weight (f q) = 0" for q using assms(2) by (simp add: stage_weight_def)
  have "sum_list (map stage_weight (update_row ar_id (ar_id r) f rows)) \<le> sum_list (map stage_weight rows)" for rows
    by (induction rows) (simp_all add: z)
  moreover have "sum_list (map stage_weight (update_row ar_id (ar_id r) f rows)) + stage_weight r \<le>
      sum_list (map stage_weight rows)" if "r \<in> set rows" for rows
    using that
  proof (induction rows)
    case (Cons q rows)
    then show ?case using calculation[of rows] by (cases "q = r") (auto simp: z intro: add_mono)
  qed simp
  ultimately show ?thesis using assms(1) by (simp add: stages_left_def update_request_def)
qed

lemma stages_add: "stages_left (add_request i a ''FINANCE'' sq now db) = stages_left db + 1"
  by (simp add: stages_left_def add_request_def new_request_def stage_weight_def)

section \<open>A decision\<close>

lemma decided_closed: "st \<noteq> ApprovalRequestStatus.PENDING \<Longrightarrow> ar_status (decided st now a reason q) \<noteq> ApprovalRequestStatus.PENDING"
  by (simp add: decided_def)

lemma stages_decision:
  assumes "decide_approval_request gw i u action reason w = (Inr x, w')"
    and "action = APPROVE \<or> action = REJECT \<or> action = RETURN"
  shows "stages_left (w_db w') < stages_left (w_db w)"
proof -
  obtain r d where r: "is_pending (d_id d) r" "r \<in> set (db_requests (w_db w))"
    and w': "w' = commit (carry_out gw action r d u reason (on_db (add_action i u action reason (w_now w)) w))"
    using decide_Inr[OF assms(1)] by blast
  let ?w = "on_db (add_action i u action reason (w_now w)) w"
  have close: "stages_left (update_request (ar_id r) (decided st (w_now w) a reason) (w_db ?w)) + stage_weight r
      \<le> stages_left (w_db w)" if "st \<noteq> ApprovalRequestStatus.PENDING" for st a
  proof -
    have "stages_left (w_db ?w) = stages_left (w_db w)" by (rule stages_cong) (simp add: add_action_def)
    moreover have "r \<in> set (db_requests (w_db ?w))" using r(2) by (simp add: add_action_def)
    ultimately show ?thesis using stages_close[of r "w_db ?w", OF _ decided_closed[OF that]] by simp
  qed
  have weight: "0 < stage_weight r" "ar_required_level r = ''SALES_MANAGER'' \<Longrightarrow> stage_weight r = 2"
    using r(1) by (simp_all add: stage_weight_def is_pending_def)
  have last: "stages_left (w_db (finalize_approval gw r d w0)) = stages_left (w_db w0)" for w0
    by (rule stages_cong) (simp add: finalize_approval_def Let_def overlay_def auto_confirm_def attempt_def split_beta)
  have audit: "stages_left (audit_decision t r d u now db) = stages_left db" for t now db
    by (rule stages_cong) (simp add: audit_decision_def)
  have settle: "stages_left (settle_deal st d now db) = stages_left db" for st now db
    by (rule stages_cong) (simp add: settle_deal_def update_deal_def)
  have journal: "stages_left (record_audit_event t et ei di ty ai ar now db) = stages_left db" for t et ei di ty ai ar now db
    by (rule stages_cong) simp
  have noted: "stages_left (notify a t k dk now db) = stages_left db" for a t k dk now db
    by (rule stages_cong) simp
  consider "action = APPROVE" | "action = REJECT" | "action = RETURN" using assms(2) by blast
  then show ?thesis
  proof cases
    case 1
    then show ?thesis
      using close[of ApprovalRequestStatus.APPROVED "u_odoo_user_id u"] weight
      by (cases "ar_required_level r = ''SALES_MANAGER''")
         (simp_all add: w' approve_request_def Let_def open_finance_stage_def last audit settle journal stages_add)
  next
    case 2
    then show ?thesis
      using close[of ApprovalRequestStatus.REJECTED "u_odoo_user_id u"] weight(1)
      by (simp add: w' reject_request_def Let_def overlay_def audit settle noted)
  next
    case 3
    then show ?thesis
      using close[of ApprovalRequestStatus.RETURNED "u_odoo_user_id u"] weight(1)
      by (simp add: w' return_request_def Let_def overlay_def audit settle noted)
  qed
qed

section \<open>Decisions in a row\<close>

type_synonym decision = "uuid \<times> dealflow_user \<times> ApprovalActionType \<times> string option"

text \<open>Decisions one after the other, all of which have to be accepted.\<close>

fun decide_in_turn :: "'g gateway \<Rightarrow> decision list \<Rightarrow> 'g world \<Rightarrow> 'g world option" where
  "decide_in_turn gw [] w = Some w"
| "decide_in_turn gw ((i, u, action, reason) # ds) w =
     (case decide_approval_request gw i u action reason w of (Inl e, w1) \<Rightarrow> None
      | (Inr x, w1) \<Rightarrow> decide_in_turn gw ds w1)"

lemma decisions_bounded:
  "decide_in_turn gw ds w = Some w' \<Longrightarrow>
     list_all (\<lambda>(i, u, action, reason). action = APPROVE \<or> action = REJECT \<or> action = RETURN) ds \<Longrightarrow>
     length ds + stages_left (w_db w') \<le> stages_left (w_db w)"
proof (induction gw ds w arbitrary: w' rule: decide_in_turn.induct)
  case (2 gw i u action reason ds w)
  obtain x w1 where d: "decide_approval_request gw i u action reason w = (Inr x, w1)" "decide_in_turn gw ds w1 = Some w'"
    using 2(2) by (auto split: prod.splits sum.splits)
  have "length ds + stages_left (w_db w') \<le> stages_left (w_db w1)" using 2(1)[OF d(1)[symmetric] refl d(2)] 2(3) by simp
  moreover have "stages_left (w_db w1) < stages_left (w_db w)" using stages_decision[OF d(1)] 2(3) by simp
  ultimately show ?case by simp
qed simp

lemma stages_pending: "stages_left db \<le> 2 * length (filter (\<lambda>r. ar_status r = ApprovalRequestStatus.PENDING) (db_requests db))"
proof -
  have "sum_list (map stage_weight rows) \<le> 2 * length (filter (\<lambda>r. ar_status r = ApprovalRequestStatus.PENDING) rows)" for rows
    by (induction rows) (auto simp: stage_weight_def)
  then show ?thesis by (simp add: stages_left_def)
qed

text \<open>
  C14: Approvals come to an end. However the approvers choose - approve, reject or return, any request,
  in any order - at most two decisions per pending request can be accepted before no request is pending:
  each accepted decision closes its request, and only the decision of a sales manager may open another,
  the one of finance.
\<close>

theorem approvals_come_to_an_end:
  assumes "decide_in_turn gw ds w = Some w'"
    and "list_all (\<lambda>(i, u, action, reason). action = APPROVE \<or> action = REJECT \<or> action = RETURN) ds"
  shows "length ds \<le> 2 * length (filter (\<lambda>r. ar_status r = ApprovalRequestStatus.PENDING) (db_requests (w_db w)))"
  using decisions_bounded[OF assms] stages_pending[of "w_db w"] by simp

theorem approvals_come_to_an_end_witness:
  "\<exists>w'. decide_in_turn fake_gateway [(3, small_user 7 SALES_MANAGER, APPROVE, None)] (small_world awaiting_db) = Some w' \<and>
     1 \<le> 2 * length (filter (\<lambda>r. ar_status r = ApprovalRequestStatus.PENDING) (db_requests awaiting_db))"
proof -
  obtain w' where w': "decide_in_turn fake_gateway [(3, small_user 7 SALES_MANAGER, APPROVE, None)]
      (small_world awaiting_db) = Some w'"
    by (simp add: decide_approval_request_def awaiting_check Let_def)
  from approvals_come_to_an_end[OF w'] w' show ?thesis by auto
qed

end
