(* ===== verification/Reports.thy ===== *)
theory Reports
  imports Handlers
begin

text \<open>
  The reports, \<^verbatim>\<open>app/services/report_service.py\<close>: the filters, the deals they select, and the eight
  reports, each as a function of the database (and of Odoo, where it asks). Floats are summed from the
  left, as Python 3.11 does. A day of a filter is the clock reading it was given with: \<^verbatim>\<open>strip_tz\<close> drops
  an offset without converting. The time a report was generated, its rendering as PDF or as a spreadsheet
  (\<^verbatim>\<open>app/reports\<close>), and the JSON are left out. The properties are in \<open>Report_Facts\<close>.
\<close>

section \<open>Aggregation\<close>

text \<open>\<^verbatim>\<open>defaultdict(list)\<close> filled in a loop: the keys in the order in which they first occur.\<close>

definition first_seen :: "'k list \<Rightarrow> 'k list" where
  "first_seen ks = rev (remdups (rev ks))"

definition grouped :: "('a \<Rightarrow> 'k) \<Rightarrow> 'a list \<Rightarrow> ('k \<times> 'a list) list" where
  "grouped f xs = map (\<lambda>k. (k, filter (\<lambda>x. f x = k) xs)) (first_seen (map f xs))"

text \<open>\<^verbatim>\<open>sorted(xs, key=f, reverse=True)\<close>: elements with the same key keep their order.\<close>

definition sorted_desc :: "('a \<Rightarrow> rat) \<Rightarrow> 'a list \<Rightarrow> 'a list" where
  "sorted_desc f xs = sort_key (\<lambda>x. - f x) xs"

text \<open>\<^verbatim>\<open>Decimal(str(round(sum(xs) / len(xs), 2)))\<close> on decimals, zero for none.\<close>

definition avg_dec :: "dec list \<Rightarrow> dec" where
  "avg_dec xs = (if xs = [] then 0 else pyround (ddiv (dsum xs) (of_nat (length xs))) 2)"

text \<open>The same on floats, and \<^verbatim>\<open>Decimal(str(round((k / n) * 100.0, 2)))\<close> on integers.\<close>

definition avg_float :: "rat list \<Rightarrow> dec" where
  "avg_float xs = (if xs = [] then 0 else float_repr (fround (fdiv (foldl fadd 0 xs) (of_nat (length xs))) 2))"

definition rate_pct :: "nat \<Rightarrow> nat \<Rightarrow> dec" where
  "rate_pct k n = (if n = 0 then 0 else float_repr (fround (fmul (fdiv (of_nat k) (of_nat n)) 100) 2))"

section \<open>Filters\<close>

record report_filters =
  fl_period :: string
  fl_from :: "instant option"
  fl_to :: "instant option"
  fl_team_id :: "odoo_id option"
  fl_rep_id :: "odoo_id option"
  fl_approval_status :: "string option"
  fl_product_id :: "odoo_id option"
  fl_category_id :: "odoo_id option"
  fl_format :: string

definition days :: "int \<Rightarrow> instant" where
  "days n = n * 86400 * 10 ^ 6"

definition lower_text :: "string \<Rightarrow> string" where
  "lower_text s = map char_lower s"

definition period_start :: "string \<Rightarrow> instant \<Rightarrow> instant option" where
  "period_start p now =
     (if p = ''today'' then Some (now - now mod days 1)
      else if p = ''week'' then Some (now - days 7)
      else if p = ''month'' then Some (now - days 30)
      else if p = ''quarter'' then Some (now - days 90)
      else None)"

definition parse_filters ::
    "instant \<Rightarrow> string option \<Rightarrow> instant option \<Rightarrow> instant option \<Rightarrow> odoo_id option \<Rightarrow> odoo_id option \<Rightarrow>
     string option \<Rightarrow> odoo_id option \<Rightarrow> odoo_id option \<Rightarrow> string option \<Rightarrow> report_filters" where
  "parse_filters now period from_date to_date team rep status product category fmt =
     (let start = period_start (lower_text (str_or period [])) now;
          given = (from_date \<noteq> None \<or> to_date \<noteq> None) in
      \<lparr>fl_period = str_or period ''custom'',
       fl_from = (if given then from_date else start),
       fl_to = (if given then to_date else map_option (\<lambda>_. now) start),
       fl_team_id = team, fl_rep_id = rep,
       fl_approval_status = (if str_or status [] = [] then None else Some (lower_text (str_or status []))),
       fl_product_id = product, fl_category_id = category, fl_format = lower_text (str_or fmt ''json'')\<rparr>)"

section \<open>The deals of a report\<close>

fun approval_state_value :: "ApprovalState \<Rightarrow> string" where
  "approval_state_value NOT_EVALUATED = ''NOT_EVALUATED''"
| "approval_state_value EVALUATED_NO_APPROVAL = ''EVALUATED_NO_APPROVAL''"
| "approval_state_value PENDING_MANAGER = ''PENDING_MANAGER''"
| "approval_state_value PENDING_FINANCE = ''PENDING_FINANCE''"
| "approval_state_value ApprovalState.APPROVED = ''APPROVED''"
| "approval_state_value ApprovalState.REJECTED = ''REJECTED''"
| "approval_state_value ApprovalState.RETURNED = ''RETURNED''"
| "approval_state_value ApprovalState.INVALIDATED = ''INVALIDATED''"

definition status_selects :: "string \<Rightarrow> deal \<Rightarrow> bool" where
  "status_selects s d =
     (if s = ''pending'' \<or> s = ''pending_approval'' then d_approval_state d \<in> {PENDING_MANAGER, PENDING_FINANCE}
      else if s = ''approved'' then d_approval_state d = ApprovalState.APPROVED \<or> d_approved_assessment_id d \<noteq> None
      else if s = ''rejected'' then d_approval_state d = ApprovalState.REJECTED
      else if s = ''none'' \<or> s = ''evaluated_no_approval''
      then d_approval_state d \<in> {EVALUATED_NO_APPROVAL, NOT_EVALUATED} \<or>
        d_required_level d = ApprovalLevel.NONE \<and> d_approval_state d \<notin> {PENDING_MANAGER, PENDING_FINANCE,
          ApprovalState.APPROVED, ApprovalState.REJECTED, ApprovalState.RETURNED}
      else approval_state_value (d_approval_state d) = map char_upper s)"

definition deal_selected :: "report_filters \<Rightarrow> deal \<Rightarrow> bool" where
  "deal_selected f d =
     ((case fl_from f of None \<Rightarrow> True | Some t \<Rightarrow> t \<le> d_created_at d) \<and>
      (case fl_to f of None \<Rightarrow> True | Some t \<Rightarrow> d_created_at d \<le> t) \<and>
      (case id_or (fl_team_id f) None of None \<Rightarrow> True | Some t \<Rightarrow> d_sales_team_odoo_id d = Some t) \<and>
      (case id_or (fl_rep_id f) None of None \<Rightarrow> True | Some u \<Rightarrow> d_owner_odoo_user_id d = u) \<and>
      (case fl_approval_status f of None \<Rightarrow> True | Some s \<Rightarrow> status_selects s d))"

text \<open>
  A line of a snapshot has no key \<^verbatim>\<open>category_id\<close> and no key \<^verbatim>\<open>category_path\<close> (the evaluation never writes
  them), so both lookups give their defaults.
\<close>

definition line_category :: "line_snapshot_item \<Rightarrow> odoo_id option" where
  "line_category l = None"

definition line_category_path :: "line_snapshot_item \<Rightarrow> odoo_id list" where
  "line_category_path l = []"

definition in_category :: "odoo_id \<Rightarrow> line_snapshot_item \<Rightarrow> bool" where
  "in_category c l = (line_category l = Some c \<or> c \<in> set (line_category_path l))"

definition snapshot_of :: "database \<Rightarrow> deal \<Rightarrow> line_snapshot_item list" where
  "snapshot_of db d =
     (case Option.bind (d_current_assessment_id d) (\<lambda>a. find_assessment a db) of None \<Rightarrow> []
      | Some a \<Rightarrow> ra_line_snapshot a)"

definition line_selected :: "report_filters \<Rightarrow> line_snapshot_item \<Rightarrow> bool" where
  "line_selected f l =
     ((case id_or (fl_product_id f) None of None \<Rightarrow> False | Some p \<Rightarrow> ls_product_id l = p) \<or>
      (case id_or (fl_category_id f) None of None \<Rightarrow> False | Some c \<Rightarrow> in_category c l))"

definition get_matching_deals :: "report_filters \<Rightarrow> database \<Rightarrow> deal list" where
  "get_matching_deals f db =
     (let deals = newest_first d_created_at (filter (deal_selected f) (db_deals db)) in
      if id_or (fl_product_id f) None = None \<and> id_or (fl_category_id f) None = None then deals
      else filter (\<lambda>d. list_ex (line_selected f) (snapshot_of db d)) deals)"

definition requests_of :: "deal list \<Rightarrow> database \<Rightarrow> approval_request list" where
  "requests_of ds db = filter (\<lambda>r. ar_deal_id r \<in> set (map d_id ds)) (db_requests db)"

text \<open>\<^verbatim>\<open>total_seconds() / 3600.0\<close> of what a request took.\<close>

definition hours_between :: "instant \<Rightarrow> instant \<Rightarrow> rat" where
  "hours_between a b = fdiv (fl64 (of_int (b - a) / 10 ^ 6)) 3600"

definition completed_hours :: "approval_request list \<Rightarrow> rat list" where
  "completed_hours rs = concat (map (\<lambda>r. case ar_completed_at r of None \<Rightarrow> []
     | Some t \<Rightarrow> [hours_between (ar_requested_at r) t]) rs)"

section \<open>Summary\<close>

record report_summary =
  rsm_period :: string
  rsm_date_from :: "instant option"
  rsm_date_to :: "instant option"
  rsm_quotations_created :: nat
  rsm_quotations_sent :: nat
  rsm_quotations_confirmed :: nat
  rsm_win_rate :: dec
  rsm_revenue_confirmed :: dec
  rsm_avg_discount :: dec
  rsm_avg_margin :: dec
  rsm_avg_approval_turnaround_hours :: dec
  rsm_pending_approvals_count :: nat

definition counts_as_confirmed :: "deal \<Rightarrow> bool" where
  "counts_as_confirmed d = (d_confirmed_at d \<noteq> None \<or>
     d_status d \<in> {CONFIRMED, IN_FULFILLMENT, FULFILLED, INVOICED, PAID})"

definition counts_as_sent :: "deal \<Rightarrow> bool" where
  "counts_as_sent d = (d_sent_at d \<noteq> None \<or>
     d_status d \<in> {SENT, UNDER_NEGOTIATION, CONFIRMED, IN_FULFILLMENT, FULFILLED, INVOICED, PAID})"

definition deal_revenue :: "deal \<Rightarrow> dec" where
  "deal_revenue d =
     (let rev = dadd (d_one_time_total_cache d) (d_recurring_first_cycle_total_cache d) in
      if rev = 0 then d_amount_total_cache d else rev)"

definition get_summary_report :: "report_filters \<Rightarrow> database \<Rightarrow> report_summary" where
  "get_summary_report f db =
     (let deals = get_matching_deals f db;
          confirmed = filter counts_as_confirmed deals;
          reqs = requests_of deals db;
          pending = (\<lambda>r. ar_status r = ApprovalRequestStatus.PENDING) in
      \<lparr>rsm_period = fl_period f, rsm_date_from = fl_from f, rsm_date_to = fl_to f,
       rsm_quotations_created = length deals,
       rsm_quotations_sent = length (filter counts_as_sent deals),
       rsm_quotations_confirmed = length confirmed,
       rsm_win_rate = rate_pct (length confirmed) (length deals),
       rsm_revenue_confirmed = dsum (map deal_revenue confirmed),
       rsm_avg_discount = avg_dec (map d_order_discount_pct deals),
       rsm_avg_margin = avg_dec (map d_margin_pct_cache deals),
       rsm_avg_approval_turnaround_hours = avg_float (completed_hours (filter (\<lambda>r. \<not> pending r) reqs)),
       rsm_pending_approvals_count = length (filter pending reqs)\<rparr>)"

section \<open>Deals\<close>

record report_deal_item =
  rdi_deal_id :: uuid
  rdi_reference :: string
  rdi_odoo_order_name :: string
  rdi_partner_name :: string
  rdi_owner_odoo_user_id :: odoo_id
  rdi_sales_team_odoo_id :: "odoo_id option"
  rdi_status :: DealStatus
  rdi_approval_state :: ApprovalState
  rdi_health_status :: HealthStatus
  rdi_current_risk_score :: "dec option"
  rdi_current_severity :: "RiskSeverity option"
  rdi_amount_total :: dec
  rdi_order_discount_pct :: dec
  rdi_margin_pct :: dec
  rdi_created_at :: instant
  rdi_sent_at :: "instant option"
  rdi_confirmed_at :: "instant option"

definition report_deal :: "deal \<Rightarrow> report_deal_item" where
  "report_deal d = \<lparr>rdi_deal_id = d_id d, rdi_reference = d_reference d,
     rdi_odoo_order_name = d_odoo_order_name d,
     rdi_partner_name = str_or (d_partner_name_cache d) (''Partner #'' @ int_text (d_odoo_partner_id d)),
     rdi_owner_odoo_user_id = d_owner_odoo_user_id d, rdi_sales_team_odoo_id = d_sales_team_odoo_id d,
     rdi_status = d_status d, rdi_approval_state = d_approval_state d, rdi_health_status = d_health_status d,
     rdi_current_risk_score = d_current_risk_score d, rdi_current_severity = d_current_severity d,
     rdi_amount_total = d_amount_total_cache d, rdi_order_discount_pct = d_order_discount_pct d,
     rdi_margin_pct = d_margin_pct_cache d, rdi_created_at = d_created_at d, rdi_sent_at = d_sent_at d,
     rdi_confirmed_at = d_confirmed_at d\<rparr>"

record report_deals =
  rds_items :: "report_deal_item list"
  rds_total :: nat
  rds_period :: string

definition get_deals_report :: "report_filters \<Rightarrow> database \<Rightarrow> report_deals" where
  "get_deals_report f db =
     (let items = map report_deal (get_matching_deals f db) in
      \<lparr>rds_items = items, rds_total = length items, rds_period = fl_period f\<rparr>)"

section \<open>Approvals\<close>

record stage_turnaround =
  sta_required_level :: string
  sta_total_requests :: nat
  sta_avg_turnaround_hours :: dec
  sta_approved_count :: nat
  sta_rejected_count :: nat
  sta_returned_count :: nat

record report_approvals =
  rap_by_status :: "(ApprovalRequestStatus \<times> nat) list"
  rap_turnaround_by_stage :: "stage_turnaround list"
  rap_top_rejection_reasons :: "(string \<times> nat) list"
  rap_total_requests :: nat
  rap_completed_requests :: nat
  rap_approval_rate :: dec
  rap_period :: string

text \<open>The statuses in the order of their names, in which the breakdown is sorted.\<close>

definition statuses_by_name :: "ApprovalRequestStatus list" where
  "statuses_by_name = [ApprovalRequestStatus.APPROVED, ApprovalRequestStatus.EXPIRED,
     ApprovalRequestStatus.INVALIDATED, ApprovalRequestStatus.PENDING, ApprovalRequestStatus.REJECTED,
     ApprovalRequestStatus.RETURNED]"

definition with_status :: "ApprovalRequestStatus \<Rightarrow> approval_request list \<Rightarrow> nat" where
  "with_status st rs = length (filter (\<lambda>r. ar_status r = st) rs)"

definition status_breakdown :: "approval_request list \<Rightarrow> (ApprovalRequestStatus \<times> nat) list" where
  "status_breakdown rs = filter (\<lambda>(st, c). c \<noteq> 0) (map (\<lambda>st. (st, with_status st rs)) statuses_by_name)"

definition stage_of :: "string \<times> approval_request list \<Rightarrow> stage_turnaround" where
  "stage_of = (\<lambda>(level, rs). \<lparr>sta_required_level = level, sta_total_requests = length rs,
     sta_avg_turnaround_hours = avg_float (completed_hours rs),
     sta_approved_count = with_status ApprovalRequestStatus.APPROVED rs,
     sta_rejected_count = with_status ApprovalRequestStatus.REJECTED rs,
     sta_returned_count = with_status ApprovalRequestStatus.RETURNED rs\<rparr>)"

text \<open>
  The reasons of the requests and, after them, those of the actions on the requests. A decision writes
  its reason to both, so it is counted twice.
\<close>

definition request_reasons :: "approval_request list \<Rightarrow> string list" where
  "request_reasons rs = map (\<lambda>r. py_strip (str_or (ar_decision_reason r) []))
     (filter (\<lambda>r. ar_status r \<in> {ApprovalRequestStatus.REJECTED, ApprovalRequestStatus.RETURNED} \<and>
        str_or (ar_decision_reason r) [] \<noteq> []) rs)"

definition action_reasons :: "approval_request list \<Rightarrow> approval_action list \<Rightarrow> string list" where
  "action_reasons rs as = filter (\<lambda>s. s \<noteq> []) (map (\<lambda>a. py_strip (str_or (aa_reason a) []))
     (filter (\<lambda>a. aa_approval_request_id a \<in> set (map ar_id rs) \<and> aa_action a \<in> {REJECT, RETURN}) as))"

definition top_reasons :: "string list \<Rightarrow> (string \<times> nat) list" where
  "top_reasons reasons = take 10 (sorted_desc (\<lambda>(s, c). of_nat c)
     (map (\<lambda>(s, xs). (s, length xs)) (grouped (\<lambda>s. s) reasons)))"

definition no_approvals :: "report_filters \<Rightarrow> report_approvals" where
  "no_approvals f = \<lparr>rap_by_status = [], rap_turnaround_by_stage = [], rap_top_rejection_reasons = [],
     rap_total_requests = 0, rap_completed_requests = 0, rap_approval_rate = 0, rap_period = fl_period f\<rparr>"

definition approvals_of :: "report_filters \<Rightarrow> approval_request list \<Rightarrow> approval_action list \<Rightarrow> report_approvals" where
  "approvals_of f rs as =
     (let completed = length (filter (\<lambda>r. ar_completed_at r \<noteq> None) rs) in
      \<lparr>rap_by_status = status_breakdown rs,
       rap_turnaround_by_stage = map stage_of (grouped ar_required_level rs),
       rap_top_rejection_reasons = top_reasons (request_reasons rs @ action_reasons rs as),
       rap_total_requests = length rs, rap_completed_requests = completed,
       rap_approval_rate = rate_pct (with_status ApprovalRequestStatus.APPROVED rs) completed,
       rap_period = fl_period f\<rparr>)"

text \<open>
  Without a matching deal the report is empty when a team, a representative or a first day was asked for,
  and otherwise covers every request there is.
\<close>

definition get_approvals_report :: "report_filters \<Rightarrow> database \<Rightarrow> report_approvals" where
  "get_approvals_report f db =
     (let deals = get_matching_deals f db in
      if deals \<noteq> [] then approvals_of f (requests_of deals db) (db_actions db)
      else if id_or (fl_team_id f) None \<noteq> None \<or> id_or (fl_rep_id f) None \<noteq> None \<or> fl_from f \<noteq> None
      then no_approvals f
      else approvals_of f (db_requests db) (db_actions db))"

section \<open>Products\<close>

record product_performance =
  ppf_product_id :: odoo_id
  ppf_product_name :: string
  ppf_category_id :: "odoo_id option"
  ppf_qty_sold :: rat
  ppf_revenue :: dec
  ppf_avg_discount_pct :: dec

record report_products =
  rpd_best_selling_by_qty :: "product_performance list"
  rpd_best_selling_by_revenue :: "product_performance list"
  rpd_most_discounted :: "product_performance list"
  rpd_period :: string

definition line_counted :: "report_filters \<Rightarrow> line_snapshot_item \<Rightarrow> bool" where
  "line_counted f l =
     (ls_product_id l \<noteq> 0 \<and>
      (case id_or (fl_product_id f) None of None \<Rightarrow> True | Some p \<Rightarrow> ls_product_id l = p) \<and>
      (case id_or (fl_category_id f) None of None \<Rightarrow> True | Some c \<Rightarrow> in_category c l))"

definition line_discount :: "line_snapshot_item \<Rightarrow> dec" where
  "line_discount l = float_repr (ls_discount_pct l)"

definition line_revenue :: "line_snapshot_item \<Rightarrow> dec" where
  "line_revenue l = dmul (dmul (float_repr (ls_price_unit l)) (float_repr (ls_qty l)))
     (dsub 1 (ddiv (line_discount l) 100))"

definition product_name_or :: "string \<Rightarrow> odoo_id \<Rightarrow> string" where
  "product_name_or name p = str_or (Some name) (''Product #'' @ int_text p)"

definition product_totals :: "odoo_id \<times> line_snapshot_item list \<Rightarrow> product_performance" where
  "product_totals = (\<lambda>(p, ls). \<lparr>ppf_product_id = p, ppf_product_name = product_name_or (ls_product_name (last ls)) p,
     ppf_category_id = line_category (last ls), ppf_qty_sold = foldl fadd 0 (map ls_qty ls),
     ppf_revenue = dsum (map line_revenue ls), ppf_avg_discount_pct = avg_dec (map line_discount ls)\<rparr>)"

text \<open>When nothing was sold, the catalogue entries 101 to 109 are listed instead.\<close>

definition unsold_product :: "odoo_id \<times> raw_product \<Rightarrow> product_performance" where
  "unsold_product = (\<lambda>(p, r). \<lparr>ppf_product_id = p, ppf_product_name = product_name_or (rpr_name r) p,
     ppf_category_id = Some (rpr_category_id r), ppf_qty_sold = 0, ppf_revenue = 0, ppf_avg_discount_pct = 0\<rparr>)"

definition unsold_products :: "'g gateway option \<Rightarrow> 'g \<Rightarrow> product_performance list" where
  "unsold_products gw g =
     (case gw of None \<Rightarrow> []
      | Some gw \<Rightarrow> (case gw_get_products gw [101..109] g of Inl _ \<Rightarrow> [] | Inr ps \<Rightarrow> map unsold_product ps))"

definition get_products_report :: "'g gateway option \<Rightarrow> report_filters \<Rightarrow> 'g \<Rightarrow> database \<Rightarrow> report_products" where
  "get_products_report gw f g db =
     (let sold = filter (line_counted f) (concat (map (snapshot_of db) (get_matching_deals f db)));
          items = (if sold = [] then unsold_products gw g else map product_totals (grouped ls_product_id sold)) in
      \<lparr>rpd_best_selling_by_qty = sorted_desc ppf_qty_sold items,
       rpd_best_selling_by_revenue = sorted_desc ppf_revenue items,
       rpd_most_discounted = sorted_desc ppf_avg_discount_pct items, rpd_period = fl_period f\<rparr>)"

section \<open>Discounts\<close>

record rep_discounts =
  rdd_rep_id :: odoo_id
  rdd_rep_name :: string
  rdd_team_id :: "odoo_id option"
  rdd_deals_count :: nat
  rdd_total_revenue :: dec
  rdd_avg_weighted_discount_pct :: dec
  rdd_overage_count :: nat
  rdd_overage_frequency_pct :: dec
  rdd_anomaly_count :: nat
  rdd_max_discount_pct :: dec

record report_discounts =
  rdr_rep_stats :: "rep_discounts list"
  rdr_company_avg_discount_pct :: dec
  rdr_total_anomalies :: nat
  rdr_total_overages :: nat
  rdr_period :: string

definition rep_name :: "odoo_id \<Rightarrow> database \<Rightarrow> string" where
  "rep_name i db = (case find (\<lambda>u. u_odoo_user_id u = i) (rev (db_users db)) of
     None \<Rightarrow> ''Sales Rep #'' @ int_text i | Some u \<Rightarrow> u_name u)"

text \<open>The owners of the deals of the anomaly alerts, one for each alert; an owner of zero is skipped.\<close>

definition anomaly_owners :: "deal list \<Rightarrow> database \<Rightarrow> odoo_id list" where
  "anomaly_owners ds db =
     filter (\<lambda>u. u \<noteq> 0) (concat (map (\<lambda>a. case find (\<lambda>d. d_id d = al_deal_id a) (rev ds) of
         None \<Rightarrow> [] | Some d \<Rightarrow> [d_owner_odoo_user_id d])
       (filter (\<lambda>a. al_type a = DISCOUNT_ANOMALY) (db_alerts db))))"

definition over_baseline :: "deal \<Rightarrow> bool" where
  "over_baseline d = (10 < d_order_discount_pct d)"

definition rep_weighted_discount :: "deal list \<Rightarrow> dec" where
  "rep_weighted_discount ds =
     (let revenue = dsum (map d_amount_total_cache ds) in
      if 0 < revenue
      then pyround (ddiv (dsum (map (\<lambda>d. dmul (d_amount_total_cache d) (d_order_discount_pct d)) ds)) revenue) 2
      else avg_dec (map d_order_discount_pct ds))"

definition rep_stats_of :: "odoo_id list \<Rightarrow> database \<Rightarrow> odoo_id \<times> deal list \<Rightarrow> rep_discounts" where
  "rep_stats_of anomalies db = (\<lambda>(i, ds).
     (let over = length (filter over_baseline ds) in
      \<lparr>rdd_rep_id = i, rdd_rep_name = rep_name i db, rdd_team_id = d_sales_team_odoo_id (hd ds),
       rdd_deals_count = length ds, rdd_total_revenue = dsum (map d_amount_total_cache ds),
       rdd_avg_weighted_discount_pct = rep_weighted_discount ds, rdd_overage_count = over,
       rdd_overage_frequency_pct = rate_pct over (length ds),
       rdd_anomaly_count = length (filter (\<lambda>u. u = i) anomalies),
       rdd_max_discount_pct = fold max (map d_order_discount_pct ds) 0\<rparr>))"

definition get_discounts_report :: "report_filters \<Rightarrow> database \<Rightarrow> report_discounts" where
  "get_discounts_report f db =
     (let deals = get_matching_deals f db; anomalies = anomaly_owners deals db;
          groups = grouped d_owner_odoo_user_id deals in
      \<lparr>rdr_rep_stats = sorted_desc rdd_avg_weighted_discount_pct (map (rep_stats_of anomalies db) groups),
       rdr_company_avg_discount_pct = avg_dec (map d_order_discount_pct (concat (map snd groups))),
       rdr_total_anomalies = length anomalies,
       rdr_total_overages = sum_list (map (\<lambda>(i, ds). length (filter over_baseline ds)) groups),
       rdr_period = fl_period f\<rparr>)"

section \<open>Pipeline and risk\<close>

record pipeline_stage =
  pst_status :: DealStatus
  pst_count :: nat
  pst_total_value :: dec
  pst_avg_discount_pct :: dec
  pst_avg_margin_pct :: dec

record severity_breakdown =
  svb_severity :: RiskSeverity
  svb_count :: nat
  svb_total_value :: dec
  svb_avg_risk_score :: dec

record top_risk_factor =
  trf_factor_type :: RiskFactorType
  trf_count :: nat
  trf_avg_contribution :: dec

record report_pipeline =
  rpi_pipeline_funnel :: "pipeline_stage list"
  rpi_risk_distribution :: "severity_breakdown list"
  rpi_top_risk_factors :: "top_risk_factor list"
  rpi_total_pipeline_value :: dec
  rpi_total_deals_count :: nat
  rpi_period :: string

definition deal_statuses :: "DealStatus list" where
  "deal_statuses = [DRAFT, SENT, UNDER_NEGOTIATION, CONFIRMED, IN_FULFILLMENT, FULFILLED, INVOICED, PAID,
     DealStatus.CANCELLED, DealStatus.EXPIRED]"

definition risk_severities :: "RiskSeverity list" where
  "risk_severities = [LOW, MEDIUM, HIGH]"

definition stage_item :: "deal list \<Rightarrow> DealStatus \<Rightarrow> pipeline_stage" where
  "stage_item deals st =
     (let ds = filter (\<lambda>d. d_status d = st) deals in
      \<lparr>pst_status = st, pst_count = length ds, pst_total_value = dsum (map d_amount_total_cache ds),
       pst_avg_discount_pct = avg_dec (map d_order_discount_pct ds),
       pst_avg_margin_pct = avg_dec (map d_margin_pct_cache ds)\<rparr>)"

definition shown_severity :: "deal \<Rightarrow> RiskSeverity" where
  "shown_severity d = (case d_current_severity d of None \<Rightarrow> LOW | Some sv \<Rightarrow> sv)"

definition severity_item :: "deal list \<Rightarrow> RiskSeverity \<Rightarrow> severity_breakdown" where
  "severity_item deals sv =
     (let ds = filter (\<lambda>d. shown_severity d = sv) deals in
      \<lparr>svb_severity = sv, svb_count = length ds, svb_total_value = dsum (map d_amount_total_cache ds),
       svb_avg_risk_score = avg_dec (concat (map (\<lambda>d. case d_current_risk_score d of None \<Rightarrow> [] | Some x \<Rightarrow> [x]) ds))\<rparr>)"

definition selected_factors :: "deal list \<Rightarrow> database \<Rightarrow> risk_factor list" where
  "selected_factors deals db =
     filter (\<lambda>f. Some (rf_risk_assessment_id f) \<in> set (map d_current_assessment_id deals)) (db_factors db)"

definition factor_item :: "RiskFactorType \<times> risk_factor list \<Rightarrow> top_risk_factor" where
  "factor_item = (\<lambda>(ty, fs). \<lparr>trf_factor_type = ty, trf_count = length fs,
     trf_avg_contribution = avg_dec (map rf_contribution fs)\<rparr>)"

definition get_pipeline_report :: "report_filters \<Rightarrow> database \<Rightarrow> report_pipeline" where
  "get_pipeline_report f db =
     (let deals = get_matching_deals f db in
      \<lparr>rpi_pipeline_funnel = map (stage_item deals) deal_statuses,
       rpi_risk_distribution = map (severity_item deals) risk_severities,
       rpi_top_risk_factors = sorted_desc (\<lambda>t. of_nat (trf_count t))
         (map factor_item (grouped rf_factor_type (selected_factors deals db))),
       rpi_total_pipeline_value = dsum (map d_amount_total_cache deals),
       rpi_total_deals_count = length deals, rpi_period = fl_period f\<rparr>)"

section \<open>Fulfillment\<close>

record warehouse_item =
  whi_warehouse_id :: odoo_id
  whi_warehouse_name :: string
  whi_shipment_count :: nat
  whi_total_allocated_qty :: int
  whi_total_shipping_cost :: dec

record report_fulfillment =
  rff_warehouse_breakdown :: "warehouse_item list"
  rff_split_rate :: dec
  rff_backorder_rate :: dec
  rff_on_time_pct :: dec
  rff_total_plans :: nat
  rff_total_shipments :: int
  rff_period :: string

definition warehouse_name :: "'g gateway option \<Rightarrow> 'g \<Rightarrow> odoo_id \<Rightarrow> string" where
  "warehouse_name gw g i =
     (let told = (case gw of None \<Rightarrow> []
        | Some gw \<Rightarrow> (case gw_get_warehouses gw g of Inl _ \<Rightarrow> [] | Inr ws \<Rightarrow> ws)) in
      case find (\<lambda>w. rw_id w = i) (rev told) of Some w \<Rightarrow> rw_name w
      | None \<Rightarrow> if i = 1 then ''Main Warehouse'' else if i = 2 then ''East Warehouse''
          else if i = 3 then ''West Warehouse'' else ''Warehouse #'' @ int_text i)"

definition lines_of_plan :: "database \<Rightarrow> fulfillment_plan \<Rightarrow> fulfillment_plan_line list" where
  "lines_of_plan db p = filter (\<lambda>l. fpl_fulfillment_plan_id l = fp_id p) (db_plan_lines db)"

definition allocated_line :: "fulfillment_plan_line \<Rightarrow> bool" where
  "allocated_line l = (0 < fpl_allocated_qty l \<and> id_or (fpl_odoo_warehouse_id l) None \<noteq> None)"

definition plan_warehouses :: "database \<Rightarrow> fulfillment_plan \<Rightarrow> odoo_id set" where
  "plan_warehouses db p = (\<lambda>l. the (fpl_odoo_warehouse_id l)) ` set (filter allocated_line (lines_of_plan db p))"

definition warehouse_item_of ::
    "'g gateway option \<Rightarrow> 'g \<Rightarrow> database \<Rightarrow> fulfillment_plan list \<Rightarrow> odoo_id \<times> fulfillment_plan_line list \<Rightarrow>
     warehouse_item" where
  "warehouse_item_of gw g db plans = (\<lambda>(i, ls). \<lparr>whi_warehouse_id = i, whi_warehouse_name = warehouse_name gw g i,
     whi_shipment_count = length (filter (\<lambda>p. i \<in> plan_warehouses db p) plans),
     whi_total_allocated_qty = sum_list (map fpl_allocated_qty ls),
     whi_total_shipping_cost = dsum (map fpl_shipping_cost ls)\<rparr>)"

text \<open>On time is every deal without an alert of a late delivery, whatever became of the alert.\<close>

definition slipped_deals :: "deal list \<Rightarrow> database \<Rightarrow> uuid set" where
  "slipped_deals ds db = al_deal_id ` set (filter (\<lambda>a. al_deal_id a \<in> set (map d_id ds) \<and>
     al_type a = DELIVERY_SLIPPAGE) (db_alerts db))"

definition get_fulfillment_report :: "'g gateway option \<Rightarrow> report_filters \<Rightarrow> 'g \<Rightarrow> database \<Rightarrow> report_fulfillment" where
  "get_fulfillment_report gw f g db =
     (let deals = get_matching_deals f db;
          plans = filter (\<lambda>p. fp_deal_id p \<in> set (map d_id deals)) (db_plans db);
          ls = filter allocated_line (concat (map (lines_of_plan db) plans));
          split = length (filter (\<lambda>p. 2 \<le> card (plan_warehouses db p)) plans);
          short = length (filter (\<lambda>p. list_ex (\<lambda>l. 0 < fpl_backorder_qty l) (lines_of_plan db p)) plans) in
      \<lparr>rff_warehouse_breakdown = map (warehouse_item_of gw g db plans) (grouped (\<lambda>l. the (fpl_odoo_warehouse_id l)) ls),
       rff_split_rate = rate_pct split (length plans), rff_backorder_rate = rate_pct short (length plans),
       rff_on_time_pct = (if deals = [] then 100
         else rate_pct (length deals - card (slipped_deals deals db)) (length deals)),
       rff_total_plans = length plans, rff_total_shipments = sum_list (map fp_estimated_shipments plans),
       rff_period = fl_period f\<rparr>)"

section \<open>Billing\<close>

record report_billing =
  rbl_total_invoiced :: dec
  rbl_total_paid :: dec
  rbl_total_outstanding :: dec
  rbl_overdue_amount :: dec
  rbl_overdue_count :: nat
  rbl_mrr :: dec
  rbl_active_subscriptions_count :: nat
  rbl_total_credit_notes_amount :: dec
  rbl_credit_notes_count :: nat
  rbl_period :: string

text \<open>The invoices that the gateways hand out have no key \<^verbatim>\<open>is_overdue\<close>.\<close>

definition is_overdue :: "raw_invoice \<Rightarrow> bool" where
  "is_overdue invoice = False"

definition active_subscription :: "raw_subscription \<Rightarrow> bool" where
  "active_subscription s = (rsub_state s = ''in_progress'' \<or> rsub_state s = ''active'')"

text \<open>A deal whose billing Odoo does not answer for is left out.\<close>

definition billing_summaries :: "'g gateway \<Rightarrow> 'g \<Rightarrow> deal list \<Rightarrow> raw_billing_summary list" where
  "billing_summaries gw g ds = concat (map (\<lambda>d. case gw_get_billing_summary gw (d_odoo_sale_order_id d) g of
     Inl _ \<Rightarrow> [] | Inr b \<Rightarrow> [b]) ds)"

definition billing_from_odoo :: "report_filters \<Rightarrow> raw_billing_summary list \<Rightarrow> report_billing" where
  "billing_from_odoo f bs =
     (let invs = concat (map rbs_invoices bs); late = filter is_overdue invs;
          subs = filter active_subscription (concat (map rbs_subscriptions bs)) in
      \<lparr>rbl_total_invoiced = dsum (map (float_repr \<circ> ri_amount_total) invs),
       rbl_total_paid = dsum (map (float_repr \<circ> ri_amount_paid) invs),
       rbl_total_outstanding = dsum (map (float_repr \<circ> ri_amount_residual) invs),
       rbl_overdue_amount = dsum (map (float_repr \<circ> ri_amount_residual) late),
       rbl_overdue_count = length late, rbl_mrr = dsum (map (float_repr \<circ> rsub_recurring_total) subs),
       rbl_active_subscriptions_count = length subs, rbl_total_credit_notes_amount = 0,
       rbl_credit_notes_count = 0, rbl_period = fl_period f\<rparr>)"

text \<open>Without a gateway the report is made of the amounts kept with the deals.\<close>

definition billing_from_deals :: "report_filters \<Rightarrow> deal list \<Rightarrow> report_billing" where
  "billing_from_deals f ds =
     (let invoiced = filter (\<lambda>d. d_status d \<in> {INVOICED, PAID}) ds;
          subs = filter (\<lambda>d. 0 < d_recurring_first_cycle_total_cache d) ds in
      \<lparr>rbl_total_invoiced = dsum (map d_amount_total_cache invoiced),
       rbl_total_paid = dsum (map d_amount_total_cache (filter (\<lambda>d. d_status d = PAID) invoiced)),
       rbl_total_outstanding = dsum (map d_amount_total_cache (filter (\<lambda>d. d_status d \<noteq> PAID) invoiced)),
       rbl_overdue_amount = 0, rbl_overdue_count = 0,
       rbl_mrr = dsum (map d_recurring_first_cycle_total_cache subs),
       rbl_active_subscriptions_count = length subs, rbl_total_credit_notes_amount = 0,
       rbl_credit_notes_count = 0, rbl_period = fl_period f\<rparr>)"

definition get_billing_report :: "'g gateway option \<Rightarrow> report_filters \<Rightarrow> 'g \<Rightarrow> database \<Rightarrow> report_billing" where
  "get_billing_report gw f g db =
     (let deals = get_matching_deals f db in
      case gw of Some gw \<Rightarrow> billing_from_odoo f (billing_summaries gw g deals)
      | None \<Rightarrow> billing_from_deals f deals)"

section \<open>The routes\<close>

text \<open>
  The query of a report; a day without the key is \<open>None\<close>, and the period is \<^verbatim>\<open>month\<close> unless it is given.
\<close>

record report_query =
  rq_period :: "string option"
  rq_from :: "instant option"
  rq_to :: "instant option"
  rq_team_id :: "odoo_id option"
  rq_rep_id :: "odoo_id option"
  rq_approval_status :: "string option"
  rq_product_id :: "odoo_id option"
  rq_category_id :: "odoo_id option"
  rq_format :: string

definition filters_of :: "instant \<Rightarrow> report_query \<Rightarrow> report_filters" where
  "filters_of now q = parse_filters now (rq_period q) (rq_from q) (rq_to q) (rq_team_id q) (rq_rep_id q)
     (rq_approval_status q) (rq_product_id q) (rq_category_id q) (Some (rq_format q))"

text \<open>An answer is the data as JSON, or a file of the data with its media type and its name.\<close>

datatype 'a report_response = DataResponse 'a | FileResponse string string 'a

definition report_file_name :: "string \<Rightarrow> report_filters \<Rightarrow> string \<Rightarrow> string" where
  "report_file_name report_type f extension = ''dealflow_'' @ report_type @ ''_'' @ fl_period f @ ''.'' @ extension"

definition render_or_json :: "string \<Rightarrow> 'a \<Rightarrow> report_filters \<Rightarrow> string \<Rightarrow> 'a report_response" where
  "render_or_json report_type data f fmt =
     (if fmt = ''pdf'' then FileResponse ''application/pdf'' (report_file_name report_type f ''pdf'') data
      else if fmt = ''xlsx''
      then FileResponse ''application/vnd.openxmlformats-officedocument.spreadsheetml.sheet''
        (report_file_name report_type f ''xlsx'') data
      else DataResponse data)"

definition report_roles :: "Role list" where
  "report_roles = [ADMIN, SALES_MANAGER, SALES_REP, FINANCE]"

text \<open>What the eight routes have in common; a format that the pattern refuses never reaches the handler.\<close>

definition report_route ::
    "'t token_library \<Rightarrow> access_settings \<Rightarrow> 't option \<Rightarrow> string \<Rightarrow> (report_filters \<Rightarrow> 'a) \<Rightarrow> report_query \<Rightarrow>
     'g world \<Rightarrow> exc + 'a report_response" where
  "report_route lib st auth report_type build q w =
     bind_exc (require_roles lib st report_roles auth w) (\<lambda>_.
     if rq_format q \<notin> {''json'', ''pdf'', ''xlsx''} then Inl ValidationError
     else (let f = filters_of (w_now w) q in Inr (render_or_json report_type (build f) f (rq_format q))))"

definition summary_route :: "'t token_library \<Rightarrow> access_settings \<Rightarrow> 't option \<Rightarrow> report_query \<Rightarrow> 'g world \<Rightarrow>
     exc + report_summary report_response" where
  "summary_route lib st auth q w =
     report_route lib st auth ''summary'' (\<lambda>f. get_summary_report f (w_db w)) q w"

definition deals_route :: "'t token_library \<Rightarrow> access_settings \<Rightarrow> 't option \<Rightarrow> report_query \<Rightarrow> 'g world \<Rightarrow>
     exc + report_deals report_response" where
  "deals_route lib st auth q w =
     report_route lib st auth ''deals'' (\<lambda>f. get_deals_report f (w_db w)) q w"

definition approvals_route :: "'t token_library \<Rightarrow> access_settings \<Rightarrow> 't option \<Rightarrow> report_query \<Rightarrow> 'g world \<Rightarrow>
     exc + report_approvals report_response" where
  "approvals_route lib st auth q w =
     report_route lib st auth ''approvals'' (\<lambda>f. get_approvals_report f (w_db w)) q w"

definition products_route :: "'t token_library \<Rightarrow> access_settings \<Rightarrow> 'g gateway \<Rightarrow> 't option \<Rightarrow> report_query \<Rightarrow>
     'g world \<Rightarrow> exc + report_products report_response" where
  "products_route lib st gw auth q w =
     report_route lib st auth ''products'' (\<lambda>f. get_products_report (Some gw) f (w_odoo w) (w_db w)) q w"

definition discounts_route :: "'t token_library \<Rightarrow> access_settings \<Rightarrow> 't option \<Rightarrow> report_query \<Rightarrow> 'g world \<Rightarrow>
     exc + report_discounts report_response" where
  "discounts_route lib st auth q w =
     report_route lib st auth ''discounts'' (\<lambda>f. get_discounts_report f (w_db w)) q w"

definition pipeline_route :: "'t token_library \<Rightarrow> access_settings \<Rightarrow> 't option \<Rightarrow> report_query \<Rightarrow> 'g world \<Rightarrow>
     exc + report_pipeline report_response" where
  "pipeline_route lib st auth q w =
     report_route lib st auth ''pipeline'' (\<lambda>f. get_pipeline_report f (w_db w)) q w"

definition fulfillment_route :: "'t token_library \<Rightarrow> access_settings \<Rightarrow> 'g gateway \<Rightarrow> 't option \<Rightarrow> report_query \<Rightarrow>
     'g world \<Rightarrow> exc + report_fulfillment report_response" where
  "fulfillment_route lib st gw auth q w =
     report_route lib st auth ''fulfillment'' (\<lambda>f. get_fulfillment_report (Some gw) f (w_odoo w) (w_db w)) q w"

definition billing_route :: "'t token_library \<Rightarrow> access_settings \<Rightarrow> 'g gateway \<Rightarrow> 't option \<Rightarrow> report_query \<Rightarrow>
     'g world \<Rightarrow> exc + report_billing report_response" where
  "billing_route lib st gw auth q w =
     report_route lib st auth ''billing'' (\<lambda>f. get_billing_report (Some gw) f (w_odoo w) (w_db w)) q w"

end
