(* ===== verification/Report_Facts.thy ===== *)
theory Report_Facts
  imports Reports World_Fixture
begin

text \<open>
  Properties of the reports: every deal is counted once, totals tie with their parts, and rates are
  percentages.
\<close>

section \<open>Groups\<close>

lemma set_first_seen [simp]: "set (first_seen ks) = set ks"
  by (simp add: first_seen_def)

lemma distinct_first_seen [simp]: "distinct (first_seen ks)"
  by (simp add: first_seen_def)

text \<open>Elements sorted into the classes of a key, every class once, are the same elements.\<close>

lemma mset_classes:
  assumes "distinct ks" and "f ` set xs \<subseteq> set ks"
  shows "mset (concat (map (\<lambda>k. filter (\<lambda>x. f x = k) xs) ks)) = mset xs"
  using assms
proof (induction ks arbitrary: xs)
  case (Cons k ks)
  have "filter (\<lambda>x. f x = j) xs = filter (\<lambda>x. f x = j) (filter (\<lambda>x. f x \<noteq> k) xs)" if "j \<in> set ks" for j
    using that Cons.prems(1) by (auto intro!: filter_cong)
  then have eq: "concat (map (\<lambda>j. filter (\<lambda>x. f x = j) xs) ks) =
      concat (map (\<lambda>j. filter (\<lambda>x. f x = j) (filter (\<lambda>x. f x \<noteq> k) xs)) ks)"
    by (intro arg_cong[where f = concat] map_cong) auto
  have rest: "mset (concat (map (\<lambda>j. filter (\<lambda>x. f x = j) (filter (\<lambda>x. f x \<noteq> k) xs)) ks)) = mset (filter (\<lambda>x. f x \<noteq> k) xs)"
    by (rule Cons.IH) (use Cons.prems in auto)
  show ?case unfolding list.map concat.simps mset_append eq rest
    by (metis mset_filter multiset_partition)
qed simp

lemma mset_grouped: "mset (concat (map snd (grouped f xs))) = mset xs"
  using mset_classes[of "first_seen (map f xs)" f xs] by (simp add: grouped_def comp_def)

lemma sum_list_concat_map: "sum_list (map g (concat xss)) = sum_list (map (\<lambda>xs. sum_list (map g xs)) xss)"
  by (induction xss) simp_all

lemma sum_over_classes:
  fixes g :: "'a \<Rightarrow> 'b::comm_monoid_add"
  assumes "distinct ks" and "f ` set xs \<subseteq> set ks"
  shows "sum_list (map (\<lambda>k. sum_list (map g (filter (\<lambda>x. f x = k) xs))) ks) = sum_list (map g xs)"
proof -
  have "sum_list (map g xs) = sum_mset (image_mset g (mset xs))" by (simp add: sum_mset_sum_list[symmetric])
  also have "\<dots> = sum_list (map g (concat (map (\<lambda>k. filter (\<lambda>x. f x = k) xs) ks)))"
    by (simp only: mset_classes[OF assms, symmetric] mset_map[symmetric] sum_mset_sum_list)
  finally show ?thesis by (simp add: sum_list_concat_map comp_def)
qed

lemma count_over_classes:
  "distinct ks \<Longrightarrow> f ` set xs \<subseteq> set ks \<Longrightarrow> sum_list (map (\<lambda>k. length (filter (\<lambda>x. f x = k) xs)) ks) = length xs"
  using sum_over_classes[of ks f xs "\<lambda>_. 1::nat"] by (simp add: sum_list_triv)

section \<open>Rates\<close>

lemma round_sig_percent:
  assumes "0 \<le> x" and "x \<le> 100" and "1 \<le> n"
  shows "0 \<le> round_sig 10 n x \<and> round_sig 10 n x \<le> 100"
proof -
  have "(1::int) < 10 ^ nat n" using assms(3) by (intro one_less_power) auto
  then have "round_sig 10 n 100 = 100" using round_sig_exact[of 10 1 n 2] assms(3) by simp
  then show ?thesis
    using round_sig_mono[of 10 n 0 x] round_sig_mono[of 10 n x 100] assms by simp
qed

lemma find_case_in:
  "\<exists>n\<in>insert d (set ns). (case find p ns of Some n \<Rightarrow> g n | None \<Rightarrow> g d) = g n"
  by (induction ns) (auto split: if_splits)

lemma float_repr_percent:
  assumes "0 \<le> x" and "x \<le> 100"
  shows "0 \<le> float_repr x \<and> float_repr x \<le> 100"
proof -
  have "\<exists>n\<in>insert 17 (set [1, 2, 3, 4, 5, 6, 7, 8, 9, 10, 11, 12, 13, 14, 15, 16]). float_repr x = round_sig 10 n x"
    unfolding float_repr_def by (rule find_case_in)
  then obtain n where n: "n \<in> insert 17 (set [1, 2, 3, 4, 5, 6, 7, 8, 9, 10, 11, 12, 13, 14, 15, 16])"
      "float_repr x = round_sig 10 n x" ..
  from n(1) have "1 \<le> n" by force
  with n(2) round_sig_percent[OF assms] show ?thesis by simp
qed

lemma fl64_100 [simp]: "fl64 100 = 100"
  using round_sig_exact[of 2 100 53 0] by (simp add: fl64_def)

lemma fl64_1 [simp]: "fl64 1 = 1"
  using round_sig_exact[of 2 1 53 0] by (simp add: fl64_def)

lemma pyround_100 [simp]: "pyround 100 2 = 100"
  using pyround_of_int_div[of 10000 2] by simp

lemma rate_pct_bounds:
  assumes "k \<le> n"
  shows "0 \<le> rate_pct k n \<and> rate_pct k n \<le> 100"
proof (cases "n = 0")
  case False
  have "0 \<le> fdiv (of_nat k) (of_nat n)" by (simp add: fdiv_def fl64_nonneg)
  moreover have "fdiv (of_nat k) (of_nat n) \<le> 1"
    using fl64_mono[of "of_nat k / of_nat n" 1] assms False by (simp add: fdiv_def divide_le_eq_1)
  ultimately have q: "0 \<le> fmul (fdiv (of_nat k) (of_nat n)) 100" "fmul (fdiv (of_nat k) (of_nat n)) 100 \<le> 100"
    using fl64_mono[of "fdiv (of_nat k) (of_nat n) * 100" 100] by (simp_all add: fmul_def fl64_nonneg)
  have "fround (fmul (fdiv (of_nat k) (of_nat n)) 100) 2 \<le> 100"
    using fl64_mono[OF pyround_mono[OF q(2), of 2]] by (simp add: fround_def)
  with fround_nonneg[OF q(1), of 2] float_repr_percent False show ?thesis by (simp add: rate_pct_def)
qed (simp add: rate_pct_def)

section \<open>What a report covers\<close>

lemma sum_list_mset_eq: "mset xs = mset ys \<Longrightarrow> sum_list xs = sum_list (ys :: dec list)"
  by (metis sum_mset_sum_list)

lemma set_newest_first [simp]: "set (newest_first f xs) = set xs"
  by (simp add: newest_first_def)

lemma mset_newest_first [simp]: "mset (newest_first f xs) = mset xs"
  by (simp add: newest_first_def)

lemma sum_list_newest_first:
  fixes g :: "'a \<Rightarrow> dec"
  shows "sum_list (map g (newest_first f xs)) = sum_list (map g xs)"
proof -
  have "mset (map g (newest_first f xs)) = mset (map g xs)" by simp
  then show ?thesis by (rule sum_list_mset_eq)
qed

lemma sum_filter_le:
  fixes g :: "'a \<Rightarrow> dec"
  assumes "\<And>x. 0 \<le> g x"
  shows "sum_list (map g (filter p xs)) \<le> sum_list (map g xs)"
proof (induction xs)
  case (Cons x xs)
  then show ?case using assms[of x] by simp
qed simp

text \<open>A report looks at deals of the database that the filters select, and at none of them twice.\<close>

lemma matching_deals_selected:
  "set (get_matching_deals f db) \<subseteq> {d \<in> set (db_deals db). deal_selected f d}"
  by (auto simp: get_matching_deals_def Let_def)

lemma matching_deals_sum_le:
  fixes g :: "deal \<Rightarrow> dec"
  assumes "\<And>d. 0 \<le> g d"
  shows "sum_list (map g (get_matching_deals f db)) \<le> sum_list (map g (db_deals db))"
proof -
  let ?ds = "newest_first d_created_at (filter (deal_selected f) (db_deals db))"
  have "sum_list (map g ?ds) \<le> sum_list (map g (db_deals db))"
    by (simp add: sum_list_newest_first sum_filter_le[OF assms])
  moreover have "sum_list (map g (filter p ?ds)) \<le> sum_list (map g ?ds)" for p
    by (rule sum_filter_le[OF assms])
  ultimately show ?thesis unfolding get_matching_deals_def Let_def by (auto intro: order_trans)
qed

text \<open>
  The evaluation writes no category into a snapshot, so a category alone selects nothing at all, whatever
  was sold.
\<close>

lemma category_filter_selects_nothing:
  "fl_category_id f = Some c \<Longrightarrow> c \<noteq> 0 \<Longrightarrow> id_or (fl_product_id f) None = None \<Longrightarrow> get_matching_deals f db = []"
  by (simp add: get_matching_deals_def id_or_def line_selected_def[abs_def] in_category_def line_category_def
      line_category_path_def list_ex_iff)

section \<open>Totals\<close>

definition every_deal :: report_query where
  "every_deal = \<lparr>rq_period = None, rq_from = None, rq_to = None, rq_team_id = None, rq_rep_id = None,
     rq_approval_status = None, rq_product_id = None, rq_category_id = None, rq_format = ''json''\<rparr>"

definition amounts_small :: "database \<Rightarrow> bool" where
  "amounts_small db = ((\<forall>d\<in>set (db_deals db). cents (d_amount_total_cache d)) \<and>
     sum_list (map (\<lambda>d. \<bar>d_amount_total_cache d\<bar>) (db_deals db)) < 10 ^ 26)"

lemma dsum_amounts:
  assumes "amounts_small db"
  shows "dsum (map d_amount_total_cache (filter p (get_matching_deals f db))) =
    sum_list (map d_amount_total_cache (filter p (get_matching_deals f db)))"
proof (rule dsum_cents)
  fix x assume "x \<in> set (map d_amount_total_cache (filter p (get_matching_deals f db)))"
  then show "cents x" using assms matching_deals_selected[of f db] by (auto simp: amounts_small_def)
next
  have "sum_list (map (\<lambda>d. \<bar>d_amount_total_cache d\<bar>) (filter p (get_matching_deals f db)))
      \<le> sum_list (map (\<lambda>d. \<bar>d_amount_total_cache d\<bar>) (db_deals db))"
    by (rule order_trans[OF sum_filter_le matching_deals_sum_le]) simp_all
  with assms show "sum_list (map abs (map d_amount_total_cache (filter p (get_matching_deals f db)))) < 10 ^ 26"
    by (simp add: amounts_small_def comp_def)
qed

lemma every_status: "d_status ` A \<subseteq> set deal_statuses" "distinct deal_statuses"
proof -
  have "st \<in> set deal_statuses" for st by (cases st) (simp_all add: deal_statuses_def)
  then show "d_status ` A \<subseteq> set deal_statuses" by blast
qed (simp add: deal_statuses_def)

lemma every_severity: "shown_severity ` A \<subseteq> set risk_severities" "distinct risk_severities"
proof -
  have "sv \<in> set risk_severities" for sv by (cases sv) (simp_all add: risk_severities_def)
  then show "shown_severity ` A \<subseteq> set risk_severities" by blast
qed (simp add: risk_severities_def)

text \<open>
  C31: The pipeline report adds up. Whatever the filters and the amounts, every selected deal is counted
  under exactly one status of the funnel and under exactly one severity; and while the deals' amounts are
  whole cents that total less than 10^26, the values of the funnel and those of the severities add up
  exactly to the total value of the report, although every sum is rounded to 28 digits.
\<close>

theorem pipeline_adds_up:
  shows "let r = get_pipeline_report f db in
    map pst_status (rpi_pipeline_funnel r) = deal_statuses \<and> map svb_severity (rpi_risk_distribution r) = risk_severities \<and>
    rpi_total_deals_count r = length (get_matching_deals f db) \<and>
    sum_list (map pst_count (rpi_pipeline_funnel r)) = rpi_total_deals_count r \<and>
    sum_list (map svb_count (rpi_risk_distribution r)) = rpi_total_deals_count r \<and>
    (amounts_small db \<longrightarrow>
      rpi_total_pipeline_value r = sum_list (map d_amount_total_cache (get_matching_deals f db)) \<and>
      sum_list (map pst_total_value (rpi_pipeline_funnel r)) = rpi_total_pipeline_value r \<and>
      sum_list (map svb_total_value (rpi_risk_distribution r)) = rpi_total_pipeline_value r)"
proof -
  have whole: "amounts_small db \<Longrightarrow> dsum (map d_amount_total_cache (get_matching_deals f db)) =
      sum_list (map d_amount_total_cache (get_matching_deals f db))"
    using dsum_amounts[of db "\<lambda>_. True" f] by simp
  show ?thesis
    by (simp add: get_pipeline_report_def Let_def stage_item_def severity_item_def comp_def whole dsum_amounts
        count_over_classes[OF every_status(2,1)] count_over_classes[OF every_severity(2,1)]
        sum_over_classes[OF every_status(2,1)] sum_over_classes[OF every_severity(2,1)])
qed

theorem pipeline_adds_up_witness:
  "amounts_small awaiting_db \<and>
   sum_list (map pst_total_value (rpi_pipeline_funnel (get_pipeline_report (filters_of 0 every_deal) awaiting_db))) =
     rpi_total_pipeline_value (get_pipeline_report (filters_of 0 every_deal) awaiting_db)"
proof
  show a: "amounts_small awaiting_db" by (simp add: amounts_small_def awaiting_db_def small_db_def empty_database_def small_deal_def cents_def)
  show "sum_list (map pst_total_value (rpi_pipeline_funnel (get_pipeline_report (filters_of 0 every_deal) awaiting_db))) =
     rpi_total_pipeline_value (get_pipeline_report (filters_of 0 every_deal) awaiting_db)"
    using pipeline_adds_up[of "filters_of 0 every_deal" awaiting_db] a unfolding Let_def by blast
qed

section \<open>Requests and reasons\<close>

lemma sum_list_filter_zero: "sum_list (map snd (filter (\<lambda>(x, c). 0 < c) xs)) = sum_list (map snd xs :: nat list)"
  by (induction xs) auto

lemma status_breakdown_sum: "sum_list (map snd (status_breakdown rs)) = length rs"
proof -
  have "st \<in> set statuses_by_name" for st by (cases st) (simp_all add: statuses_by_name_def)
  then have "ar_status ` set rs \<subseteq> set statuses_by_name" "distinct statuses_by_name"
    by (blast, simp add: statuses_by_name_def)
  then show ?thesis
    by (simp add: status_breakdown_def sum_list_filter_zero comp_def with_status_def count_over_classes)
qed

text \<open>
  A rejection leaves its reason in the request and in the action, and the report counts both: one rejection
  is shown as two.
\<close>

lemma rejection_reason_counted_twice:
  assumes "ar_status r = ApprovalRequestStatus.REJECTED" "ar_decision_reason r = Some s" "py_strip s \<noteq> []" "s \<noteq> []"
    and "aa_approval_request_id a = ar_id r" "aa_action a = REJECT" "aa_reason a = Some s"
  shows "rap_top_rejection_reasons (approvals_of f [r] [a]) = [(py_strip s, 2)]"
  using assms by (simp add: approvals_of_def request_reasons_def action_reasons_def str_or_def top_reasons_def
      grouped_def first_seen_def sorted_desc_def)

text \<open>
  C32: Rates are percentages. Whatever the filters, the win rate, the rate of split and of backordered plans,
  the share of deals on time and the frequency of overages of every representative lie between 0 and 100
  although they are computed in binary floating point; so does the approval rate as long as every
  approved request has a time of completion.
\<close>

theorem report_rates_are_percentages:
  assumes "\<And>r. r \<in> set (db_requests db) \<Longrightarrow> ar_status r = ApprovalRequestStatus.APPROVED \<Longrightarrow> ar_completed_at r \<noteq> None"
  shows "\<forall>x\<in>{rsm_win_rate (get_summary_report f db), rap_approval_rate (get_approvals_report f db),
      rff_split_rate (get_fulfillment_report gw f g db), rff_backorder_rate (get_fulfillment_report gw f g db),
      rff_on_time_pct (get_fulfillment_report gw f g db)} \<union>
      set (map rdd_overage_frequency_pct (rdr_rep_stats (get_discounts_report f db))). 0 \<le> x \<and> x \<le> 100"
proof -
  have approved: "0 \<le> rap_approval_rate (approvals_of f rs as) \<and> rap_approval_rate (approvals_of f rs as) \<le> 100"
    if "set rs \<subseteq> set (db_requests db)" for rs as
  proof -
    have "with_status ApprovalRequestStatus.APPROVED rs \<le> length (filter (\<lambda>r. ar_completed_at r \<noteq> None) rs)"
      unfolding with_status_def using that
    proof (induction rs)
      case (Cons r rs)
      then show ?case using assms[of r] by (cases "ar_status r = ApprovalRequestStatus.APPROVED") auto
    qed simp
    then show ?thesis by (simp add: approvals_of_def Let_def rate_pct_bounds)
  qed
  have "set (requests_of ds db) \<subseteq> set (db_requests db)" for ds by (auto simp: requests_of_def)
  then have "0 \<le> rap_approval_rate (get_approvals_report f db) \<and> rap_approval_rate (get_approvals_report f db) \<le> 100"
    using approved by (simp add: get_approvals_report_def Let_def no_approvals_def)
  moreover have "0 \<le> rsm_win_rate (get_summary_report f db) \<and> rsm_win_rate (get_summary_report f db) \<le> 100"
    by (simp add: get_summary_report_def Let_def rate_pct_bounds)
  moreover have "0 \<le> x \<and> x \<le> 100" if "x \<in> {rff_split_rate (get_fulfillment_report gw f g db),
      rff_backorder_rate (get_fulfillment_report gw f g db), rff_on_time_pct (get_fulfillment_report gw f g db)}" for x
    using that by (auto simp: get_fulfillment_report_def Let_def rate_pct_bounds simp del: filter_filter)
  moreover have "0 \<le> x \<and> x \<le> 100"
    if "x \<in> set (map rdd_overage_frequency_pct (rdr_rep_stats (get_discounts_report f db)))" for x
    using that by (auto simp: get_discounts_report_def Let_def sorted_desc_def rep_stats_of_def rate_pct_bounds)
  ultimately show ?thesis by blast
qed

text \<open>One request was approved.\<close>

definition approved_request_db :: database where
  "approved_request_db = awaiting_db\<lparr>db_requests := [(new_request 3 6 2 ''SALES_MANAGER'' 1 0)
     \<lparr>ar_status := ApprovalRequestStatus.APPROVED, ar_completed_at := Some 5\<rparr>]\<rparr>"

theorem report_rates_are_percentages_witness:
  "list_ex (\<lambda>r. ar_status r = ApprovalRequestStatus.APPROVED) (db_requests approved_request_db) \<and>
   0 \<le> rap_approval_rate (get_approvals_report (filters_of 0 every_deal) approved_request_db) \<and>
   rap_approval_rate (get_approvals_report (filters_of 0 every_deal) approved_request_db) \<le> 100"
proof -
  have completed: "ar_completed_at r \<noteq> None" if "r \<in> set (db_requests approved_request_db)" "ar_status r = ApprovalRequestStatus.APPROVED" for r
    using that by (simp add: approved_request_db_def)
  have "list_ex (\<lambda>r. ar_status r = ApprovalRequestStatus.APPROVED) (db_requests approved_request_db)"
    by (simp add: approved_request_db_def)
  with report_rates_are_percentages[OF completed, where f = "filters_of 0 every_deal" and gw = "None :: unit gateway option" and g = "()"]
  show ?thesis by blast
qed

end
