(* ===== verification/Addon_Base.thy ===== *)
theory Addon_Base
  imports Access
begin

text \<open>
  Ground of the Odoo addon, \<^verbatim>\<open>dealflow_odoo\<close>: its constants (\<^verbatim>\<open>constants.py\<close>), its errors
  (\<^verbatim>\<open>schemas.py\<close> and Odoo's own exceptions), and the users and groups that its guards ask about. The
  groups imply each other as \<^verbatim>\<open>security/dealflow_security.xml\<close> declares; that \<^verbatim>\<open>has_group\<close> sees implied
  groups is Odoo's documented behaviour.
\<close>

section \<open>Errors\<close>

text \<open>
  The integration's errors (first) and Odoo's. A user error carries its text because the adapters read it;
  \<open>Python_Error\<close> is any other exception.
\<close>

datatype addon_error =
    Invalid_Request | Not_Authorized | Not_Authenticated | Not_Found | Invalid_State | Odoo_Failure
  | Odoo_Validation_Error | Odoo_Access_Error | Odoo_Missing_Error | Odoo_User_Error string | Python_Error

fun bind_result :: "addon_error + 'a \<Rightarrow> ('a \<Rightarrow> addon_error + 'b) \<Rightarrow> addon_error + 'b" where
  "bind_result (Inl e) f = Inl e"
| "bind_result (Inr x) f = f x"

lemma bind_result_Inr_iff: "bind_result r f = Inr y \<longleftrightarrow> (\<exists>x. r = Inr x \<and> f x = Inr y)"
  by (cases r) auto

lemma bind_result_Inl_iff: "bind_result r f = Inl e \<longleftrightarrow> r = Inl e \<or> (\<exists>x. r = Inr x \<and> f x = Inl e)"
  by (cases r) auto

text \<open>A loop over a list that stops at the first error.\<close>

fun each_result :: "('a \<Rightarrow> 's \<Rightarrow> addon_error + 's) \<Rightarrow> 'a list \<Rightarrow> 's \<Rightarrow> addon_error + 's" where
  "each_result f [] s = Inr s"
| "each_result f (x # xs) s = bind_result (f x s) (each_result f xs)"

lemma each_result_invariant:
  assumes "\<And>x s s'. x \<in> set xs \<Longrightarrow> P s \<Longrightarrow> f x s = Inr s' \<Longrightarrow> P s'" and "P s" and "each_result f xs s = Inr s'"
  shows "P s'"
  using assms by (induction xs arbitrary: s) (auto simp: bind_result_Inr_iff)

text \<open>The words in a user error that make it an error of the state.\<close>

definition state_words :: "string list" where
  "state_words = [''state'', ''status'', ''lock'', ''draft'', ''confirm'', ''approve'', ''cancel'']"

text \<open>How an exception of Odoo leaves the integration.\<close>

fun translate_error :: "addon_error \<Rightarrow> addon_error" where
  "translate_error Odoo_Validation_Error = Invalid_Request"
| "translate_error Odoo_Access_Error = Not_Authorized"
| "translate_error Odoo_Missing_Error = Not_Found"
| "translate_error (Odoo_User_Error m) = (if list_ex (mentions m) state_words then Invalid_State else Odoo_Failure)"
| "translate_error Python_Error = Odoo_Failure"
| "translate_error e = e"

fun error_code :: "addon_error \<Rightarrow> string option" where
  "error_code Invalid_Request = Some ''VALIDATION_ERROR''"
| "error_code Not_Authorized = Some ''AUTHORIZATION_ERROR''"
| "error_code Not_Authenticated = Some ''AUTHENTICATION_REQUIRED''"
| "error_code Not_Found = Some ''NOT_FOUND''"
| "error_code Invalid_State = Some ''INVALID_STATE''"
| "error_code Odoo_Failure = Some ''ODOO_FAILURE''"
| "error_code _ = None"

text \<open>Whatever goes wrong, the caller of the integration sees an error with a code.\<close>

lemma translated_error_has_code: "error_code (translate_error e) \<noteq> None"
  by (cases e) auto

section \<open>Constants\<close>

datatype approval_state_tag = Draft_Approval | Pending_Approval | Approved_Approval | Rejected_Approval
  | Reapproval_Required

datatype health_tag = Healthy_Deal | At_Risk_Deal | Critical_Deal

datatype negotiation_tag = Submitted_Negotiation | Under_Review | Approved_Negotiation | Rejected_Negotiation

definition DEFAULT_MAX_REP_DISCOUNT :: rat where "DEFAULT_MAX_REP_DISCOUNT = 10"

definition DEFAULT_FINANCE_DISCOUNT_THRESHOLD :: rat where "DEFAULT_FINANCE_DISCOUNT_THRESHOLD = 20"

definition CATEGORY_DISCOUNT_CEILINGS :: "(string \<times> rat) list" where
  "CATEGORY_DISCOUNT_CEILINGS = [(''Hardware'', 15), (''Service'', 15), (''Subscription'', 10)]"

section \<open>Users and groups\<close>

datatype odoo_group = Base_Portal | Base_User | Group_Portal | Group_Sales_Rep | Group_Sales_Manager
  | Group_Finance | Group_Admin

fun implied_ids :: "odoo_group \<Rightarrow> odoo_group list" where
  "implied_ids Group_Portal = [Base_Portal]"
| "implied_ids Group_Sales_Rep = [Base_User]"
| "implied_ids Group_Sales_Manager = [Group_Sales_Rep]"
| "implied_ids Group_Finance = [Group_Sales_Rep]"
| "implied_ids Group_Admin = [Group_Sales_Manager, Group_Finance]"
| "implied_ids _ = []"

fun group_rank :: "odoo_group \<Rightarrow> nat" where
  "group_rank Group_Admin = 3"
| "group_rank Group_Sales_Manager = 2"
| "group_rank Group_Finance = 2"
| "group_rank Group_Sales_Rep = 1"
| "group_rank Group_Portal = 1"
| "group_rank _ = 0"

lemma implied_rank: "h \<in> set (implied_ids g) \<Longrightarrow> group_rank h < group_rank g"
  by (cases g) auto

function with_implied :: "odoo_group \<Rightarrow> odoo_group list" where
  "with_implied g = g # concat (map with_implied (implied_ids g))"
  by pat_completeness auto
termination by (relation "measure group_rank") (auto dest: implied_rank)

declare with_implied.simps [simp del]

lemma with_implied_groups [simp]:
  "with_implied Base_Portal = [Base_Portal]" "with_implied Base_User = [Base_User]"
  "with_implied Group_Portal = [Group_Portal, Base_Portal]"
  "with_implied Group_Sales_Rep = [Group_Sales_Rep, Base_User]"
  "with_implied Group_Sales_Manager = [Group_Sales_Manager, Group_Sales_Rep, Base_User]"
  "with_implied Group_Finance = [Group_Finance, Group_Sales_Rep, Base_User]"
  "with_implied Group_Admin = [Group_Admin, Group_Sales_Manager, Group_Sales_Rep, Base_User, Group_Finance, Group_Sales_Rep, Base_User]"
  by (simp_all add: with_implied.simps)

record odoo_partner =
  op_id :: odoo_id
  op_name :: string
  op_email :: "string option"
  op_phone :: "string option"
  op_credit_limit :: rat
  op_total_invoiced :: rat
  op_is_company :: bool
  op_street :: "string option"
  op_city :: "string option"
  op_country :: "string option"
  op_commercial_id :: "odoo_id option"
  op_child_ids :: "odoo_id list"

record odoo_user =
  ou_id :: odoo_id
  ou_partner :: odoo_partner
  ou_groups :: "odoo_group list"
  ou_is_superuser :: bool

definition has_group :: "odoo_user \<Rightarrow> odoo_group \<Rightarrow> bool" where
  "has_group u g = list_ex (\<lambda>h. g \<in> set (with_implied h)) (ou_groups u)"

text \<open>The guards' tests, which the code repeats in every method.\<close>

definition is_portal :: "odoo_user \<Rightarrow> bool" where
  "is_portal u = (has_group u Base_Portal \<or> has_group u Group_Portal \<or> \<not> has_group u Base_User)"

definition is_finance_or_admin :: "odoo_user \<Rightarrow> bool" where
  "is_finance_or_admin u = (has_group u Group_Finance \<or> has_group u Group_Admin)"

definition is_manager :: "odoo_user \<Rightarrow> bool" where
  "is_manager u = (has_group u Group_Sales_Manager \<or> is_finance_or_admin u)"

lemma has_group_implied: "has_group u g \<Longrightarrow> h \<in> set (with_implied g) \<Longrightarrow> has_group u h"
proof -
  assume "has_group u g" and h: "h \<in> set (with_implied g)"
  then obtain k where k: "k \<in> set (ou_groups u)" "g \<in> set (with_implied k)" by (auto simp: has_group_def list_ex_iff)
  have "h \<in> set (with_implied k)" using k(2) h by (cases k; cases g) auto
  with k(1) show ?thesis by (auto simp: has_group_def list_ex_iff)
qed

text \<open>Whoever manages is a sales representative too, and an internal user.\<close>

lemma manager_is_rep: "is_manager u \<Longrightarrow> has_group u Group_Sales_Rep"
  by (auto simp: is_manager_def is_finance_or_admin_def intro: has_group_implied)

lemma rep_is_internal: "has_group u Group_Sales_Rep \<Longrightarrow> has_group u Base_User"
  by (rule has_group_implied) auto

end
