(* ===== verification/Addon_Order.thy ===== *)
theory Addon_Order
  imports Addon_Base
begin

text \<open>
  The addon's sale orders, \<^verbatim>\<open>dealflow_odoo/models/sale_order.py\<close> and \<^verbatim>\<open>sale_order_line.py\<close>: the
  governance fields, the guards around Odoo's \<^verbatim>\<open>write\<close> and \<^verbatim>\<open>action_confirm\<close>, and the actions that
  lock, unlock, evaluate and approve an order. What these methods hand on to with \<^verbatim>\<open>super()\<close> is Odoo's own
  code and a parameter (\<open>orm\<close>); \<open>orm_ok\<close> is its documented behaviour. A computed field is what its compute
  method returns on the fields it depends on. The messages in the chatter are not modelled. An environment
  has a user, as Odoo's always has. A method works on one record; on several, it repeats.
\<close>

section \<open>Orders and lines\<close>

record so_line =
  sol_id :: odoo_id
  sol_name :: string
  sol_is_section :: bool
  sol_product :: "(odoo_id \<times> string) option"
  sol_category :: "string option"
  sol_standard_price :: rat
  sol_purchase_price :: "rat option"
  sol_product_uom_qty :: rat
  sol_price_unit :: rat
  sol_discount :: rat
  sol_price_subtotal :: rat
  sol_approved_discount :: rat
  sol_is_recurring :: bool
  sol_recurring_interval :: "string option"

record so_terms =
  tm_payment_term_id :: "odoo_id option"
  tm_note :: string
  tm_terms_type :: string
  tm_validity_date :: string
  tm_pricelist_id :: "odoo_id option"

record sale_order =
  so_id :: odoo_id
  so_name :: string
  so_partner :: odoo_partner
  so_state :: string
  so_date_order :: "string option"
  so_currency :: "string option"
  so_amount_untaxed :: rat
  so_amount_tax :: rat
  so_amount_total :: rat
  so_lines :: "so_line list"
  so_terms_of :: so_terms
  so_deal_id :: "string option"
  so_risk_score :: rat
  so_approval_state :: approval_state_tag
  so_health_status :: health_tag
  so_last_evaluated_at :: "instant option"
  so_locked :: bool

definition priced_lines :: "sale_order \<Rightarrow> so_line list" where
  "priced_lines ord = filter (\<lambda>l. \<not> sol_is_section l) (so_lines ord)"

definition line_gross :: "so_line \<Rightarrow> rat" where
  "line_gross l = fmul (sol_price_unit l) (sol_product_uom_qty l)"

definition line_discount_amount :: "so_line \<Rightarrow> rat" where
  "line_discount_amount l = fmul (line_gross l) (fdiv (sol_discount l) 100)"

definition fsum :: "rat list \<Rightarrow> rat" where
  "fsum xs = foldl fadd 0 xs"

definition order_blended_discount :: "sale_order \<Rightarrow> rat" where
  "order_blended_discount ord =
     (let gross = fsum (map line_gross (priced_lines ord));
          off = fsum (map line_discount_amount (priced_lines ord)) in
      if 0 < gross then fround (fmul (fdiv off gross) 100) 2 else 0)"

text \<open>The cost of a unit is the purchase price, when that is set and not zero, or else the product's standard price.\<close>

definition line_cost_price :: "so_line \<Rightarrow> rat" where
  "line_cost_price l = (if sol_product l = None then 0 else num_or (sol_purchase_price l) (sol_standard_price l))"

definition line_margin :: "so_line \<Rightarrow> rat" where
  "line_margin l = (if sol_is_section l then 0
     else fround (fsub (sol_price_subtotal l) (fmul (line_cost_price l) (sol_product_uom_qty l))) 2)"

section \<open>The deal context\<close>

record order_line_dto =
  old_id :: odoo_id
  old_product_id :: odoo_id
  old_product_name :: string
  old_category_name :: string
  old_product_uom_qty :: rat
  old_price_unit :: rat
  old_cost_price :: rat
  old_discount :: rat
  old_price_subtotal :: rat
  old_margin :: rat
  old_margin_percent :: rat
  old_is_recurring :: bool
  old_recurring_interval :: "string option"

record customer_dto =
  cdt_id :: odoo_id
  cdt_name :: string
  cdt_email :: "string option"
  cdt_phone :: "string option"
  cdt_credit_limit :: rat
  cdt_total_invoiced :: rat
  cdt_is_company :: bool
  cdt_street :: "string option"
  cdt_city :: "string option"
  cdt_country :: "string option"

record deal_context_dto =
  dcx_deal_id :: "string option"
  dcx_order_id :: odoo_id
  dcx_order_name :: string
  dcx_customer :: customer_dto
  dcx_state :: string
  dcx_date_order :: "string option"
  dcx_currency :: string
  dcx_amount_untaxed :: rat
  dcx_amount_tax :: rat
  dcx_amount_total :: rat
  dcx_blended_discount :: rat
  dcx_total_cost :: rat
  dcx_total_margin :: rat
  dcx_margin_percent :: rat
  dcx_lines :: "order_line_dto list"
  dcx_has_recurring_lines :: bool
  dcx_mrr :: rat
  dcx_arr :: rat
  dcx_risk_score :: rat
  dcx_approval_state :: approval_state_tag
  dcx_health_status :: health_tag
  dcx_locked :: bool

definition customer_of :: "odoo_partner \<Rightarrow> customer_dto" where
  "customer_of p = \<lparr>cdt_id = op_id p, cdt_name = op_name p, cdt_email = op_email p, cdt_phone = op_phone p,
     cdt_credit_limit = op_credit_limit p, cdt_total_invoiced = op_total_invoiced p,
     cdt_is_company = op_is_company p, cdt_street = op_street p, cdt_city = op_city p, cdt_country = op_country p\<rparr>"

definition category_of :: "so_line \<Rightarrow> string" where
  "category_of l = (case sol_category l of None \<Rightarrow> ''All'' | Some c \<Rightarrow> c)"

text \<open>
  A cost of zero counts as not set, as does a margin of zero. An order without a date shows the time of the
  call; in the model its date stays absent.
\<close>

definition context_cost_price :: "so_line \<Rightarrow> rat" where
  "context_cost_price l = num_or (Some (line_cost_price l)) (if sol_product l = None then 0 else sol_standard_price l)"

definition context_line_cost :: "so_line \<Rightarrow> rat" where
  "context_line_cost l = fmul (context_cost_price l) (sol_product_uom_qty l)"

definition percent_of :: "rat \<Rightarrow> rat \<Rightarrow> rat" where
  "percent_of part whole = (if 0 < whole then fmul (fdiv part whole) 100 else 0)"

definition context_line :: "so_line \<Rightarrow> order_line_dto" where
  "context_line l =
     (let margin = num_or (Some (line_margin l)) (fsub (sol_price_subtotal l) (context_line_cost l)) in
      \<lparr>old_id = sol_id l, old_product_id = (case sol_product l of None \<Rightarrow> 0 | Some (i, _) \<Rightarrow> i),
       old_product_name = (case sol_product l of None \<Rightarrow> sol_name l | Some (_, n) \<Rightarrow> n),
       old_category_name = category_of l, old_product_uom_qty = sol_product_uom_qty l,
       old_price_unit = sol_price_unit l, old_cost_price = context_cost_price l, old_discount = sol_discount l,
       old_price_subtotal = sol_price_subtotal l, old_margin = fround margin 2,
       old_margin_percent = fround (percent_of margin (sol_price_subtotal l)) 2,
       old_is_recurring = sol_is_recurring l, old_recurring_interval = sol_recurring_interval l\<rparr>)"

definition monthly_revenue :: "so_line \<Rightarrow> rat" where
  "monthly_revenue l = (if sol_recurring_interval l = Some ''year'' then fdiv (sol_price_subtotal l) 12
     else sol_price_subtotal l)"

definition yearly_revenue :: "so_line \<Rightarrow> rat" where
  "yearly_revenue l = (if sol_recurring_interval l = Some ''year'' then sol_price_subtotal l
     else fmul (sol_price_subtotal l) 12)"

definition action_get_deal_context :: "sale_order \<Rightarrow> deal_context_dto" where
  "action_get_deal_context ord =
     (let ls = priced_lines ord; recurring = filter sol_is_recurring ls;
          cost = fsum (map context_line_cost ls); margin = fsub (so_amount_untaxed ord) cost in
      \<lparr>dcx_deal_id = so_deal_id ord, dcx_order_id = so_id ord, dcx_order_name = so_name ord,
       dcx_customer = customer_of (so_partner ord), dcx_state = str_or (Some (so_state ord)) ''draft'',
       dcx_date_order = so_date_order ord,
       dcx_currency = (case so_currency ord of None \<Rightarrow> ''USD'' | Some c \<Rightarrow> c),
       dcx_amount_untaxed = so_amount_untaxed ord, dcx_amount_tax = so_amount_tax ord,
       dcx_amount_total = so_amount_total ord, dcx_blended_discount = order_blended_discount ord,
       dcx_total_cost = fround cost 2, dcx_total_margin = fround margin 2,
       dcx_margin_percent = fround (percent_of margin (so_amount_untaxed ord)) 2,
       dcx_lines = map context_line ls, dcx_has_recurring_lines = (recurring \<noteq> []),
       dcx_mrr = fround (fsum (map monthly_revenue recurring)) 2,
       dcx_arr = fround (fsum (map yearly_revenue recurring)) 2,
       dcx_risk_score = so_risk_score ord, dcx_approval_state = so_approval_state ord,
       dcx_health_status = so_health_status ord, dcx_locked = so_locked ord\<rparr>)"

section \<open>Evaluation of the governance\<close>

definition category_ceiling :: "so_line \<Rightarrow> rat" where
  "category_ceiling l = (case map_of CATEGORY_DISCOUNT_CEILINGS (category_of l) of None \<Rightarrow> DEFAULT_MAX_REP_DISCOUNT
     | Some c \<Rightarrow> c)"

record category_breach =
  cb_line_id :: odoo_id
  cb_product :: string
  cb_category :: string
  cb_discount :: rat
  cb_ceiling :: rat
  cb_excess :: rat

definition category_breaches :: "sale_order \<Rightarrow> category_breach list" where
  "category_breaches ord = map (\<lambda>l. \<lparr>cb_line_id = sol_id l, cb_product = sol_name l, cb_category = category_of l,
     cb_discount = sol_discount l, cb_ceiling = category_ceiling l,
     cb_excess = fsub (sol_discount l) (category_ceiling l)\<rparr>)
     (filter (\<lambda>l. category_ceiling l < sol_discount l) (priced_lines ord))"

definition governance_line_cost :: "so_line \<Rightarrow> rat" where
  "governance_line_cost l = fmul (context_cost_price l) (sol_product_uom_qty l)"

definition sold_below_cost :: "so_line \<Rightarrow> bool" where
  "sold_below_cost l = (fmul (line_gross l) (fsub 1 (fdiv (sol_discount l) 100)) < governance_line_cost l)"

definition governance_margin :: "sale_order \<Rightarrow> rat" where
  "governance_margin ord = fsub (so_amount_untaxed ord) (fsum (map governance_line_cost (priced_lines ord)))"

definition is_free_deal :: "sale_order \<Rightarrow> bool" where
  "is_free_deal ord = (list_ex (\<lambda>l. 100 \<le> sol_discount l) (priced_lines ord) \<or>
     0 < fsum (map line_gross (priced_lines ord)) \<and> 100 \<le> order_blended_discount ord)"

definition breach_risk :: "rat \<Rightarrow> category_breach \<Rightarrow> rat" where
  "breach_risk risk b = fadd risk (fadd (fmul (cb_excess b) 2) 15)"

definition governance_risk :: "sale_order \<Rightarrow> rat" where
  "governance_risk ord =
     (let blended = (if DEFAULT_MAX_REP_DISCOUNT < order_blended_discount ord
            then fadd 0 (fmul (fsub (order_blended_discount ord) DEFAULT_MAX_REP_DISCOUNT) (3 / 2)) else 0);
          risk = foldl breach_risk blended (category_breaches ord);
          risk = (if governance_margin ord < 0 \<or> list_ex sold_below_cost (priced_lines ord) then fadd risk 35 else risk);
          risk = (if is_free_deal ord then 100 else risk) in
      fround (min 100 (max 0 risk)) 2)"

definition governance_health :: "sale_order \<Rightarrow> health_tag" where
  "governance_health ord =
     (if is_free_deal ord \<or> DEFAULT_FINANCE_DISCOUNT_THRESHOLD \<le> order_blended_discount ord \<or> governance_margin ord < 0
      then Critical_Deal
      else if category_breaches ord \<noteq> [] \<or> DEFAULT_MAX_REP_DISCOUNT < order_blended_discount ord then At_Risk_Deal
      else Healthy_Deal)"

text \<open>A deal that is not healthy is locked unless it is approved; a healthy one keeps its lock.\<close>

definition action_dealflow_evaluate_governance :: "instant \<Rightarrow> sale_order \<Rightarrow> sale_order" where
  "action_dealflow_evaluate_governance now ord =
     ord\<lparr>so_risk_score := governance_risk ord, so_health_status := governance_health ord,
       so_locked := (so_locked ord \<or>
         governance_health ord \<noteq> Healthy_Deal \<and> so_approval_state ord \<noteq> Approved_Approval),
       so_last_evaluated_at := Some now\<rparr>"

section \<open>Writing\<close>

text \<open>The values of a write; an absent key is \<open>None\<close>.\<close>

record line_vals =
  lv_discount :: "rat option"
  lv_price_unit :: "rat option"
  lv_product_uom_qty :: "rat option"
  lv_approved_discount :: "rat option"
  lv_product_id :: "odoo_id option"
  lv_name :: "string option"

text \<open>Odoo's commands on a one-to-many field, with their codes 0 to 6.\<close>

datatype line_command = Create_Line line_vals | Update_Line odoo_id line_vals | Delete_Line odoo_id
  | Remove_Line odoo_id | Link_Line odoo_id | Clear_Lines | Set_Lines "odoo_id list"

record order_vals =
  ov_order_line :: "line_command list option"
  ov_approval_state :: "approval_state_tag option"
  ov_locked :: "bool option"
  ov_risk_score :: "rat option"
  ov_health_status :: "health_tag option"
  ov_last_evaluated_at :: "instant option"
  ov_deal_id :: "string option"
  ov_payment_term_id :: "odoo_id option option"
  ov_note :: "string option"
  ov_terms_type :: "string option"
  ov_validity_date :: "string option"
  ov_pricelist_id :: "odoo_id option option"

definition no_vals :: order_vals where
  "no_vals = \<lparr>ov_order_line = None, ov_approval_state = None, ov_locked = None, ov_risk_score = None,
     ov_health_status = None, ov_last_evaluated_at = None, ov_deal_id = None, ov_payment_term_id = None,
     ov_note = None, ov_terms_type = None, ov_validity_date = None, ov_pricelist_id = None\<rparr>"

definition no_line_vals :: line_vals where
  "no_line_vals = \<lparr>lv_discount = None, lv_price_unit = None, lv_product_uom_qty = None, lv_approved_discount = None,
     lv_product_id = None, lv_name = None\<rparr>"

text \<open>
  Odoo's own methods. \<open>orm_ok\<close> is their documented behaviour, as far as the addon relies on it: a write
  without line commands sets the fields it names and no other; a write with them, which calls the methods of
  the lines, leaves an order approved only if it was approved or if the write says so; a write on a line sets
  the fields it names, lets Odoo recompute amounts, and leaves the order's other fields and the other lines'
  terms alone; and a confirmation changes the state of the order, not its governance.
\<close>

record orm =
  orm_write :: "order_vals \<Rightarrow> sale_order \<Rightarrow> addon_error + sale_order"
  orm_write_line :: "line_vals \<Rightarrow> odoo_id \<Rightarrow> sale_order \<Rightarrow> addon_error + sale_order"
  orm_confirm :: "sale_order \<Rightarrow> addon_error + sale_order"

definition keep :: "'a option \<Rightarrow> 'a \<Rightarrow> 'a" where
  "keep x old = (case x of None \<Rightarrow> old | Some v \<Rightarrow> v)"

lemma keep_simps [simp]: "keep None old = old" "keep (Some v) old = v"
  by (simp_all add: keep_def)

definition set_terms :: "order_vals \<Rightarrow> so_terms \<Rightarrow> so_terms" where
  "set_terms v t = \<lparr>tm_payment_term_id = keep (ov_payment_term_id v) (tm_payment_term_id t),
     tm_note = keep (ov_note v) (tm_note t), tm_terms_type = keep (ov_terms_type v) (tm_terms_type t),
     tm_validity_date = keep (ov_validity_date v) (tm_validity_date t),
     tm_pricelist_id = keep (ov_pricelist_id v) (tm_pricelist_id t)\<rparr>"

definition set_fields :: "order_vals \<Rightarrow> sale_order \<Rightarrow> sale_order" where
  "set_fields v ord = ord\<lparr>so_approval_state := keep (ov_approval_state v) (so_approval_state ord),
     so_locked := keep (ov_locked v) (so_locked ord), so_risk_score := keep (ov_risk_score v) (so_risk_score ord),
     so_health_status := keep (ov_health_status v) (so_health_status ord),
     so_last_evaluated_at := (if ov_last_evaluated_at v = None then so_last_evaluated_at ord else ov_last_evaluated_at v),
     so_deal_id := (if ov_deal_id v = None then so_deal_id ord else ov_deal_id v),
     so_terms_of := set_terms v (so_terms_of ord)\<rparr>"

text \<open>What a line is charged by.\<close>

definition line_key :: "so_line \<Rightarrow> odoo_id \<times> bool \<times> string \<times> rat \<times> rat" where
  "line_key l = (sol_id l, sol_is_section l, category_of l, sol_discount l, sol_approved_discount l)"

definition set_line :: "line_vals \<Rightarrow> so_line \<Rightarrow> so_line" where
  "set_line v l = l\<lparr>sol_discount := keep (lv_discount v) (sol_discount l),
     sol_price_unit := keep (lv_price_unit v) (sol_price_unit l),
     sol_product_uom_qty := keep (lv_product_uom_qty v) (sol_product_uom_qty l),
     sol_approved_discount := keep (lv_approved_discount v) (sol_approved_discount l),
     sol_name := keep (lv_name v) (sol_name l)\<rparr>"

definition governance_of :: "sale_order \<Rightarrow> odoo_id \<times> string \<times> odoo_partner \<times> approval_state_tag \<times> bool" where
  "governance_of ord = (so_id ord, so_state ord, so_partner ord, so_approval_state ord, so_locked ord)"

definition orm_ok :: "orm \<Rightarrow> bool" where
  "orm_ok odoo =
     ((\<forall>v ord. ov_order_line v = None \<longrightarrow> orm_write odoo v ord = Inr (set_fields v ord)) \<and>
      (\<forall>v ord ord'. orm_write odoo v ord = Inr ord' \<longrightarrow> so_approval_state ord' = Approved_Approval \<longrightarrow>
         ov_approval_state v = Some Approved_Approval \<or> so_approval_state ord = Approved_Approval) \<and>
      (\<forall>ord ord'. orm_confirm odoo ord = Inr ord' \<longrightarrow> so_approval_state ord' = so_approval_state ord \<and>
         so_locked ord' = so_locked ord \<and> map line_key (so_lines ord') = map line_key (so_lines ord)) \<and>
      (\<forall>v i ord ord'. orm_write_line odoo v i ord = Inr ord' \<longrightarrow> governance_of ord' = governance_of ord) \<and>
      (\<forall>v i ord. lv_product_id v = None \<longrightarrow> (\<exists>ord'. orm_write_line odoo v i ord = Inr ord' \<and>
         map line_key (so_lines ord') = map (\<lambda>l. line_key (if sol_id l = i then set_line v l else l)) (so_lines ord))))"

definition discount_ok :: "rat \<Rightarrow> bool" where
  "discount_ok d = (0 \<le> d \<and> d \<le> 100)"

fun command_vals :: "line_command \<Rightarrow> line_vals option" where
  "command_vals (Create_Line v) = Some v"
| "command_vals (Update_Line i v) = Some v"
| "command_vals _ = None"

definition command_ok :: "line_command \<Rightarrow> bool" where
  "command_ok c = (case command_vals c of None \<Rightarrow> True
     | Some v \<Rightarrow> pred_option discount_ok (lv_discount v) \<and> pred_option (\<lambda>q. 0 < q) (lv_product_uom_qty v))"

text \<open>Who may write that an order is approved: nobody from the portal, and no sales representative above the threshold of finance.\<close>

definition approval_blocked :: "odoo_user \<Rightarrow> sale_order \<Rightarrow> bool" where
  "approval_blocked u ord = (is_portal u \<or>
     has_group u Group_Sales_Rep \<and> \<not> is_finance_or_admin u \<and> DEFAULT_FINANCE_DISCOUNT_THRESHOLD < order_blended_discount ord)"

definition terms_modified :: "order_vals \<Rightarrow> bool" where
  "terms_modified v = (ov_payment_term_id v \<noteq> None \<or> ov_note v \<noteq> None \<or> ov_terms_type v \<noteq> None \<or>
     ov_validity_date v \<noteq> None \<or> ov_pricelist_id v \<noteq> None)"

definition priced_vals :: "line_vals \<Rightarrow> bool" where
  "priced_vals v = (lv_discount v \<noteq> None \<or> lv_price_unit v \<noteq> None \<or> lv_product_uom_qty v \<noteq> None)"

fun command_modifies :: "line_command \<Rightarrow> bool" where
  "command_modifies (Create_Line v) = priced_vals v"
| "command_modifies (Update_Line i v) = priced_vals v"
| "command_modifies (Delete_Line i) = True"
| "command_modifies (Remove_Line i) = True"
| "command_modifies Clear_Lines = True"
| "command_modifies _ = False"

definition lines_modified :: "order_vals \<Rightarrow> bool" where
  "lines_modified v = (case ov_order_line v of None \<Rightarrow> False | Some cs \<Rightarrow> list_ex command_modifies cs)"

definition revoke_vals :: order_vals where
  "revoke_vals = no_vals\<lparr>ov_approval_state := Some Reapproval_Required, ov_locked := Some True\<rparr>"

text \<open>
  \<^verbatim>\<open>write\<close> of an order; \<open>skip\<close> is the context key \<^verbatim>\<open>dealflow_skip_reapproval\<close>. The nested write that revokes an
  approval sets the key and names no approval, so it goes straight to Odoo.
\<close>

definition order_write :: "orm \<Rightarrow> odoo_user \<Rightarrow> bool \<Rightarrow> order_vals \<Rightarrow> sale_order \<Rightarrow> addon_error + sale_order" where
  "order_write odoo u skip v ord =
     (if \<not> (case ov_order_line v of None \<Rightarrow> True | Some cs \<Rightarrow> list_all command_ok cs) then Inl Odoo_Validation_Error
      else if ov_approval_state v = Some Approved_Approval \<and> approval_blocked u ord then Inl Odoo_Access_Error
      else if skip then orm_write odoo v ord
      else bind_result (orm_write odoo v ord) (\<lambda>ord'.
        if (terms_modified v \<or> lines_modified v) \<and> so_approval_state ord = Approved_Approval
        then orm_write odoo revoke_vals ord' else Inr ord'))"

definition line_revokes :: "line_vals \<Rightarrow> so_line \<Rightarrow> bool" where
  "line_revokes v l = (lv_discount v \<noteq> None \<and> lv_discount v \<noteq> Some (sol_approved_discount l) \<or>
     lv_price_unit v \<noteq> None \<or> lv_product_uom_qty v \<noteq> None)"

definition line_vals_ok :: "line_vals \<Rightarrow> so_line \<Rightarrow> bool" where
  "line_vals_ok v l = (pred_option discount_ok (lv_discount v) \<and>
     (sol_is_section l \<or> pred_option (\<lambda>q. 0 < q) (lv_product_uom_qty v)))"

text \<open>\<^verbatim>\<open>write\<close> of one of the order's lines.\<close>

definition line_write :: "orm \<Rightarrow> odoo_user \<Rightarrow> bool \<Rightarrow> line_vals \<Rightarrow> so_line \<Rightarrow> sale_order \<Rightarrow> addon_error + sale_order" where
  "line_write odoo u skip v l ord =
     (if \<not> line_vals_ok v l then Inl Odoo_Validation_Error
      else if skip then orm_write_line odoo v (sol_id l) ord
      else bind_result (orm_write_line odoo v (sol_id l) ord) (\<lambda>ord'.
        if so_approval_state ord = Approved_Approval \<and> line_revokes v l then order_write odoo u True revoke_vals ord'
        else Inr ord'))"

section \<open>Actions\<close>

definition action_dealflow_lock :: "orm \<Rightarrow> odoo_user \<Rightarrow> sale_order \<Rightarrow> addon_error + sale_order" where
  "action_dealflow_lock odoo u ord = order_write odoo u False (no_vals\<lparr>ov_locked := Some True\<rparr>) ord"

text \<open>Who asks for an unlock: a user, a dictionary with a role, a plain name, or something else.\<close>

datatype unlock_actor = User_Actor odoo_user | Role_Actor string | Name_Actor string | Other_Actor

definition unlock_roles :: "string list" where
  "unlock_roles = [''manager'', ''sales_manager'', ''finance'', ''admin'']"

fun may_unlock :: "unlock_actor \<Rightarrow> bool" where
  "may_unlock (User_Actor u) = (has_group u Group_Sales_Manager \<or> has_group u Group_Finance \<or>
     has_group u Group_Admin \<or> ou_is_superuser u)"
| "may_unlock (Role_Actor r) = (r \<in> set unlock_roles)"
| "may_unlock (Name_Actor n) = (map char_lower n \<in> set unlock_roles)"
| "may_unlock Other_Actor = False"

definition action_dealflow_unlock ::
    "orm \<Rightarrow> odoo_user \<Rightarrow> unlock_actor option \<Rightarrow> sale_order \<Rightarrow> addon_error + sale_order" where
  "action_dealflow_unlock odoo u who ord =
     (if \<not> may_unlock (keep who (User_Actor u)) then Inl Not_Authorized
      else order_write odoo u False (no_vals\<lparr>ov_locked := Some False\<rparr>) ord)"

definition exceeds_threshold :: "sale_order \<Rightarrow> bool" where
  "exceeds_threshold ord = (DEFAULT_MAX_REP_DISCOUNT < order_blended_discount ord \<or>
     list_ex (\<lambda>l. DEFAULT_MAX_REP_DISCOUNT < sol_discount l) (priced_lines ord))"

definition has_category_breach :: "sale_order \<Rightarrow> bool" where
  "has_category_breach ord = list_ex (\<lambda>l. category_ceiling l < sol_discount l) (priced_lines ord)"

definition needs_approval :: "sale_order \<Rightarrow> bool" where
  "needs_approval ord = (so_locked ord \<or> exceeds_threshold ord \<or> has_category_breach ord)"

text \<open>\<^verbatim>\<open>action_confirm\<close> and \<^verbatim>\<open>action_dealflow_confirm\<close>; \<open>bypass\<close> is the context key \<^verbatim>\<open>dealflow_bypass_check\<close>.\<close>

definition action_confirm :: "orm \<Rightarrow> odoo_user \<Rightarrow> bool \<Rightarrow> sale_order \<Rightarrow> addon_error + sale_order" where
  "action_confirm odoo u bypass ord =
     (if is_portal u then Inl Odoo_Access_Error
      else if \<not> bypass \<and> so_approval_state ord = Rejected_Approval
      then Inl (Odoo_User_Error ''Confirmation Blocked: Quotation has been formally rejected by DealFlow governance.'')
      else if \<not> bypass \<and> needs_approval ord \<and> so_approval_state ord \<noteq> Approved_Approval
      then Inl (Odoo_User_Error ''Order locked pending DealFlow approval'')
      else orm_confirm odoo ord)"

text \<open>
  An approved change. The keys of the discounts by line are read as integers; one that is none is skipped
  (\<open>None\<close>). Of an entry of \<^verbatim>\<open>lines\<close> the line and the discount may be missing.
\<close>

record approved_changes =
  ac_line_discounts :: "(odoo_id option \<times> rat) list option"
  ac_target_line_discounts :: "(odoo_id option \<times> rat) list option"
  ac_lines :: "(odoo_id option \<times> rat option) list option"
  ac_discount :: "rat option"
  ac_payment_term_id :: "odoo_id option option"
  ac_terms :: "string option"
  ac_note :: "string option"
  ac_validity_date :: "string option"
  ac_deal_id :: "string option"
  ac_risk_score :: "rat option"
  ac_health_status :: "health_tag option"

definition asked_discounts :: "approved_changes \<Rightarrow> rat list" where
  "asked_discounts c = (case ac_discount c of None \<Rightarrow> [] | Some d \<Rightarrow> [d]) @
     map snd (keep (ac_target_line_discounts c) []) @ map snd (keep (ac_line_discounts c) []) @
     map (\<lambda>(_, d). keep d 0) (keep (ac_lines c) [])"

definition line_discounts :: "approved_changes \<Rightarrow> (odoo_id option \<times> rat) list" where
  "line_discounts c = (if keep (ac_line_discounts c) [] = [] then keep (ac_target_line_discounts c) []
     else keep (ac_line_discounts c) [])"

definition discount_vals :: "rat \<Rightarrow> line_vals" where
  "discount_vals d = no_line_vals\<lparr>lv_discount := Some d, lv_approved_discount := Some d\<rparr>"

definition approve_line :: "orm \<Rightarrow> odoo_user \<Rightarrow> odoo_id \<times> rat \<Rightarrow> sale_order \<Rightarrow> addon_error + sale_order" where
  "approve_line odoo u = (\<lambda>(i, d) ord. case find (\<lambda>l. sol_id l = i) (so_lines ord) of None \<Rightarrow> Inr ord
     | Some l \<Rightarrow> line_write odoo u True (discount_vals d) l ord)"

definition approved_vals :: "instant \<Rightarrow> approved_changes \<Rightarrow> order_vals" where
  "approved_vals now c = no_vals\<lparr>ov_approval_state := Some Approved_Approval, ov_locked := Some False,
     ov_last_evaluated_at := Some now, ov_payment_term_id := ac_payment_term_id c,
     ov_validity_date := ac_validity_date c, ov_note := (if ac_terms c = None then ac_note c else ac_terms c),
     ov_deal_id := ac_deal_id c, ov_risk_score := ac_risk_score c, ov_health_status := ac_health_status c\<rparr>"

text \<open>The discounts to set, in the order in which they are set.\<close>

definition discounts_to_set :: "approved_changes \<Rightarrow> sale_order \<Rightarrow> (odoo_id \<times> rat) list" where
  "discounts_to_set c ord =
     List.map_filter (\<lambda>(i, d). map_option (\<lambda>i. (i, d)) i) (line_discounts c) @
     List.map_filter (\<lambda>(i, d). case i of None \<Rightarrow> None | Some i \<Rightarrow> map_option (\<lambda>d. (i, d)) d) (keep (ac_lines c) []) @
     (case ac_discount c of None \<Rightarrow> []
      | Some d \<Rightarrow> if line_discounts c = [] \<and> ac_lines c = None then map (\<lambda>l. (sol_id l, d)) (priced_lines ord) else [])"

definition action_dealflow_apply_approved_change ::
    "orm \<Rightarrow> odoo_user \<Rightarrow> instant \<Rightarrow> approved_changes \<Rightarrow> sale_order \<Rightarrow> addon_error + sale_order" where
  "action_dealflow_apply_approved_change odoo u now c ord =
     (if is_portal u then Inl Odoo_Access_Error
      else if has_group u Group_Sales_Rep \<and> \<not> is_finance_or_admin u \<and>
        list_ex (\<lambda>d. DEFAULT_FINANCE_DISCOUNT_THRESHOLD < d) (asked_discounts c) then Inl Odoo_Access_Error
      else bind_result (each_result (approve_line odoo u) (discounts_to_set c ord) ord)
        (order_write odoo u True (approved_vals now c)))"

end
