(* ===== verification/Addon_Accounting.thy ===== *)
theory Addon_Accounting
  imports Addon_Order
begin

text \<open>
  The addon's accounting adapter, \<^verbatim>\<open>dealflow_odoo/services/accounting_adapter.py\<close>, on its own store of orders
  and invoices: invoicing an order, reading invoices, the payment status of an order, payments. The
  branches on an Odoo environment or an RPC client are left out. Absent keys of a registered order or
  invoice are \<open>None\<close> and read with their defaults; dates and the origin's text are not kept.
\<close>

section \<open>The store\<close>

record mock_line =
  ml_product_uom_qty :: "rat option"
  ml_quantity :: "rat option"
  ml_price_unit :: "rat option"
  ml_discount :: "rat option"
  ml_price_subtotal :: "rat option"
  ml_is_recurring :: bool
  ml_recurring_interval :: "string option"
  ml_category_name :: string
  ml_product_name :: "string option"
  ml_name :: string

record mock_order =
  mo_name :: "string option"
  mo_state :: "string option"
  mo_deal_id :: "string option"
  mo_amount_total :: "rat option"
  mo_date_order :: "string option"
  mo_lines :: "mock_line list"
  mo_invoice_ids :: "int list"

record mock_invoice =
  mi_name :: "string option"
  mi_order_id :: "int option"
  mi_move_type :: "string option"
  mi_state :: "string option"
  mi_payment_state :: "string option"
  mi_amount_total :: "rat option"
  mi_amount_residual :: "rat option"
  mi_deal_id :: "string option"
  mi_is_recurring :: bool

record accounting =
  acc_orders :: "(int \<times> mock_order) list"
  acc_invoices :: "(int \<times> mock_invoice) list"
  acc_next_invoice_id :: int

definition new_accounting :: accounting where
  "new_accounting = \<lparr>acc_orders = [], acc_invoices = [], acc_next_invoice_id = 1001\<rparr>"

definition register_mock_order :: "int \<Rightarrow> mock_order \<Rightarrow> accounting \<Rightarrow> addon_error + accounting" where
  "register_mock_order i ord st = (if i = 0 then Inl Invalid_Request
     else Inr (st\<lparr>acc_orders := AList.update i ord (acc_orders st)\<rparr>))"

definition register_mock_invoice :: "int \<Rightarrow> mock_invoice \<Rightarrow> accounting \<Rightarrow> addon_error + accounting" where
  "register_mock_invoice i x st = (if i = 0 then Inl Invalid_Request
     else Inr (st\<lparr>acc_invoices := AList.update i x (acc_invoices st)\<rparr>))"

section \<open>Reading\<close>

record invoice_view =
  ivw_invoice_id :: int
  ivw_name :: string
  ivw_state :: string
  ivw_amount_total :: rat
  ivw_amount_residual :: rat
  ivw_payment_state :: string
  ivw_is_paid :: bool
  ivw_move_type :: string
  ivw_deal_id :: "string option"
  ivw_is_recurring :: bool

definition view_invoice :: "int \<Rightarrow> mock_invoice \<Rightarrow> invoice_view" where
  "view_invoice i x = (let tot = keep (mi_amount_total x) 0; residual = keep (mi_amount_residual x) 0;
       state = keep (mi_state x) ''posted''; paid = keep (mi_payment_state x) ''not_paid'' in
     \<lparr>ivw_invoice_id = i, ivw_name = keep (mi_name x) (''INV/'' @ int_text i), ivw_state = state,
      ivw_amount_total = fround tot 2, ivw_amount_residual = fround residual 2, ivw_payment_state = paid,
      ivw_is_paid = (paid = ''paid'' \<or> 0 < tot \<and> residual \<le> 0 \<or> tot = 0 \<and> residual \<le> 0 \<and> state = ''posted''),
      ivw_move_type = keep (mi_move_type x) ''out_invoice'', ivw_deal_id = mi_deal_id x,
      ivw_is_recurring = mi_is_recurring x\<rparr>)"

definition get_invoice :: "int \<Rightarrow> accounting \<Rightarrow> addon_error + invoice_view" where
  "get_invoice i st = (case map_of (acc_invoices st) i of None \<Rightarrow> Inl Not_Found | Some x \<Rightarrow> Inr (view_invoice i x))"

definition get_order_invoices :: "int \<Rightarrow> accounting \<Rightarrow> addon_error + invoice_view list" where
  "get_order_invoices i st = (if map_of (acc_orders st) i = None then Inl Not_Found
     else Inr (map (\<lambda>(j, x). view_invoice j x) (filter (\<lambda>(j, x). mi_order_id x = Some i) (acc_invoices st))))"

definition order_total :: "int \<Rightarrow> accounting \<Rightarrow> rat" where
  "order_total i st = (case map_of (acc_orders st) i of None \<Rightarrow> 0 | Some ord \<Rightarrow> keep (mo_amount_total ord) 0)"

section \<open>Invoicing\<close>

definition active_invoices :: "invoice_view list \<Rightarrow> invoice_view list" where
  "active_invoices xs = filter (\<lambda>x. ivw_state x \<noteq> ''cancel'' \<and> ivw_move_type x \<noteq> ''out_refund'') xs"

definition fully_invoiced :: "rat \<Rightarrow> invoice_view list \<Rightarrow> bool" where
  "fully_invoiced tot active = (active \<noteq> [] \<and>
     (0 < tot \<and> tot \<le> fsum (map ivw_amount_total active) \<or> tot = 0))"

definition invoice_number :: "int \<Rightarrow> string \<Rightarrow> int \<Rightarrow> string" where
  "invoice_number year mark i = ''INV/'' @ int_text year @ ''/'' @ mark @ zero_pad 4 (int_digits i)"

definition posted_invoice :: "string \<Rightarrow> int \<Rightarrow> string \<Rightarrow> rat \<Rightarrow> string option \<Rightarrow> bool \<Rightarrow> mock_invoice" where
  "posted_invoice name order type amount deal recurring = \<lparr>mi_name = Some name, mi_order_id = Some order,
     mi_move_type = Some type, mi_state = Some ''posted'', mi_payment_state = Some ''not_paid'', mi_amount_total = Some amount,
     mi_amount_residual = Some amount, mi_deal_id = deal, mi_is_recurring = recurring\<rparr>"

record created_invoice =
  civ_invoice_id :: int
  civ_name :: string
  civ_amount_total :: rat
  civ_deal_id :: "string option"

definition create_invoice :: "int \<Rightarrow> int \<Rightarrow> string \<Rightarrow> accounting \<Rightarrow> addon_error + created_invoice \<times> accounting" where
  "create_invoice year i type st = bind_result (get_order_invoices i st) (\<lambda>existing.
     if fully_invoiced (order_total i st) (active_invoices existing) then Inl Invalid_State
     else case map_of (acc_orders st) i of None \<Rightarrow> Inl Not_Found
     | Some ord \<Rightarrow>
         if keep (mo_state ord) ''draft'' \<notin> {''sale'', ''done''} then Inl Invalid_State
         else let n = acc_next_invoice_id st; amount = keep (mo_amount_total ord) 0; name = invoice_number year [] n in
           Inr (\<lparr>civ_invoice_id = n, civ_name = name, civ_amount_total = amount, civ_deal_id = mo_deal_id ord\<rparr>,
             st\<lparr>acc_next_invoice_id := n + 1,
                acc_invoices := AList.update n (posted_invoice name i type amount (mo_deal_id ord) False) (acc_invoices st),
                acc_orders := AList.update i (ord\<lparr>mo_invoice_ids := mo_invoice_ids ord @ [n]\<rparr>) (acc_orders st)\<rparr>))"

section \<open>Payment status\<close>

record payment_status =
  pst_is_paid :: bool
  pst_amount_paid :: rat
  pst_amount_due :: rat
  pst_payment_state :: string
  pst_invoices_count :: nat

definition not_paid_status :: "rat \<Rightarrow> nat \<Rightarrow> payment_status" where
  "not_paid_status expected n = \<lparr>pst_is_paid = False, pst_amount_paid = 0, pst_amount_due = fround expected 2,
     pst_payment_state = ''not_paid'', pst_invoices_count = n\<rparr>"

text \<open>A refund counts against the invoices.\<close>

definition count_invoice :: "invoice_view \<Rightarrow> rat \<times> rat \<Rightarrow> rat \<times> rat" where
  "count_invoice x = (\<lambda>(invoiced, due). if ivw_move_type x = ''out_refund''
     then (fsub invoiced (ivw_amount_total x), fsub due (ivw_amount_residual x))
     else (fadd invoiced (ivw_amount_total x), fadd due (ivw_amount_residual x)))"

definition settle_invoices :: "invoice_view list \<Rightarrow> payment_status" where
  "settle_invoices xs = (case fold count_invoice xs (0, 0) of (invoiced, owed) \<Rightarrow>
     let due = max 0 owed; paid = max 0 (fsub invoiced due);
         is_paid = (due \<le> 0 \<and> (0 < invoiced \<or> list_ex (\<lambda>x. ivw_amount_total x = 0) xs)) in
     \<lparr>pst_is_paid = is_paid, pst_amount_paid = fround paid 2, pst_amount_due = fround due 2,
      pst_payment_state = (if is_paid then ''paid''
        else if list_ex (\<lambda>x. ivw_payment_state x = ''in_payment'') xs \<or> 0 < paid then ''in_payment'' else ''not_paid''),
      pst_invoices_count = length xs\<rparr>)"

definition get_payment_status :: "int \<Rightarrow> accounting \<Rightarrow> addon_error + payment_status" where
  "get_payment_status i st = bind_result (get_order_invoices i st) (\<lambda>xs.
     let valid = filter (\<lambda>x. ivw_state x \<noteq> ''cancel'') xs in
     Inr (if valid = [] then not_paid_status (order_total i st) (length xs) else settle_invoices valid))"

section \<open>Payments\<close>

record paid_result =
  prs_amount_paid :: rat
  prs_amount_residual :: rat
  prs_payment_state :: string

definition pay_amount :: "rat option \<Rightarrow> rat \<Rightarrow> rat" where
  "pay_amount amount residual = (case amount of None \<Rightarrow> residual | Some a \<Rightarrow> if residual < a then residual else a)"

definition record_payment :: "int \<Rightarrow> rat option \<Rightarrow> accounting \<Rightarrow> addon_error + paid_result \<times> accounting" where
  "record_payment i amount st =
     (if (case amount of None \<Rightarrow> False | Some a \<Rightarrow> a < 0) then Inl Invalid_Request
      else bind_result (get_invoice i st) (\<lambda>x.
        if ivw_state x = ''cancel'' then Inl Invalid_State
        else let pay = pay_amount amount (ivw_amount_residual x);
                 left = max 0 (fsub (ivw_amount_residual x) pay);
                 state = (if left \<le> 0 then ''paid'' else ''in_payment'') in
          Inr (\<lparr>prs_amount_paid = fround pay 2, prs_amount_residual = fround left 2, prs_payment_state = state\<rparr>,
            st\<lparr>acc_invoices := AList.map_entry i (\<lambda>x. x\<lparr>mi_amount_residual := Some left, mi_payment_state := Some state\<rparr>)
              (acc_invoices st)\<rparr>)))"

section \<open>Payments and balances\<close>

lemma fsub_self [simp]: "fsub x x = 0"
  by (simp add: fsub_def)

lemma fadd_zero: "fadd 0 (fround x n) = fround x n"
  by (simp add: fadd_def fround_def fl64_def round_sig_idem)

lemma fsub_zero: "fsub (fround x n) 0 = fround x n"
  by (simp add: fsub_def fround_def fl64_def round_sig_idem)

lemma fround_zero [simp]: "fround 0 n = 0"
  by (simp add: fround_def)

lemma update_absent: "map_of xs k = None \<Longrightarrow> AList.update k v xs = xs @ [(k, v)]"
  by (induction xs) (auto split: if_splits)

lemma map_entry_absent: "map_of xs k = None \<Longrightarrow> AList.map_entry k f (xs @ ys) = xs @ AList.map_entry k f ys"
  by (induction xs) (auto split: if_splits)

text \<open>A payment takes no more than is open and leaves no debt below zero; nothing is left exactly when the invoice is paid.\<close>

lemma payment_bounds:
  assumes "record_payment i amount st = Inr (r, st')" and "map_of (acc_invoices st) i = Some x"
    and "0 \<le> keep (mi_amount_residual x) 0"
  shows "\<exists>x'. map_of (acc_invoices st') i = Some x' \<and> 0 \<le> keep (mi_amount_residual x') 0 \<and>
    keep (mi_amount_residual x') 0 \<le> fround (keep (mi_amount_residual x) 0) 2 \<and>
    (mi_payment_state x' = Some ''paid'' \<longleftrightarrow> keep (mi_amount_residual x') 0 = 0)"
proof -
  let ?old = "fround (keep (mi_amount_residual x) 0) 2"
  let ?pay = "pay_amount amount ?old"
  have old: "0 \<le> ?old" using assms(3) by (simp add: fround_nonneg)
  then have pay: "0 \<le> ?pay" using assms(1) by (auto simp: pay_amount_def record_payment_def split: option.splits if_splits)
  have "fsub ?old ?pay \<le> fsub ?old 0" unfolding fsub_def by (rule fl64_mono) (use pay in simp)
  then have "max 0 (fsub ?old ?pay) \<le> ?old" using old by (simp add: fsub_zero)
  moreover have "map_of (acc_invoices st') i = Some (x\<lparr>mi_amount_residual := Some (max 0 (fsub ?old ?pay)),
      mi_payment_state := Some (if max 0 (fsub ?old ?pay) \<le> 0 then ''paid'' else ''in_payment'')\<rparr>)"
    using assms(1,2)
    by (auto simp: record_payment_def get_invoice_def view_invoice_def Let_def map_of_map_entry split: if_splits)
  ultimately show ?thesis by simp
qed

text \<open>
  C36: An order is invoiced once and then paid. A confirmed order whose total is an amount in cents and
  that has no invoice is invoiced over its total; to invoice it again is refused; and when the invoice is
  paid in full, the order counts as paid, with its total as the amount paid and nothing due.
\<close>

theorem order_invoiced_and_paid:
  assumes "map_of (acc_orders st) i = Some ord" and "mo_state ord \<in> {Some ''sale'', Some ''done''}"
    and "mo_amount_total ord = Some tot" and "0 \<le> tot" and "fround tot 2 = tot"
    and "\<forall>(j, x)\<in>set (acc_invoices st). mi_order_id x \<noteq> Some i"
    and "map_of (acc_invoices st) (acc_next_invoice_id st) = None"
  shows "\<exists>c st1 r st2 s. create_invoice year i ''out_invoice'' st = Inr (c, st1) \<and> civ_amount_total c = tot \<and>
    create_invoice later i ''out_invoice'' st1 = Inl Invalid_State \<and>
    record_payment (civ_invoice_id c) None st1 = Inr (r, st2) \<and> prs_payment_state r = ''paid'' \<and>
    get_payment_status i st2 = Inr s \<and> pst_is_paid s \<and> pst_amount_paid s = tot \<and> pst_amount_due s = 0"
proof -
  let ?n = "acc_next_invoice_id st"
  let ?x = "posted_invoice (invoice_number year [] ?n) i ''out_invoice'' tot (mo_deal_id ord) False"
  let ?st1 = "st\<lparr>acc_next_invoice_id := ?n + 1, acc_invoices := acc_invoices st @ [(?n, ?x)],
     acc_orders := AList.update i (ord\<lparr>mo_invoice_ids := mo_invoice_ids ord @ [?n]\<rparr>) (acc_orders st)\<rparr>"
  let ?y = "?x\<lparr>mi_amount_residual := Some 0, mi_payment_state := Some ''paid''\<rparr>"
  let ?st2 = "?st1\<lparr>acc_invoices := acc_invoices st @ [(?n, ?y)]\<rparr>"
  have none: "filter (\<lambda>(j, x). mi_order_id x = Some i) (acc_invoices st) = []"
    using assms(6) by (auto simp: filter_empty_conv)
  have created: "create_invoice year i ''out_invoice'' st = Inr (\<lparr>civ_invoice_id = ?n, civ_name = invoice_number year [] ?n,
      civ_amount_total = tot, civ_deal_id = mo_deal_id ord\<rparr>, ?st1)"
    using assms(1-3) update_absent[OF assms(7)]
    by (auto simp: create_invoice_def get_order_invoices_def none fully_invoiced_def active_invoices_def Let_def)
  have found: "map_of (acc_invoices ?st1) ?n = Some ?x" "get_order_invoices i ?st1 = Inr [view_invoice ?n ?x]"
    using assms(7) by (simp_all add: map_add_Some_iff get_order_invoices_def none update_conv posted_invoice_def)
  have view: "ivw_amount_total (view_invoice ?n ?x) = tot" "ivw_amount_residual (view_invoice ?n ?x) = tot"
      "ivw_state (view_invoice ?n ?x) = ''posted''" "ivw_move_type (view_invoice ?n ?x) = ''out_invoice''"
    using assms(5) by (simp_all add: view_invoice_def posted_invoice_def)
  have "fsum [tot] = tot" using fadd_zero[of tot 2] assms(5) by (simp add: fsum_def)
  moreover have "order_total i ?st1 = tot" using assms(3) by (simp add: order_total_def update_conv)
  ultimately have again: "create_invoice later i ''out_invoice'' ?st1 = Inl Invalid_State"
    using found(2) view assms(4) by (simp add: create_invoice_def active_invoices_def fully_invoiced_def)
  have "AList.map_entry ?n (\<lambda>x. x\<lparr>mi_amount_residual := Some 0, mi_payment_state := Some ''paid''\<rparr>) (acc_invoices ?st1) =
      acc_invoices st @ [(?n, ?y)]"
    using assms(7) by (simp add: map_entry_absent)
  then have paid: "record_payment ?n None ?st1 = Inr (\<lparr>prs_amount_paid = fround tot 2, prs_amount_residual = fround 0 2,
      prs_payment_state = ''paid''\<rparr>, ?st2)"
    using found(1) view by (simp add: record_payment_def get_invoice_def pay_amount_def Let_def)
  have "get_order_invoices i ?st2 = Inr [view_invoice ?n ?y]"
    by (simp add: get_order_invoices_def none update_conv posted_invoice_def)
  moreover have "settle_invoices [view_invoice ?n ?y] = \<lparr>pst_is_paid = True, pst_amount_paid = tot, pst_amount_due = 0,
      pst_payment_state = ''paid'', pst_invoices_count = 1\<rparr>"
    using assms(4,5) fadd_zero[of tot 2] fsub_zero[of tot 2] fadd_zero[of 0 2]
    by (auto simp: settle_invoices_def count_invoice_def view_invoice_def posted_invoice_def Let_def)
  ultimately have "get_payment_status i ?st2 = Inr \<lparr>pst_is_paid = True, pst_amount_paid = tot, pst_amount_due = 0,
      pst_payment_state = ''paid'', pst_invoices_count = 1\<rparr>"
    by (simp add: get_payment_status_def view_invoice_def posted_invoice_def)
  with created again paid show ?thesis by force
qed

text \<open>
  The guard compares rounded invoices with the order's unrounded total: an order over 10.004 can be
  invoiced again and again.
\<close>

definition sale_mock :: "rat \<Rightarrow> mock_order" where
  "sale_mock tot = \<lparr>mo_name = None, mo_state = Some ''sale'', mo_deal_id = None, mo_amount_total = Some tot,
     mo_date_order = None, mo_lines = [], mo_invoice_ids = []\<rparr>"

theorem order_invoiced_and_paid_witness:
  "\<exists>c st1. create_invoice 2026 7 ''out_invoice'' (new_accounting\<lparr>acc_orders := [(7, sale_mock 100)]\<rparr>) = Inr (c, st1) \<and>
    create_invoice 2026 7 ''out_invoice'' st1 = Inl Invalid_State"
proof -
  have "fround 100 2 = 100" using round_half_even_of_int[of 10000] by (simp add: fround_def pyround_def fl64_eval)
  then show ?thesis
    using order_invoiced_and_paid[of "new_accounting\<lparr>acc_orders := [(7, sale_mock 100)]\<rparr>" 7 "sale_mock 100" 100 2026 2026]
    by (force simp: new_accounting_def sale_mock_def)
qed

end
