(* ===== verification/Addon_Security.thy ===== *)
theory Addon_Security
  imports Addon_Base
begin

text \<open>
  The addon's cryptographic and network checks, \<^verbatim>\<open>dealflow_odoo/security/security_utils.py\<close>: signed approval
  tokens, the comparison of API keys, webhook signatures, and the test of a webhook's URL. The HMAC is a
  parameter, of which only that it prints hexadecimal digits is used; so are name resolution, the
  parser of URLs and the reading of an IP address. Texts are of single-byte characters.
\<close>

section \<open>Reading integers\<close>

text \<open>
  \<^verbatim>\<open>int(s)\<close> on a text: spaces around it are dropped, a sign may lead, and single underscores may stand
  between digits. More than 4300 digits are refused.
\<close>

definition is_digit :: "char \<Rightarrow> bool" where
  "is_digit c = (48 \<le> (of_char c :: nat) \<and> (of_char c :: nat) \<le> 57)"

fun int_body :: "string \<Rightarrow> bool" where
  "int_body [] = False"
| "int_body [c] = is_digit c"
| "int_body (c # d # cs) = (is_digit c \<and> (if d = CHR ''_'' then int_body cs else int_body (d # cs)))"

definition int_sign :: "string \<Rightarrow> int" where
  "int_sign t = (if take 1 t = ''-'' then -1 else 1)"

definition unsigned_text :: "string \<Rightarrow> string" where
  "unsigned_text t = (if take 1 t = ''-'' \<or> take 1 t = ''+'' then drop 1 t else t)"

definition py_int :: "string \<Rightarrow> int option" where
  "py_int s = (let t = py_strip s; body = unsigned_text t; ds = filter (\<lambda>c. c \<noteq> CHR ''_'') body in
     if int_body body \<and> length ds \<le> 4300 then Some (int_sign t * read_digits ds) else None)"

section \<open>Comparing secrets\<close>

text \<open>\<^verbatim>\<open>hmac.compare_digest\<close> raises on a text that is not ASCII.\<close>

definition ascii_text :: "string \<Rightarrow> bool" where
  "ascii_text s = list_all (\<lambda>c. (of_char c :: nat) < 128) s"

definition compare_digest :: "string \<Rightarrow> string \<Rightarrow> addon_error + bool" where
  "compare_digest a b = (if ascii_text a \<and> ascii_text b then Inr (a = b) else Inl Python_Error)"

definition verify_api_key :: "string option \<Rightarrow> string option \<Rightarrow> addon_error + bool" where
  "verify_api_key provided expected =
     (if str_or provided [] = [] \<or> str_or expected [] = [] then Inr False
      else compare_digest (py_strip (str_or provided [])) (py_strip (str_or expected [])))"

section \<open>Approval tokens\<close>

type_synonym mac = "string \<Rightarrow> string \<Rightarrow> string"

definition DEFAULT_SECRET_KEY :: string where
  "DEFAULT_SECRET_KEY = ''dealflow_sec_token_key_2026_production_default''"

text \<open>\<open>env\<close> is the variable \<^verbatim>\<open>DEALFLOW_SIGNING_KEY\<close>.\<close>

definition signing_key :: "string option \<Rightarrow> string option \<Rightarrow> string" where
  "signing_key env secret = (if str_or secret [] \<noteq> [] then str_or secret [] else (case env of None \<Rightarrow> DEFAULT_SECRET_KEY | Some e \<Rightarrow> e))"

definition token_payload :: "int \<Rightarrow> int \<Rightarrow> string" where
  "token_payload order expiry = int_text order @ ''.'' @ int_text expiry"

definition generate_approval_token :: "mac \<Rightarrow> string \<Rightarrow> int \<Rightarrow> int \<Rightarrow> int \<Rightarrow> string" where
  "generate_approval_token hmac key now order ttl =
     (let payload = token_payload order (now + max 1 ttl) in ''DF-APP.'' @ payload @ ''.'' @ hmac key payload)"

fun split_at_char :: "char \<Rightarrow> string \<Rightarrow> string list" where
  "split_at_char c [] = [[]]"
| "split_at_char c (x # xs) = (if x = c then [] # split_at_char c xs
     else case split_at_char c xs of [] \<Rightarrow> [[x]] | p # ps \<Rightarrow> (x # p) # ps)"

definition verify_approval_token :: "mac \<Rightarrow> string \<Rightarrow> int \<Rightarrow> string option \<Rightarrow> int \<Rightarrow> addon_error + bool" where
  "verify_approval_token hmac key now token order =
     (case split_at_char (CHR ''.'') (py_strip (str_or token [])) of
        [head, o_text, e_text, sig] \<Rightarrow>
          if head \<noteq> ''DF-APP'' then Inr False
          else (case (py_int o_text, py_int e_text) of
              (Some i, Some expiry) \<Rightarrow>
                if i \<noteq> order \<or> expiry < now then Inr False
                else compare_digest (hmac key (token_payload i expiry)) sig
            | _ \<Rightarrow> Inr False)
      | _ \<Rightarrow> Inr False)"

section \<open>Webhook signatures\<close>

definition generate_webhook_signature :: "mac \<Rightarrow> string \<Rightarrow> string \<Rightarrow> string" where
  "generate_webhook_signature hmac body key = ''sha256='' @ hmac key body"

definition verify_webhook_signature :: "mac \<Rightarrow> string \<Rightarrow> string \<Rightarrow> string \<Rightarrow> addon_error + bool" where
  "verify_webhook_signature hmac body header key =
     (if header = [] \<or> key = [] then Inr False
      else compare_digest (py_strip header) (generate_webhook_signature hmac body key))"

section \<open>URLs\<close>

text \<open>What \<^verbatim>\<open>urlparse\<close> reads; the port fails separately, when it is asked for.\<close>

record parsed_url =
  pu_scheme :: string
  pu_hostname :: "string option"
  pu_port :: "addon_error + int option"

record ip_flags =
  ip_is_loopback :: bool
  ip_is_private :: bool
  ip_is_link_local :: bool
  ip_is_reserved :: bool
  ip_is_multicast :: bool
  ip_is_unspecified :: bool

text \<open>The network as the check sees it; \<open>None\<close> is a failed resolution or a text that is no address.\<close>

record net =
  net_urlparse :: "string \<Rightarrow> parsed_url option"
  net_resolve :: "string \<Rightarrow> int \<Rightarrow> string list option"
  net_address :: "string \<Rightarrow> ip_flags option"

definition BLOCKED_HOSTNAMES :: "string list" where
  "BLOCKED_HOSTNAMES = [''localhost'', ''127.0.0.1'', ''::1'', ''0.0.0.0'', ''metadata.google.internal'', ''instance-data'']"

definition mock_domains :: "string list" where
  "mock_domains = [''.test'', ''.example'', ''.invalid'', ''.internal'', ''.mock'']"

definition text_ends :: "string \<Rightarrow> string \<Rightarrow> bool" where
  "text_ends s end_text = (length end_text \<le> length s \<and> drop (length s - length end_text) s = end_text)"

definition public_address :: "net \<Rightarrow> string \<Rightarrow> bool" where
  "public_address n s = (case net_address n s of None \<Rightarrow> False
     | Some ip \<Rightarrow> \<not> ip_is_loopback ip \<and> \<not> ip_is_private ip \<and> \<not> ip_is_link_local ip \<and> \<not> ip_is_reserved ip \<and>
         \<not> ip_is_multicast ip \<and> \<not> ip_is_unspecified ip)"

text \<open>The reason of a refusal is left out. A port of zero counts as none.\<close>

definition is_safe_webhook_url :: "net \<Rightarrow> bool \<Rightarrow> string \<Rightarrow> addon_error + bool" where
  "is_safe_webhook_url n allow_private url =
     (if url = [] then Inr False
      else case net_urlparse n (py_strip url) of None \<Rightarrow> Inr False
      | Some p \<Rightarrow>
          let scheme = map char_lower (pu_scheme p); host = map char_lower (py_strip (str_or (pu_hostname p) [])) in
          if scheme \<notin> {''http'', ''https''} \<or> str_or (pu_hostname p) [] = [] \<or> host \<in> set BLOCKED_HOSTNAMES then Inr False
          else if allow_private then Inr True
          else bind_result (pu_port p) (\<lambda>port.
            case net_resolve n host (num_or port (if scheme = ''https'' then 443 else 80)) of
              Some ips \<Rightarrow> Inr (list_all (public_address n) ips)
            | None \<Rightarrow> if net_address n host \<noteq> None then Inr (public_address n host)
                else Inr (list_ex (text_ends host) mock_domains)))"

text \<open>A redirect is followed (by the library) only to a safe URL; otherwise the request fails.\<close>

definition redirect_request :: "net \<Rightarrow> string \<Rightarrow> addon_error + string" where
  "redirect_request n newurl =
     bind_result (is_safe_webhook_url n False newurl) (\<lambda>safe. if safe then Inr newurl else Inl Python_Error)"

section \<open>Integers round trip\<close>

lemma digit_chars: "0 \<le> n \<Longrightarrow> c \<in> set (int_digits n) \<Longrightarrow> is_digit c"
proof (induction n rule: int_digits.induct)
  case (1 n)
  have d: "0 \<le> k \<Longrightarrow> k < 10 \<Longrightarrow> is_digit (digit_char k)" for k by (simp add: is_digit_def digit_char_def)
  show ?case
    using 1 d[of "n mod 10"] d[of n] by (cases "n < 10") (auto simp: int_digits.simps[of n])
qed

lemma int_digits_nonempty [simp]: "int_digits n \<noteq> []"
  by (subst int_digits.simps) simp

lemma digit_not [simp]: "is_digit c \<Longrightarrow> c \<noteq> CHR ''_''" "is_digit c \<Longrightarrow> c \<noteq> CHR ''-''" "is_digit c \<Longrightarrow> c \<noteq> CHR ''.''"
  "is_digit c \<Longrightarrow> c \<noteq> CHR ''+''" "is_digit c \<Longrightarrow> \<not> is_py_space c"
  by (auto simp: is_digit_def is_py_space_def)

lemma int_body_digits: "s \<noteq> [] \<Longrightarrow> (\<And>c. c \<in> set s \<Longrightarrow> is_digit c) \<Longrightarrow> int_body s"
proof (induction s rule: int_body.induct)
  case (3 c d cs)
  then have "is_digit c" "is_digit d" "int_body (d # cs)" by auto
  then show ?case by auto
qed auto

lemma strip_tight: "s \<noteq> [] \<Longrightarrow> \<not> is_py_space (hd s) \<Longrightarrow> \<not> is_py_space (last s) \<Longrightarrow> py_strip s = s"
proof -
  assume s: "s \<noteq> []" "\<not> is_py_space (hd s)" "\<not> is_py_space (last s)"
  then have "dropWhile is_py_space s = s" "dropWhile is_py_space (rev s) = rev s"
    by (simp_all add: dropWhile_eq_self_iff hd_rev)
  then show ?thesis by (simp add: py_strip_def)
qed

lemma no_underscores: "(\<And>c. c \<in> set s \<Longrightarrow> is_digit c) \<Longrightarrow> filter (\<lambda>c. c \<noteq> CHR ''_'') s = s"
  by (induction s) auto

lemma py_int_text:
  assumes "length (int_digits \<bar>n\<bar>) \<le> 4300"
  shows "py_int (int_text n) = Some n"
proof -
  let ?ds = "int_digits \<bar>n\<bar>"
  have digits: "c \<in> set ?ds \<Longrightarrow> is_digit c" for c by (rule digit_chars[of "\<bar>n\<bar>"]) simp_all
  then have ends: "is_digit (hd ?ds)" "is_digit (last ?ds)" by simp_all
  have body: "int_body ?ds" using digits int_body_digits int_digits_nonempty by blast
  have clean: "filter (\<lambda>c. c \<noteq> CHR ''_'') ?ds = ?ds" by (rule no_underscores) (rule digits)
  show ?thesis
  proof (cases "n < 0")
    case True
    then have t: "int_text n = CHR ''-'' # ?ds" by (simp add: int_text_def)
    have "py_strip (CHR ''-'' # ?ds) = CHR ''-'' # ?ds" 
      using ends is_py_space_def[of "CHR ''-''"] by (intro strip_tight) simp_all
    then show ?thesis using True body assms clean
      by (simp add: py_int_def t int_sign_def unsigned_text_def read_int_digits)
  next
    case False
    then have t: "int_text n = ?ds" by (simp add: int_text_def)
    obtain d ds where d: "?ds = d # ds" "is_digit d" using ends by (cases ?ds) auto
    have "py_strip ?ds = ?ds" using ends by (intro strip_tight) simp_all
    moreover have "unsigned_text ?ds = ?ds" "int_sign ?ds = 1" using d by (auto simp: unsigned_text_def int_sign_def)
    ultimately show ?thesis using False body assms clean
      by (simp add: py_int_def t read_int_digits)
  qed
qed

section \<open>What an approval token proves\<close>

definition is_hex :: "char \<Rightarrow> bool" where
  "is_hex c = (is_digit c \<or> (97 \<le> (of_char c :: nat) \<and> (of_char c :: nat) \<le> 102))"

text \<open>\<^verbatim>\<open>hexdigest\<close> gives hexadecimal digits.\<close>

definition hex_mac :: "mac \<Rightarrow> bool" where
  "hex_mac hmac = (\<forall>k m. hmac k m \<noteq> [] \<and> list_all is_hex (hmac k m))"

lemma hex_not: "is_hex c \<Longrightarrow> c \<noteq> CHR ''.'' \<and> \<not> is_py_space c \<and> (of_char c :: nat) < 128"
  by (auto simp: is_hex_def is_digit_def is_py_space_def)

lemma hex_ascii: "hex_mac hmac \<Longrightarrow> ascii_text (hmac k m)"
  by (auto simp: hex_mac_def ascii_text_def list_all_iff hex_not)

lemma split_at_char_part: "c \<notin> set a \<Longrightarrow> split_at_char c (a @ c # b) = a # split_at_char c b"
  by (induction a) auto

lemma split_at_char_none: "c \<notin> set a \<Longrightarrow> split_at_char c a = [a]"
  by (induction a) auto

lemma int_text_chars: "CHR ''.'' \<notin> set (int_text n)"
  using digit_chars[of "\<bar>n\<bar>" "CHR ''.''"] by (auto simp: int_text_def is_digit_def split: if_splits)

lemma token_parts:
  assumes "hex_mac hmac"
  shows "split_at_char (CHR ''.'') (py_strip (generate_approval_token hmac key now order ttl)) =
    [''DF-APP'', int_text order, int_text (now + max 1 ttl), hmac key (token_payload order (now + max 1 ttl))]"
proof -
  let ?sig = "hmac key (token_payload order (now + max 1 ttl))"
  have sig: "?sig \<noteq> []" "\<And>c. c \<in> set ?sig \<Longrightarrow> is_hex c" using assms by (auto simp: hex_mac_def list_all_iff)
  have tok: "generate_approval_token hmac key now order ttl =
      ''DF-APP'' @ CHR ''.'' # int_text order @ CHR ''.'' # int_text (now + max 1 ttl) @ CHR ''.'' # ?sig"
    by (simp add: generate_approval_token_def token_payload_def Let_def)
  have "\<not> is_py_space (last ?sig)" using sig hex_not by simp
  then have "py_strip (generate_approval_token hmac key now order ttl) = generate_approval_token hmac key now order ttl"
    using sig(1) by (intro strip_tight) (simp_all add: tok is_py_space_def)
  moreover have "CHR ''.'' \<notin> set ?sig" using sig(2) hex_not by blast
  ultimately show ?thesis
    by (simp only: tok split_at_char_part int_text_chars split_at_char_none not_False_eq_True)
       (subst split_at_char_part; simp add: split_at_char_part int_text_chars split_at_char_none)
qed

text \<open>
  C22: An approval token speaks for one order and for a limited time. The token that was generated for an
  order is accepted under the same key exactly for this order and exactly until its lifetime, of at least
  a second, is over.
\<close>

theorem approval_token_roundtrip:
  assumes "hex_mac hmac" and "length (int_digits \<bar>order\<bar>) \<le> 4300" and "length (int_digits \<bar>now + max 1 ttl\<bar>) \<le> 4300"
  shows "verify_approval_token hmac key later (Some (generate_approval_token hmac key now order ttl)) order' =
    Inr (order' = order \<and> later \<le> now + max 1 ttl)"
proof -
  have "generate_approval_token hmac key now order ttl \<noteq> []" by (simp add: generate_approval_token_def Let_def)
  then show ?thesis
    using token_parts[OF assms(1)] py_int_text[OF assms(2)] py_int_text[OF assms(3)] hex_ascii[OF assms(1)]
    by (auto simp: verify_approval_token_def str_or_def compare_digest_def)
qed

text \<open>Whatever token is accepted ends in the MAC, under the key, of the order and of an expiry that is not over.\<close>

lemma accepted_token_signed:
  assumes "verify_approval_token hmac key now token order = Inr True"
  shows "\<exists>o_text e_text expiry. split_at_char (CHR ''.'') (py_strip (str_or token [])) =
      [''DF-APP'', o_text, e_text, hmac key (token_payload order expiry)] \<and> py_int o_text = Some order \<and>
      py_int e_text = Some expiry \<and> now \<le> expiry"
  using assms
  by (auto simp: verify_approval_token_def compare_digest_def split: list.splits option.splits if_splits)

definition plain_mac :: mac where
  "plain_mac k m = ''0a''"

lemma plain_mac_hex: "hex_mac plain_mac"
  by (simp add: hex_mac_def plain_mac_def is_hex_def is_digit_def)

theorem approval_token_roundtrip_witness:
  "verify_approval_token plain_mac ''k'' 1100 (Some (generate_approval_token plain_mac ''k'' 1000 7 3600)) 7 = Inr True \<and>
   verify_approval_token plain_mac ''k'' 1100 (Some (generate_approval_token plain_mac ''k'' 1000 7 3600)) 8 = Inr False"
  using approval_token_roundtrip[OF plain_mac_hex, of 7 1000 3600 "''k''" 1100]
  by (simp add: int_digits.simps)

section \<open>Webhook signatures\<close>

lemma webhook_signature_roundtrip:
  assumes "hex_mac hmac" and "key \<noteq> []"
  shows "verify_webhook_signature hmac body (generate_webhook_signature hmac body key) key = Inr True"
proof -
  have sig: "hmac key body \<noteq> []" "\<And>c. c \<in> set (hmac key body) \<Longrightarrow> is_hex c" using assms by (auto simp: hex_mac_def list_all_iff)
  then have "\<not> is_py_space (last (hmac key body))" using hex_not by simp
  then have "py_strip (''sha256='' @ hmac key body) = ''sha256='' @ hmac key body"
    using sig(1) by (intro strip_tight) (simp_all add: is_py_space_def)
  moreover have "ascii_text (''sha256='' @ hmac key body)" using hex_ascii[OF assms(1), of key body] by (simp add: ascii_text_def)
  ultimately show ?thesis using assms(2)
    by (simp add: verify_webhook_signature_def generate_webhook_signature_def compare_digest_def)
qed

section \<open>Safe URLs\<close>

definition host_of :: "parsed_url \<Rightarrow> string" where
  "host_of p = map char_lower (py_strip (str_or (pu_hostname p) []))"

lemma safe_url:
  assumes "is_safe_webhook_url n False url = Inr True"
  obtains p port where "net_urlparse n (py_strip url) = Some p" and "map char_lower (pu_scheme p) \<in> {''http'', ''https''}"
    and "host_of p \<notin> set BLOCKED_HOSTNAMES" and "pu_port p = Inr port"
    and "case net_resolve n (host_of p) (num_or port (if map char_lower (pu_scheme p) = ''https'' then 443 else 80)) of
        Some ips \<Rightarrow> list_all (public_address n) ips
      | None \<Rightarrow> public_address n (host_of p) \<or> net_address n (host_of p) = None \<and> list_ex (text_ends (host_of p)) mock_domains"
  using assms that
  by (auto simp: is_safe_webhook_url_def host_of_def Let_def bind_result_Inr_iff split: option.splits if_splits)

end
