(* ===== verification/Addon_Subscription.thy ===== *)
theory Addon_Subscription
  imports Addon_Accounting Addon_Security
begin

text \<open>
  The addon's subscription adapter, \<^verbatim>\<open>dealflow_odoo/services/subscription_adapter.py\<close>: the next billing date,
  the split of a mixed order into one-time and recurring lines, and, on its own store, the status and the
  renewal of a subscription. The branches on an Odoo environment or an RPC client are left out. Dates are
  printed as glibc prints them, the year without leading zeros.
\<close>

section \<open>Dates\<close>

record cal_date =
  cd_year :: int
  cd_month :: int
  cd_day :: int

definition leap_year :: "int \<Rightarrow> bool" where
  "leap_year y = (y mod 4 = 0 \<and> (y mod 100 \<noteq> 0 \<or> y mod 400 = 0))"

definition days_in_month :: "int \<Rightarrow> int \<Rightarrow> int" where
  "days_in_month y m = (if m = 2 then (if leap_year y then 29 else 28) else if m \<in> {4, 6, 9, 11} then 30 else 31)"

definition date_ok :: "cal_date \<Rightarrow> bool" where
  "date_ok d = (1 \<le> cd_year d \<and> cd_year d \<le> 9999 \<and> 1 \<le> cd_month d \<and> cd_month d \<le> 12 \<and>
     1 \<le> cd_day d \<and> cd_day d \<le> days_in_month (cd_year d) (cd_month d))"

text \<open>\<^verbatim>\<open>dt.replace\<close> raises on a date that does not exist.\<close>

definition make_date :: "int \<Rightarrow> int \<Rightarrow> int \<Rightarrow> addon_error + cal_date" where
  "make_date y m d = (let dt = \<lparr>cd_year = y, cd_month = m, cd_day = d\<rparr> in if date_ok dt then Inr dt else Inl Python_Error)"

definition next_date :: "string \<Rightarrow> cal_date \<Rightarrow> addon_error + cal_date" where
  "next_date interval dt =
     (if interval = ''year'' then
        (case make_date (cd_year dt + 1) (cd_month dt) (cd_day dt) of
           Inr d \<Rightarrow> Inr d | Inl e \<Rightarrow> make_date (cd_year dt + 1) (cd_month dt) 28)
      else let y = cd_year dt + cd_month dt div 12; m = cd_month dt mod 12 + 1 in
        make_date y m (min (cd_day dt) (days_in_month y m)))"

text \<open>
  Reading: the text up to a \<^verbatim>\<open>T\<close> and then up to a space, as \<^verbatim>\<open>%Y-%m-%d\<close>: a year of four digits, month and
  day of one or two. \<open>today\<close> stands in for whatever cannot be read.
\<close>

definition date_number :: "nat list \<Rightarrow> string \<Rightarrow> int option" where
  "date_number widths s = (if length s \<in> set widths \<and> list_all is_digit s then Some (read_digits s) else None)"

definition read_date :: "string \<Rightarrow> cal_date option" where
  "read_date s = (case split_at_char (CHR ''-'') s of
       [y, m, d] \<Rightarrow> (case (date_number [4] y, date_number [1, 2] m, date_number [1, 2] d) of
           (Some y, Some m, Some d) \<Rightarrow> let dt = \<lparr>cd_year = y, cd_month = m, cd_day = d\<rparr> in if date_ok dt then Some dt else None
         | _ \<Rightarrow> None)
     | _ \<Rightarrow> None)"

definition clean_date :: "string \<Rightarrow> string" where
  "clean_date s = hd (split_at_char (CHR '' '') (hd (split_at_char (CHR ''T'') s)))"

definition date_text :: "cal_date \<Rightarrow> string" where
  "date_text d = int_digits (cd_year d) @ ''-'' @ zero_pad 2 (int_digits (cd_month d)) @ ''-'' @ zero_pad 2 (int_digits (cd_day d))"

definition add_billing_period :: "cal_date \<Rightarrow> string \<Rightarrow> string \<Rightarrow> addon_error + string" where
  "add_billing_period today start interval =
     bind_result (next_date interval (case read_date (clean_date start) of None \<Rightarrow> today | Some d \<Rightarrow> d)) (\<lambda>d. Inr (date_text d))"

section \<open>Mixed orders\<close>

text \<open>A line is of a subscription if it says so, if it has a known interval, or by its names.\<close>

definition known_intervals :: "string list" where
  "known_intervals = [''month'', ''year'', ''monthly'', ''yearly'', ''annual'']"

definition mock_product_name :: "mock_line \<Rightarrow> string" where
  "mock_product_name l = keep (ml_product_name l) (ml_name l)"

definition recurring_line :: "mock_line \<Rightarrow> bool" where
  "recurring_line l = (ml_is_recurring l \<or>
     (case ml_recurring_interval l of None \<Rightarrow> False | Some i \<Rightarrow> i \<in> set known_intervals) \<or>
     mentions (ml_category_name l) ''subscription'' \<or> mentions (mock_product_name l) ''subscription'' \<or>
     mentions (mock_product_name l) ''saas'')"

definition yearly_line :: "mock_line \<Rightarrow> bool" where
  "yearly_line l = (mentions (str_or (ml_recurring_interval l) []) ''year'' \<or> mentions (str_or (ml_recurring_interval l) []) ''annual'' \<or>
     mentions (mock_product_name l) ''annual'' \<or> mentions (mock_product_name l) ''year'')"

definition mock_quantity :: "mock_line \<Rightarrow> rat" where
  "mock_quantity l = keep (ml_product_uom_qty l) (keep (ml_quantity l) 1)"

definition mock_subtotal :: "mock_line \<Rightarrow> rat" where
  "mock_subtotal l = (case ml_price_subtotal l of Some s \<Rightarrow> s
     | None \<Rightarrow> fmul (fmul (mock_quantity l) (keep (ml_price_unit l) 0)) (fsub 1 (fdiv (keep (ml_discount l) 0) 100)))"

definition line_mrr :: "mock_line \<Rightarrow> rat" where
  "line_mrr l = (if yearly_line l then fdiv (mock_subtotal l) 12 else mock_subtotal l)"

definition line_arr :: "mock_line \<Rightarrow> rat" where
  "line_arr l = (if yearly_line l then mock_subtotal l else fmul (mock_subtotal l) 12)"

record mixed_order =
  mxo_one_time_lines :: "mock_line list"
  mxo_recurring_lines :: "mock_line list"
  mxo_one_time_total :: rat
  mxo_recurring_mrr :: rat
  mxo_recurring_arr :: rat
  mxo_billing_interval :: "string option"
  mxo_contract_value :: rat

definition billing_interval :: "mock_line list \<Rightarrow> string option" where
  "billing_interval rs = (if rs = [] then None
     else Some (if length (filter (\<lambda>l. \<not> yearly_line l) rs) < length (filter yearly_line rs) then ''year'' else ''month''))"

definition parse_mixed_order :: "mock_line list \<Rightarrow> mixed_order" where
  "parse_mixed_order ls = (let rs = filter recurring_line ls; os = filter (\<lambda>l. \<not> recurring_line l) ls;
       one = fsum (map mock_subtotal os); arr = fsum (map line_arr rs) in
     \<lparr>mxo_one_time_lines = os, mxo_recurring_lines = rs, mxo_one_time_total = fround one 2,
      mxo_recurring_mrr = fround (fsum (map line_mrr rs)) 2, mxo_recurring_arr = fround arr 2,
      mxo_billing_interval = billing_interval rs, mxo_contract_value = fround (fadd one arr) 2\<rparr>)"

section \<open>Status and renewal\<close>

record subscriptions =
  sub_orders :: "(int \<times> mock_order) list"
  sub_metadata :: "(int \<times> (string \<times> bool)) list"
  sub_accounting :: accounting

definition register_subscription ::
    "int \<Rightarrow> mock_order \<Rightarrow> string option \<Rightarrow> bool \<Rightarrow> subscriptions \<Rightarrow> addon_error + subscriptions" where
  "register_subscription i ord renewal active st =
     (if i = 0 then Inl Invalid_Request
      else bind_result (register_mock_order i ord (sub_accounting st)) (\<lambda>acc.
        Inr (st\<lparr>sub_orders := AList.update i ord (sub_orders st), sub_accounting := acc,
          sub_metadata := (if str_or renewal [] = [] then sub_metadata st
            else AList.update i (str_or renewal [], active) (sub_metadata st))\<rparr>)))"

record subscription_status =
  sst_active :: bool
  sst_renewal_date :: string
  sst_interval :: string
  sst_mrr :: rat
  sst_arr :: rat
  sst_state :: string
  sst_has_recurring :: bool

definition subscription_state :: "(string \<times> bool) option \<Rightarrow> string \<Rightarrow> bool \<Rightarrow> string \<times> bool" where
  "subscription_state meta state has_recurring =
     (case meta of Some (_, active) \<Rightarrow> (if active then (''active'', True) else (''inactive'', False))
      | None \<Rightarrow> if state \<in> {''sale'', ''done''} \<and> has_recurring then (''active'', True)
          else if state \<in> {''draft'', ''sent''} then (''draft'', False) else (''inactive'', False))"

definition get_subscription_status :: "cal_date \<Rightarrow> int \<Rightarrow> subscriptions \<Rightarrow> addon_error + subscription_status" where
  "get_subscription_status today i st = (case map_of (sub_orders st) i of None \<Rightarrow> Inl Not_Found
     | Some ord \<Rightarrow>
         let parsed = parse_mixed_order (mo_lines ord); interval = str_or (mxo_billing_interval parsed) ''month'';
             meta = map_of (sub_metadata st) i; has_recurring = (mxo_recurring_lines parsed \<noteq> []);
             (state, active) = subscription_state meta (keep (mo_state ord) ''draft'') has_recurring in
         bind_result (if str_or (map_option fst meta) [] \<noteq> [] then Inr (str_or (map_option fst meta) [])
             else add_billing_period today (keep (mo_date_order ord) (date_text today)) interval) (\<lambda>renewal.
           Inr \<lparr>sst_active = active, sst_renewal_date = renewal, sst_interval = interval,
             sst_mrr = mxo_recurring_mrr parsed, sst_arr = mxo_recurring_arr parsed, sst_state = state,
             sst_has_recurring = has_recurring\<rparr>))"

record renewal_result =
  rnw_invoice_id :: int
  rnw_amount :: rat
  rnw_previous_date :: string
  rnw_next_date :: string

definition check_renewal :: "subscription_status \<Rightarrow> addon_error option" where
  "check_renewal s = (if \<not> sst_has_recurring s \<and> sst_mrr s \<le> 0 \<or> sst_mrr s < 0 then Some Invalid_Request
     else if \<not> sst_active s then Some Invalid_State else None)"

definition renewal_amount :: "subscription_status \<Rightarrow> rat" where
  "renewal_amount s = (if sst_interval s = ''month'' then sst_mrr s else sst_arr s)"

definition trigger_subscription_renewal ::
    "cal_date \<Rightarrow> int \<Rightarrow> subscriptions \<Rightarrow> addon_error + renewal_result \<times> subscriptions" where
  "trigger_subscription_renewal today i st =
     bind_result (get_subscription_status today i st) (\<lambda>s.
     case check_renewal s of Some e \<Rightarrow> Inl e
     | None \<Rightarrow> bind_result (add_billing_period today (sst_renewal_date s) (sst_interval s)) (\<lambda>later.
         case map_of (sub_orders st) i of None \<Rightarrow> Inl Python_Error
         | Some ord \<Rightarrow>
             let acc = sub_accounting st; n = acc_next_invoice_id acc;
                 x = posted_invoice (invoice_number (cd_year today) ''SUB-'' n) i ''out_invoice'' (renewal_amount s) (mo_deal_id ord) True in
             bind_result (register_mock_invoice n x (acc\<lparr>acc_next_invoice_id := n + 1\<rparr>)) (\<lambda>acc'.
               Inr (\<lparr>rnw_invoice_id = n, rnw_amount = fround (renewal_amount s) 2, rnw_previous_date = sst_renewal_date s,
                   rnw_next_date = later\<rparr>,
                 st\<lparr>sub_accounting := acc', sub_metadata := AList.update i (later, True) (sub_metadata st)\<rparr>))))"

section \<open>Billing dates\<close>

definition date_key :: "cal_date \<Rightarrow> int" where
  "date_key d = 372 * cd_year d + 31 * (cd_month d - 1) + cd_day d"

lemma days_bounds: "28 \<le> days_in_month y m" "days_in_month y m \<le> 31"
  by (simp_all add: days_in_month_def)

lemma month_step:
  assumes "1 \<le> m" and "m \<le> (12::int)"
  shows "m div 12 = (if m = 12 then 1 else 0)" and "m mod 12 = (if m = 12 then 0 else m)"
proof -
  have "m = 12 \<or> m < 12" using assms(2) by linarith
  then show "m div 12 = (if m = 12 then 1 else 0)" "m mod 12 = (if m = 12 then 0 else m)"
    using assms(1) by auto
qed

lemma next_year:
  assumes "date_ok dt" and "cd_year dt < 9999"
  shows "next_date ''year'' dt = Inr \<lparr>cd_year = cd_year dt + 1, cd_month = cd_month dt,
    cd_day = min (cd_day dt) (days_in_month (cd_year dt + 1) (cd_month dt))\<rparr>"
  using assms by (auto simp: next_date_def make_date_def date_ok_def days_in_month_def Let_def split: if_splits)

lemma next_month:
  assumes "date_ok dt" and "cd_year dt < 9999" and "interval \<noteq> ''year''"
  defines "y \<equiv> cd_year dt + (if cd_month dt = 12 then 1 else 0)" and "m \<equiv> (if cd_month dt = 12 then 1 else cd_month dt + 1)"
  shows "next_date interval dt = Inr \<lparr>cd_year = y, cd_month = m, cd_day = min (cd_day dt) (days_in_month y m)\<rparr>"
  using assms month_step[of "cd_month dt"] days_bounds[of y m]
  by (auto simp: next_date_def make_date_def date_ok_def Let_def)

lemma next_date_valid:
  assumes "date_ok dt" and "cd_year dt < 9999"
  obtains d where "next_date interval dt = Inr d" and "date_ok d" and "date_key dt < date_key d"
    and "12 * cd_year d + cd_month d = 12 * cd_year dt + cd_month dt + (if interval = ''year'' then 12 else 1)"
    and "cd_day d = min (cd_day dt) (days_in_month (cd_year d) (cd_month d))"
proof -
  have day: "1 \<le> cd_day dt" "cd_day dt \<le> 31" using assms(1) days_bounds(2)[of "cd_year dt" "cd_month dt"] by (auto simp: date_ok_def)
  have e: "1 \<le> min (cd_day dt) (days_in_month y m)" "min (cd_day dt) (days_in_month y m) \<le> days_in_month y m" for y m
    using day days_bounds(1)[of y m] by simp_all
  have later: "cd_day dt < k + min (cd_day dt) (days_in_month y m)" if "31 \<le> k" for k y m using e(1)[of y m] day that by linarith
  note ok = assms[unfolded date_ok_def] e day
  show ?thesis
  proof (cases "interval = ''year''")
    case True
    show ?thesis by (rule that) (use next_year[OF assms] True in simp, use ok later[of 372] True in
        \<open>simp_all add: date_ok_def date_key_def\<close>)
  next
    case False
    let ?y = "cd_year dt + (if cd_month dt = 12 then 1 else 0)" and ?m = "if cd_month dt = 12 then 1 else cd_month dt + 1"
    have m: "1 \<le> ?m" "?m \<le> 12" "1 \<le> ?y" "?y \<le> 9999" "12 * ?y + ?m = 12 * cd_year dt + cd_month dt + 1" using ok(1,2) by auto
    have "372 * ?y + 31 * (?m - 1) = 372 * cd_year dt + 31 * (cd_month dt - 1) + 31" by simp
    then show ?thesis
      by (intro that[OF next_month[OF assms False]])
         (use m e[of ?y ?m] day False in \<open>simp_all only: date_ok_def date_key_def cal_date.simps if_False simp_thms\<close>, linarith?)
  qed
qed

fun periods :: "nat \<Rightarrow> cal_date \<Rightarrow> addon_error + cal_date" where
  "periods 0 dt = Inr dt"
| "periods (Suc n) dt = bind_result (next_date ''month'' dt) (periods n)"

lemma periods_months:
  assumes "date_ok dt" and "cd_day dt \<le> 28" and "12 * cd_year dt + cd_month dt + int n \<le> 12 * 9999 + 12"
  shows "\<exists>d. periods n dt = Inr d \<and> date_ok d \<and> cd_day d = cd_day dt \<and>
    12 * cd_year d + cd_month d = 12 * cd_year dt + cd_month dt + int n"
  using assms
proof (induction n arbitrary: dt)
  case (Suc n)
  show ?case
  proof (cases "cd_year dt < 9999")
    case True
    obtain d where d: "next_date ''month'' dt = Inr d" "date_ok d"
        "12 * cd_year d + cd_month d = 12 * cd_year dt + cd_month dt + 1"
        "cd_day d = min (cd_day dt) (days_in_month (cd_year d) (cd_month d))"
      using next_date_valid[OF Suc.prems(1) True, of "''month''"] by auto
    have "cd_day d = cd_day dt" using d(4) Suc.prems(2) days_bounds(1)[of "cd_year d" "cd_month d"] by simp
    then show ?thesis using Suc.IH[OF d(2)] Suc.prems(2,3) d(1,3) by force
  next
    case False
    then have y: "cd_year dt = 9999" "cd_month dt < 12" using Suc.prems(1,3) by (auto simp: date_ok_def)
    then have "next_date ''month'' dt = Inr \<lparr>cd_year = 9999, cd_month = cd_month dt + 1, cd_day = cd_day dt\<rparr>"
      using Suc.prems(1,2) month_step[of "cd_month dt"] days_bounds(1)[of 9999 "cd_month dt + 1"]
      by (auto simp: next_date_def make_date_def date_ok_def Let_def min_def)
    moreover have "date_ok \<lparr>cd_year = 9999, cd_month = cd_month dt + 1, cd_day = cd_day dt\<rparr>"
      using Suc.prems(1,2) y days_bounds(1)[of 9999 "cd_month dt + 1"] by (auto simp: date_ok_def)
    ultimately show ?thesis
      using Suc.IH[of "\<lparr>cd_year = 9999, cd_month = cd_month dt + 1, cd_day = cd_day dt\<rparr>"] Suc.prems(2,3) y by force
  qed
qed simp

lemma months_unique:
  "date_ok d \<Longrightarrow> date_ok e \<Longrightarrow> 12 * cd_year d + cd_month d = 12 * cd_year e + cd_month e \<Longrightarrow> cd_day d = cd_day e \<Longrightarrow> d = e"
proof -
  assume a: "date_ok d" "date_ok e" "12 * cd_year d + cd_month d = 12 * cd_year e + cd_month e" "cd_day d = cd_day e"
  have m: "1 \<le> cd_month d" "cd_month d \<le> 12" "1 \<le> cd_month e" "cd_month e \<le> 12" using a(1,2) by (simp_all add: date_ok_def)
  then have "cd_year d = cd_year e" using a(3) by linarith
  with a(3,4) show ?thesis by simp
qed

text \<open>
  C37: Billing dates advance. From every date before the year 9999 there is a next billing date: it
  exists in the calendar, it is later, it lies one month or one year further on, and on the same day
  or, where that month is shorter, on its last day. From a day that every month has, twelve monthly
  periods come to the same date as one yearly period.
\<close>

theorem billing_dates_advance:
  assumes "date_ok dt" and "cd_year dt < 9999"
  shows "(\<exists>d. next_date interval dt = Inr d \<and> date_ok d \<and> date_key dt < date_key d \<and>
      12 * cd_year d + cd_month d = 12 * cd_year dt + cd_month dt + (if interval = ''year'' then 12 else 1) \<and>
      cd_day d = min (cd_day dt) (days_in_month (cd_year d) (cd_month d))) \<and>
    (cd_day dt \<le> 28 \<longrightarrow> periods 12 dt = next_date ''year'' dt)"
proof -
  have "periods 12 dt = next_date ''year'' dt" if small: "cd_day dt \<le> 28"
  proof -
    obtain d where d: "periods 12 dt = Inr d" "date_ok d" "cd_day d = cd_day dt"
        "12 * cd_year d + cd_month d = 12 * cd_year dt + cd_month dt + 12"
      using periods_months[OF assms(1) small, of 12] assms by (auto simp: date_ok_def)
    obtain e where e: "next_date ''year'' dt = Inr e" "date_ok e"
        "12 * cd_year e + cd_month e = 12 * cd_year dt + cd_month dt + 12"
        "cd_day e = min (cd_day dt) (days_in_month (cd_year e) (cd_month e))"
      using next_date_valid[OF assms, of "''year''"] by auto
    have "cd_day e = cd_day dt" using e(4) small days_bounds(1)[of "cd_year e" "cd_month e"] by simp
    then show ?thesis using months_unique[OF d(2) e(2)] d e by simp
  qed
  then show ?thesis using next_date_valid[OF assms, of interval] by metis
qed

text \<open>From the end of January the day is lost for good.\<close>

lemma month_end_drifts:
  "periods 2 \<lparr>cd_year = 2026, cd_month = 1, cd_day = 31\<rparr> = Inr \<lparr>cd_year = 2026, cd_month = 3, cd_day = 28\<rparr>"
  by (simp add: numeral_2_eq_2 next_date_def make_date_def date_ok_def days_in_month_def leap_year_def Let_def)

theorem billing_dates_advance_witness:
  "periods 12 \<lparr>cd_year = 2026, cd_month = 1, cd_day = 15\<rparr> = next_date ''year'' \<lparr>cd_year = 2026, cd_month = 1, cd_day = 15\<rparr>"
  using billing_dates_advance[of "\<lparr>cd_year = 2026, cd_month = 1, cd_day = 15\<rparr>" "[]"]
  by (simp add: date_ok_def days_in_month_def)

section \<open>Dates as text\<close>

lemma four_digits: "1000 \<le> n \<Longrightarrow> n \<le> 9999 \<Longrightarrow> length (int_digits n) = 4"
  by (simp add: int_digits.simps[of n] int_digits.simps[of "n div 10"] int_digits.simps[of "n div 10 div 10"]
      int_digits.simps[of "n div 10 div 10 div 10"]) linarith

lemma two_digits: "1 \<le> n \<Longrightarrow> n \<le> 99 \<Longrightarrow> date_number [1, 2] (zero_pad 2 (int_digits n)) = Some n"
proof -
  assume n: "1 \<le> n" "n \<le> 99"
  have len: "length (int_digits n) = (if n < 10 then 1 else 2)"
    using n by (auto simp: int_digits.simps[of n] int_digits.simps[of "n div 10"])
  have digits: "list_all is_digit (int_digits n)" using digit_chars[of n] n by (auto simp: list_all_iff)
  have zero: "is_digit (CHR ''0'')" "digit_value (CHR ''0'') = 0" by (simp_all add: is_digit_def digit_value_def)
  have "read_digits (zero_pad 2 (int_digits n)) = read_digits (int_digits n)"
    using zero(2) len by (simp add: zero_pad_def read_digits_def)
  then show ?thesis using n len digits zero(1) read_int_digits[of n]
    by (simp add: date_number_def zero_pad_def)
qed

lemma date_number_year: "1000 \<le> n \<Longrightarrow> n \<le> 9999 \<Longrightarrow> date_number [4] (int_digits n) = Some n"
  using digit_chars[of n] by (auto simp: date_number_def four_digits read_int_digits list_all_iff)

text \<open>A billing date is read back as it was printed.\<close>

lemma date_roundtrip:
  assumes "date_ok d" and "1000 \<le> cd_year d"
  shows "read_date (clean_date (date_text d)) = Some d"
proof -
  have ds: "is_digit c" if "0 \<le> n" "c \<in> set (zero_pad w (int_digits n))" for c n w
    using that digit_chars[of n c] by (auto simp: zero_pad_def is_digit_def)
  have sep: "c \<notin> set (date_text d)" if "\<not> is_digit c" "c \<noteq> CHR ''-''" for c
    using that ds[of "cd_month d" c 2] ds[of "cd_day d" c 2] digit_chars[of "cd_year d" c] assms(1)
    by (auto simp: date_text_def date_ok_def)
  have "clean_date (date_text d) = date_text d"
    using sep[of "CHR ''T''"] sep[of "CHR '' ''"] by (simp add: clean_date_def split_at_char_none is_digit_def)
  moreover have "CHR ''-'' \<notin> set (int_digits (cd_year d))" "CHR ''-'' \<notin> set (zero_pad 2 (int_digits (cd_month d)))"
      "CHR ''-'' \<notin> set (zero_pad 2 (int_digits (cd_day d)))"
    using ds[of "cd_month d" "CHR ''-''" 2] ds[of "cd_day d" "CHR ''-''" 2] digit_chars[of "cd_year d" "CHR ''-''"] assms(1)
    by (auto simp: date_ok_def is_digit_def)
  then have "split_at_char (CHR ''-'') (date_text d) =
      [int_digits (cd_year d), zero_pad 2 (int_digits (cd_month d)), zero_pad 2 (int_digits (cd_day d))]"
    by (simp add: date_text_def split_at_char_part split_at_char_none)
  moreover have "cd_day d \<le> 99" "1 \<le> cd_day d" "cd_month d \<le> 99" "1 \<le> cd_month d" "cd_year d \<le> 9999"
    using assms(1) days_bounds(2)[of "cd_year d" "cd_month d"] by (auto simp: date_ok_def)
  ultimately show ?thesis using assms by (cases d) (simp add: read_date_def two_digits[simplified] date_number_year Let_def)
qed

section \<open>Renewals\<close>

text \<open>A mixed order is split into its recurring and its other lines, in their order.\<close>

lemma mixed_lines:
  "mset (mxo_one_time_lines (parse_mixed_order ls)) + mset (mxo_recurring_lines (parse_mixed_order ls)) = mset ls"
  "(mxo_billing_interval (parse_mixed_order ls) = None) = (mxo_recurring_lines (parse_mixed_order ls) = [])"
  by (simp_all add: parse_mixed_order_def Let_def billing_interval_def multiset_partition[symmetric] union_commute)

text \<open>
  A renewal invoices one period of an active subscription and moves its billing date one period on; the
  subscription is active afterwards and shows the new date.
\<close>

lemma renewal_outcome:
  assumes "trigger_subscription_renewal today i st = Inr (r, st')"
    and "map_of (acc_invoices (sub_accounting st)) (acc_next_invoice_id (sub_accounting st)) = None"
  shows "\<exists>s ord x. get_subscription_status today i st = Inr s \<and> map_of (sub_orders st) i = Some ord \<and> sst_active s \<and>
    0 \<le> sst_mrr s \<and> rnw_previous_date r = sst_renewal_date s \<and>
    add_billing_period today (sst_renewal_date s) (sst_interval s) = Inr (rnw_next_date r) \<and>
    acc_invoices (sub_accounting st') = acc_invoices (sub_accounting st) @ [(rnw_invoice_id r, x)] \<and>
    mi_is_recurring x \<and> mi_order_id x = Some i \<and> mi_deal_id x = mo_deal_id ord \<and>
    mi_amount_total x = Some (if sst_interval s = ''month'' then sst_mrr s else sst_arr s) \<and>
    map_of (sub_metadata st') i = Some (rnw_next_date r, True)"
  using assms update_absent[OF assms(2)]
  by (auto simp: trigger_subscription_renewal_def bind_result_Inr_iff check_renewal_def register_mock_invoice_def Let_def
      posted_invoice_def renewal_amount_def update_conv split: option.splits if_splits)

end
