(* ===== verification/Addon_Governance.thy ===== *)
theory Addon_Governance
  imports Addon_Order
begin

text \<open>
  Properties of the addon's orders: what a request can do to an order, who can make it approved, and what
  an edit of an approved order leads to.
\<close>

section \<open>Requests\<close>

text \<open>The methods that a user can call on an order; an error rolls the request back.\<close>

datatype order_request = Write_Order order_vals | Write_Line so_line line_vals | Lock_Order
  | Unlock_Order "unlock_actor option" | Evaluate_Order instant | Apply_Change instant approved_changes | Confirm_Order

fun request_result :: "orm \<Rightarrow> odoo_user \<Rightarrow> order_request \<Rightarrow> sale_order \<Rightarrow> addon_error + sale_order" where
  "request_result odoo u (Write_Order v) ord = order_write odoo u False v ord"
| "request_result odoo u (Write_Line l v) ord = line_write odoo u False v l ord"
| "request_result odoo u Lock_Order ord = action_dealflow_lock odoo u ord"
| "request_result odoo u (Unlock_Order who) ord = action_dealflow_unlock odoo u who ord"
| "request_result odoo u (Evaluate_Order now) ord = Inr (action_dealflow_evaluate_governance now ord)"
| "request_result odoo u (Apply_Change now c) ord = action_dealflow_apply_approved_change odoo u now c ord"
| "request_result odoo u Confirm_Order ord = action_confirm odoo u False ord"

definition after_request :: "orm \<Rightarrow> odoo_user \<Rightarrow> order_request \<Rightarrow> sale_order \<Rightarrow> sale_order" where
  "after_request odoo u r ord = (case request_result odoo u r ord of Inl e \<Rightarrow> ord | Inr ord' \<Rightarrow> ord')"

definition approves_order :: "order_request \<Rightarrow> bool" where
  "approves_order r = (case r of Write_Order v \<Rightarrow> ov_approval_state v = Some Approved_Approval
     | Apply_Change now c \<Rightarrow> True | _ \<Rightarrow> False)"

section \<open>What Odoo's methods do\<close>

lemma orm_plain: "orm_ok odoo \<Longrightarrow> ov_order_line v = None \<Longrightarrow> orm_write odoo v ord = Inr (set_fields v ord)"
  by (simp add: orm_ok_def)

lemma orm_approves:
  "orm_ok odoo \<Longrightarrow> orm_write odoo v ord = Inr ord' \<Longrightarrow> so_approval_state ord' = Approved_Approval \<Longrightarrow>
    ov_approval_state v = Some Approved_Approval \<or> so_approval_state ord = Approved_Approval"
  unfolding orm_ok_def by blast

lemma orm_line:
  assumes "orm_ok odoo" and "lv_product_id v = None"
  obtains ord' where "orm_write_line odoo v i ord = Inr ord'"
    and "map line_key (so_lines ord') = map (\<lambda>l. line_key (if sol_id l = i then set_line v l else l)) (so_lines ord)"
proof -
  have "\<forall>v i ord. lv_product_id v = None \<longrightarrow> (\<exists>ord'. orm_write_line odoo v i ord = Inr ord' \<and>
      map line_key (so_lines ord') = map (\<lambda>l. line_key (if sol_id l = i then set_line v l else l)) (so_lines ord))"
    using assms(1) unfolding orm_ok_def by (elim conjE) assumption
  then show ?thesis using assms(2) that by blast
qed

lemma orm_line_governance:
  "orm_ok odoo \<Longrightarrow> orm_write_line odoo v i ord = Inr ord' \<Longrightarrow> governance_of ord' = governance_of ord"
  unfolding orm_ok_def by blast

lemma orm_confirmed:
  "orm_ok odoo \<Longrightarrow> orm_confirm odoo ord = Inr ord' \<Longrightarrow> so_approval_state ord' = so_approval_state ord \<and>
    so_locked ord' = so_locked ord"
  unfolding orm_ok_def by blast

lemma revoke_plain [simp]:
  "ov_order_line revoke_vals = None" "ov_approval_state revoke_vals = Some Reapproval_Required"
  "so_approval_state (set_fields revoke_vals ord) = Reapproval_Required" "so_locked (set_fields revoke_vals ord)"
  by (simp_all add: revoke_vals_def no_vals_def set_fields_def)

lemma no_vals_simps [simp]:
  "ov_order_line no_vals = None" "ov_approval_state no_vals = None" "ov_locked no_vals = None"
  "ov_payment_term_id no_vals = None" "ov_note no_vals = None" "ov_terms_type no_vals = None"
  "ov_validity_date no_vals = None" "ov_pricelist_id no_vals = None"
  by (simp_all add: no_vals_def)

section \<open>Confirmation\<close>

lemma confirm_refused:
  "needs_approval ord \<Longrightarrow> so_approval_state ord \<noteq> Approved_Approval \<Longrightarrow> \<exists>e. action_confirm odoo u False ord = Inl e"
  by (simp add: action_confirm_def)

lemma confirm_guard:
  "action_confirm odoo u False ord = Inr ord' \<Longrightarrow>
    \<not> is_portal u \<and> (so_approval_state ord = Approved_Approval \<or>
      so_approval_state ord \<noteq> Rejected_Approval \<and> \<not> so_locked ord \<and> order_blended_discount ord \<le> DEFAULT_MAX_REP_DISCOUNT \<and>
      (\<forall>l\<in>set (priced_lines ord). sol_discount l \<le> min DEFAULT_MAX_REP_DISCOUNT (category_ceiling l)))"
  by (auto simp: action_confirm_def needs_approval_def exceeds_threshold_def has_category_breach_def list_ex_iff not_less
      split: if_splits)

section \<open>Edits of an approved order\<close>

lemma order_write_revokes:
  assumes "orm_ok odoo" and "order_write odoo u False v ord = Inr ord'" and "so_approval_state ord = Approved_Approval"
    and "terms_modified v \<or> lines_modified v"
  shows "so_approval_state ord' = Reapproval_Required \<and> so_locked ord'"
proof -
  obtain mid where "orm_write odoo v ord = Inr mid" and "orm_write odoo revoke_vals mid = Inr ord'"
    using assms(2-4) by (auto simp: order_write_def bind_result_Inr_iff split: if_splits)
  then show ?thesis using orm_plain[OF assms(1), of revoke_vals mid] by auto
qed

lemma line_write_revokes:
  assumes "orm_ok odoo" and "line_write odoo u False v l ord = Inr ord'" and "so_approval_state ord = Approved_Approval"
    and "line_revokes v l"
  shows "so_approval_state ord' = Reapproval_Required \<and> so_locked ord'"
proof -
  obtain mid where "order_write odoo u True revoke_vals mid = Inr ord'"
    using assms(2-4) by (auto simp: line_write_def bind_result_Inr_iff split: if_splits)
  then show ?thesis using orm_plain[OF assms(1), of revoke_vals mid] by (auto simp: order_write_def split: if_splits)
qed

text \<open>
  C21: An edit takes an approval back. When an order of Odoo is approved and a write changes its commercial
  terms, or adds, changes or removes lines with commands, or changes a line's price, its quantity or its
  discount away from the approved one, then no user can confirm the order afterwards: it is locked and
  waits for a new approval.
\<close>

theorem edit_blocks_confirmation:
  assumes "orm_ok odoo" and "so_approval_state ord = Approved_Approval"
    and "(\<exists>v. order_write odoo u False v ord = Inr ord' \<and> (terms_modified v \<or> lines_modified v)) \<or>
      (\<exists>v l. line_write odoo u False v l ord = Inr ord' \<and> line_revokes v l)"
  shows "so_approval_state ord' = Reapproval_Required \<and> so_locked ord' \<and>
    (\<forall>user. \<exists>e. action_confirm odoo user False ord' = Inl e)"
proof -
  have "so_approval_state ord' = Reapproval_Required \<and> so_locked ord'"
    using assms order_write_revokes line_write_revokes by blast
  then show ?thesis using confirm_refused by (simp add: needs_approval_def)
qed

section \<open>Approvals\<close>

lemma order_write_approves:
  assumes "orm_ok odoo" and "order_write odoo u skip v ord = Inr ord'" and "so_approval_state ord' = Approved_Approval"
    and "so_approval_state ord \<noteq> Approved_Approval"
  shows "ov_approval_state v = Some Approved_Approval \<and> \<not> approval_blocked u ord"
proof -
  have "orm_write odoo v ord = Inr ord'"
    using assms(2,4) by (auto simp: order_write_def bind_result_Inr_iff split: if_splits)
  then have "ov_approval_state v = Some Approved_Approval" using orm_approves assms(1,3,4) by blast
  then show ?thesis using assms(2) by (auto simp: order_write_def split: if_splits)
qed

lemma line_write_governance:
  "orm_ok odoo \<Longrightarrow> line_write odoo u True v l ord = Inr ord' \<Longrightarrow> governance_of ord' = governance_of ord"
  by (auto simp: line_write_def orm_line_governance split: if_splits)

lemma line_write_approval:
  assumes "orm_ok odoo" and "line_write odoo u False v l ord = Inr ord'"
  shows "so_approval_state ord' \<in> {so_approval_state ord, Reapproval_Required}"
proof -
  obtain mid where mid: "orm_write_line odoo v (sol_id l) ord = Inr mid"
      "ord' = mid \<or> order_write odoo u True revoke_vals mid = Inr ord'"
    using assms(2) by (auto simp: line_write_def bind_result_Inr_iff split: if_splits)
  have "so_approval_state mid = so_approval_state ord" using orm_line_governance[OF assms(1) mid(1)] by (simp add: governance_of_def)
  with mid(2) orm_plain[OF assms(1), of revoke_vals mid] show ?thesis by (auto simp: order_write_def split: if_splits)
qed

lemma approve_line_governance:
  "orm_ok odoo \<Longrightarrow> approve_line odoo u x ord = Inr ord' \<Longrightarrow> governance_of ord' = governance_of ord"
  by (auto simp: approve_line_def line_write_governance split: prod.splits option.splits)

lemma approve_lines_governance:
  "orm_ok odoo \<Longrightarrow> each_result (approve_line odoo u) xs ord = Inr ord' \<Longrightarrow> governance_of ord' = governance_of ord"
  by (rule each_result_invariant[where P = "\<lambda>x. governance_of x = governance_of ord" and f = "approve_line odoo u"])
     (auto dest: approve_line_governance)

lemma applied_change:
  assumes "orm_ok odoo" and "action_dealflow_apply_approved_change odoo u now c ord = Inr ord'"
  obtains mid where "each_result (approve_line odoo u) (discounts_to_set c ord) ord = Inr mid"
    and "governance_of mid = governance_of ord" and "\<not> approval_blocked u mid" and "ord' = set_fields (approved_vals now c) mid"
proof -
  have plain: "ov_order_line (approved_vals now c) = None" "ov_approval_state (approved_vals now c) = Some Approved_Approval"
    by (simp_all add: approved_vals_def)
  obtain mid where mid: "each_result (approve_line odoo u) (discounts_to_set c ord) ord = Inr mid"
      "order_write odoo u True (approved_vals now c) mid = Inr ord'"
    using assms(2) by (auto simp: action_dealflow_apply_approved_change_def bind_result_Inr_iff split: if_splits)
  show ?thesis
    by (rule that[OF mid(1) approve_lines_governance[OF assms(1) mid(1)]])
       (use mid(2) plain orm_plain[OF assms(1)] in \<open>auto simp: order_write_def split: if_splits\<close>)
qed

lemma blended_set_fields [simp]: "order_blended_discount (set_fields v ord) = order_blended_discount ord"
  by (simp add: order_blended_discount_def priced_lines_def set_fields_def Let_def)

lemma blocked_set_fields [simp]: "approval_blocked u (set_fields v ord) = approval_blocked u ord"
  by (simp add: approval_blocked_def)

text \<open>A write is judged by the order before it, an applied change by the order it leads to.\<close>

definition judged_order :: "order_request \<Rightarrow> sale_order \<Rightarrow> sale_order \<Rightarrow> sale_order" where
  "judged_order r ord ord' = (case r of Write_Order v \<Rightarrow> ord | _ \<Rightarrow> ord')"

lemma request_approves:
  assumes "orm_ok odoo" and "request_result odoo u r ord = Inr ord'" and "so_approval_state ord' = Approved_Approval"
    and "so_approval_state ord \<noteq> Approved_Approval"
  shows "approves_order r \<and> \<not> approval_blocked u (judged_order r ord ord')"
proof -
  note writes = order_write_approves[OF assms(1) _ assms(3,4)]
  show ?thesis
  proof (cases r)
    case (Write_Order v)
    then have "order_write odoo u False v ord = Inr ord'" using assms(2) by simp
    with writes[OF this] Write_Order show ?thesis by (simp add: approves_order_def judged_order_def)
  next
    case (Write_Line l v)
    then show ?thesis using assms(2-4) line_write_approval[OF assms(1)] by fastforce
  next
    case Lock_Order
    then have "order_write odoo u False (no_vals\<lparr>ov_locked := Some True\<rparr>) ord = Inr ord'"
      using assms(2) by (simp add: action_dealflow_lock_def)
    with writes[OF this] show ?thesis by simp
  next
    case (Unlock_Order who)
    then have "order_write odoo u False (no_vals\<lparr>ov_locked := Some False\<rparr>) ord = Inr ord'"
      using assms(2) by (simp add: action_dealflow_unlock_def split: if_splits)
    with writes[OF this] show ?thesis by simp
  next
    case (Evaluate_Order now)
    then show ?thesis using assms by (auto simp: action_dealflow_evaluate_governance_def)
  next
    case (Apply_Change now c)
    then have "action_dealflow_apply_approved_change odoo u now c ord = Inr ord'" using assms(2) by simp
    with Apply_Change show ?thesis
      by (elim applied_change[OF assms(1)]) (simp add: approves_order_def judged_order_def)
  next
    case Confirm_Order
    then show ?thesis using assms orm_confirmed by (auto simp: action_confirm_def split: if_splits)
  qed
qed

text \<open>The request of a user that approved an order, and what the user may be.\<close>

definition approving_request :: "orm \<Rightarrow> sale_order \<Rightarrow> odoo_user \<Rightarrow> order_request \<Rightarrow> sale_order \<Rightarrow> bool" where
  "approving_request odoo ord u r ord' =
     (so_approval_state ord \<noteq> Approved_Approval \<and> request_result odoo u r ord = Inr ord' \<and>
      so_approval_state ord' = Approved_Approval \<and> approves_order r \<and>
      has_group u Base_User \<and> \<not> has_group u Base_Portal \<and>
      (has_group u Group_Sales_Rep \<longrightarrow> is_finance_or_admin u \<or>
        order_blended_discount (judged_order r ord ord') \<le> DEFAULT_FINANCE_DISCOUNT_THRESHOLD))"

lemma approving_requestI:
  assumes "orm_ok odoo" and "so_approval_state ord \<noteq> Approved_Approval"
    and "so_approval_state (after_request odoo u r ord) = Approved_Approval"
  obtains ord' where "approving_request odoo ord u r ord'"
proof -
  obtain ord' where o: "request_result odoo u r ord = Inr ord'" "so_approval_state ord' = Approved_Approval"
    using assms(2,3) by (auto simp: after_request_def split: sum.splits)
  show ?thesis
    by (rule that[of ord']) (use request_approves[OF assms(1) o assms(2)] o assms(2) in
      \<open>auto simp: approving_request_def approval_blocked_def is_portal_def\<close>)
qed

text \<open>
  C7: An approval in Odoo has an approver. Whatever requests the users send to an order that is not
  approved, if it is approved in the end, then one of the requests approved it: a write of the state or an
  applied change. It was sent by an internal user, never from the portal, and a sales representative
  who is neither of finance nor an administrator, a sales manager included, sent it for an order whose
  blended discount did not exceed 20%.
\<close>

theorem addon_approval_has_approver:
  assumes "orm_ok odoo" and "so_approval_state ord \<noteq> Approved_Approval"
    and "so_approval_state (fold (\<lambda>(u, r). after_request odoo u r) rs ord) = Approved_Approval"
  shows "\<exists>earlier u r later ord'. rs = earlier @ (u, r) # later \<and>
    approving_request odoo (fold (\<lambda>(u, r). after_request odoo u r) earlier ord) u r ord'"
  using assms(2,3)
proof (induction rs arbitrary: ord)
  case (Cons x rs)
  obtain u r where x: "x = (u, r)" by (cases x)
  show ?case
  proof (cases "so_approval_state (after_request odoo u r ord) = Approved_Approval")
    case True
    from approving_requestI[OF assms(1) Cons.prems(1) True] show ?thesis
      by (metis append_Nil fold_simps(1) x)
  next
    case False
    have "so_approval_state (fold (\<lambda>(u, r). after_request odoo u r) rs (after_request odoo u r ord)) = Approved_Approval"
      using Cons.prems(2) x by simp
    from Cons.IH[OF False this] obtain earlier v q later ord' where "rs = earlier @ (v, q) # later"
      "approving_request odoo (fold (\<lambda>(u, r). after_request odoo u r) earlier (after_request odoo u r ord)) v q ord'" by blast
    with x have "x # rs = (x # earlier) @ (v, q) # later"
      "approving_request odoo (fold (\<lambda>(u, r). after_request odoo u r) (x # earlier) ord) v q ord'" by simp_all
    then show ?thesis by blast
  qed
qed simp

section \<open>A small order\<close>

text \<open>A platform that does what \<open>orm_ok\<close> asks for, and an order of one line with a discount of 12.5%.\<close>

definition plain_orm :: orm where
  "plain_orm = \<lparr>orm_write = (\<lambda>v ord. Inr (set_fields v ord)),
     orm_write_line = (\<lambda>v i ord. Inr (ord\<lparr>so_lines := map (\<lambda>l. if sol_id l = i then set_line v l else l) (so_lines ord)\<rparr>)),
     orm_confirm = (\<lambda>ord. Inr (ord\<lparr>so_state := ''sale''\<rparr>))\<rparr>"

lemma plain_orm_ok: "orm_ok plain_orm"
proof -
  have "so_approval_state (set_fields v ord) = Approved_Approval \<Longrightarrow>
      ov_approval_state v = Some Approved_Approval \<or> so_approval_state ord = Approved_Approval" for v ord
    by (cases "ov_approval_state v") (simp_all add: set_fields_def)
  then show ?thesis by (auto simp: orm_ok_def plain_orm_def governance_of_def)
qed

definition acme_partner :: odoo_partner where
  "acme_partner = \<lparr>op_id = 7, op_name = ''Acme'', op_email = None, op_phone = None, op_credit_limit = 0,
     op_total_invoiced = 0, op_is_company = True, op_street = None, op_city = None, op_country = None,
     op_commercial_id = None, op_child_ids = []\<rparr>"

definition addon_user :: "odoo_group list \<Rightarrow> odoo_user" where
  "addon_user gs = \<lparr>ou_id = 2, ou_partner = acme_partner\<lparr>op_id := 3\<rparr>, ou_groups = gs, ou_is_superuser = False\<rparr>"

definition laptop_line :: so_line where
  "laptop_line = \<lparr>sol_id = 11, sol_name = ''Laptop'', sol_is_section = False, sol_product = Some (101, ''Laptop''),
     sol_category = Some ''Hardware'', sol_standard_price = 600, sol_purchase_price = None, sol_product_uom_qty = 1,
     sol_price_unit = 1000, sol_discount = 25 / 2, sol_price_subtotal = 875, sol_approved_discount = 0,
     sol_is_recurring = False, sol_recurring_interval = None\<rparr>"

definition laptop_order :: "approval_state_tag \<Rightarrow> sale_order" where
  "laptop_order st = \<lparr>so_id = 5, so_name = ''S5'', so_partner = acme_partner, so_state = ''draft'', so_date_order = None,
     so_currency = None, so_amount_untaxed = 875, so_amount_tax = 0, so_amount_total = 875, so_lines = [laptop_line],
     so_terms_of = \<lparr>tm_payment_term_id = None, tm_note = [], tm_terms_type = [], tm_validity_date = [], tm_pricelist_id = None\<rparr>,
     so_deal_id = None, so_risk_score = 0, so_approval_state = st, so_health_status = Healthy_Deal,
     so_last_evaluated_at = None, so_locked = False\<rparr>"

lemma plain_orm_simps [simp]:
  "orm_write plain_orm v ord = Inr (set_fields v ord)" "orm_confirm plain_orm ord = Inr (ord\<lparr>so_state := ''sale''\<rparr>)"
  by (simp_all add: plain_orm_def)

lemma laptop_order_simps [simp]:
  "so_approval_state (laptop_order st) = st" "\<not> so_locked (laptop_order st)"
  by (simp_all add: laptop_order_def)

lemma round_half_even_numeral [simp]: "round_half_even (numeral n) = numeral n"
  using round_half_even_of_int[of "numeral n"] by simp

lemma laptop_blended: "order_blended_discount (laptop_order st) = 25 / 2"
  by (simp add: order_blended_discount_def priced_lines_def laptop_order_def laptop_line_def line_gross_def
      line_discount_amount_def fsum_def fmul_def fdiv_def fadd_def fl64_eval fround_def pyround_def)

definition approve_vals :: order_vals where
  "approve_vals = no_vals\<lparr>ov_approval_state := Some Approved_Approval, ov_locked := Some False\<rparr>"

lemma approve_vals_simps [simp]:
  "ov_order_line approve_vals = None" "ov_approval_state approve_vals = Some Approved_Approval"
  "so_approval_state (set_fields approve_vals ord) = Approved_Approval" "\<not> lines_modified approve_vals"
  "\<not> terms_modified approve_vals"
  by (simp_all add: approve_vals_def set_fields_def lines_modified_def terms_modified_def)

lemma sales_rep [simp]:
  "\<not> is_portal (addon_user [Group_Sales_Rep])" "\<not> is_manager (addon_user [Group_Sales_Rep])"
  "has_group (addon_user [Group_Sales_Rep]) Group_Sales_Rep" "\<not> is_finance_or_admin (addon_user [Group_Sales_Rep])"
  by (simp_all add: is_portal_def is_manager_def is_finance_or_admin_def has_group_def addon_user_def)

lemma rep_writes_approval:
  "order_write plain_orm (addon_user [Group_Sales_Rep]) False approve_vals (laptop_order Draft_Approval) =
     Inr (set_fields approve_vals (laptop_order Draft_Approval))"
  by (simp add: order_write_def approval_blocked_def laptop_blended DEFAULT_FINANCE_DISCOUNT_THRESHOLD_def)

text \<open>
  The policy asks a manager for a discount between 10% and 20%; nothing asks one when the order is approved:
  the representative who may not confirm the order approves it with a write and confirms it.
\<close>

theorem rep_approves_own_discount:
  "\<exists>e ord1 ord2. DEFAULT_MAX_REP_DISCOUNT < order_blended_discount (laptop_order Draft_Approval) \<and>
    \<not> is_manager (addon_user [Group_Sales_Rep]) \<and>
    action_confirm plain_orm (addon_user [Group_Sales_Rep]) False (laptop_order Draft_Approval) = Inl e \<and>
    order_write plain_orm (addon_user [Group_Sales_Rep]) False approve_vals (laptop_order Draft_Approval) = Inr ord1 \<and>
    action_confirm plain_orm (addon_user [Group_Sales_Rep]) False ord1 = Inr ord2 \<and> so_state ord2 = ''sale''"
  by (simp add: rep_writes_approval action_confirm_def needs_approval_def exceeds_threshold_def laptop_blended
      DEFAULT_MAX_REP_DISCOUNT_def)

text \<open>An internal user without any role of DealFlow may approve whatever the discount.\<close>

theorem roleless_user_approves_anything: "\<not> approval_blocked (addon_user [Base_User]) ord"
  by (simp add: approval_blocked_def is_portal_def has_group_def addon_user_def)

theorem edit_blocks_confirmation_witness:
  "\<exists>ord e. order_write plain_orm (addon_user [Group_Sales_Rep]) False (no_vals\<lparr>ov_note := Some ''n''\<rparr>)
      (laptop_order Approved_Approval) = Inr ord \<and> action_confirm plain_orm (addon_user [Group_Admin]) False ord = Inl e"
proof -
  let ?v = "no_vals\<lparr>ov_note := Some ''n''\<rparr>"
  have m: "terms_modified ?v" by (simp add: terms_modified_def)
  then obtain ord where o: "order_write plain_orm (addon_user [Group_Sales_Rep]) False ?v (laptop_order Approved_Approval) = Inr ord"
    by (simp add: order_write_def)
  have "\<forall>user. \<exists>e. action_confirm plain_orm user False ord = Inl e"
    using edit_blocks_confirmation[OF plain_orm_ok _ disjI1, of "laptop_order Approved_Approval"] o m by force
  with o show ?thesis by blast
qed

theorem addon_approval_has_approver_witness:
  "\<exists>earlier u r later ord. [(addon_user [Group_Sales_Rep], Write_Order approve_vals)] = earlier @ (u, r) # later \<and>
    approving_request plain_orm (fold (\<lambda>(u, r). after_request plain_orm u r) earlier (laptop_order Draft_Approval)) u r ord"
  by (intro addon_approval_has_approver plain_orm_ok) (simp_all add: after_request_def rep_writes_approval)

end
