(* ===== verification/Addon_Negotiation.thy ===== *)
theory Addon_Negotiation
  imports Addon_Governance
begin

text \<open>
  The addon's negotiations, \<^verbatim>\<open>dealflow_odoo/models/dealflow_negotiation.py\<close>: a customer asks for a discount
  on a quotation, the request locks it, and an internal user reviews, approves or rejects the request. A
  record of this model is what was written to it. The writes on the order go through \<open>order_write\<close>; an
  exception of theirs is caught and only logged, and so is one of the chatter, which is not modelled. The
  elevated rights of \<^verbatim>\<open>sudo\<close> do not change the user that the guards see.
\<close>

section \<open>State\<close>

record addon_negotiation =
  an_id :: odoo_id
  an_name :: string
  an_order_id :: odoo_id
  an_requested_discount :: rat
  an_requested_terms :: "string option"
  an_customer_note :: "string option"
  an_status :: negotiation_tag
  an_original_amount :: rat
  an_proposed_amount :: rat
  an_submitted_at :: instant
  an_reviewed_by :: "odoo_id option"
  an_review_note :: "string option"

record addon_world =
  aw_orders :: "sale_order list"
  aw_negotiations :: "addon_negotiation list"
  aw_next_id :: odoo_id

definition addon_order :: "odoo_id \<Rightarrow> addon_world \<Rightarrow> sale_order option" where
  "addon_order i w = find (\<lambda>ord. so_id ord = i) (aw_orders w)"

definition put_order :: "sale_order \<Rightarrow> addon_world \<Rightarrow> addon_world" where
  "put_order ord w = w\<lparr>aw_orders := map (\<lambda>x. if so_id x = so_id ord then ord else x) (aw_orders w)\<rparr>"

definition negotiation_of :: "odoo_id \<Rightarrow> addon_world \<Rightarrow> addon_negotiation option" where
  "negotiation_of i w = find (\<lambda>n. an_id n = i) (aw_negotiations w)"

definition put_negotiation :: "addon_negotiation \<Rightarrow> addon_world \<Rightarrow> addon_world" where
  "put_negotiation n w = w\<lparr>aw_negotiations := map (\<lambda>x. if an_id x = an_id n then n else x) (aw_negotiations w)\<rparr>"

text \<open>A write on the order of a negotiation whose failure is only logged.\<close>

definition write_quietly :: "orm \<Rightarrow> odoo_user \<Rightarrow> order_vals \<Rightarrow> odoo_id \<Rightarrow> addon_world \<Rightarrow> addon_world" where
  "write_quietly odoo u v i w = (case addon_order i w of None \<Rightarrow> w
     | Some ord \<Rightarrow> (case order_write odoo u False v ord of Inl e \<Rightarrow> w | Inr ord' \<Rightarrow> put_order ord' w))"

section \<open>Creation\<close>

record negotiation_create =
  nc_sale_order_id :: "odoo_id option"
  nc_name :: "string option"
  nc_requested_discount :: "rat option"
  nc_requested_terms :: "string option"
  nc_customer_note :: "string option"
  nc_original_amount :: "rat option"
  nc_proposed_amount :: "rat option"
  nc_status :: "negotiation_tag option"

text \<open>A customer negotiates on an order of their own, of their company, or of a contact of either.\<close>

definition owns_order :: "odoo_partner \<Rightarrow> odoo_partner \<Rightarrow> bool" where
  "owns_order mine theirs =
     (op_id mine = op_id theirs \<or>
      (op_commercial_id mine \<noteq> None \<and> op_commercial_id theirs \<noteq> None \<and> op_commercial_id mine = op_commercial_id theirs) \<or>
      op_id mine \<in> set (op_child_ids theirs) \<or> op_id theirs \<in> set (op_child_ids mine))"

definition is_portal_customer :: "odoo_user \<Rightarrow> bool" where
  "is_portal_customer u = (has_group u Base_Portal \<or> has_group u Group_Portal)"

text \<open>\<open>sequence\<close> is what the sequence of negotiations gives, \<open>stamp\<close> the current time as digits.\<close>

definition negotiation_name :: "string option \<Rightarrow> string \<Rightarrow> sale_order \<Rightarrow> negotiation_create \<Rightarrow> string" where
  "negotiation_name sequence stamp ord v =
     (if keep (nc_name v) ''New'' = ''New''
      then str_or sequence (''NEG-'' @ str_or (Some (so_name ord)) ''ORDER'' @ ''-'' @ stamp) else keep (nc_name v) ''New'')"

definition original_amount :: "sale_order \<Rightarrow> negotiation_create \<Rightarrow> rat" where
  "original_amount ord v = num_or (nc_original_amount v) (so_amount_total ord)"

definition proposed_amount :: "sale_order \<Rightarrow> negotiation_create \<Rightarrow> rat" where
  "proposed_amount ord v =
     (if num_or (nc_proposed_amount v) 0 = 0
      then (case nc_requested_discount v of None \<Rightarrow> num_or (nc_proposed_amount v) 0
        | Some d \<Rightarrow> fmul (original_amount ord v) (max 0 (fsub 1 (fdiv d 100))))
      else num_or (nc_proposed_amount v) 0)"

definition prepare_negotiation ::
    "odoo_user \<Rightarrow> string option \<Rightarrow> string \<Rightarrow> instant \<Rightarrow> negotiation_create \<Rightarrow> addon_world \<Rightarrow> addon_error + addon_negotiation" where
  "prepare_negotiation u sequence stamp now v w =
     (case id_or (nc_sale_order_id v) None of None \<Rightarrow> Inl Odoo_Validation_Error
      | Some i \<Rightarrow> (case addon_order i w of None \<Rightarrow> Inl Odoo_Validation_Error
         | Some ord \<Rightarrow>
             if is_portal_customer u \<and> \<not> owns_order (ou_partner u) (so_partner ord) then Inl Odoo_Access_Error
             else Inr \<lparr>an_id = aw_next_id w, an_name = negotiation_name sequence stamp ord v, an_order_id = i,
               an_requested_discount = keep (nc_requested_discount v) 0, an_requested_terms = nc_requested_terms v,
               an_customer_note = nc_customer_note v, an_status = keep (nc_status v) Submitted_Negotiation,
               an_original_amount = original_amount ord v, an_proposed_amount = proposed_amount ord v,
               an_submitted_at = now, an_reviewed_by = None, an_review_note = None\<rparr>))"

text \<open>The constraint of the model.\<close>

definition check_requested_discount :: "addon_negotiation \<Rightarrow> addon_error + addon_negotiation" where
  "check_requested_discount n = (if discount_ok (an_requested_discount n) then Inr n else Inl Odoo_Validation_Error)"

definition pending_vals :: order_vals where
  "pending_vals = no_vals\<lparr>ov_approval_state := Some Pending_Approval, ov_locked := Some True\<rparr>"

definition create_negotiation ::
    "orm \<Rightarrow> odoo_user \<Rightarrow> string option \<Rightarrow> string \<Rightarrow> instant \<Rightarrow> negotiation_create \<Rightarrow> addon_world \<Rightarrow> addon_error + addon_world" where
  "create_negotiation odoo u sequence stamp now v w =
     bind_result (prepare_negotiation u sequence stamp now v w) (\<lambda>n.
     bind_result (check_requested_discount n) (\<lambda>n.
     Inr (write_quietly odoo u pending_vals (an_order_id n)
       (w\<lparr>aw_negotiations := aw_negotiations w @ [n], aw_next_id := aw_next_id w + 1\<rparr>))))"

section \<open>Writing\<close>

record negotiation_vals =
  nv_status :: "negotiation_tag option"
  nv_reviewed_by :: "odoo_id option"
  nv_review_note :: "string option"
  nv_requested_discount :: "rat option"
  nv_original_amount :: "rat option"
  nv_proposed_amount :: "rat option"
  nv_sale_order_id :: "odoo_id option"

definition set_negotiation :: "negotiation_vals \<Rightarrow> addon_negotiation \<Rightarrow> addon_negotiation" where
  "set_negotiation v n = n\<lparr>an_status := keep (nv_status v) (an_status n),
     an_reviewed_by := (if nv_reviewed_by v = None then an_reviewed_by n else nv_reviewed_by v),
     an_review_note := (if nv_review_note v = None then an_review_note n else nv_review_note v),
     an_requested_discount := keep (nv_requested_discount v) (an_requested_discount n),
     an_original_amount := keep (nv_original_amount v) (an_original_amount n),
     an_proposed_amount := keep (nv_proposed_amount v) (an_proposed_amount n),
     an_order_id := keep (nv_sale_order_id v) (an_order_id n)\<rparr>"

definition status_blocked :: "odoo_user \<Rightarrow> negotiation_tag \<Rightarrow> addon_negotiation \<Rightarrow> bool" where
  "status_blocked u st n = (is_portal u \<or>
     st = Approved_Negotiation \<and> (\<not> is_manager u \<or>
       DEFAULT_FINANCE_DISCOUNT_THRESHOLD < an_requested_discount n \<and> \<not> is_finance_or_admin u))"

definition changes_terms :: "negotiation_vals \<Rightarrow> bool" where
  "changes_terms v = (nv_requested_discount v \<noteq> None \<or> nv_original_amount v \<noteq> None \<or> nv_proposed_amount v \<noteq> None \<or>
     nv_sale_order_id v \<noteq> None)"

definition negotiation_write :: "odoo_user \<Rightarrow> negotiation_vals \<Rightarrow> addon_negotiation \<Rightarrow> addon_error + addon_negotiation" where
  "negotiation_write u v n =
     (if (case nv_status v of None \<Rightarrow> False | Some st \<Rightarrow> status_blocked u st n) then Inl Odoo_Access_Error
      else if changes_terms v \<and> an_status n \<in> {Approved_Negotiation, Rejected_Negotiation} then Inl Odoo_Validation_Error
      else check_requested_discount (set_negotiation v n))"

section \<open>Review\<close>

definition review_vals :: "odoo_user \<Rightarrow> negotiation_tag \<Rightarrow> string option \<Rightarrow> negotiation_vals" where
  "review_vals u st text = \<lparr>nv_status = Some st, nv_reviewed_by = Some (ou_id u),
     nv_review_note = (if str_or text [] = [] then None else text), nv_requested_discount = None,
     nv_original_amount = None, nv_proposed_amount = None, nv_sale_order_id = None\<rparr>"

definition on_negotiation ::
    "odoo_id \<Rightarrow> addon_world \<Rightarrow> (addon_negotiation \<Rightarrow> addon_error + addon_world) \<Rightarrow> addon_error + addon_world" where
  "on_negotiation i w f = (case negotiation_of i w of None \<Rightarrow> Inl Odoo_Missing_Error | Some n \<Rightarrow> f n)"

definition write_negotiation :: "odoo_user \<Rightarrow> negotiation_vals \<Rightarrow> odoo_id \<Rightarrow> addon_world \<Rightarrow> addon_error + addon_world" where
  "write_negotiation u v i w = on_negotiation i w (\<lambda>n.
     bind_result (negotiation_write u v n) (\<lambda>n'. Inr (put_negotiation n' w)))"

definition action_under_review :: "odoo_user \<Rightarrow> odoo_id \<Rightarrow> addon_world \<Rightarrow> addon_error + addon_world" where
  "action_under_review u i w = write_negotiation u (review_vals u Under_Review None) i w"

definition unlock_vals :: order_vals where
  "unlock_vals = no_vals\<lparr>ov_locked := Some False, ov_approval_state := Some Approved_Approval\<rparr>"

definition reject_vals :: order_vals where
  "reject_vals = no_vals\<lparr>ov_locked := Some True, ov_approval_state := Some Rejected_Approval\<rparr>"

definition action_approve ::
    "orm \<Rightarrow> odoo_user \<Rightarrow> string option \<Rightarrow> odoo_id \<Rightarrow> addon_world \<Rightarrow> addon_error + addon_world" where
  "action_approve odoo u text i w =
     (if is_portal u then Inl Odoo_Access_Error
      else on_negotiation i w (\<lambda>n.
        if DEFAULT_FINANCE_DISCOUNT_THRESHOLD < an_requested_discount n \<and> \<not> is_finance_or_admin u
        then Inl Odoo_Access_Error
        else bind_result (write_negotiation u (review_vals u Approved_Negotiation text) i w) (\<lambda>w'.
          Inr (write_quietly odoo u unlock_vals (an_order_id n) w'))))"

definition action_reject ::
    "orm \<Rightarrow> odoo_user \<Rightarrow> string option \<Rightarrow> odoo_id \<Rightarrow> addon_world \<Rightarrow> addon_error + addon_world" where
  "action_reject odoo u text i w = on_negotiation i w (\<lambda>n.
     bind_result (write_negotiation u (review_vals u Rejected_Negotiation text) i w) (\<lambda>w'.
       Inr (write_quietly odoo u reject_vals (an_order_id n) w')))"

section \<open>Lookups\<close>

lemma find_mapped:
  "find (\<lambda>x. f x = i) (map (\<lambda>x. if f x = f y then y else x) xs) =
     (if i = f y then map_option (\<lambda>_. y) (find (\<lambda>x. f x = i) xs) else find (\<lambda>x. f x = i) xs)"
  by (induction xs) auto

lemma put_order_lookup:
  "addon_order i (put_order ord w) = (if i = so_id ord then map_option (\<lambda>_. ord) (addon_order i w) else addon_order i w)"
  by (simp add: addon_order_def put_order_def find_mapped)

lemma put_negotiation_lookup:
  "negotiation_of i (put_negotiation n w) =
     (if i = an_id n then map_option (\<lambda>_. n) (negotiation_of i w) else negotiation_of i w)"
  by (simp add: negotiation_of_def put_negotiation_def find_mapped)

lemma put_frames [simp]:
  "addon_order i (put_negotiation n w) = addon_order i w" "aw_negotiations (put_order ord w) = aw_negotiations w"
  "negotiation_of i (put_order ord w) = negotiation_of i w"
  by (simp_all add: addon_order_def put_negotiation_def put_order_def negotiation_of_def)

lemma addon_order_id: "addon_order i w = Some ord \<Longrightarrow> so_id ord = i"
  by (auto simp: addon_order_def find_Some_iff)

lemma negotiation_of_id: "negotiation_of i w = Some n \<Longrightarrow> an_id n = i"
  by (auto simp: negotiation_of_def find_Some_iff)

lemma write_quietly_frame [simp]: "negotiation_of j (write_quietly odoo u v i w) = negotiation_of j w"
  by (simp add: write_quietly_def split: option.splits sum.splits)

section \<open>The order of a negotiation\<close>

lemma vals_plain [simp]:
  "ov_order_line pending_vals = None" "ov_approval_state pending_vals = Some Pending_Approval"
  "ov_order_line unlock_vals = None" "ov_approval_state unlock_vals = Some Approved_Approval"
  "ov_order_line reject_vals = None" "ov_approval_state reject_vals = Some Rejected_Approval"
  "\<not> terms_modified pending_vals" "\<not> terms_modified unlock_vals" "\<not> terms_modified reject_vals"
  by (simp_all add: pending_vals_def unlock_vals_def reject_vals_def terms_modified_def)

lemma lines_kept [simp]: "ov_order_line v = None \<Longrightarrow> \<not> lines_modified v"
  by (simp add: lines_modified_def)

lemma fields_set [simp]:
  "so_id (set_fields v ord) = so_id ord" "so_lines (set_fields v ord) = so_lines ord"
  "so_state (set_fields v ord) = so_state ord" "so_partner (set_fields v ord) = so_partner ord"
  "so_approval_state (set_fields pending_vals ord) = Pending_Approval" "so_locked (set_fields pending_vals ord)"
  "so_approval_state (set_fields unlock_vals ord) = Approved_Approval" "\<not> so_locked (set_fields unlock_vals ord)"
  "so_approval_state (set_fields reject_vals ord) = Rejected_Approval" "so_locked (set_fields reject_vals ord)"
  by (simp_all add: set_fields_def pending_vals_def unlock_vals_def reject_vals_def)

text \<open>A plain write on an order fails only for its approval.\<close>

lemma plain_write:
  "orm_ok odoo \<Longrightarrow> ov_order_line v = None \<Longrightarrow> \<not> terms_modified v \<Longrightarrow>
    order_write odoo u skip v ord =
      (if ov_approval_state v = Some Approved_Approval \<and> approval_blocked u ord then Inl Odoo_Access_Error
       else Inr (set_fields v ord))"
  by (auto simp: order_write_def orm_plain)

lemma quiet_write_order:
  assumes "orm_ok odoo" and "ov_order_line v = None" and "\<not> terms_modified v"
  shows "addon_order j (write_quietly odoo u v i w) =
    (if j = i then map_option (\<lambda>ord. if ov_approval_state v = Some Approved_Approval \<and> approval_blocked u ord then ord
        else set_fields v ord) (addon_order i w) else addon_order j w)"
  using plain_write[OF assms]
  by (auto simp: write_quietly_def put_order_lookup addon_order_id split: option.splits)

lemma reviewed:
  assumes "write_negotiation u v i w = Inr w'"
  obtains n where "negotiation_of i w = Some n" and "negotiation_write u v n = Inr (set_negotiation v n)"
    and "w' = put_negotiation (set_negotiation v n) w" and "discount_ok (an_requested_discount (set_negotiation v n))"
  using assms that
  by (auto simp: write_negotiation_def on_negotiation_def bind_result_Inr_iff negotiation_write_def check_requested_discount_def
      split: option.splits if_splits)

lemma set_review [simp]:
  "an_status (set_negotiation (review_vals u st text) n) = st" "an_id (set_negotiation v n) = an_id n"
  "an_reviewed_by (set_negotiation (review_vals u st text) n) = Some (ou_id u)"
  "an_requested_discount (set_negotiation (review_vals u st text) n) = an_requested_discount n"
  "an_order_id (set_negotiation (review_vals u st text) n) = an_order_id n"
  by (simp_all add: set_negotiation_def review_vals_def)

lemma review_allowed:
  "negotiation_write u (review_vals u st text) n = Inr n' \<Longrightarrow> \<not> status_blocked u st n"
  by (auto simp: negotiation_write_def review_vals_def split: if_splits)

lemma put_orders [simp]: "aw_orders (put_negotiation n w) = aw_orders w"
  by (simp add: put_negotiation_def)

text \<open>What a creation that succeeds finds and leaves.\<close>

lemma created_negotiation:
  assumes "orm_ok odoo" and "create_negotiation odoo u sequence stamp now v w = Inr w'"
  obtains n i ord where "prepare_negotiation u sequence stamp now v w = Inr n" and "discount_ok (an_requested_discount n)"
    and "nc_sale_order_id v = Some i" and "addon_order i w = Some ord" and "an_order_id n = i"
    and "is_portal_customer u \<longrightarrow> owns_order (ou_partner u) (so_partner ord)"
    and "aw_negotiations w' = aw_negotiations w @ [n]" and "addon_order i w' = Some (set_fields pending_vals ord)"
    and "\<And>j. j \<noteq> i \<Longrightarrow> addon_order j w' = addon_order j w"
proof -
  obtain n where n: "prepare_negotiation u sequence stamp now v w = Inr n" "discount_ok (an_requested_discount n)"
    and w': "w' = write_quietly odoo u pending_vals (an_order_id n)
      (w\<lparr>aw_negotiations := aw_negotiations w @ [n], aw_next_id := aw_next_id w + 1\<rparr>)"
    using assms(2) by (auto simp: create_negotiation_def bind_result_Inr_iff check_requested_discount_def split: if_splits)
  obtain i ord where o: "nc_sale_order_id v = Some i" "addon_order i w = Some ord" "an_order_id n = i"
      "is_portal_customer u \<longrightarrow> owns_order (ou_partner u) (so_partner ord)"
    using n(1) by (auto simp: prepare_negotiation_def id_or_def split: option.splits if_splits)
  let ?w = "w\<lparr>aw_negotiations := aw_negotiations w @ [n], aw_next_id := aw_next_id w + 1\<rparr>"
  have frame: "addon_order j ?w = addon_order j w" for j by (simp add: addon_order_def)
  have orders: "addon_order j w' = (if j = i then Some (set_fields pending_vals ord) else addon_order j w)" for j
    unfolding w' o(3) using o(2) by (simp add: quiet_write_order[OF assms(1)] frame)
  have "aw_negotiations w' = aw_negotiations w @ [n]"
    unfolding w' by (simp add: write_quietly_def split: option.splits sum.splits)
  then show ?thesis using that n o orders by simp
qed

section \<open>What a negotiation does\<close>

text \<open>
  A customer's request holds the quotation. When a negotiation is created, its order exists; a portal
  user's order is their own; the requested discount lies between 0% and 100%; and afterwards the order is
  locked and pending, so that no user can confirm it, while every other order is as it was and the
  negotiations are the old ones and the new one.
\<close>

theorem negotiation_holds_order:
  assumes "orm_ok odoo" and "create_negotiation odoo u sequence stamp now v w = Inr w'"
  shows "\<exists>i ord n. nc_sale_order_id v = Some i \<and> addon_order i w = Some ord \<and>
    (is_portal_customer u \<longrightarrow> owns_order (ou_partner u) (so_partner ord)) \<and>
    aw_negotiations w' = aw_negotiations w @ [n] \<and> an_order_id n = i \<and> discount_ok (an_requested_discount n) \<and>
    addon_order i w' = Some (set_fields pending_vals ord) \<and>
    (\<forall>j. j \<noteq> i \<longrightarrow> addon_order j w' = addon_order j w) \<and>
    (\<forall>user. \<exists>e. action_confirm odoo user False (set_fields pending_vals ord) = Inl e)"
proof -
  have "\<forall>ord user. \<exists>e. action_confirm odoo user False (set_fields pending_vals ord) = Inl e"
    using confirm_refused by (simp add: needs_approval_def)
  then show ?thesis by (rule_tac created_negotiation[OF assms]) auto
qed

text \<open>
  C33: Who approves a negotiation. An approval that succeeds was asked by an internal manager, and above 20%
  by finance or an administrator; the negotiation is then approved and names the reviewer, and its terms
  are the requested ones. Its order is approved and unlocked unless the guard of orders blocks the user:
  then the order is left as it was. No other order and no other negotiation changes.
\<close>

theorem negotiation_approval_outcome:
  assumes "orm_ok odoo" and "action_approve odoo u text i w = Inr w'"
  shows "\<exists>n n'. negotiation_of i w = Some n \<and> \<not> is_portal u \<and> is_manager u \<and>
    (DEFAULT_FINANCE_DISCOUNT_THRESHOLD < an_requested_discount n \<longrightarrow> is_finance_or_admin u) \<and>
    negotiation_of i w' = Some n' \<and> an_status n' = Approved_Negotiation \<and> an_reviewed_by n' = Some (ou_id u) \<and>
    an_requested_discount n' = an_requested_discount n \<and> an_order_id n' = an_order_id n \<and>
    (\<forall>j. j \<noteq> i \<longrightarrow> negotiation_of j w' = negotiation_of j w) \<and>
    (\<forall>j. addon_order j w' = (if j = an_order_id n then map_option (\<lambda>ord. if approval_blocked u ord then ord
        else set_fields unlock_vals ord) (addon_order j w) else addon_order j w))"
proof -
  let ?v = "review_vals u Approved_Negotiation text"
  obtain n mid where n: "negotiation_of i w = Some n" "write_negotiation u ?v i w = Inr mid" "\<not> is_portal u"
    and w': "w' = write_quietly odoo u unlock_vals (an_order_id n) mid"
    using assms(2) by (auto simp: action_approve_def on_negotiation_def bind_result_Inr_iff split: option.splits if_splits)
  have mid: "mid = put_negotiation (set_negotiation ?v n) w" "\<not> status_blocked u Approved_Negotiation n"
    by (rule reviewed[OF n(2)], use n(1) review_allowed in auto)+
  have id: "an_id n = i" using negotiation_of_id[OF n(1)] .
  have "negotiation_of j w' = (if j = i then Some (set_negotiation ?v n) else negotiation_of j w)" for j
    unfolding w' mid(1) using n(1) id by (simp add: put_negotiation_lookup)
  moreover have "addon_order j w' = (if j = an_order_id n then map_option (\<lambda>ord. if approval_blocked u ord then ord
        else set_fields unlock_vals ord) (addon_order j w) else addon_order j w)" for j
    unfolding w' mid(1) by (simp add: quiet_write_order[OF assms(1)])
  ultimately show ?thesis using n(1,3) mid(2) by (auto simp: status_blocked_def)
qed

text \<open>
  The terms of a decided negotiation cannot be written, but its status can: a representative takes a
  rejected one under review again and changes its discount.
\<close>

definition laptop_negotiation :: addon_negotiation where
  "laptop_negotiation = \<lparr>an_id = 9, an_name = ''NEG-9'', an_order_id = 5, an_requested_discount = 15,
     an_requested_terms = None, an_customer_note = None, an_status = Submitted_Negotiation, an_original_amount = 1000,
     an_proposed_amount = 850, an_submitted_at = 0, an_reviewed_by = None, an_review_note = None\<rparr>"

definition laptop_world :: addon_world where
  "laptop_world = \<lparr>aw_orders = [laptop_order Pending_Approval], aw_negotiations = [laptop_negotiation], aw_next_id = 10\<rparr>"

definition discount_write :: "rat \<Rightarrow> negotiation_vals" where
  "discount_write d = \<lparr>nv_status = None, nv_reviewed_by = None, nv_review_note = None, nv_requested_discount = Some d,
     nv_original_amount = None, nv_proposed_amount = None, nv_sale_order_id = None\<rparr>"

lemma decided_terms_are_fixed:
  "an_status n \<in> {Approved_Negotiation, Rejected_Negotiation} \<Longrightarrow> changes_terms v \<Longrightarrow> \<exists>e. negotiation_write u v n = Inl e"
  by (simp add: negotiation_write_def)

lemma decided_terms_reopened:
  assumes "an_status n = Rejected_Negotiation" and "discount_ok (an_requested_discount n)"
  shows "\<exists>n' n''. negotiation_write (addon_user [Group_Sales_Rep]) (review_vals (addon_user [Group_Sales_Rep]) Under_Review None) n = Inr n' \<and>
    negotiation_write (addon_user [Group_Sales_Rep]) (discount_write 90) n' = Inr n'' \<and> an_requested_discount n'' = 90"
  using assms
  by (simp add: negotiation_write_def review_vals_def discount_write_def status_blocked_def changes_terms_def
      check_requested_discount_def set_negotiation_def discount_ok_def)

lemma laptop_lookups [simp]:
  "addon_order 5 laptop_world = Some (laptop_order Pending_Approval)" "negotiation_of 9 laptop_world = Some laptop_negotiation"
  by (simp_all add: addon_order_def negotiation_of_def laptop_world_def laptop_order_def laptop_negotiation_def)

lemma sales_manager [simp]:
  "\<not> is_portal (addon_user [Group_Sales_Manager])" "is_manager (addon_user [Group_Sales_Manager])"
  by (simp_all add: is_portal_def is_manager_def is_finance_or_admin_def has_group_def addon_user_def)

lemma laptop_not_blocked: "\<not> approval_blocked u (laptop_order st)" if "\<not> is_portal u"
  using that by (simp add: approval_blocked_def laptop_blended DEFAULT_FINANCE_DISCOUNT_THRESHOLD_def)

theorem negotiation_approval_outcome_witness:
  "\<exists>w' n'. action_approve plain_orm (addon_user [Group_Sales_Manager]) None 9 laptop_world = Inr w' \<and>
    negotiation_of 9 w' = Some n' \<and> an_status n' = Approved_Negotiation \<and>
    addon_order 5 w' = Some (set_fields unlock_vals (laptop_order Pending_Approval))"
proof -
  let ?u = "addon_user [Group_Sales_Manager]"
  have "\<exists>n'. write_negotiation ?u (review_vals ?u Approved_Negotiation None) 9 laptop_world = Inr n'"
    by (simp add: write_negotiation_def on_negotiation_def negotiation_write_def status_blocked_def review_vals_def
        changes_terms_def check_requested_discount_def set_negotiation_def discount_ok_def laptop_negotiation_def
        DEFAULT_FINANCE_DISCOUNT_THRESHOLD_def)
  then obtain w' where "action_approve plain_orm ?u None 9 laptop_world = Inr w'"
    by (auto simp: action_approve_def on_negotiation_def laptop_negotiation_def DEFAULT_FINANCE_DISCOUNT_THRESHOLD_def)
  moreover have "an_order_id laptop_negotiation = 5" by (simp add: laptop_negotiation_def)
  ultimately show ?thesis
    using negotiation_approval_outcome[OF plain_orm_ok, of ?u None 9 laptop_world w'] by (auto simp: laptop_not_blocked)
qed

definition portal_request :: negotiation_create where
  "portal_request = \<lparr>nc_sale_order_id = Some 5, nc_name = None, nc_requested_discount = Some 15, nc_requested_terms = None,
     nc_customer_note = None, nc_original_amount = None, nc_proposed_amount = None, nc_status = None\<rparr>"

definition acme_customer :: odoo_user where
  "acme_customer = (addon_user [Group_Portal])\<lparr>ou_partner := acme_partner\<rparr>"

theorem negotiation_holds_order_witness:
  "\<exists>w'. create_negotiation plain_orm acme_customer None ''20260101'' 0 portal_request laptop_world = Inr w' \<and>
    (\<exists>i ord n. nc_sale_order_id portal_request = Some i \<and> addon_order i laptop_world = Some ord \<and>
      aw_negotiations w' = aw_negotiations laptop_world @ [n] \<and> an_order_id n = i)"
proof -
  have "owns_order (ou_partner acme_customer) (so_partner (laptop_order Pending_Approval))"
    by (simp add: owns_order_def acme_customer_def laptop_order_def)
  then have "\<exists>n. prepare_negotiation acme_customer None ''20260101'' 0 portal_request laptop_world = Inr n \<and>
      an_requested_discount n = 15"
    by (simp add: prepare_negotiation_def portal_request_def id_or_def)
  then obtain w' where w': "create_negotiation plain_orm acme_customer None ''20260101'' 0 portal_request laptop_world = Inr w'"
    by (auto simp: create_negotiation_def check_requested_discount_def discount_ok_def)
  show ?thesis using negotiation_holds_order[OF plain_orm_ok w'] w' by blast
qed

end
