(* ===== verification/Addon_Sales.thy ===== *)
theory Addon_Sales
  imports Addon_Negotiation Addon_Security
begin

text \<open>
  The addon's sales adapter, \<^verbatim>\<open>dealflow_odoo/services/sales_adapter.py\<close>, on the orders of \<open>Addon_Order\<close>: reading,
  updating, negotiated terms, approved changes, confirmation with an approval token, unlocking. Odoo's
  exceptions are all user errors (\<^verbatim>\<open>AccessError\<close>, \<^verbatim>\<open>ValidationError\<close> and \<^verbatim>\<open>MissingError\<close> derive from \<^verbatim>\<open>UserError\<close>); the
  text of one that is not written by the addon is taken to name no lock. An error carries no state: what
  had been written before it is up to the caller's transaction. Keys of a dictionary that no field has
  are left out.
\<close>

section \<open>Reading\<close>

record product_record =
  pdr_id :: odoo_id
  pdr_name :: string
  pdr_default_code :: "string option"
  pdr_list_price :: rat
  pdr_standard_price :: rat
  pdr_category :: "(odoo_id \<times> string) option"
  pdr_type :: "string option"
  pdr_is_recurring :: bool

record product_dto =
  pdt_id :: odoo_id
  pdt_name :: string
  pdt_default_code :: "string option"
  pdt_list_price :: rat
  pdt_standard_price :: rat
  pdt_category_id :: odoo_id
  pdt_category_name :: string
  pdt_type :: string
  pdt_is_recurring :: bool
  pdt_recurring_interval :: "string option"

definition recurring_words :: "string list" where
  "recurring_words = [''recurring'', ''subscription'', ''monthly'', ''annual'', ''saas'']"

definition product_of :: "product_record \<Rightarrow> product_dto" where
  "product_of p = (let category = (case pdr_category p of None \<Rightarrow> ''All'' | Some (_, n) \<Rightarrow> n);
       text = pdr_name p @ '' '' @ category; recurring = (pdr_is_recurring p \<or> list_ex (mentions text) recurring_words) in
     \<lparr>pdt_id = pdr_id p, pdt_name = pdr_name p, pdt_default_code = pdr_default_code p, pdt_list_price = pdr_list_price p,
      pdt_standard_price = pdr_standard_price p, pdt_category_id = (case pdr_category p of None \<Rightarrow> 1 | Some (i, _) \<Rightarrow> i),
      pdt_category_name = category, pdt_type = str_or (pdr_type p) ''consu'', pdt_is_recurring = recurring,
      pdt_recurring_interval = (if \<not> recurring then None
        else if mentions text ''annual'' \<or> mentions text ''year'' then Some ''year'' else Some ''month'')\<rparr>)"

definition browse_record :: "('a \<Rightarrow> odoo_id) \<Rightarrow> odoo_id \<Rightarrow> 'a list \<Rightarrow> addon_error + 'a" where
  "browse_record key i xs = (if i \<le> 0 then Inl Invalid_Request
     else case find (\<lambda>x. key x = i) xs of None \<Rightarrow> Inl Not_Found | Some x \<Rightarrow> Inr x)"

definition get_customer :: "odoo_id \<Rightarrow> odoo_partner list \<Rightarrow> addon_error + customer_dto" where
  "get_customer i ps = bind_result (browse_record op_id i ps) (\<lambda>p. Inr (customer_of p))"

definition get_product :: "odoo_id \<Rightarrow> product_record list \<Rightarrow> addon_error + product_dto" where
  "get_product i ps = bind_result (browse_record pdr_id i ps) (\<lambda>p. Inr (product_of p))"

definition browse_order :: "odoo_id \<Rightarrow> addon_world \<Rightarrow> addon_error + sale_order" where
  "browse_order i w = (if i \<le> 0 then Inl Invalid_Request
     else case addon_order i w of None \<Rightarrow> Inl Not_Found | Some ord \<Rightarrow> Inr ord)"

text \<open>Of an order all its fields and its priced lines are read.\<close>

definition get_order :: "odoo_id \<Rightarrow> addon_world \<Rightarrow> addon_error + sale_order \<times> rat \<times> (so_line \<times> rat \<times> rat) list" where
  "get_order i w = bind_result (browse_order i w) (\<lambda>ord.
     Inr (ord, order_blended_discount ord, map (\<lambda>l. (l, line_cost_price l, line_margin l)) (priced_lines ord)))"

definition get_deal_context :: "odoo_id \<Rightarrow> addon_world \<Rightarrow> addon_error + deal_context_dto" where
  "get_deal_context i w = bind_result (browse_order i w) (\<lambda>ord. Inr (action_get_deal_context ord))"

section \<open>Updating\<close>

text \<open>
  What a call passes on and what it wraps: the integration's own errors in \<open>keep\<close> stay, Odoo's become
  \<open>user\<close>, everything else is a failure.
\<close>

fun is_user_error :: "addon_error \<Rightarrow> bool" where
  "is_user_error Odoo_Validation_Error = True"
| "is_user_error Odoo_Access_Error = True"
| "is_user_error Odoo_Missing_Error = True"
| "is_user_error (Odoo_User_Error m) = True"
| "is_user_error e = False"

definition wrap_errors :: "addon_error list \<Rightarrow> (addon_error \<Rightarrow> addon_error) \<Rightarrow> addon_error + 'a \<Rightarrow> addon_error + 'a" where
  "wrap_errors kept user r = (case r of Inr x \<Rightarrow> Inr x
     | Inl e \<Rightarrow> if e \<in> set kept then Inl e else if is_user_error e then Inl (user e) else Inl Odoo_Failure)"

text \<open>The fields for the order, absent when only lines are given, and the lines.\<close>

record order_update =
  upd_fields :: "order_vals option"
  upd_lines :: "(odoo_id option \<times> line_vals) list option"

definition line_update_ok :: "line_vals \<Rightarrow> bool" where
  "line_update_ok v = (pred_option discount_ok (lv_discount v) \<and> pred_option (\<lambda>q. 0 < q) (lv_product_uom_qty v))"

definition update_ok :: "order_update \<Rightarrow> bool" where
  "update_ok u = ((upd_fields u \<noteq> None \<or> upd_lines u \<noteq> None) \<and>
     list_all (\<lambda>(_, v). line_update_ok v) (keep (upd_lines u) []) \<and>
     (case upd_fields u of None \<Rightarrow> True | Some v \<Rightarrow> list_all command_ok (keep (ov_order_line v) [])))"

definition update_line :: "orm \<Rightarrow> odoo_user \<Rightarrow> odoo_id option \<times> line_vals \<Rightarrow> sale_order \<Rightarrow> addon_error + sale_order" where
  "update_line odoo u = (\<lambda>(i, v) ord. case i of None \<Rightarrow> Inr ord
     | Some i \<Rightarrow> (case find (\<lambda>l. sol_id l = i) (so_lines ord) of None \<Rightarrow> Inr ord
        | Some l \<Rightarrow> line_write odoo u False v l ord))"

definition write_update :: "orm \<Rightarrow> odoo_user \<Rightarrow> order_update \<Rightarrow> sale_order \<Rightarrow> addon_error + sale_order" where
  "write_update odoo u upd ord =
     bind_result (case upd_fields upd of None \<Rightarrow> Inr ord | Some v \<Rightarrow> order_write odoo u False v ord)
       (each_result (update_line odoo u) (keep (upd_lines upd) []))"

definition update_order :: "orm \<Rightarrow> odoo_user \<Rightarrow> odoo_id \<Rightarrow> order_update \<Rightarrow> addon_world \<Rightarrow> addon_error + addon_world" where
  "update_order odoo u i upd w =
     (if i \<le> 0 \<or> \<not> update_ok upd then Inl Invalid_Request
      else wrap_errors [Invalid_Request, Not_Found, Invalid_State] (\<lambda>_. Invalid_Request)
        (bind_result (browse_order i w) (\<lambda>ord.
           if so_state ord = ''cancel'' then Inl Invalid_State
           else bind_result (write_update odoo u upd ord) (\<lambda>ord'. Inr (put_order ord' w)))))"

section \<open>Negotiated terms\<close>

record negotiated_terms =
  ngt_requested_discount :: "rat option"
  ngt_target_discounts :: "(odoo_id option \<times> rat) list option"
  ngt_line_discounts :: "(odoo_id option \<times> rat) list option"
  ngt_customer_note :: "string option"
  ngt_requested_terms :: "string option"
  ngt_payment_term_id :: "odoo_id option option"

text \<open>An empty dictionary of target discounts gives way to the other one.\<close>

definition target_discounts :: "negotiated_terms \<Rightarrow> (odoo_id option \<times> rat) list option" where
  "target_discounts t = (if keep (ngt_target_discounts t) [] = [] then ngt_line_discounts t else ngt_target_discounts t)"

definition discount_line :: "orm \<Rightarrow> odoo_user \<Rightarrow> odoo_id \<times> rat \<Rightarrow> sale_order \<Rightarrow> addon_error + sale_order" where
  "discount_line odoo u = (\<lambda>(i, d). update_line odoo u (Some i, no_line_vals\<lparr>lv_discount := Some d\<rparr>))"

definition negotiated_discounts :: "negotiated_terms \<Rightarrow> sale_order \<Rightarrow> (odoo_id \<times> rat) list" where
  "negotiated_discounts t ord = (case target_discounts t of
       Some ds \<Rightarrow> List.map_filter (\<lambda>(i, d). map_option (\<lambda>i. (i, d)) i) ds
     | None \<Rightarrow> (case ngt_requested_discount t of None \<Rightarrow> [] | Some d \<Rightarrow> map (\<lambda>l. (sol_id l, d)) (priced_lines ord)))"

definition negotiation_note :: "negotiated_terms \<Rightarrow> sale_order \<Rightarrow> string option" where
  "negotiation_note t ord = (let text = str_or (ngt_customer_note t) (str_or (ngt_requested_terms t) []) in
     if text = [] then None
     else Some (py_strip (tm_note (so_terms_of ord) @ [CHR 0x0A] @ ''[DealFlow Negotiation Request]: '' @ text)))"

definition negotiated_vals :: "negotiated_terms \<Rightarrow> sale_order \<Rightarrow> order_vals" where
  "negotiated_vals t ord = no_vals\<lparr>ov_approval_state := Some Pending_Approval, ov_locked := Some True,
     ov_note := negotiation_note t ord, ov_payment_term_id := ngt_payment_term_id t\<rparr>"

definition update_negotiated_terms ::
    "orm \<Rightarrow> odoo_user \<Rightarrow> odoo_id \<Rightarrow> negotiated_terms \<Rightarrow> addon_world \<Rightarrow> addon_error + addon_world" where
  "update_negotiated_terms odoo u i t w =
     (if i \<le> 0 \<or> \<not> pred_option discount_ok (ngt_requested_discount t) \<or>
        \<not> list_all (\<lambda>(_, d). discount_ok d) (keep (target_discounts t) []) then Inl Invalid_Request
      else wrap_errors [Invalid_Request, Not_Found, Invalid_State] (\<lambda>_. Odoo_Failure)
        (bind_result (browse_order i w) (\<lambda>ord.
           if so_state ord \<notin> {''draft'', ''sent''} then Inl Invalid_State
           else bind_result (each_result (discount_line odoo u) (negotiated_discounts t ord) ord) (\<lambda>ord'.
             bind_result (order_write odoo u False (negotiated_vals t ord') ord') (\<lambda>ord''. Inr (put_order ord'' w))))))"

section \<open>Approved changes\<close>

definition no_changes :: "approved_changes \<Rightarrow> bool" where
  "no_changes c = (ac_line_discounts c = None \<and> ac_target_line_discounts c = None \<and> ac_lines c = None \<and>
     ac_discount c = None \<and> ac_payment_term_id c = None \<and> ac_terms c = None \<and> ac_note c = None \<and>
     ac_validity_date c = None \<and> ac_deal_id c = None \<and> ac_risk_score c = None \<and> ac_health_status c = None)"

definition change_blocked :: "odoo_user \<Rightarrow> approved_changes \<Rightarrow> bool" where
  "change_blocked u c = (is_portal u \<or> has_group u Group_Sales_Rep \<and> \<not> is_finance_or_admin u \<and>
     list_ex (\<lambda>d. DEFAULT_FINANCE_DISCOUNT_THRESHOLD < d) (asked_discounts c))"

definition apply_approved_change ::
    "orm \<Rightarrow> odoo_user \<Rightarrow> instant \<Rightarrow> odoo_id \<Rightarrow> approved_changes \<Rightarrow> addon_world \<Rightarrow> addon_error + addon_world" where
  "apply_approved_change odoo u now i c w =
     (if i \<le> 0 \<or> no_changes c \<or> \<not> list_all discount_ok (asked_discounts c) then Inl Invalid_Request
      else if change_blocked u c then Inl Not_Authorized
      else wrap_errors [Invalid_Request, Not_Found, Invalid_State, Not_Authorized] (\<lambda>_. Odoo_Failure)
        (bind_result (browse_order i w) (\<lambda>ord.
           if so_state ord \<notin> {''draft'', ''sent''} then Inl Invalid_State
           else bind_result (action_dealflow_apply_approved_change odoo u now c ord) (\<lambda>ord'. Inr (put_order ord' w)))))"

section \<open>Confirmation\<close>

text \<open>A token that is accepted bypasses every check of the order; \<open>accept\<close> is what the verification of the token says.\<close>

definition locked_text :: "string \<Rightarrow> bool" where
  "locked_text m = (text_in ''DealFlow approval'' m \<or> mentions m ''locked'')"

fun confirmation_error :: "addon_error \<Rightarrow> addon_error" where
  "confirmation_error (Odoo_User_Error m) = (if locked_text m then Not_Authorized else Invalid_State)"
| "confirmation_error e = Invalid_State"

definition confirm_checked :: "orm \<Rightarrow> odoo_user \<Rightarrow> sale_order \<Rightarrow> addon_error + sale_order" where
  "confirm_checked odoo u ord =
     (if so_approval_state ord = Rejected_Approval \<or> so_locked ord \<and> so_approval_state ord \<noteq> Approved_Approval \<or>
        (exceeds_threshold ord \<or> has_category_breach ord) \<and> so_approval_state ord \<noteq> Approved_Approval then Inl Not_Authorized
      else action_confirm odoo u False ord)"

definition token_bypass :: "(string option \<Rightarrow> int \<Rightarrow> addon_error + bool) \<Rightarrow> bool \<Rightarrow> string option \<Rightarrow> odoo_id \<Rightarrow> addon_error + bool" where
  "token_bypass accept bypass token i = (if str_or token [] = [] then Inr bypass
     else bind_result (accept token i) (\<lambda>ok. if ok then Inr True else Inl Not_Authorized))"

definition confirm_found :: "orm \<Rightarrow> odoo_user \<Rightarrow> addon_error + bool \<Rightarrow> sale_order \<Rightarrow> addon_error + sale_order" where
  "confirm_found odoo u bypass ord = (if so_state ord \<notin> {''draft'', ''sent''} then Inl Invalid_State
     else bind_result bypass (\<lambda>b. if b then action_confirm odoo u True ord else confirm_checked odoo u ord))"

definition confirm_order ::
    "orm \<Rightarrow> odoo_user \<Rightarrow> (string option \<Rightarrow> int \<Rightarrow> addon_error + bool) \<Rightarrow> bool \<Rightarrow> string option \<Rightarrow> odoo_id \<Rightarrow> addon_world \<Rightarrow>
      addon_error + addon_world" where
  "confirm_order odoo u accept bypass token i w =
     (if i \<le> 0 then Inl Invalid_Request
      else if is_portal u then Inl Not_Authorized
      else wrap_errors [Invalid_Request, Not_Found, Invalid_State, Not_Authorized] confirmation_error
        (bind_result (browse_order i w) (\<lambda>ord.
           bind_result (confirm_found odoo u (token_bypass accept bypass token i) ord) (\<lambda>ord'. Inr (put_order ord' w)))))"

section \<open>Unlocking and evaluation\<close>

definition unlock_order :: "orm \<Rightarrow> odoo_user \<Rightarrow> unlock_actor option \<Rightarrow> odoo_id \<Rightarrow> addon_world \<Rightarrow> addon_error + addon_world" where
  "unlock_order odoo u who i w = bind_result (browse_order i w) (\<lambda>ord.
     if \<not> may_unlock (keep who (User_Actor u)) then Inl Not_Authorized
     else bind_result (action_dealflow_unlock odoo u (Some (keep who (User_Actor u))) ord) (\<lambda>ord'. Inr (put_order ord' w)))"

definition evaluate_deal_governance :: "instant \<Rightarrow> odoo_id \<Rightarrow> addon_world \<Rightarrow> addon_error + addon_world" where
  "evaluate_deal_governance now i w = bind_result (browse_order i w) (\<lambda>ord.
     Inr (put_order (action_dealflow_evaluate_governance now ord) w))"

section \<open>What confirms an order\<close>

text \<open>An order that may be confirmed without anyone's approval, or that has it.\<close>

definition clear_to_confirm :: "sale_order \<Rightarrow> bool" where
  "clear_to_confirm ord = (so_approval_state ord = Approved_Approval \<or>
     so_approval_state ord \<noteq> Rejected_Approval \<and> \<not> so_locked ord \<and> order_blended_discount ord \<le> DEFAULT_MAX_REP_DISCOUNT \<and>
     (\<forall>l\<in>set (priced_lines ord). sol_discount l \<le> min DEFAULT_MAX_REP_DISCOUNT (category_ceiling l)))"

lemma wrap_errors_Inr [simp]: "wrap_errors kept user r = Inr x \<longleftrightarrow> r = Inr x"
  by (auto simp: wrap_errors_def split: sum.splits if_splits)

lemma browse_order_Inr: "browse_order i w = Inr ord \<longleftrightarrow> 0 < i \<and> addon_order i w = Some ord"
  by (auto simp: browse_order_def split: option.splits)

lemma confirmed_checked: "confirm_checked odoo u ord = Inr ord' \<Longrightarrow> orm_confirm odoo ord = Inr ord' \<and> clear_to_confirm ord"
  using confirm_guard[of odoo u ord ord']
  by (auto simp: confirm_checked_def clear_to_confirm_def action_confirm_def split: if_splits)

lemma token_bypass_given: "token_bypass accept False token i = Inr True \<Longrightarrow> accept token i = Inr True"
  by (auto simp: token_bypass_def bind_result_Inr_iff split: if_splits)

lemma found_confirmed:
  assumes "confirm_found odoo u bypass ord = Inr ord'"
  shows "so_state ord \<in> {''draft'', ''sent''} \<and> orm_confirm odoo ord = Inr ord' \<and> (clear_to_confirm ord \<or> bypass = Inr True)"
proof -
  have state: "so_state ord \<in> {''draft'', ''sent''}" using assms by (auto simp: confirm_found_def split: if_splits)
  then obtain b where b: "bypass = Inr b" "(if b then action_confirm odoo u True ord else confirm_checked odoo u ord) = Inr ord'"
    using assms by (simp add: confirm_found_def bind_result_Inr_iff) blast
  show ?thesis
  proof (cases b)
    case True
    then show ?thesis using b state by (auto simp: action_confirm_def split: if_splits)
  next
    case False
    then show ?thesis using b(2) state confirmed_checked[of odoo u ord ord'] by simp
  qed
qed

lemma confirmed_order:
  assumes "confirm_order odoo u accept False token i w = Inr w'"
  obtains ord ord' where "addon_order i w = Some ord" and "so_state ord \<in> {''draft'', ''sent''}" and "\<not> is_portal u"
    and "orm_confirm odoo ord = Inr ord'" and "w' = put_order ord' w"
    and "clear_to_confirm ord \<or> accept token i = Inr True"
proof -
  have u: "\<not> is_portal u" using assms by (auto simp: confirm_order_def split: if_splits)
  obtain ord ord' where "browse_order i w = Inr ord" "confirm_found odoo u (token_bypass accept False token i) ord = Inr ord'"
    "w' = put_order ord' w"
    using assms by (auto simp: confirm_order_def bind_result_Inr_iff split: if_splits)
  then show ?thesis
    using that[of ord ord'] u found_confirmed[of odoo u _ ord ord'] token_bypass_given[of accept token i]
    by (simp add: browse_order_Inr) blast
qed

text \<open>With a token even a rejected order is confirmed.\<close>

lemma token_overrides_rejection:
  "\<exists>w'. confirm_order plain_orm (addon_user [Group_Sales_Rep]) (\<lambda>_ _. Inr True) False (Some ''t'') 5
     (laptop_world\<lparr>aw_orders := [laptop_order Rejected_Approval]\<rparr>) = Inr w'"
proof -
  have "addon_order 5 (laptop_world\<lparr>aw_orders := [laptop_order Rejected_Approval]\<rparr>) = Some (laptop_order Rejected_Approval)"
    by (simp add: addon_order_def laptop_order_def)
  moreover have "so_state (laptop_order Rejected_Approval) = ''draft''" by (simp add: laptop_order_def)
  ultimately show ?thesis by (simp add: confirm_order_def confirm_found_def token_bypass_def browse_order_def str_or_def action_confirm_def)
qed

text \<open>Every path of the adapter that makes an order approved asks who does it.\<close>

lemma applied_by_adapter:
  "apply_approved_change odoo u now i c w = Inr w' \<Longrightarrow> \<not> change_blocked u c \<and> list_all discount_ok (asked_discounts c)"
  by (auto simp: apply_approved_change_def split: if_splits)

end
