(* ===== verification/Addon_Events.thy ===== *)
theory Addon_Events
  imports Addon_Security
begin

text \<open>
  The addon's event dispatcher, \<^verbatim>\<open>dealflow_odoo/services/event_dispatcher.py\<close>: listeners and webhooks, the
  bounded history, the delivery of an event. A listener is a name; what it does to the outside world, and
  what a delivery over the network does, are parameters. A listener that raises is only logged, so its
  effect is whatever it did. Listeners do not change the dispatcher while it dispatches.
\<close>

record event_payload =
  evp_event_type :: string
  evp_timestamp :: string
  evp_actor_id :: "int option"
  evp_record_id :: int
  evp_model :: string
  evp_data :: string
  evp_deal_id :: "string option"

record event_dispatcher =
  ed_listeners :: "(string \<times> nat list) list"
  ed_webhook_urls :: "string list"
  ed_max_history :: nat
  ed_recent_events :: "event_payload list"

text \<open>The webhooks given at the start, and that of the environment, are not checked until they are used.\<close>

definition new_dispatcher :: "string list \<Rightarrow> string option \<Rightarrow> nat \<Rightarrow> event_dispatcher" where
  "new_dispatcher urls env n = \<lparr>ed_listeners = [],
     ed_webhook_urls = (if str_or env [] \<noteq> [] \<and> str_or env [] \<notin> set urls then urls @ [str_or env []] else urls),
     ed_max_history = n, ed_recent_events = []\<rparr>"

definition listeners_of :: "string \<Rightarrow> event_dispatcher \<Rightarrow> nat list" where
  "listeners_of ty d = (case map_of (ed_listeners d) ty of None \<Rightarrow> [] | Some cs \<Rightarrow> cs)"

definition register_listener :: "string \<Rightarrow> nat \<Rightarrow> event_dispatcher \<Rightarrow> event_dispatcher" where
  "register_listener ty c d = d\<lparr>ed_listeners := AList.update ty
     (if c \<in> set (listeners_of ty d) then listeners_of ty d else listeners_of ty d @ [c]) (ed_listeners d)\<rparr>"

definition unregister_listener :: "string \<Rightarrow> nat \<Rightarrow> event_dispatcher \<Rightarrow> bool \<times> event_dispatcher" where
  "unregister_listener ty c d = (if c \<in> set (listeners_of ty d)
     then (True, d\<lparr>ed_listeners := AList.update ty (remove1 c (listeners_of ty d)) (ed_listeners d)\<rparr>) else (False, d))"

definition register_webhook :: "net \<Rightarrow> string \<Rightarrow> event_dispatcher \<Rightarrow> addon_error + event_dispatcher" where
  "register_webhook n url d = bind_result (is_safe_webhook_url n False url) (\<lambda>safe.
     if \<not> safe then Inl Python_Error
     else Inr (if url \<in> set (ed_webhook_urls d) then d else d\<lparr>ed_webhook_urls := ed_webhook_urls d @ [url]\<rparr>))"

definition unregister_webhook :: "string \<Rightarrow> event_dispatcher \<Rightarrow> bool \<times> event_dispatcher" where
  "unregister_webhook url d = (if url \<in> set (ed_webhook_urls d)
     then (True, d\<lparr>ed_webhook_urls := remove1 url (ed_webhook_urls d)\<rparr>) else (False, d))"

definition clear_dispatcher :: "event_dispatcher \<Rightarrow> event_dispatcher" where
  "clear_dispatcher d = d\<lparr>ed_listeners := [], ed_webhook_urls := [], ed_recent_events := []\<rparr>"

definition keep_last :: "nat \<Rightarrow> 'a list \<Rightarrow> 'a list" where
  "keep_last n xs = drop (length xs - n) xs"

definition remember_event :: "event_payload \<Rightarrow> event_dispatcher \<Rightarrow> event_dispatcher" where
  "remember_event e d = d\<lparr>ed_recent_events := keep_last (ed_max_history d) (ed_recent_events d @ [e])\<rparr>"

text \<open>A negative limit leaves that many events off the end, as a slice does.\<close>

definition get_recent_events :: "int \<Rightarrow> event_dispatcher \<Rightarrow> event_payload list" where
  "get_recent_events limit d = (let es = rev (ed_recent_events d) in
     take (if limit < 0 then length es - nat (- limit) else nat limit) es)"

text \<open>
  The outside: \<open>out_run\<close> a listener, \<open>out_net\<close> the network as the check of a URL sees it, \<open>out_post\<close> a
  delivery, which answers with the status or not at all, and \<open>out_json\<close> the text of an event.
\<close>

record 'w outside =
  out_run :: "nat \<Rightarrow> event_payload \<Rightarrow> 'w \<Rightarrow> 'w"
  out_net :: "'w \<Rightarrow> net"
  out_post :: "string \<Rightarrow> string \<Rightarrow> string \<Rightarrow> string \<Rightarrow> 'w \<Rightarrow> int option \<times> 'w"
  out_json :: "event_payload \<Rightarrow> string"

definition matching_listeners :: "event_payload \<Rightarrow> event_dispatcher \<Rightarrow> nat list" where
  "matching_listeners e d = listeners_of (evp_event_type e) d @ listeners_of ''*'' d"

definition invoke_listeners :: "'w outside \<Rightarrow> event_payload \<Rightarrow> event_dispatcher \<Rightarrow> 'w \<Rightarrow> 'w" where
  "invoke_listeners env e d = fold (\<lambda>c. out_run env c e) (matching_listeners e d)"

text \<open>One delivery; an error of the check itself leaves the loop.\<close>

definition deliver_webhook ::
    "'w outside \<Rightarrow> mac \<Rightarrow> string \<Rightarrow> event_payload \<Rightarrow> string \<Rightarrow> bool \<times> 'w \<Rightarrow> addon_error + bool \<times> 'w" where
  "deliver_webhook env hmac key e url = (\<lambda>(ok, w).
     bind_result (is_safe_webhook_url (out_net env w) False url) (\<lambda>safe.
       if \<not> safe then Inr (False, w)
       else case out_post env url (out_json env e) (evp_event_type e)
           (generate_webhook_signature hmac (out_json env e) key) w of
         (Some status, w') \<Rightarrow> Inr (ok \<and> 200 \<le> status \<and> status < 300, w')
       | (None, w') \<Rightarrow> Inr (False, w')))"

definition notify_dealflow ::
    "'w outside \<Rightarrow> mac \<Rightarrow> string option \<Rightarrow> event_payload \<Rightarrow> event_dispatcher \<Rightarrow> 'w \<Rightarrow> addon_error + bool \<times> 'w" where
  "notify_dealflow env hmac key e d w =
     each_result (deliver_webhook env hmac (case key of None \<Rightarrow> DEFAULT_SECRET_KEY | Some k \<Rightarrow> k) e) (ed_webhook_urls d) (True, w)"

definition dispatch ::
    "'w outside \<Rightarrow> mac \<Rightarrow> string option \<Rightarrow> event_payload \<Rightarrow> event_dispatcher \<Rightarrow> 'w \<Rightarrow> event_dispatcher \<times> (addon_error + bool \<times> 'w)" where
  "dispatch env hmac key e d w = (let d' = remember_event e d in
     (d', notify_dealflow env hmac key e d' (invoke_listeners env e d' w)))"

section \<open>What is remembered\<close>

lemma keep_last_length: "length (keep_last n xs) \<le> n"
  by (simp add: keep_last_def)

lemma remembered:
  "length (ed_recent_events (remember_event e d)) \<le> ed_max_history d"
  "0 < ed_max_history d \<Longrightarrow> last (ed_recent_events (remember_event e d)) = e"
  by (simp_all add: remember_event_def keep_last_length) (simp add: keep_last_def)

lemma listener_registered_once: "distinct (listeners_of ty d) \<Longrightarrow> distinct (listeners_of ty (register_listener ty c d))"
  by (simp add: register_listener_def listeners_of_def update_conv)

section \<open>What is delivered\<close>

text \<open>A URL that the check accepts now, and the message that goes out for an event.\<close>

definition reachable_url :: "'w outside \<Rightarrow> 'w \<Rightarrow> string \<Rightarrow> bool" where
  "reachable_url env w url = (is_safe_webhook_url (out_net env w) False url = Inr True)"

definition sends :: "'w outside \<Rightarrow> mac \<Rightarrow> string \<Rightarrow> event_payload \<Rightarrow> event_dispatcher \<Rightarrow> 'w \<Rightarrow> 'w \<Rightarrow> bool" where
  "sends env hmac key e d w w' = (\<exists>url\<in>set (ed_webhook_urls d). reachable_url env w url \<and>
     w' = snd (out_post env url (out_json env e) (evp_event_type e) (generate_webhook_signature hmac (out_json env e) key) w))"

lemma delivery_keeps:
  assumes "\<And>w w'. P w \<Longrightarrow> sends env hmac key e d w w' \<Longrightarrow> P w'" and "url \<in> set (ed_webhook_urls d)" and "P (snd x)"
    and "deliver_webhook env hmac key e url x = Inr x'"
  shows "P (snd x')"
proof -
  obtain ok w where x: "x = (ok, w)" by force
  obtain safe where safe: "is_safe_webhook_url (out_net env w) False url = Inr safe"
    using assms(4) x by (auto simp: deliver_webhook_def bind_result_Inr_iff)
  show ?thesis
  proof (cases safe)
    case True
    let ?w = "snd (out_post env url (out_json env e) (evp_event_type e) (generate_webhook_signature hmac (out_json env e) key) w)"
    have "sends env hmac key e d w ?w" using assms(2) safe True by (auto simp: sends_def reachable_url_def)
    then have "P ?w" using assms(1,3) x by simp
    moreover have "snd x' = ?w" using assms(4) x safe True
      by (auto simp: deliver_webhook_def split: prod.splits option.splits)
    ultimately show ?thesis by simp
  next
    case False
    then show ?thesis using assms(3,4) x safe by (auto simp: deliver_webhook_def)
  qed
qed

text \<open>
  C35: Events leave only for safe addresses. Whatever an event does to the outside, it does through the
  listeners of its type and of every type (a star), called in this order, and then through signed messages to registered
  webhooks, each at a moment when the check accepts its URL: what the listeners establish and every such
  message keeps holds at the end. The event is remembered, and no more than the history's size of events.
\<close>

theorem events_leave_for_safe_urls:
  assumes "dispatch env hmac key e d w = (d', Inr (ok, w'))"
    and "P (fold (\<lambda>c. out_run env c e) (listeners_of (evp_event_type e) d @ listeners_of ''*'' d) w)"
    and "\<And>v v'. P v \<Longrightarrow> sends env hmac (case key of None \<Rightarrow> DEFAULT_SECRET_KEY | Some k \<Rightarrow> k) e d v v' \<Longrightarrow> P v'"
  shows "P w' \<and> length (ed_recent_events d') \<le> ed_max_history d \<and>
    (0 < ed_max_history d \<longrightarrow> last (ed_recent_events d') = e)"
proof -
  let ?k = "case key of None \<Rightarrow> DEFAULT_SECRET_KEY | Some k \<Rightarrow> k"
  let ?w = "fold (\<lambda>c. out_run env c e) (listeners_of (evp_event_type e) d @ listeners_of ''*'' d) w"
  have d': "d' = remember_event e d" using assms(1) by (simp add: dispatch_def Let_def)
  have frame: "ed_webhook_urls (remember_event e d) = ed_webhook_urls d" "listeners_of ty (remember_event e d) = listeners_of ty d" for ty
    by (simp_all add: remember_event_def listeners_of_def)
  have run: "each_result (deliver_webhook env hmac ?k e) (ed_webhook_urls d) (True, ?w) = Inr (ok, w')"
    using assms(1) by (simp add: dispatch_def notify_dealflow_def invoke_listeners_def matching_listeners_def Let_def frame)
  have "P (snd (ok, w'))"
    by (rule each_result_invariant[where P = "\<lambda>x. P (snd x)", OF _ _ run])
       (use delivery_keeps[of P env hmac ?k e d, OF assms(3)] assms(2) in auto)
  then show ?thesis using remembered d' by simp
qed

text \<open>A small network in which every name resolves to a public address, and one listener that counts.\<close>

definition small_net :: net where
  "small_net = \<lparr>net_urlparse = (\<lambda>u. Some \<lparr>pu_scheme = ''https'', pu_hostname = Some u, pu_port = Inr None\<rparr>),
     net_resolve = (\<lambda>h p. Some [h]),
     net_address = (\<lambda>a. Some \<lparr>ip_is_loopback = False, ip_is_private = (a = ''intranet''), ip_is_link_local = False,
       ip_is_reserved = False, ip_is_multicast = False, ip_is_unspecified = False\<rparr>)\<rparr>"

definition small_outside :: "(nat \<times> string list) outside" where
  "small_outside = \<lparr>out_run = (\<lambda>c e (n, us). (n + 1, us)), out_net = (\<lambda>_. small_net),
     out_post = (\<lambda>u b t s (n, us). (Some 200, n, us @ [u])), out_json = evp_data\<rparr>"

definition small_event :: event_payload where
  "small_event = \<lparr>evp_event_type = ''order.approved'', evp_timestamp = [], evp_actor_id = None, evp_record_id = 1,
     evp_model = ''sale.order'', evp_data = [], evp_deal_id = None\<rparr>"

definition small_dispatcher :: event_dispatcher where
  "small_dispatcher = (register_listener ''*'' 1 (new_dispatcher [] None 5))\<lparr>ed_webhook_urls := [''intranet'', ''hooks'']\<rparr>"

lemma small_checks:
  "is_safe_webhook_url small_net False ''intranet'' = Inr False" "is_safe_webhook_url small_net False ''hooks'' = Inr True"
  by (simp_all add: is_safe_webhook_url_def small_net_def public_address_def str_or_def py_strip_def is_py_space_def
      BLOCKED_HOSTNAMES_def char_lower_def Let_def)

lemma small_dispatch:
  "dispatch small_outside plain_mac None small_event small_dispatcher (0, []) =
    (remember_event small_event small_dispatcher, Inr (False, 1, [''hooks'']))"
  by (simp add: dispatch_def notify_dealflow_def invoke_listeners_def matching_listeners_def listeners_of_def remember_event_def
      small_dispatcher_def register_listener_def new_dispatcher_def small_event_def deliver_webhook_def small_outside_def small_checks)

theorem events_leave_for_safe_urls_witness:
  "\<exists>d' w'. dispatch small_outside plain_mac None small_event small_dispatcher (0, []) = (d', Inr (False, w')) \<and>
    ''intranet'' \<notin> set (snd w')"
proof -
  have "''intranet'' \<notin> set (snd (1::nat, [''hooks'']))"
    using events_leave_for_safe_urls[OF small_dispatch, of "\<lambda>w. ''intranet'' \<notin> set (snd w)"]
    by (auto simp: sends_def reachable_url_def small_outside_def small_dispatcher_def small_checks register_listener_def
        new_dispatcher_def listeners_of_def)
  then show ?thesis using small_dispatch by auto
qed

end
