(* ===== verification/Addon_Inventory.thy ===== *)
theory Addon_Inventory
  imports Addon_Base
begin

text \<open>
  The addon's inventory adapter, \<^verbatim>\<open>dealflow_odoo/services/inventory_adapter.py\<close>, as it runs without an
  Odoo environment, on its own store: stock by warehouse, the greedy split of a quantity over the
  warehouses, and the execution of a plan, once per batch. The branches on an environment are Odoo's own
  searches and creations and not modelled. Quantities are finite floats. Display names, the time of
  creation and texts are left out; the recorded split details are the allocations that they print.
\<close>

section \<open>Whole numbers\<close>

text \<open>A float that is a whole number is added and rounded exactly, below \<open>2 ^ 53\<close>.\<close>

definition whole :: "rat \<Rightarrow> bool" where
  "whole x = (\<exists>n::nat. x = of_nat n)"

lemma whole_simps [simp]: "whole 0" "whole 1" "whole (numeral k)" "whole (of_nat n)"
  by (auto simp: whole_def intro: exI[of _ "0::nat"] exI[of _ "1::nat"] exI[of _ "numeral k"])

lemma whole_nonneg: "whole x \<Longrightarrow> 0 \<le> x"
  by (auto simp: whole_def)

lemma whole_add: "whole x \<Longrightarrow> whole y \<Longrightarrow> whole (x + y)"
  by (auto simp: whole_def simp flip: of_nat_add)

lemma whole_diff: "whole x \<Longrightarrow> whole y \<Longrightarrow> y \<le> x \<Longrightarrow> whole (x - y)"
  by (auto simp: whole_def simp flip: of_nat_diff)

lemma whole_min: "whole x \<Longrightarrow> whole y \<Longrightarrow> whole (min x y)"
  by (simp add: min_def)

lemma whole_pos: "whole x \<Longrightarrow> 0 < x \<Longrightarrow> 1 \<le> x"
  by (auto simp: whole_def)

lemma fl64_whole:
  assumes "whole x" and "x < 2 ^ 53"
  shows "fl64 x = x"
proof -
  obtain n :: nat where n: "x = of_nat n" using assms(1) by (auto simp: whole_def)
  have "of_nat n < (of_nat (2 ^ 53) :: rat)" using assms(2) n by simp
  then have "n < 2 ^ 53" by (simp only: of_nat_less_iff)
  then have "\<bar>int n\<bar> < 2 ^ nat 53" by simp
  from round_sig_exact[OF _ this, of 0] n show ?thesis by (simp add: fl64_def)
qed

lemma fround_whole:
  assumes "whole x" and "x < 2 ^ 53"
  shows "fround x k = x"
proof -
  obtain n :: nat where n: "x = of_nat n" using assms(1) by (auto simp: whole_def)
  have "pyround x k = of_int (round_half_even (of_int (int n * 10 ^ k))) / 10 ^ k" by (simp add: pyround_def n)
  also have "\<dots> = x" by (simp only: round_half_even_of_int) (simp add: n)
  finally show ?thesis using fl64_whole[OF assms] by (simp add: fround_def)
qed

lemma fsum_whole:
  assumes "\<And>x. x \<in> set xs \<Longrightarrow> whole x" and "sum_list xs < 2 ^ 53"
  shows "foldl fadd 0 xs = sum_list xs"
  using assms
proof (induction xs rule: rev_induct)
  case (snoc x xs)
  have w: "whole (sum_list xs)" using snoc.prems(1)
    by (induction xs) (auto intro: whole_add)
  have le: "sum_list xs + x < 2 ^ 53" "0 \<le> x" using snoc.prems whole_nonneg[of x] by simp_all
  then have "foldl fadd 0 xs = sum_list xs" using snoc by simp
  then have "foldl fadd 0 (xs @ [x]) = fl64 (sum_list xs + x)" by (simp add: fadd_def[of "sum_list xs"])
  then show ?case using w le snoc.prems(1)[of x] by (simp add: fl64_whole whole_add)
qed simp

section \<open>The store\<close>

record stock_levels =
  lvl_available :: rat
  lvl_reserved :: rat
  lvl_incoming :: rat

record inv_warehouse =
  iwh_id :: int
  iwh_name :: string
  iwh_sequence :: "int option"

record split_item =
  spi_product_id :: int
  spi_warehouse_id :: int
  spi_warehouse_name :: string
  spi_quantity :: rat

text \<open>A picking added by hand names no product.\<close>

record inv_picking =
  pck_id :: int
  pck_order_id :: int
  pck_warehouse_id :: int
  pck_warehouse_name :: string
  pck_state :: string
  pck_batch_id :: "string option"
  pck_split :: bool
  pck_details :: "split_item list"
  pck_content :: "(int \<times> rat) option"

record inventory =
  inv_warehouses :: "inv_warehouse list"
  inv_stock :: "int \<Rightarrow> (int \<Rightarrow> stock_levels option) option"
  inv_pickings :: "inv_picking list"
  inv_orders :: "int \<Rightarrow> string option"
  inv_next_picking_id :: int

definition no_levels :: stock_levels where
  "no_levels = \<lparr>lvl_available = 0, lvl_reserved = 0, lvl_incoming = 0\<rparr>"

definition default_warehouses :: "inv_warehouse list" where
  "default_warehouses = [\<lparr>iwh_id = 1, iwh_name = ''WH1 Main'', iwh_sequence = Some 1\<rparr>,
     \<lparr>iwh_id = 2, iwh_name = ''WH2 East'', iwh_sequence = Some 2\<rparr>, \<lparr>iwh_id = 3, iwh_name = ''WH3 West'', iwh_sequence = Some 3\<rparr>]"

definition put_levels :: "int \<Rightarrow> int \<Rightarrow> stock_levels \<Rightarrow> inventory \<Rightarrow> inventory" where
  "put_levels p w l st = st\<lparr>inv_stock := (inv_stock st)(p \<mapsto>
     (case inv_stock st p of None \<Rightarrow> (\<lambda>_. None) | Some m \<Rightarrow> m)(w \<mapsto> l))\<rparr>"

definition seed_inventory :: "int \<Rightarrow> (int \<times> stock_levels) list \<Rightarrow> inventory \<Rightarrow> inventory" where
  "seed_inventory p ls st = fold (\<lambda>(w, l). put_levels p w l) ls
     (st\<lparr>inv_stock := (if inv_stock st p = None then (inv_stock st)(p \<mapsto> (\<lambda>_. None)) else inv_stock st)\<rparr>)"

definition new_inventory :: inventory where
  "new_inventory = seed_inventory 1
     [(1, \<lparr>lvl_available = 9, lvl_reserved = 0, lvl_incoming = 5\<rparr>), (2, \<lparr>lvl_available = 15, lvl_reserved = 0, lvl_incoming = 10\<rparr>),
      (3, \<lparr>lvl_available = 10, lvl_reserved = 0, lvl_incoming = 0\<rparr>)]
     \<lparr>inv_warehouses = default_warehouses, inv_stock = (\<lambda>_. None), inv_pickings = [],
      inv_orders = (\<lambda>_. None)(1 := Some ''sale'', 101 := Some ''sale''), inv_next_picking_id = 1001\<rparr>"

definition set_warehouse_stock :: "int \<Rightarrow> int \<Rightarrow> rat \<Rightarrow> rat \<Rightarrow> rat \<Rightarrow> inventory \<Rightarrow> inventory" where
  "set_warehouse_stock p w available reserved incoming =
     put_levels p w \<lparr>lvl_available = available, lvl_reserved = reserved, lvl_incoming = incoming\<rparr>"

definition register_order :: "int \<Rightarrow> string \<Rightarrow> inventory \<Rightarrow> inventory" where
  "register_order i state st = st\<lparr>inv_orders := (inv_orders st)(i \<mapsto> state)\<rparr>"

definition put_picking :: "(int \<Rightarrow> inv_picking) \<Rightarrow> inventory \<Rightarrow> inventory" where
  "put_picking p st = st\<lparr>inv_pickings := inv_pickings st @ [p (inv_next_picking_id st)],
     inv_next_picking_id := inv_next_picking_id st + 1\<rparr>"

definition add_standalone_picking ::
    "int \<Rightarrow> int \<Rightarrow> string \<Rightarrow> string \<Rightarrow> string option \<Rightarrow> bool \<Rightarrow> split_item list \<Rightarrow> inventory \<Rightarrow> int \<times> inventory" where
  "add_standalone_picking order w name state batch split details st = (inv_next_picking_id st,
     put_picking (\<lambda>i. \<lparr>pck_id = i, pck_order_id = order, pck_warehouse_id = w, pck_warehouse_name = name,
       pck_state = state, pck_batch_id = batch, pck_split = split, pck_details = details, pck_content = None\<rparr>) st)"

section \<open>Queries\<close>

record warehouse_stock =
  whs_warehouse_id :: int
  whs_warehouse_name :: string
  whs_available :: rat
  whs_reserved :: rat
  whs_incoming :: rat

definition levels_of :: "int \<Rightarrow> int \<Rightarrow> inventory \<Rightarrow> stock_levels" where
  "levels_of p w st = (case inv_stock st p of None \<Rightarrow> no_levels
     | Some m \<Rightarrow> (case m w of None \<Rightarrow> no_levels | Some l \<Rightarrow> l))"

text \<open>Warehouses are visited by their sequence, then by id; one without a sequence counts as 999.\<close>

definition warehouse_order :: "inventory \<Rightarrow> inv_warehouse list" where
  "warehouse_order st = sort_key (\<lambda>w. case iwh_sequence w of None \<Rightarrow> 999 | Some s \<Rightarrow> s) (sort_key iwh_id (inv_warehouses st))"

definition warehouse_levels :: "int \<Rightarrow> inventory \<Rightarrow> inv_warehouse \<Rightarrow> warehouse_stock" where
  "warehouse_levels p st w = \<lparr>whs_warehouse_id = iwh_id w, whs_warehouse_name = iwh_name w,
     whs_available = lvl_available (levels_of p (iwh_id w) st), whs_reserved = lvl_reserved (levels_of p (iwh_id w) st),
     whs_incoming = lvl_incoming (levels_of p (iwh_id w) st)\<rparr>"

definition get_warehouse_stock :: "int \<Rightarrow> inventory \<Rightarrow> addon_error + warehouse_stock list" where
  "get_warehouse_stock p st = (if p \<le> 0 then Inl Invalid_Request else Inr (map (warehouse_levels p st) (warehouse_order st)))"

definition get_warehouse_stock_single :: "int \<Rightarrow> int \<Rightarrow> inventory \<Rightarrow> addon_error + warehouse_stock option" where
  "get_warehouse_stock_single p w st =
     bind_result (get_warehouse_stock p st) (\<lambda>xs. Inr (find (\<lambda>x. whs_warehouse_id x = w) xs))"

definition get_available_stock :: "int \<Rightarrow> inventory \<Rightarrow> addon_error + rat" where
  "get_available_stock p st = bind_result (get_warehouse_stock p st) (\<lambda>xs. Inr (foldl fadd 0 (map whs_available xs)))"

definition get_open_pickings :: "int \<Rightarrow> inventory \<Rightarrow> addon_error + inv_picking list" where
  "get_open_pickings i st = (if i \<le> 0 then Inl Invalid_Request else if inv_orders st i = None then Inl Not_Found
     else Inr (filter (\<lambda>p. pck_order_id p = i \<and> pck_state p \<notin> {''done'', ''cancel''}) (inv_pickings st)))"

section \<open>Splitting a quantity\<close>

record split_plan =
  spl_order_id :: int
  spl_allocations :: "split_item list"
  spl_batch_id :: "string option"
  spl_requested_qty :: "rat option"

definition qty_epsilon :: rat where "qty_epsilon = fl64 (1 / 10 ^ 6)"

definition sum_tolerance :: rat where "sum_tolerance = fl64 (1 / 10 ^ 4)"

fun split_over :: "int \<Rightarrow> warehouse_stock list \<Rightarrow> rat \<Rightarrow> split_item list" where
  "split_over p [] remaining = []"
| "split_over p (w # ws) remaining =
     (if whs_available w \<le> 0 then split_over p ws remaining
      else let take = min (whs_available w) remaining; left = fsub remaining take in
        \<lparr>spi_product_id = p, spi_warehouse_id = whs_warehouse_id w, spi_warehouse_name = whs_warehouse_name w,
         spi_quantity = fround take 4\<rparr> # (if left \<le> qty_epsilon then [] else split_over p ws left))"

definition plan_total :: "split_item list \<Rightarrow> rat" where
  "plan_total xs = foldl fadd 0 (map spi_quantity xs)"

text \<open>The text of the plan names the first allocation, so there has to be one.\<close>

definition calculate_fulfillment_split :: "int \<Rightarrow> int \<Rightarrow> rat \<Rightarrow> inventory \<Rightarrow> addon_error + split_plan" where
  "calculate_fulfillment_split order p qty st =
     (if order \<le> 0 \<or> p \<le> 0 \<or> qty \<le> 0 then Inl Invalid_Request
      else bind_result (get_warehouse_stock p st) (\<lambda>ws.
        if foldl fadd 0 (map whs_available ws) < qty then Inl Invalid_Request
        else let items = split_over p ws qty in
          if sum_tolerance < \<bar>fsub (fround (plan_total items) 4) qty\<bar> then Inl Invalid_Request
          else if items = [] then Inl Python_Error
          else Inr \<lparr>spl_order_id = order, spl_allocations = items, spl_batch_id = None, spl_requested_qty = Some qty\<rparr>))"

section \<open>Executing a plan\<close>

definition check_split_plan :: "int \<Rightarrow> split_plan \<Rightarrow> inventory \<Rightarrow> addon_error + unit" where
  "check_split_plan order plan st =
     (if order \<le> 0 \<or> spl_order_id plan \<noteq> order \<or> spl_allocations plan = [] \<or> plan_total (spl_allocations plan) \<le> 0 \<or>
        list_ex (\<lambda>a. spi_warehouse_id a \<le> 0 \<or> spi_quantity a \<le> 0) (spl_allocations plan) \<or>
        (case spl_requested_qty plan of None \<Rightarrow> False
         | Some q \<Rightarrow> sum_tolerance < \<bar>fsub (plan_total (spl_allocations plan)) q\<bar>)
      then Inl Invalid_Request
      else case inv_orders st order of None \<Rightarrow> Inl Not_Found
        | Some state \<Rightarrow> if state \<in> {''cancel'', ''done''} then Inl Invalid_State else Inr ())"

text \<open>\<open>fresh\<close> is a new batch id; the code builds it from the order, the time and a random token.\<close>

definition target_batch :: "string option \<Rightarrow> split_plan \<Rightarrow> string \<Rightarrow> string" where
  "target_batch batch plan fresh = str_or batch (str_or (spl_batch_id plan) fresh)"

definition batch_pickings :: "string \<Rightarrow> inventory \<Rightarrow> inv_picking list" where
  "batch_pickings b st = filter (\<lambda>p. pck_batch_id p = Some b) (inv_pickings st)"

definition check_allocation :: "split_item \<Rightarrow> inventory \<Rightarrow> addon_error + inventory" where
  "check_allocation a st = bind_result (get_warehouse_stock_single (spi_product_id a) (spi_warehouse_id a) st) (\<lambda>r.
     case r of None \<Rightarrow> Inl Not_Found
     | Some w \<Rightarrow> if whs_available w < spi_quantity a then Inl Invalid_State else Inr st)"

definition deducted :: "rat \<Rightarrow> stock_levels \<Rightarrow> stock_levels" where
  "deducted q l = l\<lparr>lvl_available := fround (fsub (lvl_available l) q) 4, lvl_reserved := fround (fadd (lvl_reserved l) q) 4\<rparr>"

definition shipped_picking :: "int \<Rightarrow> string \<Rightarrow> split_item list \<Rightarrow> split_item \<Rightarrow> int \<Rightarrow> inv_picking" where
  "shipped_picking order b items a i = \<lparr>pck_id = i, pck_order_id = order, pck_warehouse_id = spi_warehouse_id a,
     pck_warehouse_name = spi_warehouse_name a, pck_state = ''assigned'', pck_batch_id = Some b,
     pck_split = (1 < length items), pck_details = items, pck_content = Some (spi_product_id a, spi_quantity a)\<rparr>"

definition ship_allocation :: "int \<Rightarrow> string \<Rightarrow> split_item list \<Rightarrow> split_item \<Rightarrow> inventory \<Rightarrow> addon_error + inventory" where
  "ship_allocation order b items a st =
     (case inv_stock st (spi_product_id a) of None \<Rightarrow> Inl Python_Error
      | Some m \<Rightarrow> (case m (spi_warehouse_id a) of None \<Rightarrow> Inl Python_Error
         | Some l \<Rightarrow> Inr (put_picking (shipped_picking order b items a)
             (put_levels (spi_product_id a) (spi_warehouse_id a) (deducted (spi_quantity a) l) st))))"

record applied_plan =
  apl_already_applied :: bool
  apl_order_id :: int
  apl_batch_id :: string
  apl_picking_ids :: "int list"
  apl_split :: bool
  apl_total_allocated :: rat

definition applied_result :: "bool \<Rightarrow> int \<Rightarrow> string \<Rightarrow> split_plan \<Rightarrow> int list \<Rightarrow> applied_plan" where
  "applied_result already order b plan ids = \<lparr>apl_already_applied = already, apl_order_id = order, apl_batch_id = b,
     apl_picking_ids = ids, apl_split = (1 < length (spl_allocations plan)),
     apl_total_allocated = fround (plan_total (spl_allocations plan)) 4\<rparr>"

definition execute_batch :: "int \<Rightarrow> string \<Rightarrow> bool \<Rightarrow> split_plan \<Rightarrow> inventory \<Rightarrow> addon_error + applied_plan \<times> inventory" where
  "execute_batch order b idempotent plan st =
     (if batch_pickings b st \<noteq> [] then
        (if idempotent then Inr (applied_result True order b plan (map pck_id (batch_pickings b st)), st)
         else Inl Invalid_State)
      else bind_result (each_result check_allocation (spl_allocations plan) st) (\<lambda>st.
        bind_result (each_result (ship_allocation order b (spl_allocations plan)) (spl_allocations plan) st) (\<lambda>st'.
          Inr (applied_result False order b plan (map pck_id (drop (length (inv_pickings st)) (inv_pickings st'))), st'))))"

text \<open>A generated batch id is written to the plan, which is the first part of the result.\<close>

definition apply_split_plan ::
    "int \<Rightarrow> split_plan \<Rightarrow> string option \<Rightarrow> bool \<Rightarrow> string \<Rightarrow> inventory \<Rightarrow> split_plan \<times> (addon_error + applied_plan \<times> inventory)" where
  "apply_split_plan order plan batch idempotent fresh st =
     (case check_split_plan order plan st of Inl e \<Rightarrow> (plan, Inl e)
      | Inr _ \<Rightarrow> (if str_or batch (str_or (spl_batch_id plan) []) = [] then plan\<lparr>spl_batch_id := Some fresh\<rparr> else plan,
          execute_batch order (target_batch batch plan fresh) idempotent plan st))"

section \<open>Stored levels\<close>

definition stored_levels :: "int \<Rightarrow> int \<Rightarrow> inventory \<Rightarrow> stock_levels option" where
  "stored_levels p w st = (case inv_stock st p of None \<Rightarrow> None | Some m \<Rightarrow> m w)"

lemma levels_of_stored: "levels_of p w st = (case stored_levels p w st of None \<Rightarrow> no_levels | Some l \<Rightarrow> l)"
  by (simp add: levels_of_def stored_levels_def split: option.splits)

lemma stored_put_levels [simp]:
  "stored_levels p' w' (put_levels p w l st) = (if p' = p \<and> w' = w then Some l else stored_levels p' w' st)"
  by (auto simp: stored_levels_def put_levels_def split: option.splits)

lemma stored_put_picking [simp]: "stored_levels p w (put_picking k st) = stored_levels p w st"
  by (simp add: stored_levels_def put_picking_def)

lemma stored_register [simp]: "stored_levels p w (register_order i s st) = stored_levels p w st"
  by (simp add: stored_levels_def register_order_def)

lemma put_levels_frame [simp]:
  "inv_pickings (put_levels p w l st) = inv_pickings st" "inv_next_picking_id (put_levels p w l st) = inv_next_picking_id st"
  "inv_orders (put_levels p w l st) = inv_orders st" "inv_warehouses (put_levels p w l st) = inv_warehouses st"
  by (simp_all add: put_levels_def)

lemma put_picking_frame [simp]:
  "inv_pickings (put_picking k st) = inv_pickings st @ [k (inv_next_picking_id st)]"
  "inv_next_picking_id (put_picking k st) = inv_next_picking_id st + 1"
  "inv_orders (put_picking k st) = inv_orders st" "inv_warehouses (put_picking k st) = inv_warehouses st"
  by (simp_all add: put_picking_def)

lemma shipped_picking_simps [simp]:
  "pck_id (shipped_picking order b items a i) = i" "pck_batch_id (shipped_picking order b items a i) = Some b"
  "pck_content (shipped_picking order b items a i) = Some (spi_product_id a, spi_quantity a)"
  "pck_order_id (shipped_picking order b items a i) = order"
  by (simp_all add: shipped_picking_def)

lemma ship_stored:
  "ship_allocation order b items a st =
     (case stored_levels (spi_product_id a) (spi_warehouse_id a) st of None \<Rightarrow> Inl Python_Error
      | Some l \<Rightarrow> Inr (put_picking (shipped_picking order b items a)
          (put_levels (spi_product_id a) (spi_warehouse_id a) (deducted (spi_quantity a) l) st)))"
  by (simp add: ship_allocation_def stored_levels_def split: option.splits)

section \<open>Well-formed stores\<close>

definition levels_ok :: "stock_levels \<Rightarrow> bool" where
  "levels_ok l = (0 \<le> lvl_available l \<and> 0 \<le> lvl_reserved l \<and> 0 \<le> lvl_incoming l)"

definition inventory_ok :: "inventory \<Rightarrow> bool" where
  "inventory_ok st = ((\<forall>p w l. stored_levels p w st = Some l \<longrightarrow> levels_ok l) \<and>
     distinct (map pck_id (inv_pickings st)) \<and>
     (\<forall>k\<in>set (inv_pickings st). pck_id k < inv_next_picking_id st \<and> pred_option (\<lambda>(_, q). 0 < q) (pck_content k)))"

lemma inventory_ok_picking:
  "inventory_ok st \<Longrightarrow> pck_id (k (inv_next_picking_id st)) = inv_next_picking_id st \<Longrightarrow>
    pred_option (\<lambda>(_, q). 0 < q) (pck_content (k (inv_next_picking_id st))) \<Longrightarrow> inventory_ok (put_picking k st)"
  by (force simp: inventory_ok_def)

lemma inventory_ok_levels: "inventory_ok st \<Longrightarrow> levels_ok l \<Longrightarrow> inventory_ok (put_levels p w l st)"
  by (simp add: inventory_ok_def)

lemma inventory_ok_register: "inventory_ok (register_order i s st) = inventory_ok st"
  by (simp add: inventory_ok_def) (simp add: register_order_def)

lemma deducted_ok: "levels_ok l \<Longrightarrow> 0 \<le> q \<Longrightarrow> q \<le> lvl_available l \<Longrightarrow> levels_ok (deducted q l)"
  by (simp add: levels_ok_def deducted_def fround_nonneg fsub_def fadd_def fl64_nonneg)

lemma inventory_ok_seed:
  assumes "inventory_ok st" and "\<forall>(w, l)\<in>set ls. levels_ok l"
  shows "inventory_ok (seed_inventory p ls st)"
proof -
  let ?st = "st\<lparr>inv_stock := (if inv_stock st p = None then (inv_stock st)(p \<mapsto> (\<lambda>_. None)) else inv_stock st)\<rparr>"
  have "stored_levels p' w ?st = stored_levels p' w st" for p' w by (simp add: stored_levels_def)
  then have "inventory_ok ?st" using assms(1) by (simp add: inventory_ok_def)
  then have "inventory_ok (fold (\<lambda>(w, l). put_levels p w l) ls ?st)" using assms(2)
    by (induction ls rule: rev_induct) (auto intro: inventory_ok_levels)
  then show ?thesis by (simp add: seed_inventory_def)
qed

section \<open>Shipping a batch\<close>

definition item_key :: "split_item \<Rightarrow> int \<times> int" where
  "item_key a = (spi_product_id a, spi_warehouse_id a)"

definition stocked :: "inventory \<Rightarrow> split_item \<Rightarrow> bool" where
  "stocked st a = (\<exists>l. stored_levels (spi_product_id a) (spi_warehouse_id a) st = Some l \<and>
     0 < spi_quantity a \<and> spi_quantity a \<le> lvl_available l)"

lemma checked_allocation:
  "check_allocation a st = Inr st' \<longleftrightarrow> st' = st \<and> 0 < spi_product_id a \<and> spi_warehouse_id a \<in> iwh_id ` set (inv_warehouses st) \<and>
    spi_quantity a \<le> lvl_available (levels_of (spi_product_id a) (spi_warehouse_id a) st)"
proof -
  have key: "whs_warehouse_id (warehouse_levels p st w) = iwh_id w" for p w by (simp add: warehouse_levels_def)
  have f: "find (\<lambda>x. whs_warehouse_id x = i) (map (warehouse_levels p st) ws) =
      (if i \<in> iwh_id ` set ws then map_option (warehouse_levels p st) (find (\<lambda>w. iwh_id w = i) ws) else None)" for i p ws
    by (induction ws) (auto simp: key)
  have s: "set (warehouse_order st) = set (inv_warehouses st)" by (simp add: warehouse_order_def)
  have n: "find (\<lambda>w. iwh_id w = i) ws = None \<longleftrightarrow> i \<notin> iwh_id ` set ws" for i ws
    by (auto simp: find_None_iff)
  show ?thesis
    using n[of "spi_warehouse_id a" "warehouse_order st"]
    by (auto simp: check_allocation_def get_warehouse_stock_single_def get_warehouse_stock_def f s warehouse_levels_def find_Some_iff
        split: option.splits if_splits)
qed

lemma checked_allocations:
  "each_result check_allocation xs st = Inr st' \<longleftrightarrow> st' = st \<and> (\<forall>a\<in>set xs. check_allocation a st = Inr st)"
  by (induction xs) (auto simp: bind_result_Inr_iff checked_allocation)

lemma checked_stocked:
  "check_allocation a st = Inr st' \<Longrightarrow> 0 < spi_quantity a \<Longrightarrow> stocked st a"
  by (auto simp: checked_allocation stocked_def levels_of_stored no_levels_def split: option.splits)

text \<open>Shipping what is stored succeeds, for every product and warehouse once.\<close>

lemma ship_stocked:
  assumes "stocked st a"
  obtains l where "stored_levels (spi_product_id a) (spi_warehouse_id a) st = Some l" and "spi_quantity a \<le> lvl_available l"
    and "ship_allocation order b items a st = Inr (put_picking (shipped_picking order b items a)
      (put_levels (spi_product_id a) (spi_warehouse_id a) (deducted (spi_quantity a) l) st))"
  using assms by (auto simp: stocked_def ship_stored)

lemma stocked_other:
  "item_key a \<noteq> item_key c \<Longrightarrow>
    stocked (put_picking k (put_levels (spi_product_id a) (spi_warehouse_id a) l st)) c = stocked st c"
  by (auto simp: stocked_def item_key_def)

lemma ship_all:
  assumes "\<forall>a\<in>set xs. stocked st a" and "distinct (map item_key xs)" and "inventory_ok st"
  shows "\<exists>st'. each_result (ship_allocation order b items) xs st = Inr st' \<and> inventory_ok st' \<and>
    (\<forall>p w. stored_levels p w st' = (case find (\<lambda>a. item_key a = (p, w)) xs of None \<Rightarrow> stored_levels p w st
        | Some a \<Rightarrow> map_option (deducted (spi_quantity a)) (stored_levels p w st)))"
  using assms
proof (induction xs arbitrary: st)
  case (Cons a xs)
  obtain l where l: "stored_levels (spi_product_id a) (spi_warehouse_id a) st = Some l" "spi_quantity a \<le> lvl_available l"
    "ship_allocation order b items a st = Inr (put_picking (shipped_picking order b items a)
      (put_levels (spi_product_id a) (spi_warehouse_id a) (deducted (spi_quantity a) l) st))" (is "_ = Inr ?mid")
    using ship_stocked Cons.prems(1) by (metis list.set_intros(1))
  have q: "0 < spi_quantity a" using Cons.prems(1) by (auto simp: stocked_def)
  have "levels_ok l" using l(1) Cons.prems(3) by (auto simp: inventory_ok_def)
  then have ok: "inventory_ok ?mid"
    using q l(2) Cons.prems(3) by (intro inventory_ok_picking inventory_ok_levels deducted_ok) simp_all
  have "\<forall>c\<in>set xs. stocked ?mid c" using Cons.prems(1,2) stocked_other by (metis (no_types, lifting) distinct.simps(2)
        image_eqI list.set_intros(2) list.set_map list.simps(9))
  then obtain st' where st': "each_result (ship_allocation order b items) xs ?mid = Inr st'" "inventory_ok st'"
      "\<forall>p w. stored_levels p w st' = (case find (\<lambda>a. item_key a = (p, w)) xs of None \<Rightarrow> stored_levels p w ?mid
        | Some a \<Rightarrow> map_option (deducted (spi_quantity a)) (stored_levels p w ?mid))"
    using Cons.IH[of ?mid] ok Cons.prems(2) by auto
  have "item_key a \<notin> item_key ` set xs" using Cons.prems(2) by simp
  then have "find (\<lambda>c. item_key c = item_key a) xs = None" by (simp add: find_None_iff) (metis imageI)
  with st' l show ?case by (auto simp: item_key_def split: option.splits)
qed simp

lemma ship_pickings:
  "each_result (ship_allocation order b items) xs st = Inr st' \<Longrightarrow>
    \<exists>ids. inv_pickings st' = inv_pickings st @ map2 (shipped_picking order b items) xs ids \<and> length ids = length xs"
proof (induction xs arbitrary: st)
  case (Cons a xs)
  obtain mid where mid: "ship_allocation order b items a st = Inr mid" "each_result (ship_allocation order b items) xs mid = Inr st'"
    using Cons.prems by (auto simp: bind_result_Inr_iff)
  obtain ids where "inv_pickings st' = inv_pickings mid @ map2 (shipped_picking order b items) xs ids" "length ids = length xs"
    using Cons.IH[OF mid(2)] by blast
  moreover have "inv_pickings mid = inv_pickings st @ [shipped_picking order b items a (inv_next_picking_id st)]"
    using mid(1) by (auto simp: ship_stored split: option.splits)
  ultimately show ?case by (intro exI[of _ "inv_next_picking_id st # ids"]) simp
qed simp

section \<open>Requests\<close>

datatype inventory_request = Seed_Stock int "(int \<times> stock_levels) list" | Set_Stock int int rat rat rat
  | Register_Order int string | Add_Picking int int string string "string option" bool "split_item list"
  | Apply_Split int split_plan "string option" bool string

fun stock_step :: "inventory_request \<Rightarrow> inventory \<Rightarrow> inventory" where
  "stock_step (Seed_Stock p ls) st = seed_inventory p ls st"
| "stock_step (Set_Stock p w a r i) st = set_warehouse_stock p w a r i st"
| "stock_step (Register_Order i s) st = register_order i s st"
| "stock_step (Add_Picking ord w n s b x ds) st = snd (add_standalone_picking ord w n s b x ds st)"
| "stock_step (Apply_Split ord plan b idem fresh) st =
     (case snd (apply_split_plan ord plan b idem fresh st) of Inl e \<Rightarrow> st | Inr (r, st') \<Rightarrow> st')"

text \<open>A plan names no warehouse twice for a product, and stock is never negative.\<close>

fun inventory_request_ok :: "inventory_request \<Rightarrow> bool" where
  "inventory_request_ok (Seed_Stock p ls) = (\<forall>(w, l)\<in>set ls. levels_ok l)"
| "inventory_request_ok (Set_Stock p w a r i) = (0 \<le> a \<and> 0 \<le> r \<and> 0 \<le> i)"
| "inventory_request_ok (Apply_Split ord plan b idem fresh) = distinct (map item_key (spl_allocations plan))"
| "inventory_request_ok _ = True"

fun adds_picking :: "string \<Rightarrow> inventory_request \<Rightarrow> bool" where
  "adds_picking b (Add_Picking ord w n s c x ds) = (c = Some b)"
| "adds_picking b _ = False"

lemma executed_batch:
  assumes "execute_batch order b idem plan st = Inr (r, st')" and "\<forall>a\<in>set (spl_allocations plan). 0 < spi_quantity a"
  shows "apl_batch_id r = b \<and> (if apl_already_applied r then st' = st \<and> batch_pickings b st \<noteq> []
    else batch_pickings b st = [] \<and> (\<forall>a\<in>set (spl_allocations plan). stocked st a) \<and>
      each_result (ship_allocation order b (spl_allocations plan)) (spl_allocations plan) st = Inr st' \<and>
      apl_picking_ids r = map pck_id (drop (length (inv_pickings st)) (inv_pickings st')))"
  using assms
  by (auto simp: execute_batch_def applied_result_def bind_result_Inr_iff checked_allocations checked_stocked split: if_splits)

lemma applied_split:
  assumes "apply_split_plan order plan batch idem fresh st = (plan', Inr (r, st'))"
  shows "execute_batch order (target_batch batch plan fresh) idem plan st = Inr (r, st')"
    and "\<forall>a\<in>set (spl_allocations plan). 0 < spi_quantity a" and "spl_allocations plan \<noteq> []"
  using assms by (auto simp: apply_split_plan_def check_split_plan_def list_ex_iff not_le split: sum.splits if_splits option.splits)

lemma stock_step_ok:
  assumes "inventory_ok st" and "inventory_request_ok q"
  shows "inventory_ok (stock_step q st)"
proof (cases q)
  case (Apply_Split ord plan b idem fresh)
  show ?thesis
  proof (cases "snd (apply_split_plan ord plan b idem fresh st)")
    case (Inl e)
    then show ?thesis using assms(1) Apply_Split by simp
  next
    case (Inr x)
    then obtain r st' where x: "apply_split_plan ord plan b idem fresh st = (fst (apply_split_plan ord plan b idem fresh st), Inr (r, st'))"
      "x = (r, st')" by (metis prod.collapse)
    have d: "distinct (map item_key (spl_allocations plan))" using assms(2) Apply_Split by simp
    note ex = executed_batch[OF applied_split(1,2)[OF x(1)]]
    have "inventory_ok st'"
    proof (cases "apl_already_applied r")
      case False
      then show ?thesis using ex ship_all[OF _ d assms(1), of ord "target_batch b plan fresh" "spl_allocations plan"] by auto
    qed (use ex assms(1) in simp)
    then show ?thesis using Apply_Split Inr x(2) by simp
  qed
next
  case (Seed_Stock p ls)
  then show ?thesis using assms inventory_ok_seed[of st ls p] by simp
qed (use assms in \<open>auto simp: set_warehouse_stock_def inventory_ok_levels levels_ok_def inventory_ok_register
    add_standalone_picking_def intro!: inventory_ok_picking\<close>)

text \<open>
  C23: The store of the inventory stays well formed. Whatever is seeded, set, registered and added, and
  whatever plans are executed, as long as no stock is set below zero and no plan names a warehouse twice
  for a product: no level is ever negative, the pickings have distinct ids below the next one, and what a
  picking moves is positive.
\<close>

theorem inventory_stays_well_formed:
  assumes "inventory_ok st" and "\<forall>q\<in>set qs. inventory_request_ok q"
  shows "inventory_ok (fold stock_step qs st)"
  using assms by (induction qs arbitrary: st) (simp_all add: stock_step_ok)

lemma batch_pickings_shipped:
  assumes "each_result (ship_allocation order b items) xs st = Inr st'"
  shows "batch_pickings c st' = batch_pickings c st @
    (if c = b then drop (length (inv_pickings st)) (inv_pickings st') else [])"
    and "map pck_content (drop (length (inv_pickings st)) (inv_pickings st')) = map (\<lambda>a. Some (spi_product_id a, spi_quantity a)) xs"
proof -
  obtain ids where ids: "inv_pickings st' = inv_pickings st @ map2 (shipped_picking order b items) xs ids" "length ids = length xs"
    using ship_pickings[OF assms] by blast
  have "filter (\<lambda>p. pck_batch_id p = Some c) (map2 (shipped_picking order b items) xs ids) =
      (if c = b then map2 (shipped_picking order b items) xs ids else [])"
    by (induction xs ids rule: list_induct2') auto
  then show "batch_pickings c st' = batch_pickings c st @
      (if c = b then drop (length (inv_pickings st)) (inv_pickings st') else [])"
    using ids(1) by (simp add: batch_pickings_def)
  have "map pck_content (map2 (shipped_picking order b items) xs ids) = map (\<lambda>a. Some (spi_product_id a, spi_quantity a)) xs"
    using ids(2) by (induction xs ids rule: list_induct2') auto
  then show "map pck_content (drop (length (inv_pickings st)) (inv_pickings st')) = map (\<lambda>a. Some (spi_product_id a, spi_quantity a)) xs"
    using ids(1) by simp
qed

lemma batch_pickings_frames [simp]:
  "batch_pickings b (put_levels p w l st) = batch_pickings b st" "batch_pickings b (register_order i s st) = batch_pickings b st"
  "batch_pickings b (seed_inventory p ls st) = batch_pickings b st"
proof -
  show l: "batch_pickings b (put_levels p w l st) = batch_pickings b st" for p w l st by (simp add: batch_pickings_def)
  show "batch_pickings b (register_order i s st) = batch_pickings b st" by (simp add: batch_pickings_def register_order_def)
  have "batch_pickings b (fold (\<lambda>(w, l). put_levels p w l) ls st) = batch_pickings b st" for st
    by (induction ls arbitrary: st) (auto simp: l)
  then show "batch_pickings b (seed_inventory p ls st) = batch_pickings b st"
    by (simp add: seed_inventory_def) (simp add: batch_pickings_def)
qed

lemma batch_kept:
  assumes "batch_pickings b st \<noteq> []" and "\<not> adds_picking b q"
  shows "batch_pickings b (stock_step q st) = batch_pickings b st"
proof (cases q)
  case (Apply_Split ord plan c idem fresh)
  show ?thesis
  proof (cases "snd (apply_split_plan ord plan c idem fresh st)")
    case (Inr x)
    then obtain r st' where x: "apply_split_plan ord plan c idem fresh st = (fst (apply_split_plan ord plan c idem fresh st), Inr (r, st'))"
      "x = (r, st')" by (metis prod.collapse)
    have "batch_pickings b st' = batch_pickings b st"
      using executed_batch[OF applied_split(1,2)[OF x(1)]] batch_pickings_shipped(1) assms(1) by (auto split: if_splits)
    then show ?thesis using Apply_Split Inr x(2) by simp
  qed (use Apply_Split in simp)
qed (use assms in \<open>auto simp: set_warehouse_stock_def add_standalone_picking_def\<close>,
    auto simp: batch_pickings_def)

text \<open>
  C8: A batch ships once. When a plan is executed and not merely found executed before, its batch had no
  pickings; afterwards it has exactly one for each allocation, with its product and quantity, and these
  are the pickings the result names. No later request, a repetition of the plan or another plan under the
  same batch included, adds a picking to the batch, other than one put there by hand.
\<close>

theorem batch_ships_once:
  assumes "apply_split_plan order plan batch idem fresh st = (plan', Inr (r, st'))" and "\<not> apl_already_applied r"
    and "\<forall>q\<in>set qs. \<not> adds_picking (apl_batch_id r) q"
  shows "batch_pickings (apl_batch_id r) st = [] \<and>
    map pck_content (batch_pickings (apl_batch_id r) st') =
      map (\<lambda>a. Some (spi_product_id a, spi_quantity a)) (spl_allocations plan) \<and>
    map pck_id (batch_pickings (apl_batch_id r) st') = apl_picking_ids r \<and>
    batch_pickings (apl_batch_id r) (fold stock_step qs st') = batch_pickings (apl_batch_id r) st'"
proof -
  let ?b = "apl_batch_id r"
  note ap = applied_split[OF assms(1)]
  have ex: "?b = target_batch batch plan fresh" "batch_pickings ?b st = []"
      "each_result (ship_allocation order ?b (spl_allocations plan)) (spl_allocations plan) st = Inr st'"
      "apl_picking_ids r = map pck_id (drop (length (inv_pickings st)) (inv_pickings st'))"
    using executed_batch[OF ap(1,2)] assms(2) by auto
  have new: "batch_pickings ?b st' = drop (length (inv_pickings st)) (inv_pickings st')"
    using batch_pickings_shipped(1)[OF ex(3)] ex(2) by simp
  have content: "map pck_content (batch_pickings ?b st') = map (\<lambda>a. Some (spi_product_id a, spi_quantity a)) (spl_allocations plan)"
    using batch_pickings_shipped(2)[OF ex(3)] new by simp
  then have "batch_pickings ?b st' \<noteq> []" using ap(3) by auto
  then have "batch_pickings ?b (fold stock_step qs st') = batch_pickings ?b st'" using assms(3)
    by (induction qs arbitrary: st') (auto simp: batch_kept)
  then show ?thesis using ex(2,4) new content by simp
qed

section \<open>From a split to its execution\<close>

lemma epsilon_bounds: "0 \<le> qty_epsilon" "qty_epsilon < 1" "0 \<le> sum_tolerance"
proof -
  have "qty_epsilon \<le> fl64 (1 / 2)" unfolding qty_epsilon_def by (rule fl64_mono) simp
  also have "fl64 (1 / 2 :: rat) = 1 / 2" by (rule fl64_eval) (simp_all add: floor_fractions)
  finally show "qty_epsilon < 1" by simp
qed (simp_all add: qty_epsilon_def sum_tolerance_def fl64_nonneg)

definition split_item_ok :: "int \<Rightarrow> warehouse_stock list \<Rightarrow> split_item \<Rightarrow> bool" where
  "split_item_ok p ws a = (spi_product_id a = p \<and> whole (spi_quantity a) \<and> 0 < spi_quantity a \<and>
     (\<exists>w\<in>set ws. whs_warehouse_id w = spi_warehouse_id a \<and> spi_quantity a \<le> whs_available w))"

lemma split_item_ok_more: "split_item_ok p ws a \<Longrightarrow> split_item_ok p (w # ws) a"
  by (auto simp: split_item_ok_def)

lemma split_over_exact:
  assumes "\<forall>w\<in>set ws. whole (whs_available w)" and "distinct (map whs_warehouse_id ws)"
    and "whole q" and "0 < q" and "q \<le> sum_list (map whs_available ws)" and "q < 2 ^ 53"
  shows "sum_list (map spi_quantity (split_over p ws q)) = q \<and> distinct (map spi_warehouse_id (split_over p ws q)) \<and>
    (\<forall>a\<in>set (split_over p ws q). split_item_ok p ws a)"
  using assms
proof (induction ws arbitrary: q)
  case (Cons w ws)
  let ?take = "min (whs_available w) q"
  have wh: "whole (whs_available w)" "0 \<le> whs_available w" using Cons.prems(1) whole_nonneg by auto
  have take: "whole ?take" "fround ?take 4 = ?take" "fsub q ?take = q - ?take"
    using wh Cons.prems by (auto simp: whole_min fsub_def intro!: fround_whole fl64_whole whole_diff)
  show ?case
  proof (cases "whs_available w \<le> 0")
    case True
    then show ?thesis using Cons.IH[of q] Cons.prems wh split_item_ok_more by auto
  next
    case False
    have item: "split_item_ok p (w # ws) \<lparr>spi_product_id = p, spi_warehouse_id = whs_warehouse_id w,
        spi_warehouse_name = whs_warehouse_name w, spi_quantity = fround ?take 4\<rparr>"
      using False take(1) Cons.prems(4) by (simp add: split_item_ok_def take(2))
    show ?thesis
    proof (cases "q \<le> whs_available w")
      case True
      then show ?thesis using False take item epsilon_bounds(1) by (simp add: min_def Let_def)
    next
      case more: False
      have left: "whole (q - whs_available w)" "0 < q - whs_available w" "whs_available w \<le> q"
        using more wh Cons.prems(3) by (auto intro: whole_diff)
      then have "\<not> q - whs_available w \<le> qty_epsilon" using whole_pos[OF left(1,2)] epsilon_bounds(2) by linarith
      then have eq: "split_over p (w # ws) q = \<lparr>spi_product_id = p, spi_warehouse_id = whs_warehouse_id w,
          spi_warehouse_name = whs_warehouse_name w, spi_quantity = fround ?take 4\<rparr> # split_over p ws (q - whs_available w)"
        using False left(3) take(3) by (simp add: Let_def min_def)
      have IH: "sum_list (map spi_quantity (split_over p ws (q - whs_available w))) = q - whs_available w \<and>
          distinct (map spi_warehouse_id (split_over p ws (q - whs_available w))) \<and>
          (\<forall>a\<in>set (split_over p ws (q - whs_available w)). split_item_ok p ws a)"
        by (rule Cons.IH) (use Cons.prems left wh in auto)
      then have "spi_warehouse_id ` set (split_over p ws (q - whs_available w)) \<subseteq> whs_warehouse_id ` set ws"
        by (force simp: split_item_ok_def)
      then have "whs_warehouse_id w \<notin> spi_warehouse_id ` set (split_over p ws (q - whs_available w))"
        using Cons.prems(2) by auto
      then show ?thesis unfolding eq using IH item take(2) left(3) split_item_ok_more by (auto simp: min_def)
    qed
  qed
qed simp

text \<open>What the warehouses give is what the items take.\<close>

lemma taken_over_warehouses:
  assumes "distinct ids" and "distinct (map f xs)" and "f ` set xs \<subseteq> set ids"
  shows "sum_list (map (\<lambda>i. case find (\<lambda>a. f a = i) xs of None \<Rightarrow> 0 | Some a \<Rightarrow> (g a :: rat)) ids) = sum_list (map g xs)"
  using assms(2,3)
proof (induction xs)
  case (Cons a xs)
  let ?h = "\<lambda>i. case find (\<lambda>a. f a = i) xs of None \<Rightarrow> 0 | Some a \<Rightarrow> g a"
  have "f a \<notin> f ` set xs" using Cons.prems(1) by simp
  then have "find (\<lambda>c. f c = f a) xs = None" by (simp add: find_None_iff) (metis imageI)
  then have "(case find (\<lambda>c. f c = i) (a # xs) of None \<Rightarrow> 0 | Some a \<Rightarrow> g a) = (if i = f a then g a else 0) + ?h i" for i
    by auto
  moreover have "sum_list (map (\<lambda>i. (if i = f a then g a else 0) + ?h i) ids) = g a + sum_list (map ?h ids)"
    using assms(1) Cons.prems(2) by (simp add: sum_list_addf sum_list_distinct_conv_sum_set)
  ultimately show ?case using Cons by simp
qed simp

definition availability :: "int \<Rightarrow> inventory \<Rightarrow> rat" where
  "availability p st = sum_list (map (\<lambda>w. lvl_available (levels_of p (iwh_id w) st)) (inv_warehouses st))"

definition whole_stock :: "int \<Rightarrow> inventory \<Rightarrow> bool" where
  "whole_stock p st = ((\<forall>w\<in>set (inv_warehouses st). whole (lvl_available (levels_of p (iwh_id w) st)) \<and> 0 < iwh_id w) \<and>
     distinct (map iwh_id (inv_warehouses st)) \<and> availability p st < 2 ^ 53)"

lemma mset_warehouse_order: "mset (warehouse_order st) = mset (inv_warehouses st)"
  by (simp add: warehouse_order_def)

lemma warehouse_order_sum: "sum_list (map f (warehouse_order st)) = (sum_list (map f (inv_warehouses st)) :: rat)"
  by (metis mset_map mset_warehouse_order sum_mset_sum_list)

lemma set_warehouse_order [simp]: "set (warehouse_order st) = set (inv_warehouses st)"
  by (metis mset_warehouse_order set_mset_mset)

lemma distinct_warehouse_order:
  "distinct (map iwh_id (warehouse_order st)) = distinct (map iwh_id (inv_warehouses st))"
  by (metis mset_map mset_warehouse_order mset_eq_imp_distinct_iff)

lemma ordered_levels:
  "whs_available \<circ> warehouse_levels p st = (\<lambda>w. lvl_available (levels_of p (iwh_id w) st))"
  "whs_warehouse_id \<circ> warehouse_levels p st = iwh_id"
  by (simp_all add: fun_eq_iff warehouse_levels_def)

lemma available_stock_whole:
  assumes "0 < p" and "\<forall>w\<in>set (inv_warehouses st). whole (lvl_available (levels_of p (iwh_id w) st))"
    and "availability p st < 2 ^ 53"
  shows "get_available_stock p st = Inr (availability p st)"
proof -
  let ?xs = "map (\<lambda>w. lvl_available (levels_of p (iwh_id w) st)) (warehouse_order st)"
  have "sum_list ?xs = availability p st" by (simp add: warehouse_order_sum availability_def)
  moreover have "foldl fadd 0 ?xs = sum_list ?xs" by (rule fsum_whole) (use assms calculation in auto)
  ultimately show ?thesis using assms(1) by (simp add: get_available_stock_def get_warehouse_stock_def ordered_levels)
qed

lemma shipped_warehouses:
  "each_result (ship_allocation order b items) xs st = Inr st' \<Longrightarrow> inv_warehouses st' = inv_warehouses st"
  by (rule each_result_invariant[where P = "\<lambda>x. inv_warehouses x = inv_warehouses st"])
     (auto simp: ship_stored split: option.splits)

lemma calculated_whole:
  assumes "0 < order" and "0 < p" and "whole_stock p st" and "whole q" and "0 < q" and "q \<le> availability p st"
  defines "items \<equiv> split_over p (map (warehouse_levels p st) (warehouse_order st)) q"
  shows "calculate_fulfillment_split order p q st =
      Inr \<lparr>spl_order_id = order, spl_allocations = items, spl_batch_id = None, spl_requested_qty = Some q\<rparr>"
    and "sum_list (map spi_quantity items) = q" and "plan_total items = q" and "items \<noteq> []"
    and "distinct (map spi_warehouse_id items)"
    and "\<forall>a\<in>set items. spi_product_id a = p \<and> whole (spi_quantity a) \<and> 0 < spi_quantity a \<and>
      spi_warehouse_id a \<in> iwh_id ` set (inv_warehouses st) \<and>
      spi_quantity a \<le> lvl_available (levels_of p (spi_warehouse_id a) st)"
proof -
  let ?ws = "map (warehouse_levels p st) (warehouse_order st)"
  have total: "sum_list (map whs_available ?ws) = availability p st"
    by (simp add: ordered_levels warehouse_order_sum availability_def)
  have ws: "\<forall>w\<in>set ?ws. whole (whs_available w)" "distinct (map whs_warehouse_id ?ws)" "q < 2 ^ 53"
    using assms(3,6) by (auto simp: whole_stock_def warehouse_levels_def ordered_levels distinct_warehouse_order)
  note ex = split_over_exact[OF ws(1,2) assms(4,5) _ ws(3), of p, folded items_def]
  have items: "sum_list (map spi_quantity items) = q" "distinct (map spi_warehouse_id items)"
      "\<forall>a\<in>set items. split_item_ok p ?ws a"
    using ex assms(6) total by simp_all
  then show "sum_list (map spi_quantity items) = q" "distinct (map spi_warehouse_id items)" by simp_all
  show "\<forall>a\<in>set items. spi_product_id a = p \<and> whole (spi_quantity a) \<and> 0 < spi_quantity a \<and>
      spi_warehouse_id a \<in> iwh_id ` set (inv_warehouses st) \<and>
      spi_quantity a \<le> lvl_available (levels_of p (spi_warehouse_id a) st)"
    using items(3) by (auto simp: split_item_ok_def warehouse_levels_def) (metis imageI)
  have "foldl fadd 0 (map spi_quantity items) = sum_list (map spi_quantity items)"
    by (rule fsum_whole) (use items ws(3) in \<open>auto simp: split_item_ok_def\<close>)
  then show pt: "plan_total items = q" using items(1) by (simp add: plan_total_def)
  show ne: "items \<noteq> []" using items(1) assms(5) by auto
  have "get_available_stock p st = Inr (availability p st)"
    by (rule available_stock_whole) (use assms(2,3) in \<open>auto simp: whole_stock_def\<close>)
  then have "foldl fadd 0 (map whs_available ?ws) = availability p st"
    using assms(2) by (simp add: get_available_stock_def get_warehouse_stock_def)
  then show "calculate_fulfillment_split order p q st =
      Inr \<lparr>spl_order_id = order, spl_allocations = items, spl_batch_id = None, spl_requested_qty = Some q\<rparr>"
    using assms(1,2,5,6) pt ne epsilon_bounds(3) fround_whole[OF assms(4) ws(3)]
    by (simp add: calculate_fulfillment_split_def get_warehouse_stock_def Let_def fsub_def flip: items_def)
qed

lemma shipped_level:
  assumes "whole_stock p st" and "\<forall>a\<in>set items. stocked st a"
    and "\<forall>a\<in>set items. spi_product_id a = p \<and> whole (spi_quantity a) \<and> 0 < spi_quantity a \<and>
      spi_warehouse_id a \<in> iwh_id ` set (inv_warehouses st) \<and>
      spi_quantity a \<le> lvl_available (levels_of p (spi_warehouse_id a) st)"
    and "\<forall>p' w. stored_levels p' w st' = (case find (\<lambda>a. item_key a = (p', w)) items of None \<Rightarrow> stored_levels p' w st
      | Some a \<Rightarrow> map_option (deducted (spi_quantity a)) (stored_levels p' w st))"
    and "w \<in> set (inv_warehouses st)"
  shows "lvl_available (levels_of p (iwh_id w) st') = lvl_available (levels_of p (iwh_id w) st) -
      (case find (\<lambda>a. spi_warehouse_id a = iwh_id w) items of None \<Rightarrow> 0 | Some a \<Rightarrow> spi_quantity a) \<and>
    whole (lvl_available (levels_of p (iwh_id w) st'))"
proof -
  have key: "find (\<lambda>a. item_key a = (p, w)) items = find (\<lambda>a. spi_warehouse_id a = w) items" for w
    using assms(3) by (intro find_cong) (auto simp: item_key_def)
  show ?thesis
  proof (cases "find (\<lambda>a. spi_warehouse_id a = iwh_id w) items")
    case None
    then have "levels_of p (iwh_id w) st' = levels_of p (iwh_id w) st" using assms(4) by (simp add: levels_of_stored key)
    then show ?thesis using None assms(1,5) by (simp add: whole_stock_def)
  next
    case (Some a)
    then have a: "a \<in> set items" "spi_warehouse_id a = iwh_id w" by (auto simp: find_Some_iff)
    obtain l where l: "stored_levels p (iwh_id w) st = Some l" using assms(2,3) a by (force simp: stocked_def)
    have lv: "whole (lvl_available l)" "spi_quantity a \<le> lvl_available l" "whole (spi_quantity a)"
      using assms(1,3,5) l a by (auto simp: whole_stock_def levels_of_stored)
    have "lvl_available l \<le> availability p st"
      unfolding availability_def using l assms(1,5) whole_nonneg
      by (intro member_le_sum_list) (force simp: whole_stock_def levels_of_stored image_iff)+
    then have "lvl_available l < 2 ^ 53" using assms(1) by (simp add: whole_stock_def)
    moreover have "lvl_available l - spi_quantity a \<le> lvl_available l" using whole_nonneg[OF lv(3)] by simp
    ultimately have "lvl_available (deducted (spi_quantity a) l) = lvl_available l - spi_quantity a"
      using lv by (simp add: deducted_def fsub_def fl64_whole fround_whole whole_diff)
    then show ?thesis using l lv Some assms(4) by (simp add: levels_of_stored key whole_diff)
  qed
qed

text \<open>
  C34: A split can be executed. For whole quantities below two to the 53rd: when a product has at least the
  quantity asked for over all warehouses and the order is open, then the split of the quantity exists, takes
  exactly it, and its execution under a new batch succeeds; afterwards the stock that the adapter
  reports for the product is lower by exactly that quantity.
\<close>

theorem calculated_split_applies:
  assumes "whole_stock p st" and "inventory_ok st" and "0 < order" and "0 < p" and "whole q" and "0 < q"
    and "q \<le> availability p st" and "inv_orders st order = Some state" and "state \<notin> {''cancel'', ''done''}"
    and "batch_pickings fresh st = []"
  shows "\<exists>plan r st'. calculate_fulfillment_split order p q st = Inr plan \<and>
    sum_list (map spi_quantity (spl_allocations plan)) = q \<and>
    apply_split_plan order plan None idem fresh st = (plan\<lparr>spl_batch_id := Some fresh\<rparr>, Inr (r, st')) \<and>
    \<not> apl_already_applied r \<and> inventory_ok st' \<and>
    get_available_stock p st = Inr (availability p st) \<and> get_available_stock p st' = Inr (availability p st - q)"
proof -
  note calc = calculated_whole[OF assms(3,4,1,5,6,7)]
  define items where "items = split_over p (map (warehouse_levels p st) (warehouse_order st)) q"
  let ?plan = "\<lparr>spl_order_id = order, spl_allocations = items, spl_batch_id = None, spl_requested_qty = Some q\<rparr>"
  note calc = calc[folded items_def]
  have checked: "check_allocation a st = Inr st" if "a \<in> set items" for a
    using calc(6) that assms(4) by (auto simp: checked_allocation)
  then have stocked: "\<forall>a\<in>set items. stocked st a" using calc(6) checked_stocked by blast
  have "map item_key items = map (\<lambda>i. (p, i)) (map spi_warehouse_id items)" using calc(6) by (simp add: item_key_def)
  then have keys: "distinct (map item_key items)" using calc(5) by (simp add: distinct_map inj_on_def)
  obtain st' where st': "each_result (ship_allocation order fresh items) items st = Inr st'" "inventory_ok st'"
      "\<forall>p' w. stored_levels p' w st' = (case find (\<lambda>a. item_key a = (p', w)) items of None \<Rightarrow> stored_levels p' w st
        | Some a \<Rightarrow> map_option (deducted (spi_quantity a)) (stored_levels p' w st))"
    using ship_all[OF stocked keys assms(2)] by blast
  have small: "q < 2 ^ 53" using assms(1,7) by (simp add: whole_stock_def)
  have "check_split_plan order ?plan st = Inr ()"
    using assms(3,6,8,9) calc(3,4,6) epsilon_bounds(3) assms(1)
    by (auto simp: check_split_plan_def list_ex_iff fsub_def whole_stock_def not_le)
  moreover have "execute_batch order fresh idem ?plan st = Inr (applied_result False order fresh ?plan
      (map pck_id (drop (length (inv_pickings st)) (inv_pickings st'))), st')"
    using assms(10) checked st'(1)
    by (simp add: execute_batch_def checked_allocations iffD2[OF checked_allocations])
  ultimately have applied: "apply_split_plan order ?plan None idem fresh st = (?plan\<lparr>spl_batch_id := Some fresh\<rparr>,
      Inr (applied_result False order fresh ?plan (map pck_id (drop (length (inv_pickings st)) (inv_pickings st'))), st'))"
    by (simp add: apply_split_plan_def target_batch_def str_or_def)
  have frame: "inv_warehouses st' = inv_warehouses st" using shipped_warehouses[OF st'(1)] .
  let ?taken = "\<lambda>w. case find (\<lambda>a. spi_warehouse_id a = w) items of None \<Rightarrow> 0 | Some a \<Rightarrow> spi_quantity a"
  note level = shipped_level[OF assms(1) stocked calc(6) st'(3)]
  have "sum_list (map (\<lambda>w. ?taken (iwh_id w)) (inv_warehouses st)) = sum_list (map ?taken (map iwh_id (inv_warehouses st)))"
    by (simp add: comp_def)
  also have "\<dots> = sum_list (map spi_quantity items)"
    by (rule taken_over_warehouses) (use assms(1) calc(5,6) in \<open>auto simp: whole_stock_def\<close>)
  finally have "availability p st' = availability p st - q"
    using level[THEN conjunct1] calc(2) by (simp add: availability_def frame sum_list_subtractf cong: map_cong)
  moreover have "\<forall>w\<in>set (inv_warehouses st'). whole (lvl_available (levels_of p (iwh_id w) st'))"
    using level frame by (metis conjunct2)
  ultimately have "get_available_stock p st' = Inr (availability p st - q)"
    using available_stock_whole[OF assms(4), of st'] assms(1,6) by (simp add: whole_stock_def)
  moreover have "get_available_stock p st = Inr (availability p st)"
    using assms(1) by (intro available_stock_whole[OF assms(4)]) (auto simp: whole_stock_def)
  ultimately show ?thesis using applied calc(1,2) st'(2) by (force simp: applied_result_def)
qed

section \<open>Overselling\<close>

text \<open>
  The check of a plan looks at every allocation alone, so a plan that names a warehouse twice takes more
  than the warehouse has.
\<close>

definition twice_item :: split_item where
  "twice_item = \<lparr>spi_product_id = 1, spi_warehouse_id = 1, spi_warehouse_name = ''WH1'', spi_quantity = 6\<rparr>"

definition twice_plan :: split_plan where
  "twice_plan = \<lparr>spl_order_id = 1, spl_allocations = [twice_item, twice_item], spl_batch_id = Some ''B1'', spl_requested_qty = Some 12\<rparr>"

lemma twice_simps [simp]:
  "spi_product_id twice_item = 1" "spi_warehouse_id twice_item = 1" "spi_quantity twice_item = 6"
  "spl_order_id twice_plan = 1" "spl_allocations twice_plan = [twice_item, twice_item]" "spl_batch_id twice_plan = Some ''B1''"
  "spl_requested_qty twice_plan = Some 12"
  by (simp_all add: twice_item_def twice_plan_def)

lemma new_inventory_levels:
  "stored_levels 1 w new_inventory = (if w = 1 then Some \<lparr>lvl_available = 9, lvl_reserved = 0, lvl_incoming = 5\<rparr>
     else if w = 2 then Some \<lparr>lvl_available = 15, lvl_reserved = 0, lvl_incoming = 10\<rparr>
     else if w = 3 then Some \<lparr>lvl_available = 10, lvl_reserved = 0, lvl_incoming = 0\<rparr> else None)"
  "p \<noteq> 1 \<Longrightarrow> stored_levels p w new_inventory = None"
  by (auto simp: new_inventory_def seed_inventory_def) (auto simp: stored_levels_def)

lemma new_inventory_frame [simp]:
  "inv_warehouses new_inventory = default_warehouses" "inv_pickings new_inventory = []"
  "inv_orders new_inventory = (\<lambda>_. None)(1 := Some ''sale'', 101 := Some ''sale'')"
  by (simp_all add: new_inventory_def seed_inventory_def)

lemma new_inventory_ok: "inventory_ok new_inventory"
proof -
  have "levels_ok l" if "stored_levels p w new_inventory = Some l" for p w l
    using that by (cases "p = 1") (auto simp: new_inventory_levels levels_ok_def split: if_splits)
  then show ?thesis by (simp add: inventory_ok_def)
qed

lemma twice_executed:
  "\<exists>r st'. execute_batch 1 ''B1'' False twice_plan new_inventory = Inr (r, st') \<and> lvl_available (levels_of 1 1 st') = -3"
proof -
  have "check_allocation twice_item new_inventory = Inr new_inventory"
    by (simp add: checked_allocation levels_of_stored new_inventory_levels default_warehouses_def)
  moreover have "fround (fsub 9 6) 4 = 3" "fround (fsub 3 6) 4 = -3"
    using round_half_even_of_int[of 30000] by (simp_all add: fsub_def fl64_eval fround_def pyround_def round_half_even_neg)
  ultimately show ?thesis
    by (simp add: execute_batch_def batch_pickings_def ship_stored new_inventory_levels deducted_def levels_of_stored)
qed

theorem repeated_allocation_oversells:
  "\<exists>plan r st'. apply_split_plan 1 twice_plan None False [] new_inventory = (plan, Inr (r, st')) \<and>
    lvl_available (levels_of 1 1 st') = -3"
proof -
  have "check_split_plan 1 twice_plan new_inventory = Inr ()"
    by (simp add: check_split_plan_def plan_total_def fadd_def fsub_def fl64_eval epsilon_bounds(3) not_less)
  then show ?thesis using twice_executed by (auto simp: apply_split_plan_def target_batch_def str_or_def)
qed

text \<open>A plan that names the warehouse once is executed, between two other requests.\<close>

definition once_plan :: split_plan where
  "once_plan = twice_plan\<lparr>spl_allocations := [twice_item], spl_requested_qty := Some 6\<rparr>"

lemma once_simps [simp]:
  "spl_order_id once_plan = 1" "spl_allocations once_plan = [twice_item]" "spl_batch_id once_plan = Some ''B1''"
  "spl_requested_qty once_plan = Some 6"
  by (simp_all add: once_plan_def)

lemma once_applied:
  "\<exists>plan r st'. apply_split_plan 1 once_plan None False [] new_inventory = (plan, Inr (r, st')) \<and>
    lvl_available (levels_of 1 1 st') = 3"
proof -
  have "check_split_plan 1 once_plan new_inventory = Inr ()"
    by (simp add: check_split_plan_def plan_total_def fadd_def fsub_def fl64_eval epsilon_bounds(3) not_less)
  moreover have "check_allocation twice_item new_inventory = Inr new_inventory"
    by (simp add: checked_allocation levels_of_stored new_inventory_levels default_warehouses_def)
  moreover have "fround (fsub 9 6) 4 = 3"
    using round_half_even_of_int[of 30000] by (simp add: fsub_def fl64_eval fround_def pyround_def)
  ultimately show ?thesis
    by (auto simp: apply_split_plan_def target_batch_def str_or_def execute_batch_def batch_pickings_def ship_stored
        new_inventory_levels deducted_def levels_of_stored)
qed

theorem inventory_stays_well_formed_witness:
  "\<exists>st. fold stock_step [Apply_Split 1 once_plan None False []] new_inventory = st \<and> lvl_available (levels_of 1 1 st) = 3 \<and>
     inventory_ok (fold stock_step [Set_Stock 2 1 5 0 0, Register_Order 7 ''sale''] st)"
proof -
  let ?q = "Apply_Split 1 once_plan None False []"
  have "inventory_ok (fold stock_step [?q, Set_Stock 2 1 5 0 0, Register_Order 7 ''sale''] new_inventory)"
    by (rule inventory_stays_well_formed[OF new_inventory_ok]) simp
  then show ?thesis using once_applied by auto
qed

theorem batch_ships_once_witness:
  "\<exists>plan r st'. apply_split_plan 1 twice_plan None False [] new_inventory = (plan, Inr (r, st')) \<and>
    batch_pickings ''B1'' (fold stock_step [Apply_Split 1 twice_plan None False []] st') = batch_pickings ''B1'' st'"
proof -
  obtain plan r st' where a: "apply_split_plan 1 twice_plan None False [] new_inventory = (plan, Inr (r, st'))"
    using repeated_allocation_oversells by blast
  note ex = executed_batch[OF applied_split(1,2)[OF a]]
  have b: "apl_batch_id r = ''B1''" using ex by (simp add: target_batch_def twice_plan_def str_or_def)
  have "\<not> apl_already_applied r" using ex by (auto simp: batch_pickings_def)
  from batch_ships_once[OF a this, of "[Apply_Split 1 twice_plan None False []]"] show ?thesis using a b by auto
qed

lemma new_inventory_whole: "whole_stock 1 new_inventory" "availability 1 new_inventory = 34"
  by (simp_all add: whole_stock_def availability_def default_warehouses_def levels_of_stored new_inventory_levels)

theorem calculated_split_applies_witness:
  "\<exists>plan r st'. calculate_fulfillment_split 1 1 15 new_inventory = Inr plan \<and>
    apply_split_plan 1 plan None False ''B2'' new_inventory = (plan\<lparr>spl_batch_id := Some ''B2''\<rparr>, Inr (r, st')) \<and>
    get_available_stock 1 st' = Inr 19"
  using calculated_split_applies[OF new_inventory_whole(1) new_inventory_ok, of 1 15 "''sale''" "''B2''" False]
  by (auto simp: new_inventory_whole(2) batch_pickings_def)

end
