(* ===== verification/Addon_Service.thy ===== *)
theory Addon_Service
  imports Addon_Sales Addon_Events Addon_Accounting Addon_Inventory
begin

text \<open>
  The addon's facade, \<^verbatim>\<open>dealflow_odoo/services/integration_service.py\<close>. It is composed as its constructor's
  arguments allow: the sales adapter on the orders of Odoo, the inventory and accounting adapters on their
  own stores. Every call runs in a boundary that translates its exceptions and writes an audit entry. A call that fails leaves the
  state that it had reached, so an event that cannot be dispatched does not undo a confirmation. The
  data of an event and the texts of errors are parameters or left out.
\<close>

section \<open>The facade's state\<close>

record audit_entry =
  ade_operation :: string
  ade_deal_id :: "string option"
  ade_record_id :: odoo_id
  ade_actor :: string
  ade_timestamp :: string
  ade_result :: string
  ade_failure :: "addon_error option"

record 'w integration =
  int_world :: addon_world
  int_partners :: "odoo_partner list"
  int_products :: "product_record list"
  int_stock :: inventory
  int_books :: accounting
  int_events :: event_dispatcher
  int_audit :: "audit_entry list"
  int_outside :: 'w

text \<open>What a call reads and does not change: Odoo, the user, the clocks, the environment's signing key.\<close>

record 'w service_env =
  sve_orm :: orm
  sve_user :: odoo_user
  sve_actor :: string
  sve_actor_id :: "int option"
  sve_time :: string
  sve_now :: instant
  sve_seconds :: int
  sve_year :: int
  sve_signing :: "string option"
  sve_mac :: mac
  sve_outside :: "'w outside"
  sve_data :: "string \<Rightarrow> odoo_id \<Rightarrow> string"

section \<open>The boundary of an operation\<close>

definition log_audit :: "audit_entry \<Rightarrow> 'w integration \<Rightarrow> 'w integration" where
  "log_audit e s = (let es = int_audit s @ [e] in s\<lparr>int_audit := (if 1000 < length es then tl es else es)\<rparr>)"

definition audit_record :: "'w service_env \<Rightarrow> string \<Rightarrow> odoo_id \<Rightarrow> string option \<Rightarrow> addon_error option \<Rightarrow> audit_entry" where
  "audit_record env op i deal failure = \<lparr>ade_operation = op, ade_deal_id = deal, ade_record_id = i, ade_actor = sve_actor env,
     ade_timestamp = sve_time env, ade_result = (if failure = None then ''SUCCESS'' else ''FAILURE''), ade_failure = failure\<rparr>"

text \<open>The body of an operation gives its result, the deal that the boundary knows at its end, and the state.\<close>

type_synonym ('w, 'a) operation = "'w integration \<Rightarrow> (addon_error + 'a) \<times> string option \<times> 'w integration"

definition operation_boundary ::
    "'w service_env \<Rightarrow> string \<Rightarrow> odoo_id \<Rightarrow> ('w, 'a) operation \<Rightarrow> 'w integration \<Rightarrow> (addon_error + 'a) \<times> 'w integration" where
  "operation_boundary env op i body s = (case body s of
     (Inr x, deal, s') \<Rightarrow> (Inr x, log_audit (audit_record env op i deal None) s')
   | (Inl e, deal, s') \<Rightarrow> (Inl (translate_error e), log_audit (audit_record env op i deal (Some e)) s'))"

text \<open>The latest first; a limit of zero, or a negative one, is a slice from the front.\<close>

definition get_audit_logs :: "int \<Rightarrow> 'w integration \<Rightarrow> audit_entry list" where
  "get_audit_logs limit s = (let es = int_audit s in
     rev (if 0 < limit then keep_last (nat limit) es else drop (nat (- limit)) es))"

definition named_deal :: "string option \<Rightarrow> string option" where
  "named_deal x = (if str_or x [] = [] then None else x)"

definition reading :: "('w integration \<Rightarrow> addon_error + 'a) \<Rightarrow> ('a \<Rightarrow> string option) \<Rightarrow> ('w, 'a) operation" where
  "reading f deal s = (f s, (case f s of Inl e \<Rightarrow> None | Inr x \<Rightarrow> named_deal (deal x)), s)"

definition event_of :: "'w service_env \<Rightarrow> string \<Rightarrow> odoo_id \<Rightarrow> string \<Rightarrow> string option \<Rightarrow> event_payload" where
  "event_of env ty i model deal = \<lparr>evp_event_type = ty, evp_timestamp = sve_time env, evp_actor_id = sve_actor_id env,
     evp_record_id = i, evp_model = model, evp_data = sve_data env ty i, evp_deal_id = deal\<rparr>"

definition emit_event :: "'w service_env \<Rightarrow> event_payload \<Rightarrow> 'w integration \<Rightarrow> addon_error option \<times> 'w integration" where
  "emit_event env e s = (case dispatch (sve_outside env) (sve_mac env) (sve_signing env) e (int_events s) (int_outside s) of
     (d, Inl err) \<Rightarrow> (Some err, s\<lparr>int_events := d\<rparr>)
   | (d, Inr (_, w)) \<Rightarrow> (None, s\<lparr>int_events := d, int_outside := w\<rparr>))"

fun emit_events :: "'w service_env \<Rightarrow> event_payload list \<Rightarrow> 'w integration \<Rightarrow> addon_error option \<times> 'w integration" where
  "emit_events env [] s = (None, s)"
| "emit_events env (e # es) s = (case emit_event env e s of (Some err, s') \<Rightarrow> (Some err, s') | (None, s') \<Rightarrow> emit_events env es s')"

definition finish_with :: "'w service_env \<Rightarrow> event_payload list \<Rightarrow> 'a \<Rightarrow> string option \<Rightarrow> ('w, 'a) operation" where
  "finish_with env es x deal s = (case emit_events env es s of (Some err, s') \<Rightarrow> (Inl err, deal, s') | (None, s') \<Rightarrow> (Inr x, deal, s'))"

section \<open>Customers, products, orders\<close>

definition service_get_customer :: "'w service_env \<Rightarrow> odoo_id \<Rightarrow> 'w integration \<Rightarrow> (addon_error + customer_dto) \<times> 'w integration" where
  "service_get_customer env i =
     operation_boundary env ''get_customer'' i (reading (\<lambda>s. get_customer i (int_partners s)) (\<lambda>_. None))"

definition service_get_product :: "'w service_env \<Rightarrow> odoo_id \<Rightarrow> 'w integration \<Rightarrow> (addon_error + product_dto) \<times> 'w integration" where
  "service_get_product env i =
     operation_boundary env ''get_product'' i (reading (\<lambda>s. get_product i (int_products s)) (\<lambda>_. None))"

definition service_get_order ::
    "'w service_env \<Rightarrow> odoo_id \<Rightarrow> 'w integration \<Rightarrow> (addon_error + sale_order \<times> rat \<times> (so_line \<times> rat \<times> rat) list) \<times> 'w integration" where
  "service_get_order env i =
     operation_boundary env ''get_order'' i (reading (\<lambda>s. get_order i (int_world s)) (\<lambda>(ord, _). so_deal_id ord))"

definition service_get_deal_context ::
    "'w service_env \<Rightarrow> odoo_id \<Rightarrow> 'w integration \<Rightarrow> (addon_error + deal_context_dto) \<times> 'w integration" where
  "service_get_deal_context env i =
     operation_boundary env ''get_deal_context'' i (reading (\<lambda>s. get_deal_context i (int_world s)) dcx_deal_id)"

text \<open>The deal of an order, unless the caller names one.\<close>

definition resolve_order_deal_id :: "odoo_id \<Rightarrow> string option \<Rightarrow> 'w integration \<Rightarrow> string option" where
  "resolve_order_deal_id i fallback s = (if str_or fallback [] \<noteq> [] then fallback
     else case addon_order i (int_world s) of None \<Rightarrow> fallback | Some ord \<Rightarrow> so_deal_id ord)"

text \<open>An update changes discounts when it has lines, or a field whose name says so; the order has no such field.\<close>

definition update_events :: "'w service_env \<Rightarrow> odoo_id \<Rightarrow> order_update \<Rightarrow> string option \<Rightarrow> event_payload list" where
  "update_events env i upd deal =
     (if (case upd_fields upd of None \<Rightarrow> False | Some v \<Rightarrow> ov_order_line v \<noteq> None)
      then [event_of env ''discount.changed'' i ''sale.order'' deal] else []) @
     [event_of env ''sale.order.changed'' i ''sale.order'' deal]"

definition service_update_order ::
    "'w service_env \<Rightarrow> odoo_id \<Rightarrow> string option \<Rightarrow> order_update \<Rightarrow> 'w integration \<Rightarrow> (addon_error + sale_order option) \<times> 'w integration" where
  "service_update_order env i deal upd s0 = (let deal = resolve_order_deal_id i deal s0 in
     operation_boundary env ''update_order'' i (\<lambda>s. case update_order (sve_orm env) (sve_user env) i upd (int_world s) of
         Inl e \<Rightarrow> (Inl e, deal, s)
       | Inr w \<Rightarrow> finish_with env (update_events env i upd deal) (addon_order i w) deal (s\<lparr>int_world := w\<rparr>)) s0)"

definition service_apply_approved_change ::
    "'w service_env \<Rightarrow> odoo_id \<Rightarrow> approved_changes \<Rightarrow> 'w integration \<Rightarrow> (addon_error + sale_order option) \<times> 'w integration" where
  "service_apply_approved_change env i c s0 = (let deal = resolve_order_deal_id i (ac_deal_id c) s0 in
     operation_boundary env ''apply_approved_change'' i (\<lambda>s.
       case apply_approved_change (sve_orm env) (sve_user env) (sve_now env) i c (int_world s) of
         Inl e \<Rightarrow> (Inl e, deal, s)
       | Inr w \<Rightarrow> finish_with env [event_of env ''order.approved'' i ''sale.order'' deal] (addon_order i w) deal (s\<lparr>int_world := w\<rparr>)) s0)"

definition accepts :: "'w service_env \<Rightarrow> string option \<Rightarrow> int \<Rightarrow> addon_error + bool" where
  "accepts env = verify_approval_token (sve_mac env) (signing_key (sve_signing env) None) (sve_seconds env)"

text \<open>The adapter's answer names no deal, so the one of the order before the call is kept.\<close>

definition service_confirm_order ::
    "'w service_env \<Rightarrow> odoo_id \<Rightarrow> string option \<Rightarrow> 'w integration \<Rightarrow> (addon_error + sale_order option) \<times> 'w integration" where
  "service_confirm_order env i token s0 = (let deal = resolve_order_deal_id i None s0 in
     operation_boundary env ''confirm_order'' i (\<lambda>s.
       case confirm_order (sve_orm env) (sve_user env) (accepts env) False token i (int_world s) of
         Inl e \<Rightarrow> (Inl e, deal, s)
         | Inr w \<Rightarrow> finish_with env [event_of env ''order.confirmed'' i ''sale.order'' deal] (addon_order i w) deal (s\<lparr>int_world := w\<rparr>)) s0)"

section \<open>Stock and invoices\<close>

definition service_get_available_stock :: "'w service_env \<Rightarrow> int \<Rightarrow> 'w integration \<Rightarrow> (addon_error + rat) \<times> 'w integration" where
  "service_get_available_stock env p =
     operation_boundary env ''get_available_stock'' p (reading (\<lambda>s. get_available_stock p (int_stock s)) (\<lambda>_. None))"

definition service_get_warehouse_stock ::
    "'w service_env \<Rightarrow> int \<Rightarrow> 'w integration \<Rightarrow> (addon_error + warehouse_stock list) \<times> 'w integration" where
  "service_get_warehouse_stock env p =
     operation_boundary env ''get_warehouse_stock'' p (reading (\<lambda>s. get_warehouse_stock p (int_stock s)) (\<lambda>_. None))"

text \<open>A plan comes as an object with its deal, or as a dictionary, which the adapter refuses.\<close>

datatype plan_argument = Plan_Object "string option" split_plan | Plan_Dict "string option"

definition service_apply_fulfillment_plan ::
    "'w service_env \<Rightarrow> odoo_id \<Rightarrow> plan_argument \<Rightarrow> string \<Rightarrow> 'w integration \<Rightarrow> (addon_error + applied_plan) \<times> 'w integration" where
  "service_apply_fulfillment_plan env i plan fresh = operation_boundary env ''apply_fulfillment_plan'' i (\<lambda>s. case plan of
       Plan_Dict deal \<Rightarrow> (Inl Invalid_Request, deal, s)
     | Plan_Object deal p \<Rightarrow> (case snd (apply_split_plan i p None False fresh (int_stock s)) of
         Inl e \<Rightarrow> (Inl e, deal, s)
       | Inr (r, st) \<Rightarrow> finish_with env [event_of env ''stock.changed'' i ''sale.order'' deal] r deal (s\<lparr>int_stock := st\<rparr>)))"

definition service_create_invoice ::
    "'w service_env \<Rightarrow> odoo_id \<Rightarrow> 'w integration \<Rightarrow> (addon_error + created_invoice) \<times> 'w integration" where
  "service_create_invoice env i = operation_boundary env ''create_invoice'' i (\<lambda>s.
     case create_invoice (sve_year env) i ''out_invoice'' (int_books s) of
       Inl e \<Rightarrow> (Inl e, None, s)
     | Inr (r, st) \<Rightarrow> finish_with env [event_of env ''invoice.created'' (if civ_invoice_id r = 0 then i else civ_invoice_id r) ''account.move''
           (civ_deal_id r)] r (named_deal (civ_deal_id r)) (s\<lparr>int_books := st\<rparr>))"

definition service_get_invoice :: "'w service_env \<Rightarrow> int \<Rightarrow> 'w integration \<Rightarrow> (addon_error + invoice_view) \<times> 'w integration" where
  "service_get_invoice env i =
     operation_boundary env ''get_invoice'' i (reading (\<lambda>s. get_invoice i (int_books s)) (\<lambda>_. None))"

definition service_get_payment_status ::
    "'w service_env \<Rightarrow> odoo_id \<Rightarrow> 'w integration \<Rightarrow> (addon_error + payment_status) \<times> 'w integration" where
  "service_get_payment_status env i =
     operation_boundary env ''get_payment_status'' i (reading (\<lambda>s. get_payment_status i (int_books s)) (\<lambda>_. None))"

section \<open>A customer's negotiation\<close>

text \<open>
  The sales adapter has no such operation, so this is the branch on Odoo itself. The model of negotiations
  that the code looks up is an empty recordset, which counts as false: no negotiation is recorded.
\<close>

definition reapproval_vals :: order_vals where
  "reapproval_vals = no_vals\<lparr>ov_approval_state := Some Reapproval_Required\<rparr>"

definition service_submit_negotiation ::
    "'w service_env \<Rightarrow> odoo_id \<Rightarrow> odoo_id \<Rightarrow> 'w integration \<Rightarrow> (addon_error + sale_order option) \<times> 'w integration" where
  "service_submit_negotiation env i customer = operation_boundary env ''submit_negotiation'' i (\<lambda>s.
     case addon_order i (int_world s) of
       None \<Rightarrow> (Inl Not_Found, None, s)
     | Some ord \<Rightarrow>
         if op_id (so_partner ord) \<noteq> customer then (Inl Not_Authorized, so_deal_id ord, s)
         else if so_state ord \<in> {''sale'', ''done'', ''cancel''} then (Inl Invalid_State, so_deal_id ord, s)
         else case order_write (sve_orm env) (sve_user env) False reapproval_vals ord of
           Inl e \<Rightarrow> (Inl e, so_deal_id ord, s)
         | Inr ord' \<Rightarrow> finish_with env [event_of env ''customer.negotiation.submitted'' i ''dealflow.negotiation'' (so_deal_id ord')]
             (Some ord') (so_deal_id ord) (s\<lparr>int_world := put_order ord' (int_world s)\<rparr>))"

section \<open>Every call is audited\<close>

datatype service_request =
    Get_Customer odoo_id | Get_Product odoo_id | Get_Order odoo_id | Get_Deal_Context odoo_id
  | Update_Order odoo_id "string option" order_update | Apply_Approved_Change odoo_id approved_changes
  | Confirm_Order odoo_id "string option" | Get_Available_Stock int | Get_Warehouse_Stock int
  | Apply_Fulfillment_Plan odoo_id plan_argument string | Create_Invoice odoo_id | Get_Invoice int
  | Get_Payment_Status odoo_id | Submit_Negotiation odoo_id odoo_id

definition error_of :: "(addon_error + 'a) \<times> 's \<Rightarrow> addon_error option \<times> 's" where
  "error_of r = (case fst r of Inl e \<Rightarrow> Some e | Inr _ \<Rightarrow> None, snd r)"

fun call_service :: "'w service_env \<Rightarrow> service_request \<Rightarrow> 'w integration \<Rightarrow> addon_error option \<times> 'w integration" where
  "call_service env (Get_Customer i) s = error_of (service_get_customer env i s)"
| "call_service env (Get_Product i) s = error_of (service_get_product env i s)"
| "call_service env (Get_Order i) s = error_of (service_get_order env i s)"
| "call_service env (Get_Deal_Context i) s = error_of (service_get_deal_context env i s)"
| "call_service env (Update_Order i deal upd) s = error_of (service_update_order env i deal upd s)"
| "call_service env (Apply_Approved_Change i c) s = error_of (service_apply_approved_change env i c s)"
| "call_service env (Confirm_Order i token) s = error_of (service_confirm_order env i token s)"
| "call_service env (Get_Available_Stock p) s = error_of (service_get_available_stock env p s)"
| "call_service env (Get_Warehouse_Stock p) s = error_of (service_get_warehouse_stock env p s)"
| "call_service env (Apply_Fulfillment_Plan i plan fresh) s = error_of (service_apply_fulfillment_plan env i plan fresh s)"
| "call_service env (Create_Invoice i) s = error_of (service_create_invoice env i s)"
| "call_service env (Get_Invoice i) s = error_of (service_get_invoice env i s)"
| "call_service env (Get_Payment_Status i) s = error_of (service_get_payment_status env i s)"
| "call_service env (Submit_Negotiation i customer) s = error_of (service_submit_negotiation env i customer s)"

text \<open>The one entry that a call adds: its outcome is the call's, and an error that leaves has a code.\<close>

definition audited_call :: "(addon_error option \<times> 'w integration) \<Rightarrow> 'w integration \<Rightarrow> bool" where
  "audited_call r s = (\<exists>e. int_audit (snd r) = int_audit (log_audit e s) \<and>
     (fst r = None \<longleftrightarrow> ade_result e = ''SUCCESS'') \<and> (case fst r of None \<Rightarrow> True | Some err \<Rightarrow> error_code err \<noteq> None))"

definition keeps_audit :: "('w, 'a) operation \<Rightarrow> 'w integration \<Rightarrow> bool" where
  "keeps_audit body s = (int_audit (snd (snd (body s))) = int_audit s)"

lemma log_audit_of: "int_audit s = int_audit t \<Longrightarrow> int_audit (log_audit e s) = int_audit (log_audit e t)"
  by (simp add: log_audit_def Let_def)

lemma emitted_audit: "int_audit (snd (emit_event env e s)) = int_audit s"
  by (simp add: emit_event_def split: prod.splits sum.splits)

lemma all_emitted_audit: "int_audit (snd (emit_events env es s)) = int_audit s"
proof (induction es arbitrary: s)
  case (Cons e es)
  then show ?case using emitted_audit[of env e s] by (auto split: prod.splits option.splits)
qed simp

lemma finished_audit: "int_audit (snd (snd (finish_with env es x deal s))) = int_audit s"
  using all_emitted_audit[of env es s] by (auto simp: finish_with_def split: prod.splits option.splits)

lemma emitted_world: "int_world (snd (emit_event env e s)) = int_world s"
  by (simp add: emit_event_def split: prod.splits sum.splits)

lemma all_emitted_world: "int_world (snd (emit_events env es s)) = int_world s"
proof (induction es arbitrary: s)
  case (Cons e es)
  then show ?case using emitted_world[of env e s] by (auto split: prod.splits option.splits)
qed simp

lemma finished_world: "int_world (snd (snd (finish_with env es x deal s))) = int_world s"
  using all_emitted_world[of env es s] by (auto simp: finish_with_def split: prod.splits option.splits)

lemma reading_keeps [simp]: "keeps_audit (reading f deal) s"
  by (simp add: keeps_audit_def reading_def)

lemma boundary_audited:
  assumes "keeps_audit body s"
  shows "audited_call (error_of (operation_boundary env op i body s)) s"
proof (cases "body s")
  case (fields r deal s')
  then have same: "int_audit s' = int_audit s" using assms by (simp add: keeps_audit_def)
  show ?thesis
  proof (cases r)
    case (Inl e)
    have "int_audit (log_audit (audit_record env op i deal (Some e)) s') = int_audit (log_audit (audit_record env op i deal (Some e)) s)"
      using same by (rule log_audit_of)
    moreover have "ade_result (audit_record env op i deal (Some e)) \<noteq> ''SUCCESS''" by (simp add: audit_record_def)
    ultimately show ?thesis using fields Inl translated_error_has_code
      by (auto simp: audited_call_def operation_boundary_def error_of_def)
  next
    case (Inr x)
    have "int_audit (log_audit (audit_record env op i deal None) s') = int_audit (log_audit (audit_record env op i deal None) s)"
      using same by (rule log_audit_of)
    moreover have "ade_result (audit_record env op i deal None) = ''SUCCESS''" by (simp add: audit_record_def)
    ultimately show ?thesis using fields Inr by (auto simp: audited_call_def operation_boundary_def error_of_def)
  qed
qed

lemma served_audited: "audited_call (call_service env q s) s"
proof (cases q)
  case (Apply_Fulfillment_Plan i plan fresh)
  then show ?thesis
    by (auto simp: service_apply_fulfillment_plan_def keeps_audit_def finished_audit intro!: boundary_audited
        split: plan_argument.splits sum.splits)
qed (auto simp: service_get_customer_def service_get_product_def service_get_order_def service_get_deal_context_def
    service_update_order_def service_apply_approved_change_def service_confirm_order_def service_get_available_stock_def
    service_get_warehouse_stock_def service_create_invoice_def service_get_invoice_def service_get_payment_status_def
    service_submit_negotiation_def keeps_audit_def finished_audit reading_def Let_def intro!: boundary_audited
    split: sum.splits option.splits)

lemma audit_bounded: "length (int_audit s) \<le> 1000 \<Longrightarrow> length (int_audit (log_audit e s)) \<le> 1000"
  by (auto simp: log_audit_def Let_def)

lemma latest_audit: "0 < n \<Longrightarrow> hd (get_audit_logs n (log_audit e s)) = e"
  by (cases "int_audit s") (auto simp: get_audit_logs_def log_audit_def keep_last_def Let_def hd_rev)

text \<open>
  C38: Every call of the integration leaves exactly one audit entry. Whatever is called and however it
  ends, one entry is added to the at most thousand that are kept, it is the first that the log then
  shows, it says whether the call succeeded, and an error that reaches the caller is one of the
  integration's own, with its code.
\<close>

theorem every_call_is_audited:
  assumes "call_service env q s = (r, s')" and "length (int_audit s) \<le> 1000" and "0 < n"
  shows "(\<exists>e. int_audit s' = (if length (int_audit s) = 1000 then tl (int_audit s) else int_audit s) @ [e] \<and>
      hd (get_audit_logs n s') = e \<and> (r = None \<longleftrightarrow> ade_result e = ''SUCCESS'')) \<and>
    length (int_audit s') \<le> 1000 \<and> (\<forall>err. r = Some err \<longrightarrow> error_code err \<noteq> None)"
proof -
  obtain e where e: "int_audit s' = int_audit (log_audit e s)" "r = None \<longleftrightarrow> ade_result e = ''SUCCESS''"
      "\<forall>err. r = Some err \<longrightarrow> error_code err \<noteq> None"
    using served_audited[of env q s] assms(1) by (auto simp: audited_call_def)
  have "int_audit s' = (if length (int_audit s) = 1000 then tl (int_audit s) else int_audit s) @ [e]"
    using e(1) assms(2) by (cases "int_audit s") (auto simp: log_audit_def Let_def)
  moreover have "get_audit_logs n s' = get_audit_logs n (log_audit e s)" using e(1) by (simp add: get_audit_logs_def)
  ultimately show ?thesis using e audit_bounded[OF assms(2), of e] latest_audit[OF assms(3), of e s] by auto
qed

section \<open>A small facade\<close>

definition small_integration :: "addon_world \<Rightarrow> (nat \<times> string list) integration" where
  "small_integration w = \<lparr>int_world = w, int_partners = [acme_partner], int_products = [], int_stock = new_inventory,
     int_books = new_accounting, int_events = new_dispatcher [] None 5, int_audit = [], int_outside = (0, [])\<rparr>"

definition small_env :: "odoo_user \<Rightarrow> (nat \<times> string list) service_env" where
  "small_env u = \<lparr>sve_orm = plain_orm, sve_user = u, sve_actor = ''system'', sve_actor_id = None, sve_time = [], sve_now = 0,
     sve_seconds = 100, sve_year = 2026, sve_signing = None, sve_mac = plain_mac, sve_outside = small_outside, sve_data = (\<lambda>_ _. [])\<rparr>"

theorem every_call_is_audited_witness:
  "\<exists>r s' e. call_service (small_env acme_customer) (Get_Customer 0) (small_integration laptop_world) = (r, s') \<and>
    int_audit s' = [e] \<and> r = Some Invalid_Request \<and> ade_result e \<noteq> ''SUCCESS''"
proof -
  let ?s = "small_integration laptop_world"
  obtain r s' where run: "call_service (small_env acme_customer) (Get_Customer 0) ?s = (r, s')" by force
  have none: "int_audit ?s = []" by (simp add: small_integration_def)
  have "r = Some Invalid_Request"
    using run by (auto simp: service_get_customer_def operation_boundary_def reading_def get_customer_def browse_record_def error_of_def)
  then show ?thesis using every_call_is_audited[OF run, of 1] run none by auto
qed

end
