(* ===== verification/Addon_Api.thy ===== *)
theory Addon_Api
  imports Addon_Service
begin

text \<open>
  The addon's REST controller, \<^verbatim>\<open>dealflow_odoo/controllers/api.py\<close>: finding and checking a caller's
  credentials, the payload, the endpoints, and the status of an answer. Each request gets a facade of its
  own, on Odoo as the request's user sees it, with an empty audit log. Header names do not depend on case.
  Values of the payload that are no texts are left out; the changes of an order are read from it by a
  parameter. The switches for tests are off.
\<close>

section \<open>Requests\<close>

record api_request =
  arq_user :: odoo_user
  arq_is_public :: bool
  arq_authorization :: "string option"
  arq_x_api_key :: "string option"
  arq_environ_authorization :: "string option"
  arq_environ_x_api_key :: "string option"
  arq_params :: "(string \<times> string) list"
  arq_json :: "(string \<times> string) list"

text \<open>The body is not looked at when there are any parameters.\<close>

definition parse_json_payload :: "api_request \<Rightarrow> (string \<times> string) list" where
  "parse_json_payload rq = (if arq_params rq \<noteq> [] then arq_params rq else arq_json rq)"

definition header_token :: "string option \<Rightarrow> string option" where
  "header_token h = (case h of None \<Rightarrow> None | Some t \<Rightarrow> if take 7 t = ''Bearer '' then Some (py_strip (drop 7 t)) else None)"

definition given_text :: "string option \<Rightarrow> string option" where
  "given_text x = (if str_or x [] = [] then None else map_option py_strip x)"

definition payload_key :: "(string \<times> string) list \<Rightarrow> string option" where
  "payload_key p = given_text (if str_or (map_of p ''api_key'') [] \<noteq> [] then map_of p ''api_key'' else map_of p ''auth_token'')"

fun first_given :: "'a option list \<Rightarrow> 'a option" where
  "first_given [] = None"
| "first_given (x # xs) = (case x of None \<Rightarrow> first_given xs | Some y \<Rightarrow> Some y)"

definition extract_auth_token :: "api_request \<Rightarrow> string option" where
  "extract_auth_token rq = first_given [header_token (arq_authorization rq), given_text (arq_x_api_key rq),
     header_token (arq_environ_authorization rq), given_text (arq_environ_x_api_key rq),
     payload_key (arq_params rq), payload_key (parse_json_payload rq)]"

section \<open>Authentication\<close>

text \<open>\<open>param\<close> is Odoo's setting, \<open>variable\<close> the environment's \<^verbatim>\<open>DEALFLOW_API_KEY\<close>.\<close>

definition expected_api_key :: "string option \<Rightarrow> string option \<Rightarrow> string" where
  "expected_api_key param variable = (case given_text param of Some k \<Rightarrow> k
     | None \<Rightarrow> (case variable of None \<Rightarrow> ''dealflow_api_secret_key_default'' | Some k \<Rightarrow> k))"

definition has_session :: "api_request \<Rightarrow> bool" where
  "has_session rq = (ou_id (arq_user rq) \<noteq> 0 \<and> \<not> arq_is_public rq \<and>
     (has_group (arq_user rq) Base_User \<or> has_group (arq_user rq) Group_Admin))"

definition authenticate_request :: "string \<Rightarrow> api_request \<Rightarrow> addon_error option" where
  "authenticate_request expected rq =
     (if has_session rq then None
      else if str_or (extract_auth_token rq) [] = [] then Some Not_Authenticated
      else case verify_api_key (extract_auth_token rq) (Some expected) of
        Inl e \<Rightarrow> Some e | Inr ok \<Rightarrow> if ok then None else Some Not_Authenticated)"

section \<open>Answers\<close>

text \<open>The status and, of an error, the code.\<close>

type_synonym api_reply = "int \<times> string option"

fun error_status :: "addon_error \<Rightarrow> int" where
  "error_status Not_Authenticated = 401"
| "error_status Invalid_Request = 400"
| "error_status Not_Authorized = 403"
| "error_status Not_Found = 404"
| "error_status Invalid_State = 409"
| "error_status _ = 500"

definition handle_error :: "addon_error \<Rightarrow> api_reply" where
  "handle_error e = (error_status e, Some (case error_code e of None \<Rightarrow> ''INTERNAL_SERVER_ERROR'' | Some c \<Rightarrow> c))"

record 'w api_config =
  apc_env :: "'w service_env"
  apc_api_key_param :: "string option"
  apc_api_key_variable :: "string option"
  apc_changes :: "(string \<times> string) list \<Rightarrow> approved_changes"

definition request_env :: "'w api_config \<Rightarrow> api_request \<Rightarrow> 'w service_env" where
  "request_env cfg rq = (apc_env cfg)\<lparr>sve_user := arq_user rq\<rparr>"

definition api_answer ::
    "'w api_config \<Rightarrow> api_request \<Rightarrow> ('w integration \<Rightarrow> (addon_error + 'a) \<times> 'w integration) \<Rightarrow> 'w integration \<Rightarrow>
      api_reply \<times> 'w integration" where
  "api_answer cfg rq call s =
     (case authenticate_request (expected_api_key (apc_api_key_param cfg) (apc_api_key_variable cfg)) rq of
        Some e \<Rightarrow> (handle_error e, s)
      | None \<Rightarrow> (case call (s\<lparr>int_audit := []\<rparr>) of
          (Inl e, s') \<Rightarrow> (handle_error e, s') | (Inr _, s') \<Rightarrow> ((200, None), s')))"

section \<open>Endpoints\<close>

definition api_order_context :: "'w api_config \<Rightarrow> api_request \<Rightarrow> odoo_id \<Rightarrow> 'w integration \<Rightarrow> api_reply \<times> 'w integration" where
  "api_order_context cfg rq i = api_answer cfg rq (service_get_deal_context (request_env cfg rq) i)"

definition api_apply_approved_change ::
    "'w api_config \<Rightarrow> api_request \<Rightarrow> odoo_id \<Rightarrow> 'w integration \<Rightarrow> api_reply \<times> 'w integration" where
  "api_apply_approved_change cfg rq i =
     api_answer cfg rq (service_apply_approved_change (request_env cfg rq) i (apc_changes cfg (parse_json_payload rq)))"

definition api_confirm_order :: "'w api_config \<Rightarrow> api_request \<Rightarrow> odoo_id \<Rightarrow> 'w integration \<Rightarrow> api_reply \<times> 'w integration" where
  "api_confirm_order cfg rq i =
     api_answer cfg rq (service_confirm_order (request_env cfg rq) i (map_of (parse_json_payload rq) ''approval_token''))"

text \<open>A plan from a payload is always a dictionary.\<close>

definition api_apply_fulfillment :: "'w api_config \<Rightarrow> api_request \<Rightarrow> odoo_id \<Rightarrow> 'w integration \<Rightarrow> api_reply \<times> 'w integration" where
  "api_apply_fulfillment cfg rq i =
     api_answer cfg rq (service_apply_fulfillment_plan (request_env cfg rq) i (Plan_Dict (map_of (parse_json_payload rq) ''deal_id'')) [])"

section \<open>What the endpoints do\<close>

lemma boundary_world: "int_world (snd (operation_boundary env op i body s)) = int_world (snd (snd (body s)))"
  by (simp add: operation_boundary_def log_audit_def Let_def split: prod.splits sum.splits)

lemma boundary_Inr: "fst (operation_boundary env op i body s) = Inr x \<longleftrightarrow> fst (body s) = Inr x"
  by (simp add: operation_boundary_def split: prod.splits sum.splits)

text \<open>What a confirmation leaves of the orders, and that no answer without one is a success.\<close>

lemma service_confirm_world:
  "int_world (snd (service_confirm_order env i token s)) =
    (case confirm_order (sve_orm env) (sve_user env) (accepts env) False token i (int_world s) of Inl e \<Rightarrow> int_world s | Inr w \<Rightarrow> w)"
  by (simp add: service_confirm_order_def boundary_world finished_world Let_def split: sum.splits)

lemma service_confirm_success:
  "fst (service_confirm_order env i token s) = Inr x \<Longrightarrow>
    \<exists>w. confirm_order (sve_orm env) (sve_user env) (accepts env) False token i (int_world s) = Inr w"
  by (simp add: service_confirm_order_def boundary_Inr Let_def split: sum.splits)

lemma handled_error: "fst (handle_error e) \<noteq> 200"
  by (cases e) (simp_all add: handle_error_def)

lemma answered_call:
  assumes "api_answer cfg rq call s = (reply, s')" and "fst reply = 200 \<or> int_world s' \<noteq> int_world s"
  shows "authenticate_request (expected_api_key (apc_api_key_param cfg) (apc_api_key_variable cfg)) rq = None \<and>
    call (s\<lparr>int_audit := []\<rparr>) = (fst (call (s\<lparr>int_audit := []\<rparr>)), s') \<and>
    (fst reply = 200 \<longrightarrow> (\<exists>x. fst (call (s\<lparr>int_audit := []\<rparr>)) = Inr x))"
  using assms by (auto simp: api_answer_def handled_error split: option.splits prod.splits sum.splits)

text \<open>Whoever confirms is an internal user, with a session: a key alone makes the caller a public one.\<close>

lemma internal_not_portal: "\<not> is_portal u \<Longrightarrow> has_group u Base_User"
  by (simp add: is_portal_def)

lemma confirming_request:
  assumes "api_confirm_order cfg rq i s = (reply, s')" and "fst reply = 200 \<or> int_world s' \<noteq> int_world s"
  shows "authenticate_request (expected_api_key (apc_api_key_param cfg) (apc_api_key_variable cfg)) rq = None \<and>
    confirm_order (sve_orm (apc_env cfg)) (arq_user rq) (accepts (apc_env cfg)) False
      (map_of (parse_json_payload rq) ''approval_token'') i (int_world s) = Inr (int_world s')"
proof -
  let ?env = "request_env cfg rq"
  let ?s = "s\<lparr>int_audit := []\<rparr>"
  let ?token = "map_of (parse_json_payload rq) ''approval_token''"
  let ?call = "service_confirm_order ?env i ?token"
  let ?r = "confirm_order (sve_orm ?env) (sve_user ?env) (accepts ?env) False ?token i (int_world ?s)"
  note run = answered_call[OF assms(1)[unfolded api_confirm_order_def] assms(2)]
  have world: "int_world s' = (case ?r of Inl e \<Rightarrow> int_world ?s | Inr w \<Rightarrow> w)"
    using run service_confirm_world[of ?env i ?token ?s] by (metis snd_conv)
  have "\<exists>w. ?r = Inr w"
  proof (cases "fst reply = 200")
    case True
    then obtain x where "fst (?call ?s) = Inr x" using run by blast
    then show ?thesis by (rule service_confirm_success)
  next
    case False
    then show ?thesis using assms(2) world by (auto split: sum.splits)
  qed
  moreover have "?r = confirm_order (sve_orm (apc_env cfg)) (arq_user rq) (accepts (apc_env cfg)) False ?token i (int_world s)"
    by (simp add: request_env_def accepts_def[abs_def])
  ultimately show ?thesis using run world by auto
qed

text \<open>
  C6: The API confirms an order only when it may be confirmed. If a confirmation request succeeds or
  changes any order, even when its answer is an error, then the caller is authenticated and an internal
  user, the order was a quotation, no order but this one is touched and Odoo confirmed it, and either the order
  needed no approval or had it (it was not rejected, held, or discounted beyond a ceiling), or
  the request carried an approval token whose signature, order and expiry were checked.
\<close>

theorem api_confirms_cleared_orders:
  assumes "api_confirm_order cfg rq i s = (reply, s')" and "fst reply = 200 \<or> int_world s' \<noteq> int_world s"
  shows "authenticate_request (expected_api_key (apc_api_key_param cfg) (apc_api_key_variable cfg)) rq = None \<and>
    has_group (arq_user rq) Base_User \<and>
    (\<exists>ord ord'. addon_order i (int_world s) = Some ord \<and> so_state ord \<in> {''draft'', ''sent''} \<and>
      orm_confirm (sve_orm (apc_env cfg)) ord = Inr ord' \<and> int_world s' = put_order ord' (int_world s) \<and>
      (clear_to_confirm ord \<or>
       verify_approval_token (sve_mac (apc_env cfg)) (signing_key (sve_signing (apc_env cfg)) None) (sve_seconds (apc_env cfg))
         (map_of (parse_json_payload rq) ''approval_token'') i = Inr True))"
proof -
  note run = confirming_request[OF assms]
  then obtain ord ord' where "addon_order i (int_world s) = Some ord" "so_state ord \<in> {''draft'', ''sent''}" "\<not> is_portal (arq_user rq)"
      "orm_confirm (sve_orm (apc_env cfg)) ord = Inr ord'" "int_world s' = put_order ord' (int_world s)"
      "clear_to_confirm ord \<or> accepts (apc_env cfg) (map_of (parse_json_payload rq) ''approval_token'') i = Inr True"
    by (blast elim: confirmed_order)
  then show ?thesis using run internal_not_portal unfolding accepts_def by blast
qed

text \<open>A key without a session leads nowhere: the public user it runs as may not confirm.\<close>

lemma key_alone_never_confirms:
  assumes "\<not> has_group (arq_user rq) Base_User" and "api_confirm_order cfg rq i s = (reply, s')"
  shows "int_world s' = int_world s \<and> fst reply \<noteq> 200"
proof (rule ccontr)
  assume "\<not> ?thesis"
  then have "confirm_order (sve_orm (apc_env cfg)) (arq_user rq) (accepts (apc_env cfg)) False
      (map_of (parse_json_payload rq) ''approval_token'') i (int_world s) = Inr (int_world s')"
    using confirming_request[OF assms(2)] by blast
  then show False using assms(1) by (auto simp: confirm_order_def is_portal_def split: if_splits)
qed

text \<open>The endpoint for a fulfillment plan refuses every plan.\<close>

lemma fulfillment_endpoint_refuses:
  "fst (fst (api_apply_fulfillment cfg rq i s)) \<in> {400, 401, 500} \<and> int_stock (snd (api_apply_fulfillment cfg rq i s)) = int_stock s"
proof -
  have auth: "authenticate_request k rq = Some e \<Longrightarrow> e = Not_Authenticated \<or> e = Python_Error" for k e
    by (auto simp: authenticate_request_def verify_api_key_def compare_digest_def split: if_splits)
  show ?thesis
    by (auto simp: api_apply_fulfillment_def api_answer_def service_apply_fulfillment_plan_def operation_boundary_def log_audit_def Let_def
        handle_error_def dest!: auth split: option.splits)
qed

section \<open>A confirmation\<close>

definition small_config :: "odoo_user \<Rightarrow> (nat \<times> string list) api_config" where
  "small_config u = \<lparr>apc_env = small_env u, apc_api_key_param = None, apc_api_key_variable = None,
     apc_changes = (\<lambda>_. undefined)\<rparr>"

definition rep_request :: "(string \<times> string) list \<Rightarrow> api_request" where
  "rep_request p = \<lparr>arq_user = addon_user [Group_Sales_Rep], arq_is_public = False, arq_authorization = None, arq_x_api_key = None,
     arq_environ_authorization = None, arq_environ_x_api_key = None, arq_params = p, arq_json = []\<rparr>"

definition approved_world :: addon_world where
  "approved_world = laptop_world\<lparr>aw_orders := [laptop_order Approved_Approval]\<rparr>"

lemma approved_lookup [simp]: "addon_order 5 approved_world = Some (laptop_order Approved_Approval)"
  by (simp add: addon_order_def approved_world_def laptop_order_def)

lemma rep_confirms:
  "confirm_order plain_orm (addon_user [Group_Sales_Rep]) (accepts env) False None 5 approved_world =
    Inr (put_order ((laptop_order Approved_Approval)\<lparr>so_state := ''sale''\<rparr>) approved_world)"
proof -
  have state: "so_state (laptop_order Approved_Approval) = ''draft''" by (simp add: laptop_order_def)
  have "action_confirm plain_orm (addon_user [Group_Sales_Rep]) False (laptop_order Approved_Approval) =
      Inr ((laptop_order Approved_Approval)\<lparr>so_state := ''sale''\<rparr>)"
    by (simp add: action_confirm_def needs_approval_def)
  then show ?thesis
    by (simp add: confirm_order_def confirm_found_def token_bypass_def browse_order_def str_or_def confirm_checked_def state
        is_portal_def has_group_def addon_user_def)
qed

lemma authenticated_world:
  "authenticate_request (expected_api_key (apc_api_key_param cfg) (apc_api_key_variable cfg)) rq = None \<Longrightarrow>
    int_world (snd (api_answer cfg rq call s)) = int_world (snd (call (s\<lparr>int_audit := []\<rparr>)))"
  by (simp add: api_answer_def split: prod.splits sum.splits)

lemma rep_request_simps [simp]:
  "arq_user (rep_request p) = addon_user [Group_Sales_Rep]" "has_session (rep_request p)"
  "parse_json_payload (rep_request p) = p"
  by (simp_all add: rep_request_def has_session_def has_group_def addon_user_def parse_json_payload_def)

theorem api_confirms_cleared_orders_witness:
  "\<exists>reply s'. api_confirm_order (small_config acme_customer) (rep_request [(''order_id'', ''5'')]) 5 (small_integration approved_world) = (reply, s') \<and>
    int_world s' \<noteq> approved_world \<and> has_group (addon_user [Group_Sales_Rep]) Base_User"
proof -
  let ?rq = "rep_request [(''order_id'', ''5'')]"
  let ?cfg = "small_config acme_customer"
  let ?s = "small_integration approved_world"
  let ?w = "put_order ((laptop_order Approved_Approval)\<lparr>so_state := ''sale''\<rparr>) approved_world"
  obtain reply s' where run: "api_confirm_order ?cfg ?rq 5 ?s = (reply, s')" by (rule prod.exhaust)
  have auth: "authenticate_request (expected_api_key (apc_api_key_param ?cfg) (apc_api_key_variable ?cfg)) ?rq = None"
    by (simp add: authenticate_request_def)
  have "int_world s' = int_world (snd (service_confirm_order (request_env ?cfg ?rq) 5 None (?s\<lparr>int_audit := []\<rparr>)))"
    using authenticated_world[OF auth, of "service_confirm_order (request_env ?cfg ?rq) 5 None" ?s] run by (simp add: api_confirm_order_def)
  also have "\<dots> = ?w"
    by (simp add: service_confirm_world request_env_def small_config_def small_env_def small_integration_def rep_confirms)
  finally have world: "int_world s' = ?w" .
  have "?w \<noteq> approved_world" by (simp add: put_order_def approved_world_def laptop_order_def laptop_world_def)
  then have "int_world s' \<noteq> int_world ?s" using world by (simp add: small_integration_def)
  then have "has_group (arq_user ?rq) Base_User" using api_confirms_cleared_orders[OF run] by blast
  then show ?thesis using run world \<open>?w \<noteq> approved_world\<close> by auto
qed

end
