(* ===== verification/Addon_Portal.thy ===== *)
theory Addon_Portal
  imports Addon_Service
begin

text \<open>
  The addon's portal for customers, \<^verbatim>\<open>dealflow_odoo/controllers/portal.py\<close>: who may see a quotation, what of it
  is shown, and how a counter-offer becomes a negotiation. The salesperson of an order is a parameter, as
  are the sequence of negotiations and its time stamp. The unit, currency symbol and taxed price of a line, and
  the message on the order's chatter, are left out, and so are numbers that are no finite floats.
\<close>

section \<open>Authorization\<close>

text \<open>No public user is authenticated.\<close>

definition authenticated_user :: "bool \<Rightarrow> odoo_user option \<Rightarrow> odoo_user option" where
  "authenticated_user public u = (case u of None \<Rightarrow> None | Some x \<Rightarrow> if public \<or> ou_id x = 0 then None else Some x)"

definition validate_order_authorization :: "odoo_id option \<Rightarrow> odoo_user \<Rightarrow> sale_order \<Rightarrow> bool" where
  "validate_order_authorization salesperson u ord =
     (if has_group u Base_User then is_manager u \<or> (id_or salesperson None \<noteq> None \<and> salesperson = Some (ou_id u))
      else owns_order (ou_partner u) (so_partner ord))"

section \<open>Viewing a quotation\<close>

record safe_line =
  sfl_id :: odoo_id
  sfl_product_id :: "odoo_id option"
  sfl_product_name :: string
  sfl_description :: string
  sfl_quantity :: rat
  sfl_price_unit :: rat
  sfl_discount :: rat
  sfl_price_subtotal :: rat

record safe_negotiation =
  sfn_id :: odoo_id
  sfn_name :: string
  sfn_status :: negotiation_tag
  sfn_requested_discount :: rat
  sfn_requested_terms :: "string option"
  sfn_customer_note :: "string option"
  sfn_original_amount :: rat
  sfn_proposed_amount :: rat
  sfn_submitted_at :: instant
  sfn_review_note :: "string option"

record deal_page =
  pdl_order_id :: odoo_id
  pdl_name :: string
  pdl_state :: string
  pdl_date_order :: "string option"
  pdl_customer :: "odoo_id \<times> string \<times> string option"
  pdl_currency :: string
  pdl_amount_untaxed :: rat
  pdl_amount_tax :: rat
  pdl_amount_total :: rat
  pdl_approval_state :: approval_state_tag
  pdl_locked :: bool
  pdl_lines :: "safe_line list"
  pdl_negotiations :: "safe_negotiation list"

definition safe_line_of :: "so_line \<Rightarrow> safe_line" where
  "safe_line_of l = \<lparr>sfl_id = sol_id l, sfl_product_id = map_option fst (sol_product l),
     sfl_product_name = str_or (map_option snd (sol_product l)) (sol_name l), sfl_description = sol_name l,
     sfl_quantity = sol_product_uom_qty l, sfl_price_unit = sol_price_unit l, sfl_discount = sol_discount l,
     sfl_price_subtotal = sol_price_subtotal l\<rparr>"

definition safe_negotiation_of :: "addon_negotiation \<Rightarrow> safe_negotiation" where
  "safe_negotiation_of n = \<lparr>sfn_id = an_id n, sfn_name = an_name n, sfn_status = an_status n,
     sfn_requested_discount = an_requested_discount n, sfn_requested_terms = an_requested_terms n,
     sfn_customer_note = an_customer_note n, sfn_original_amount = an_original_amount n,
     sfn_proposed_amount = an_proposed_amount n, sfn_submitted_at = an_submitted_at n,
     sfn_review_note = (if an_status n \<in> {Approved_Negotiation, Rejected_Negotiation} then an_review_note n else None)\<rparr>"

definition order_negotiations :: "odoo_id \<Rightarrow> addon_world \<Rightarrow> addon_negotiation list" where
  "order_negotiations i w = sort_key (\<lambda>n. - an_submitted_at n) (filter (\<lambda>n. an_order_id n = i) (aw_negotiations w))"

definition portal_deal_of :: "addon_world \<Rightarrow> sale_order \<Rightarrow> deal_page" where
  "portal_deal_of w ord = \<lparr>pdl_order_id = so_id ord, pdl_name = so_name ord, pdl_state = so_state ord,
     pdl_date_order = so_date_order ord,
     pdl_customer = (op_id (so_partner ord), op_name (so_partner ord), op_email (so_partner ord)),
     pdl_currency = keep (so_currency ord) ''USD'', pdl_amount_untaxed = so_amount_untaxed ord,
     pdl_amount_tax = so_amount_tax ord, pdl_amount_total = so_amount_total ord,
     pdl_approval_state = so_approval_state ord, pdl_locked = so_locked ord, pdl_lines = map safe_line_of (so_lines ord),
     pdl_negotiations = map safe_negotiation_of (order_negotiations (so_id ord) w)\<rparr>"

datatype 'a portal_reply = Portal_Error int string | Portal_Reply int 'a

definition portal_get_deal :: "(odoo_id \<Rightarrow> odoo_id option) \<Rightarrow> odoo_user option \<Rightarrow> odoo_id \<Rightarrow> addon_world \<Rightarrow> deal_page portal_reply" where
  "portal_get_deal salesperson user i w =
     (case user of None \<Rightarrow> Portal_Error 401 ''AUTHENTICATION_REQUIRED''
      | Some u \<Rightarrow>
          if i \<le> 0 then Portal_Error 404 ''NOT_FOUND''
          else case addon_order i w of None \<Rightarrow> Portal_Error 404 ''NOT_FOUND''
          | Some ord \<Rightarrow>
              if \<not> validate_order_authorization (salesperson i) u ord then Portal_Error 403 ''AUTHORIZATION_ERROR''
              else Portal_Reply 200 (portal_deal_of w ord))"

section \<open>A counter-offer\<close>

fun html_escape :: "string \<Rightarrow> string" where
  "html_escape [] = []"
| "html_escape (c # cs) =
     (if c = CHR ''&'' then ''&amp;'' else if c = CHR ''<'' then ''&lt;'' else if c = CHR ''>'' then ''&gt;''
      else if c = CHR 0x22 then ''&quot;'' else if c = CHR 0x27 then ''&#x27;'' else [c]) @ html_escape cs"

text \<open>An id that is absent or zero, one that is no integer, or an integer; a text of zero is an integer.\<close>

datatype id_field = No_Id | Bad_Id | An_Id odoo_id

text \<open>A number that is absent, one that cannot be read, or a number.\<close>

record portal_offer =
  pof_order_id :: id_field
  pof_requested_discount :: "rat option option"
  pof_requested_terms :: string
  pof_customer_note :: string
  pof_proposed_amount :: "rat option option"

definition calculated_proposed :: "rat \<Rightarrow> rat \<Rightarrow> rat" where
  "calculated_proposed amount d = fround (fmul amount (max 0 (fsub 1 (fdiv d 100)))) 2"

definition portal_proposed :: "rat \<Rightarrow> rat \<Rightarrow> rat option option \<Rightarrow> rat" where
  "portal_proposed amount d offered = (case offered of Some (Some p) \<Rightarrow> if p < 0 \<or> amount < p then calculated_proposed amount d else p
     | _ \<Rightarrow> calculated_proposed amount d)"

definition portal_negotiation :: "portal_offer \<Rightarrow> rat \<Rightarrow> sale_order \<Rightarrow> negotiation_create" where
  "portal_negotiation q d ord = \<lparr>nc_sale_order_id = Some (so_id ord), nc_name = None, nc_requested_discount = Some d,
     nc_requested_terms = Some (html_escape (pof_requested_terms q)), nc_customer_note = Some (html_escape (pof_customer_note q)),
     nc_original_amount = Some (so_amount_total ord),
     nc_proposed_amount = Some (portal_proposed (so_amount_total ord) d (pof_proposed_amount q)), nc_status = Some Submitted_Negotiation\<rparr>"

text \<open>The order that a request names, as far as the user may use it, and the discount asked for.\<close>

definition portal_order ::
    "(odoo_id \<Rightarrow> odoo_id option) \<Rightarrow> odoo_user \<Rightarrow> portal_offer \<Rightarrow> addon_world \<Rightarrow> (int \<times> string) + sale_order \<times> rat" where
  "portal_order salesperson u q w =
     (case pof_order_id q of No_Id \<Rightarrow> Inl (400, ''VALIDATION_ERROR'') | Bad_Id \<Rightarrow> Inl (400, ''VALIDATION_ERROR'')
      | An_Id i \<Rightarrow>
          if i \<le> 0 then Inl (404, ''NOT_FOUND'')
          else case addon_order i w of None \<Rightarrow> Inl (404, ''NOT_FOUND'')
          | Some ord \<Rightarrow>
              if \<not> validate_order_authorization (salesperson i) u ord then Inl (403, ''AUTHORIZATION_ERROR'')
              else if so_state ord \<in> {''cancel'', ''done''} then Inl (400, ''INVALID_STATE'')
              else case keep (pof_requested_discount q) (Some 0) of None \<Rightarrow> Inl (400, ''VALIDATION_ERROR'')
              | Some d \<Rightarrow> if \<not> discount_ok d then Inl (400, ''VALIDATION_ERROR'') else Inr (ord, d))"

definition emit_portal_event :: "'w service_env \<Rightarrow> event_payload \<Rightarrow> 'w integration \<Rightarrow> 'w integration" where
  "emit_portal_event env e s = snd (emit_event env e s)"

text \<open>The answer holds the new negotiation, which is the last one.\<close>

definition portal_submit_negotiation ::
    "'w service_env \<Rightarrow> (odoo_id \<Rightarrow> odoo_id option) \<Rightarrow> string option \<Rightarrow> string \<Rightarrow> odoo_user option \<Rightarrow> portal_offer option \<Rightarrow>
      'w integration \<Rightarrow> addon_negotiation portal_reply \<times> 'w integration" where
  "portal_submit_negotiation env salesperson sequence stamp user offer s =
     (case (user, offer) of (None, _) \<Rightarrow> (Portal_Error 401 ''AUTHENTICATION_REQUIRED'', s)
      | (Some u, None) \<Rightarrow> (Portal_Error 400 ''VALIDATION_ERROR'', s)
      | (Some u, Some q) \<Rightarrow> (case portal_order salesperson u q (int_world s) of
          Inl (st, code) \<Rightarrow> (Portal_Error st code, s)
        | Inr (ord, d) \<Rightarrow>
            (case create_negotiation (sve_orm env) u sequence stamp (sve_now env) (portal_negotiation q d ord) (int_world s) of
              Inl e \<Rightarrow> (Portal_Error 500 ''NEGOTIATION_CREATION_FAILED'', s)
            | Inr w \<Rightarrow> (let n = last (aw_negotiations w) in
                (Portal_Reply 201 n, emit_portal_event env
                  ((event_of env ''customer.negotiation.submitted'' (an_id n) ''dealflow.negotiation''
                    (Some (''DEAL-'' @ int_text (so_id ord))))\<lparr>evp_actor_id := Some (ou_id u)\<rparr>) (s\<lparr>int_world := w\<rparr>))))))"

section \<open>What a customer sees\<close>

text \<open>What is left of an order, a negotiation and the whole world without costs, margins, risk and reviewing.\<close>

definition public_line :: "so_line \<Rightarrow> so_line" where
  "public_line l = l\<lparr>sol_category := None, sol_standard_price := 0, sol_purchase_price := None, sol_approved_discount := 0\<rparr>"

definition public_order :: "sale_order \<Rightarrow> sale_order" where
  "public_order ord = ord\<lparr>so_lines := map public_line (so_lines ord), so_risk_score := 0, so_health_status := Healthy_Deal,
     so_deal_id := None, so_last_evaluated_at := None\<rparr>"

definition visible_negotiation :: "addon_negotiation \<Rightarrow> addon_negotiation" where
  "visible_negotiation n = n\<lparr>an_reviewed_by := None,
     an_review_note := (if an_status n \<in> {Approved_Negotiation, Rejected_Negotiation} then an_review_note n else None)\<rparr>"

definition public_world :: "addon_world \<Rightarrow> addon_world" where
  "public_world w = w\<lparr>aw_orders := map public_order (aw_orders w), aw_negotiations := map visible_negotiation (aw_negotiations w)\<rparr>"

lemma public_line_shown [simp]: "safe_line_of (public_line l) = safe_line_of l"
  by (simp add: safe_line_of_def public_line_def)

lemma visible_negotiation_shown [simp]: "safe_negotiation_of (visible_negotiation n) = safe_negotiation_of n"
  by (simp add: safe_negotiation_of_def visible_negotiation_def)

lemma public_order_fields [simp]: "so_id (public_order ord) = so_id ord" "so_partner (public_order ord) = so_partner ord"
  by (simp_all add: public_order_def)

lemma find_map_key: "(\<And>x. f (g x) = f x) \<Longrightarrow> find (\<lambda>x. f x = i) (map g xs) = map_option g (find (\<lambda>x. f x = i) xs)"
  by (induction xs) auto

lemma public_lookup: "addon_order i (public_world w) = map_option public_order (addon_order i w)"
  by (simp add: addon_order_def public_world_def find_map_key)

lemma insort_key_map: "(\<And>x. f (g x) = f x) \<Longrightarrow> insort_key f (g x) (map g xs) = map g (insort_key f x xs)"
  by (induction xs) auto

lemma sort_key_map: "(\<And>x. f (g x) = f x) \<Longrightarrow> sort_key f (map g xs) = map g (sort_key f xs)"
  by (induction xs) (simp_all add: insort_key_map)

lemma visible_negotiations: "order_negotiations i (public_world w) = map visible_negotiation (order_negotiations i w)"
  by (simp add: order_negotiations_def public_world_def filter_map comp_def sort_key_map visible_negotiation_def)

lemma visible_deal: "portal_deal_of (public_world w) (public_order ord) = portal_deal_of w ord"
  by (simp add: portal_deal_of_def visible_negotiations comp_def) (simp add: public_order_def comp_def)

lemma public_view: "portal_get_deal salesperson user i (public_world w) = portal_get_deal salesperson user i w"
  by (simp add: portal_get_deal_def public_lookup validate_order_authorization_def visible_deal split: option.splits)

text \<open>
  C20: The portal shows a quotation to its customer, and none of its internals. Two worlds that differ only in
  costs, categories, approved discounts, risk, health and unfinished reviews give the same answer to every
  request; and whoever gets a quotation is authenticated and is its customer, its company or contact, or
  an internal user who manages or sells it.
\<close>

theorem portal_shows_public_data:
  assumes "public_world w = public_world w'"
  shows "portal_get_deal salesperson user i w = portal_get_deal salesperson user i w' \<and>
    (\<forall>st d. portal_get_deal salesperson user i w = Portal_Reply st d \<longrightarrow> (\<exists>u ord. user = Some u \<and>
      addon_order i w = Some ord \<and> d = portal_deal_of w ord \<and> pdl_order_id d = i \<and>
      (if has_group u Base_User then is_manager u \<or> salesperson i = Some (ou_id u)
       else owns_order (ou_partner u) (so_partner ord))))"
proof
  show "portal_get_deal salesperson user i w = portal_get_deal salesperson user i w'"
    using assms public_view[of salesperson user i w] public_view[of salesperson user i w'] by simp
  have "pdl_order_id (portal_deal_of w ord) = i" if "addon_order i w = Some ord" for ord
    using addon_order_id[OF that] by (simp add: portal_deal_of_def)
  then show "\<forall>st d. portal_get_deal salesperson user i w = Portal_Reply st d \<longrightarrow> (\<exists>u ord. user = Some u \<and>
      addon_order i w = Some ord \<and> d = portal_deal_of w ord \<and> pdl_order_id d = i \<and>
      (if has_group u Base_User then is_manager u \<or> salesperson i = Some (ou_id u)
       else owns_order (ou_partner u) (so_partner ord)))"
    by (auto simp: portal_get_deal_def validate_order_authorization_def split: option.splits if_splits)
qed

definition dear_world :: addon_world where
  "dear_world = laptop_world\<lparr>aw_orders := [(laptop_order Pending_Approval)\<lparr>so_lines := [laptop_line\<lparr>sol_standard_price := 999\<rparr>]\<rparr>]\<rparr>"

theorem portal_shows_public_data_witness:
  "portal_get_deal (\<lambda>_. None) (Some acme_customer) 5 laptop_world = portal_get_deal (\<lambda>_. None) (Some acme_customer) 5 dear_world \<and>
    portal_get_deal (\<lambda>_. None) (Some acme_customer) 5 laptop_world = Portal_Reply 200 (portal_deal_of laptop_world (laptop_order Pending_Approval)) \<and>
    laptop_world \<noteq> dear_world"
proof -
  have same: "public_world laptop_world = public_world dear_world"
    by (simp add: public_world_def dear_world_def laptop_world_def public_order_def laptop_order_def public_line_def laptop_line_def)
  have "owns_order (ou_partner acme_customer) (so_partner (laptop_order Pending_Approval))"
    by (simp add: owns_order_def acme_customer_def laptop_order_def)
  moreover have "\<not> has_group acme_customer Base_User" by (simp add: has_group_def acme_customer_def addon_user_def)
  ultimately have "portal_get_deal (\<lambda>_. None) (Some acme_customer) 5 laptop_world =
      Portal_Reply 200 (portal_deal_of laptop_world (laptop_order Pending_Approval))"
    by (simp add: portal_get_deal_def validate_order_authorization_def)
  moreover have "laptop_world \<noteq> dear_world"
    by (simp add: dear_world_def laptop_world_def laptop_order_def laptop_line_def)
  ultimately show ?thesis using portal_shows_public_data[OF same, of "\<lambda>_. None" "Some acme_customer" 5] by blast
qed

section \<open>What a counter-offer does\<close>

definition plain_char :: "char \<Rightarrow> bool" where
  "plain_char c = (c \<notin> {CHR ''<'', CHR ''>'', CHR 0x22, CHR 0x27})"

lemma escaped_plain: "list_all plain_char (html_escape s)"
  by (induction s) (simp_all add: plain_char_def)

lemma portal_order_found:
  assumes "portal_order salesperson u q w = Inr (ord, d)"
  shows "\<exists>i. pof_order_id q = An_Id i \<and> 0 < i \<and> addon_order i w = Some ord \<and> validate_order_authorization (salesperson i) u ord \<and>
    so_state ord \<notin> {''cancel'', ''done''} \<and> discount_ok d"
  using assms by (auto simp: portal_order_def split: id_field.splits option.splits if_splits)

text \<open>What a successful counter-offer finds and leaves.\<close>

definition offer_taken ::
    "(odoo_id \<Rightarrow> odoo_id option) \<Rightarrow> odoo_user \<Rightarrow> portal_offer \<Rightarrow> addon_world \<Rightarrow> addon_negotiation \<Rightarrow> addon_world \<Rightarrow> bool" where
  "offer_taken salesperson u q w n w' = (\<exists>i ord. pof_order_id q = An_Id i \<and> addon_order i w = Some ord \<and>
     validate_order_authorization (salesperson i) u ord \<and> so_state ord \<notin> {''cancel'', ''done''} \<and>
     aw_negotiations w' = aw_negotiations w @ [n] \<and> an_order_id n = i \<and> an_status n = Submitted_Negotiation \<and>
     discount_ok (an_requested_discount n) \<and> an_original_amount n = so_amount_total ord \<and>
     list_all plain_char (str_or (an_requested_terms n) [] @ str_or (an_customer_note n) []) \<and>
     addon_order i w' = Some (set_fields pending_vals ord) \<and> (\<forall>j. j \<noteq> i \<longrightarrow> addon_order j w' = addon_order j w))"

text \<open>
  C19: A customer's counter-offer never changes a price. An error leaves everything as it was. An
  answer that is none is given to a user who may see the order, which is neither cancelled nor done; it
  adds one submitted negotiation whose original amount is the order's own, whatever the
  request says, and whose texts carry no markup; it locks the order for approval and changes nothing
  else of it, and no other order.
\<close>

theorem counter_offer_outcome:
  assumes "orm_ok (sve_orm env)" and "portal_submit_negotiation env salesperson sequence stamp user offer s = (r, s')"
  shows "(case r of Portal_Error st code \<Rightarrow> s' = s
    | Portal_Reply st n \<Rightarrow> st = 201 \<and> (\<exists>u q. user = Some u \<and> offer = Some q \<and>
        offer_taken salesperson u q (int_world s) n (int_world s')))"
proof (cases "\<exists>u q ord d w. user = Some u \<and> offer = Some q \<and> portal_order salesperson u q (int_world s) = Inr (ord, d) \<and>
    create_negotiation (sve_orm env) u sequence stamp (sve_now env) (portal_negotiation q d ord) (int_world s) = Inr w")
  case True
  then obtain u q ord d w where run: "user = Some u" "offer = Some q" "portal_order salesperson u q (int_world s) = Inr (ord, d)"
      "create_negotiation (sve_orm env) u sequence stamp (sve_now env) (portal_negotiation q d ord) (int_world s) = Inr w"
    by blast
  obtain i where i: "pof_order_id q = An_Id i" "0 < i" "addon_order i (int_world s) = Some ord"
      "validate_order_authorization (salesperson i) u ord" "so_state ord \<notin> {''cancel'', ''done''}" "discount_ok d"
    using portal_order_found[OF run(3)] by blast
  have id: "so_id ord = i" by (rule addon_order_id[OF i(3)])
  obtain n where n: "prepare_negotiation u sequence stamp (sve_now env) (portal_negotiation q d ord) (int_world s) = Inr n"
      "aw_negotiations w = aw_negotiations (int_world s) @ [n]" "addon_order i w = Some (set_fields pending_vals ord)"
      "\<And>j. j \<noteq> i \<Longrightarrow> addon_order j w = addon_order j (int_world s)"
    by (rule created_negotiation[OF assms(1) run(4)]) (use id i in \<open>auto simp: portal_negotiation_def\<close>)
  have fields: "an_order_id n = i \<and> an_status n = Submitted_Negotiation \<and> an_requested_discount n = d \<and>
      an_original_amount n = so_amount_total ord \<and> an_requested_terms n = Some (html_escape (pof_requested_terms q)) \<and>
      an_customer_note n = Some (html_escape (pof_customer_note q))"
    using n(1) id i(2,3) by (auto simp: prepare_negotiation_def portal_negotiation_def id_or_def original_amount_def num_or_def keep_def split: if_splits)
  have "offer_taken salesperson u q (int_world s) n w"
    unfolding offer_taken_def using i n fields escaped_plain by (auto simp: str_or_def)
  moreover have "r = Portal_Reply 201 n" "int_world s' = w"
    using assms(2) run n(2) by (auto simp: portal_submit_negotiation_def emit_portal_event_def Let_def emitted_world)
  ultimately show ?thesis using run by auto
next
  case False
  then show ?thesis using assms(2)
    by (auto simp: portal_submit_negotiation_def Let_def split: option.splits sum.splits prod.splits)
qed

text \<open>A confirmed order may be negotiated on too: it is held again.\<close>

definition portal_request_of :: "string \<Rightarrow> portal_offer" where
  "portal_request_of terms = \<lparr>pof_order_id = An_Id 5, pof_requested_discount = Some (Some 15), pof_requested_terms = terms,
     pof_customer_note = [], pof_proposed_amount = None\<rparr>"

lemma customer_order:
  assumes "st \<notin> {''cancel'', ''done''}" and "w = laptop_world\<lparr>aw_orders := [(laptop_order a)\<lparr>so_state := st\<rparr>]\<rparr>"
  shows "portal_order salesperson acme_customer (portal_request_of terms) w = Inr ((laptop_order a)\<lparr>so_state := st\<rparr>, 15)"
    and "\<exists>w'. create_negotiation plain_orm acme_customer None ''20260101'' 0
      (portal_negotiation (portal_request_of terms) 15 ((laptop_order a)\<lparr>so_state := st\<rparr>)) w = Inr w'"
proof -
  have o: "addon_order 5 w = Some ((laptop_order a)\<lparr>so_state := st\<rparr>)" using assms(2) by (simp add: addon_order_def laptop_order_def)
  have owns: "owns_order (ou_partner acme_customer) (so_partner ((laptop_order a)\<lparr>so_state := st\<rparr>))"
    by (simp add: owns_order_def acme_customer_def laptop_order_def)
  have "\<not> has_group acme_customer Base_User" by (simp add: has_group_def acme_customer_def addon_user_def)
  then show "portal_order salesperson acme_customer (portal_request_of terms) w = Inr ((laptop_order a)\<lparr>so_state := st\<rparr>, 15)"
    using assms(1) o owns by (simp add: portal_order_def portal_request_of_def validate_order_authorization_def keep_def discount_ok_def)
  have "so_id ((laptop_order a)\<lparr>so_state := st\<rparr>) = 5" by (simp add: laptop_order_def)
  then have "\<exists>n. prepare_negotiation acme_customer None ''20260101'' 0
      (portal_negotiation (portal_request_of terms) 15 ((laptop_order a)\<lparr>so_state := st\<rparr>)) w = Inr n \<and> an_requested_discount n = 15"
    using o owns by (simp add: prepare_negotiation_def portal_negotiation_def id_or_def keep_def)
  then show "\<exists>w'. create_negotiation plain_orm acme_customer None ''20260101'' 0
      (portal_negotiation (portal_request_of terms) 15 ((laptop_order a)\<lparr>so_state := st\<rparr>)) w = Inr w'"
    by (auto simp: create_negotiation_def check_requested_discount_def discount_ok_def)
qed

lemma confirmed_order_negotiated:
  assumes "w = laptop_world\<lparr>aw_orders := [(laptop_order Approved_Approval)\<lparr>so_state := ''sale''\<rparr>]\<rparr>"
  shows "\<exists>n s'. portal_submit_negotiation (small_env acme_customer) (\<lambda>_. None) None ''20260101'' (Some acme_customer)
    (Some (portal_request_of [])) (small_integration w) = (Portal_Reply 201 n, s')"
  using customer_order(1)[of "''sale''" w Approved_Approval "\<lambda>_. None" "[]"] customer_order(2)[of "''sale''" w Approved_Approval "[]"] assms
  by (auto simp: portal_submit_negotiation_def small_integration_def small_env_def Let_def)

theorem counter_offer_outcome_witness:
  "\<exists>n s'. portal_submit_negotiation (small_env acme_customer) (\<lambda>_. None) None ''20260101'' (Some acme_customer)
    (Some (portal_request_of ''<b>'')) (small_integration (laptop_world\<lparr>aw_orders := [(laptop_order Draft_Approval)\<lparr>so_state := ''sent''\<rparr>]\<rparr>)) =
      (Portal_Reply 201 n, s') \<and> list_all plain_char (str_or (an_requested_terms n) [] @ str_or (an_customer_note n) [])"
proof -
  let ?w = "laptop_world\<lparr>aw_orders := [(laptop_order Draft_Approval)\<lparr>so_state := ''sent''\<rparr>]\<rparr>"
  have "\<exists>n s'. portal_submit_negotiation (small_env acme_customer) (\<lambda>_. None) None ''20260101'' (Some acme_customer)
    (Some (portal_request_of ''<b>'')) (small_integration ?w) = (Portal_Reply 201 n, s')"
    using customer_order(1)[of "''sent''" ?w Draft_Approval "\<lambda>_. None" "''<b>''"] customer_order(2)[of "''sent''" ?w Draft_Approval "''<b>''"]
    by (auto simp: portal_submit_negotiation_def small_integration_def small_env_def Let_def)
  then obtain n s' where run: "portal_submit_negotiation (small_env acme_customer) (\<lambda>_. None) None ''20260101'' (Some acme_customer)
    (Some (portal_request_of ''<b>'')) (small_integration ?w) = (Portal_Reply 201 n, s')" by blast
  have "orm_ok (sve_orm (small_env acme_customer))" by (simp add: small_env_def plain_orm_ok)
  then have "list_all plain_char (str_or (an_requested_terms n) [] @ str_or (an_customer_note n) [])"
    using counter_offer_outcome[OF _ run] by (auto simp: offer_taken_def)
  then show ?thesis using run by blast
qed

end
