(* ===== verification/Xmlrpc_Gateway.thy ===== *)
theory Xmlrpc_Gateway
  imports Access
begin

text \<open>
  The production gateway \<^verbatim>\<open>XmlRpcOdooGateway\<close> of \<^verbatim>\<open>app/odoo/xmlrpc.py\<close>: what it asks a live Odoo, and what it
  makes of the answers. The server is a parameter, a record of one function per model and method that
  the gateway calls, on the server's state; it is taken to understand the calls as the code means them, and a
  read does not change it. A field that Odoo
  leaves empty is \<open>None\<close>; dates and states are read as in \<open>Gateway\<close>.
\<close>

section \<open>The server\<close>

datatype rpc_error = Rpc_Fault | Capability_Missing string | Bad_Value | Bad_Type | Bad_Key | No_Connection

text \<open>A fault is its text.\<close>

type_synonym rpc_fault = string

text \<open>A reference to a record: nothing, a pair of id and name, or a bare id.\<close>

datatype many2one = No_Ref | Named_Ref odoo_id string | Bare_Ref odoo_id

record rpc_user =
  rpu_id :: odoo_id
  rpu_name :: string
  rpu_login :: string
  rpu_email :: "string option"
  rpu_share :: bool
  rpu_partner :: many2one
  rpu_company :: many2one
  rpu_groups :: "odoo_id list"

record rpc_order =
  rpo_id :: odoo_id
  rpo_name :: string
  rpo_partner :: many2one
  rpo_state :: "odoo_state option"
  rpo_currency :: many2one
  rpo_user :: many2one
  rpo_team :: many2one
  rpo_company :: many2one
  rpo_validity_date :: "instant option"
  rpo_commitment_date :: "instant option"
  rpo_write_date :: "instant option"
  rpo_amount_untaxed :: "rat option"
  rpo_amount_tax :: "rat option"
  rpo_amount_total :: "rat option"
  rpo_deal_id :: "string option"
  rpo_approval_state :: "governance_tag option"
  rpo_risk_score :: "rat option"
  rpo_lock :: bool
  rpo_order_line :: "odoo_id list"

record rpc_line =
  rpl_id :: odoo_id
  rpl_product :: many2one
  rpl_qty :: "rat option"
  rpl_price_unit :: "rat option"
  rpl_discount :: "rat option"
  rpl_cost :: "rat option"
  rpl_display_type :: bool

record rpc_product =
  rpp_id :: odoo_id
  rpp_name :: string
  rpp_category :: many2one
  rpp_detailed_type :: "string option"
  rpp_type :: "string option"
  rpp_standard_price :: "rat option"
  rpp_list_price :: "rat option"

record rpc_partner =
  rpt_id :: odoo_id
  rpt_name :: string
  rpt_tier_code :: "string option"
  rpt_email :: "string option"
  rpt_user_ids :: "odoo_id list"

record rpc_quant =
  rpq_product :: many2one
  rpq_warehouse :: many2one
  rpq_quantity :: "rat option"
  rpq_reserved :: "rat option"

record rpc_picking =
  rpk_rpc_id :: odoo_id
  rpk_rpc_warehouse :: many2one
  rpk_rpc_state :: string
  rpk_rpc_scheduled_date :: "instant option"
  rpk_rpc_date_done :: "instant option"

text \<open>The search of orders, by its four clauses, and the values written to a line.\<close>

record order_domain =
  odm_ids :: "odoo_id list option"
  odm_partner_id :: "odoo_id option"
  odm_state :: "odoo_state option"
  odm_since :: "instant option"

record line_write_vals =
  lwv_discount :: "rat option"
  lwv_qty :: "rat option"

record new_line_vals =
  nlv_order_id :: odoo_id
  nlv_product_id :: odoo_id
  nlv_qty :: rat
  nlv_discount :: rat
  nlv_price_unit :: rat

type_synonym ('s, 'a) rpc_read = "'s \<Rightarrow> rpc_fault + 'a"
type_synonym ('s, 'a) rpc_call = "'s \<Rightarrow> (rpc_fault + 'a) \<times> 's"

record 's odoo_server =
  srv_authenticate :: "string \<Rightarrow> string \<Rightarrow> ('s, odoo_id option) rpc_read"
  srv_read_users :: "odoo_id list \<Rightarrow> ('s, rpc_user list) rpc_read"
  srv_search_users :: "('s, odoo_id list) rpc_read"
  srv_read_groups :: "odoo_id list \<Rightarrow> ('s, string option list) rpc_read"
  srv_read_orders :: "odoo_id list \<Rightarrow> ('s, rpc_order list) rpc_read"
  srv_search_orders :: "order_domain \<Rightarrow> ('s, rpc_order list) rpc_read"
  srv_read_lines :: "odoo_id list \<Rightarrow> ('s, rpc_line list) rpc_read"
  srv_read_partners :: "odoo_id list \<Rightarrow> ('s, rpc_partner list) rpc_read"
  srv_read_products :: "odoo_id list \<Rightarrow> ('s, rpc_product list) rpc_read"
  srv_category_parents :: "('s, (odoo_id \<times> many2one) list) rpc_read"
  srv_warehouses :: "('s, raw_warehouse list) rpc_read"
  srv_quants :: "odoo_id list \<Rightarrow> ('s, rpc_quant list) rpc_read"
  srv_pickings :: "odoo_id \<Rightarrow> ('s, rpc_picking list) rpc_read"
  srv_billing_summary :: "odoo_id \<Rightarrow> ('s, raw_billing_summary option) rpc_read"
  srv_confirmed_orders :: "instant option \<Rightarrow> ('s, rpc_order list) rpc_read"
  srv_create_order :: "odoo_id \<Rightarrow> odoo_id \<Rightarrow> odoo_id option \<Rightarrow> ('s, odoo_id) rpc_call"
  srv_create_line :: "new_line_vals \<Rightarrow> ('s, odoo_id) rpc_call"
  srv_write_line :: "odoo_id \<Rightarrow> line_write_vals \<Rightarrow> ('s, bool) rpc_call"
  srv_apply_line_changes :: "odoo_id \<Rightarrow> line_change list \<Rightarrow> ('s, bool) rpc_call"
  srv_set_governance :: "odoo_id \<Rightarrow> ApprovalState \<Rightarrow> rat \<Rightarrow> bool \<Rightarrow> ('s, bool) rpc_call"
  srv_write_governance :: "odoo_id \<Rightarrow> ApprovalState \<Rightarrow> rat \<Rightarrow> bool \<Rightarrow> ('s, bool) rpc_call"
  srv_dealflow_confirm :: "odoo_id \<Rightarrow> ('s, bool) rpc_call"
  srv_action_confirm :: "odoo_id \<Rightarrow> ('s, bool) rpc_call"
  srv_action_cancel :: "odoo_id \<Rightarrow> ('s, bool) rpc_call"
  srv_apply_fulfillment_plan :: "odoo_id \<Rightarrow> raw_allocation list \<Rightarrow> ('s, odoo_id list) rpc_call"
  srv_register_payment :: "odoo_id \<Rightarrow> rat \<Rightarrow> odoo_id option \<Rightarrow> ('s, payment_result) rpc_call"

section \<open>Calls\<close>

fun bind_rpc :: "rpc_error + 'a \<Rightarrow> ('a \<Rightarrow> rpc_error + 'b) \<Rightarrow> rpc_error + 'b" where
  "bind_rpc (Inl e) f = Inl e"
| "bind_rpc (Inr x) f = f x"

fun each_rpc :: "('a \<Rightarrow> rpc_error + 'b) \<Rightarrow> 'a list \<Rightarrow> rpc_error + 'b list" where
  "each_rpc f [] = Inr []"
| "each_rpc f (x # xs) = bind_rpc (f x) (\<lambda>y. bind_rpc (each_rpc f xs) (\<lambda>ys. Inr (y # ys)))"

text \<open>A step of a longer call keeps the state that it reached when it fails.\<close>

fun then_rpc :: "(rpc_error + 'a) \<times> 's \<Rightarrow> ('a \<Rightarrow> 's \<Rightarrow> (rpc_error + 'b) \<times> 's) \<Rightarrow> (rpc_error + 'b) \<times> 's" where
  "then_rpc (Inl e, s) f = (Inl e, s)"
| "then_rpc (Inr x, s) f = f x s"

definition gateway_uid :: "odoo_id option \<Rightarrow> odoo_id option \<Rightarrow> (rpc_error + odoo_id) \<times> odoo_id option" where
  "gateway_uid cached found = (case cached of Some u \<Rightarrow> (Inr u, cached)
     | None \<Rightarrow> if num_or found 0 = 0 then (Inl No_Connection, None) else (Inr (num_or found 0), found))"

definition method_missing :: "rpc_fault \<Rightarrow> bool" where
  "method_missing f = (text_in ''has no attribute'' f \<or> text_in ''KeyError'' f)"

definition fault_error :: "string \<Rightarrow> rpc_fault \<Rightarrow> rpc_error" where
  "fault_error m f = (if method_missing f then Capability_Missing m else Rpc_Fault)"

definition execute :: "string \<Rightarrow> rpc_fault + 'a \<Rightarrow> rpc_error + 'a" where
  "execute m r = (case r of Inl f \<Rightarrow> Inl (fault_error m f) | Inr x \<Rightarrow> Inr x)"

definition execute_call :: "string \<Rightarrow> ('s, 'a) rpc_call \<Rightarrow> 's \<Rightarrow> (rpc_error + 'a) \<times> 's" where
  "execute_call m call s = (execute m (fst (call s)), snd (call s))"

text \<open>A call whose method is missing is made another way.\<close>

definition or_else :: "(rpc_error + 'a) \<times> 's \<Rightarrow> ('s \<Rightarrow> (rpc_error + 'a) \<times> 's) \<Rightarrow> (rpc_error + 'a) \<times> 's" where
  "or_else r f = (case r of (Inl (Capability_Missing _), s) \<Rightarrow> f s | _ \<Rightarrow> r)"

section \<open>References\<close>

definition ref_id :: "many2one \<Rightarrow> odoo_id option" where
  "ref_id r = (case r of No_Ref \<Rightarrow> None | Named_Ref i _ \<Rightarrow> Some i | Bare_Ref i \<Rightarrow> Some i)"

definition ref_or :: "many2one \<Rightarrow> odoo_id \<Rightarrow> odoo_id" where
  "ref_or r d = (case r of Named_Ref i _ \<Rightarrow> i | _ \<Rightarrow> num_or (ref_id r) d)"

definition ref_name :: "many2one \<Rightarrow> string \<Rightarrow> string" where
  "ref_name r d = (case r of Named_Ref _ n \<Rightarrow> n | _ \<Rightarrow> d)"

text \<open>Only a pair has a first component.\<close>

definition ref_first :: "many2one \<Rightarrow> rpc_error + odoo_id" where
  "ref_first r = (case r of Named_Ref i _ \<Rightarrow> Inr i | _ \<Rightarrow> Inl Bad_Type)"

definition ref_given :: "many2one \<Rightarrow> bool" where
  "ref_given r = (case r of Named_Ref _ _ \<Rightarrow> True | _ \<Rightarrow> num_or (ref_id r) 0 \<noteq> 0)"

section \<open>Users\<close>

definition identity_of :: "rpc_user \<Rightarrow> string list \<Rightarrow> odoo_identity" where
  "identity_of u gs = \<lparr>oi_uid = rpu_id u, oi_name = rpu_name u, oi_login = rpu_login u, oi_email = rpu_email u, oi_groups = gs,
     oi_is_share = rpu_share u, oi_partner_id = ref_id (rpu_partner u), oi_company_id = ref_or (rpu_company u) 1\<rparr>"

definition xml_authenticate :: "'s odoo_server \<Rightarrow> string \<Rightarrow> string \<Rightarrow> 's \<Rightarrow> rpc_error + odoo_identity" where
  "xml_authenticate srv login password s =
     (case srv_authenticate srv login password s of Inl f \<Rightarrow> Inl Rpc_Fault
      | Inr found \<Rightarrow>
          if num_or found 0 = 0 then Inl Bad_Value
          else bind_rpc (execute ''read'' (srv_read_users srv [num_or found 0] s)) (\<lambda>us. case us of [] \<Rightarrow> Inl Bad_Value
            | u # _ \<Rightarrow> bind_rpc (execute ''read'' (srv_read_groups srv (rpu_groups u) s)) (\<lambda>gs.
                Inr (identity_of u (List.map_filter id gs)))))"

definition xml_get_users :: "'s odoo_server \<Rightarrow> 's \<Rightarrow> rpc_error + odoo_identity list" where
  "xml_get_users srv s = bind_rpc (execute ''search'' (srv_search_users srv s)) (\<lambda>ids.
     bind_rpc (execute ''read'' (srv_read_users srv ids s)) (\<lambda>us. Inr (map (\<lambda>u. identity_of u []) us)))"

section \<open>Products\<close>

text \<open>
  The path from a category to the root: it stops at a category that has no parent, does not exist, or was
  visited before.
\<close>

function climb :: "(odoo_id \<times> many2one) list \<Rightarrow> odoo_id \<Rightarrow> odoo_id list \<Rightarrow> rpc_error + odoo_id list" where
  "climb parents c path =
     (if c = 0 \<or> c \<in> set path then Inr path
      else case map_of parents c of
        None \<Rightarrow> Inr (path @ [c])
      | Some r \<Rightarrow> if \<not> ref_given r then Inr (path @ [c])
          else (case r of Named_Ref p _ \<Rightarrow> climb parents p (path @ [c]) | _ \<Rightarrow> Inl Bad_Type))"
  by pat_completeness auto
termination
proof (relation "measure (\<lambda>(parents, c, path). card (fst ` set parents - set path))", goal_cases)
  case (2 parents c path r p n)
  then have "c \<in> fst ` set parents - set path" by (auto dest: map_of_SomeD intro: rev_image_eqI)
  then have "fst ` set parents - set (path @ [c]) \<subset> fst ` set parents - set path" by auto
  then show ?case by (auto intro!: psubset_card_mono)
qed simp

declare climb.simps [simp del]

definition category_hierarchies ::
    "'s odoo_server \<Rightarrow> odoo_id list \<Rightarrow> 's \<Rightarrow> rpc_error + (odoo_id \<times> odoo_id list) list" where
  "category_hierarchies srv cids s = (if cids = [] then Inr []
     else bind_rpc (execute ''read'' (srv_category_parents srv s)) (\<lambda>parents.
       each_rpc (\<lambda>c. bind_rpc (climb parents c []) (\<lambda>path. Inr (c, path))) cids))"

definition recurring_name :: "string \<Rightarrow> bool" where
  "recurring_name n = (mentions n ''support'' \<or> mentions n ''backup'' \<or> mentions n ''subscription'')"

definition monthly_plan :: plan_info where
  "monthly_plan = \<lparr>pi_plan_id = 1, pi_name = ''Monthly'', pi_cadence = ''MONTHLY''\<rparr>"

definition xml_product :: "(odoo_id \<times> odoo_id list) list \<Rightarrow> rpc_product \<Rightarrow> raw_product" where
  "xml_product paths p = (let c = ref_or (rpp_category p) 1; rec = recurring_name (rpp_name p);
       raw_type = str_or (rpp_detailed_type p) (str_or (rpp_type p) ''product'') in
     \<lparr>rpr_id = rpp_id p, rpr_name = rpp_name p, rpr_category_id = c,
      rpr_category_path = (case map_of paths c of None \<Rightarrow> [c] | Some path \<Rightarrow> path),
      rpr_type = (if rec then ''SUBSCRIPTION'' else if raw_type = ''product'' then ''STOCKABLE'' else ''SERVICE''),
      rpr_standard_price = num_or (rpp_standard_price p) 0, rpr_list_price = num_or (rpp_list_price p) 0, rpr_tags = [],
      rpr_is_recurring = rec, rpr_plan_info = (if rec then Some monthly_plan else None)\<rparr>)"

definition xml_get_products :: "'s odoo_server \<Rightarrow> odoo_id list \<Rightarrow> 's \<Rightarrow> rpc_error + (odoo_id \<times> raw_product) list" where
  "xml_get_products srv pids s = (if pids = [] then Inr []
     else bind_rpc (execute ''read'' (srv_read_products srv pids s)) (\<lambda>ps.
       bind_rpc (each_rpc ref_first (filter ref_given (map rpp_category ps))) (\<lambda>cids.
         bind_rpc (category_hierarchies srv (remdups cids) s) (\<lambda>paths.
           Inr (foldl (\<lambda>res p. AList.update (rpp_id p) (xml_product paths p) res) [] ps)))))"

definition xml_get_price :: "'s odoo_server \<Rightarrow> odoo_id \<Rightarrow> odoo_id \<Rightarrow> rat \<Rightarrow> 's \<Rightarrow> rpc_error + dec" where
  "xml_get_price srv partner p qty s = bind_rpc (xml_get_products srv [p] s) (\<lambda>ps.
     Inr (case map_of ps p of None \<Rightarrow> 0 | Some x \<Rightarrow> float_repr (rpr_list_price x)))"

section \<open>Orders\<close>

definition xml_header :: "rpc_order \<Rightarrow> raw_order_header" where
  "xml_header x = \<lparr>roh_id = rpo_id x, roh_name = rpo_name x, roh_partner_id = num_or (ref_id (rpo_partner x)) 0,
     roh_partner_name = ref_name (rpo_partner x) [], roh_state = (case rpo_state x of None \<Rightarrow> OdooDraft | Some st \<Rightarrow> st),
     roh_currency = ref_name (rpo_currency x) ''INR'', roh_user_id = ref_or (rpo_user x) 1, roh_team_id = ref_id (rpo_team x),
     roh_company_id = ref_or (rpo_company x) 1, roh_validity_date = rpo_validity_date x,
     roh_commitment_date = rpo_commitment_date x, roh_write_date = rpo_write_date x,
     roh_amount_untaxed = num_or (rpo_amount_untaxed x) 0, roh_amount_tax = num_or (rpo_amount_tax x) 0,
     roh_amount_total = num_or (rpo_amount_total x) 0, roh_dealflow_deal_id = rpo_deal_id x,
     roh_dealflow_approval_state = rpo_approval_state x, roh_dealflow_risk_score = Some (num_or (rpo_risk_score x) 0),
     roh_dealflow_locked = Some (rpo_lock x)\<rparr>"

text \<open>A line without a cost costs what its product does.\<close>

definition xml_line :: "(odoo_id \<times> raw_product) list \<Rightarrow> rpc_line \<Rightarrow> rpc_error + raw_order_line" where
  "xml_line ps l = bind_rpc (ref_first (rpl_product l)) (\<lambda>pid. let prod = map_of ps pid in
     Inr \<lparr>rol_id = rpl_id l, rol_product_id = pid, rol_product_name = ref_name (rpl_product l) [],
       rol_category_id = (case prod of None \<Rightarrow> 1 | Some p \<Rightarrow> rpr_category_id p),
       rol_category_path = (case prod of None \<Rightarrow> [1] | Some p \<Rightarrow> rpr_category_path p),
       rol_product_type = (case prod of None \<Rightarrow> ''STOCKABLE'' | Some p \<Rightarrow> rpr_type p), rol_qty = num_or (rpl_qty l) 0,
       rol_price_unit = num_or (rpl_price_unit l) 0, rol_discount_pct = num_or (rpl_discount l) 0,
       rol_unit_cost = num_or (rpl_cost l) (case prod of None \<Rightarrow> 0 | Some p \<Rightarrow> rpr_standard_price p),
       rol_tax_rate_pct = (if map_option rpr_type prod = Some ''SERVICE'' then 18 else 0),
       rol_is_recurring = (case prod of None \<Rightarrow> False | Some p \<Rightarrow> rpr_is_recurring p),
       rol_plan_name = (case prod of None \<Rightarrow> None | Some p \<Rightarrow> map_option pi_name (rpr_plan_info p))\<rparr>)"

definition priced_rpc_lines :: "rpc_line list \<Rightarrow> rpc_line list" where
  "priced_rpc_lines ls = filter (\<lambda>l. \<not> rpl_display_type l) ls"

definition xml_order_lines :: "'s odoo_server \<Rightarrow> rpc_line list \<Rightarrow> 's \<Rightarrow> rpc_error + raw_order_line list" where
  "xml_order_lines srv ls s =
     bind_rpc (each_rpc ref_first (filter ref_given (map rpl_product (priced_rpc_lines ls)))) (\<lambda>pids.
       bind_rpc (xml_get_products srv pids s) (\<lambda>ps. each_rpc (xml_line ps) (priced_rpc_lines ls)))"

definition xml_get_sale_order :: "'s odoo_server \<Rightarrow> odoo_id \<Rightarrow> 's \<Rightarrow> rpc_error + raw_order" where
  "xml_get_sale_order srv i s = bind_rpc (execute ''read'' (srv_read_orders srv [i] s)) (\<lambda>xs. case xs of
     [] \<Rightarrow> Inl Bad_Value
   | x # _ \<Rightarrow>
       bind_rpc (if rpo_order_line x = [] then Inr [] else execute ''read'' (srv_read_lines srv (rpo_order_line x) s)) (\<lambda>ls.
         bind_rpc (xml_order_lines srv ls s) (\<lambda>rls. Inr \<lparr>ro_header = xml_header x, ro_lines = rls\<rparr>)))"

text \<open>An empty or zero filter is no clause of the search.\<close>

definition order_domain_of ::
    "instant option \<Rightarrow> odoo_id list option \<Rightarrow> odoo_id option \<Rightarrow> odoo_state option \<Rightarrow> order_domain" where
  "order_domain_of since ids partner st = \<lparr>odm_ids = (if ids = Some [] then None else ids),
     odm_partner_id = (if num_or partner 0 = 0 then None else partner), odm_state = st, odm_since = since\<rparr>"

definition xml_list_sale_orders ::
    "'s odoo_server \<Rightarrow> instant option \<Rightarrow> odoo_id list option \<Rightarrow> odoo_id option \<Rightarrow> odoo_state option \<Rightarrow> 's \<Rightarrow>
      rpc_error + raw_order_header list" where
  "xml_list_sale_orders srv since ids partner st s =
     bind_rpc (execute ''search_read'' (srv_search_orders srv (order_domain_of since ids partner st) s)) (\<lambda>xs. Inr (map xml_header xs))"

definition xml_get_partner :: "'s odoo_server \<Rightarrow> odoo_id \<Rightarrow> 's \<Rightarrow> rpc_error + raw_partner" where
  "xml_get_partner srv i s = bind_rpc (execute ''read'' (srv_read_partners srv [i] s)) (\<lambda>ps. case ps of
     [] \<Rightarrow> Inl Bad_Value
   | p # _ \<Rightarrow> Inr \<lparr>rp_id = rpt_id p, rp_name = rpt_name p, rp_tier_code = rpt_tier_code p, rp_payment_term_days = 30,
       rp_email = rpt_email p, rp_portal_user_ids = rpt_user_ids p\<rparr>)"

section \<open>Stock and deliveries\<close>

definition xml_get_warehouses :: "'s odoo_server \<Rightarrow> 's \<Rightarrow> rpc_error + raw_warehouse list" where
  "xml_get_warehouses srv s = execute ''search_read'' (srv_warehouses srv s)"

definition count_quant ::
    "rpc_quant \<Rightarrow> (odoo_id \<times> (odoo_id \<times> int) list) list \<Rightarrow> rpc_error + (odoo_id \<times> (odoo_id \<times> int) list) list" where
  "count_quant q res = bind_rpc (ref_first (rpq_product q)) (\<lambda>pid.
     bind_rpc (if ref_given (rpq_warehouse q) then ref_first (rpq_warehouse q) else Inr 1) (\<lambda>wid.
       let free = pyint (num_or (rpq_quantity q) 0) - pyint (num_or (rpq_reserved q) 0) in
       case map_of res pid of None \<Rightarrow> Inl Bad_Key
       | Some m \<Rightarrow> Inr (AList.update pid (AList.update wid ((case map_of m wid of None \<Rightarrow> 0 | Some n \<Rightarrow> n) + max 0 free) m) res)))"

fun fold_rpc :: "('a \<Rightarrow> 'b \<Rightarrow> rpc_error + 'b) \<Rightarrow> 'a list \<Rightarrow> 'b \<Rightarrow> rpc_error + 'b" where
  "fold_rpc f [] y = Inr y"
| "fold_rpc f (x # xs) y = bind_rpc (f x y) (fold_rpc f xs)"

definition xml_get_availability ::
    "'s odoo_server \<Rightarrow> odoo_id list \<Rightarrow> odoo_id list option \<Rightarrow> 's \<Rightarrow> rpc_error + (odoo_id \<times> (odoo_id \<times> int) list) list" where
  "xml_get_availability srv pids warehouses s = bind_rpc (execute ''search_read'' (srv_quants srv pids s)) (\<lambda>qs.
     fold_rpc count_quant qs (map (\<lambda>p. (p, [])) (remdups pids)))"

definition xml_get_pickings :: "'s odoo_server \<Rightarrow> odoo_id \<Rightarrow> 's \<Rightarrow> rpc_error + raw_picking list" where
  "xml_get_pickings srv i s = bind_rpc (execute ''search_read'' (srv_pickings srv i s)) (\<lambda>ps.
     Inr (map (\<lambda>p. \<lparr>rpk_id = rpk_rpc_id p, rpk_warehouse_id = ref_or (rpk_rpc_warehouse p) 1, rpk_state = rpk_rpc_state p,
       rpk_scheduled_date = rpk_rpc_scheduled_date p, rpk_date_done = rpk_rpc_date_done p, rpk_lines = []\<rparr>) ps))"

text \<open>An Odoo without the summary, or whose summary is none, gives the empty one.\<close>

definition xml_get_billing_summary :: "'s odoo_server \<Rightarrow> odoo_id \<Rightarrow> 's \<Rightarrow> rpc_error + raw_billing_summary" where
  "xml_get_billing_summary srv i s = (case execute ''dealflow_billing_summary'' (srv_billing_summary srv i s) of
     Inr (Some b) \<Rightarrow> Inr b | Inr None \<Rightarrow> Inr empty_billing_summary
   | Inl (Capability_Missing _) \<Rightarrow> Inr empty_billing_summary | Inl e \<Rightarrow> Inl e)"

text \<open>Only orders with two products or more are mined.\<close>

definition mined_of :: "'s odoo_server \<Rightarrow> 's \<Rightarrow> rpc_order \<Rightarrow> rpc_error + mined_order option" where
  "mined_of srv s x = (if rpo_order_line x = [] then Inr None
     else bind_rpc (execute ''read'' (srv_read_lines srv (rpo_order_line x) s)) (\<lambda>ls.
       bind_rpc (each_rpc ref_first (filter ref_given (map rpl_product (priced_rpc_lines ls)))) (\<lambda>pids.
         Inr (if 2 \<le> length (remdups pids) then Some \<lparr>mo_id = rpo_id x, mo_product_ids = remdups pids\<rparr> else None))))"

definition xml_confirmed_orders :: "'s odoo_server \<Rightarrow> instant option \<Rightarrow> 's \<Rightarrow> rpc_error + mined_order list" where
  "xml_confirmed_orders srv since s = bind_rpc (execute ''search_read'' (srv_confirmed_orders srv since s)) (\<lambda>xs.
     bind_rpc (each_rpc (mined_of srv s) xs) (\<lambda>ms. Inr (List.map_filter id ms)))"

section \<open>Changes\<close>

definition xml_add_line :: "'s odoo_server \<Rightarrow> odoo_id \<Rightarrow> odoo_id \<Rightarrow> rat \<Rightarrow> rat \<Rightarrow> 's \<Rightarrow> (rpc_error + odoo_id) \<times> 's" where
  "xml_add_line srv i p qty discount s = then_rpc (xml_get_products srv [p] s, s) (\<lambda>ps s.
     execute_call ''create'' (srv_create_line srv \<lparr>nlv_order_id = i, nlv_product_id = p, nlv_qty = qty, nlv_discount = discount,
       nlv_price_unit = (case map_of ps p of None \<Rightarrow> 0 | Some x \<Rightarrow> rpr_list_price x)\<rparr>) s)"

fun xml_add_lines :: "'s odoo_server \<Rightarrow> odoo_id \<Rightarrow> order_line_spec list \<Rightarrow> 's \<Rightarrow> (rpc_error + unit) \<times> 's" where
  "xml_add_lines srv i [] s = (Inr (), s)"
| "xml_add_lines srv i (l # ls) s =
     then_rpc (xml_add_line srv i (ols_product_id l) (case ols_qty l of None \<Rightarrow> 1 | Some q \<Rightarrow> q)
       (case ols_discount_pct l of None \<Rightarrow> 0 | Some d \<Rightarrow> d) s) (\<lambda>_. xml_add_lines srv i ls)"

definition xml_create_order ::
    "'s odoo_server \<Rightarrow> odoo_id \<Rightarrow> odoo_id \<Rightarrow> odoo_id option \<Rightarrow> order_line_spec list option \<Rightarrow> 's \<Rightarrow> (rpc_error + raw_order) \<times> 's" where
  "xml_create_order srv partner user team lines s =
     then_rpc (execute_call ''create'' (srv_create_order srv partner user (if num_or team 0 = 0 then None else team)) s) (\<lambda>i s.
       then_rpc (xml_add_lines srv i (case lines of None \<Rightarrow> [] | Some ls \<Rightarrow> ls) s) (\<lambda>_ s. (xml_get_sale_order srv i s, s)))"

definition change_vals :: "line_change \<Rightarrow> line_write_vals" where
  "change_vals c = \<lparr>lwv_discount = (if lc_discount_pct c = None then lc_discount c else lc_discount_pct c),
     lwv_qty = (if lc_product_uom_qty c = None then lc_qty c else lc_product_uom_qty c)\<rparr>"

definition change_line :: "line_change \<Rightarrow> odoo_id" where
  "change_line c = num_or (lc_line_id c) (num_or (lc_id c) 0)"

fun write_rpc_lines :: "'s odoo_server \<Rightarrow> line_change list \<Rightarrow> 's \<Rightarrow> (rpc_error + bool) \<times> 's" where
  "write_rpc_lines srv [] s = (Inr True, s)"
| "write_rpc_lines srv (c # cs) s =
     (if change_line c = 0 \<or> lwv_discount (change_vals c) = None \<and> lwv_qty (change_vals c) = None then write_rpc_lines srv cs s
      else then_rpc (execute_call ''write'' (srv_write_line srv (change_line c) (change_vals c)) s) (\<lambda>_. write_rpc_lines srv cs))"

definition xml_apply_line_changes :: "'s odoo_server \<Rightarrow> odoo_id \<Rightarrow> line_change list \<Rightarrow> 's \<Rightarrow> (rpc_error + bool) \<times> 's" where
  "xml_apply_line_changes srv i cs s =
     or_else (execute_call ''dealflow_apply_line_changes'' (srv_apply_line_changes srv i cs) s) (write_rpc_lines srv cs)"

definition xml_set_governance ::
    "'s odoo_server \<Rightarrow> odoo_id \<Rightarrow> ApprovalState \<Rightarrow> rat \<Rightarrow> bool \<Rightarrow> 's \<Rightarrow> (rpc_error + bool) \<times> 's" where
  "xml_set_governance srv i st score locked s =
     or_else (execute_call ''dealflow_set_governance'' (srv_set_governance srv i st score locked) s)
       (execute_call ''write'' (srv_write_governance srv i st score locked))"

definition xml_confirm :: "'s odoo_server \<Rightarrow> odoo_id \<Rightarrow> 's \<Rightarrow> (rpc_error + bool) \<times> 's" where
  "xml_confirm srv i s = or_else (execute_call ''dealflow_confirm'' (srv_dealflow_confirm srv i) s)
     (execute_call ''action_confirm'' (srv_action_confirm srv i))"

definition xml_cancel :: "'s odoo_server \<Rightarrow> odoo_id \<Rightarrow> 's \<Rightarrow> (rpc_error + bool) \<times> 's" where
  "xml_cancel srv i = execute_call ''action_cancel'' (srv_action_cancel srv i)"

definition xml_apply_fulfillment_plan :: "'s odoo_server \<Rightarrow> odoo_id \<Rightarrow> raw_allocation list \<Rightarrow> 's \<Rightarrow> (rpc_error + odoo_id list) \<times> 's" where
  "xml_apply_fulfillment_plan srv i xs = execute_call ''dealflow_apply_fulfillment_plan'' (srv_apply_fulfillment_plan srv i xs)"

definition xml_register_payment ::
    "'s odoo_server \<Rightarrow> odoo_id \<Rightarrow> rat \<Rightarrow> odoo_id option \<Rightarrow> 's \<Rightarrow> (rpc_error + payment_result) \<times> 's" where
  "xml_register_payment srv i amount journal =
     execute_call ''dealflow_register_payment'' (srv_register_payment srv i amount journal)"

section \<open>What the gateway gives\<close>

lemma bind_rpc_Inr: "bind_rpc r f = Inr y \<longleftrightarrow> (\<exists>x. r = Inr x \<and> f x = Inr y)"
  by (cases r) auto

text \<open>
  The path of a category is never longer than the table, visits no category twice, and goes from
  parent to parent.
\<close>

definition parent_link :: "(odoo_id \<times> many2one) list \<Rightarrow> odoo_id \<Rightarrow> odoo_id \<Rightarrow> bool" where
  "parent_link parents c p = (\<exists>n. map_of parents c = Some (Named_Ref p n))"

fun linked :: "(odoo_id \<times> many2one) list \<Rightarrow> odoo_id list \<Rightarrow> bool" where
  "linked parents (a # b # xs) = (parent_link parents a b \<and> linked parents (b # xs))"
| "linked parents xs = True"

lemma linked_snoc: "linked parents (xs @ [c]) \<longleftrightarrow> linked parents xs \<and> (xs = [] \<or> parent_link parents (last xs) c)"
  by (induction parents xs rule: linked.induct) auto

lemma climbed:
  assumes "climb parents c path = Inr r" and "distinct path" and "linked parents (path @ [c])" and "0 \<notin> set path"
  shows "distinct r \<and> linked parents r \<and> 0 \<notin> set r \<and> (\<exists>more. r = path @ more \<and> (c \<noteq> 0 \<and> c \<notin> set path \<longrightarrow> more \<noteq> [] \<and> hd more = c))"
  using assms
proof (induction parents c path rule: climb.induct)
  case (1 parents c path)
  show ?case
  proof (cases "c = 0 \<or> c \<in> set path")
    case True
    then show ?thesis using 1(2-5) by (auto simp: climb.simps[of parents c path] linked_snoc)
  next
    case False
    then have here: "distinct (path @ [c])" "0 \<notin> set (path @ [c])" using 1(3,5) by auto
    show ?thesis
    proof (cases "\<exists>p n. map_of parents c = Some (Named_Ref p n)")
      case True
      then obtain p n where p: "map_of parents c = Some (Named_Ref p n)" by blast
      then have run: "climb parents p (path @ [c]) = Inr r"
        using 1(2) False by (simp add: climb.simps[of parents c path] ref_given_def)
      have "linked parents ((path @ [c]) @ [p])" using 1(4) p by (simp only: linked_snoc) (auto simp: parent_link_def)
      from 1(1)[OF False p _ refl run here(1) this here(2)] show ?thesis by (auto simp: ref_given_def)
    next
      case False
      then have "r = path @ [c]"
        using 1(2) \<open>\<not> (c = 0 \<or> c \<in> set path)\<close>
        by (auto simp: climb.simps[of parents c path] split: option.splits many2one.splits if_splits)
      then show ?thesis using here 1(4) by auto
    qed
  qed
qed

lemma linked_known: "linked parents xs \<Longrightarrow> set (butlast xs) \<subseteq> fst ` set parents"
  by (induction parents xs rule: linked.induct) (auto simp: parent_link_def dest!: map_of_SomeD intro: rev_image_eqI)

lemma linked_length: "linked parents xs \<Longrightarrow> distinct xs \<Longrightarrow> length xs \<le> length parents + 1"
proof -
  assume l: "linked parents xs" "distinct xs"
  have "length (butlast xs) = card (set (butlast xs))" using l(2) by (simp add: distinct_butlast distinct_card)
  also have "\<dots> \<le> card (fst ` set parents)" using linked_known[OF l(1)] by (simp add: card_mono)
  also have "\<dots> \<le> length parents" by (meson card_image_le card_length finite_set le_trans)
  finally show ?thesis by simp
qed

definition named_parents :: "(odoo_id \<times> many2one) list \<Rightarrow> bool" where
  "named_parents parents = list_all (\<lambda>(c, r). \<not> ref_given r \<or> (\<exists>p n. r = Named_Ref p n)) parents"

lemma climb_succeeds: "named_parents parents \<Longrightarrow> \<exists>r. climb parents c path = Inr r"
proof (induction parents c path rule: climb.induct)
  case (1 parents c path)
  then show ?case
    by (auto simp: climb.simps[of parents c path] named_parents_def list_all_iff dest!: map_of_SomeD split: option.splits many2one.splits)
qed

text \<open>
  C39: The way up from a category ends, even when the categories of Odoo form a cycle: it begins at the category,
  goes from parent to parent, visits none twice, and is at most one longer than the table.
\<close>

theorem category_path_ends:
  assumes "named_parents parents" and "c \<noteq> 0"
  shows "\<exists>r. climb parents c [] = Inr r \<and> r \<noteq> [] \<and> hd r = c \<and> linked parents r \<and> distinct r \<and> length r \<le> length parents + 1"
proof -
  obtain r where r: "climb parents c [] = Inr r" using climb_succeeds[OF assms(1)] by blast
  from climbed[OF r] assms(2) have "distinct r" "linked parents r" "r \<noteq> []" "hd r = c" by auto
  then show ?thesis using r linked_length by blast
qed

theorem category_path_ends_witness: "climb [(1, Named_Ref 2 []), (2, Named_Ref 1 [])] 1 [] = Inr [1, 2]"
proof -
  have "named_parents [(1, Named_Ref 2 []), (2, Named_Ref 1 [])]" by (simp add: named_parents_def)
  from category_path_ends[OF this, of 1] show ?thesis by (simp add: climb.simps ref_given_def)
qed

text \<open>
  A fault that merely mentions a missing key counts as a missing method: an order that the addon refuses
  to confirm with such a fault is confirmed past it.
\<close>

lemma confirmed_past_the_addon:
  assumes "srv_dealflow_confirm srv i s = (Inl f, s)" and "text_in ''KeyError'' f" and "srv_action_confirm srv i s = (Inr True, s')"
  shows "xml_confirm srv i s = (Inr True, s')"
  using assms by (simp add: xml_confirm_def or_else_def execute_call_def execute_def fault_error_def method_missing_def)

text \<open>What is free in a warehouse is never negative, and is counted for the products asked for only.\<close>

definition counts_ok :: "odoo_id list \<Rightarrow> (odoo_id \<times> (odoo_id \<times> int) list) list \<Rightarrow> bool" where
  "counts_ok pids res = (map fst res = remdups pids \<and> (\<forall>p m w n. map_of res p = Some m \<longrightarrow> map_of m w = Some n \<longrightarrow> 0 \<le> n))"

lemma quant_counted: "count_quant q res = Inr res' \<Longrightarrow> counts_ok pids res \<Longrightarrow> counts_ok pids res'"
proof -
  assume run: "count_quant q res = Inr res'" and ok: "counts_ok pids res"
  from run obtain pid where "bind_rpc (if ref_given (rpq_warehouse q) then ref_first (rpq_warehouse q) else Inr 1) (\<lambda>wid.
      let free = pyint (num_or (rpq_quantity q) 0) - pyint (num_or (rpq_reserved q) 0) in
      case map_of res pid of None \<Rightarrow> Inl Bad_Key
      | Some m \<Rightarrow> Inr (AList.update pid (AList.update wid ((case map_of m wid of None \<Rightarrow> 0 | Some n \<Rightarrow> n) + max 0 free) m) res)) = Inr res'"
    unfolding count_quant_def bind_rpc_Inr by blast
  then obtain wid m where m: "map_of res pid = Some m"
      and res': "res' = AList.update pid (AList.update wid ((case map_of m wid of None \<Rightarrow> 0 | Some n \<Rightarrow> n) +
        max 0 (pyint (num_or (rpq_quantity q) 0) - pyint (num_or (rpq_reserved q) 0))) m) res"
    unfolding bind_rpc_Inr Let_def by (cases "map_of res pid") auto
  have "pid \<in> fst ` set res" using map_of_SomeD[OF m] by (auto intro: rev_image_eqI)
  then have "map fst res' = map fst res" by (simp add: res' update_keys)
  moreover have "0 \<le> (case map_of m wid of None \<Rightarrow> 0 | Some n \<Rightarrow> n)"
    using ok m by (cases "map_of m wid") (simp_all add: counts_ok_def)
  ultimately show ?thesis using ok m by (auto simp: counts_ok_def res' update_conv split: if_splits)
qed

lemma availability_counted:
  assumes "xml_get_availability srv pids warehouses s = Inr res"
  shows "counts_ok pids res"
proof -
  have fold: "fold_rpc count_quant qs x = Inr res \<Longrightarrow> counts_ok pids x \<Longrightarrow> counts_ok pids res" for qs x
    by (induction qs arbitrary: x) (auto simp: bind_rpc_Inr intro: quant_counted)
  have start: "counts_ok pids (map (\<lambda>p. (p, [])) (remdups pids))"
    by (auto simp: counts_ok_def comp_def map_of_map dest!: map_of_SomeD)
  from assms obtain qs where "fold_rpc count_quant qs (map (\<lambda>p. (p, [])) (remdups pids)) = Inr res"
    by (auto simp: xml_get_availability_def bind_rpc_Inr)
  then show ?thesis using fold start by blast
qed

end
