(* ===== verification/Outbox.thy ===== *)
theory Outbox
  imports Access Fake_Gateway
begin

text \<open>
  Two small parts beside the gateway. The outbox of \<^verbatim>\<open>app/odoo/outbox.py\<close> keeps calls to Odoo that are to be
  made later: they are queued, and a drain makes up to so many of them, oldest first, each at most five
  times. The table is the list of its rows in the order of insertion; the JSON text of the arguments stands
  for their values. What the gateway does when it is called, the
  reading of the arguments included, is a parameter. The other part is \<^verbatim>\<open>app/api/v1/endpoints/odoo.py\<close>, which shows the
  catalogue of an in-memory Odoo.
\<close>

section \<open>Outbox\<close>

datatype outbox_status = Outbox_Pending | Outbox_Processed | Outbox_Failed

record 'v outbox_row =
  obr_id :: uuid
  obr_method :: string
  obr_args :: "'v list"
  obr_kwargs :: "(string \<times> 'v) list"
  obr_status :: outbox_status
  obr_attempts :: nat
  obr_last_error :: "string option"
  obr_processed_at :: "instant option"
  obr_created_at :: instant

text \<open>A call returns, finds that Odoo lacks the method, or raises anything else.\<close>

datatype call_outcome = Call_Done | Call_Lacks string | Call_Raised string

record ('v, 's) callee =
  cal_has :: "string \<Rightarrow> bool"
  cal_run :: "string \<Rightarrow> 'v list \<Rightarrow> (string \<times> 'v) list \<Rightarrow> 's \<Rightarrow> call_outcome \<times> 's"

definition queue_mutation ::
    "uuid \<Rightarrow> instant \<Rightarrow> string \<Rightarrow> 'v list option \<Rightarrow> (string \<times> 'v) list option \<Rightarrow> 'v outbox_row list \<Rightarrow> 'v outbox_row list" where
  "queue_mutation i now m args kwargs rows = rows @ [\<lparr>obr_id = i, obr_method = m,
     obr_args = (case args of None \<Rightarrow> [] | Some xs \<Rightarrow> xs), obr_kwargs = (case kwargs of None \<Rightarrow> [] | Some xs \<Rightarrow> xs),
     obr_status = Outbox_Pending, obr_attempts = 0, obr_last_error = None, obr_processed_at = None, obr_created_at = now\<rparr>]"

definition due :: "'v outbox_row \<Rightarrow> bool" where
  "due r = (obr_status r \<noteq> Outbox_Processed \<and> obr_attempts r < 5)"

definition invoke :: "('v, 's) callee \<Rightarrow> 'v outbox_row \<Rightarrow> 's \<Rightarrow> call_outcome \<times> 's" where
  "invoke g r s = (if cal_has g (obr_method r) then cal_run g (obr_method r) (obr_args r) (obr_kwargs r) s
     else (Call_Raised (''Gateway has no method '' @ obr_method r), s))"

definition attempted :: "instant \<Rightarrow> call_outcome \<Rightarrow> 'v outbox_row \<Rightarrow> 'v outbox_row" where
  "attempted now c r = (let r = r\<lparr>obr_attempts := obr_attempts r + 1\<rparr> in case c of
     Call_Done \<Rightarrow> r\<lparr>obr_status := Outbox_Processed, obr_processed_at := Some now, obr_last_error := None\<rparr>
   | Call_Lacks m \<Rightarrow> r\<lparr>obr_status := Outbox_Failed, obr_last_error := Some (''Odoo capability missing: '' @ m)\<rparr>
   | Call_Raised e \<Rightarrow> r\<lparr>obr_status := (if 5 \<le> obr_attempts r then Outbox_Failed else Outbox_Pending), obr_last_error := Some e\<rparr>)"

fun attempt_all ::
    "('v, 's) callee \<Rightarrow> instant \<Rightarrow> 'v outbox_row list \<Rightarrow> 's \<Rightarrow> 'v outbox_row list \<times> nat \<times> 's" where
  "attempt_all g now [] s = ([], 0, s)"
| "attempt_all g now (r # rs) s = (let (c, s1) = invoke g r s; (rs', n, s2) = attempt_all g now rs s1 in
     (attempted now c r # rs', (if c = Call_Done then n + 1 else n), s2))"

definition written :: "'v outbox_row list \<Rightarrow> 'v outbox_row \<Rightarrow> 'v outbox_row" where
  "written rs r = (case map_of (map (\<lambda>r. (obr_id r, r)) rs) (obr_id r) of None \<Rightarrow> r | Some r' \<Rightarrow> r')"

definition drain_outbox ::
    "('v, 's) callee \<Rightarrow> nat \<Rightarrow> instant \<Rightarrow> 'v outbox_row list \<Rightarrow> 's \<Rightarrow> nat \<times> 'v outbox_row list \<times> 's" where
  "drain_outbox g max_records now rows s =
     (let (rs, n, s') = attempt_all g now (take max_records (sort_key obr_created_at (filter due rows))) s in
     (n, map (written rs) rows, s'))"

text \<open>Drains that follow one another; between them Odoo may change.\<close>

fun drains ::
    "('v, 's) callee \<Rightarrow> nat \<Rightarrow> (instant \<times> ('s \<Rightarrow> 's)) list \<Rightarrow> 'v outbox_row list \<Rightarrow> 's \<Rightarrow> 'v outbox_row list \<times> 's" where
  "drains g n [] rows s = (rows, s)"
| "drains g n ((now, f) # ts) rows s = (let (_, rows', s') = drain_outbox g n now rows s in drains g n ts rows' (f s'))"

section \<open>The outbox settles\<close>

text \<open>How a row changes: not at all, or, if it was due, by one attempt.\<close>

definition tried :: "'v outbox_row \<Rightarrow> 'v outbox_row \<Rightarrow> bool" where
  "tried r r' = (due r \<and> obr_id r' = obr_id r \<and> obr_attempts r' = obr_attempts r + 1 \<and> obr_created_at r' = obr_created_at r \<and>
     (obr_status r' \<noteq> Outbox_Processed \<longrightarrow> obr_last_error r' \<noteq> None))"

definition tries_left :: "'v outbox_row \<Rightarrow> nat" where
  "tries_left r = (if due r then 5 - obr_attempts r else 0)"

lemma attempted_tried: "due r \<Longrightarrow> tried r (attempted now c r)"
  by (cases c) (simp_all add: tried_def attempted_def Let_def)

lemma attempt_all_tried: "list_all due rs \<Longrightarrow> list_all2 tried rs (fst (attempt_all g now rs s))"
  by (induction rs arbitrary: s) (auto simp: Let_def attempted_tried split: prod.splits, metis fst_conv)

lemma tried_fewer: "tried r r' \<Longrightarrow> tries_left r' < tries_left r"
  by (auto simp: tried_def tries_left_def due_def)

lemma written_tried:
  assumes "list_all2 tried rs rs'" and "distinct (map obr_id rows)" and "set rs \<subseteq> set rows" and "r \<in> set rows"
  shows "r \<in> set rs \<and> tried r (written rs' r) \<or> r \<notin> set rs \<and> written rs' r = r"
proof -
  have ids: "map obr_id rs' = map obr_id rs" using assms(1) by (induction) (auto simp: tried_def)
  show ?thesis
  proof (cases "map_of (map (\<lambda>r. (obr_id r, r)) rs') (obr_id r)")
    case None
    then have "obr_id r \<notin> set (map obr_id rs)" by (simp add: ids[symmetric] map_of_eq_None_iff image_image)
    then show ?thesis using None by (auto simp: written_def)
  next
    case (Some r')
    have "(obr_id r, r') \<in> set (map (\<lambda>r. (obr_id r, r)) rs')" using Some by (rule map_of_SomeD)
    then have "r' \<in> set rs'" "obr_id r' = obr_id r" by auto
    then obtain q where q: "q \<in> set rs" "tried q r'" using assms(1) \<open>r' \<in> set rs'\<close>
      by (metis list_all2_conv_all_nth in_set_conv_nth)
    then have "obr_id q = obr_id r" "q \<in> set rows" using \<open>obr_id r' = obr_id r\<close> assms(3) by (auto simp: tried_def)
    then have "q = r" using assms(2,4) by (meson distinct_map inj_onD)
    then show ?thesis using q Some by (simp add: written_def)
  qed
qed

text \<open>What is drained is due, and something is drained while anything is due.\<close>

lemma drained_due:
  "list_all due (take n (sort_key obr_created_at (filter due rows)))"
  "set (take n (sort_key obr_created_at (filter due rows))) \<subseteq> set rows"
  by (auto simp: list_all_iff dest: in_set_takeD)

lemma drain_rows:
  assumes "drain_outbox g n now rows s = (k, rows', s')" and "distinct (map obr_id rows)"
  obtains w where "rows' = map w rows"
    and "\<And>r. r \<in> set rows \<Longrightarrow> r \<in> set (take n (sort_key obr_created_at (filter due rows))) \<and> tried r (w r) \<or>
      r \<notin> set (take n (sort_key obr_created_at (filter due rows))) \<and> w r = r"
proof -
  let ?rs = "take n (sort_key obr_created_at (filter due rows))"
  let ?w = "written (fst (attempt_all g now ?rs s))"
  obtain rs' m s1 where run: "attempt_all g now ?rs s = (rs', m, s1)" by (metis surj_pair)
  have "rows' = map ?w rows" using assms(1) unfolding drain_outbox_def run by simp
  moreover have "r \<in> set rows \<Longrightarrow> r \<in> set ?rs \<and> tried r (?w r) \<or> r \<notin> set ?rs \<and> ?w r = r" for r
    using written_tried[OF attempt_all_tried[OF drained_due(1)] assms(2) drained_due(2)] .
  ultimately show thesis using that by blast
qed

lemma sum_list_strict_at:
  fixes f g :: "'a \<Rightarrow> nat"
  assumes "\<And>x. x \<in> set xs \<Longrightarrow> f x \<le> g x" and "x \<in> set xs" and "f x < g x"
  shows "sum_list (map f xs) < sum_list (map g xs)"
  using assms
proof (induction xs)
  case (Cons y ys)
  have "sum_list (map f ys) \<le> sum_list (map g ys)" using Cons.prems(1) by (intro sum_list_mono) simp
  moreover have "x \<in> set ys \<Longrightarrow> sum_list (map f ys) < sum_list (map g ys)" using Cons by simp
  moreover have "f y \<le> g y" using Cons.prems(1) by simp
  ultimately show ?case using Cons.prems(2,3) by fastforce
qed simp

lemma drain_progress:
  assumes "drain_outbox g n now rows s = (k, rows', s')" and "distinct (map obr_id rows)" and "0 < n"
  shows "map obr_id rows' = map obr_id rows"
    and "sum_list (map tries_left rows') \<le> sum_list (map tries_left rows)"
    and "list_ex due rows \<Longrightarrow> sum_list (map tries_left rows') < sum_list (map tries_left rows)"
    and "list_all (\<lambda>r. obr_attempts r \<le> 5) rows \<Longrightarrow> list_all (\<lambda>r. obr_attempts r \<le> 5) rows'"
    and "\<And>r. r \<in> set rows \<Longrightarrow> \<not> due r \<Longrightarrow> r \<in> set rows'"
proof -
  let ?rs = "take n (sort_key obr_created_at (filter due rows))"
  obtain w where w: "rows' = map w rows" and
    t: "\<And>r. r \<in> set rows \<Longrightarrow> r \<in> set ?rs \<and> tried r (w r) \<or> r \<notin> set ?rs \<and> w r = r"
    using drain_rows[OF assms(1,2)] by metis
  show "map obr_id rows' = map obr_id rows" using t by (fastforce simp: w tried_def)
  have le: "tries_left (w r) \<le> tries_left r" if "r \<in> set rows" for r using t[OF that] tried_fewer[of r "w r"] by auto
  show "sum_list (map tries_left rows') \<le> sum_list (map tries_left rows)"
    unfolding w map_map comp_def by (rule sum_list_mono) (rule le)
  show "list_all (\<lambda>r. obr_attempts r \<le> 5) rows \<Longrightarrow> list_all (\<lambda>r. obr_attempts r \<le> 5) rows'"
    using t by (fastforce simp: w list_all_iff tried_def due_def)
  show "r \<in> set rows \<Longrightarrow> \<not> due r \<Longrightarrow> r \<in> set rows'" for r using t[of r] by (auto simp: w tried_def intro: rev_image_eqI)
  assume "list_ex due rows"
  then have "sort_key obr_created_at (filter due rows) \<noteq> []" by (metis (mono_tags, lifting) filter_empty_conv length_0_conv length_sort list_ex_iff)
  then have "?rs \<noteq> []" using assms(3) by simp
  then obtain r where r: "r \<in> set ?rs" using hd_in_set by blast
  then have "r \<in> set rows" using drained_due(2) by blast
  then have "tries_left (w r) < tries_left r" using t[of r] r tried_fewer by blast
  with sum_list_strict_at[of rows "\<lambda>r. tries_left (w r)" tries_left, OF le \<open>r \<in> set rows\<close>] show "sum_list (map tries_left rows') < sum_list (map tries_left rows)"
    unfolding w map_map comp_def by blast
qed

lemma tries_left_bound: "sum_list (map tries_left rows) \<le> 5 * length rows"
  by (induction rows) (auto simp: tries_left_def)

lemma nothing_due: "sum_list (map tries_left rows) = 0 \<Longrightarrow> \<not> list_ex due rows"
  by (induction rows) (auto simp: tries_left_def due_def)

lemma drains_settle:
  assumes "distinct (map obr_id rows)" and "0 < n" and "sum_list (map tries_left rows) \<le> length ts"
    and "list_all (\<lambda>r. obr_attempts r \<le> 5) rows"
  shows "list_all (\<lambda>r. obr_attempts r \<le> 5) (fst (drains g n ts rows s)) \<and> \<not> list_ex due (fst (drains g n ts rows s)) \<and>
    map obr_id (fst (drains g n ts rows s)) = map obr_id rows \<and> {r \<in> set rows. \<not> due r} \<subseteq> set (fst (drains g n ts rows s))"
  using assms
proof (induction ts arbitrary: rows s)
  case Nil
  then show ?case using nothing_due by simp
next
  case (Cons t ts)
  obtain now f k rows' s' where t: "t = (now, f)" and run: "drain_outbox g n now rows s = (k, rows', s')"
    by (metis prod_cases3 surj_pair)
  note p = drain_progress[OF run Cons.prems(1,2)]
  have "sum_list (map tries_left rows') \<le> length ts"
  proof (cases "list_ex due rows")
    case True
    then show ?thesis using p(3) Cons.prems(3) by simp
  next
    case False
    then have "\<forall>r\<in>set rows. tries_left r = 0" by (simp add: list_ex_iff tries_left_def)
    then have "map tries_left rows = map (\<lambda>_. 0) rows" by (intro map_cong) auto
    then have "sum_list (map tries_left rows) = 0" by (metis sum_list_0)
    then show ?thesis using p(2) by linarith
  qed
  then have "list_all (\<lambda>r. obr_attempts r \<le> 5) (fst (drains g n ts rows' (f s'))) \<and> \<not> list_ex due (fst (drains g n ts rows' (f s'))) \<and>
    map obr_id (fst (drains g n ts rows' (f s'))) = map obr_id rows' \<and>
    {r \<in> set rows'. \<not> due r} \<subseteq> set (fst (drains g n ts rows' (f s')))"
    using Cons.IH[of rows'] p(1,4) Cons.prems by simp
  moreover have "{r \<in> set rows. \<not> due r} \<subseteq> {r \<in> set rows'. \<not> due r}" using p(5) by blast
  ultimately show ?case using t run p(1) by (auto simp: Let_def)
qed

text \<open>
  C40: The outbox settles: whatever Odoo answers, after five drains per row nothing is due any more. Every
  row is then processed or has failed five times, no call was attempted a sixth time, no row is lost, and what
  was settled before is as it was.
\<close>

theorem outbox_settles:
  assumes "distinct (map obr_id rows)" and "0 < n" and "5 * length rows \<le> length ts"
    and "list_all (\<lambda>r. obr_attempts r \<le> 5) rows"
  shows "list_all (\<lambda>r. obr_status r = Outbox_Processed \<and> obr_attempts r \<le> 5 \<or> obr_attempts r = 5) (fst (drains g n ts rows s)) \<and>
    map obr_id (fst (drains g n ts rows s)) = map obr_id rows \<and> {r \<in> set rows. \<not> due r} \<subseteq> set (fst (drains g n ts rows s))"
proof -
  have "sum_list (map tries_left rows) \<le> length ts" using assms(3) tries_left_bound order_trans by blast
  from drains_settle[OF assms(1,2) this assms(4), of g s] show ?thesis by (fastforce simp: list_all_iff list_ex_iff due_def)
qed

text \<open>An Odoo that always fails: the call is made five times and given up.\<close>

definition failing :: "(unit, nat) callee" where
  "failing = \<lparr>cal_has = (\<lambda>_. True), cal_run = (\<lambda>m args kwargs s. (Call_Raised [], s + 1))\<rparr>"

definition one_call :: "unit outbox_row list" where
  "one_call = queue_mutation 1 10 ''confirm'' None None []"

theorem outbox_settles_witness:
  "obr_attempts (hd (fst (drains failing 50 (replicate 5 (20, id)) one_call 0))) = 5 \<and>
   list_all (\<lambda>r. obr_status r = Outbox_Processed \<and> obr_attempts r \<le> 5 \<or> obr_attempts r = 5)
     (fst (drains failing 50 (replicate 5 (20, id)) one_call 0))"
proof -
  have "distinct (map obr_id one_call)" "5 * length one_call \<le> length (replicate 5 (20 :: instant, id :: nat \<Rightarrow> nat))"
    "list_all (\<lambda>r. obr_attempts r \<le> 5) one_call" by (simp_all add: one_call_def queue_mutation_def)
  from outbox_settles[OF this(1) _ this(2,3), of 50 failing 0]
  have "list_all (\<lambda>r. obr_status r = Outbox_Processed \<and> obr_attempts r \<le> 5 \<or> obr_attempts r = 5)
     (fst (drains failing 50 (replicate 5 (20, id)) one_call 0))" by simp
  moreover have "obr_attempts (hd (fst (drains failing 50 (replicate 5 (20, id)) one_call 0))) = 5" by code_simp
  ultimately show ?thesis by blast
qed

section \<open>Catalogue\<close>

definition list_products :: "odoo_id option \<Rightarrow> string option \<Rightarrow> fake_state \<Rightarrow> raw_product list" where
  "list_products category search g =
     (let ps = map snd (fk_products g);
        ps = (if num_or category 0 = 0 then ps else filter (\<lambda>p. rpr_category_id p = num_or category 0) ps) in
      if str_or search [] = [] then ps else filter (\<lambda>p. mentions (rpr_name p) (map char_lower (str_or search []))) ps)"

text \<open>A product that does not exist is answered by its number.\<close>

definition show_product :: "odoo_id \<Rightarrow> fake_state \<Rightarrow> odoo_id + raw_product" where
  "show_product i g = (case map_of (fk_products g) i of None \<Rightarrow> Inl i | Some p \<Rightarrow> Inr p)"

end
