(* ===== verification/Spec2Isabelle.thy ===== *)
theory Spec2Isabelle
  imports Run_Fixture Webhooks Negotiations Portal_View Approval_Progress Report_Facts
    Addon_Subscription Addon_Api Addon_Portal Xmlrpc_Gateway Outbox
begin

text \<open>
  \<^bold>\<open>DealFlow360\<close>: a verification library of the governance of sales deals around Odoo. The repository has two
  programs. The sales application, \<^verbatim>\<open>src/app\<close>, is a FastAPI server with a database of its own: it evaluates the
  deals it reads from Odoo, routes them to approvers, negotiates with customers, plans deliveries, watches
  over the health of deals and reports on them. The addon, \<^verbatim>\<open>src/dealflow_odoo\<close>, runs inside Odoo: it guards the
  sale orders themselves and offers a facade, a REST interface and a portal. They meet at the gateway to
  Odoo (\<^verbatim>\<open>app/odoo/interface.py\<close>) and at the webhook (\<^verbatim>\<open>app/api/v1/endpoints/events.py\<close>).

  \<^bold>\<open>How the model is built.\<close> Every service is a function of its request and the world, which is the database (one
  record per table, in \<open>Entities\<close>), the gateway and the clock; it returns the result or the exception it raised,
  with the world as it then is. \<open>Journal\<close> and \<open>Effects\<close> give the steps, the session and their sequencing. Decimals
  and floats are rational numbers, with the rounding of each operation written out (\<open>Decimals\<close>). The
  definitions keep the names of the code where Isabelle allows it; the names of the record fields carry a
  prefix per record. Texts shown to people, logs and metadata are left out throughout.

  \<^bold>\<open>The sales application\<close>, by theory.
  \<^item> Ground: \<open>Prelude\<close>, \<open>Enums\<close> (\<^verbatim>\<open>models/enums.py\<close>), \<open>Errors\<close> (\<^verbatim>\<open>core/errors.py\<close>), \<open>Decimals\<close>, \<open>Entities\<close> (\<^verbatim>\<open>app/models\<close>).
  \<^item> Odoo: \<open>Gateway\<close>, with the locale \<open>odoo_gateway\<close> for what services rely on; \<open>Fake_Gateway\<close> proves its laws of
    \<^verbatim>\<open>odoo/fake.py\<close>; \<open>Xmlrpc_Gateway\<close> is the gateway to a live one (\<^verbatim>\<open>odoo/xmlrpc.py\<close>), \<open>Outbox\<close> the calls to be made later
    (\<^verbatim>\<open>odoo/outbox.py\<close>) and the catalogue's routes; \<open>Deal_Context\<close> (\<^verbatim>\<open>services/deal_context_builder.py\<close>).
  \<^item> Engines, pure functions of \<^verbatim>\<open>app/guardian\<close>: \<open>Policy\<close>, \<open>Risk\<close>, \<open>Material_Change\<close>, \<open>Health_Score\<close>,
    \<open>Next_Action\<close>, \<open>Recommend\<close>, \<open>Fulfillment_Planner\<close>.
  \<^item> Services: \<open>Approval\<close> (routing and decisions), \<open>Deal_Service\<close>, \<open>Health_Service\<close>, \<open>Evaluator\<close> (which composes the
    engines), \<open>Fulfillment_Service\<close>, \<open>Negotiation\<close>, \<open>Portal\<close>, \<open>Access\<close> (tokens, roles, magic links),
    \<open>Handlers\<close> (the routes), \<open>Admin\<close> (users, policies, jobs, the webhook), \<open>Reports\<close>.
  \<^item> Their properties: \<open>Decisions\<close>, \<open>Approval_Progress\<close>, \<open>Evaluation\<close>, \<open>Alerts\<close>, \<open>Plans\<close>, \<open>Negotiations\<close>, \<open>Portal_View\<close>,
    \<open>Sessions\<close>, \<open>Webhooks\<close>, \<open>Report_Facts\<close>: who may do what, what each operation leaves behind on every branch,
    what the customer can see, round trips of tokens, and that approvals end.
  \<^item> The server: \<open>Soundness\<close> and \<open>Services_Soundness\<close> prove of every request that it keeps the invariants of all
    components; \<open>System\<close> interleaves requests, time and Odoo's own activity in the runs that this theory is about.
  \<^item> \<open>Fixture\<close>, \<open>World_Fixture\<close>, \<open>Run_Fixture\<close>: small orders, worlds and runs, on which the witnesses are evaluated.

  \<^bold>\<open>The addon\<close>, by theory.
  \<^item> \<open>Addon_Base\<close>: constants, errors, groups of users. \<open>Addon_Order\<close>: sale orders and their overrides of \<^verbatim>\<open>write\<close> and
    \<^verbatim>\<open>action_confirm\<close> (\<^verbatim>\<open>models/sale_order.py\<close>, \<^verbatim>\<open>sale_order_line.py\<close>). \<open>Addon_Governance\<close>: who can make an order approved, and
    what an edit does to an approval. \<open>Addon_Negotiation\<close> (\<^verbatim>\<open>models/dealflow_negotiation.py\<close>).
  \<^item> Adapters and services, one theory per file of \<^verbatim>\<open>services\<close> and \<^verbatim>\<open>security\<close>: \<open>Addon_Sales\<close>, \<open>Addon_Inventory\<close>,
    \<open>Addon_Accounting\<close>, \<open>Addon_Subscription\<close>, \<open>Addon_Security\<close> (tokens, keys, safe URLs), \<open>Addon_Events\<close>
    (listeners and webhooks), \<open>Addon_Service\<close> (the facade with its audit log).
  \<^item> \<open>Addon_Api\<close> and \<open>Addon_Portal\<close>, the controllers: authentication, what confirms an order, what a customer sees.

  \<^bold>\<open>Parameters\<close> stand for what is not under \<^verbatim>\<open>src\<close>. The gateway that the services use is any gateway of the contract, and the server behind
  \<open>Xmlrpc_Gateway\<close> a record of functions;
  the library of tokens and the password hash are asked for a round trip (\<open>library_ok\<close> in \<open>Access\<close>); Odoo's own
  methods under the addon (\<open>orm\<close> in \<open>Addon_Order\<close>) are asked, in \<open>orm_ok\<close>, to write the fields they are given and not to refuse them
  (the overrides' own refusals are modelled); the
  HMAC is asked to print hexadecimal digits (\<open>hex_mac\<close>); the network, the listeners and the clock are arguments.
  Every such assumption is met by a concrete instance in a witness.

  \<^bold>\<open>Bounds.\<close> Where rounding matters, amounts are below ten to the 26th, so that 28 digits hold them with their cents, and
  an order has less than ten to the 20th lines; square roots are taken to 160 bits, which decides the comparison with
  a float of 53; whole quantities below two to the 53rd are exact as floats; Python reads integers of at
  most 4300 digits. Loops are structural recursions, or functions with a measure; none needs fuel.

  \<^bold>\<open>Not modelled\<close>, and why: the renderers of PDF and XLSX files (\<^verbatim>\<open>app/reports\<close>) produce documents; the seed, the
  migrations, the database session, logging, start-up and the scheduler of jobs are set-up; response schemas only
  name fields. In the addon's adapters the branches on an Odoo environment or an RPC client repeat, through
  Odoo's models, what the modelled branches do on a store, and depend on modules that are not here; \<^verbatim>\<open>account_move.py\<close> and
  \<^verbatim>\<open>stock_picking.py\<close> declare fields. Concurrency inside one request, database isolation between requests, and
  numbers that are no finite floats are outside the model: requests run one after the other.
\<close>

section \<open>Runs of the server\<close>

text \<open>
  C1: What every run keeps. From its start on an empty database, whatever requests are served, however
  time passes and whatever Odoo does in between, the pending requests of every deal are the ones its
  approval state awaits, no two deals share an order or a reference, no deal has two open alerts of a
  kind or two proposed plans, and between requests nothing is uncommitted.
\<close>

theorem run_invariant:
  assumes "started fake_ok w0" and "runs lib st fake_gateway fake_ok w0 w"
  shows "(\<forall>d\<in>set (db_deals (w_db w)).
      map ar_required_level (pending_requests (d_id d) (w_db w)) = awaited_levels (d_approval_state d)) \<and>
    distinct (map d_odoo_sale_order_id (db_deals (w_db w))) \<and> distinct (map d_reference (db_deals (w_db w))) \<and>
    (\<forall>i ty. length (opens i ty (w_db w)) \<le> 1) \<and> (\<forall>i. length (proposed i (w_db w)) \<le> 1) \<and>
    fake_ok (w_odoo w) \<and> w_saved w = w_db w"
proof -
  have s: "sound_world fake_ok (empty_database, UNIV) w"
    by (rule fake_writes.sound_runs[OF assms(2) started_sound[OF assms(1)]])
  have "w_saved w = w_db w"
    by (rule sessions_settled[OF assms(2)]) (use assms(1) in \<open>simp add: started_def\<close>)
  then show ?thesis
    using s by (auto simp: sound_world_def sound_def governance_ok_def deal_governed_def deals_ok_def alerts_ok_def
        plan_trace_def fulfillment_ok_def)
qed

theorem run_invariant_witness:
  "\<exists>w. runs plain_library default_access_settings fake_gateway fake_ok start_world w \<and> db_deals (w_db w) = [taken_deal] \<and>
     map ar_required_level (pending_requests 1 (w_db w)) = awaited_levels (d_approval_state taken_deal) \<and> w_saved w = w_db w"
proof -
  obtain w where w: "runs plain_library default_access_settings fake_gateway fake_ok start_world w" "db_deals (w_db w) = [taken_deal]"
    using rep_run by metis
  from run_invariant[OF rep_started w(1)] w show ?thesis by (intro exI[of _ w]) simp
qed

text \<open>
  C9: The table of plans refines the life cycle of a plan. Between any two points of a run every plan,
  named by its key, has taken steps of the abstract machine: it is proposed, superseded or accepted or
  overridden, then applied, and an applied or superseded plan never changes again.
\<close>

theorem runs_refine_plan_life_cycle:
  assumes "started fake_ok w0" and "runs lib st fake_gateway fake_ok w0 w" and "runs lib st fake_gateway fake_ok w w'"
  shows "plan_step\<^sup>*\<^sup>* (plan_status pid (w_db w)) (plan_status pid (w_db w'))"
  by (rule runs_refine[OF assms])

theorem runs_refine_plan_life_cycle_witness:
  "\<exists>w w' pid. runs plain_library default_access_settings fake_gateway fake_ok w w' \<and> plan_status pid (w_db w) = None \<and>
     plan_status pid (w_db w') = Some PROPOSED \<and> plan_step\<^sup>*\<^sup>* (plan_status pid (w_db w)) (plan_status pid (w_db w'))"
proof -
  obtain w w' pid where w: "runs plain_library default_access_settings fake_gateway fake_ok start_world w"
      "runs plain_library default_access_settings fake_gateway fake_ok w w'"
      "plan_status pid (w_db w) = None" "plan_status pid (w_db w') = Some PROPOSED"
    by (rule rep_run)
  from runs_refine_plan_life_cycle[OF rep_started w(1,2), of pid] w(2-4) show ?thesis by blast
qed

text \<open>
  C2: No deal is approved behind the approvers' backs. Whatever request the server answers, in a sound
  state and with nothing uncommitted: if a deal is approved afterwards that was not approved before, then
  the request was an approval sent by a signed-in, active user who does not own the deal and whose role
  may decide the pending request of that deal, and where the deal also needs finance that request is the
  one of finance.
\<close>

theorem approvals_need_a_decision:
  assumes "sound (w_db w)" and "fulfillment_ok (w_db w)" and "fake_ok (w_odoo w)" and "w_saved w = w_db w"
    and "serve lib st fake_gateway r w = (result, w')"
    and "find_deal i (w_db w') = Some e" and "d_approval_state e = ApprovalState.APPROVED"
    and "\<forall>d. find_deal i (w_db w) = Some d \<longrightarrow> d_approval_state d \<noteq> ApprovalState.APPROVED"
  shows "\<exists>auth body u q d. r = Staff auth body \<and> approves body \<and> get_current_active_user lib st auth w = Inr u \<and>
    q \<in> set (pending_requests i (w_db w)) \<and> find_deal i (w_db w) = Some d \<and>
    d_owner_odoo_user_id d \<noteq> u_odoo_user_id u \<and> role_may_decide (u_role u) (ar_required_level q) \<and>
    (d_required_level d = MANAGER_AND_FINANCE \<longrightarrow> ar_required_level q \<noteq> ''SALES_MANAGER'')"
proof -
  have s: "sound_world fake_ok (w_db w, UNIV) w" using assms(1-4) by (simp add: sound_world_def plan_trace_def)
  have "i \<notin> approved (w_db w)" using assms(1,8) by (simp add: approved_found sound_def)
  moreover have "i \<in> approved (w_db w')" using find_deal_in[OF assms(6)] assms(7) by (force simp: approved_def)
  ultimately show ?thesis using approvals_decided[OF assms(5) s assms(4)] unfolding may_approve_def by blast
qed

theorem approvals_need_a_decision_witness:
  "\<exists>q. q \<in> set (pending_requests 6 (w_db manager_world)) \<and> role_may_decide SALES_MANAGER (ar_required_level q)"
proof -
  obtain w' e where r: "serve plain_library default_access_settings fake_gateway manager_approves manager_world =
      (Inr (), w')" "find_deal 6 (w_db w') = Some e" "d_approval_state e = ApprovalState.APPROVED"
    by (rule manager_run)
  have "fulfillment_ok (w_db manager_world)" by (simp add: fulfillment_ok_def proposed_def manager_db)
  from approvals_need_a_decision[OF manager_sound this _ _ r] manager_known manager_found show ?thesis
    by (auto simp: manager_world_def small_state_ok manager_approves_def)
qed

end
